(* ===== verification/Prelude.thy ===== *)
theory Prelude
  imports Complex_Main "HOL-Library.Char_ord" "HOL-Library.List_Lexorder"
    "HOL-Library.Product_Lexorder"
begin

text \<open>
  Shared vocabulary of the development: results of fallible Rust code, loops over
  such code, saturating machine integers, time stamps and ordered maps
  (\<open>std::collections::BTreeMap\<close>). Nothing here is specific to one component.
\<close>

named_theorems result_simps \<open>equations that take apart results\<close>
named_theorems frame_simps \<open>fields an operation leaves alone\<close>

section \<open>Results\<close>

text \<open>
  \<open>color_eyre::Result<T>\<close> carries a report whose only observable part is its
  message. A Rust panic is kept apart from an ordinary error.
\<close>

datatype failure = Err string | Panic

type_synonym 'a res = "failure + 'a"

definition rbind :: "'e + 'a \<Rightarrow> ('a \<Rightarrow> 'e + 'b) \<Rightarrow> 'e + 'b" where
  "rbind m f = (case m of Inl e \<Rightarrow> Inl e | Inr x \<Rightarrow> f x)"

definition ensure :: "bool \<Rightarrow> string \<Rightarrow> unit res" where
  "ensure c msg = (if c then Inr () else Inl (Err msg))"

definition ok_or :: "'a option \<Rightarrow> string \<Rightarrow> 'a res" where
  "ok_or x msg = (case x of None \<Rightarrow> Inl (Err msg) | Some v \<Rightarrow> Inr v)"

text \<open>The same with an error value of the caller's own.\<close>

definition require :: "bool \<Rightarrow> 'e \<Rightarrow> 'e + unit" where
  "require c e = (if c then Inr () else Inl e)"

definition some_or :: "'a option \<Rightarrow> 'e \<Rightarrow> 'e + 'a" where
  "some_or x e = (case x of None \<Rightarrow> Inl e | Some v \<Rightarrow> Inr v)"

definition is_ok :: "'e + 'a \<Rightarrow> bool" where
  "is_ok r = (case r of Inl _ \<Rightarrow> False | Inr _ \<Rightarrow> True)"

text \<open>A \<open>for\<close> loop whose body may fail threads its state through the elements.\<close>

fun foldM :: "('x \<Rightarrow> 's \<Rightarrow> 's res) \<Rightarrow> 'x list \<Rightarrow> 's \<Rightarrow> 's res" where
  "foldM f [] s = Inr s"
| "foldM f (x # xs) s = rbind (f x s) (foldM f xs)"

lemma rbind_simps [simp]:
  "rbind (Inl e) f = Inl e"
  "rbind (Inr x) f = f x"
  by (simp_all add: rbind_def)

lemma rbind_eq_Inr [result_simps]:
  "rbind m f = Inr y \<longleftrightarrow> (\<exists>x. m = Inr x \<and> f x = Inr y)"
  by (cases m) auto

lemma rbind_eq_Inl [result_simps]:
  "rbind m f = Inl e \<longleftrightarrow> m = Inl e \<or> (\<exists>x. m = Inr x \<and> f x = Inl e)"
  by (cases m) auto

lemma ensure_eq_Inr [simp]: "ensure c msg = Inr u \<longleftrightarrow> c"
  by (simp add: ensure_def)

lemma ensure_eq_Inl [simp]: "ensure c msg = Inl e \<longleftrightarrow> \<not> c \<and> e = Err msg"
  by (auto simp: ensure_def)

lemma require_eq [result_simps]:
  "require c e = Inr u \<longleftrightarrow> c" "require c e = Inl x \<longleftrightarrow> \<not> c \<and> x = e"
  by (auto simp: require_def)

lemma require_simps [simp]: "require True e = Inr ()" "require False e = Inl e"
  by (simp_all add: require_def)

lemma some_or_eq [result_simps]:
  "some_or x e = Inr v \<longleftrightarrow> x = Some v" "some_or x e = Inl y \<longleftrightarrow> x = None \<and> y = e"
  by (auto simp: some_or_def split: option.splits)

lemma some_or_simps [simp]: "some_or (Some v) e = Inr v" "some_or None e = Inl e"
  by (simp_all add: some_or_def)

lemma ok_or_simps [simp]: "ok_or None msg = Inl (Err msg)" "ok_or (Some v) msg = Inr v"
  by (simp_all add: ok_or_def)

lemma ok_or_eq_Inr [simp]: "ok_or x msg = Inr v \<longleftrightarrow> x = Some v"
  by (auto simp: ok_or_def split: option.splits)

lemma ok_or_eq_Inl [simp]: "ok_or x msg = Inl e \<longleftrightarrow> x = None \<and> e = Err msg"
  by (auto simp: ok_or_def split: option.splits)

lemma is_ok_simps [simp]: "is_ok (Inr x)" "\<not> is_ok (Inl e)"
  by (simp_all add: is_ok_def)

lemma is_ok_iff: "is_ok r \<longleftrightarrow> (\<exists>x. r = Inr x)"
  by (cases r) auto

lemma foldM_append: "foldM f (xs @ ys) s = rbind (foldM f xs s) (foldM f ys)"
proof (induction xs arbitrary: s)
  case Nil
  then show ?case by simp
next
  case (Cons x xs)
  then show ?case by (cases "f x s") auto
qed

text \<open>The loop rule: an invariant every successful iteration keeps.\<close>

lemma foldM_invariant:
  assumes "foldM f xs s = Inr t" and "I s"
    and "\<And>x u v. x \<in> set xs \<Longrightarrow> I u \<Longrightarrow> f x u = Inr v \<Longrightarrow> I v"
  shows "I t"
  using assms
proof (induction xs arbitrary: s)
  case Nil
  then show ?case by simp
next
  case (Cons x xs)
  from Cons.prems(1) obtain u where u: "f x s = Inr u" and rest: "foldM f xs u = Inr t"
    by (auto simp: result_simps)
  have "I u" using Cons.prems(2,3) u by auto
  then show ?case using Cons.IH [OF rest] Cons.prems(3) by auto
qed

section \<open>Strings\<close>

text \<open>A \<open>str\<close> is its UTF-8 bytes. \<open>slice::join\<close>:\<close>

fun join :: "string \<Rightarrow> string list \<Rightarrow> string" where
  "join sep [] = []"
| "join sep [x] = x"
| "join sep (x # y # ys) = x @ sep @ join sep (y # ys)"

section \<open>Machine integers, time\<close>

text \<open>
  Unsigned counters are natural numbers below \<open>2 ^ w\<close>; the only arithmetic on them is
  \<open>saturating_add\<close>. Signed 64-bit values saturate at both ends.
\<close>

definition sat_add :: "nat \<Rightarrow> nat \<Rightarrow> nat \<Rightarrow> nat" where
  "sat_add w x y = min (x + y) (2 ^ w - 1)"

definition sat_i64 :: "int \<Rightarrow> int" where
  "sat_i64 x = max (- (2 ^ 63)) (min x (2 ^ 63 - 1))"

lemma sat_add_bound: "sat_add w x y < 2 ^ w"
  by (simp add: sat_add_def min_less_iff_disj)

lemma sat_add_ge: "x < 2 ^ w \<Longrightarrow> x \<le> sat_add w x y"
  by (simp add: sat_add_def)

text \<open>
  \<open>chrono::DateTime<Utc>\<close> is its number of nanoseconds since the epoch; a
  \<open>TimeDelta\<close> is a difference of two of them. Conversions to milliseconds and
  seconds truncate towards zero.
\<close>

type_synonym time = int

definition trunc_div :: "int \<Rightarrow> int \<Rightarrow> int" where
  "trunc_div a b = (if 0 \<le> a then a div b else - ((- a) div b))"

definition num_milliseconds :: "int \<Rightarrow> int" where
  "num_milliseconds d = trunc_div d 1000000"

definition num_seconds :: "int \<Rightarrow> int" where
  "num_seconds d = trunc_div d 1000000000"

definition seconds :: "int \<Rightarrow> int" where
  "seconds n = n * 1000000000"

lemma num_seconds_nonneg: "0 \<le> d \<Longrightarrow> 0 \<le> num_seconds d"
  by (simp add: num_seconds_def trunc_div_def)

lemma num_seconds_nonpos: "d \<le> 0 \<Longrightarrow> num_seconds d \<le> 0"
  by (cases "d = 0") (auto simp: num_seconds_def trunc_div_def pos_imp_zdiv_nonneg_iff)

lemma num_seconds_seconds [simp]: "num_seconds (seconds n) = n"
proof (cases "0 \<le> n")
  case True
  then show ?thesis by (simp add: num_seconds_def seconds_def trunc_div_def)
next
  case False
  then have "\<not> 0 \<le> n * 1000000000" by simp
  moreover have "- (n * 1000000000) = (- n) * 1000000000" by simp
  ultimately show ?thesis
    by (simp only: num_seconds_def seconds_def trunc_div_def if_False)
qed

text \<open>Integers in decimal.\<close>

definition digit_char :: "nat \<Rightarrow> char" where
  "digit_char d = ''0123456789'' ! d"

fun show_nat :: "nat \<Rightarrow> string" where
  "show_nat n = (if n < 10 then [digit_char n] else show_nat (n div 10) @ [digit_char (n mod 10)])"

declare show_nat.simps [simp del]

definition show_int :: "int \<Rightarrow> string" where
  "show_int i = (if i < 0 then CHR ''-'' # show_nat (nat (- i)) else show_nat (nat i))"

section \<open>Ordered maps\<close>

text \<open>
  A map interface with an invariant: what \<open>BTreeMap\<close> promises its clients about
  lookups. Clients reason inside the locale; the sorted association list below
  provides it.
\<close>

locale lookup_map =
  fixes lookup :: "'m \<Rightarrow> 'k \<Rightarrow> 'v option"
    and insert :: "'k \<Rightarrow> 'v \<Rightarrow> 'm \<Rightarrow> 'm"
    and remove :: "'k \<Rightarrow> 'm \<Rightarrow> 'm"
    and inv :: "'m \<Rightarrow> bool"
  assumes lookup_insert: "inv m \<Longrightarrow> lookup (insert k v m) = (lookup m)(k \<mapsto> v)"
    and lookup_remove: "inv m \<Longrightarrow> lookup (remove k m) = (lookup m)(k := None)"
    and inv_insert: "inv m \<Longrightarrow> inv (insert k v m)"
    and inv_remove: "inv m \<Longrightarrow> inv (remove k m)"
begin

lemma lookup_insert_other: "inv m \<Longrightarrow> k \<noteq> k' \<Longrightarrow> lookup (insert k v m) k' = lookup m k'"
  by (simp add: lookup_insert)

lemma insert_commute_lookup:
  "inv m \<Longrightarrow> k \<noteq> k' \<Longrightarrow>
   lookup (insert k v (insert k' v' m)) = lookup (insert k' v' (insert k v m))"
  by (simp add: lookup_insert inv_insert fun_upd_twist)

lemma lookup_remove_insert:
  "inv m \<Longrightarrow> lookup m k = None \<Longrightarrow> lookup (remove k (insert k v m)) = lookup m"
  by (auto simp: lookup_insert lookup_remove inv_insert)

end

text \<open>\<open>BTreeMap\<close>: entries in ascending key order, one per key.\<close>

type_synonym ('k, 'v) bt = "('k \<times> 'v) list"

fun bt_insert :: "'k::linorder \<Rightarrow> 'v \<Rightarrow> ('k, 'v) bt \<Rightarrow> ('k, 'v) bt" where
  "bt_insert k v [] = [(k, v)]"
| "bt_insert k v ((k', v') # m) =
     (if k < k' then (k, v) # (k', v') # m
      else if k = k' then (k, v) # m
      else (k', v') # bt_insert k v m)"

definition bt_get :: "('k, 'v) bt \<Rightarrow> 'k \<Rightarrow> 'v option" where
  "bt_get m k = map_of m k"

definition bt_remove :: "'k \<Rightarrow> ('k, 'v) bt \<Rightarrow> ('k, 'v) bt" where
  "bt_remove k m = filter (\<lambda>e. fst e \<noteq> k) m"

definition bt_retain :: "('k \<Rightarrow> 'v \<Rightarrow> bool) \<Rightarrow> ('k, 'v) bt \<Rightarrow> ('k, 'v) bt" where
  "bt_retain p m = filter (\<lambda>(k, v). p k v) m"

definition bt_inv :: "('k::linorder, 'v) bt \<Rightarrow> bool" where
  "bt_inv m \<longleftrightarrow> sorted_wrt (<) (map fst m)"

lemma bt_inv_Nil [simp]: "bt_inv []"
  by (simp add: bt_inv_def)

lemma set_bt_insert_keys: "fst ` set (bt_insert k v m) = Set.insert k (fst ` set m)"
  by (induction k v m rule: bt_insert.induct) auto

lemma map_of_bt_insert: "map_of (bt_insert k v m) = (map_of m)(k \<mapsto> v)"
  by (induction k v m rule: bt_insert.induct) auto

lemma map_of_bt_remove: "map_of (bt_remove k m) = (map_of m)(k := None)"
  by (induction m) (auto simp: bt_remove_def)

lemma bt_inv_insert: "bt_inv m \<Longrightarrow> bt_inv (bt_insert k v m)"
proof (induction k v m rule: bt_insert.induct)
  case (2 k v k' v' m)
  then show ?case
    using set_bt_insert_keys [of k v m] by (fastforce simp: bt_inv_def)
qed (simp add: bt_inv_def)

lemma bt_inv_filter: "bt_inv m \<Longrightarrow> bt_inv (filter p m)"
  by (induction m) (auto simp: bt_inv_def)

interpretation bt: lookup_map bt_get "bt_insert :: 'k::linorder \<Rightarrow> 'v \<Rightarrow> _" bt_remove bt_inv
proof
  fix m :: "('k, 'v) bt" and k v
  assume "bt_inv m"
  then show "bt_inv (bt_insert k v m)" "bt_inv (bt_remove k m)"
    by (auto simp: bt_inv_insert bt_remove_def bt_inv_filter)
  show "bt_get (bt_insert k v m) = (bt_get m)(k \<mapsto> v)"
    "bt_get (bt_remove k m) = (bt_get m)(k := None)"
    by (auto simp: bt_get_def map_of_bt_insert map_of_bt_remove fun_eq_iff)
qed

lemma bt_inv_distinct: "bt_inv m \<Longrightarrow> distinct (map fst m)"
  by (simp add: bt_inv_def strict_sorted_iff)

lemma bt_get_in_set: "bt_inv m \<Longrightarrow> bt_get m k = Some v \<longleftrightarrow> (k, v) \<in> set m"
  by (simp add: bt_get_def bt_inv_distinct)

lemma map_of_none_below: "\<forall>x\<in>set m. k < fst x \<Longrightarrow> map_of m (k::'k::linorder) = None"
  by (force simp: map_of_eq_None_iff)

lemma bt_get_key: "bt_get m k = Some v \<Longrightarrow> k \<in> fst ` set m"
  by (force simp: bt_get_def dest: map_of_SomeD)

lemma bt_get_retain:
  "bt_inv m \<Longrightarrow> bt_get (bt_retain p m) k
     = (case bt_get m k of None \<Rightarrow> None | Some v \<Rightarrow> if p k v then Some v else None)"
proof (induction m)
  case Nil
  then show ?case by (simp add: bt_get_def bt_retain_def)
next
  case (Cons e m)
  then have "map_of m (fst e) = None" by (auto intro!: map_of_none_below simp: bt_inv_def)
  with Cons show ?case
    by (auto simp: bt_get_def bt_retain_def bt_inv_def split: option.splits)
qed

lemma bt_inv_retain: "bt_inv m \<Longrightarrow> bt_inv (bt_retain p m)"
  by (simp add: bt_retain_def bt_inv_filter)

lemma bt_inv_remove: "bt_inv m \<Longrightarrow> bt_inv (bt_remove k m)"
  by (rule bt.inv_remove)

end
