(* ===== verification/Risk_Lib.thy ===== *)
theory Risk_Lib
  imports Prelude
begin

text \<open>
  Arithmetic and calendar of the crate \<open>adaptive-risk\<close> (\<open>adaptive-risk/src/lib.rs\<close>,
  \<open>adaptive-risk/src/calendar.rs\<close>). The crates \<open>rust_decimal\<close>, \<open>chrono\<close> and
  \<open>chrono-tz\<close> are not part of the repository: their operations are the fields of the
  record \<open>lib\<close>, an argument of every definition that calls them, and the documented
  facts the proofs use are the predicates \<open>decimal_laws\<close> and \<open>exact_at\<close>.
\<close>

section \<open>External operations\<close>

text \<open>
  A \<open>Decimal\<close> is compared by value, so a rational number stands for it. The checked
  operations return \<open>None\<close> on overflow (and \<open>checked_div\<close> on a zero divisor); their
  results may be rounded. A time zone is named by a string; \<open>tz_local\<close> gives the local
  date (as a day number) and the time of day in nanoseconds, \<open>tz_single\<close> is
  \<open>from_local_datetime(..).single()\<close>.
\<close>

type_synonym decimal = rat

record lib =
  checked_add :: "decimal \<Rightarrow> decimal \<Rightarrow> decimal option"
  checked_sub :: "decimal \<Rightarrow> decimal \<Rightarrow> decimal option"
  checked_mul :: "decimal \<Rightarrow> decimal \<Rightarrow> decimal option"
  checked_div :: "decimal \<Rightarrow> decimal \<Rightarrow> decimal option"
  tz_local :: "string \<Rightarrow> time \<Rightarrow> int \<times> int"
  tz_single :: "string \<Rightarrow> int \<times> int \<Rightarrow> time option"
  next_day :: "int \<Rightarrow> int option"
  prev_day :: "int \<Rightarrow> int option"

definition overflow :: string where
  "overflow = ''risk arithmetic overflow''"

definition dmul :: "lib \<Rightarrow> decimal \<Rightarrow> decimal \<Rightarrow> decimal res" where
  "dmul L a b = ok_or (checked_mul L a b) overflow"

definition dadd :: "lib \<Rightarrow> decimal \<Rightarrow> decimal \<Rightarrow> decimal res" where
  "dadd L a b = ok_or (checked_add L a b) overflow"

definition dsub :: "lib \<Rightarrow> decimal \<Rightarrow> decimal \<Rightarrow> decimal res" where
  "dsub L a b = ok_or (checked_sub L a b) overflow"

definition ddiv :: "lib \<Rightarrow> decimal \<Rightarrow> decimal \<Rightarrow> decimal res" where
  "ddiv L a b = ok_or (checked_div L a b) ''invalid risk divisor or overflow''"

definition pct :: "lib \<Rightarrow> decimal \<Rightarrow> decimal \<Rightarrow> decimal res" where
  "pct L reference percent = rbind (dmul L reference percent) (\<lambda>x. ddiv L x 100)"

text \<open>The operator \<open>/\<close> on decimals panics where \<open>checked_div\<close> returns \<open>None\<close>.\<close>

definition div_op :: "lib \<Rightarrow> decimal \<Rightarrow> decimal \<Rightarrow> decimal res" where
  "div_op L a b = (case checked_div L a b of None \<Rightarrow> Inl Panic | Some c \<Rightarrow> Inr c)"

lemmas arith_defs = dmul_def dadd_def dsub_def ddiv_def div_op_def

lemma div_op_eq_Inr [simp]: "div_op L a b = Inr c \<longleftrightarrow> checked_div L a b = Some c"
  by (simp add: div_op_def split: option.splits)

section \<open>What the proofs assume of the decimals\<close>

text \<open>
  Facts of checked fixed-precision arithmetic with monotone rounding: signs are
  respected, addition and scaling are monotone, adding nothing and scaling by one are
  exact. They constrain only the results that are returned.
\<close>

definition decimal_laws :: "lib \<Rightarrow> bool" where
  "decimal_laws L \<longleftrightarrow>
     (\<forall>a b c. checked_add L a b = Some c \<longrightarrow> 0 \<le> b \<longrightarrow> a \<le> c) \<and>
     (\<forall>a b c. checked_add L a b = Some c \<longrightarrow> 0 \<le> a \<longrightarrow> b \<le> c) \<and>
     (\<forall>a b c. checked_sub L a b = Some c \<longrightarrow> (0 \<le> c \<longleftrightarrow> b \<le> a) \<and> (0 \<le> b \<longrightarrow> c \<le> a)) \<and>
     (\<forall>a b c. checked_mul L a b = Some c \<longrightarrow> 0 \<le> a \<longrightarrow> 0 \<le> b \<longrightarrow> 0 \<le> c) \<and>
     (\<forall>a b c. checked_mul L a b = Some c \<longrightarrow> 0 \<le> a \<longrightarrow> b \<le> 1 \<longrightarrow> c \<le> a) \<and>
     (\<forall>a b c. checked_mul L a b = Some c \<longrightarrow> 0 \<le> a \<longrightarrow> 1 \<le> b \<longrightarrow> a \<le> c) \<and>
     (\<forall>a b c. checked_div L a b = Some c \<longrightarrow> 0 \<le> a \<longrightarrow> 0 < b \<longrightarrow> 0 \<le> c) \<and>
     (\<forall>a c. checked_div L a 1 = Some c \<longrightarrow> c = a) \<and>
     (\<forall>a b. checked_div L a b \<noteq> None \<longrightarrow> b \<noteq> 0)"

text \<open>
  Exact arithmetic: every operation returns the mathematical result. Properties about
  sums and percentages are stated for it; \<open>rust_decimal\<close> is exact while the scales of
  the operands add up to at most 28 digits.
\<close>

definition exact_laws :: "lib \<Rightarrow> bool" where
  "exact_laws L \<longleftrightarrow>
     (\<forall>a b c. checked_add L a b = Some c \<longrightarrow> c = a + b) \<and>
     (\<forall>a b c. checked_sub L a b = Some c \<longrightarrow> c = a - b) \<and>
     (\<forall>a b c. checked_mul L a b = Some c \<longrightarrow> c = a * b) \<and>
     (\<forall>a b c. checked_div L a b = Some c \<longrightarrow> b \<noteq> 0 \<and> c = a / b)"

lemma exact_add: "exact_laws L \<Longrightarrow> checked_add L a b = Some c \<Longrightarrow> c = a + b"
  and exact_sub: "exact_laws L \<Longrightarrow> checked_sub L a b = Some c \<Longrightarrow> c = a - b"
  and exact_mul: "exact_laws L \<Longrightarrow> checked_mul L a b = Some c \<Longrightarrow> c = a * b"
  and exact_div: "exact_laws L \<Longrightarrow> checked_div L a b = Some c \<Longrightarrow> c = a / b"
  and exact_div_nonzero: "exact_laws L \<Longrightarrow> checked_div L a b = Some c \<Longrightarrow> b \<noteq> 0"
  by (simp_all add: exact_laws_def)

lemmas exact_ops = exact_add exact_sub exact_mul exact_div

lemma exact_pct:
  assumes "exact_laws L" and "pct L r p = Inr c"
  shows "c = r * p / 100"
proof -
  from assms(2) obtain x where "checked_mul L r p = Some x" "checked_div L x 100 = Some c"
    by (auto simp: pct_def arith_defs result_simps)
  with exact_mul [OF assms(1)] exact_div [OF assms(1)] show ?thesis by simp
qed

lemma law_add1: "decimal_laws L \<Longrightarrow> checked_add L a b = Some c \<Longrightarrow> 0 \<le> b \<Longrightarrow> a \<le> c"
  and law_add2: "decimal_laws L \<Longrightarrow> checked_add L a b = Some c \<Longrightarrow> 0 \<le> a \<Longrightarrow> b \<le> c"
  and law_sub_sign: "decimal_laws L \<Longrightarrow> checked_sub L a b = Some c \<Longrightarrow> 0 \<le> c \<longleftrightarrow> b \<le> a"
  and law_sub_le: "decimal_laws L \<Longrightarrow> checked_sub L a b = Some c \<Longrightarrow> 0 \<le> b \<Longrightarrow> c \<le> a"
  and law_mul_nonneg:
    "decimal_laws L \<Longrightarrow> checked_mul L a b = Some c \<Longrightarrow> 0 \<le> a \<Longrightarrow> 0 \<le> b \<Longrightarrow> 0 \<le> c"
  and law_mul_le: "decimal_laws L \<Longrightarrow> checked_mul L a b = Some c \<Longrightarrow> 0 \<le> a \<Longrightarrow> b \<le> 1 \<Longrightarrow> c \<le> a"
  and law_mul_ge: "decimal_laws L \<Longrightarrow> checked_mul L a b = Some c \<Longrightarrow> 0 \<le> a \<Longrightarrow> 1 \<le> b \<Longrightarrow> a \<le> c"
  and law_div_nonneg:
    "decimal_laws L \<Longrightarrow> checked_div L a b = Some c \<Longrightarrow> 0 \<le> a \<Longrightarrow> 0 < b \<Longrightarrow> 0 \<le> c"
  and law_div_one: "decimal_laws L \<Longrightarrow> checked_div L a 1 = Some c \<Longrightarrow> c = a"
  by (simp_all add: decimal_laws_def)

lemma law_mul_one: "decimal_laws L \<Longrightarrow> checked_mul L a 1 = Some c \<Longrightarrow> 0 \<le> a \<Longrightarrow> c = a"
  by (rule antisym) (auto intro: law_mul_le law_mul_ge)

text \<open>
  A concrete instance for the witnesses: exact arithmetic that overflows beyond the
  96-bit mantissa, in a zone without offset or transitions.
\<close>

definition in_range :: "rat \<Rightarrow> rat option" where
  "in_range x = (if \<bar>x\<bar> \<le> 79228162514264337593543950335 then Some x else None)"

definition utc_lib :: lib where
  "utc_lib = \<lparr>checked_add = (\<lambda>a b. in_range (a + b)), checked_sub = (\<lambda>a b. in_range (a - b)),
     checked_mul = (\<lambda>a b. in_range (a * b)),
     checked_div = (\<lambda>a b. if b = 0 then None else in_range (a / b)),
     tz_local = (\<lambda>_ t. (t div 86400000000000, t mod 86400000000000)),
     tz_single = (\<lambda>_ (d, n). Some (d * 86400000000000 + n)),
     next_day = (\<lambda>d. Some (d + 1)), prev_day = (\<lambda>d. Some (d - 1))\<rparr>"

lemma in_range_Some [simp]: "in_range x = Some y \<longleftrightarrow> y = x \<and> \<bar>x\<bar> \<le> 79228162514264337593543950335"
  by (auto simp: in_range_def)

lemma utc_lib_exact: "exact_laws utc_lib"
  by (simp add: exact_laws_def utc_lib_def)

lemma utc_lib_laws: "decimal_laws utc_lib"
  by (auto simp: decimal_laws_def utc_lib_def mult_left_le zero_le_mult_iff
      mult_left_le_one_le mult_le_cancel_left1 zero_le_divide_iff)

section \<open>Trading days\<close>

record trading_calendar =
  cal_timezone :: string
  cal_reset_time :: int

record trading_day =
  day_start :: time
  day_end :: time

definition default_calendar :: trading_calendar where
  "default_calendar = \<lparr>cal_timezone = ''America/New_York'', cal_reset_time = 17 * 3600 * 1000000000\<rparr>"

definition boundary :: "lib \<Rightarrow> trading_calendar \<Rightarrow> int \<Rightarrow> time res" where
  "boundary L c date =
     ok_or (tz_single L (cal_timezone c) (date, cal_reset_time c))
       ''ambiguous or nonexistent daily reset''"

definition day_at :: "lib \<Rightarrow> trading_calendar \<Rightarrow> time \<Rightarrow> trading_day res" where
  "day_at L c now =
     (let local = tz_local L (cal_timezone c) now in
      rbind (ok_or (if snd local < cal_reset_time c then prev_day L (fst local)
                    else Some (fst local)) ''trading day overflow'') (\<lambda>date.
      rbind (ok_or (next_day L date) ''trading day overflow'') (\<lambda>nxt.
      rbind (boundary L c date) (\<lambda>s.
      rbind (boundary L c nxt) (\<lambda>e.
      rbind (ensure (s \<le> now \<and> now < e) ''invalid trading day'') (\<lambda>_.
      Inr \<lparr>day_start = s, day_end = e\<rparr>))))))"

definition calendar_validate :: "lib \<Rightarrow> trading_calendar \<Rightarrow> unit res" where
  "calendar_validate L c = rbind (day_at L c 0) (\<lambda>_. Inr ())"

lemma day_at_contains:
  "day_at L c now = Inr d \<Longrightarrow> day_start d \<le> now \<and> now < day_end d"
  by (auto simp: day_at_def Let_def result_simps)

text \<open>
  What a time zone promises about a local date: the instant of a boundary reads back as
  that boundary, so consecutive trading days share it.
\<close>

definition zone_laws :: "lib \<Rightarrow> string \<Rightarrow> bool" where
  "zone_laws L z \<longleftrightarrow>
     (\<forall>d n t. 0 \<le> n \<longrightarrow> n < 86400000000000 \<longrightarrow> tz_single L z (d, n) = Some t \<longrightarrow>
        tz_local L z t = (d, n))"

lemma utc_zone_laws: "zone_laws utc_lib z"
  by (auto simp: zone_laws_def utc_lib_def div_add1_eq)

lemma day_at_next:
  assumes "zone_laws L (cal_timezone c)"
    and "0 \<le> cal_reset_time c" "cal_reset_time c < 86400000000000"
    and "day_at L c now = Inr d" and "day_at L c (day_end d) = Inr d'"
  shows "day_start d' = day_end d"
proof -
  from assms(4) obtain nxt where "boundary L c nxt = Inr (day_end d)"
    by (auto simp: day_at_def Let_def result_simps)
  moreover from this have "tz_local L (cal_timezone c) (day_end d) = (nxt, cal_reset_time c)"
    using assms(1-3) by (auto simp: boundary_def zone_laws_def)
  ultimately show ?thesis
    using assms(5) by (auto simp: day_at_def Let_def result_simps)
qed

end
