(* ===== verification/Risk_Policy.thy ===== *)
theory Risk_Policy
  imports Risk_Lib
begin

text \<open>
  The risk policy of a protected account (\<open>adaptive-risk/src/policy.rs\<close>): its data, the
  defaults, the validation run before every use, and the two backoff schedules.
\<close>

section \<open>Data\<close>

datatype drawdown_reference = StaticInitialBalance | TrailingBalance | TrailingEquity

datatype daily_reference = DailyBalance | DailyEquity | HigherOfBalanceAndEquity

record streak_backoff =
  sb_enabled :: bool
  sb_reset_on_win :: bool
  sb_reset_on_break_even :: bool
  sb_levels :: "(nat \<times> decimal) list"

record drawdown_backoff =
  db_enabled :: bool
  db_levels :: "(decimal \<times> decimal) list"

record execution_policy =
  ex_slippage_buffer_pct_of_risk :: decimal
  ex_max_data_age_seconds :: int
  ex_overlap_multiplier :: decimal

record risk_policy =
  p_version :: string
  p_base_risk_pct :: decimal
  p_max_account_loss_pct :: decimal
  p_internal_account_stop_pct :: decimal
  p_daily_loss_limit_pct :: decimal
  p_internal_daily_stop_pct :: decimal
  p_safety_buffer_pct :: decimal
  p_drawdown_reference :: drawdown_reference
  p_daily_reference :: daily_reference
  p_trailing_allowance_tracks_reference :: bool
  p_calendar :: trading_calendar
  p_streak_backoff :: streak_backoff
  p_drawdown_backoff :: drawdown_backoff
  p_execution :: execution_policy

section \<open>Defaults\<close>

text \<open>\<open>Decimal::new(n, s)\<close> is \<open>n / 10 ^ s\<close>.\<close>

definition dec :: "int \<Rightarrow> nat \<Rightarrow> decimal" where
  "dec n s = of_int n / 10 ^ s"

definition default_streak_backoff :: streak_backoff where
  "default_streak_backoff = \<lparr>sb_enabled = True, sb_reset_on_win = True,
     sb_reset_on_break_even = False,
     sb_levels = [(0, 1), (1, dec 75 2), (2, dec 50 2), (3, dec 25 2), (4, dec 10 2)]\<rparr>"

definition default_drawdown_backoff :: drawdown_backoff where
  "default_drawdown_backoff = \<lparr>db_enabled = True,
     db_levels = [(0, 1), (dec 25 1, dec 50 2), (dec 35 1, dec 25 2), (dec 45 1, dec 10 2), (5, 0)]\<rparr>"

definition default_execution_policy :: execution_policy where
  "default_execution_policy = \<lparr>ex_slippage_buffer_pct_of_risk = 20,
     ex_max_data_age_seconds = 5, ex_overlap_multiplier = 1\<rparr>"

definition default_policy :: risk_policy where
  "default_policy = \<lparr>p_version = ''1'', p_base_risk_pct = 1, p_max_account_loss_pct = 6,
     p_internal_account_stop_pct = 5, p_daily_loss_limit_pct = 3, p_internal_daily_stop_pct = 2,
     p_safety_buffer_pct = dec 25 2, p_drawdown_reference = StaticInitialBalance,
     p_daily_reference = DailyBalance, p_trailing_allowance_tracks_reference = False,
     p_calendar = default_calendar, p_streak_backoff = default_streak_backoff,
     p_drawdown_backoff = default_drawdown_backoff, p_execution = default_execution_policy\<rparr>"

section \<open>Validation\<close>

text \<open>\<open>windows(2)\<close>: the adjacent pairs.\<close>

definition windows2 :: "'a list \<Rightarrow> ('a \<times> 'a) list" where
  "windows2 xs = zip xs (tl xs)"

definition stop_ok :: "lib \<Rightarrow> decimal \<Rightarrow> decimal \<times> decimal \<Rightarrow> bool" where
  "stop_ok L buffer pair =
     (fst pair > 0 \<and> snd pair \<le> 100 \<and>
      (case checked_add L (fst pair) buffer of None \<Rightarrow> False | Some w \<Rightarrow> w < snd pair))"

definition check_stops :: "lib \<Rightarrow> risk_policy \<Rightarrow> unit res" where
  "check_stops L p = foldM (\<lambda>pair _. ensure (stop_ok L (p_safety_buffer_pct p) pair)
       ''internal stop plus buffer must be below firm limit'')
     [(p_internal_daily_stop_pct p, p_daily_loss_limit_pct p),
      (p_internal_account_stop_pct p, p_max_account_loss_pct p)] ()"

definition tightening :: "('a::linorder \<times> decimal) list \<Rightarrow> bool" where
  "tightening ls = list_all (\<lambda>(v, w). fst v < fst w \<and> snd v \<ge> snd w) (windows2 ls)"

definition streak_start_ok :: "(nat \<times> decimal) list \<Rightarrow> bool" where
  "streak_start_ok s = (case s of [] \<Rightarrow> False | (n, m) # _ \<Rightarrow> n = 0 \<and> m \<le> 1)"

definition streak_levels_ok :: "(nat \<times> decimal) list \<Rightarrow> bool" where
  "streak_levels_ok s = (list_all (\<lambda>(n, m). m \<ge> 0 \<and> m \<le> 1) s \<and> tightening s)"

definition drawdown_start_ok :: "(decimal \<times> decimal) list \<Rightarrow> bool" where
  "drawdown_start_ok d = (case d of [] \<Rightarrow> False | (n, m) # _ \<Rightarrow> n = 0)"

definition drawdown_levels_ok :: "(decimal \<times> decimal) list \<Rightarrow> bool" where
  "drawdown_levels_ok d =
     (list_all (\<lambda>(n, m). n \<ge> 0 \<and> n \<le> 100 \<and> m \<ge> 0 \<and> m \<le> 100) d \<and> tightening d)"

definition policy_validate :: "lib \<Rightarrow> risk_policy \<Rightarrow> unit res" where
  "policy_validate L p =
     (let e = p_execution p; s = sb_levels (p_streak_backoff p);
          d = db_levels (p_drawdown_backoff p) in
      rbind (ensure (p_version p \<noteq> []) ''policy version required'') (\<lambda>_.
      rbind (ensure (ex_max_data_age_seconds e > 0) ''data age must be positive'') (\<lambda>_.
      rbind (ensure (ex_slippage_buffer_pct_of_risk e \<ge> 0 \<and> ex_slippage_buffer_pct_of_risk e \<le> 1000)
               ''invalid slippage buffer'') (\<lambda>_.
      rbind (ensure (ex_overlap_multiplier e \<ge> 1 \<and> ex_overlap_multiplier e \<le> 100)
               ''overlap multiplier must be 1..100'') (\<lambda>_.
      rbind (ensure (p_base_risk_pct p > 0 \<and> p_base_risk_pct p \<le> 100) ''invalid base risk'') (\<lambda>_.
      rbind (ensure (p_safety_buffer_pct p \<ge> 0) ''negative safety buffer'') (\<lambda>_.
      rbind (check_stops L p) (\<lambda>_.
      rbind (ensure (streak_start_ok s) ''streak schedule must start at zero'') (\<lambda>_.
      rbind (ensure (streak_levels_ok s) ''streak schedule must tighten'') (\<lambda>_.
      rbind (ensure (drawdown_start_ok d) ''drawdown schedule must start at zero'') (\<lambda>_.
      rbind (ensure (drawdown_levels_ok d) ''drawdown schedule must tighten'') (\<lambda>_.
      calendar_validate L (p_calendar p)))))))))))))"

section \<open>Schedules\<close>

text \<open>The last level whose threshold is reached, or zero.\<close>

definition level_at :: "('a::linorder \<times> decimal) list \<Rightarrow> 'a \<Rightarrow> decimal" where
  "level_at ls x = (case find (\<lambda>(n, _). x \<ge> n) (rev ls) of None \<Rightarrow> 0 | Some (_, m) \<Rightarrow> m)"

definition streak_multiplier :: "risk_policy \<Rightarrow> nat \<Rightarrow> decimal" where
  "streak_multiplier p losses =
     (if \<not> sb_enabled (p_streak_backoff p) then 1
      else level_at (sb_levels (p_streak_backoff p)) losses)"

definition drawdown_risk_pct :: "risk_policy \<Rightarrow> decimal \<Rightarrow> decimal" where
  "drawdown_risk_pct p drawdown =
     (if \<not> db_enabled (p_drawdown_backoff p) then p_base_risk_pct p
      else level_at (db_levels (p_drawdown_backoff p)) drawdown)"

section \<open>What validation guarantees\<close>

lemma foldM_checks: "foldM (\<lambda>x _. ensure (c x) msg) xs () = Inr u \<longleftrightarrow> (\<forall>x\<in>set xs. c x)"
  by (induction xs) (auto simp: result_simps)

lemma check_stops_ok:
  "check_stops L p = Inr u \<longleftrightarrow>
     stop_ok L (p_safety_buffer_pct p) (p_internal_daily_stop_pct p, p_daily_loss_limit_pct p) \<and>
     stop_ok L (p_safety_buffer_pct p) (p_internal_account_stop_pct p, p_max_account_loss_pct p)"
  by (simp add: check_stops_def foldM_checks del: foldM.simps)

text \<open>The facts a validated policy hands to its users.\<close>

lemma policy_validateD:
  assumes "policy_validate L p = Inr u"
  shows "0 < ex_max_data_age_seconds (p_execution p)"
    and "0 \<le> ex_slippage_buffer_pct_of_risk (p_execution p)"
    and "1 \<le> ex_overlap_multiplier (p_execution p)"
    and "0 < p_base_risk_pct p" and "p_base_risk_pct p \<le> 100"
    and "0 \<le> p_safety_buffer_pct p"
    and "stop_ok L (p_safety_buffer_pct p) (p_internal_daily_stop_pct p, p_daily_loss_limit_pct p)"
    and "stop_ok L (p_safety_buffer_pct p) (p_internal_account_stop_pct p, p_max_account_loss_pct p)"
    and "streak_start_ok (sb_levels (p_streak_backoff p))"
    and "streak_levels_ok (sb_levels (p_streak_backoff p))"
    and "drawdown_start_ok (db_levels (p_drawdown_backoff p))"
    and "drawdown_levels_ok (db_levels (p_drawdown_backoff p))"
    and "\<exists>d. day_at L (p_calendar p) 0 = Inr d"
  using assms by (auto simp: policy_validate_def Let_def result_simps check_stops_ok calendar_validate_def)

lemma tightening_Cons:
  "tightening (v # w # ls) \<longleftrightarrow> fst v < fst w \<and> snd w \<le> snd v \<and> tightening (w # ls)"
  by (auto simp: tightening_def windows2_def split: prod.splits)

lemma tightening_sorted:
  assumes "tightening ls"
  shows "sorted_wrt (\<lambda>v w. fst v < fst w \<and> snd w \<le> snd v) ls"
  using assms
proof (induction ls rule: induct_list012)
  case (3 v w ls)
  then have "sorted_wrt (\<lambda>v w. fst v < fst w \<and> snd w \<le> snd v) (w # ls)"
    by (simp add: tightening_Cons)
  with "3.prems" show ?case by (force simp: tightening_Cons)
qed auto

lemma find_append:
  "find p (xs @ ys) = (case find p xs of None \<Rightarrow> find p ys | Some x \<Rightarrow> Some x)"
  by (induction xs) auto

lemma find_rev_Cons:
  "find p (rev (x # xs)) =
     (case find p (rev xs) of None \<Rightarrow> if p x then Some x else None | Some y \<Rightarrow> Some y)"
  by (simp add: find_append split: option.split)

lemma find_rev_mem: "find p (rev ls) = Some y \<Longrightarrow> y \<in> set ls \<and> p y"
  by (induction ls) (auto simp: find_rev_Cons simp del: rev.simps(2) split: option.splits if_splits)

lemma find_rev_None: "find p (rev ls) = None \<longleftrightarrow> (\<forall>x\<in>set ls. \<not> p x)"
  by (auto simp: find_None_iff)

lemma find_rev_exists:
  assumes "z \<in> set ls" and "p z"
  obtains y where "find p (rev ls) = Some y"
  using assms find_rev_None [of p ls] by (cases "find p (rev ls)") auto

lemma find_rev_last:
  assumes "find p (rev ls) = Some y" and "sorted_wrt r ls" and "x \<in> set ls" and "p x"
  shows "x = y \<or> r x y"
  using assms
proof (induction ls)
  case (Cons a ls)
  show ?case
  proof (cases "find p (rev ls)")
    case None
    with Cons.prems show ?thesis
      by (auto simp: find_rev_Cons find_rev_None simp del: rev.simps(2) split: if_splits)
  next
    case (Some b)
    with Cons.prems(1) have "b = y" by (simp add: find_rev_Cons del: rev.simps(2))
    with Cons Some show ?thesis using find_rev_mem [OF Some] by auto
  qed
qed simp

lemma level_at_mem: "level_at ls x = 0 \<or> (\<exists>n. (n, level_at ls x) \<in> set ls)"
  by (auto simp: level_at_def split: option.splits prod.splits dest!: find_rev_mem)

text \<open>The schedule never rises: more losses or more drawdown never allow more risk.\<close>

lemma level_at_antimono:
  assumes t: "tightening ls" and start: "ls \<noteq> []" "fst (hd ls) \<le> x" and le: "x \<le> y"
  shows "level_at ls y \<le> level_at ls x"
proof -
  let ?p = "\<lambda>x. \<lambda>(n, _). n \<le> x"
  have "hd ls \<in> set ls" "?p x (hd ls)" using start by (simp_all add: case_prod_beta)
  then obtain e where e: "find (?p x) (rev ls) = Some e" by (rule find_rev_exists)
  then have emem: "e \<in> set ls" and ey: "?p y e"
    using find_rev_mem [OF e] le by (auto simp: case_prod_beta)
  then obtain f where f: "find (?p y) (rev ls) = Some f" by (rule find_rev_exists)
  have "e = f \<or> fst e < fst f \<and> snd f \<le> snd e"
    by (rule find_rev_last [OF f tightening_sorted [OF t] emem ey])
  then show ?thesis by (auto simp: level_at_def e f case_prod_beta)
qed

end
