(* ===== verification/Risk_Exposure.thy ===== *)
theory Risk_Exposure
  imports Risk_Policy
begin

text \<open>
  What a position or an order can lose (\<open>adaptive-risk/src/exposure.rs\<close>): the loss
  estimate of one volume unit, the loss of a volume, the largest volume step that fits
  a budget, and the risk of a broker exposure.
\<close>

datatype side = Buy | Sell

record loss_estimate =
  le_side :: side
  le_price :: decimal
  le_stop :: "decimal option"
  le_contract_size :: decimal
  le_conversion :: decimal
  le_costs_per_unit :: decimal
  le_fixed_costs :: decimal
  le_is_open_position :: bool

definition estimate_ok :: "loss_estimate \<Rightarrow> decimal \<Rightarrow> bool" where
  "estimate_ok e stop \<longleftrightarrow>
     le_price e > 0 \<and> stop > 0 \<and> le_contract_size e > 0 \<and> le_conversion e > 0 \<and>
     le_costs_per_unit e \<ge> 0 \<and> le_fixed_costs e \<ge> 0"

definition stop_distance :: "lib \<Rightarrow> loss_estimate \<Rightarrow> decimal \<Rightarrow> decimal res" where
  "stop_distance L e stop =
     (case le_side e of Buy \<Rightarrow> dsub L (le_price e) stop | Sell \<Rightarrow> dsub L stop (le_price e))"

text \<open>
  The gap allowance uses the operator \<open>/\<close>, which would panic where \<open>checked_div\<close> has no
  result; dividing by 10000 always has one.
\<close>

definition unit_loss :: "lib \<Rightarrow> loss_estimate \<Rightarrow> decimal \<Rightarrow> decimal res" where
  "unit_loss L e slippage_pct =
     rbind (ok_or (le_stop e) ''protective stop missing'') (\<lambda>stop.
     rbind (ensure (estimate_ok e stop) ''invalid loss estimate'') (\<lambda>_.
     rbind (stop_distance L e stop) (\<lambda>distance.
     rbind (ensure (distance > 0) ''protective stop crossed or on wrong side of entry/mark'') (\<lambda>_.
     rbind (rbind (dmul L (max distance 0) (le_contract_size e)) (\<lambda>x. dmul L x (le_conversion e)))
       (\<lambda>price_risk.
     rbind (rbind (rbind (dmul L (le_price e) (le_contract_size e)) (\<lambda>x. dmul L x (le_conversion e)))
         (\<lambda>v. div_op L v 10000)) (\<lambda>gap.
     rbind (dadd L price_risk (le_costs_per_unit e)) (\<lambda>base.
     rbind (pct L (max price_risk gap) slippage_pct) (\<lambda>slip.
     dadd L base slip))))))))"

definition loss :: "lib \<Rightarrow> loss_estimate \<Rightarrow> decimal \<Rightarrow> decimal \<Rightarrow> decimal res" where
  "loss L e volume slippage_pct =
     rbind (ensure (volume \<ge> 0) ''negative volume'') (\<lambda>_.
     rbind (unit_loss L e slippage_pct) (\<lambda>u.
     rbind (dmul L u volume) (\<lambda>x.
     dadd L x (le_fixed_costs e))))"

record volume_limits =
  vl_min :: decimal
  vl_max :: decimal
  vl_step :: decimal

definition size_volume ::
  "lib \<Rightarrow> volume_limits \<Rightarrow> decimal \<Rightarrow> loss_estimate \<Rightarrow> decimal \<Rightarrow> decimal \<Rightarrow> decimal res" where
  "size_volume L v budget e slip requested =
     rbind (ensure (vl_min v > 0 \<and> vl_max v \<ge> vl_min v \<and> vl_step v > 0 \<and> requested > 0)
       ''invalid volume limits'') (\<lambda>_.
     rbind (dsub L budget (le_fixed_costs e)) (\<lambda>rest.
     rbind (unit_loss L e slip) (\<lambda>u.
     rbind (ddiv L (max rest 0) u) (\<lambda>q.
     let raw = min (min q (vl_max v)) requested in
     rbind (ddiv L raw (vl_step v)) (\<lambda>steps.
     rbind (dmul L (of_int \<lfloor>steps\<rfloor>) (vl_step v)) (\<lambda>volume.
     rbind (ensure (volume \<ge> vl_min v) ''volume below broker minimum'') (\<lambda>_.
     rbind (loss L e volume slip) (\<lambda>l.
     rbind (ensure (l \<le> budget) ''rounded risk exceeds budget'') (\<lambda>_.
     Inr volume)))))))))"

record exposure =
  e_broker_id :: string
  e_request_id :: "string option"
  e_volume :: decimal
  e_estimate :: loss_estimate
  e_overlapping :: bool

definition exposure_risk :: "lib \<Rightarrow> exposure \<Rightarrow> decimal \<Rightarrow> decimal \<Rightarrow> decimal res" where
  "exposure_risk L e slip overlap =
     rbind (ensure (e_volume e > 0 \<and> e_broker_id e \<noteq> []) ''invalid exposure identity/volume'') (\<lambda>_.
     rbind (loss L (e_estimate e) (e_volume e) slip) (\<lambda>l.
     dmul L l (if e_overlapping e then overlap else 1)))"

section \<open>Losses\<close>

lemma unit_lossD:
  assumes "unit_loss L e slip = Inr u"
  obtains stop distance where "le_stop e = Some stop" "estimate_ok e stop"
    "stop_distance L e stop = Inr distance" "0 < distance"
  using assms by (auto simp: unit_loss_def result_simps)

lemma estimate_ok_of_loss: "unit_loss L e slip = Inr u \<Longrightarrow> \<exists>stop. le_stop e = Some stop \<and> estimate_ok e stop"
  by (auto elim: unit_lossD)

lemma pct_nonneg:
  "decimal_laws L \<Longrightarrow> pct L r p = Inr c \<Longrightarrow> 0 \<le> r \<Longrightarrow> 0 \<le> p \<Longrightarrow> 0 \<le> c"
  by (auto simp: pct_def arith_defs result_simps)
    (metis law_mul_nonneg law_div_nonneg zero_less_numeral)

lemma law_add_nonneg:
  "decimal_laws L \<Longrightarrow> checked_add L a b = Some c \<Longrightarrow> 0 \<le> a \<Longrightarrow> 0 \<le> b \<Longrightarrow> 0 \<le> c"
  using law_add1 by force

lemma unit_loss_nonneg:
  assumes L: "decimal_laws L" and u: "unit_loss L e slip = Inr u" and slip: "0 \<le> slip"
  shows "0 \<le> u"
proof -
  from u obtain stop d x price_risk gap base s where ok: "estimate_ok e stop" and d: "0 < d"
    and x: "checked_mul L (max d 0) (le_contract_size e) = Some x"
    and pr: "checked_mul L x (le_conversion e) = Some price_risk"
    and base: "checked_add L price_risk (le_costs_per_unit e) = Some base"
    and s: "pct L (max price_risk gap) slip = Inr s"
    and fin: "checked_add L base s = Some u"
    by (auto simp: unit_loss_def result_simps arith_defs div_op_def)
  have "0 \<le> x" using law_mul_nonneg [OF L x] ok d by (simp add: estimate_ok_def)
  then have p: "0 \<le> price_risk" using law_mul_nonneg [OF L pr] ok by (simp add: estimate_ok_def)
  then have "0 \<le> base" using law_add_nonneg [OF L base] ok by (simp add: estimate_ok_def)
  moreover have "0 \<le> s" using pct_nonneg [OF L s] p slip by simp
  ultimately show ?thesis using law_add_nonneg [OF L fin] by simp
qed

lemma loss_nonneg:
  assumes "decimal_laws L" and "loss L e v slip = Inr l" and "0 \<le> slip"
  shows "0 \<le> l"
proof -
  from assms(2) obtain u x where "unit_loss L e slip = Inr u" "checked_mul L u v = Some x"
    "checked_add L x (le_fixed_costs e) = Some l" "0 \<le> v"
    by (auto simp: loss_def result_simps arith_defs)
  moreover from this have "0 \<le> u" using unit_loss_nonneg assms(1,3) by blast
  moreover have "0 \<le> le_fixed_costs e"
    using estimate_ok_of_loss [OF calculation(1)] by (auto simp: estimate_ok_def)
  ultimately show ?thesis
    using law_mul_nonneg law_add_nonneg assms(1) by blast
qed

lemma exposure_risk_nonneg:
  assumes "decimal_laws L" and "exposure_risk L e slip overlap = Inr r" and "0 \<le> slip" "0 \<le> overlap"
  shows "0 \<le> r"
  using assms loss_nonneg [OF assms(1)]
  by (auto simp: exposure_risk_def result_simps arith_defs intro: law_mul_nonneg split: if_splits)

section \<open>Sizing\<close>

text \<open>Whatever the arithmetic does, a returned volume is tradable and within budget.\<close>

lemma size_volume_sound:
  "size_volume L v budget e slip requested = Inr vol \<Longrightarrow>
     vl_min v \<le> vol \<and> 0 < vol \<and> (\<exists>l. loss L e vol slip = Inr l \<and> l \<le> budget)"
  by (auto simp: size_volume_def Let_def result_simps)

lemma floor_steps_le: "0 < (s::rat) \<Longrightarrow> of_int \<lfloor>r / s\<rfloor> * s \<le> r"
  by (metis floor_divide_lower mult.commute)

lemma size_volume_bounds:
  assumes L: "exact_laws L" and vol: "size_volume L v budget e slip requested = Inr vol"
  shows "vol \<le> vl_max v \<and> vol \<le> requested \<and> (\<exists>k. vol = of_int k * vl_step v)"
proof -
  from vol obtain q steps where q: "0 < vl_step v"
    "checked_div L (min (min q (vl_max v)) requested) (vl_step v) = Some steps"
    "checked_mul L (of_int \<lfloor>steps\<rfloor>) (vl_step v) = Some vol"
    by (auto simp: size_volume_def Let_def result_simps arith_defs)
  let ?raw = "min (min q (vl_max v)) requested"
  have "vol = of_int \<lfloor>?raw / vl_step v\<rfloor> * vl_step v"
    using exact_div [OF L q(2)] exact_mul [OF L q(3)] by simp
  moreover have "\<dots> \<le> ?raw" by (rule floor_steps_le [OF q(1)])
  ultimately show ?thesis by auto
qed

end
