(* ===== verification/Risk_Account.thy ===== *)
theory Risk_Account
  imports Risk_Exposure
begin

text \<open>
  The persistent risk state of an account, the broker snapshot it is compared with, and
  the monetary floors (\<open>adaptive-risk/src/account.rs\<close>).
\<close>

section \<open>Data\<close>

record day_reference =
  dr_day :: trading_day
  dr_balance :: decimal
  dr_equity :: decimal

text \<open>\<open>sequence\<close> is the monotone cursor of the broker adapter, an unsigned 64-bit number.\<close>

record account_snapshot =
  a_account_id :: string
  a_observed_at :: time
  a_quote_at :: time
  a_balance :: decimal
  a_equity :: decimal
  a_connected :: bool
  a_complete :: bool
  a_sequence :: nat
  a_day_reference :: day_reference
  a_balance_high :: decimal
  a_equity_high :: decimal
  a_exposures :: "exposure list"
  a_resolved_requests :: "string set"
  a_setups_reconciled :: bool

record reservation =
  r_request_id :: string
  r_setup_id :: string
  r_risk :: decimal
  r_volume :: decimal
  r_created_at :: time
  r_submitted :: bool

record execution =
  x_event_id :: string
  x_setup_id :: string
  x_position_id :: string
  x_occurred_at :: time
  x_volume_delta :: decimal
  x_net_pnl :: decimal

record setup_outcome =
  o_setup_id :: string
  o_closed_at :: time
  o_net_pnl :: decimal

record risk_metrics =
  m_blocked_trades :: nat
  m_circuit_breaker_activations :: nat
  m_reduced_risk_seconds :: int
  m_reduced_since :: "time option"

record risk_state =
  s_schema :: nat
  s_account_id :: string
  s_policy :: risk_policy
  s_initial_balance :: decimal
  s_balance_high :: decimal
  s_equity_high :: decimal
  s_day :: day_reference
  s_daily_locked :: bool
  s_account_locked :: bool
  s_consecutive_losses :: nat
  s_reservations :: "(string, reservation) bt"
  s_attempted_requests :: "string set"
  s_executions :: "(string, execution) bt"
  s_outcomes :: "(string, setup_outcome) bt"
  s_last_sequence :: "nat option"
  s_last_reconciled_at :: "time option"
  s_needs_reconciliation :: bool
  s_invalidated_after :: "time option"
  s_metrics :: risk_metrics

section \<open>Enrollment\<close>

definition default_metrics :: risk_metrics where
  "default_metrics = \<lparr>m_blocked_trades = 0, m_circuit_breaker_activations = 0,
     m_reduced_risk_seconds = 0, m_reduced_since = None\<rparr>"

definition enrollment_ok :: "string \<Rightarrow> decimal \<Rightarrow> day_reference \<Rightarrow> bool" where
  "enrollment_ok account_id initial_balance day \<longleftrightarrow>
     account_id \<noteq> [] \<and> initial_balance > 0 \<and> dr_balance day > 0 \<and> dr_equity day > 0 \<and>
     day_start (dr_day day) < day_end (dr_day day)"

definition enroll ::
  "lib \<Rightarrow> string \<Rightarrow> decimal \<Rightarrow> day_reference \<Rightarrow> risk_policy \<Rightarrow> risk_state res" where
  "enroll L account_id initial_balance day policy =
     rbind (policy_validate L policy) (\<lambda>_.
     rbind (ensure (enrollment_ok account_id initial_balance day) ''invalid enrollment'') (\<lambda>_.
     Inr \<lparr>s_schema = 1, s_account_id = account_id, s_policy = policy,
       s_initial_balance = initial_balance,
       s_balance_high = max initial_balance (dr_balance day),
       s_equity_high = max initial_balance (dr_equity day),
       s_day = day, s_daily_locked = False, s_account_locked = False, s_consecutive_losses = 0,
       s_reservations = [], s_attempted_requests = {}, s_executions = [], s_outcomes = [],
       s_last_sequence = None, s_last_reconciled_at = None, s_needs_reconciliation = True,
       s_invalidated_after = None, s_metrics = default_metrics\<rparr>))"

section \<open>Floors\<close>

record thresholds =
  t_risk_reference :: decimal
  t_drawdown_reference :: decimal
  t_internal_account_floor :: decimal
  t_firm_account_floor :: decimal
  t_daily_reference :: decimal
  t_internal_daily_floor :: decimal
  t_firm_daily_floor :: decimal

text \<open>\<open>LossRule\<close> is a trait: the code that uses it takes any implementation.\<close>

type_synonym loss_rule = "risk_policy \<Rightarrow> risk_state \<Rightarrow> account_snapshot \<Rightarrow> thresholds res"

definition drawdown_ref :: "risk_policy \<Rightarrow> risk_state \<Rightarrow> account_snapshot \<Rightarrow> decimal" where
  "drawdown_ref p s a =
     (case p_drawdown_reference p of
        StaticInitialBalance \<Rightarrow> s_initial_balance s
      | TrailingBalance \<Rightarrow> max (max (s_balance_high s) (a_balance_high a)) (a_balance a)
      | TrailingEquity \<Rightarrow> max (max (s_equity_high s) (a_equity_high a)) (a_equity a))"

definition daily_ref :: "risk_policy \<Rightarrow> risk_state \<Rightarrow> decimal" where
  "daily_ref p s =
     (case p_daily_reference p of
        DailyBalance \<Rightarrow> dr_balance (s_day s)
      | DailyEquity \<Rightarrow> dr_equity (s_day s)
      | HigherOfBalanceAndEquity \<Rightarrow> max (dr_balance (s_day s)) (dr_equity (s_day s)))"

definition standard_loss_rule :: "lib \<Rightarrow> loss_rule" where
  "standard_loss_rule L p s a =
     (let reference = drawdown_ref p s a;
          allowance = (if p_trailing_allowance_tracks_reference p then reference
                       else s_initial_balance s);
          daily = daily_ref p s;
          below = (\<lambda>base whole percent. rbind (pct L whole percent) (dsub L base));
          above = (\<lambda>base whole percent. rbind (pct L whole percent) (dadd L base)) in
      rbind (below reference allowance (p_max_account_loss_pct p)) (\<lambda>firm_account.
      rbind (below daily daily (p_daily_loss_limit_pct p)) (\<lambda>firm_daily.
      rbind (below reference allowance (p_internal_account_stop_pct p)) (\<lambda>ia.
      rbind (above firm_account allowance (p_safety_buffer_pct p)) (\<lambda>fa.
      rbind (below daily daily (p_internal_daily_stop_pct p)) (\<lambda>id.
      rbind (above firm_daily daily (p_safety_buffer_pct p)) (\<lambda>fd.
      Inr \<lparr>t_risk_reference = s_initial_balance s, t_drawdown_reference = reference,
        t_internal_account_floor = max ia fa, t_firm_account_floor = firm_account,
        t_daily_reference = daily, t_internal_daily_floor = max id fd,
        t_firm_daily_floor = firm_daily\<rparr>)))))))"

section \<open>The floors are ordered\<close>

text \<open>
  The promise of a loss rule to its clients: wherever it answers, the internal floors lie
  strictly above the firm's. \<open>calculate\<close> rechecks this for custom rules.
\<close>

locale loss_rule_floors =
  fixes rule :: loss_rule and admissible :: "risk_policy \<Rightarrow> risk_state \<Rightarrow> account_snapshot \<Rightarrow> bool"
  assumes internal_account: "admissible p s a \<Longrightarrow> rule p s a = Inr f \<Longrightarrow>
      t_firm_account_floor f < t_internal_account_floor f"
    and internal_daily: "admissible p s a \<Longrightarrow> rule p s a = Inr f \<Longrightarrow>
      t_firm_daily_floor f < t_internal_daily_floor f"
begin

text \<open>An equity above both internal floors is above both firm floors.\<close>

lemma above_firm:
  assumes "admissible p s a" and "rule p s a = Inr f"
    and "t_internal_account_floor f \<le> e" and "t_internal_daily_floor f \<le> e"
  shows "t_firm_account_floor f < e \<and> t_firm_daily_floor f < e"
  using assms internal_account internal_daily by fastforce

end

definition floors_admissible :: "lib \<Rightarrow> risk_policy \<Rightarrow> risk_state \<Rightarrow> account_snapshot \<Rightarrow> bool" where
  "floors_admissible L p s a \<longleftrightarrow>
     exact_laws L \<and> is_ok (policy_validate L p) \<and> 0 < s_initial_balance s \<and>
     0 < drawdown_ref p s a \<and> 0 < daily_ref p s"

lemma stop_okD:
  "exact_laws L \<Longrightarrow> stop_ok L b (i, f) \<Longrightarrow> 0 < i \<and> i + b < f \<and> f \<le> 100"
  by (auto simp: stop_ok_def split: option.splits dest: exact_add)

lemma standard_rule_values:
  assumes L: "exact_laws L" and r: "standard_loss_rule L p s a = Inr f"
  defines "w \<equiv> (if p_trailing_allowance_tracks_reference p then drawdown_ref p s a
                 else s_initial_balance s)"
  shows "t_risk_reference f = s_initial_balance s"
    and "t_drawdown_reference f = drawdown_ref p s a"
    and "t_daily_reference f = daily_ref p s"
    and "t_firm_account_floor f = drawdown_ref p s a - w * p_max_account_loss_pct p / 100"
    and "t_firm_daily_floor f = daily_ref p s - daily_ref p s * p_daily_loss_limit_pct p / 100"
    and "t_internal_account_floor f =
           max (drawdown_ref p s a - w * p_internal_account_stop_pct p / 100)
               (t_firm_account_floor f + w * p_safety_buffer_pct p / 100)"
    and "t_internal_daily_floor f =
           max (daily_ref p s - daily_ref p s * p_internal_daily_stop_pct p / 100)
               (t_firm_daily_floor f + daily_ref p s * p_safety_buffer_pct p / 100)"
  using r unfolding w_def
  by (auto simp: standard_loss_rule_def Let_def result_simps dsub_def dadd_def
      dest!: exact_pct [OF L] exact_sub [OF L] exact_add [OF L])

interpretation standard: loss_rule_floors "standard_loss_rule L" "floors_admissible L"
proof
  fix p s a f
  assume adm: "floors_admissible L p s a" and r: "standard_loss_rule L p s a = Inr f"
  then have L: "exact_laws L" and v: "is_ok (policy_validate L p)"
    and pos: "0 < s_initial_balance s" "0 < drawdown_ref p s a" "0 < daily_ref p s"
    by (auto simp: floors_admissible_def)
  obtain u where u: "policy_validate L p = Inr u" using v by (auto simp: is_ok_iff)
  note daily = stop_okD [OF L policy_validateD(7) [OF u]]
    and account = stop_okD [OF L policy_validateD(8) [OF u]]
    and buffer = policy_validateD(6) [OF u]
  define w where
    "w = (if p_trailing_allowance_tracks_reference p then drawdown_ref p s a else s_initial_balance s)"
  have "0 < w" using pos by (simp add: w_def)
  then have "w * p_internal_account_stop_pct p < w * p_max_account_loss_pct p"
    using account buffer by simp
  then show "t_firm_account_floor f < t_internal_account_floor f"
    using standard_rule_values [OF L r] by (simp add: w_def less_max_iff_disj)
  have "daily_ref p s * p_internal_daily_stop_pct p < daily_ref p s * p_daily_loss_limit_pct p"
    using daily buffer pos by simp
  then show "t_firm_daily_floor f < t_internal_daily_floor f"
    using standard_rule_values [OF L r] by (simp add: less_max_iff_disj)
qed

end
