(* ===== verification/Risk_Ledger.thy ===== *)
theory Risk_Ledger
  imports Risk_Account
begin

text \<open>
  Executions, setup outcomes and the losing streak (\<open>adaptive-risk/src/ledger.rs\<close>).
  A method \<open>&mut self -> Result<()>\<close> is a function returning its result and the state
  it leaves behind.
\<close>

definition opt_list :: "'a option \<Rightarrow> 'a list" where
  "opt_list x = (case x of None \<Rightarrow> [] | Some v \<Rightarrow> [v])"

definition record_execution :: "risk_state \<Rightarrow> execution \<Rightarrow> unit res \<times> risk_state" where
  "record_execution s ev =
     (if x_event_id ev = [] \<or> x_setup_id ev = [] \<or> x_position_id ev = []
      then (Inl (Err ''execution identity missing''), s)
      else case bt_get (s_executions s) (x_event_id ev) of
        Some previous \<Rightarrow>
          (if previous = ev then (Inr (), s) else (Inl (Err ''conflicting duplicate execution''), s))
      | None \<Rightarrow>
          (if bt_get (s_outcomes s) (x_setup_id ev) \<noteq> None
           then (Inl (Err ''late execution for completed setup; rebuild reconciliation''), s)
           else (Inr (), s\<lparr>s_executions := bt_insert (x_event_id ev) ev (s_executions s)\<rparr>)))"

definition invalidate_from :: "risk_state \<Rightarrow> time \<Rightarrow> risk_state" where
  "invalidate_from s t = s\<lparr>s_needs_reconciliation := True,
     s_invalidated_after :=
       Some (foldr max (opt_list (s_invalidated_after s) @ opt_list (s_last_reconciled_at s)) t)\<rparr>"

definition on_execution :: "risk_state \<Rightarrow> execution \<Rightarrow> unit res \<times> risk_state" where
  "on_execution s ev =
     (let unseen = (bt_get (s_executions s) (x_event_id ev) = None);
          (result, s1) = record_execution s ev;
          s2 = (if unseen then invalidate_from s1 (x_occurred_at ev) else s1)
      in (result, if is_ok result then s2 else s2\<lparr>s_needs_reconciliation := True\<rparr>))"

text \<open>One event of the closing loop: position volumes, net result, opened positions.\<close>

type_synonym setup_sums = "(string, decimal) bt \<times> decimal \<times> string set"

definition close_event :: "lib \<Rightarrow> execution \<Rightarrow> setup_sums \<Rightarrow> setup_sums res" where
  "close_event L e acc =
     (case acc of (volumes, net, opened) \<Rightarrow>
        (let opened' = (if x_volume_delta e > 0 then Set.insert (x_position_id e) opened else opened);
             previous = (case bt_get volumes (x_position_id e) of None \<Rightarrow> 0 | Some v \<Rightarrow> v) in
         rbind (dadd L previous (x_volume_delta e)) (\<lambda>v.
         rbind (dadd L net (x_net_pnl e)) (\<lambda>net'.
         Inr (bt_insert (x_position_id e) v volumes, net', opened')))))"

definition setup_events :: "risk_state \<Rightarrow> string \<Rightarrow> execution list" where
  "setup_events s setup_id = filter (\<lambda>e. x_setup_id e = setup_id) (map snd (s_executions s))"

definition setup_outcome_of ::
  "lib \<Rightarrow> risk_state \<Rightarrow> string \<Rightarrow> time \<Rightarrow> bool \<Rightarrow> setup_outcome res" where
  "setup_outcome_of L s setup_id closed_at terminal =
     rbind (ensure terminal ''setup still has live members'') (\<lambda>_.
     let events = setup_events s setup_id in
     rbind (ensure (events \<noteq> [] \<and> list_all (\<lambda>e. x_occurred_at e \<le> closed_at) events)
       ''incomplete setup history'') (\<lambda>_.
     rbind (foldM (close_event L) events ([], 0, {})) (\<lambda>(volumes, net, opened).
     rbind (ensure (list_all (\<lambda>(k, v). v = 0) volumes \<and> list_all (\<lambda>(k, v). k \<in> opened) volumes)
       ''setup positions not fully closed'') (\<lambda>_.
     Inr \<lparr>o_setup_id = setup_id, o_closed_at = closed_at, o_net_pnl = net\<rparr>))))"

definition streak_step :: "streak_backoff \<Rightarrow> setup_outcome \<Rightarrow> nat \<Rightarrow> nat" where
  "streak_step b out losses =
     (if o_net_pnl out < 0 then sat_add 32 losses 1
      else if (o_net_pnl out > 0 \<and> sb_reset_on_win b) \<or> (o_net_pnl out = 0 \<and> sb_reset_on_break_even b)
      then 0 else losses)"

definition streak_of :: "streak_backoff \<Rightarrow> (string, setup_outcome) bt \<Rightarrow> nat" where
  "streak_of b outcomes =
     fold (streak_step b)
       (sort_key (\<lambda>out. (o_closed_at out, o_setup_id out)) (map snd outcomes)) 0"

definition rebuild_streak :: "risk_state \<Rightarrow> risk_state" where
  "rebuild_streak s = s\<lparr>s_consecutive_losses := streak_of (p_streak_backoff (s_policy s)) (s_outcomes s)\<rparr>"

definition close_setup ::
  "lib \<Rightarrow> risk_state \<Rightarrow> string \<Rightarrow> time \<Rightarrow> bool \<Rightarrow> unit res \<times> risk_state" where
  "close_setup L s setup_id closed_at terminal =
     (case setup_outcome_of L s setup_id closed_at terminal of
        Inl e \<Rightarrow> (Inl e, s)
      | Inr out \<Rightarrow>
          (case bt_get (s_outcomes s) setup_id of
             Some previous \<Rightarrow>
               (if previous = out then (Inr (), s) else (Inl (Err ''conflicting setup outcome''), s))
           | None \<Rightarrow>
               (Inr (), rebuild_streak (s\<lparr>s_outcomes := bt_insert setup_id out (s_outcomes s)\<rparr>))))"

definition on_setup_closed ::
  "lib \<Rightarrow> risk_state \<Rightarrow> string \<Rightarrow> time \<Rightarrow> bool \<Rightarrow> unit res \<times> risk_state" where
  "on_setup_closed L s setup_id closed_at terminal =
     (let (result, s1) = close_setup L s setup_id closed_at terminal
      in (result, if is_ok result then s1 else s1\<lparr>s_needs_reconciliation := True\<rparr>))"

section \<open>Executions\<close>

lemmas ledger_defs = on_execution_def record_execution_def invalidate_from_def Let_def

lemma foldr_max_ge: "t \<le> foldr max ts (t::time)" "x \<in> set ts \<Longrightarrow> x \<le> foldr max ts t"
  by (induction ts) (auto simp: le_max_iff_disj)

lemma on_execution_frame [frame_simps]:
  "s_policy (snd (on_execution s ev)) = s_policy s"
  "s_account_id (snd (on_execution s ev)) = s_account_id s"
  "s_account_locked (snd (on_execution s ev)) = s_account_locked s"
  "s_daily_locked (snd (on_execution s ev)) = s_daily_locked s"
  "s_reservations (snd (on_execution s ev)) = s_reservations s"
  "s_attempted_requests (snd (on_execution s ev)) = s_attempted_requests s"
  "s_outcomes (snd (on_execution s ev)) = s_outcomes s"
  "s_consecutive_losses (snd (on_execution s ev)) = s_consecutive_losses s"
  "s_initial_balance (snd (on_execution s ev)) = s_initial_balance s"
  by (auto simp: ledger_defs split: option.splits)

lemma on_execution_unseen:
  assumes "bt_get (s_executions s) (x_event_id ev) = None"
  shows "s_needs_reconciliation (snd (on_execution s ev))"
    and "\<exists>t. s_invalidated_after (snd (on_execution s ev)) = Some t \<and> x_occurred_at ev \<le> t \<and>
           (\<forall>r. s_last_reconciled_at s = Some r \<longrightarrow> r \<le> t) \<and>
           (\<forall>r. s_invalidated_after s = Some r \<longrightarrow> r \<le> t)"
  using assms foldr_max_ge
  by (auto simp: ledger_defs opt_list_def foldr_max_ge split: option.splits)

lemma on_execution_duplicate:
  assumes "bt_get (s_executions s) (x_event_id ev) = Some ev"
    and "x_event_id ev \<noteq> []" "x_setup_id ev \<noteq> []" "x_position_id ev \<noteq> []"
  shows "on_execution s ev = (Inr (), s)"
  using assms by (simp add: ledger_defs)

lemma on_execution_keeps:
  assumes "bt_inv (s_executions s)" and "bt_get (s_executions s) k = Some e"
  shows "bt_get (s_executions (snd (on_execution s ev))) k = Some e"
proof (cases "x_event_id ev = k")
  case True
  with assms(2) show ?thesis by (auto simp: ledger_defs)
next
  case False
  with assms bt.lookup_insert_other [of "s_executions s" "x_event_id ev" k] show ?thesis
    by (auto simp: ledger_defs split: option.splits)
qed

lemma on_execution_inv:
  "bt_inv (s_executions s) \<Longrightarrow> bt_inv (s_executions (snd (on_execution s ev)))"
  by (auto simp: ledger_defs bt_inv_insert split: option.splits)

lemma on_execution_error:
  "fst (on_execution s ev) = Inl e \<Longrightarrow>
     s_needs_reconciliation (snd (on_execution s ev)) \<and>
     s_executions (snd (on_execution s ev)) = s_executions s"
  by (auto simp: ledger_defs split: option.splits if_splits)

section \<open>Closing a setup\<close>

lemma on_setup_closed_frame [frame_simps]:
  "s_policy (snd (on_setup_closed L s i t b)) = s_policy s"
  "s_account_id (snd (on_setup_closed L s i t b)) = s_account_id s"
  "s_account_locked (snd (on_setup_closed L s i t b)) = s_account_locked s"
  "s_daily_locked (snd (on_setup_closed L s i t b)) = s_daily_locked s"
  "s_reservations (snd (on_setup_closed L s i t b)) = s_reservations s"
  "s_attempted_requests (snd (on_setup_closed L s i t b)) = s_attempted_requests s"
  "s_executions (snd (on_setup_closed L s i t b)) = s_executions s"
  "s_initial_balance (snd (on_setup_closed L s i t b)) = s_initial_balance s"
  "s_invalidated_after (snd (on_setup_closed L s i t b)) = s_invalidated_after s"
  by (auto simp: on_setup_closed_def close_setup_def rebuild_streak_def split: sum.splits option.splits)

text \<open>The closing loop computes the sums of the events, position by position.\<close>

definition position_sum :: "execution list \<Rightarrow> string \<Rightarrow> decimal" where
  "position_sum es p = sum_list (map x_volume_delta (filter (\<lambda>e. x_position_id e = p) es))"

lemma close_event_Inr:
  "close_event L e (vs, n, op) = Inr acc \<longleftrightarrow>
     (\<exists>v m op1. checked_add L (case bt_get vs (x_position_id e) of None \<Rightarrow> 0 | Some v \<Rightarrow> v)
         (x_volume_delta e) = Some v \<and> checked_add L n (x_net_pnl e) = Some m \<and>
       acc = (bt_insert (x_position_id e) v vs, m, op1) \<and>
       op1 = (if x_volume_delta e > 0 then Set.insert (x_position_id e) op else op))"
  by (auto simp: close_event_def Let_def result_simps dadd_def)

lemma close_loop:
  assumes L: "exact_laws L"
    and "foldM (close_event L) es (vs, n, op) = Inr (vs', n', op')" and "bt_inv vs"
  shows "bt_inv vs' \<and> n' = n + sum_list (map x_net_pnl es) \<and>
     (\<forall>p. (case bt_get vs' p of None \<Rightarrow> 0 | Some v \<Rightarrow> v)
           = (case bt_get vs p of None \<Rightarrow> 0 | Some v \<Rightarrow> v) + position_sum es p) \<and>
     (\<forall>e\<in>set es. bt_get vs' (x_position_id e) \<noteq> None) \<and>
     (\<forall>p. bt_get vs p \<noteq> None \<longrightarrow> bt_get vs' p \<noteq> None)"
  using assms(2,3)
proof (induction es arbitrary: vs n op)
  case Nil
  then show ?case by (auto simp: position_sum_def)
next
  case (Cons e es)
  let ?prev = "case bt_get vs (x_position_id e) of None \<Rightarrow> 0 | Some v \<Rightarrow> v"
  from Cons.prems(1) obtain v m op1 where v: "checked_add L ?prev (x_volume_delta e) = Some v"
    and m: "checked_add L n (x_net_pnl e) = Some m"
    and rest: "foldM (close_event L) es (bt_insert (x_position_id e) v vs, m, op1) = Inr (vs', n', op')"
    by (simp add: result_simps) (auto simp: close_event_Inr)
  have inv: "bt_inv (bt_insert (x_position_id e) v vs)" by (rule bt_inv_insert [OF Cons.prems(2)])
  have look: "bt_get (bt_insert (x_position_id e) v vs) = (bt_get vs)(x_position_id e \<mapsto> v)"
    by (rule bt.lookup_insert [OF Cons.prems(2)])
  show ?case
    using Cons.IH [OF rest inv] exact_add [OF L v] exact_add [OF L m] look
    by (auto simp: position_sum_def split: option.splits)
qed

lemma setup_outcome_flat:
  assumes L: "exact_laws L" and out: "setup_outcome_of L s i t b = Inr out"
  shows "b \<and> setup_events s i \<noteq> [] \<and> o_setup_id out = i \<and> o_closed_at out = t \<and>
     o_net_pnl out = sum_list (map x_net_pnl (setup_events s i)) \<and>
     (\<forall>e\<in>set (setup_events s i). x_occurred_at e \<le> t \<and>
        position_sum (setup_events s i) (x_position_id e) = 0)"
proof -
  from out obtain vs n op where b: "b" "setup_events s i \<noteq> []"
    and ts: "\<forall>e\<in>set (setup_events s i). x_occurred_at e \<le> t"
    and loop: "foldM (close_event L) (setup_events s i) ([], 0, {}) = Inr (vs, n, op)"
    and flat: "list_all (\<lambda>(k, v). v = 0) vs"
    and o: "out = \<lparr>o_setup_id = i, o_closed_at = t, o_net_pnl = n\<rparr>"
    by (auto simp: setup_outcome_of_def Let_def result_simps list_all_iff)
  from close_loop [OF L loop] have inv: "bt_inv vs"
    and tot: "\<And>p. (case bt_get vs p of None \<Rightarrow> 0 | Some v \<Rightarrow> v) = position_sum (setup_events s i) p"
    and n: "n = sum_list (map x_net_pnl (setup_events s i))"
    by (simp_all add: bt_get_def)
  have "position_sum (setup_events s i) p = 0" for p
    using tot [of p] flat bt_get_in_set [OF inv, of p]
    by (fastforce simp: list_all_iff split: option.splits)
  with b ts n o show ?thesis by simp
qed

section \<open>The streak does not depend on the order of closing\<close>

lemma bt_unique:
  assumes "bt_inv m" and "bt_inv m'" and "bt_get m = bt_get m'"
  shows "m = m'"
proof -
  have rebuild: "map (\<lambda>k. (k, the (bt_get n k))) (map fst n) = n" if "bt_inv n" for n :: "('a, 'b) bt"
    using bt_inv_distinct [OF that] by (auto simp: bt_get_def intro!: map_idI)
  have "set m = set m'" using assms by (auto simp: bt_get_in_set [symmetric])
  then have "map fst m = map fst m'"
    using assms(1,2) by (intro strict_sorted_equal) (simp_all add: bt_inv_def)
  with rebuild [OF assms(1)] rebuild [OF assms(2)] assms(3) show ?thesis by metis
qed

text \<open>
  The ledger invariant: both maps are ordered and the stored streak is the one the stored
  outcomes give.
\<close>

definition ledger_inv :: "risk_state \<Rightarrow> bool" where
  "ledger_inv s \<longleftrightarrow> bt_inv (s_executions s) \<and> bt_inv (s_outcomes s) \<and>
     s_consecutive_losses s = streak_of (p_streak_backoff (s_policy s)) (s_outcomes s)"

lemma ledger_inv_enroll: "enroll L i bal d p = Inr s \<Longrightarrow> ledger_inv s"
  by (auto simp: enroll_def result_simps ledger_inv_def streak_of_def)

lemma ledger_inv_on_execution: "ledger_inv s \<Longrightarrow> ledger_inv (snd (on_execution s ev))"
  using on_execution_inv [of s ev] by (simp add: ledger_inv_def frame_simps)

lemma setup_outcome_of_cong:
  "s_executions s = s_executions s' \<Longrightarrow> setup_outcome_of L s i t b = setup_outcome_of L s' i t b"
  by (simp add: setup_outcome_of_def setup_events_def)

text \<open>A successful close is the insertion of its outcome, new or already there.\<close>

lemma on_setup_closed_ok:
  assumes inv: "ledger_inv s" and ok: "on_setup_closed L s i t b = (Inr (), s')"
  obtains out om n where "setup_outcome_of L s i t b = Inr out" and "ledger_inv s'"
    and "bt_get (s_outcomes s') = (bt_get (s_outcomes s))(i \<mapsto> out)"
    and "s' = s\<lparr>s_outcomes := om, s_consecutive_losses := n\<rparr>"
proof -
  from ok obtain out where out: "setup_outcome_of L s i t b = Inr out"
    and cases: "bt_get (s_outcomes s) i = Some out \<and> s' = s \<or>
      bt_get (s_outcomes s) i = None \<and>
      s' = rebuild_streak (s\<lparr>s_outcomes := bt_insert i out (s_outcomes s)\<rparr>)"
    by (auto simp: on_setup_closed_def close_setup_def split: sum.splits option.splits if_splits)
  have "bt_inv (s_outcomes s)" using inv by (simp add: ledger_inv_def)
  note bt_inv_insert [OF this, of i out] bt.lookup_insert [OF this, of i out]
  then show thesis
    using that [OF out, where om = "s_outcomes s'" and n = "s_consecutive_losses s'"] cases inv
    by (auto simp: ledger_inv_def rebuild_streak_def fun_upd_idem)
qed

lemma ledger_inv_on_setup_closed:
  assumes "ledger_inv s"
  shows "ledger_inv (snd (on_setup_closed L s i t b))"
proof (cases "fst (on_setup_closed L s i t b)")
  case (Inl e)
  then show ?thesis using assms
    by (auto simp: on_setup_closed_def close_setup_def ledger_inv_def split: sum.splits option.splits if_splits)
next
  case (Inr u)
  then have "on_setup_closed L s i t b = (Inr (), snd (on_setup_closed L s i t b))"
    by (simp add: prod_eq_iff)
  then show ?thesis using on_setup_closed_ok [OF assms] by metis
qed

lemma close_setup_commute:
  assumes inv: "ledger_inv s" and ne: "i \<noteq> j"
    and i1: "on_setup_closed L s i t b = (Inr (), s1)" and j1: "on_setup_closed L s1 j t' b' = (Inr (), s12)"
    and j2: "on_setup_closed L s j t' b' = (Inr (), s2)" and i2: "on_setup_closed L s2 i t b = (Inr (), s21)"
  shows "s12 = s21"
proof -
  obtain a o1 n1 where a: "setup_outcome_of L s i t b = Inr a" "ledger_inv s1"
    "bt_get (s_outcomes s1) = (bt_get (s_outcomes s))(i \<mapsto> a)"
    and s1: "s1 = s\<lparr>s_outcomes := o1, s_consecutive_losses := n1\<rparr>"
    by (rule on_setup_closed_ok [OF inv i1])
  obtain c o2 n2 where c: "setup_outcome_of L s j t' b' = Inr c" "ledger_inv s2"
    "bt_get (s_outcomes s2) = (bt_get (s_outcomes s))(j \<mapsto> c)"
    and s2: "s2 = s\<lparr>s_outcomes := o2, s_consecutive_losses := n2\<rparr>"
    by (rule on_setup_closed_ok [OF inv j2])
  obtain c' o12 n12 where c': "setup_outcome_of L s1 j t' b' = Inr c'" "ledger_inv s12"
    "bt_get (s_outcomes s12) = (bt_get (s_outcomes s1))(j \<mapsto> c')"
    and s12: "s12 = s1\<lparr>s_outcomes := o12, s_consecutive_losses := n12\<rparr>"
    by (rule on_setup_closed_ok [OF a(2) j1])
  obtain a' o21 n21 where a': "setup_outcome_of L s2 i t b = Inr a'" "ledger_inv s21"
    "bt_get (s_outcomes s21) = (bt_get (s_outcomes s2))(i \<mapsto> a')"
    and s21: "s21 = s2\<lparr>s_outcomes := o21, s_consecutive_losses := n21\<rparr>"
    by (rule on_setup_closed_ok [OF c(2) i2])
  have "a' = a" using a(1) a'(1) setup_outcome_of_cong [of s2 s L i t b] by (simp add: s2)
  moreover have "c' = c" using c(1) c'(1) setup_outcome_of_cong [of s1 s L j t' b'] by (simp add: s1)
  ultimately have "bt_get (s_outcomes s12) = bt_get (s_outcomes s21)"
    using a(3) c(3) a'(3) c'(3) ne by (simp add: fun_upd_twist)
  then have "s_outcomes s12 = s_outcomes s21"
    using a'(2) c'(2) by (intro bt_unique) (simp_all add: ledger_inv_def)
  then show ?thesis using a'(2) c'(2) by (simp add: ledger_inv_def s12 s21 s1 s2)
qed

end
