(* ===== verification/Risk_Decision.thy ===== *)
theory Risk_Decision
  imports Risk_Ledger
begin

text \<open>
  The decision on one proposed trade (\<open>adaptive-risk/src/decision.rs\<close>) and the metrics
  snapshot (\<open>adaptive-risk/src/metrics.rs\<close>): freshness, validation of a broker
  snapshot, the risk already reserved, the ordered refusals and the sizing.
\<close>

section \<open>Data\<close>

record proposed_trade =
  pt_instrument_id :: string
  pt_overlapping :: bool
  pt_request_id :: string
  pt_strategy_id :: string
  pt_setup_id :: string
  pt_estimate :: loss_estimate
  pt_volume :: volume_limits
  pt_requested_volume :: decimal
  pt_requested_risk :: decimal

datatype risk_limit_reason =
    BaseRisk | Streak | Drawdown | DailyBudget | AccountBudget | InvalidPolicy
  | Reconciliation | StaleData | Disconnected | InvalidExposure | InvalidTrade
  | BelowMinimum | DailyLockout | AccountLockout | DuplicateRequest

record risk_decision =
  d_approved :: bool
  d_allowed_risk_pct :: decimal
  d_allowed_risk_amount :: decimal
  d_max_volume :: decimal
  d_limiting_policy :: risk_limit_reason
  d_reasons :: "risk_limit_reason list"
  d_reserved_exposure :: decimal
  d_drawdown_pct :: decimal
  d_daily_loss_pct :: decimal
  d_daily_remaining :: decimal

definition blocked :: "risk_limit_reason \<Rightarrow> risk_decision" where
  "blocked reason = \<lparr>d_approved = False, d_allowed_risk_pct = 0, d_allowed_risk_amount = 0,
     d_max_volume = 0, d_limiting_policy = reason, d_reasons = [reason],
     d_reserved_exposure = 0, d_drawdown_pct = 0, d_daily_loss_pct = 0, d_daily_remaining = 0\<rparr>"

section \<open>Snapshots\<close>

definition fresh :: "time \<Rightarrow> time \<Rightarrow> int \<Rightarrow> bool" where
  "fresh now then_at age \<longleftrightarrow>
     then_at \<le> now \<and> num_milliseconds (now - then_at) \<le> sat_i64 (age * 1000)"

definition validate_snapshot ::
  "lib \<Rightarrow> risk_policy \<Rightarrow> risk_state \<Rightarrow> account_snapshot \<Rightarrow> time \<Rightarrow> unit res" where
  "validate_snapshot L p s a now =
     rbind (ensure (a_account_id a = s_account_id s \<and> a_complete a \<and> a_setups_reconciled a)
       ''incomplete account reconciliation'') (\<lambda>_.
     rbind (ensure (case s_invalidated_after s of None \<Rightarrow> True | Some t \<Rightarrow> a_observed_at a > t)
       ''snapshot predates execution/disconnection invalidation'') (\<lambda>_.
     rbind (ensure (a_balance a > 0 \<and> a_equity a > 0 \<and> a_balance_high a \<ge> a_balance a \<and>
         a_equity_high a \<ge> a_equity a) ''inconsistent account values'') (\<lambda>_.
     rbind (ensure (fresh now (a_observed_at a) (ex_max_data_age_seconds (p_execution p)) \<and>
         fresh now (a_quote_at a) (ex_max_data_age_seconds (p_execution p)))
       ''stale account/quote'') (\<lambda>_.
     rbind (day_at L (p_calendar p) now) (\<lambda>day.
     rbind (ensure (day = dr_day (a_day_reference a) \<and> dr_balance (a_day_reference a) > 0 \<and>
         dr_equity (a_day_reference a) > 0) ''missing day boundary evidence'') (\<lambda>_.
     ensure (case s_last_sequence s of None \<Rightarrow> True | Some n \<Rightarrow> a_sequence a \<ge> n)
       ''broker cursor regressed''))))))"

section \<open>Reserved risk\<close>

type_synonym reserve_acc = "string set \<times> (string, decimal) bt \<times> decimal"

text \<open>One broker exposure: its risk goes to its request, or to the unlinked total.\<close>

definition reserve_exposure ::
  "lib \<Rightarrow> risk_policy \<Rightarrow> account_snapshot \<Rightarrow> exposure \<Rightarrow> reserve_acc \<Rightarrow> reserve_acc res" where
  "reserve_exposure L p a e acc =
     (case acc of (ids, by_request, unlinked) \<Rightarrow>
        rbind (ensure (e_broker_id e \<notin> ids) ''duplicate broker exposure'') (\<lambda>_.
        rbind (exposure_risk L e (ex_slippage_buffer_pct_of_risk (p_execution p))
          (ex_overlap_multiplier (p_execution p))) (\<lambda>risk.
        case e_request_id e of
          Some i \<Rightarrow>
            rbind (ensure (i \<notin> a_resolved_requests a) ''resolved request still has exposure'') (\<lambda>_.
            rbind (dadd L (case bt_get by_request i of None \<Rightarrow> 0 | Some r \<Rightarrow> r) risk) (\<lambda>r.
            Inr (Set.insert (e_broker_id e) ids, bt_insert i r by_request, unlinked)))
        | None \<Rightarrow>
            rbind (dadd L unlinked risk) (\<lambda>u.
            Inr (Set.insert (e_broker_id e) ids, by_request, u)))))"

text \<open>One reservation: at least its own risk, more if the broker shows more.\<close>

definition reserve_reservation ::
  "lib \<Rightarrow> string \<times> reservation \<Rightarrow> (string, decimal) bt \<times> decimal \<Rightarrow>
   ((string, decimal) bt \<times> decimal) res" where
  "reserve_reservation L entry acc =
     (case acc of (by_request, unlinked) \<Rightarrow>
        rbind (ensure (r_risk (snd entry) \<ge> 0 \<and> r_volume (snd entry) > 0)
          ''invalid persisted reservation'') (\<lambda>_.
        let broker_risk = (case bt_get by_request (fst entry) of None \<Rightarrow> 0 | Some r \<Rightarrow> r) in
        rbind (dadd L unlinked (max broker_risk (r_risk (snd entry)))) (\<lambda>u.
        Inr (bt_remove (fst entry) by_request, u))))"

definition reserved_risk ::
  "lib \<Rightarrow> risk_policy \<Rightarrow> risk_state \<Rightarrow> account_snapshot \<Rightarrow> decimal res" where
  "reserved_risk L p s a =
     rbind (foldM (reserve_exposure L p a) (a_exposures a) ({}, [], 0)) (\<lambda>(ids, by_request, unlinked).
     rbind (foldM (reserve_reservation L) (s_reservations s) (by_request, unlinked)) (\<lambda>(rest, total).
     foldM (\<lambda>(_, risk) acc. dadd L acc risk) rest total))"

section \<open>Sizing\<close>

text \<open>\<open>min_by_key\<close> returns the first of the least elements.\<close>

fun min_by_fst :: "(decimal \<times> 'a) list \<Rightarrow> (decimal \<times> 'a) option" where
  "min_by_fst [] = None"
| "min_by_fst (x # xs) =
     (case min_by_fst xs of None \<Rightarrow> Some x | Some y \<Rightarrow> if fst x \<le> fst y then Some x else Some y)"

definition loss_pct_of :: "lib \<Rightarrow> decimal \<Rightarrow> decimal \<Rightarrow> decimal res" where
  "loss_pct_of L reference equity =
     rbind (rbind (dsub L reference equity) (\<lambda>x. dmul L (max x 0) 100)) (\<lambda>y. ddiv L y reference)"

definition headroom :: "lib \<Rightarrow> decimal \<Rightarrow> decimal \<Rightarrow> decimal \<Rightarrow> decimal res" where
  "headroom L equity lowest reserved =
     rbind (rbind (dsub L equity lowest) (\<lambda>x. dsub L x reserved)) (\<lambda>y. Inr (max y 0))"

definition floors_ok :: "thresholds \<Rightarrow> bool" where
  "floors_ok f \<longleftrightarrow> t_risk_reference f > 0 \<and> t_drawdown_reference f > 0 \<and> t_daily_reference f > 0 \<and>
     t_internal_account_floor f > t_firm_account_floor f \<and>
     t_internal_daily_floor f > t_firm_daily_floor f"

definition risk_limits ::
  "lib \<Rightarrow> risk_policy \<Rightarrow> account_snapshot \<Rightarrow> proposed_trade \<Rightarrow> risk_state \<Rightarrow> thresholds \<Rightarrow>
   decimal \<Rightarrow> decimal \<Rightarrow> (decimal \<times> risk_limit_reason) list res" where
  "risk_limits L p a t s f reserved drawdown =
     rbind (pct L (t_risk_reference f) (p_base_risk_pct p)) (\<lambda>b.
     rbind (dmul L b (streak_multiplier p (s_consecutive_losses s))) (\<lambda>streak.
     rbind (pct L (t_risk_reference f) (drawdown_risk_pct p drawdown)) (\<lambda>dd.
     rbind (headroom L (a_equity a) (t_internal_daily_floor f) reserved) (\<lambda>daily.
     rbind (headroom L (a_equity a) (t_internal_account_floor f) reserved) (\<lambda>account.
     Inr [(min b (pt_requested_risk t), BaseRisk), (streak, Streak), (dd, Drawdown),
          (daily, DailyBudget), (account, AccountBudget)])))))"

definition overlap_factor :: "risk_policy \<Rightarrow> proposed_trade \<Rightarrow> decimal" where
  "overlap_factor p t = (if pt_overlapping t then ex_overlap_multiplier (p_execution p) else 1)"

definition budget_of :: "(decimal \<times> risk_limit_reason) list \<Rightarrow> decimal \<times> risk_limit_reason" where
  "budget_of limits = (case min_by_fst limits of None \<Rightarrow> (0, InvalidPolicy) | Some l \<Rightarrow> l)"

text \<open>The second half of \<open>calculate\<close>: from the limits to a volume and its amount.\<close>

definition size_trade ::
  "lib \<Rightarrow> risk_policy \<Rightarrow> proposed_trade \<Rightarrow> thresholds \<Rightarrow> decimal \<Rightarrow> decimal \<Rightarrow> decimal \<Rightarrow>
   (decimal \<times> risk_limit_reason) list \<Rightarrow> risk_decision res" where
  "size_trade L p t f reserved drawdown daily_loss limits =
     (let budget = fst (budget_of limits);
          reason = snd (budget_of limits);
          slip = ex_slippage_buffer_pct_of_risk (p_execution p);
          multiplier = overlap_factor p t in
      if budget \<le> 0 then Inr (blocked reason) else
      rbind (ddiv L budget multiplier) (\<lambda>sizing_budget.
      case size_volume L (pt_volume t) sizing_budget (pt_estimate t) slip (pt_requested_volume t) of
        Inl _ \<Rightarrow> Inr (blocked BelowMinimum)
      | Inr volume \<Rightarrow>
          rbind (loss L (pt_estimate t) volume slip) (\<lambda>l.
          rbind (dmul L l multiplier) (\<lambda>amount.
          rbind (rbind (dmul L amount 100) (\<lambda>x. ddiv L x (t_risk_reference f))) (\<lambda>allowed_pct.
          Inr \<lparr>d_approved = True, d_allowed_risk_pct = allowed_pct, d_allowed_risk_amount = amount,
            d_max_volume = volume, d_limiting_policy = reason,
            d_reasons = map snd (filter (\<lambda>l. fst l = budget) limits),
            d_reserved_exposure = reserved, d_drawdown_pct = drawdown, d_daily_loss_pct = daily_loss,
            d_daily_remaining = fst (limits ! 3)\<rparr>)))))"

definition calculate ::
  "lib \<Rightarrow> risk_policy \<Rightarrow> account_snapshot \<Rightarrow> proposed_trade \<Rightarrow> risk_state \<Rightarrow> loss_rule \<Rightarrow>
   risk_decision res" where
  "calculate L p a t s rule =
     rbind (rule p s a) (\<lambda>f.
     rbind (ensure (floors_ok f) ''invalid loss rule floors'') (\<lambda>_.
     rbind (reserved_risk L p s a) (\<lambda>reserved.
     rbind (loss_pct_of L (t_drawdown_reference f) (a_equity a)) (\<lambda>drawdown.
     rbind (loss_pct_of L (t_daily_reference f) (a_equity a)) (\<lambda>daily_loss.
     rbind (risk_limits L p a t s f reserved drawdown) (\<lambda>limits.
     size_trade L p t f reserved drawdown daily_loss limits))))))"

section \<open>The decision\<close>

definition not_reconciled ::
  "lib \<Rightarrow> risk_policy \<Rightarrow> account_snapshot \<Rightarrow> risk_state \<Rightarrow> time \<Rightarrow> bool" where
  "not_reconciled L p a s now \<longleftrightarrow>
     s_needs_reconciliation s \<or> \<not> is_ok (validate_snapshot L p s a now) \<or>
     s_day s \<noteq> a_day_reference a \<or> s_last_sequence s \<noteq> Some (a_sequence a) \<or>
     s_last_reconciled_at s \<noteq> Some (a_observed_at a)"

definition invalid_trade :: "proposed_trade \<Rightarrow> risk_state \<Rightarrow> bool" where
  "invalid_trade t s \<longleftrightarrow>
     bt_get (s_outcomes s) (pt_setup_id t) \<noteq> None \<or> pt_instrument_id t = [] \<or>
     pt_request_id t = [] \<or> pt_setup_id t = [] \<or> pt_strategy_id t = [] \<or>
     pt_requested_risk t \<le> 0 \<or> le_is_open_position (pt_estimate t)"

definition evaluate_trade ::
  "lib \<Rightarrow> risk_policy \<Rightarrow> account_snapshot \<Rightarrow> proposed_trade \<Rightarrow> risk_state \<Rightarrow> loss_rule \<Rightarrow> time \<Rightarrow>
   risk_decision" where
  "evaluate_trade L p a t s rule now =
     (if \<not> is_ok (policy_validate L p) \<or> p \<noteq> s_policy s then blocked InvalidPolicy
      else if \<not> a_connected a then blocked Disconnected
      else if \<not> fresh now (a_observed_at a) (ex_max_data_age_seconds (p_execution p)) \<or>
              \<not> fresh now (a_quote_at a) (ex_max_data_age_seconds (p_execution p))
      then blocked StaleData
      else if not_reconciled L p a s now then blocked Reconciliation
      else if s_account_locked s then blocked AccountLockout
      else if s_daily_locked s then blocked DailyLockout
      else if pt_request_id t \<in> s_attempted_requests s then blocked DuplicateRequest
      else if invalid_trade t s then blocked InvalidTrade
      else case calculate L p a t s rule of Inr d \<Rightarrow> d | Inl _ \<Rightarrow> blocked InvalidExposure)"

section \<open>Metrics\<close>

record metrics_snapshot =
  ms_risk_multiplier :: decimal
  ms_consecutive_losses :: nat
  ms_account_drawdown_pct :: decimal
  ms_daily_loss_pct :: decimal
  ms_daily_budget_remaining :: decimal
  ms_total_reserved_exposure :: decimal
  ms_blocked_trades :: nat
  ms_circuit_breaker_activations :: nat
  ms_reduced_risk_seconds :: int

definition elapsed_seconds :: "time \<Rightarrow> time \<Rightarrow> int" where
  "elapsed_seconds now start = max 0 (num_seconds (now - start))"

definition metrics_of ::
  "lib \<Rightarrow> risk_state \<Rightarrow> account_snapshot \<Rightarrow> loss_rule \<Rightarrow> time \<Rightarrow> metrics_snapshot res" where
  "metrics_of L s a rule now =
     rbind (rule (s_policy s) s a) (\<lambda>f.
     rbind (loss_pct_of L (t_drawdown_reference f) (a_equity a)) (\<lambda>dd.
     rbind (loss_pct_of L (t_daily_reference f) (a_equity a)) (\<lambda>daily.
     rbind (reserved_risk L (s_policy s) s a) (\<lambda>exposed.
     rbind (ddiv L (drawdown_risk_pct (s_policy s) dd) (p_base_risk_pct (s_policy s))) (\<lambda>ratio.
     rbind (headroom L (a_equity a) (t_internal_daily_floor f) exposed) (\<lambda>remaining.
     Inr \<lparr>ms_risk_multiplier =
            (if s_daily_locked s \<or> s_account_locked s then 0
             else min (streak_multiplier (s_policy s) (s_consecutive_losses s)) ratio),
       ms_consecutive_losses = s_consecutive_losses s, ms_account_drawdown_pct = dd,
       ms_daily_loss_pct = daily, ms_daily_budget_remaining = remaining,
       ms_total_reserved_exposure = exposed,
       ms_blocked_trades = m_blocked_trades (s_metrics s),
       ms_circuit_breaker_activations = m_circuit_breaker_activations (s_metrics s),
       ms_reduced_risk_seconds = sat_i64 (m_reduced_risk_seconds (s_metrics s) +
         (case m_reduced_since (s_metrics s) of None \<Rightarrow> 0
          | Some at_time \<Rightarrow> elapsed_seconds now at_time))\<rparr>))))))"

section \<open>Reserved risk is conservative\<close>

lemma blocked_simps [simp]:
  "\<not> d_approved (blocked r)" "d_max_volume (blocked r) = 0" "d_allowed_risk_amount (blocked r) = 0"
  "d_limiting_policy (blocked r) = r"
  by (simp_all add: blocked_def)

lemma reserve_reservation_Inr:
  "reserve_reservation L (i, r) (bq, u) = Inr acc \<longleftrightarrow>
     0 \<le> r_risk r \<and> 0 < r_volume r \<and>
     (\<exists>u'. checked_add L u (max (case bt_get bq i of None \<Rightarrow> 0 | Some x \<Rightarrow> x) (r_risk r)) = Some u' \<and>
       acc = (bt_remove i bq, u'))"
  by (auto simp: reserve_reservation_def Let_def result_simps dadd_def)

lemma reserve_reservations_grow:
  assumes L: "decimal_laws L" and "foldM (reserve_reservation L) rs (bq, u) = Inr (bq', u')"
  shows "u \<le> u' \<and> (0 \<le> u \<longrightarrow> (\<forall>e\<in>set rs. r_risk (snd e) \<le> u'))"
  using assms(2)
proof (induction rs arbitrary: bq u)
  case (Cons e rs)
  obtain i r where e: "e = (i, r)" by (cases e)
  let ?x = "max (case bt_get bq i of None \<Rightarrow> 0 | Some x \<Rightarrow> x) (r_risk r)"
  from Cons.prems obtain v where v: "checked_add L u ?x = Some v" "0 \<le> r_risk r"
    and rest: "foldM (reserve_reservation L) rs (bt_remove i bq, v) = Inr (bq', u')"
    by (auto simp: e result_simps reserve_reservation_Inr)
  have "0 \<le> ?x" "r_risk r \<le> ?x" using v(2) by auto
  with v L have "u \<le> v" "0 \<le> u \<longrightarrow> r_risk r \<le> v"
    using law_add1 [OF L v(1)] law_add2 [OF L v(1)] by auto
  with Cons.IH [OF rest] show ?case by (auto simp: e)
qed simp

definition policy_signs :: "risk_policy \<Rightarrow> bool" where
  "policy_signs p \<longleftrightarrow> 0 \<le> ex_slippage_buffer_pct_of_risk (p_execution p) \<and>
     0 \<le> ex_overlap_multiplier (p_execution p)"

lemma policy_signs_valid: "is_ok (policy_validate L p) \<Longrightarrow> policy_signs p"
  using policy_validateD(2,3) by (force simp: is_ok_iff policy_signs_def)

definition acc_nonneg :: "reserve_acc \<Rightarrow> bool" where
  "acc_nonneg acc \<longleftrightarrow> (case acc of (ids, bq, u) \<Rightarrow>
     bt_inv bq \<and> 0 \<le> u \<and> (\<forall>e\<in>set bq. 0 \<le> snd e))"

lemma bt_get_nonneg:
  "\<forall>e\<in>set bq. 0 \<le> snd e \<Longrightarrow> 0 \<le> (case bt_get bq i of None \<Rightarrow> 0 | Some r \<Rightarrow> (r::rat))"
  by (force simp: bt_get_def split: option.splits dest: map_of_SomeD)

lemma bt_insert_set: "set (bt_insert k v m) \<subseteq> Set.insert (k, v) (set m)"
  by (induction k v m rule: bt_insert.induct) auto

lemma reserve_exposure_nonneg:
  assumes L: "decimal_laws L" and p: "policy_signs p"
    and step: "reserve_exposure L p a e acc = Inr acc'" and inv: "acc_nonneg acc"
  shows "acc_nonneg acc'"
proof -
  obtain ids bq u where acc: "acc = (ids, bq, u)" by (cases acc)
  from step obtain risk where risk: "exposure_risk L e (ex_slippage_buffer_pct_of_risk (p_execution p))
      (ex_overlap_multiplier (p_execution p)) = Inr risk"
    by (auto simp: reserve_exposure_def acc result_simps)
  have nn: "0 \<le> risk" using exposure_risk_nonneg [OF L risk] p by (simp add: policy_signs_def)
  have inv': "bt_inv bq" "0 \<le> u" "\<forall>e\<in>set bq. 0 \<le> snd e" using inv by (auto simp: acc acc_nonneg_def)
  show ?thesis
  proof (cases "e_request_id e")
    case None
    then obtain w where "checked_add L u risk = Some w" "acc' = (Set.insert (e_broker_id e) ids, bq, w)"
      using step risk by (auto simp: reserve_exposure_def acc result_simps dadd_def)
    then show ?thesis using law_add_nonneg [OF L] nn inv' by (auto simp: acc_nonneg_def)
  next
    case (Some i)
    then obtain w where w: "checked_add L (case bt_get bq i of None \<Rightarrow> 0 | Some r \<Rightarrow> r) risk = Some w"
      "acc' = (Set.insert (e_broker_id e) ids, bt_insert i w bq, u)"
      using step risk by (auto simp: reserve_exposure_def acc result_simps dadd_def)
    have "0 \<le> w" by (rule law_add_nonneg [OF L w(1) bt_get_nonneg [OF inv'(3)] nn])
    then show ?thesis using w(2) inv' bt_insert_set [of i w bq] bt_inv_insert [OF inv'(1)]
      by (auto simp: acc_nonneg_def)
  qed
qed

lemma reserve_rest_grow:
  assumes L: "decimal_laws L" and "foldM (\<lambda>(_, risk) acc. dadd L acc risk) xs u = Inr v"
    and "\<forall>e\<in>set xs. 0 \<le> snd e"
  shows "u \<le> v"
  using assms(2,3)
proof (induction xs arbitrary: u)
  case (Cons x xs)
  then obtain w where w: "checked_add L u (snd x) = Some w"
    and rest: "foldM (\<lambda>(_, risk) acc. dadd L acc risk) xs w = Inr v"
    by (auto simp: result_simps dadd_def split: prod.splits)
  have "u \<le> w" using law_add1 [OF L w] Cons.prems(2) by simp
  with Cons.IH [OF rest] Cons.prems(2) show ?case by auto
qed simp

lemma foldM_reservations_subset:
  "foldM (reserve_reservation L) rs (bq, u) = Inr (bq', u') \<Longrightarrow> set bq' \<subseteq> set bq"
proof (induction rs arbitrary: bq u)
  case (Cons e rs)
  obtain i r where e: "e = (i, r)" by (cases e)
  from Cons.prems obtain v where "foldM (reserve_reservation L) rs (bt_remove i bq, v) = Inr (bq', u')"
    by (auto simp: e result_simps reserve_reservation_Inr)
  from Cons.IH [OF this] show ?case by (auto simp: bt_remove_def)
qed simp

lemma reserved_risk_covers_each:
  assumes L: "decimal_laws L" and p: "policy_signs p" and r: "reserved_risk L p s a = Inr tot"
  shows "0 \<le> tot \<and> (\<forall>e\<in>set (s_reservations s). r_risk (snd e) \<le> tot)"
proof -
  from r obtain ids bq u rest t where
    ex: "foldM (reserve_exposure L p a) (a_exposures a) ({}, [], 0) = Inr (ids, bq, u)"
    and rs: "foldM (reserve_reservation L) (s_reservations s) (bq, u) = Inr (rest, t)"
    and fin: "foldM (\<lambda>(_, risk) acc. dadd L acc risk) rest t = Inr tot"
    by (auto simp: reserved_risk_def result_simps split: prod.splits)
  have start: "acc_nonneg ({}, [], 0)" by (simp add: acc_nonneg_def)
  have "acc_nonneg (ids, bq, u)"
    by (rule foldM_invariant [OF ex, where I = acc_nonneg, OF start])
      (rule reserve_exposure_nonneg [OF L p])
  then have "0 \<le> u" "\<forall>e\<in>set bq. 0 \<le> snd e" by (auto simp: acc_nonneg_def)
  moreover have "t \<le> tot"
    using reserve_rest_grow [OF L fin] foldM_reservations_subset [OF rs] calculation(2) by blast
  ultimately show ?thesis using reserve_reservations_grow [OF L rs] by fastforce
qed

section \<open>Approved trades\<close>

lemma min_by_fst_least:
  "min_by_fst xs = Some m \<Longrightarrow> m \<in> set xs \<and> (\<forall>x\<in>set xs. fst m \<le> fst x)"
proof (induction xs arbitrary: m)
  case (Cons x xs)
  show ?case
  proof (cases "min_by_fst xs")
    case None
    then have "xs = []" by (cases xs) (auto split: option.splits if_splits)
    with Cons.prems show ?thesis by simp
  next
    case (Some y)
    with Cons.IH [OF Some] Cons.prems show ?thesis
      by (auto split: if_splits)
  qed
qed simp

lemma evaluate_approvedD:
  assumes "d_approved (evaluate_trade L p a t s rule now)"
  shows "is_ok (policy_validate L p)" "p = s_policy s" "a_connected a"
    "\<not> not_reconciled L p a s now" "\<not> s_account_locked s" "\<not> s_daily_locked s"
    "pt_request_id t \<notin> s_attempted_requests s" "\<not> invalid_trade t s"
    "calculate L p a t s rule = Inr (evaluate_trade L p a t s rule now)"
  using assms by (auto simp: evaluate_trade_def split: if_splits sum.splits)

text \<open>What \<open>calculate\<close> computed on the way to an approval.\<close>

lemma size_trade_approved:
  assumes "size_trade L p t f reserved dd dl limits = Inr d" and "d_approved d"
  obtains b sizing l where "min_by_fst limits = Some (b, d_limiting_policy d)" "0 < b"
    "checked_div L b (overlap_factor p t) = Some sizing"
    "size_volume L (pt_volume t) sizing (pt_estimate t)
       (ex_slippage_buffer_pct_of_risk (p_execution p)) (pt_requested_volume t) = Inr (d_max_volume d)"
    "loss L (pt_estimate t) (d_max_volume d) (ex_slippage_buffer_pct_of_risk (p_execution p)) = Inr l"
    "checked_mul L l (overlap_factor p t) = Some (d_allowed_risk_amount d)"
    "d_reserved_exposure d = reserved" "d_drawdown_pct d = dd"
proof (cases "min_by_fst limits")
  case None
  with assms show thesis by (auto simp: size_trade_def budget_of_def)
next
  case (Some m)
  then have pos: "0 < fst m" using assms
    by (auto simp: size_trade_def budget_of_def Let_def split: if_splits)
  then obtain sizing where sz: "checked_div L (fst m) (overlap_factor p t) = Some sizing"
    using assms Some by (auto simp: size_trade_def budget_of_def Let_def result_simps ddiv_def)
  obtain vol where vol: "size_volume L (pt_volume t) sizing (pt_estimate t)
       (ex_slippage_buffer_pct_of_risk (p_execution p)) (pt_requested_volume t) = Inr vol"
    using assms Some pos sz
    by (cases "size_volume L (pt_volume t) sizing (pt_estimate t)
       (ex_slippage_buffer_pct_of_risk (p_execution p)) (pt_requested_volume t)")
      (auto simp: size_trade_def budget_of_def Let_def ddiv_def)
  show thesis
    using assms(1) Some pos sz vol that [of "fst m" sizing]
    by (auto simp: size_trade_def budget_of_def Let_def result_simps ddiv_def dmul_def)
qed

lemma calculate_parts:
  assumes "calculate L p a t s rule = Inr d"
  obtains f reserved dd dl limits where "rule p s a = Inr f" "floors_ok f"
    "reserved_risk L p s a = Inr reserved"
    "loss_pct_of L (t_drawdown_reference f) (a_equity a) = Inr dd"
    "risk_limits L p a t s f reserved dd = Inr limits"
    "size_trade L p t f reserved dd dl limits = Inr d"
  using assms by (auto simp: calculate_def result_simps)

lemma overlap_factor_ge: "is_ok (policy_validate L p) \<Longrightarrow> 1 \<le> overlap_factor p t"
  using policy_validateD(3) by (auto simp: overlap_factor_def is_ok_iff)

text \<open>The approved amount fits every limit.\<close>

lemma size_trade_amount:
  assumes L: "exact_laws L" and v: "is_ok (policy_validate L p)"
    and d: "size_trade L p t f reserved dd dl limits = Inr d" and ok: "d_approved d"
    and x: "x \<in> set limits"
  shows "d_allowed_risk_amount d \<le> fst x \<and> 0 < fst x"
proof (rule size_trade_approved [OF d ok])
  fix b sizing l
  assume b: "min_by_fst limits = Some (b, d_limiting_policy d)" "0 < b"
    "checked_div L b (overlap_factor p t) = Some sizing"
    and vol: "size_volume L (pt_volume t) sizing (pt_estimate t)
       (ex_slippage_buffer_pct_of_risk (p_execution p)) (pt_requested_volume t) = Inr (d_max_volume d)"
    and l: "loss L (pt_estimate t) (d_max_volume d) (ex_slippage_buffer_pct_of_risk (p_execution p)) = Inr l"
    and amount: "checked_mul L l (overlap_factor p t) = Some (d_allowed_risk_amount d)"
  have "l \<le> sizing" using size_volume_sound [OF vol] l by auto
  moreover have "1 \<le> overlap_factor p t" by (rule overlap_factor_ge [OF v])
  moreover have "d_allowed_risk_amount d = l * overlap_factor p t" by (rule exact_mul [OF L amount])
  moreover have "sizing = b / overlap_factor p t" by (rule exact_div [OF L b(3)])
  ultimately have "d_allowed_risk_amount d \<le> b" by (simp add: pos_le_divide_eq)
  with min_by_fst_least [OF b(1)] b(2) x show ?thesis by fastforce
qed

lemma risk_limits_members:
  assumes "risk_limits L p a t s f reserved dd = Inr limits"
  obtains b streak ddl daily account where
    "pct L (t_risk_reference f) (p_base_risk_pct p) = Inr b"
    "dmul L b (streak_multiplier p (s_consecutive_losses s)) = Inr streak"
    "pct L (t_risk_reference f) (drawdown_risk_pct p dd) = Inr ddl"
    "headroom L (a_equity a) (t_internal_daily_floor f) reserved = Inr daily"
    "headroom L (a_equity a) (t_internal_account_floor f) reserved = Inr account"
    "set limits = {(min b (pt_requested_risk t), BaseRisk), (streak, Streak), (ddl, Drawdown),
      (daily, DailyBudget), (account, AccountBudget)}"
  using assms by (auto simp: risk_limits_def result_simps)

lemma headroom_pos:
  assumes "exact_laws L" and "headroom L e lowest r = Inr h" and "0 < h"
  shows "h = e - lowest - r"
  using assms(2,3) by (auto simp: headroom_def result_simps dsub_def dest!: exact_sub [OF assms(1)])

end
