(* ===== verification/Risk_Manager.thy ===== *)
theory Risk_Manager
  imports Risk_Decision
begin

text \<open>
  The risk manager (\<open>adaptive-risk/src/manager.rs\<close>) and its durable store
  (\<open>adaptive-risk/src/store.rs\<close>). A session holds the in-memory state and, because the
  account lock is held, knows what is on disk. How a save ends is the environment's
  choice: it succeeds, fails before the rename, or fails after it.
\<close>

section \<open>The store\<close>

datatype save_outcome = Saved | NotWritten | WrittenUnsynced

datatype document = Missing | Corrupt | Document risk_state

record risk_dir =
  dir_present :: bool
  dir_locked :: bool
  dir_document :: document

text \<open>\<open>FileStore::lock\<close>: the directory must exist and no other holder may be active.\<close>

definition lock_dir :: "risk_dir \<Rightarrow> risk_dir res" where
  "lock_dir dir =
     rbind (ensure (dir_present dir) ''risk directory missing; explicit enrollment required'') (\<lambda>_.
     rbind (ensure (\<not> dir_locked dir) ''account risk transaction already active'') (\<lambda>_.
     Inr (dir\<lparr>dir_locked := True\<rparr>)))"

definition load_document :: "lib \<Rightarrow> document \<Rightarrow> risk_state res" where
  "load_document L doc =
     (case doc of
        Missing \<Rightarrow> Inl (Err ''no state document'')
      | Corrupt \<Rightarrow> Inl (Err ''undecodable state document'')
      | Document s \<Rightarrow>
          rbind (ensure (s_schema s = 1) ''unsupported risk state schema'') (\<lambda>_.
          rbind (policy_validate L (s_policy s)) (\<lambda>_.
          Inr (s\<lparr>s_needs_reconciliation := True\<rparr>))))"

text \<open>\<open>FileStore::enroll\<close>: create the directory, lock it, refuse an existing document.\<close>

definition enroll_dir :: "risk_dir \<Rightarrow> risk_state \<Rightarrow> save_outcome \<Rightarrow> unit res \<times> risk_dir" where
  "enroll_dir dir s out =
     (let dir1 = dir\<lparr>dir_present := True\<rparr> in
      case lock_dir dir1 of
        Inl e \<Rightarrow> (Inl e, dir1)
      | Inr _ \<Rightarrow>
          (if dir_document dir1 \<noteq> Missing then (Inl (Err ''risk account already enrolled''), dir1)
           else case out of
             Saved \<Rightarrow> (Inr (), dir1\<lparr>dir_document := Document s\<rparr>)
           | NotWritten \<Rightarrow> (Inl (Err ''io''), dir1)
           | WrittenUnsynced \<Rightarrow> (Inl (Err ''io''), dir1\<lparr>dir_document := Document s\<rparr>)))"

section \<open>Sessions\<close>

record session =
  rs_state :: risk_state
  rs_disk :: risk_state
  rs_faults :: "save_outcome list"

type_synonym 'a session_op = "session \<Rightarrow> 'a res \<times> session"

text \<open>The \<open>?\<close> operator inside a method that mutates the session.\<close>

definition mbind :: "'a res \<times> session \<Rightarrow> ('a \<Rightarrow> 'b session_op) \<Rightarrow> 'b res \<times> session" where
  "mbind m k = (case fst m of Inl e \<Rightarrow> (Inl e, snd m) | Inr x \<Rightarrow> k x (snd m))"

definition update_state :: "(risk_state \<Rightarrow> risk_state) \<Rightarrow> session \<Rightarrow> session" where
  "update_state f S = S\<lparr>rs_state := f (rs_state S)\<rparr>"

definition set_needs :: "bool \<Rightarrow> risk_state \<Rightarrow> risk_state" where
  "set_needs b s = s\<lparr>s_needs_reconciliation := b\<rparr>"

definition persist :: "unit session_op" where
  "persist S =
     (case rs_faults S of
        [] \<Rightarrow> (Inr (), S\<lparr>rs_disk := rs_state S\<rparr>)
      | out # rest \<Rightarrow>
          (case out of
             Saved \<Rightarrow> (Inr (), S\<lparr>rs_disk := rs_state S, rs_faults := rest\<rparr>)
           | NotWritten \<Rightarrow>
               (Inl (Err ''io''), S\<lparr>rs_state := set_needs True (rs_state S), rs_faults := rest\<rparr>)
           | WrittenUnsynced \<Rightarrow>
               (Inl (Err ''io''), S\<lparr>rs_state := set_needs True (rs_state S), rs_disk := rs_state S,
                  rs_faults := rest\<rparr>)))"

text \<open>\<open>RiskManager::begin\<close>, on a directory whose saves will end as \<open>faults\<close> says.\<close>

definition begin_session ::
  "lib \<Rightarrow> string \<Rightarrow> risk_policy \<Rightarrow> save_outcome list \<Rightarrow> risk_dir \<Rightarrow> session res" where
  "begin_session L account_id policy faults dir =
     rbind (lock_dir dir) (\<lambda>locked.
     rbind (load_document L (dir_document locked)) (\<lambda>s.
     rbind (ensure (s_account_id s = account_id \<and> s_policy s = policy)
       ''risk account identity or policy changed; explicit migration required'') (\<lambda>_.
     Inr \<lparr>rs_state = s,
       rs_disk = (case dir_document locked of Document d \<Rightarrow> d | _ \<Rightarrow> s), rs_faults = faults\<rparr>)))"

section \<open>Steps on the state\<close>

definition trip_breaker :: "risk_state \<Rightarrow> risk_state" where
  "trip_breaker s = s\<lparr>s_metrics := (s_metrics s)\<lparr>m_circuit_breaker_activations :=
     sat_add 64 (m_circuit_breaker_activations (s_metrics s)) 1\<rparr>\<rparr>"

definition latch :: "bool \<Rightarrow> bool \<Rightarrow> risk_state \<Rightarrow> risk_state" where
  "latch account daily s =
     (let s1 = (if account \<and> \<not> s_account_locked s then trip_breaker s else s);
          s2 = (if daily \<and> \<not> s_daily_locked s1 then trip_breaker s1 else s1)
      in s2\<lparr>s_account_locked := s_account_locked s2 \<or> account,
            s_daily_locked := s_daily_locked s2 \<or> daily\<rparr>)"

definition opt_max :: "time option \<Rightarrow> time option \<Rightarrow> time option" where
  "opt_max x y = (case x of None \<Rightarrow> y | Some a \<Rightarrow>
     (case y of None \<Rightarrow> x | Some b \<Rightarrow> Some (max a b)))"

definition reconcile_checks ::
  "lib \<Rightarrow> account_snapshot \<Rightarrow> time \<Rightarrow> risk_state \<Rightarrow> unit res" where
  "reconcile_checks L a now s =
     rbind (ensure (a_connected a) ''broker disconnected'') (\<lambda>_.
     rbind (validate_snapshot L (s_policy s) s a now) (\<lambda>_.
     rbind (ensure (day_start (dr_day (a_day_reference a)) \<ge> day_start (dr_day (s_day s)))
       ''trading day moved backwards'') (\<lambda>_.
     rbind (ensure (dr_day (a_day_reference a) = dr_day (s_day s) \<longrightarrow> a_day_reference a = s_day s)
       ''daily reference changed within trading day'') (\<lambda>_.
     rbind (ensure (list_all (\<lambda>(i, r). \<not> r_submitted r \<or> i \<in> a_resolved_requests a \<or>
         list_ex (\<lambda>e. e_request_id e = Some i) (a_exposures a)) (s_reservations s))
       ''unresolved request; broker history reconciliation required'') (\<lambda>_.
     rbind (reserved_risk L (s_policy s) s a) (\<lambda>_. Inr ()))))))"

definition adopt_snapshot :: "account_snapshot \<Rightarrow> risk_state \<Rightarrow> risk_state" where
  "adopt_snapshot a s =
     (let s1 = (if dr_day (a_day_reference a) \<noteq> dr_day (s_day s)
                then s\<lparr>s_day := a_day_reference a, s_daily_locked := False\<rparr> else s)
      in s1\<lparr>s_reservations := bt_retain (\<lambda>i _. i \<notin> a_resolved_requests a) (s_reservations s1),
            s_balance_high := max (s_balance_high s1) (a_balance_high a),
            s_equity_high := max (s_equity_high s1) (a_equity_high a)\<rparr>)"

definition trip_floors :: "thresholds \<Rightarrow> account_snapshot \<Rightarrow> risk_state \<Rightarrow> risk_state" where
  "trip_floors f a s =
     (let s1 = (if a_equity a \<le> t_internal_daily_floor f \<and> \<not> s_daily_locked s
                then trip_breaker (s\<lparr>s_daily_locked := True\<rparr>) else s)
      in if a_equity a \<le> t_internal_account_floor f \<and> \<not> s_account_locked s1
         then trip_breaker (s1\<lparr>s_account_locked := True\<rparr>) else s1)"

definition apply_reconciliation ::
  "lib \<Rightarrow> loss_rule \<Rightarrow> account_snapshot \<Rightarrow> time \<Rightarrow> risk_state \<Rightarrow> unit res \<times> risk_state" where
  "apply_reconciliation L rule a now s =
     (case reconcile_checks L a now s of
        Inl e \<Rightarrow> (Inl e, s)
      | Inr _ \<Rightarrow>
          (let s1 = adopt_snapshot a s in
           case rule (s_policy s1) s1 a of
             Inl e \<Rightarrow> (Inl e, s1)
           | Inr f \<Rightarrow> (Inr (), (trip_floors f a s1)\<lparr>s_last_sequence := Some (a_sequence a),
               s_last_reconciled_at := Some (a_observed_at a)\<rparr>)))"

definition track_reduced ::
  "lib \<Rightarrow> loss_rule \<Rightarrow> account_snapshot \<Rightarrow> time \<Rightarrow> risk_state \<Rightarrow> risk_state" where
  "track_reduced L rule a now s =
     (case metrics_of L s a rule now of
        Inl _ \<Rightarrow> s
      | Inr m \<Rightarrow>
          (if ms_risk_multiplier m < 1
           then s\<lparr>s_metrics := (s_metrics s)\<lparr>m_reduced_since :=
             Some (case m_reduced_since (s_metrics s) of None \<Rightarrow> now | Some t \<Rightarrow> t)\<rparr>\<rparr>
           else case m_reduced_since (s_metrics s) of
             None \<Rightarrow> s
           | Some start \<Rightarrow> s\<lparr>s_metrics := (s_metrics s)\<lparr>m_reduced_since := None,
               m_reduced_risk_seconds :=
                 sat_i64 (m_reduced_risk_seconds (s_metrics s) + elapsed_seconds now start)\<rparr>\<rparr>))"

definition count_blocked :: "risk_state \<Rightarrow> risk_state" where
  "count_blocked s = s\<lparr>s_metrics := (s_metrics s)\<lparr>m_blocked_trades :=
     sat_add 64 (m_blocked_trades (s_metrics s)) 1\<rparr>\<rparr>"

definition reserve :: "proposed_trade \<Rightarrow> risk_decision \<Rightarrow> time \<Rightarrow> risk_state \<Rightarrow> risk_state" where
  "reserve t d now s =
     s\<lparr>s_attempted_requests := Set.insert (pt_request_id t) (s_attempted_requests s),
       s_reservations := bt_insert (pt_request_id t)
         \<lparr>r_request_id = pt_request_id t, r_setup_id = pt_setup_id t,
          r_risk = d_allowed_risk_amount d, r_volume = d_max_volume d,
          r_created_at = now, r_submitted = False\<rparr> (s_reservations s)\<rparr>"

definition mark_submitted :: "string \<Rightarrow> reservation \<Rightarrow> risk_state \<Rightarrow> risk_state" where
  "mark_submitted i r s = s\<lparr>s_reservations := bt_insert i (r\<lparr>r_submitted := True\<rparr>) (s_reservations s),
     s_needs_reconciliation := True\<rparr>"

definition release_request :: "string \<Rightarrow> risk_state \<Rightarrow> risk_state" where
  "release_request i s =
     s\<lparr>s_reservations := bt_remove i (s_reservations s), s_needs_reconciliation := True\<rparr>"

section \<open>Session methods\<close>

definition latch_stops :: "bool \<Rightarrow> bool \<Rightarrow> unit session_op" where
  "latch_stops account daily S = persist (update_state (latch account daily) S)"

definition session_on_execution :: "execution \<Rightarrow> unit session_op" where
  "session_on_execution ev S =
     (let (result, s1) = on_execution (rs_state S) ev in
      mbind (persist (S\<lparr>rs_state := s1\<rparr>)) (\<lambda>_ S1. (result, S1)))"

definition session_on_setup_closed :: "lib \<Rightarrow> string \<Rightarrow> time \<Rightarrow> bool \<Rightarrow> unit session_op" where
  "session_on_setup_closed L setup at_time terminal S =
     (let (result, s1) = on_setup_closed L (rs_state S) setup at_time terminal in
      mbind (persist (S\<lparr>rs_state := s1\<rparr>)) (\<lambda>_ S1. (result, S1)))"

definition disconnect_state :: "risk_state \<Rightarrow> risk_state" where
  "disconnect_state s = s\<lparr>s_invalidated_after := opt_max (s_invalidated_after s) (s_last_reconciled_at s),
     s_needs_reconciliation := True\<rparr>"

definition disconnect :: "unit session_op" where
  "disconnect S = persist (update_state disconnect_state S)"

definition reconcile :: "lib \<Rightarrow> loss_rule \<Rightarrow> account_snapshot \<Rightarrow> time \<Rightarrow> unit session_op" where
  "reconcile L rule a now S =
     mbind (persist (update_state (set_needs True) S)) (\<lambda>_ S1.
     let (result, s2) = apply_reconciliation L rule a now (rs_state S1) in
     mbind (result, S1\<lparr>rs_state := s2\<rparr>) (\<lambda>_ S2.
     persist (update_state (track_reduced L rule a now \<circ> set_needs False) S2)))"

record authorization =
  au_account_id :: string
  au_policy :: risk_policy
  au_request :: proposed_trade
  au_decision :: risk_decision

fun show_reason :: "risk_limit_reason \<Rightarrow> string" where
  "show_reason BaseRisk = ''BaseRisk''"
| "show_reason Streak = ''Streak''"
| "show_reason Drawdown = ''Drawdown''"
| "show_reason DailyBudget = ''DailyBudget''"
| "show_reason AccountBudget = ''AccountBudget''"
| "show_reason InvalidPolicy = ''InvalidPolicy''"
| "show_reason Reconciliation = ''Reconciliation''"
| "show_reason StaleData = ''StaleData''"
| "show_reason Disconnected = ''Disconnected''"
| "show_reason InvalidExposure = ''InvalidExposure''"
| "show_reason InvalidTrade = ''InvalidTrade''"
| "show_reason BelowMinimum = ''BelowMinimum''"
| "show_reason DailyLockout = ''DailyLockout''"
| "show_reason AccountLockout = ''AccountLockout''"
| "show_reason DuplicateRequest = ''DuplicateRequest''"

definition authorize ::
  "lib \<Rightarrow> loss_rule \<Rightarrow> account_snapshot \<Rightarrow> proposed_trade \<Rightarrow> time \<Rightarrow> authorization session_op" where
  "authorize L rule a t now S =
     (let s = rs_state S;
          d = evaluate_trade L (s_policy s) a t s rule now;
          S1 = update_state (track_reduced L rule a now \<circ>
                 (if d_approved d then id else count_blocked)) S in
      if \<not> d_approved d then
        mbind (persist S1) (\<lambda>_ S2.
          (Inl (Err (''risk blocked: ['' @ join '', '' (map show_reason (d_reasons d)) @ '']'')), S2))
      else
        mbind (persist (update_state (reserve t d now) S1)) (\<lambda>_ S2.
          (Inr \<lparr>au_account_id = s_account_id (rs_state S2), au_policy = s_policy (rs_state S2),
             au_request = t, au_decision = d\<rparr>, S2)))"

definition au_request_id :: "authorization \<Rightarrow> string" where
  "au_request_id au = pt_request_id (au_request au)"

definition validate_token :: "authorization \<Rightarrow> risk_state \<Rightarrow> unit res" where
  "validate_token au s =
     rbind (ensure (au_account_id au = s_account_id s \<and> au_policy au = s_policy s)
       ''authorization belongs to another account/policy'') (\<lambda>_.
     rbind (ok_or (bt_get (s_reservations s) (au_request_id au)) ''authorization missing'') (\<lambda>r.
     ensure (r_setup_id r = pt_setup_id (au_request au) \<and>
         r_risk r = d_allowed_risk_amount (au_decision au) \<and>
         r_volume r = d_max_volume (au_decision au))
       ''reservation does not match authorization''))"

text \<open>The refreshed trade may differ from the authorized one in four quote fields only.\<close>

definition same_terms :: "proposed_trade \<Rightarrow> proposed_trade \<Rightarrow> bool" where
  "same_terms t refreshed \<longleftrightarrow>
     t\<lparr>pt_estimate := (pt_estimate t)\<lparr>le_price := le_price (pt_estimate refreshed),
       le_conversion := le_conversion (pt_estimate refreshed),
       le_costs_per_unit := le_costs_per_unit (pt_estimate refreshed),
       le_fixed_costs := le_fixed_costs (pt_estimate refreshed)\<rparr>\<rparr> = refreshed"

text \<open>The second evaluation, on a copy of the state without this request.\<close>

definition without_request :: "string \<Rightarrow> risk_state \<Rightarrow> risk_state" where
  "without_request i s = s\<lparr>s_reservations := bt_remove i (s_reservations s),
     s_attempted_requests := s_attempted_requests s - {i}\<rparr>"

definition revalidate ::
  "lib \<Rightarrow> loss_rule \<Rightarrow> authorization \<Rightarrow> proposed_trade \<Rightarrow> account_snapshot \<Rightarrow> time \<Rightarrow>
   risk_state \<Rightarrow> unit res" where
  "revalidate L rule au refreshed a now s =
     (let check = without_request (au_request_id au) s;
          p = s_policy check;
          result = evaluate_trade L p a refreshed check rule now in
      rbind (rbind (loss L (pt_estimate refreshed) (d_max_volume (au_decision au))
               (ex_slippage_buffer_pct_of_risk (p_execution p)))
             (\<lambda>l. dmul L l (overlap_factor p refreshed))) (\<lambda>fresh_risk.
      ensure (d_approved result \<and> d_max_volume result \<ge> d_max_volume (au_decision au) \<and>
          fresh_risk \<le> d_allowed_risk_amount (au_decision au))
        ''authorization expired or risk increased''))"

definition before_submit ::
  "lib \<Rightarrow> loss_rule \<Rightarrow> authorization \<Rightarrow> proposed_trade \<Rightarrow> account_snapshot \<Rightarrow> time \<Rightarrow> unit session_op" where
  "before_submit L rule au refreshed a now S =
     mbind (validate_token au (rs_state S), S) (\<lambda>_ S.
     mbind (ensure (same_terms (au_request au) refreshed) ''immutable order terms changed'', S) (\<lambda>_ S.
     mbind (reconcile L rule a now S) (\<lambda>_ S1.
     mbind (revalidate L rule au refreshed a now (rs_state S1), S1) (\<lambda>_ S1.
     mbind (ok_or (bt_get (s_reservations (rs_state S1)) (au_request_id au)) ''authorization missing'', S1)
       (\<lambda>r S1.
     mbind (ensure (\<not> r_submitted r) ''request already submitted'', S1) (\<lambda>_ S1.
     persist (update_state (mark_submitted (au_request_id au) r) S1)))))))"

definition rejected_without_fill :: "authorization \<Rightarrow> unit session_op" where
  "rejected_without_fill au S =
     mbind (validate_token au (rs_state S), S) (\<lambda>_ S.
     persist (update_state (release_request (au_request_id au)) S))"

text \<open>A new process: the lock is taken again and the document is read back.\<close>

definition restart :: "lib \<Rightarrow> save_outcome list \<Rightarrow> session \<Rightarrow> session res" where
  "restart L faults S =
     begin_session L (s_account_id (rs_disk S)) (s_policy (rs_disk S)) faults
       \<lparr>dir_present = True, dir_locked = False, dir_document = Document (rs_disk S)\<rparr>"

end
