(* ===== verification/Risk_Safety.thy ===== *)
theory Risk_Safety
  imports Risk_Manager
begin

text \<open>
  What holds in every state a protected account can reach. The methods of a session are
  broken into elementary changes of the state; a property every change keeps (the locale
  \<open>kept\<close>) holds in memory and on disk after any sequence of method calls, failed
  saves and restarts.
\<close>

section \<open>Elementary changes\<close>

inductive state_change :: "lib \<Rightarrow> loss_rule \<Rightarrow> risk_state \<Rightarrow> risk_state \<Rightarrow> bool"
  for L :: lib and rule :: loss_rule where
  needs: "state_change L rule s (set_needs b s)"
| gone: "state_change L rule s (disconnect_state s)"
| executed: "state_change L rule s (snd (on_execution s ev))"
| closed: "state_change L rule s (snd (on_setup_closed L s i t b))"
| latched: "state_change L rule s (latch acc day s)"
| reconciled: "state_change L rule s (snd (apply_reconciliation L rule a now s))"
| metrics: "state_change L rule s (s\<lparr>s_metrics := m\<rparr>)"
| reserved: "d = evaluate_trade L (s_policy s) a t (s\<lparr>s_metrics := m\<rparr>) rule now \<Longrightarrow> d_approved d \<Longrightarrow>
    state_change L rule s (reserve t d now s)"
| submitted: "bt_get (s_reservations s) i = Some r \<Longrightarrow> \<not> r_submitted r \<Longrightarrow>
    state_change L rule s (mark_submitted i r s)"
| released: "state_change L rule s (release_request i s)"

abbreviation changes :: "lib \<Rightarrow> loss_rule \<Rightarrow> risk_state \<Rightarrow> risk_state \<Rightarrow> bool" where
  "changes L rule \<equiv> (state_change L rule)\<^sup>*\<^sup>*"

text \<open>
  The trace of a method: memory evolves by changes, and what it leaves on disk is either
  the old document or a state it went through.
\<close>

definition traced :: "lib \<Rightarrow> loss_rule \<Rightarrow> session \<Rightarrow> session \<Rightarrow> bool" where
  "traced L rule S S' \<longleftrightarrow> changes L rule (rs_state S) (rs_state S') \<and>
     (rs_disk S' = rs_disk S \<or> changes L rule (rs_state S) (rs_disk S') \<and>
        changes L rule (rs_disk S') (rs_state S'))"

lemma changes_one: "state_change L rule s t \<Longrightarrow> changes L rule s t"
  by (rule r_into_rtranclp)

lemma traced_refl [intro]: "traced L rule S S"
  by (simp add: traced_def)

lemma traced_trans: "traced L rule S T \<Longrightarrow> traced L rule T U \<Longrightarrow> traced L rule S U"
  unfolding traced_def by (auto intro: rtranclp_trans)

lemma traced_persist: "traced L rule S (snd (persist S))"
  by (auto simp: persist_def traced_def split: list.splits save_outcome.splits
      intro: changes_one state_change.needs)

lemma traced_update: "changes L rule (rs_state S) (f (rs_state S)) \<Longrightarrow> traced L rule S (update_state f S)"
  by (auto simp: traced_def update_state_def)

lemma traced_state: "changes L rule (rs_state S) s \<Longrightarrow> traced L rule S (S\<lparr>rs_state := s\<rparr>)"
  by (auto simp: traced_def)

lemma traced_update_persist:
  "changes L rule (rs_state S) (f (rs_state S)) \<Longrightarrow> traced L rule S (snd (persist (update_state f S)))"
  by (rule traced_trans [OF traced_update traced_persist])

lemma traced_mbind:
  assumes "traced L rule S (snd m)" and "\<And>x. fst m = Inr x \<Longrightarrow> traced L rule (snd m) (snd (k x (snd m)))"
  shows "traced L rule S (snd (mbind m k))"
  using assms by (cases "fst m") (auto simp: mbind_def intro: traced_trans)

lemma change_track: "changes L rule s (track_reduced L rule' a now s)"
  using state_change.metrics [of L rule s]
  by (auto simp: track_reduced_def split: sum.splits option.splits intro!: changes_one)

lemma change_count: "changes L rule s (count_blocked s)"
  using state_change.metrics [of L rule s] by (auto simp: count_blocked_def intro!: changes_one)

lemma traced_latch_stops: "traced L rule S (snd (latch_stops acc day S))"
  unfolding latch_stops_def by (intro traced_update_persist changes_one state_change.latched)

lemma traced_disconnect: "traced L rule S (snd (disconnect S))"
  unfolding disconnect_def by (intro traced_update_persist changes_one state_change.gone)

lemma snd_mbind_const [simp]: "snd (mbind m (\<lambda>_ S. (r, S))) = snd m"
  by (simp add: mbind_def split: sum.split)

lemma traced_state_persist:
  "changes L rule (rs_state S) s \<Longrightarrow> traced L rule S (snd (persist (S\<lparr>rs_state := s\<rparr>)))"
  by (rule traced_trans [OF traced_state traced_persist])

lemma traced_on_execution: "traced L rule S (snd (session_on_execution ev S))"
  by (auto simp: session_on_execution_def case_prod_beta
      intro!: traced_state_persist changes_one state_change.executed)

lemma traced_on_setup_closed: "traced L rule S (snd (session_on_setup_closed L i t b S))"
  by (auto simp: session_on_setup_closed_def case_prod_beta
      intro!: traced_state_persist changes_one state_change.closed)

lemma traced_reconcile: "traced L rule S (snd (reconcile L rule a now S))"
  unfolding reconcile_def
proof (rule traced_mbind)
  show "traced L rule S (snd (persist (update_state (set_needs True) S)))"
    by (intro traced_update_persist changes_one state_change.needs)
next
  fix u
  define S1 where "S1 = snd (persist (update_state (set_needs True) S))"
  define S2 where "S2 = S1\<lparr>rs_state := snd (apply_reconciliation L rule a now (rs_state S1))\<rparr>"
  have "changes L rule s ((track_reduced L rule a now \<circ> set_needs False) s)" for s
    by (auto intro: rtranclp_trans [OF changes_one change_track] state_change.needs)
  then have "traced L rule S2 (snd (persist (update_state (track_reduced L rule a now \<circ> set_needs False) S2)))"
    by (rule traced_update_persist)
  moreover have "traced L rule S1 S2"
    unfolding S2_def by (intro traced_state changes_one state_change.reconciled)
  ultimately show "traced L rule S1 (snd (let (result, s2) = apply_reconciliation L rule a now (rs_state S1)
      in mbind (result, S1\<lparr>rs_state := s2\<rparr>) (\<lambda>_ S2.
         persist (update_state (track_reduced L rule a now \<circ> set_needs False) S2))))"
    by (auto simp: S2_def mbind_def split: prod.splits sum.splits intro: traced_trans)
qed

lemma metrics_insensitive:
  "track_reduced L rule a now s = s\<lparr>s_metrics := s_metrics (track_reduced L rule a now s)\<rparr>"
  by (auto simp: track_reduced_def split: sum.splits option.splits)

lemma traced_authorize: "traced L rule S (snd (authorize L rule a t now S))"
proof -
  let ?s = "rs_state S"
  let ?d = "evaluate_trade L (s_policy ?s) a t ?s rule now"
  let ?s1 = "track_reduced L rule a now ?s"
  have count: "changes L rule ?s (track_reduced L rule a now (count_blocked ?s))"
    by (rule rtranclp_trans [OF change_count change_track])
  have "changes L rule ?s1 (reserve t ?d now ?s1)" if "d_approved ?d"
  proof -
    have "s_policy ?s1 = s_policy ?s" "?s1\<lparr>s_metrics := s_metrics ?s\<rparr> = ?s"
      using metrics_insensitive [of L rule a now ?s]
      by (metis risk_state.select_convs(3) risk_state.update_convs(19) risk_state.surjective)
        (metis (no_types) metrics_insensitive risk_state.surjective risk_state.update_convs(19))
    then show ?thesis using that
      by (auto intro!: changes_one state_change.reserved [where a = a and m = "s_metrics ?s"])
  qed
  then have "changes L rule ?s (reserve t ?d now ?s1)" if "d_approved ?d"
    using that by (auto intro: rtranclp_trans [OF change_track])
  with count show ?thesis
    by (auto simp: authorize_def Let_def update_state_def comp_def
        intro!: traced_mbind traced_state_persist)
qed

lemma traced_check:
  "(\<And>x. r = Inr x \<Longrightarrow> traced L rule S (snd (k x S))) \<Longrightarrow> traced L rule S (snd (mbind (r, S) k))"
  by (cases r) (auto simp: mbind_def)

lemma traced_then:
  "traced L rule S (snd m) \<Longrightarrow> (\<And>x T. traced L rule T (snd (k x T))) \<Longrightarrow> traced L rule S (snd (mbind m k))"
  by (rule traced_mbind)

lemma traced_submit:
  "ok_or (bt_get (s_reservations (rs_state S)) i) msg = Inr r \<Longrightarrow> ensure (\<not> r_submitted r) msg' = Inr u \<Longrightarrow>
     traced L rule S (snd (persist (update_state (mark_submitted i r) S)))"
  by (intro traced_update_persist changes_one state_change.submitted) auto

lemma traced_before_submit: "traced L rule S (snd (before_submit L rule au t a now S))"
  unfolding before_submit_def
  by (rule traced_check, rule traced_check, rule traced_then [OF traced_reconcile],
      rule traced_check, rule traced_check, rule traced_check, rule traced_submit)

lemma traced_rejected: "traced L rule S (snd (rejected_without_fill au S))"
  unfolding rejected_without_fill_def
  by (rule traced_check, intro traced_update_persist changes_one state_change.released)

section \<open>Reachable sessions\<close>

inductive session_step :: "lib \<Rightarrow> loss_rule \<Rightarrow> session \<Rightarrow> session \<Rightarrow> bool"
  for L :: lib and rule :: loss_rule where
  stops: "session_step L rule S (snd (latch_stops acc day S))"
| execution: "session_step L rule S (snd (session_on_execution ev S))"
| closing: "session_step L rule S (snd (session_on_setup_closed L i t b S))"
| disconnecting: "session_step L rule S (snd (disconnect S))"
| reconciling: "session_step L rule S (snd (reconcile L rule a now S))"
| authorizing: "session_step L rule S (snd (authorize L rule a t now S))"
| submitting: "session_step L rule S (snd (before_submit L rule au t a now S))"
| rejecting: "session_step L rule S (snd (rejected_without_fill au S))"
| restarting: "restart L faults S = Inr S' \<Longrightarrow> session_step L rule S S'"

abbreviation session_run :: "lib \<Rightarrow> loss_rule \<Rightarrow> session \<Rightarrow> session \<Rightarrow> bool" where
  "session_run L rule \<equiv> (session_step L rule)\<^sup>*\<^sup>*"

lemmas traced_methods = traced_latch_stops traced_on_execution traced_on_setup_closed
  traced_disconnect traced_reconcile traced_authorize traced_before_submit traced_rejected

lemma session_step_cases:
  "session_step L rule S S' \<Longrightarrow>
     traced L rule S S' \<or> rs_state S' = set_needs True (rs_disk S) \<and> rs_disk S' = rs_disk S"
  by (erule session_step.cases)
    (auto intro: traced_methods simp: restart_def begin_session_def lock_dir_def
      load_document_def result_simps set_needs_def)

text \<open>
  A property of states that every elementary change keeps. Its clients get that it
  survives method calls, failed saves and restarts, provided it holds both in memory and
  in the document.
\<close>

locale kept =
  fixes L :: lib and rule :: loss_rule and P :: "risk_state \<Rightarrow> bool"
  assumes kept_change: "state_change L rule s t \<Longrightarrow> P s \<Longrightarrow> P t"
begin

definition both :: "session \<Rightarrow> bool" where
  "both S \<longleftrightarrow> P (rs_state S) \<and> P (rs_disk S)"

lemma kept_changes: "changes L rule s t \<Longrightarrow> P s \<Longrightarrow> P t"
  by (induction rule: rtranclp_induct) (auto intro: kept_change)

lemma kept_traced: "traced L rule S S' \<Longrightarrow> both S \<Longrightarrow> both S'"
  unfolding traced_def both_def using kept_changes by metis

lemma kept_step: "session_step L rule S S' \<Longrightarrow> both S \<Longrightarrow> both S'"
  using session_step_cases [of L rule S S'] kept_traced [of S S']
    kept_change [OF state_change.needs, of "rs_disk S" True]
  by (auto simp: both_def)

lemma kept_run: "session_run L rule S S' \<Longrightarrow> both S \<Longrightarrow> both S'"
  by (induction rule: rtranclp_induct) (auto intro: kept_step)

lemma kept_state: "session_run L rule S S' \<Longrightarrow> P (rs_state S) \<Longrightarrow> P (rs_disk S) \<Longrightarrow> P (rs_state S')"
  using kept_run [of S S'] by (simp add: both_def)

end

section \<open>Frame facts of the changes\<close>

lemma trip_breaker_frame [simp]:
  "s_account_locked (trip_breaker s) = s_account_locked s"
  "s_daily_locked (trip_breaker s) = s_daily_locked s"
  "s_reservations (trip_breaker s) = s_reservations s"
  "s_attempted_requests (trip_breaker s) = s_attempted_requests s"
  "s_account_id (trip_breaker s) = s_account_id s" "s_policy (trip_breaker s) = s_policy s"
  "s_executions (trip_breaker s) = s_executions s" "s_outcomes (trip_breaker s) = s_outcomes s"
  "s_consecutive_losses (trip_breaker s) = s_consecutive_losses s"
  "s_invalidated_after (trip_breaker s) = s_invalidated_after s"
  "s_equity_high (trip_breaker s) = s_equity_high s"
  "s_balance_high (trip_breaker s) = s_balance_high s"
  "s_initial_balance (trip_breaker s) = s_initial_balance s"
  "s_day (trip_breaker s) = s_day s"
  "s_needs_reconciliation (trip_breaker s) = s_needs_reconciliation s"
  by (simp_all add: trip_breaker_def)

lemmas change_defs = set_needs_def disconnect_state_def latch_def apply_reconciliation_def
  adopt_snapshot_def trip_floors_def reserve_def mark_submitted_def release_request_def Let_def

lemma latch_frame [frame_simps]:
  "s_account_id (latch acc day s) = s_account_id s" "s_policy (latch acc day s) = s_policy s"
  "s_attempted_requests (latch acc day s) = s_attempted_requests s"
  "s_reservations (latch acc day s) = s_reservations s"
  "s_executions (latch acc day s) = s_executions s" "s_outcomes (latch acc day s) = s_outcomes s"
  "s_consecutive_losses (latch acc day s) = s_consecutive_losses s"
  "s_initial_balance (latch acc day s) = s_initial_balance s"
  "s_invalidated_after (latch acc day s) = s_invalidated_after s"
  "s_account_locked (latch acc day s) \<longleftrightarrow> s_account_locked s \<or> acc"
  "s_daily_locked (latch acc day s) \<longleftrightarrow> s_daily_locked s \<or> day"
  by (simp_all add: latch_def Let_def)

lemma trip_floors_frame [frame_simps]:
  "s_account_id (trip_floors f a s) = s_account_id s" "s_policy (trip_floors f a s) = s_policy s"
  "s_attempted_requests (trip_floors f a s) = s_attempted_requests s"
  "s_reservations (trip_floors f a s) = s_reservations s"
  "s_executions (trip_floors f a s) = s_executions s" "s_outcomes (trip_floors f a s) = s_outcomes s"
  "s_consecutive_losses (trip_floors f a s) = s_consecutive_losses s"
  "s_initial_balance (trip_floors f a s) = s_initial_balance s"
  "s_invalidated_after (trip_floors f a s) = s_invalidated_after s"
  "s_needs_reconciliation (trip_floors f a s) = s_needs_reconciliation s"
  "s_day (trip_floors f a s) = s_day s" "s_equity_high (trip_floors f a s) = s_equity_high s"
  "s_account_locked (trip_floors f a s) \<longleftrightarrow>
     s_account_locked s \<or> a_equity a \<le> t_internal_account_floor f"
  "s_daily_locked (trip_floors f a s) \<longleftrightarrow>
     s_daily_locked s \<or> a_equity a \<le> t_internal_daily_floor f"
  by (auto simp: trip_floors_def Let_def)

lemma adopt_snapshot_frame [frame_simps]:
  "s_account_id (adopt_snapshot a s) = s_account_id s" "s_policy (adopt_snapshot a s) = s_policy s"
  "s_attempted_requests (adopt_snapshot a s) = s_attempted_requests s"
  "s_reservations (adopt_snapshot a s)
     = bt_retain (\<lambda>i _. i \<notin> a_resolved_requests a) (s_reservations s)"
  "s_executions (adopt_snapshot a s) = s_executions s" "s_outcomes (adopt_snapshot a s) = s_outcomes s"
  "s_consecutive_losses (adopt_snapshot a s) = s_consecutive_losses s"
  "s_initial_balance (adopt_snapshot a s) = s_initial_balance s"
  "s_invalidated_after (adopt_snapshot a s) = s_invalidated_after s"
  "s_needs_reconciliation (adopt_snapshot a s) = s_needs_reconciliation s"
  "s_account_locked (adopt_snapshot a s) = s_account_locked s"
  by (simp_all add: adopt_snapshot_def Let_def)

text \<open>The state a reconciliation leaves: untouched, adopted, or adopted with the floors checked.\<close>

lemma apply_reconciliation_cases:
  obtains e where "apply_reconciliation L rule a now s = (Inl e, s)"
  | e where "apply_reconciliation L rule a now s = (Inl e, adopt_snapshot a s)"
  | f where "apply_reconciliation L rule a now s =
      (Inr (), (trip_floors f a (adopt_snapshot a s))\<lparr>s_last_sequence := Some (a_sequence a),
         s_last_reconciled_at := Some (a_observed_at a)\<rparr>)"
      "rule (s_policy s) (adopt_snapshot a s) a = Inr f" "reconcile_checks L a now s = Inr ()"
proof (cases "reconcile_checks L a now s")
  case (Inl e)
  then show thesis using that(1) by (simp add: apply_reconciliation_def)
next
  case (Inr u)
  then show thesis using that(2,3)
    by (cases "rule (s_policy s) (adopt_snapshot a s) a")
      (auto simp: apply_reconciliation_def frame_simps Let_def)
qed

lemma apply_reconciliation_frame [frame_simps]:
  "s_account_id (snd (apply_reconciliation L rule a now s)) = s_account_id s"
  "s_policy (snd (apply_reconciliation L rule a now s)) = s_policy s"
  "s_attempted_requests (snd (apply_reconciliation L rule a now s)) = s_attempted_requests s"
  "s_executions (snd (apply_reconciliation L rule a now s)) = s_executions s"
  "s_outcomes (snd (apply_reconciliation L rule a now s)) = s_outcomes s"
  "s_consecutive_losses (snd (apply_reconciliation L rule a now s)) = s_consecutive_losses s"
  "s_initial_balance (snd (apply_reconciliation L rule a now s)) = s_initial_balance s"
  "s_invalidated_after (snd (apply_reconciliation L rule a now s)) = s_invalidated_after s"
  "s_needs_reconciliation (snd (apply_reconciliation L rule a now s)) = s_needs_reconciliation s"
  by (rule apply_reconciliation_cases [of L rule a now s]; simp add: frame_simps)+

lemma apply_reconciliation_keeps:
  "s_account_locked s \<Longrightarrow> s_account_locked (snd (apply_reconciliation L rule a now s))"
  "s_reservations (snd (apply_reconciliation L rule a now s)) = s_reservations s \<or>
   s_reservations (snd (apply_reconciliation L rule a now s))
     = bt_retain (\<lambda>i _. i \<notin> a_resolved_requests a) (s_reservations s)"
  by (rule apply_reconciliation_cases [of L rule a now s]; simp add: frame_simps)+

lemmas small_change_defs = set_needs_def disconnect_state_def reserve_def mark_submitted_def
  release_request_def

inductive_cases state_changeE: "state_change L rule s t"

lemma change_static:
  "state_change L rule s t \<Longrightarrow> s_account_id t = s_account_id s \<and> s_policy t = s_policy s \<and>
     s_attempted_requests s \<subseteq> s_attempted_requests t \<and>
     (s_account_locked s \<longrightarrow> s_account_locked t) \<and> s_initial_balance t = s_initial_balance s"
  by (erule state_changeE)
    (simp_all add: small_change_defs frame_simps apply_reconciliation_keeps subset_insertI)

interpretation locked: kept L rule s_account_locked
  using change_static by unfold_locales blast

interpretation attempted: kept L rule "\<lambda>s. i \<in> s_attempted_requests s"
  using change_static by unfold_locales blast

interpretation identity: kept L rule "\<lambda>s. s_account_id s = x \<and> s_policy s = p"
  using change_static by unfold_locales auto

text \<open>The state invariant.\<close>

definition state_inv :: "risk_state \<Rightarrow> bool" where
  "state_inv s \<longleftrightarrow> ledger_inv s \<and> bt_inv (s_reservations s) \<and>
     fst ` set (s_reservations s) \<subseteq> s_attempted_requests s"

lemma state_inv_enroll: "enroll L i bal d p = Inr s \<Longrightarrow> state_inv s"
  using ledger_inv_enroll by (auto simp: state_inv_def enroll_def result_simps)

lemma change_ledger:
  "state_change L rule s t \<Longrightarrow> ledger_inv s \<Longrightarrow> ledger_inv t"
  by (erule state_changeE)
    (simp_all add: ledger_inv_on_execution ledger_inv_on_setup_closed,
     simp_all add: ledger_inv_def small_change_defs frame_simps)

lemma retain_keys: "fst ` set (bt_retain p m) \<subseteq> fst ` set m"
  by (auto simp: bt_retain_def)

lemma remove_keys: "fst ` set (bt_remove i m) \<subseteq> fst ` set m"
  by (auto simp: bt_remove_def)

lemma change_reservations:
  assumes "state_change L rule s t" and inv: "bt_inv (s_reservations s)"
  shows "bt_inv (s_reservations t) \<and>
     fst ` set (s_reservations t) \<subseteq> fst ` set (s_reservations s) \<union> s_attempted_requests t"
  using assms(1)
proof (rule state_changeE)
  fix a now
  assume t: "t = snd (apply_reconciliation L rule a now s)"
  then show ?thesis
    using apply_reconciliation_keeps(2) [of L rule a now s] inv retain_keys
    by (metis bt_inv_retain le_supI1 order_refl)
qed (use inv remove_keys in \<open>auto simp: small_change_defs frame_simps bt_inv_insert bt_inv_remove
      bt_remove_def bt_inv_filter set_bt_insert_keys dest: bt_get_key\<close>)

interpretation inv: kept L rule state_inv
proof
  fix s t assume c: "state_change L rule s t" and "state_inv s"
  then show "state_inv t"
    using change_ledger [OF c] change_reservations [OF c] change_static [OF c]
    unfolding state_inv_def by blast
qed

text \<open>A request is spent once it was attempted and its reservation, if any, was submitted.\<close>

definition spent :: "string \<Rightarrow> risk_state \<Rightarrow> bool" where
  "spent i s \<longleftrightarrow> i \<in> s_attempted_requests s \<and> bt_inv (s_reservations s) \<and>
     (\<forall>r. bt_get (s_reservations s) i = Some r \<longrightarrow> r_submitted r)"

lemma spent_retain:
  "spent i s \<Longrightarrow> s_attempted_requests t = s_attempted_requests s \<Longrightarrow>
     s_reservations t = s_reservations s \<or> s_reservations t = bt_retain p (s_reservations s) \<Longrightarrow> spent i t"
  by (auto simp: spent_def bt_inv_retain bt_get_retain split: option.splits if_splits)

interpretation spent: kept L rule "spent i"
proof
  fix s t assume c: "state_change L rule s t" and s: "spent i s"
  from c show "spent i t"
  proof (rule state_changeE)
    fix a now assume "t = snd (apply_reconciliation L rule a now s)"
    then show ?thesis
      using spent_retain [OF s] apply_reconciliation_keeps(2) [of L rule a now s]
      by (metis apply_reconciliation_frame(3))
  next
    fix a tr m now
    let ?d = "evaluate_trade L (s_policy s) a tr (s\<lparr>s_metrics := m\<rparr>) rule now"
    assume t: "t = reserve tr ?d now s" and ok: "d_approved ?d"
    have "pt_request_id tr \<noteq> i"
      using s evaluate_approvedD(7) [OF ok] by (auto simp: spent_def)
    with s show ?thesis
      by (auto simp: t spent_def reserve_def bt_inv_insert bt.lookup_insert)
  qed (use s in \<open>auto simp: spent_def small_change_defs frame_simps bt_inv_insert bt_inv_remove
        bt.lookup_insert bt.lookup_remove split: if_splits\<close>)
qed

text \<open>A request is released once it was attempted and holds no reservation any more.\<close>

definition released :: "string \<Rightarrow> risk_state \<Rightarrow> bool" where
  "released i s \<longleftrightarrow> i \<in> s_attempted_requests s \<and> bt_inv (s_reservations s) \<and>
     bt_get (s_reservations s) i = None"

interpretation gone: kept L rule "released i"
proof
  fix s t assume c: "state_change L rule s t" and s: "released i s"
  from c show "released i t"
  proof (rule state_changeE)
    fix a now assume "t = snd (apply_reconciliation L rule a now s)"
    then show ?thesis
      using s apply_reconciliation_keeps(2) [of L rule a now s]
      by (auto simp: released_def frame_simps bt_inv_retain bt_get_retain split: option.splits)
  next
    fix a tr m now
    let ?d = "evaluate_trade L (s_policy s) a tr (s\<lparr>s_metrics := m\<rparr>) rule now"
    assume t: "t = reserve tr ?d now s" and ok: "d_approved ?d"
    have "pt_request_id tr \<noteq> i"
      using s evaluate_approvedD(7) [OF ok] by (auto simp: released_def)
    with s show ?thesis
      by (auto simp: t released_def reserve_def bt_inv_insert bt.lookup_insert)
  qed (use s in \<open>auto simp: released_def small_change_defs frame_simps bt_inv_insert bt_inv_remove
        bt.lookup_insert bt.lookup_remove split: if_splits\<close>)
qed

text \<open>Snapshots observed up to some instant are rejected for good.\<close>

definition invalid_upto :: "time \<Rightarrow> risk_state \<Rightarrow> bool" where
  "invalid_upto t s \<longleftrightarrow> (\<exists>u. s_invalidated_after s = Some u \<and> t \<le> u)"

lemma invalid_upto_on_execution: "invalid_upto t s \<Longrightarrow> invalid_upto t (snd (on_execution s ev))"
  using foldr_max_ge(2)
  by (auto simp: invalid_upto_def ledger_defs opt_list_def le_max_iff_disj split: option.splits)

interpretation invalidated: kept L rule "invalid_upto t"
proof
  fix s s' assume c: "state_change L rule s s'" and s: "invalid_upto t s"
  from c show "invalid_upto t s'"
    by (rule state_changeE)
      (use s in \<open>auto simp: invalid_upto_on_execution\<close>,
       use s in \<open>auto simp: invalid_upto_def small_change_defs frame_simps opt_max_def
         split: option.splits\<close>)
qed

text \<open>A recorded execution or outcome is never altered.\<close>

definition execution_fixed :: "string \<Rightarrow> execution \<Rightarrow> risk_state \<Rightarrow> bool" where
  "execution_fixed k e s \<longleftrightarrow> bt_inv (s_executions s) \<and> bt_get (s_executions s) k = Some e"

interpretation history: kept L rule "execution_fixed k e"
proof
  fix s s' assume c: "state_change L rule s s'" and s: "execution_fixed k e s"
  from c show "execution_fixed k e s'"
    by (rule state_changeE)
      (use s in \<open>auto simp: execution_fixed_def on_execution_keeps on_execution_inv
         small_change_defs frame_simps\<close>)
qed

section \<open>Successful methods\<close>

lemma mbind_ok: "mbind m k = (Inr y, T) \<longleftrightarrow> (\<exists>x S. m = (Inr x, S) \<and> k x S = (Inr y, T))"
  by (cases m; cases "fst m") (auto simp: mbind_def)

lemma persist_ok: "persist S = (Inr u, T) \<Longrightarrow> rs_disk T = rs_state S \<and> rs_state T = rs_state S"
  by (auto simp: persist_def split: list.splits save_outcome.splits)

lemma persist_failed: "persist S = (Inl e, T) \<Longrightarrow> s_needs_reconciliation (rs_state T)"
  by (auto simp: persist_def set_needs_def split: list.splits save_outcome.splits)

lemma authorize_ok:
  assumes "authorize L rule a t now S = (Inr au, T)"
  defines "d \<equiv> evaluate_trade L (s_policy (rs_state S)) a t (rs_state S) rule now"
  shows "d_approved d" and "au_request au = t" and "au_decision au = d"
    and "rs_disk T = rs_state T"
    and "rs_state T = reserve t d now (track_reduced L rule a now (rs_state S))"
    and "au_account_id au = s_account_id (rs_state T)" and "au_policy au = s_policy (rs_state T)"
  using assms(1) unfolding d_def
  by (auto simp: authorize_def Let_def mbind_ok update_state_def split: if_splits dest!: persist_ok)

lemma reconcile_ok:
  assumes "reconcile L rule a now S = (Inr u, T)"
  obtains s where "apply_reconciliation L rule a now (set_needs True (rs_state S)) = (Inr (), s)"
    and "rs_state T = track_reduced L rule a now (set_needs False s)" and "rs_disk T = rs_state T"
proof -
  from assms obtain S1 where S1: "persist (update_state (set_needs True) S) = (Inr (), S1)"
    and rest: "(let (result, s2) = apply_reconciliation L rule a now (rs_state S1) in
      mbind (result, S1\<lparr>rs_state := s2\<rparr>) (\<lambda>_ S2.
        persist (update_state (track_reduced L rule a now \<circ> set_needs False) S2))) = (Inr u, T)"
    by (auto simp: reconcile_def mbind_ok)
  obtain r s2 where ap: "apply_reconciliation L rule a now (rs_state S1) = (r, s2)" by fastforce
  from rest have r: "r = Inr ()"
    and last: "persist (update_state (track_reduced L rule a now \<circ> set_needs False)
        (S1\<lparr>rs_state := s2\<rparr>)) = (Inr u, T)"
    by (auto simp: ap mbind_ok)
  show thesis
    using that [of s2] ap r persist_ok [OF S1] persist_ok [OF last] by (simp add: update_state_def)
qed

end
