(* ===== verification/Risk_Example.thy ===== *)
theory Risk_Example
  imports Risk_Safety
begin

text \<open>
  A concrete protected account for the witnesses: the default policy on a UTC calendar,
  an account of 10000 enrolled, reconciled once, and one long trade risking one unit of
  account currency per volume unit.
\<close>

definition ex_calendar :: trading_calendar where
  "ex_calendar = \<lparr>cal_timezone = ''UTC'', cal_reset_time = 0\<rparr>"

definition ex_policy :: risk_policy where
  "ex_policy = default_policy\<lparr>p_calendar := ex_calendar\<rparr>"

definition ex_day :: day_reference where
  "ex_day = \<lparr>dr_day = \<lparr>day_start = 0, day_end = 86400000000000\<rparr>,
     dr_balance = 10000, dr_equity = 10000\<rparr>"

definition ex_enrolled :: risk_state where
  "ex_enrolled = \<lparr>s_schema = 1, s_account_id = ''acct'', s_policy = ex_policy,
     s_initial_balance = 10000, s_balance_high = 10000, s_equity_high = 10000, s_day = ex_day,
     s_daily_locked = False, s_account_locked = False, s_consecutive_losses = 0,
     s_reservations = [], s_attempted_requests = {}, s_executions = [], s_outcomes = [],
     s_last_sequence = None, s_last_reconciled_at = None, s_needs_reconciliation = True,
     s_invalidated_after = None, s_metrics = default_metrics\<rparr>"

definition ex_snapshot :: "nat \<Rightarrow> time \<Rightarrow> account_snapshot" where
  "ex_snapshot n t = \<lparr>a_account_id = ''acct'', a_observed_at = t, a_quote_at = t,
     a_balance = 10000, a_equity = 10000, a_connected = True, a_complete = True, a_sequence = n,
     a_day_reference = ex_day, a_balance_high = 10000, a_equity_high = 10000, a_exposures = [],
     a_resolved_requests = {}, a_setups_reconciled = True\<rparr>"

definition ex_snap1 :: account_snapshot where "ex_snap1 = ex_snapshot 1 1000"
definition ex_snap2 :: account_snapshot where "ex_snap2 = ex_snapshot 2 2000"
definition ex_snap3 :: account_snapshot where "ex_snap3 = ex_snapshot 3 3000"

definition ex_rule :: loss_rule where
  "ex_rule = standard_loss_rule utc_lib"

definition in_sync :: "risk_state \<Rightarrow> session" where
  "in_sync s = \<lparr>rs_state = s, rs_disk = s, rs_faults = []\<rparr>"

definition ex_reconciled_state :: risk_state where
  "ex_reconciled_state = ex_enrolled\<lparr>s_needs_reconciliation := False, s_last_sequence := Some 1,
     s_last_reconciled_at := Some 1000\<rparr>"

definition ex_trade :: proposed_trade where
  "ex_trade = \<lparr>pt_instrument_id = ''EURUSD'', pt_overlapping = False, pt_request_id = ''r1'',
     pt_strategy_id = ''hs'', pt_setup_id = ''s1'',
     pt_estimate = \<lparr>le_side = Buy, le_price = 100, le_stop = Some 99, le_contract_size = 1,
       le_conversion = 1, le_costs_per_unit = 0, le_fixed_costs = 0, le_is_open_position = False\<rparr>,
     pt_volume = \<lparr>vl_min = 1, vl_max = 1000, vl_step = 1\<rparr>,
     pt_requested_volume = 50, pt_requested_risk = 100\<rparr>"

definition ex_reservation :: reservation where
  "ex_reservation = \<lparr>r_request_id = ''r1'', r_setup_id = ''s1'', r_risk = 60, r_volume = 50,
     r_created_at = 1000, r_submitted = False\<rparr>"

definition ex_authorized_state :: risk_state where
  "ex_authorized_state = ex_reconciled_state\<lparr>s_attempted_requests := {''r1''},
     s_reservations := [(''r1'', ex_reservation)]\<rparr>"

definition ex_decision :: risk_decision where
  "ex_decision = evaluate_trade utc_lib ex_policy ex_snap1 ex_trade ex_reconciled_state ex_rule 1000"

definition ex_au :: authorization where
  "ex_au = \<lparr>au_account_id = ''acct'', au_policy = ex_policy, au_request = ex_trade,
     au_decision = ex_decision\<rparr>"

definition ex_reconciled_again :: risk_state where
  "ex_reconciled_again = ex_authorized_state\<lparr>s_last_sequence := Some 2,
     s_last_reconciled_at := Some 2000\<rparr>"

definition ex_submitted_state :: risk_state where
  "ex_submitted_state = ex_authorized_state\<lparr>
     s_reservations := [(''r1'', ex_reservation\<lparr>r_submitted := True\<rparr>)],
     s_last_sequence := Some 2, s_last_reconciled_at := Some 2000, s_needs_reconciliation := True\<rparr>"

lemma in_sync_simps [simp]: "rs_state (in_sync s) = s" "rs_disk (in_sync s) = s"
  by (simp_all add: in_sync_def)

lemma mbind_Inr: "mbind (Inr x, S) f = f x S"
  by (simp add: mbind_def)

lemma persist_in_sync: "persist (update_state f (in_sync s)) = (Inr (), in_sync (f s))"
  by (simp add: persist_def update_state_def in_sync_def)

lemma ex_policy_valid: "policy_validate utc_lib ex_policy = Inr ()"
  by code_simp

lemma ex_enrolled_ok: "enroll utc_lib ''acct'' 10000 ex_day ex_policy = Inr ex_enrolled"
  by code_simp

lemma ex_reconciled:
  "reconcile utc_lib ex_rule ex_snap1 1000 (in_sync ex_enrolled) = (Inr (), in_sync ex_reconciled_state)"
  by code_simp

lemma ex_authorized:
  "authorize utc_lib ex_rule ex_snap1 ex_trade 1000 (in_sync ex_reconciled_state)
     = (Inr ex_au, in_sync ex_authorized_state)"
  by code_simp

lemma ex_reconciled_again:
  "reconcile utc_lib ex_rule ex_snap2 2000 (in_sync ex_authorized_state)
     = (Inr (), in_sync ex_reconciled_again)"
  by code_simp

lemma ex_token: "validate_token ex_au ex_authorized_state = Inr ()"
  by code_simp

lemma ex_revalidated:
  "revalidate utc_lib ex_rule ex_au ex_trade ex_snap2 2000 ex_reconciled_again = Inr ()"
  by code_simp

lemma ex_submitted:
  "before_submit utc_lib ex_rule ex_au ex_trade ex_snap2 2000 (in_sync ex_authorized_state)
     = (Inr (), in_sync ex_submitted_state)"
proof -
  have t: "same_terms (au_request ex_au) ex_trade" by (simp add: same_terms_def ex_au_def)
  have g: "bt_get (s_reservations ex_reconciled_again) ''r1'' = Some ex_reservation"
    by (simp add: ex_reconciled_again_def ex_authorized_state_def bt_get_def)
  have i: "au_request_id ex_au = ''r1''" by (simp add: au_request_id_def ex_au_def ex_trade_def)
  have m: "mark_submitted ''r1'' ex_reservation ex_reconciled_again = ex_submitted_state"
    by (simp add: mark_submitted_def ex_reconciled_again_def ex_authorized_state_def ex_submitted_state_def)
  show ?thesis
    using t g i m by (simp add: before_submit_def mbind_Inr ex_token ex_reconciled_again ex_revalidated
        ensure_def ex_reservation_def persist_in_sync)
qed

lemma ex_run: "session_run utc_lib ex_rule (in_sync ex_enrolled) (in_sync ex_authorized_state)"
proof -
  have "session_step utc_lib ex_rule (in_sync ex_enrolled) (in_sync ex_reconciled_state)"
    using session_step.reconciling [of utc_lib ex_rule "in_sync ex_enrolled" ex_snap1 1000]
    by (simp only: ex_reconciled snd_conv)
  moreover have "session_step utc_lib ex_rule (in_sync ex_reconciled_state) (in_sync ex_authorized_state)"
    using session_step.authorizing [of utc_lib ex_rule "in_sync ex_reconciled_state" ex_snap1 ex_trade 1000]
    by (simp only: ex_authorized snd_conv)
  ultimately show ?thesis by (rule rtranclp.rtrancl_into_rtrancl [OF r_into_rtranclp])
qed

lemma ex_inv: "state_inv ex_authorized_state"
  using inv.kept_state [OF ex_run] state_inv_enroll [OF ex_enrolled_ok] by simp

text \<open>The same account after a fall to the internal stop, and a fill it has not seen.\<close>

definition ex_low :: account_snapshot where
  "ex_low = \<lparr>a_account_id = ''acct'', a_observed_at = 2000, a_quote_at = 2000,
     a_balance = 10000, a_equity = 9000, a_connected = True, a_complete = True, a_sequence = 2,
     a_day_reference = ex_day, a_balance_high = 10000, a_equity_high = 10000, a_exposures = [],
     a_resolved_requests = {}, a_setups_reconciled = True\<rparr>"

lemma reconcile_in_sync:
  assumes "reconcile_checks L a now (set_needs True s) = Inr ()"
    and "rule (s_policy s) (adopt_snapshot a (set_needs True s)) a = Inr f"
  shows "\<exists>t. reconcile L rule a now (in_sync s) = (Inr (), in_sync t)"
proof -
  obtain t where "apply_reconciliation L rule a now (set_needs True s) = (Inr (), t)"
    using assms by (auto simp: apply_reconciliation_def Let_def frame_simps set_needs_def)
  moreover have "(in_sync (set_needs True s))\<lparr>rs_state := t\<rparr> = in_sync t\<lparr>rs_disk := set_needs True s\<rparr>"
    by (simp add: in_sync_def)
  ultimately show ?thesis
    by (auto simp: reconcile_def persist_in_sync mbind_Inr)
      (auto simp: persist_def update_state_def in_sync_def)
qed

definition ex_stopped_state :: risk_state where
  "ex_stopped_state = rs_state (snd (reconcile utc_lib ex_rule ex_low 2000 (in_sync ex_reconciled_state)))"

lemma ex_low_floor:
  "\<exists>f. ex_rule ex_policy (adopt_snapshot ex_low (set_needs True ex_reconciled_state)) ex_low = Inr f \<and>
     a_equity ex_low \<le> t_internal_account_floor f"
proof -
  have "(case ex_rule ex_policy (adopt_snapshot ex_low (set_needs True ex_reconciled_state)) ex_low of
      Inr f \<Rightarrow> a_equity ex_low \<le> t_internal_account_floor f | Inl _ \<Rightarrow> False)" by code_simp
  then show ?thesis by (auto split: sum.splits)
qed

lemma ex_stopped:
  "reconcile utc_lib ex_rule ex_low 2000 (in_sync ex_reconciled_state) = (Inr (), in_sync ex_stopped_state)"
proof -
  have c: "reconcile_checks utc_lib ex_low 2000 (set_needs True ex_reconciled_state) = Inr ()"
    by code_simp
  have p: "s_policy ex_reconciled_state = ex_policy"
    by (simp add: ex_reconciled_state_def ex_enrolled_def)
  obtain f where "ex_rule (s_policy ex_reconciled_state)
      (adopt_snapshot ex_low (set_needs True ex_reconciled_state)) ex_low = Inr f"
    using ex_low_floor by (auto simp: p)
  from reconcile_in_sync [where rule = ex_rule, OF c this] show ?thesis
    by (auto simp: ex_stopped_state_def)
qed

definition ex_fill :: execution where
  "ex_fill = \<lparr>x_event_id = ''e1'', x_setup_id = ''s1'', x_position_id = ''p1'', x_occurred_at = 1500,
     x_volume_delta = 50, x_net_pnl = 0\<rparr>"

text \<open>Two setups, each opened and closed, one with a loss and one with a win.\<close>

definition ex_event :: "string \<Rightarrow> string \<Rightarrow> time \<Rightarrow> decimal \<Rightarrow> decimal \<Rightarrow> execution" where
  "ex_event i setup t v pnl = \<lparr>x_event_id = i, x_setup_id = setup, x_position_id = setup,
     x_occurred_at = t, x_volume_delta = v, x_net_pnl = pnl\<rparr>"

definition ex_two :: risk_state where
  "ex_two = ex_enrolled\<lparr>s_executions :=
     [(''e1'', ex_event ''e1'' ''s1'' 1000 50 0), (''e2'', ex_event ''e2'' ''s1'' 2000 (-50) (-20)),
      (''e3'', ex_event ''e3'' ''s2'' 1500 10 0), (''e4'', ex_event ''e4'' ''s2'' 2500 (-10) 30)]\<rparr>"

definition ex_loss :: setup_outcome where
  "ex_loss = \<lparr>o_setup_id = ''s1'', o_closed_at = 3000, o_net_pnl = -20\<rparr>"

definition ex_win :: setup_outcome where
  "ex_win = \<lparr>o_setup_id = ''s2'', o_closed_at = 4000, o_net_pnl = 30\<rparr>"

definition ex_closed_s1 :: risk_state where
  "ex_closed_s1 = ex_two\<lparr>s_outcomes := [(''s1'', ex_loss)], s_consecutive_losses := 1\<rparr>"

definition ex_closed_s2 :: risk_state where
  "ex_closed_s2 = ex_two\<lparr>s_outcomes := [(''s2'', ex_win)], s_consecutive_losses := 0\<rparr>"

definition ex_closed_both :: risk_state where
  "ex_closed_both = ex_two\<lparr>s_outcomes := [(''s1'', ex_loss), (''s2'', ex_win)], s_consecutive_losses := 0\<rparr>"

lemma ex_two_inv: "state_inv ex_two"
proof -
  have "bt_inv (s_executions ex_two)" by code_simp
  moreover have "s_outcomes ex_two = [] \<and> s_reservations ex_two = [] \<and> s_consecutive_losses ex_two = 0"
    by (simp add: ex_two_def ex_enrolled_def)
  ultimately show ?thesis by (simp add: state_inv_def ledger_inv_def streak_of_def bt_inv_def)
qed

lemma ex_outcomes:
  "setup_outcome_of utc_lib ex_two ''s1'' 3000 True = Inr ex_loss"
  "setup_outcome_of utc_lib ex_two ''s2'' 4000 True = Inr ex_win"
  by code_simp+

lemma ex_streaks:
  "streak_of default_streak_backoff [(''s1'', ex_loss)] = 1"
  "streak_of default_streak_backoff [(''s2'', ex_win)] = 0"
  "streak_of default_streak_backoff [(''s1'', ex_loss), (''s2'', ex_win)] = 0"
  by (simp_all add: streak_of_def streak_step_def default_streak_backoff_def ex_loss_def ex_win_def
      less_eq_prod_def sat_add_def)

lemma close_new:
  "setup_outcome_of L s i t b = Inr out \<Longrightarrow> bt_get (s_outcomes s) i = None \<Longrightarrow>
     on_setup_closed L s i t b = (Inr (), rebuild_streak (s\<lparr>s_outcomes := bt_insert i out (s_outcomes s)\<rparr>))"
  by (simp add: on_setup_closed_def close_setup_def)

lemma ex_two_closings:
  "on_setup_closed utc_lib ex_two ''s1'' 3000 True = (Inr (), ex_closed_s1)"
  "on_setup_closed utc_lib ex_closed_s1 ''s2'' 4000 True = (Inr (), ex_closed_both)"
  "on_setup_closed utc_lib ex_two ''s2'' 4000 True = (Inr (), ex_closed_s2)"
  "on_setup_closed utc_lib ex_closed_s2 ''s1'' 3000 True = (Inr (), ex_closed_both)"
proof -
  have fields: "s_outcomes ex_two = []" "p_streak_backoff (s_policy ex_two) = default_streak_backoff"
    by (simp_all add: ex_two_def ex_enrolled_def ex_policy_def default_policy_def)
  have same: "s_executions ex_closed_s1 = s_executions ex_two" "s_executions ex_closed_s2 = s_executions ex_two"
    by (simp_all add: ex_closed_s1_def ex_closed_s2_def)
  have order: "bt_insert ''s2'' ex_win [(''s1'', ex_loss)] = [(''s1'', ex_loss), (''s2'', ex_win)]"
    "bt_insert ''s1'' ex_loss [(''s2'', ex_win)] = [(''s1'', ex_loss), (''s2'', ex_win)]" by code_simp+
  have o2: "setup_outcome_of utc_lib ex_closed_s1 ''s2'' 4000 True = Inr ex_win"
    using setup_outcome_of_cong [OF same(1)] ex_outcomes(2) by simp
  have o1: "setup_outcome_of utc_lib ex_closed_s2 ''s1'' 3000 True = Inr ex_loss"
    using setup_outcome_of_cong [OF same(2)] ex_outcomes(1) by simp
  note d = rebuild_streak_def fields order ex_closed_s1_def ex_closed_s2_def ex_closed_both_def
  show "on_setup_closed utc_lib ex_two ''s1'' 3000 True = (Inr (), ex_closed_s1)"
    using close_new [OF ex_outcomes(1)] ex_streaks(1) by (simp add: d bt_get_def)
  show "on_setup_closed utc_lib ex_two ''s2'' 4000 True = (Inr (), ex_closed_s2)"
    using close_new [OF ex_outcomes(2)] ex_streaks(2) by (simp add: d bt_get_def)
  show "on_setup_closed utc_lib ex_closed_s1 ''s2'' 4000 True = (Inr (), ex_closed_both)"
    using close_new [OF o2] ex_streaks(3) by (simp add: d bt_get_def)
  show "on_setup_closed utc_lib ex_closed_s2 ''s1'' 3000 True = (Inr (), ex_closed_both)"
    using close_new [OF o1] ex_streaks(3) by (simp add: d bt_get_def)
qed

lemma ex_floors:
  "\<exists>f. standard_loss_rule utc_lib ex_policy ex_enrolled ex_snap1 = Inr f \<and>
     t_internal_account_floor f \<le> 9900 \<and> t_internal_daily_floor f \<le> 9900"
proof -
  have "(case standard_loss_rule utc_lib ex_policy ex_enrolled ex_snap1 of
      Inr f \<Rightarrow> t_internal_account_floor f \<le> 9900 \<and> t_internal_daily_floor f \<le> 9900 | Inl _ \<Rightarrow> False)"
    by code_simp
  then show ?thesis by (auto split: sum.splits)
qed

end
