(* ===== verification/Risk_Properties.thy ===== *)
theory Risk_Properties
  imports Risk_Example
begin

text \<open>
  The properties of the account-level risk controls (\<open>adaptive-risk/src\<close>), each with a
  witness on the account of \<open>Risk_Example\<close>.
\<close>

section \<open>Shared facts about successful methods\<close>

lemma before_submit_ok:
  assumes "before_submit L rule au t a now S = (Inr u, T)"
  obtains S1 r where "validate_token au (rs_state S) = Inr ()" "same_terms (au_request au) t"
    "reconcile L rule a now S = (Inr (), S1)" "revalidate L rule au t a now (rs_state S1) = Inr ()"
    "bt_get (s_reservations (rs_state S1)) (au_request_id au) = Some r" "\<not> r_submitted r"
    "rs_state T = mark_submitted (au_request_id au) r (rs_state S1)" "rs_disk T = rs_state T"
  using assms by (auto simp: before_submit_def mbind_ok update_state_def dest!: persist_ok)

lemma authorize_needs_current_state:
  assumes "is_ok (fst (authorize L rule a t now S))"
  shows "\<not> s_needs_reconciliation (rs_state S)" "\<not> s_account_locked (rs_state S)"
    "pt_request_id t \<notin> s_attempted_requests (rs_state S)"
    "case s_invalidated_after (rs_state S) of None \<Rightarrow> True | Some u \<Rightarrow> u < a_observed_at a"
proof -
  obtain au T where "authorize L rule a t now S = (Inr au, T)"
    using assms by (cases "authorize L rule a t now S") (auto simp: is_ok_iff)
  note d = evaluate_approvedD [OF authorize_ok(1) [OF this]]
  then show "\<not> s_needs_reconciliation (rs_state S)" "\<not> s_account_locked (rs_state S)"
    "pt_request_id t \<notin> s_attempted_requests (rs_state S)"
    by (auto simp: not_reconciled_def)
  from d(4) show "case s_invalidated_after (rs_state S) of None \<Rightarrow> True | Some u \<Rightarrow> u < a_observed_at a"
    by (auto simp: not_reconciled_def validate_snapshot_def result_simps is_ok_iff)
qed

section \<open>Budgets\<close>





text \<open>
  The reserved risk is a conservative floor. Under monotone decimal arithmetic it is
  never negative and never below the risk of any single reservation, whatever the broker
  reports about its exposures.
\<close>

theorem reserved_risk_floor:
  assumes "decimal_laws L" and "is_ok (policy_validate L p)" and "reserved_risk L p s a = Inr r"
    and "(i, res) \<in> set (s_reservations s)"
  shows "0 \<le> r \<and> r_risk res \<le> r"
  using reserved_risk_covers_each [OF assms(1) policy_signs_valid [OF assms(2)] assms(3)] assms(4)
  by fastforce

theorem reserved_risk_floor_witness:
  "reserved_risk utc_lib ex_policy ex_authorized_state ex_snap1 = Inr 60 \<and> r_risk ex_reservation \<le> 60"
proof -
  have r: "reserved_risk utc_lib ex_policy ex_authorized_state ex_snap1 = Inr 60"
    by code_simp
  have v: "is_ok (policy_validate utc_lib ex_policy)" by (simp add: ex_policy_valid)
  have m: "(''r1'', ex_reservation) \<in> set (s_reservations ex_authorized_state)"
    by (simp add: ex_authorized_state_def)
  show ?thesis using reserved_risk_floor [OF utc_lib_laws v r m] r by simp
qed

section \<open>One authorization, one submission\<close>

text \<open>
  C26: a request is authorized at most once. After a successful authorization no later
  state of the account, through any method calls, failed saves and process restarts,
  authorizes a trade with the same request id again.
\<close>

theorem authorized_once:
  assumes ok: "authorize L rule a t now S = (Inr au, S1)" and run: "session_run L rule S1 S2"
    and same: "pt_request_id t' = pt_request_id t"
  shows "\<not> is_ok (fst (authorize L rule a' t' now' S2))"
proof -
  let ?i = "pt_request_id t"
  have "?i \<in> s_attempted_requests (rs_state S1)" by (simp add: authorize_ok(5) [OF ok] reserve_def)
  moreover from this have "?i \<in> s_attempted_requests (rs_disk S1)" by (simp add: authorize_ok(4) [OF ok])
  ultimately have "?i \<in> s_attempted_requests (rs_state S2)" by (rule attempted.kept_state [OF run])
  then show ?thesis using authorize_needs_current_state(3) same by metis
qed

theorem authorized_once_witness:
  "\<not> is_ok (fst (authorize utc_lib ex_rule ex_snap2 ex_trade 2000 (in_sync ex_authorized_state)))"
  by (rule authorized_once [OF ex_authorized rtranclp.rtrancl_refl refl])

text \<open>
  A request is handed to the transport at most once. Once \<open>before_submit\<close> has
  succeeded, no later state lets it succeed again for that request.
\<close>

theorem submitted_once:
  assumes ok: "before_submit L rule au t a now S = (Inr u, S1)" and inv: "state_inv (rs_state S)"
    and run: "session_run L rule S1 S2" and same: "au_request_id au' = au_request_id au"
  shows "\<not> is_ok (fst (before_submit L rule au' t' a' now' S2))"
proof
  let ?i = "au_request_id au"
  obtain R r where R: "reconcile L rule a now S = (Inr (), R)"
    "bt_get (s_reservations (rs_state R)) ?i = Some r"
    "rs_state S1 = mark_submitted ?i r (rs_state R)" "rs_disk S1 = rs_state S1"
    by (rule before_submit_ok [OF ok])
  have "changes L rule (rs_state S) (rs_state R)"
    using traced_reconcile [of L rule S a now] by (simp add: R(1) traced_def)
  then have "state_inv (rs_state R)" using inv by (rule inv.kept_changes)
  then have s1: "spent ?i (rs_state S1)"
    using bt_get_key [OF R(2)]
    by (auto simp: state_inv_def spent_def R(3) mark_submitted_def bt_inv_insert bt.lookup_insert)
  with R(4) have s2: "spent ?i (rs_state S2)" by (intro spent.kept_state [OF run]) simp_all
  assume "is_ok (fst (before_submit L rule au' t' a' now' S2))"
  then obtain T where "before_submit L rule au' t' a' now' S2 = (Inr (), T)"
    by (cases "before_submit L rule au' t' a' now' S2") (auto simp: is_ok_iff)
  then obtain R' r' where R': "reconcile L rule a' now' S2 = (Inr (), R')"
    "bt_get (s_reservations (rs_state R')) ?i = Some r'" "\<not> r_submitted r'"
    using same by (auto elim: before_submit_ok)
  have "changes L rule (rs_state S2) (rs_state R')"
    using traced_reconcile [of L rule S2 a' now'] by (simp add: R'(1) traced_def)
  then have "spent ?i (rs_state R')" using s2 by (rule spent.kept_changes)
  with R'(2,3) show False by (simp add: spent_def)
qed

theorem submitted_once_witness:
  "\<not> is_ok (fst (before_submit utc_lib ex_rule ex_au ex_trade ex_snap3 3000 (in_sync ex_submitted_state)))"
  by (rule submitted_once [OF ex_submitted _ rtranclp.rtrancl_refl refl]) (simp add: ex_inv)

text \<open>
  C25: submission is written ahead and never riskier than authorized. When
  \<open>before_submit\<close> succeeds, the document on disk already holds the reservation marked as
  submitted, the account needs reconciliation, and the loss of the authorized volume at
  the refreshed quote, overlap surcharge included, is at most the authorized amount.
\<close>

theorem submission_durable:
  assumes ok: "before_submit L rule au t a now S = (Inr u, T)" and inv: "state_inv (rs_state S)"
  shows "s_needs_reconciliation (rs_disk T) \<and>
     (\<exists>r. bt_get (s_reservations (rs_disk T)) (au_request_id au) = Some r \<and> r_submitted r) \<and>
     (\<exists>l x. loss L (pt_estimate t) (d_max_volume (au_decision au))
          (ex_slippage_buffer_pct_of_risk (p_execution (s_policy (rs_state T)))) = Inr l \<and>
        dmul L l (overlap_factor (s_policy (rs_state T)) t) = Inr x \<and>
        x \<le> d_allowed_risk_amount (au_decision au))"
proof -
  obtain R r where R: "reconcile L rule a now S = (Inr (), R)"
    "revalidate L rule au t a now (rs_state R) = Inr ()"
    "bt_get (s_reservations (rs_state R)) (au_request_id au) = Some r"
    "rs_state T = mark_submitted (au_request_id au) r (rs_state R)" "rs_disk T = rs_state T"
    by (rule before_submit_ok [OF ok])
  have "changes L rule (rs_state S) (rs_state R)"
    using traced_reconcile [of L rule S a now] by (simp add: R(1) traced_def)
  then have "state_inv (rs_state R)" using inv by (rule inv.kept_changes)
  then show ?thesis using R(2)
    by (auto simp: R(4,5) mark_submitted_def bt.lookup_insert state_inv_def
        revalidate_def without_request_def Let_def result_simps)
qed

theorem submission_durable_witness:
  "s_needs_reconciliation (rs_disk (in_sync ex_submitted_state)) \<and>
     (\<exists>r. bt_get (s_reservations (rs_disk (in_sync ex_submitted_state))) (au_request_id ex_au) = Some r \<and>
        r_submitted r)"
  using submission_durable [OF ex_submitted] ex_inv by simp

text \<open>
  C32: an unresolved submission suspends the account. While a submitted reservation is
  neither resolved by the snapshot nor visible in its exposures, reconciliation fails,
  the reservation stays and the state keeps needing reconciliation.
\<close>

theorem unresolved_submission_blocks:
  assumes r: "bt_get (s_reservations (rs_state S)) i = Some r" "r_submitted r"
    and a: "i \<notin> a_resolved_requests a" "\<forall>e\<in>set (a_exposures a). e_request_id e \<noteq> Some i"
  shows "\<exists>e T. reconcile L rule a now S = (Inl e, T) \<and> s_needs_reconciliation (rs_state T) \<and>
     bt_get (s_reservations (rs_state T)) i = Some r"
proof (cases "persist (update_state (set_needs True) S)")
  case (Pair p S1)
  have st: "s_reservations (rs_state S1) = s_reservations (rs_state S)" "s_needs_reconciliation (rs_state S1)"
    using Pair by (auto simp: persist_def update_state_def set_needs_def
        split: list.splits save_outcome.splits)
  show ?thesis
  proof (cases p)
    case (Inl e)
    then show ?thesis using Pair st r by (auto simp: reconcile_def mbind_def)
  next
    case (Inr u)
    have "(i, r) \<in> set (s_reservations (rs_state S1))" using r st by (simp add: bt_get_def map_of_SomeD)
    then have "reconcile_checks L a now (rs_state S1) \<noteq> Inr ()"
      using r a by (auto simp: reconcile_checks_def result_simps list_all_iff list_ex_iff)
    then obtain e where "reconcile_checks L a now (rs_state S1) = Inl e"
      by (cases "reconcile_checks L a now (rs_state S1)") auto
    then show ?thesis using Pair Inr st r by (auto simp: reconcile_def mbind_def apply_reconciliation_def)
  qed
qed

theorem unresolved_submission_blocks_witness:
  "\<exists>e T. reconcile utc_lib ex_rule ex_snap3 3000 (in_sync ex_submitted_state) = (Inl e, T) \<and>
     s_needs_reconciliation (rs_state T)"
proof -
  have r: "bt_get (s_reservations (rs_state (in_sync ex_submitted_state))) ''r1''
      = Some (ex_reservation\<lparr>r_submitted := True\<rparr>)"
    by (simp add: ex_submitted_state_def bt_get_def)
  from unresolved_submission_blocks [OF r, of ex_snap3 utc_lib ex_rule 3000] show ?thesis
    by (auto simp: ex_snap3_def ex_snapshot_def)
qed

section \<open>Stops and stale evidence\<close>

lemma reconciled_state:
  assumes "reconcile L rule a now S = (Inr u, T)"
  obtains f where "rule (s_policy (rs_state S)) (adopt_snapshot a (set_needs True (rs_state S))) a = Inr f"
    "s_account_locked (rs_state T) \<longleftrightarrow> s_account_locked (rs_state S) \<or> a_equity a \<le> t_internal_account_floor f"
    "rs_disk T = rs_state T" "\<not> s_needs_reconciliation (rs_state T)"
    "s_last_reconciled_at (rs_state T) = Some (a_observed_at a)"
proof -
  obtain s where s: "apply_reconciliation L rule a now (set_needs True (rs_state S)) = (Inr (), s)"
    and T: "rs_state T = track_reduced L rule a now (set_needs False s)" "rs_disk T = rs_state T"
    by (rule reconcile_ok [OF assms])
  have tr: "s_account_locked (track_reduced L rule a now r) = s_account_locked r"
    "s_needs_reconciliation (track_reduced L rule a now r) = s_needs_reconciliation r"
    "s_last_reconciled_at (track_reduced L rule a now r) = s_last_reconciled_at r" for r
    by (auto simp: track_reduced_def split: sum.splits option.splits)
  show thesis
    by (rule apply_reconciliation_cases [of L rule a now "set_needs True (rs_state S)"])
      (use s T that in \<open>auto simp: tr frame_simps set_needs_def\<close>)
qed

text \<open>
  The account stop is permanent. Once a reconciliation has seen an equity at or below
  the internal account floor, no later state authorizes a trade: not after further
  reconciliations, new trading days, failed saves or restarts.
\<close>

theorem account_stop_permanent:
  assumes ok: "reconcile L rule a now S = (Inr u, T)"
    and floor: "rule (s_policy (rs_state S)) (adopt_snapshot a (set_needs True (rs_state S))) a = Inr f"
    and low: "a_equity a \<le> t_internal_account_floor f" and run: "session_run L rule T T'"
  shows "s_account_locked (rs_state T') \<and> \<not> is_ok (fst (authorize L rule a' t now' T'))"
proof -
  have "s_account_locked (rs_state T)" "rs_disk T = rs_state T"
    using reconciled_state [OF ok] floor low by (metis sum.inject(2))+
  then have "s_account_locked (rs_state T')" using locked.kept_state [OF run] by simp
  then show ?thesis using authorize_needs_current_state(2) by blast
qed

theorem account_stop_permanent_witness:
  "\<not> is_ok (fst (authorize utc_lib ex_rule ex_snap2 ex_trade 3000 (in_sync ex_stopped_state)))"
proof -
  obtain f where f: "ex_rule ex_policy (adopt_snapshot ex_low (set_needs True ex_reconciled_state)) ex_low = Inr f"
    "a_equity ex_low \<le> t_internal_account_floor f"
    using ex_low_floor by blast
  have "ex_rule (s_policy (rs_state (in_sync ex_reconciled_state)))
      (adopt_snapshot ex_low (set_needs True (rs_state (in_sync ex_reconciled_state)))) ex_low = Inr f"
    using f(1) by (simp add: ex_reconciled_state_def ex_enrolled_def)
  from account_stop_permanent [OF ex_stopped this f(2) rtranclp.rtrancl_refl] show ?thesis by simp
qed

text \<open>
  An execution the account has not seen suspends it until newer evidence arrives. Once
  it is durably recorded, no snapshot observed at or before the execution, or at or before
  the last reconciliation, authorizes a trade in any later state.
\<close>

theorem execution_invalidates:
  assumes new: "bt_get (s_executions (rs_state S)) (x_event_id ev) = None"
    and ok: "session_on_execution ev S = (Inr u, T)" and run: "session_run L rule T T'"
    and old: "a_observed_at a \<le> x_occurred_at ev \<or>
      (\<exists>r. s_last_reconciled_at (rs_state S) = Some r \<and> a_observed_at a \<le> r)"
  shows "s_needs_reconciliation (rs_state T) \<and> \<not> is_ok (fst (authorize L rule a t now T'))"
proof -
  have T: "rs_state T = snd (on_execution (rs_state S) ev)" "rs_disk T = rs_state T"
    using ok by (auto simp: session_on_execution_def case_prod_beta mbind_ok dest!: persist_ok)
  note un = on_execution_unseen [OF new]
  have "invalid_upto (a_observed_at a) (rs_state T)"
    using un(2) old by (auto simp: invalid_upto_def T(1))
  then have "invalid_upto (a_observed_at a) (rs_state T')"
    using invalidated.kept_state [OF run] T(2) by simp
  then show ?thesis
    using authorize_needs_current_state(4) [of L rule a t now T'] un(1)
    by (auto simp: invalid_upto_def T(1))
qed

theorem execution_invalidates_witness:
  "\<not> is_ok (fst (authorize utc_lib ex_rule ex_snap1 ex_trade 1000
     (snd (session_on_execution ex_fill (in_sync ex_reconciled_state)))))"
proof -
  have new: "bt_get (s_executions (rs_state (in_sync ex_reconciled_state))) (x_event_id ex_fill) = None"
    by (simp add: ex_reconciled_state_def ex_enrolled_def bt_get_def)
  have "fst (session_on_execution ex_fill (in_sync ex_reconciled_state)) = Inr ()" by code_simp
  then have ok: "session_on_execution ex_fill (in_sync ex_reconciled_state)
      = (Inr (), snd (session_on_execution ex_fill (in_sync ex_reconciled_state)))"
    by (simp add: prod_eq_iff)
  have old: "a_observed_at ex_snap1 \<le> x_occurred_at ex_fill"
    by (simp add: ex_snap1_def ex_snapshot_def ex_fill_def)
  show ?thesis
    using execution_invalidates [OF new ok rtranclp.rtrancl_refl, of ex_snap1 utc_lib ex_rule ex_trade 1000] old
    by simp
qed

section \<open>Tokens and durability\<close>

text \<open>
  An authorization is durable before it is handed out. The document on disk holds
  the attempted request and a reservation of exactly the approved risk and volume, and
  the token validates against that document.
\<close>

theorem authorization_durable:
  assumes ok: "authorize L rule a t now S = (Inr au, T)" and inv: "state_inv (rs_state S)"
  shows "pt_request_id t \<in> s_attempted_requests (rs_disk T) \<and>
     bt_get (s_reservations (rs_disk T)) (pt_request_id t) =
       Some \<lparr>r_request_id = pt_request_id t, r_setup_id = pt_setup_id t,
         r_risk = d_allowed_risk_amount (au_decision au), r_volume = d_max_volume (au_decision au),
         r_created_at = now, r_submitted = False\<rparr> \<and>
     validate_token au (rs_disk T) = Inr ()"
proof -
  note o = authorize_ok [OF ok]
  have "changes L rule (rs_state S) (track_reduced L rule a now (rs_state S))" by (rule change_track)
  then have "state_inv (track_reduced L rule a now (rs_state S))" using inv by (rule inv.kept_changes)
  then have b: "bt_inv (s_reservations (track_reduced L rule a now (rs_state S)))"
    by (simp add: state_inv_def)
  show ?thesis
    using o(2-7) b
    by (simp add: reserve_def bt.lookup_insert validate_token_def au_request_id_def result_simps)
qed

theorem authorization_durable_witness:
  "validate_token ex_au (rs_disk (in_sync ex_authorized_state)) = Inr ()"
  using authorization_durable [OF ex_authorized] state_inv_enroll [OF ex_enrolled_ok]
  by (simp add: state_inv_def ex_reconciled_state_def ledger_inv_def)

text \<open>
  A rejected order's token is dead. Once \<open>rejected_without_fill\<close> has released the
  request, no later state accepts its token for submission.
\<close>

theorem rejected_token_revoked:
  assumes ok: "rejected_without_fill au S = (Inr u, S1)" and inv: "state_inv (rs_state S)"
    and run: "session_run L rule S1 S2" and same: "au_request_id au' = au_request_id au"
  shows "\<not> is_ok (fst (before_submit L rule au' t a now S2))"
proof -
  let ?i = "au_request_id au"
  from ok have v: "validate_token au (rs_state S) = Inr ()"
    and S1: "rs_state S1 = release_request ?i (rs_state S)" "rs_disk S1 = rs_state S1"
    by (auto simp: rejected_without_fill_def mbind_ok update_state_def dest!: persist_ok)
  then have "?i \<in> s_attempted_requests (rs_state S)"
    using inv by (force simp: validate_token_def result_simps state_inv_def bt_get_def dest: map_of_SomeD)
  with inv have "released ?i (rs_state S1)"
    by (auto simp: S1(1) released_def release_request_def state_inv_def bt_inv_remove bt.lookup_remove)
  with S1(2) have r: "released ?i (rs_state S2)" by (intro gone.kept_state [OF run]) simp_all
  show ?thesis
    using r same by (auto simp: is_ok_iff before_submit_def mbind_def validate_token_def released_def
        rbind_def ok_or_def ensure_def split: sum.splits)
qed

theorem rejected_token_revoked_witness:
  "\<not> is_ok (fst (before_submit utc_lib ex_rule ex_au ex_trade ex_snap2 2000
     (snd (rejected_without_fill ex_au (in_sync ex_authorized_state)))))"
proof -
  have ok: "rejected_without_fill ex_au (in_sync ex_authorized_state)
      = (Inr (), snd (rejected_without_fill ex_au (in_sync ex_authorized_state)))"
    by (simp add: rejected_without_fill_def ex_token mbind_Inr persist_in_sync)
  show ?thesis
    by (rule rejected_token_revoked [OF ok _ rtranclp.rtrancl_refl refl]) (simp add: ex_inv)
qed

section \<open>Reachable accounts\<close>

text \<open>
  C33: every reachable account is well formed. From enrollment on, in memory and on disk
  after any calls, failed saves and restarts: executions, outcomes and reservations are
  ordered maps, every reservation belongs to an attempted request, the losing streak is
  the one the recorded outcomes give, and account id and policy are those enrolled.
\<close>

theorem reachable_well_formed:
  assumes e: "enroll L i bal d p = Inr s" and run: "session_run L rule (in_sync s) S"
  shows "state_inv (rs_state S) \<and> s_account_id (rs_state S) = i \<and> s_policy (rs_state S) = p \<and>
     s_consecutive_losses (rs_state S) = streak_of (p_streak_backoff p) (s_outcomes (rs_state S))"
proof -
  have s: "s_account_id s = i \<and> s_policy s = p" using e by (auto simp: enroll_def result_simps)
  have "state_inv (rs_state S)"
    using inv.kept_state [OF run] state_inv_enroll [OF e] by simp
  moreover have "s_account_id (rs_state S) = i \<and> s_policy (rs_state S) = p"
    using identity.kept_state [OF run, of i p] s by simp
  ultimately show ?thesis by (auto simp: state_inv_def ledger_inv_def)
qed

theorem reachable_well_formed_witness:
  "state_inv ex_authorized_state \<and> s_policy ex_authorized_state = ex_policy"
  using reachable_well_formed [OF ex_enrolled_ok ex_run] by simp

text \<open>
  The order in which two setups are closed does not matter: if both closings succeed
  in either order, they leave the same state, streak included, even though the streak
  depends on the order of the outcomes in time.
\<close>

theorem close_order_irrelevant:
  assumes "state_inv s" and "i \<noteq> j"
    and "on_setup_closed L s i t b = (Inr (), s1)" and "on_setup_closed L s1 j t' b' = (Inr (), s12)"
    and "on_setup_closed L s j t' b' = (Inr (), s2)" and "on_setup_closed L s2 i t b = (Inr (), s21)"
  shows "s12 = s21"
  using close_setup_commute [OF _ assms(2-6)] assms(1) by (simp add: state_inv_def)

theorem close_order_irrelevant_witness:
  "snd (on_setup_closed utc_lib ex_closed_s1 ''s2'' 4000 True)
     = snd (on_setup_closed utc_lib ex_closed_s2 ''s1'' 3000 True) \<and> ex_closed_s1 \<noteq> ex_closed_s2"
proof -
  have "ex_closed_both = ex_closed_both"
    by (rule close_order_irrelevant [OF ex_two_inv _ ex_two_closings]) simp
  moreover have "s_consecutive_losses ex_closed_s1 \<noteq> s_consecutive_losses ex_closed_s2"
    by (simp add: ex_closed_s1_def ex_closed_s2_def)
  ultimately show ?thesis by (auto simp: ex_two_closings)
qed

text \<open>
  A setup closes only when it is flat. A successful close means the members are
  terminal, the setup has executions, none later than the close, the volumes of each of
  its positions sum to zero, and the stored outcome carries the sum of their results.
\<close>

theorem closed_setup_flat:
  assumes L: "exact_laws L" and inv: "state_inv s" and ok: "on_setup_closed L s i t b = (Inr (), s')"
  shows "b \<and> setup_events s i \<noteq> [] \<and>
     bt_get (s_outcomes s') i = Some \<lparr>o_setup_id = i, o_closed_at = t,
       o_net_pnl = sum_list (map x_net_pnl (setup_events s i))\<rparr> \<and>
     list_all (\<lambda>e. x_occurred_at e \<le> t \<and> position_sum (setup_events s i) (x_position_id e) = 0)
       (setup_events s i)"
proof -
  have "ledger_inv s" using inv by (simp add: state_inv_def)
  then obtain out om n where out: "setup_outcome_of L s i t b = Inr out"
    and look: "bt_get (s_outcomes s') = (bt_get (s_outcomes s))(i \<mapsto> out)"
    using ok by (rule on_setup_closed_ok)
  show ?thesis using setup_outcome_flat [OF L out] look
    by (auto simp: list_all_iff intro: setup_outcome.equality)
qed

theorem closed_setup_flat_witness:
  "bt_get (s_outcomes ex_closed_s1) ''s1'' = Some \<lparr>o_setup_id = ''s1'', o_closed_at = 3000,
     o_net_pnl = sum_list (map x_net_pnl (setup_events ex_two ''s1''))\<rparr>"
  using closed_setup_flat [OF utc_lib_exact ex_two_inv ex_two_closings(1)] by blast

text \<open>
  The execution ledger is append-only and idempotent. A new well-formed execution is
  recorded once; the same execution again changes nothing; a different one under the same
  id, an anonymous one, or one for a completed setup is refused and forces
  reconciliation; nothing already recorded ever changes.
\<close>

theorem execution_ledger:
  assumes inv: "state_inv s"
  shows "let known = bt_get (s_executions s) (x_event_id ev);
           named = (x_event_id ev \<noteq> [] \<and> x_setup_id ev \<noteq> [] \<and> x_position_id ev \<noteq> []);
           live = (bt_get (s_outcomes s) (x_setup_id ev) = None);
           (result, s') = on_execution s ev in
      if named \<and> known = Some ev then result = Inr () \<and> s' = s
      else if named \<and> known = None \<and> live then
        result = Inr () \<and> bt_get (s_executions s') = (bt_get (s_executions s))(x_event_id ev \<mapsto> ev)
      else \<not> is_ok result \<and> s_needs_reconciliation s' \<and> s_executions s' = s_executions s"
proof -
  have b: "bt_inv (s_executions s)" using inv by (simp add: state_inv_def ledger_inv_def)
  show ?thesis
    by (auto simp: ledger_defs is_ok_def bt.lookup_insert [OF b] split: option.splits)
qed

theorem execution_ledger_witness:
  "bt_get (s_executions (snd (on_execution ex_authorized_state ex_fill))) ''e1'' = Some ex_fill"
proof -
  have "bt_get (s_executions ex_authorized_state) (x_event_id ex_fill) = None"
    "bt_get (s_outcomes ex_authorized_state) (x_setup_id ex_fill) = None"
    by (simp_all add: ex_authorized_state_def ex_reconciled_state_def ex_enrolled_def bt_get_def)
  moreover have "x_event_id ex_fill = ''e1''" "x_setup_id ex_fill = ''s1''" "x_position_id ex_fill = ''p1''"
    by (simp_all add: ex_fill_def)
  ultimately show ?thesis using execution_ledger [OF ex_inv, of ex_fill] by (simp add: case_prod_beta)
qed

section \<open>Policy, floors and trading days\<close>

text \<open>
  The backoff schedules of a valid policy only tighten. More consecutive losses
  never raise the risk multiplier, which stays in [0, 1]; a larger drawdown never raises
  the risk percentage, which stays in [0, 100].
\<close>

theorem schedules_tighten:
  assumes v: "is_ok (policy_validate L p)" and n: "n \<le> n'" and d: "0 \<le> d" "d \<le> d'"
  shows "0 \<le> streak_multiplier p n' \<and> streak_multiplier p n' \<le> streak_multiplier p n \<and>
     streak_multiplier p n \<le> 1 \<and> 0 \<le> drawdown_risk_pct p d' \<and>
     drawdown_risk_pct p d' \<le> drawdown_risk_pct p d \<and> drawdown_risk_pct p d \<le> 100"
proof -
  obtain u where u: "policy_validate L p = Inr u" using v by (auto simp: is_ok_iff)
  note s = policy_validateD(9,10) [OF u] and dr = policy_validateD(11,12) [OF u]
    and base = policy_validateD(4,5) [OF u]
  let ?s = "sb_levels (p_streak_backoff p)" and ?d = "db_levels (p_drawdown_backoff p)"
  have sl: "level_at ?s n' \<le> level_at ?s n"
    by (rule level_at_antimono [OF _ _ _ n])
      (use s in \<open>auto simp: streak_levels_ok_def streak_start_ok_def split: list.splits\<close>)
  have dl: "level_at ?d d' \<le> level_at ?d d"
    by (rule level_at_antimono [OF _ _ _ d(2)])
      (use dr d in \<open>auto simp: drawdown_levels_ok_def drawdown_start_ok_def split: list.splits\<close>)
  have sb: "0 \<le> level_at ?s k \<and> level_at ?s k \<le> 1" for k
    using level_at_mem [of ?s k] s by (auto simp: streak_levels_ok_def list_all_iff)
  have db: "0 \<le> level_at ?d k \<and> level_at ?d k \<le> 100" for k
    using level_at_mem [of ?d k] dr by (auto simp: drawdown_levels_ok_def list_all_iff)
  show ?thesis using sl dl sb db base by (simp add: streak_multiplier_def drawdown_risk_pct_def)
qed

theorem schedules_tighten_witness:
  "streak_multiplier ex_policy 3 \<le> streak_multiplier ex_policy 1 \<and>
     drawdown_risk_pct ex_policy 4 \<le> drawdown_risk_pct ex_policy 3"
  using schedules_tighten [of utc_lib ex_policy 1 3 3 4] ex_policy_valid by simp

text \<open>
  The standard loss rule keeps a gap to the firm. For a valid policy and positive
  references, an equity at or above both internal floors is strictly above both of the
  firm's floors, and the firm's floors are the references less the firm's limits.
\<close>

theorem standard_floors:
  assumes adm: "floors_admissible L p s a" and f: "standard_loss_rule L p s a = Inr f"
    and e: "t_internal_account_floor f \<le> e" "t_internal_daily_floor f \<le> e"
  shows "t_firm_account_floor f < e \<and> t_firm_daily_floor f < e \<and>
     t_firm_daily_floor f = daily_ref p s - daily_ref p s * p_daily_loss_limit_pct p / 100"
proof -
  have "exact_laws L" using adm by (simp add: floors_admissible_def)
  then show ?thesis
    using standard.above_firm [OF adm f e] standard_rule_values(5) [OF _ f] by blast
qed

theorem standard_floors_witness:
  "\<exists>f. standard_loss_rule utc_lib ex_policy ex_enrolled ex_snap1 = Inr f \<and>
     t_firm_account_floor f < 9900 \<and> t_firm_daily_floor f < 9900"
proof -
  have adm: "floors_admissible utc_lib ex_policy ex_enrolled ex_snap1"
    by (simp add: floors_admissible_def utc_lib_exact ex_policy_valid)
      (simp add: ex_enrolled_def ex_policy_def default_policy_def drawdown_ref_def daily_ref_def ex_day_def)
  obtain f where "standard_loss_rule utc_lib ex_policy ex_enrolled ex_snap1 = Inr f"
    "t_internal_account_floor f \<le> 9900" "t_internal_daily_floor f \<le> 9900"
    using ex_floors by blast
  with standard_floors [OF adm this] show ?thesis by blast
qed

text \<open>
  Trading days tile time. The day computed for an instant contains it, as a half-open
  interval, and the day computed at its end starts exactly there, provided the time zone
  reads its own boundaries back.
\<close>

theorem trading_days_tile:
  assumes "zone_laws L (cal_timezone c)" and "0 \<le> cal_reset_time c" "cal_reset_time c < 86400000000000"
    and "day_at L c now = Inr d" and "day_at L c (day_end d) = Inr d'"
  shows "day_start d \<le> now \<and> now < day_end d \<and> day_start d' = day_end d"
  using day_at_contains [OF assms(4)] day_at_next [OF assms] by simp

theorem trading_days_tile_witness:
  "day_start \<lparr>day_start = 86400000000000, day_end = 172800000000000\<rparr> = 86400000000000"
proof -
  have a: "day_at utc_lib ex_calendar 5 = Inr \<lparr>day_start = 0, day_end = 86400000000000\<rparr>"
    "day_at utc_lib ex_calendar 86400000000000
       = Inr \<lparr>day_start = 86400000000000, day_end = 172800000000000\<rparr>" by code_simp+
  have "day_at utc_lib ex_calendar (day_end \<lparr>day_start = 0, day_end = 86400000000000\<rparr>)
       = Inr \<lparr>day_start = 86400000000000, day_end = 172800000000000\<rparr>" using a(2) by simp
  from trading_days_tile [OF utc_zone_laws _ _ a(1) this] show ?thesis
    by (simp add: ex_calendar_def)
qed

end
