(* ===== verification/Core_Hold.thy ===== *)
theory Core_Hold
  imports Prelude
begin

text \<open>
  Why a trade's resting orders are held (\<open>core/src/hold.rs\<close>): the closed enumeration of
  reasons, the sorted vector that implements a set of them, and the release that reports
  when the set becomes empty.
\<close>

datatype hold_reason = SpreadHour | NewsPause | MarketHours | MaAlignment

text \<open>The derived \<open>Ord\<close> is the order of declaration.\<close>

fun reason_index :: "hold_reason \<Rightarrow> nat" where
  "reason_index SpreadHour = 0"
| "reason_index NewsPause = 1"
| "reason_index MarketHours = 2"
| "reason_index MaAlignment = 3"

instantiation hold_reason :: linorder
begin

definition less_eq_hold_reason :: "hold_reason \<Rightarrow> hold_reason \<Rightarrow> bool" where
  "less_eq_hold_reason a b \<longleftrightarrow> reason_index a \<le> reason_index b"

definition less_hold_reason :: "hold_reason \<Rightarrow> hold_reason \<Rightarrow> bool" where
  "less_hold_reason a b \<longleftrightarrow> reason_index a < reason_index b"

instance
proof
  fix a b :: hold_reason
  assume "a \<le> b" "b \<le> a"
  then show "a = b" by (cases a; cases b) (simp_all add: less_eq_hold_reason_def)
qed (auto simp: less_eq_hold_reason_def less_hold_reason_def)

end

fun reason_str :: "hold_reason \<Rightarrow> string" where
  "reason_str SpreadHour = ''spread-hour''"
| "reason_str NewsPause = ''news-pause''"
| "reason_str MarketHours = ''market-hours''"
| "reason_str MaAlignment = ''ma-alignment''"

type_synonym holders = "hold_reason list"

text \<open>
  \<open>slice::binary_search\<close> on a sorted vector: the index of the element, or the index where
  it has to be inserted.
\<close>

datatype search_result = Found nat | InsertAt nat

definition binary_search :: "'a::linorder \<Rightarrow> 'a list \<Rightarrow> search_result" where
  "binary_search x xs =
     (let pos = length (takeWhile (\<lambda>y. y < x) xs)
      in if pos < length xs \<and> xs ! pos = x then Found pos else InsertAt pos)"

text \<open>\<open>Vec::insert\<close> and \<open>Vec::remove\<close> at an index within the vector.\<close>

definition vec_insert :: "nat \<Rightarrow> 'a \<Rightarrow> 'a list \<Rightarrow> 'a list" where
  "vec_insert pos x xs = take pos xs @ x # drop pos xs"

definition vec_remove :: "nat \<Rightarrow> 'a list \<Rightarrow> 'a list" where
  "vec_remove pos xs = take pos xs @ drop (Suc pos) xs"

definition holders_new :: holders where
  "holders_new = []"

definition hold :: "hold_reason \<Rightarrow> holders \<Rightarrow> bool \<times> holders" where
  "hold reason h =
     (case binary_search reason h of
        Found _ \<Rightarrow> (False, h)
      | InsertAt pos \<Rightarrow> (True, vec_insert pos reason h))"

datatype release_result = Emptied | StillHeld | NotHeld

definition release :: "hold_reason \<Rightarrow> holders \<Rightarrow> release_result \<times> holders" where
  "release reason h =
     (case binary_search reason h of
        InsertAt _ \<Rightarrow> (NotHeld, h)
      | Found pos \<Rightarrow>
          (let h' = vec_remove pos h in (if h' = [] then Emptied else StillHeld, h')))"

definition holders_contains :: "hold_reason \<Rightarrow> holders \<Rightarrow> bool" where
  "holders_contains reason h =
     (case binary_search reason h of Found _ \<Rightarrow> True | InsertAt _ \<Rightarrow> False)"

definition holders_len :: "holders \<Rightarrow> nat" where
  "holders_len h = length h"

definition holders_is_empty :: "holders \<Rightarrow> bool" where
  "holders_is_empty h \<longleftrightarrow> h = []"

definition describe :: "holders \<Rightarrow> string" where
  "describe h = (if h = [] then ''none'' else join '','' (map reason_str h))"

section \<open>The vector is a set\<close>

text \<open>The invariant of the type: sorted and without duplicates.\<close>

definition holders_inv :: "holders \<Rightarrow> bool" where
  "holders_inv h \<longleftrightarrow> sorted_wrt (<) h"

abbreviation below :: "'a::linorder \<Rightarrow> 'a list \<Rightarrow> 'a list" where
  "below x xs \<equiv> takeWhile (\<lambda>y. y < x) xs"

abbreviation above :: "'a::linorder \<Rightarrow> 'a list \<Rightarrow> 'a list" where
  "above x xs \<equiv> dropWhile (\<lambda>y. y < x) xs"

lemma above_ge: "sorted_wrt (<) xs \<Longrightarrow> y \<in> set (above x xs) \<Longrightarrow> x \<le> y"
  by (induction xs) (auto split: if_splits simp: not_less)

lemma below_less: "y \<in> set (below x xs) \<Longrightarrow> y < x"
  by (rule set_takeWhileD [THEN conjunct2])

lemma sorted_parts:
  "sorted_wrt (<) xs \<Longrightarrow> sorted_wrt (<) (below x xs) \<and> sorted_wrt (<) (above x xs) \<and>
     (\<forall>a\<in>set (below x xs). \<forall>b\<in>set (above x xs). a < b)"
  using sorted_wrt_append [of "(<)" "below x xs" "above x xs"] by simp

text \<open>The two outcomes of a search, with the parts of the vector it separates.\<close>

lemma binary_search_cases:
  assumes "sorted_wrt (<) xs"
  obtains (found) lo hi where "xs = lo @ x # hi" "binary_search x xs = Found (length lo)"
  | (absent) lo hi where "xs = lo @ hi" "binary_search x xs = InsertAt (length lo)"
    "\<forall>y\<in>set lo. y < x" "\<forall>y\<in>set hi. x < y"
proof (cases "above x xs")
  case Nil
  then have b: "below x xs = xs" using takeWhile_dropWhile_id [of "\<lambda>y. y < x" xs] by simp
  then have "\<forall>y\<in>set xs. y < x" using below_less by metis
  moreover have "binary_search x xs = InsertAt (length xs)"
    by (simp only: binary_search_def b Let_def less_irrefl simp_thms if_False)
  ultimately show thesis using absent [of xs "[]"] by simp
next
  case (Cons y rest)
  define lo where "lo = below x xs"
  have xs: "xs = lo @ y # rest" using takeWhile_dropWhile_id [of "\<lambda>y. y < x" xs] Cons by (simp add: lo_def)
  have lo: "\<forall>z\<in>set lo. z < x" using below_less by (auto simp: lo_def)
  have "x \<le> y" using above_ge [OF assms, of y x] Cons by simp
  moreover have srt: "\<forall>z\<in>set rest. y < z" using sorted_parts [OF assms, of x] Cons by simp
  moreover have at: "length lo < length xs" "xs ! length lo = y" using xs by simp_all
  have bs: "binary_search x xs = (if y = x then Found (length lo) else InsertAt (length lo))"
    using at by (simp add: binary_search_def Let_def lo_def)
  show thesis
  proof (cases "x = y")
    case True
    then show thesis using found [of lo rest] xs bs by simp
  next
    case False
    with \<open>x \<le> y\<close> srt have "\<forall>z\<in>set (y # rest). x < z" by auto
    then show thesis using absent [of lo "y # rest"] xs bs lo False by simp
  qed
qed

lemma hold_refines:
  assumes "holders_inv h"
  shows "fst (hold r h) \<longleftrightarrow> r \<notin> set h" and "set (snd (hold r h)) = Set.insert r (set h)"
    and "holders_inv (snd (hold r h))"
proof -
  have s: "sorted_wrt (<) h" using assms by (simp add: holders_inv_def)
  then have "(fst (hold r h) \<longleftrightarrow> r \<notin> set h) \<and> set (snd (hold r h)) = Set.insert r (set h) \<and>
    holders_inv (snd (hold r h))"
  proof (cases rule: binary_search_cases [of h r])
    case (absent lo hi)
    then show ?thesis using s by (auto simp: hold_def holders_inv_def vec_insert_def sorted_wrt_append)
  qed (use assms in \<open>auto simp: hold_def\<close>)
  then show "fst (hold r h) \<longleftrightarrow> r \<notin> set h" "set (snd (hold r h)) = Set.insert r (set h)"
    "holders_inv (snd (hold r h))" by simp_all
qed

lemma release_refines:
  assumes "holders_inv h"
  shows "set (snd (release r h)) = set h - {r}" and "holders_inv (snd (release r h))"
    and "fst (release r h) = (if r \<notin> set h then NotHeld else if set h = {r} then Emptied else StillHeld)"
proof -
  have s: "sorted_wrt (<) h" using assms by (simp add: holders_inv_def)
  then have "set (snd (release r h)) = set h - {r} \<and> holders_inv (snd (release r h)) \<and>
    fst (release r h) = (if r \<notin> set h then NotHeld else if set h = {r} then Emptied else StillHeld)"
  proof (cases rule: binary_search_cases [of h r])
    case (found lo hi)
    have v: "vec_remove (length lo) h = lo @ hi" by (simp add: vec_remove_def found(1))
    have srt: "sorted_wrt (<) (lo @ hi)" and r: "r \<notin> set (lo @ hi)"
      using s by (auto simp: found(1) sorted_wrt_append)
    have set: "set h = Set.insert r (set (lo @ hi))" by (auto simp: found(1))
    then have "set h = {r} \<longleftrightarrow> lo @ hi = []" using r by (cases "lo @ hi") auto
    then show ?thesis using found(2) v srt r set by (auto simp: release_def holders_inv_def Let_def)
  next
    case (absent lo hi)
    then show ?thesis using assms by (auto simp: release_def)
  qed
  then show "set (snd (release r h)) = set h - {r}" "holders_inv (snd (release r h))"
    "fst (release r h) = (if r \<notin> set h then NotHeld else if set h = {r} then Emptied else StillHeld)"
    by simp_all
qed

lemma contains_refines:
  assumes "holders_inv h"
  shows "holders_contains r h \<longleftrightarrow> r \<in> set h"
proof -
  have "sorted_wrt (<) h" using assms by (simp add: holders_inv_def)
  then show ?thesis by (cases rule: binary_search_cases [of h r]) (auto simp: holders_contains_def)
qed

section \<open>Polling\<close>

text \<open>
  What the callers do to one record over time: any sequence of holds and releases. The
  run counts the episodes opened (a hold on an empty set) and the restores fired.
\<close>

datatype hold_event = Hold hold_reason | Release hold_reason

record hold_run =
  hr_holders :: holders
  hr_episodes :: nat
  hr_restores :: nat

fun hold_step :: "hold_event \<Rightarrow> hold_run \<Rightarrow> hold_run" where
  "hold_step (Hold r) s =
     s\<lparr>hr_holders := snd (hold r (hr_holders s)),
       hr_episodes := hr_episodes s + (if holders_is_empty (hr_holders s) then 1 else 0)\<rparr>"
| "hold_step (Release r) s =
     s\<lparr>hr_holders := snd (release r (hr_holders s)),
       hr_restores := hr_restores s + (if fst (release r (hr_holders s)) = Emptied then 1 else 0)\<rparr>"

definition hold_start :: hold_run where
  "hold_start = \<lparr>hr_holders = holders_new, hr_episodes = 0, hr_restores = 0\<rparr>"

definition run_holds :: "hold_event list \<Rightarrow> hold_run" where
  "run_holds es = fold hold_step es hold_start"

definition run_inv :: "hold_run \<Rightarrow> bool" where
  "run_inv s \<longleftrightarrow> holders_inv (hr_holders s) \<and>
     hr_episodes s = hr_restores s + (if hr_holders s = [] then 0 else 1)"

lemma hold_nonempty: "snd (hold r h) \<noteq> []"
  by (auto simp: hold_def vec_insert_def binary_search_def Let_def split: search_result.splits if_splits)

lemma run_inv_step: "run_inv s \<Longrightarrow> run_inv (hold_step e s)"
proof (cases e)
  case (Hold r)
  assume "run_inv s"
  then show ?thesis using hold_refines(3) [of "hr_holders s" r] hold_nonempty [of r "hr_holders s"]
    by (auto simp: Hold run_inv_def holders_is_empty_def)
next
  case (Release r)
  assume inv: "run_inv s"
  then have h: "holders_inv (hr_holders s)" by (simp add: run_inv_def)
  note rel = release_refines [OF h, of r]
  have "fst (release r (hr_holders s)) = Emptied \<longleftrightarrow> hr_holders s \<noteq> [] \<and> snd (release r (hr_holders s)) = []"
    using rel(1,3) by (cases "hr_holders s") (auto simp: set_empty [symmetric] simp del: set_empty)
  moreover have "hr_holders s = [] \<Longrightarrow> snd (release r (hr_holders s)) = []"
    using rel(1) by simp
  ultimately show ?thesis using inv rel(2) by (auto simp: Release run_inv_def)
qed

lemma run_inv_fold: "run_inv s \<Longrightarrow> run_inv (fold hold_step es s)"
  by (induction es arbitrary: s) (simp_all add: run_inv_step)

lemma run_holds_inv: "run_inv (run_holds es)"
  unfolding run_holds_def
  by (rule run_inv_fold) (simp add: run_inv_def hold_start_def holders_new_def holders_inv_def)

text \<open>The reasons a sequence of events leaves behind: those held and not released since.\<close>

fun holding :: "hold_event list \<Rightarrow> hold_reason set" where
  "holding [] = {}"
| "holding (Hold r # es) = Set.insert r (holding es)"
| "holding (Release r # es) = holding es - {r}"

lemma run_holds_set: "set (hr_holders (run_holds es)) = holding (rev es)"
proof (induction es rule: rev_induct)
  case Nil
  then show ?case by (simp add: run_holds_def hold_start_def holders_new_def)
next
  case (snoc e es)
  have h: "holders_inv (hr_holders (run_holds es))" using run_holds_inv [of es] by (simp add: run_inv_def)
  show ?case
    using snoc hold_refines(2) [OF h] release_refines(1) [OF h] by (cases e) (simp_all add: run_holds_def)
qed

end
