(* ===== verification/Core_Keys.thy ===== *)
theory Core_Keys
  imports Prelude
begin

text \<open>
  Store keys (\<open>core/src/state.rs\<close>): colon-joined segments, account scopes, and the slug
  check of trade ids (\<open>core/src/intent.rs\<close>) that keeps colons out of them.
\<close>

text \<open>The keys are built by \<open>format!\<close> with a colon between the segments.\<close>

definition colon_key :: "string list \<Rightarrow> string" where
  "colon_key parts = join '':'' parts"

definition no_colon :: "string \<Rightarrow> bool" where
  "no_colon s \<longleftrightarrow> CHR '':'' \<notin> set s"

definition account_scope_global :: string where
  "account_scope_global = ''_''"

definition account_scope :: "string option \<Rightarrow> string" where
  "account_scope account = (case account of None \<Rightarrow> account_scope_global | Some n \<Rightarrow> n)"

definition account_from_scope :: "string \<Rightarrow> string option" where
  "account_from_scope scope = (if scope = account_scope_global then None else Some scope)"

text \<open>\<open>str::split_once\<close>: the parts around the first occurrence of a character.\<close>

definition split_once :: "char \<Rightarrow> string \<Rightarrow> (string \<times> string) option" where
  "split_once c s =
     (case dropWhile (\<lambda>x. x \<noteq> c) s of [] \<Rightarrow> None | _ # rest \<Rightarrow> Some (takeWhile (\<lambda>x. x \<noteq> c) s, rest))"

fun starts_with :: "string \<Rightarrow> string \<Rightarrow> bool" where
  "starts_with [] s = True"
| "starts_with (c # p) [] = False"
| "starts_with (c # p) (d # s) = (c = d \<and> starts_with p s)"

definition strip_prefix :: "string \<Rightarrow> string \<Rightarrow> string option" where
  "strip_prefix p s = (if starts_with p s then Some (drop (length p) s) else None)"

fun contains_str :: "string \<Rightarrow> string \<Rightarrow> bool" where
  "contains_str [] p = (p = [])"
| "contains_str (c # s) p = (starts_with p (c # s) \<or> contains_str s p)"

definition slug_char :: "char \<Rightarrow> bool" where
  "slug_char c \<longleftrightarrow> c \<in> set ''abcdefghijklmnopqrstuvwxyz'' \<or> c \<in> set ''0123456789'' \<or> c = CHR ''-''"

definition trade_id_max_len :: nat where
  "trade_id_max_len = 64"

definition is_valid_trade_id :: "string \<Rightarrow> bool" where
  "is_valid_trade_id s =
     (if s = [] \<or> length s > trade_id_max_len then False
      else if hd s = CHR ''-'' \<or> last s = CHR ''-'' then False
      else if contains_str s ''--'' then False
      else list_all slug_char s)"

section \<open>Keys identify their segments\<close>

lemma starts_with_iff: "starts_with p s \<longleftrightarrow> (\<exists>t. s = p @ t)"
  by (induction p s rule: starts_with.induct) auto

lemma starts_with_append [simp]: "starts_with p (p @ t)"
  by (auto simp: starts_with_iff)

lemma strip_prefix_Some: "strip_prefix p s = Some t \<longleftrightarrow> s = p @ t"
  by (auto simp: strip_prefix_def starts_with_iff)

lemma no_colon_Cons [simp]: "no_colon (c # s) \<longleftrightarrow> c \<noteq> CHR '':'' \<and> no_colon s"
  by (auto simp: no_colon_def)

lemma no_colon_Nil [simp]: "no_colon []"
  by (simp add: no_colon_def)

lemma split_once_colon:
  assumes "no_colon x"
  shows "split_once CHR '':'' (x @ CHR '':'' # rest) = Some (x, rest)"
proof -
  have all: "\<And>c. c \<in> set x \<Longrightarrow> c \<noteq> CHR '':''" using assms by (auto simp: no_colon_def)
  then show ?thesis by (simp add: split_once_def takeWhile_append2 dropWhile_append2)
qed

lemma append_colon_inject:
  "no_colon x \<Longrightarrow> no_colon y \<Longrightarrow> x @ CHR '':'' # xs = y @ CHR '':'' # ys \<longleftrightarrow> x = y \<and> xs = ys"
proof (induction x arbitrary: y)
  case Nil
  then show ?case by (cases y) auto
next
  case (Cons c x)
  then show ?case by (cases y) auto
qed

lemma colon_key_Cons: "colon_key (x # y # ys) = x @ CHR '':'' # colon_key (y # ys)"
  by (simp add: colon_key_def)

lemma colon_key_single [simp]: "colon_key [x] = x"
  by (simp add: colon_key_def)

lemma colon_key_has_colon: "\<not> no_colon (colon_key (x # y # ys))"
  by (simp add: colon_key_Cons no_colon_def)

text \<open>Two keys agree only when their segments do, if the segments hold no colon.\<close>

lemma colon_key_inject:
  "list_all no_colon xs \<Longrightarrow> list_all no_colon ys \<Longrightarrow> xs \<noteq> [] \<Longrightarrow> ys \<noteq> [] \<Longrightarrow>
     colon_key xs = colon_key ys \<longleftrightarrow> xs = ys"
proof (induction xs arbitrary: ys rule: induct_list012)
  case (2 x)
  then obtain y zs where ys: "ys = y # zs" by (cases ys) auto
  show ?case
  proof (cases zs)
    case Nil
    then show ?thesis by (simp add: ys)
  next
    case (Cons z ws)
    have "colon_key ys \<noteq> x" using 2 colon_key_has_colon [of y z ws] by (auto simp: ys Cons)
    then show ?thesis by (auto simp: ys Cons)
  qed
next
  case (3 x y xs)
  then obtain z zs where ys: "ys = z # zs" by (cases ys) auto
  show ?case
  proof (cases zs)
    case Nil
    then show ?thesis using 3 ys colon_key_has_colon [of x y xs] by auto
  next
    case (Cons w ws)
    then show ?thesis using 3 ys by (auto simp: colon_key_Cons append_colon_inject)
  qed
qed simp

text \<open>Scanning for a prefix of whole segments finds exactly the keys that begin with them.\<close>

lemma starts_with_key:
  "list_all no_colon xs \<Longrightarrow> list_all no_colon ys \<Longrightarrow> xs \<noteq> [] \<Longrightarrow> ys \<noteq> [] \<Longrightarrow>
     starts_with (colon_key xs @ '':'') (colon_key ys) \<longleftrightarrow>
       length xs < length ys \<and> take (length xs) ys = xs"
proof (induction xs arbitrary: ys rule: induct_list012)
  case (2 x)
  then obtain y zs where ys: "ys = y # zs" by (cases ys) auto
  show ?case
  proof (cases zs)
    case Nil
    then show ?thesis using 2 ys by (auto simp: starts_with_iff no_colon_def)
  next
    case (Cons z ws)
    then show ?thesis using 2 ys
      by (auto simp: starts_with_iff colon_key_Cons append_colon_inject)
  qed
next
  case (3 x y xs)
  then obtain z zs where ys: "ys = z # zs" by (cases ys) auto
  show ?case
  proof (cases zs)
    case Nil
    then show ?thesis using 3 ys by (auto simp: starts_with_iff colon_key_Cons no_colon_def)
  next
    case (Cons w ws)
    have "starts_with (colon_key (x # y # xs) @ '':'') (colon_key ys) \<longleftrightarrow>
        x = z \<and> starts_with (colon_key (y # xs) @ '':'') (colon_key zs)"
      using 3 by (auto simp: ys Cons starts_with_iff colon_key_Cons append_colon_inject)
    also have "\<dots> \<longleftrightarrow> x = z \<and> length (y # xs) < length zs \<and> take (length (y # xs)) zs = y # xs"
      using 3 ys Cons by auto
    finally show ?thesis by (auto simp: ys)
  qed
qed simp

lemma slug_char_colon: "\<not> slug_char CHR '':''"
  by (simp add: slug_char_def)

lemma slug_no_colon: "is_valid_trade_id s \<Longrightarrow> no_colon s"
  using slug_char_colon unfolding is_valid_trade_id_def no_colon_def list_all_iff
  by (metis (no_types, lifting))

text \<open>An account name that is not the global scope keeps scopes apart.\<close>

definition proper_account :: "string option \<Rightarrow> bool" where
  "proper_account account \<longleftrightarrow> (\<forall>n. account = Some n \<longrightarrow> no_colon n \<and> n \<noteq> account_scope_global)"

lemma account_scope_inject:
  "proper_account a \<Longrightarrow> proper_account b \<Longrightarrow> account_scope a = account_scope b \<longleftrightarrow> a = b"
  by (auto simp: proper_account_def account_scope_def split: option.splits)

lemma account_scope_no_colon: "proper_account a \<Longrightarrow> no_colon (account_scope a)"
  by (auto simp: proper_account_def account_scope_def account_scope_global_def split: option.splits)

lemma account_from_to_scope: "proper_account a \<Longrightarrow> account_from_scope (account_scope a) = a"
  by (auto simp: proper_account_def account_scope_def account_from_scope_def split: option.splits)

lemma proper_global [simp]: "proper_account None"
  by (simp add: proper_account_def)

end
