(* ===== verification/Core_Float.thy ===== *)
theory Core_Float
  imports Prelude
begin

text \<open>
  Rust's \<open>f64\<close>: IEEE 754 binary64 with round-to-nearest, ties to even, written out over the
  rationals. A value is a rational, an infinity or not a number; the two zeros are one
  value. The arithmetic the code uses is exact arithmetic followed by \<open>round64\<close>.
\<close>

datatype f64 = Fin rat | Inf bool | NaN

text \<open>\<open>Inf True\<close> is the negative infinity.\<close>

section \<open>Rounding\<close>

definition pow2 :: "int \<Rightarrow> rat" where
  "pow2 k = (if 0 \<le> k then 2 ^ nat k else 1 / 2 ^ nat (- k))"

function int_log2 :: "int \<Rightarrow> int" where
  "int_log2 n = (if n < 2 then 0 else 1 + int_log2 (n div 2))"
  by pat_completeness auto
termination by (relation "measure nat") auto

declare int_log2.simps [simp del]

text \<open>The exponent \<open>e\<close> with \<open>2\<^sup>e \<le> x < 2\<^sup>e\<^sup>+\<^sup>1\<close>, for a positive \<open>x\<close>.\<close>

definition ilog2 :: "rat \<Rightarrow> int" where
  "ilog2 x = (case quotient_of x of (n, d) \<Rightarrow>
     let k = int_log2 n - int_log2 d in if pow2 k \<le> x then k else k - 1)"

definition round_even :: "rat \<Rightarrow> int" where
  "round_even x = (let f = \<lfloor>x\<rfloor>; r = x - of_int f in
     if r < 1 / 2 then f else if 1 / 2 < r then f + 1 else if even f then f else f + 1)"

definition ulp64 :: "rat \<Rightarrow> rat" where
  "ulp64 x = pow2 (max (ilog2 \<bar>x\<bar> - 52) (- 1074))"

definition round64 :: "rat \<Rightarrow> f64" where
  "round64 x =
     (if x = 0 then Fin 0
      else let r = of_int (round_even (x / ulp64 x)) * ulp64 x in
        if 1024 \<le> ilog2 \<bar>r\<bar> then Inf (x < 0) else Fin r)"

section \<open>Arithmetic and comparison\<close>

fun fneg :: "f64 \<Rightarrow> f64" where
  "fneg (Fin a) = Fin (- a)" | "fneg (Inf s) = Inf (\<not> s)" | "fneg NaN = NaN"

fun fadd :: "f64 \<Rightarrow> f64 \<Rightarrow> f64" where
  "fadd (Fin a) (Fin b) = round64 (a + b)"
| "fadd (Fin _) (Inf s) = Inf s"
| "fadd (Inf s) (Fin _) = Inf s"
| "fadd (Inf s) (Inf t) = (if s = t then Inf s else NaN)"
| "fadd _ _ = NaN"

definition fsub :: "f64 \<Rightarrow> f64 \<Rightarrow> f64" where
  "fsub x y = fadd x (fneg y)"

fun fmul :: "f64 \<Rightarrow> f64 \<Rightarrow> f64" where
  "fmul (Fin a) (Fin b) = round64 (a * b)"
| "fmul (Fin a) (Inf s) = (if a = 0 then NaN else Inf (s \<noteq> (a < 0)))"
| "fmul (Inf s) (Fin a) = (if a = 0 then NaN else Inf (s \<noteq> (a < 0)))"
| "fmul (Inf s) (Inf t) = Inf (s \<noteq> t)"
| "fmul _ _ = NaN"

text \<open>A zero divisor counts as the positive zero.\<close>

fun fdiv :: "f64 \<Rightarrow> f64 \<Rightarrow> f64" where
  "fdiv (Fin a) (Fin b) = (if b = 0 then if a = 0 then NaN else Inf (a < 0) else round64 (a / b))"
| "fdiv (Fin _) (Inf _) = Fin 0"
| "fdiv (Inf s) (Fin b) = Inf (s \<noteq> (b < 0))"
| "fdiv _ _ = NaN"

fun fabs64 :: "f64 \<Rightarrow> f64" where
  "fabs64 (Fin a) = Fin \<bar>a\<bar>" | "fabs64 (Inf _) = Inf False" | "fabs64 NaN = NaN"

fun flt :: "f64 \<Rightarrow> f64 \<Rightarrow> bool" where
  "flt (Fin a) (Fin b) = (a < b)"
| "flt (Fin _) (Inf s) = (\<not> s)"
| "flt (Inf s) (Fin _) = s"
| "flt (Inf s) (Inf t) = (s \<and> \<not> t)"
| "flt _ _ = False"

fun feq :: "f64 \<Rightarrow> f64 \<Rightarrow> bool" where
  "feq (Fin a) (Fin b) = (a = b)" | "feq (Inf s) (Inf t) = (s = t)" | "feq _ _ = False"

definition fle :: "f64 \<Rightarrow> f64 \<Rightarrow> bool" where
  "fle x y \<longleftrightarrow> flt x y \<or> feq x y"

fun is_finite :: "f64 \<Rightarrow> bool" where
  "is_finite (Fin _) = True" | "is_finite _ = False"

text \<open>\<open>f64::max\<close> and \<open>f64::min\<close> ignore a NaN operand.\<close>

definition fmax :: "f64 \<Rightarrow> f64 \<Rightarrow> f64" where
  "fmax x y = (if x = NaN then y else if y = NaN then x else if flt x y then y else x)"

definition fmin :: "f64 \<Rightarrow> f64 \<Rightarrow> f64" where
  "fmin x y = (if x = NaN then y else if y = NaN then x else if flt y x then y else x)"

text \<open>A decimal literal of the source is the double nearest to it.\<close>

definition lit :: "rat \<Rightarrow> f64" where
  "lit q = round64 q"

text \<open>
  \<open>f64::round\<close> (ties away from zero), \<open>floor\<close> and \<open>ceil\<close>; their results are representable.
\<close>

definition round_away :: "rat \<Rightarrow> int" where
  "round_away x = (if x < 0 then - \<lfloor>- x + 1 / 2\<rfloor> else \<lfloor>x + 1 / 2\<rfloor>)"

fun map_fin :: "(rat \<Rightarrow> int) \<Rightarrow> f64 \<Rightarrow> f64" where
  "map_fin f (Fin a) = Fin (of_int (f a))" | "map_fin f x = x"

definition fround :: "f64 \<Rightarrow> f64" where "fround = map_fin round_away"

definition ffloor :: "f64 \<Rightarrow> f64" where "ffloor = map_fin floor"

definition fceil :: "f64 \<Rightarrow> f64" where "fceil = map_fin ceiling"

definition fgt :: "f64 \<Rightarrow> f64 \<Rightarrow> bool" where
  "fgt x y = flt y x"

definition fge :: "f64 \<Rightarrow> f64 \<Rightarrow> bool" where
  "fge x y = fle y x"

definition fne :: "f64 \<Rightarrow> f64 \<Rightarrow> bool" where
  "fne x y \<longleftrightarrow> \<not> feq x y"

section \<open>Rounding facts\<close>

lemma pow2_pos [simp]: "0 < pow2 k"
  by (simp add: pow2_def)

lemma pow2_nonzero [simp]: "pow2 k \<noteq> 0" "0 \<le> pow2 k" "\<bar>pow2 k\<bar> = pow2 k"
  using pow2_pos [of k] by linarith+

lemma pow2_add: "pow2 (i + j) = pow2 i * pow2 j"
proof -
  have eq: "pow2 k = 2 powi k" for k
    by (simp add: pow2_def power_int_def inverse_eq_divide power_one_over)
  show ?thesis unfolding eq by (simp add: power_int_add)
qed

lemma pow2_mono: "i \<le> j \<Longrightarrow> pow2 i \<le> pow2 j"
proof -
  assume "i \<le> j"
  then have "pow2 j = pow2 i * 2 ^ nat (j - i)"
    using pow2_add [of i "j - i"] by (simp add: pow2_def)
  then show ?thesis using mult_left_mono [of 1 "2 ^ nat (j - i)" "pow2 i"] by simp
qed

lemma int_log2_nonneg [simp]: "0 \<le> int_log2 n"
  by (induction n rule: int_log2.induct) (subst int_log2.simps, simp)

lemma pow2_Suc: "0 \<le> k \<Longrightarrow> pow2 (1 + k) = 2 * pow2 k"
  by (simp add: pow2_def nat_add_distrib)

lemma int_log2_bounds: "0 < n \<Longrightarrow> pow2 (int_log2 n) \<le> of_int n \<and> of_int n < pow2 (1 + int_log2 n)"
proof (induction n rule: int_log2.induct)
  case (1 n)
  show ?case
  proof (cases "n < 2")
    case True
    with 1 have "n = 1" by simp
    then show ?thesis by (simp add: int_log2.simps pow2_def)
  next
    case False
    let ?k = "int_log2 (n div 2)"
    have eq: "int_log2 n = 1 + ?k" using False by (subst int_log2.simps) simp
    have half: "pow2 ?k \<le> of_int (n div 2)" "of_int (n div 2) < pow2 (1 + ?k)"
      using 1 False by auto
    have "pow2 (1 + ?k) = of_int (2 ^ nat (1 + ?k))" by (simp add: pow2_def)
    then have up: "of_int (n div 2 + 1) \<le> pow2 (1 + ?k)"
      using half(2) by (metis of_int_le_iff of_int_less_iff zless_imp_add1_zle)
    have "n < 2 * (n div 2 + 1) \<and> 2 * (n div 2) \<le> n" by presburger
    then have "(of_int n :: rat) < of_int (2 * (n div 2 + 1))" "(of_int (2 * (n div 2)) :: rat) \<le> of_int n"
      by (simp_all only: of_int_less_iff of_int_le_iff)
    then have "(of_int n :: rat) < 2 * of_int (n div 2 + 1)" "2 * (of_int (n div 2) :: rat) \<le> of_int n"
      by (simp_all only: of_int_mult of_int_numeral)
    then show ?thesis
      using half(1) up pow2_Suc [of ?k] pow2_Suc [of "1 + ?k"] unfolding eq by simp
  qed
qed

lemma pow2_int: "0 \<le> k \<Longrightarrow> pow2 k = of_int (2 ^ nat k)"
  by (simp add: pow2_def)

lemma pow2_less: "i < j \<Longrightarrow> pow2 i < pow2 j"
  using pow2_mono [of "i + 1" j] pow2_add [of i 1] pow2_pos [of i] by (simp add: pow2_def)

lemma pow2_less_iff [simp]: "pow2 i < pow2 j \<longleftrightarrow> i < j"
  by (metis less_irrefl not_less_iff_gr_or_eq order_less_trans pow2_less)

lemma pow2_ratio: "pow2 i / pow2 j = pow2 (i - j)"
  using pow2_add [of "i - j" j] pow2_pos [of j] by (simp add: field_simps)

lemma ilog2_bounds:
  assumes "0 < x"
  shows "pow2 (ilog2 x) \<le> x \<and> x < pow2 (ilog2 x + 1)"
proof -
  obtain n d where nd: "quotient_of x = (n, d)" by fastforce
  have d: "0 < d" and x: "x = of_int n / of_int d"
    using quotient_of_denom_pos [OF nd] quotient_of_div [OF nd] by auto
  with assms have n: "0 < n" by (simp add: zero_less_divide_iff)
  let ?a = "int_log2 n" and ?b = "int_log2 d"
  have nb: "pow2 ?a \<le> of_int n" "of_int n < pow2 (1 + ?a)"
    and db: "pow2 ?b \<le> of_int d" "of_int d < pow2 (1 + ?b)"
    using int_log2_bounds [OF n] int_log2_bounds [OF d] by auto
  have "x < pow2 (1 + ?a) / pow2 ?b" unfolding x
    using nb db d n by (intro frac_less pow2_pos) auto
  then have upper: "x < pow2 (?a - ?b + 1)" by (simp add: pow2_ratio add.commute add_diff_eq)
  have "pow2 ?a / pow2 (1 + ?b) \<le> x" unfolding x
    using nb db d n by (intro frac_le pow2_pos) auto
  then have lower: "pow2 (?a - ?b - 1) \<le> x" by (simp add: pow2_ratio algebra_simps)
  show ?thesis using upper lower by (auto simp: ilog2_def nd Let_def)
qed

lemma ilog2_less: "0 < x \<Longrightarrow> x < pow2 k \<Longrightarrow> ilog2 x < k"
  using ilog2_bounds [of x] pow2_less_iff by (meson le_less_trans)

lemma ilog2_ge: "0 < x \<Longrightarrow> pow2 k \<le> x \<Longrightarrow> k \<le> ilog2 x"
  using ilog2_bounds [of x] pow2_less_iff [of k "ilog2 x + 1"] by (smt (verit) le_less_trans)

lemma ilog2_mono: "0 < x \<Longrightarrow> x \<le> y \<Longrightarrow> ilog2 x \<le> ilog2 y"
  using ilog2_bounds [of x] ilog2_ge [of y "ilog2 x"] by simp

lemma round_even_int [simp]: "round_even (of_int k) = k"
  by (simp add: round_even_def)

lemma round_even_mono: "x \<le> y \<Longrightarrow> round_even x \<le> round_even y"
proof (cases "\<lfloor>x\<rfloor> = \<lfloor>y\<rfloor>")
  case True
  moreover assume "x \<le> y"
  ultimately show ?thesis by (auto simp: round_even_def Let_def)
next
  case False
  assume "x \<le> y"
  with False have "\<lfloor>x\<rfloor> + 1 \<le> \<lfloor>y\<rfloor>" using floor_mono [of x y] by linarith
  moreover have "round_even x \<le> \<lfloor>x\<rfloor> + 1" "\<lfloor>y\<rfloor> \<le> round_even y"
    by (auto simp: round_even_def Let_def)
  ultimately show ?thesis by linarith
qed

lemma round_even_minus: "round_even (- x) = - round_even x"
proof (cases "x = of_int \<lfloor>x\<rfloor>")
  case True
  then show ?thesis by (metis of_int_minus round_even_int)
next
  case False
  then have "\<lfloor>- x\<rfloor> = - \<lfloor>x\<rfloor> - 1" by linarith
  then show ?thesis by (auto simp: round_even_def Let_def)
qed

section \<open>Exact results\<close>

lemma ulp64_pow2: "ulp64 x = pow2 (max (ilog2 \<bar>x\<bar> - 52) (- 1074))"
  by (simp add: ulp64_def)

lemma ulp64_pos [simp]: "0 < ulp64 x" "0 \<le> ulp64 x" "ulp64 x \<noteq> 0"
  by (simp_all add: ulp64_def)

text \<open>A value with a significand of 53 bits and an exponent in range is not rounded.\<close>

lemma round64_exact:
  assumes x: "x = of_int m * pow2 e" and m: "\<bar>m\<bar> < 2 ^ 53" and e: "- 1074 \<le> e" "e \<le> 971"
  shows "round64 x = Fin x"
proof (cases "x = 0")
  case True
  then show ?thesis by (simp add: round64_def)
next
  case False
  have "\<bar>x\<bar> = of_int \<bar>m\<bar> * pow2 e" by (simp add: x abs_mult)
  also have "\<dots> < of_int (2 ^ 53) * pow2 e"
    using m by (intro mult_strict_right_mono) (simp_all only: of_int_less_iff pow2_pos)
  also have "\<dots> = pow2 (53 + e)" by (simp add: pow2_add pow2_int [of 53])
  finally have lt: "\<bar>x\<bar> < pow2 (53 + e)" .
  then have log: "ilog2 \<bar>x\<bar> < 53 + e" using False by (intro ilog2_less) simp_all
  define u where "u = max (ilog2 \<bar>x\<bar> - 52) (- 1074)"
  have u: "u \<le> e" using log e by (simp add: u_def)
  have ulp: "ulp64 x = pow2 u" by (simp only: ulp64_pow2 u_def)
  have "x / ulp64 x = of_int m * pow2 (e - u)"
    unfolding ulp by (simp add: x pow2_ratio [symmetric])
  also have "\<dots> = of_int (m * 2 ^ nat (e - u))" using u by (simp add: pow2_int)
  finally have "of_int (round_even (x / ulp64 x)) * ulp64 x = x"
    by (metis divide_eq_eq less_irrefl round_even_int ulp64_pos)
  then show ?thesis using False log e by (simp add: round64_def)
qed

lemma round64_int: "\<bar>k\<bar> < 2 ^ 53 \<Longrightarrow> round64 (of_int k) = Fin (of_int k)"
  by (rule round64_exact [of _ k 0]) (simp_all add: pow2_def)

lemma round64_small [simp]:
  "round64 0 = Fin 0" "round64 1 = Fin 1"
  "numeral n < (2 :: int) ^ 53 \<Longrightarrow> round64 (numeral n) = Fin (numeral n)"
  using round64_int [of 1] round64_int [of "numeral n"] by (simp_all add: round64_def)

lemma round64_half:
  "\<bar>k\<bar> < 2 ^ 53 \<Longrightarrow> j \<le> 1074 \<Longrightarrow> round64 (of_int k / 2 ^ j) = Fin (of_int k / 2 ^ j)"
  by (rule round64_exact [of _ k "- int j"]) (simp_all add: pow2_def)

lemma round64_minus: "round64 (- x) = fneg (round64 x)"
  by (auto simp: round64_def ulp64_def round_even_minus)

lemma round64_numeral [simp]:
  "numeral n < (2 :: int) ^ 53 \<Longrightarrow> round64 (- numeral n) = Fin (- numeral n)" "round64 (- 1) = Fin (- 1)"
  "numeral n < (2 :: int) ^ 53 \<Longrightarrow> round64 (numeral n / 2) = Fin (numeral n / 2)"
  "numeral n < (2 :: int) ^ 53 \<Longrightarrow> round64 (numeral n / 4) = Fin (numeral n / 4)"
  "round64 (1 / 2) = Fin (1 / 2)" "round64 (1 / 4) = Fin (1 / 4)"
  using round64_half [of "numeral n" 1] round64_half [of "numeral n" 2]
    round64_half [of 1 1] round64_half [of 1 2]
  by (simp_all add: round64_minus)

section \<open>Rounding is monotone\<close>

definition rnd :: "rat \<Rightarrow> rat" where
  "rnd x = (if x = 0 then 0 else of_int (round_even (x / ulp64 x)) * ulp64 x)"

lemma round64_rnd: "round64 x = (if x \<noteq> 0 \<and> 1024 \<le> ilog2 \<bar>rnd x\<bar> then Inf (x < 0) else Fin (rnd x))"
  by (simp add: round64_def rnd_def Let_def)

lemma rnd_minus: "rnd (- x) = - rnd x"
  by (simp add: rnd_def ulp64_def round_even_minus)

text \<open>A power of two on the grid of \<open>x\<close> bounds the rounding of \<open>x\<close> like \<open>x\<close> itself.\<close>

lemma round_even_bounds:
  "x \<le> of_int k \<Longrightarrow> round_even x \<le> k" "of_int k \<le> x \<Longrightarrow> k \<le> round_even x"
  using round_even_mono [of x "of_int k"] round_even_mono [of "of_int k" x] by simp_all

lemma rnd_le_pow2:
  assumes "0 < x" "x \<le> pow2 k" "- 1074 \<le> k"
  shows "rnd x \<le> pow2 k"
proof -
  define u where "u = max (ilog2 x - 52) (- 1074)"
  have "x < pow2 (k + 1)" using assms(2) pow2_less [of k "k + 1"] by linarith
  then have "ilog2 x \<le> k" using ilog2_less [OF assms(1), of "k + 1"] by simp
  then have u: "u \<le> k" using assms by (simp add: u_def)
  have ulp: "ulp64 x = pow2 u" using assms by (simp add: ulp64_def u_def)
  have k: "pow2 k = of_int (2 ^ nat (k - u)) * pow2 u"
    using u pow2_add [of "k - u" u] by (simp add: pow2_int)
  then have "x / pow2 u \<le> of_int (2 ^ nat (k - u))"
    using assms(2) by (simp add: pos_divide_le_eq)
  then have "of_int (round_even (x / pow2 u)) * pow2 u \<le> of_int (2 ^ nat (k - u)) * pow2 u"
    by (intro mult_right_mono) (simp_all only: of_int_le_iff round_even_bounds less_imp_le pow2_pos)
  then show ?thesis using assms by (simp add: rnd_def ulp k)
qed

lemma pow2_le_rnd:
  assumes "0 < y" "- 1074 \<le> ilog2 y"
  shows "pow2 (ilog2 y) \<le> rnd y"
proof -
  define u where "u = max (ilog2 y - 52) (- 1074)"
  have u: "u \<le> ilog2 y" using assms by (simp add: u_def)
  have ulp: "ulp64 y = pow2 u" using assms by (simp add: ulp64_def u_def)
  have k: "pow2 (ilog2 y) = of_int (2 ^ nat (ilog2 y - u)) * pow2 u"
    using u pow2_add [of "ilog2 y - u" u] by (simp add: pow2_int)
  then have "of_int (2 ^ nat (ilog2 y - u)) \<le> y / pow2 u"
    using ilog2_bounds [OF assms(1)] by (simp add: pos_le_divide_eq)
  then have "of_int (2 ^ nat (ilog2 y - u)) * pow2 u \<le> of_int (round_even (y / pow2 u)) * pow2 u"
    by (intro mult_right_mono) (simp_all only: of_int_le_iff round_even_bounds pow2_nonzero)
  then show ?thesis using assms by (simp add: rnd_def ulp k)
qed

lemma rnd_nonneg: "0 \<le> x \<Longrightarrow> 0 \<le> rnd x"
  using round_even_bounds(2) [of 0 "x / ulp64 x"] by (simp add: rnd_def)

lemma rnd_mono_pos:
  assumes "0 < x" "x \<le> y"
  shows "rnd x \<le> rnd y"
proof (cases "ulp64 x = ulp64 y")
  case True
  have "x / ulp64 y \<le> y / ulp64 y" using assms by (intro divide_right_mono) simp_all
  then show ?thesis using assms True round_even_mono
    by (simp add: rnd_def)
next
  case False
  have log: "ilog2 x \<le> ilog2 y" using assms ilog2_mono by simp
  have "ilog2 x \<noteq> ilog2 y" using False assms by (auto simp: ulp64_def)
  with log have less: "ilog2 x < ilog2 y" by simp
  have range: "- 1022 \<le> ilog2 y" using False less assms by (auto simp: ulp64_def max_def split: if_splits)
  have "x < pow2 (ilog2 x + 1)" using ilog2_bounds [OF assms(1)] by simp
  also have "\<dots> \<le> pow2 (ilog2 y)" using less by (intro pow2_mono) simp
  finally have "rnd x \<le> pow2 (ilog2 y)" using rnd_le_pow2 [OF assms(1)] range by simp
  also have "\<dots> \<le> rnd y" using pow2_le_rnd [of y] assms range by simp
  finally show ?thesis .
qed

lemma rnd_mono: "x \<le> y \<Longrightarrow> rnd x \<le> rnd y"
proof -
  assume le: "x \<le> y"
  consider "0 < x" | "x \<le> 0" "0 \<le> y" | "y < 0" by linarith
  then show ?thesis
  proof cases
    case 1 then show ?thesis using rnd_mono_pos le by simp
  next
    case 2 then show ?thesis using rnd_nonneg [of "- x"] rnd_nonneg [of y] rnd_minus [of x] by simp
  next
    case 3 then show ?thesis using rnd_mono_pos [of "- y" "- x"] le by (simp add: rnd_minus)
  qed
qed

lemma round64_mono: "x \<le> y \<Longrightarrow> fle (round64 x) (round64 y)"
proof -
  assume le: "x \<le> y"
  have r: "rnd x \<le> rnd y" using le by (rule rnd_mono)
  have "0 < x \<Longrightarrow> 1024 \<le> ilog2 \<bar>rnd x\<bar> \<Longrightarrow> 1024 \<le> ilog2 \<bar>rnd y\<bar>"
  proof -
    assume x: "0 < x" and big: "1024 \<le> ilog2 \<bar>rnd x\<bar>"
    have "rnd x \<noteq> 0" using big by (auto simp: ilog2_def int_log2.simps pow2_def)
    with rnd_nonneg [of x] x have "0 < rnd x" by simp
    then show ?thesis using ilog2_mono [of "rnd x" "rnd y"] r big by simp
  qed
  moreover have "y < 0 \<Longrightarrow> 1024 \<le> ilog2 \<bar>rnd y\<bar> \<Longrightarrow> 1024 \<le> ilog2 \<bar>rnd x\<bar>"
  proof -
    assume y: "y < 0" and big: "1024 \<le> ilog2 \<bar>rnd y\<bar>"
    have "rnd y \<noteq> 0" using big by (auto simp: ilog2_def int_log2.simps pow2_def)
    with rnd_nonneg [of "- y"] y have "rnd y < 0" by (simp add: rnd_minus)
    then show ?thesis using ilog2_mono [of "- rnd y" "- rnd x"] r big by simp
  qed
  ultimately show ?thesis using le r
    by (auto simp: round64_rnd fle_def not_less) (metis linorder_neqE_linordered_idom not_less)+
qed

lemma round64_rnd_exact: "round64 x = Fin x \<Longrightarrow> rnd x = x"
  by (auto simp: round64_rnd split: if_splits)

text \<open>Rounding does not cross a representable value.\<close>

lemma round64_ge: "round64 a = Fin a \<Longrightarrow> a \<le> x \<Longrightarrow> fle (Fin a) (round64 x)"
  using round64_mono [of a x] by simp

lemma round64_le: "round64 a = Fin a \<Longrightarrow> x \<le> a \<Longrightarrow> fle (round64 x) (Fin a)"
  using round64_mono [of x a] by simp

lemma round64_neq_NaN [simp]: "round64 x \<noteq> NaN"
  by (simp add: round64_rnd)

lemma fle_refl [simp]: "x \<noteq> NaN \<Longrightarrow> fle x x"
  by (cases x) (auto simp: fle_def)

lemma fle_trans: "fle x y \<Longrightarrow> fle y z \<Longrightarrow> fle x z"
  by (cases x; cases y; cases z) (auto simp: fle_def)

lemma fle_Fin [simp]: "fle (Fin a) (Fin b) \<longleftrightarrow> a \<le> b"
  by (auto simp: fle_def)

lemma not_flt: "x \<noteq> NaN \<Longrightarrow> y \<noteq> NaN \<Longrightarrow> \<not> flt x y \<longleftrightarrow> fle y x"
  by (cases x; cases y) (auto simp: fle_def)

lemma flt_imp_fle: "flt x y \<Longrightarrow> fle x y"
  by (simp add: fle_def)

end
