(* ===== verification/Core_Rows.thy ===== *)
theory Core_Rows
  imports Core_Hold Core_Keys Core_Float
begin

text \<open>
  The rows of the state store (\<open>core/src/state.rs\<close>, \<open>control_event.rs\<close>,
  \<open>position_tracking.rs\<close>, \<open>trade_plan.rs\<close>, \<open>plan_state.rs\<close>, \<open>settlement.rs\<close>). The intent inside
  a plan's rule has the type parameter \<open>'d\<close>.
\<close>

datatype direction = Long | Short

datatype blackout_close_action = CancelResting | CancelAndClose

datatype granularity = M1 | M5 | M15 | H1 | H4 | D1

fun granularity_seconds :: "granularity \<Rightarrow> int" where
  "granularity_seconds M1 = 60"
| "granularity_seconds M5 = 300"
| "granularity_seconds M15 = 900"
| "granularity_seconds H1 = 3600"
| "granularity_seconds H4 = 14400"
| "granularity_seconds D1 = 86400"

datatype breakeven_trigger = PriceProgress | PriceProgressOrMaCross | MaCrossOnly | MaProtectionOnly

record breakeven =
  bk_sma_200_break :: bool
  bk_trigger :: breakeven_trigger
  bk_threshold :: f64

record breakeven_snapshot =
  bs_rule :: breakeven
  bs_entry_price :: f64
  bs_take_profit :: f64
  bs_granularity :: granularity

record mw_state =
  mst_neckline :: f64
  mst_right_shoulder :: "f64 option"
  mst_updated_at :: time
  mst_expires_at :: time

record no_entry_window =
  nw_open_min :: nat
  nw_close_min :: nat

datatype stored_reason = BelowMinR | BelowMinRForecast | BelowMinSize | SpreadHour | MarketClosed

record stored_order =
  so_signed_intent :: string
  so_reason :: stored_reason
  so_original_sl_distance :: f64
  so_tp_distance :: f64
  so_min_r :: f64
  so_stored_at :: time
  so_drop_at :: time
  so_shell_time :: time
  so_replaces :: "string option"
  so_bar_seconds :: "int option"

record order_control_snapshot =
  oc_original_stop_loss :: f64
  oc_take_profit_price :: f64
  oc_min_r :: f64
  oc_bar_seconds :: "int option"

record entry_attempt =
  ea_trade_id :: string
  ea_account :: "string option"
  ea_instrument :: string
  ea_attempt_no :: nat
  ea_broker_order_id :: string
  ea_broker_trade_id :: "string option"
  ea_direction :: direction
  ea_placed_at :: time
  ea_shell_time :: time
  ea_expires_at :: time
  ea_stop_loss_price :: "f64 option"
  ea_adverse_extreme :: "f64 option"
  ea_cancel_at :: "time option"
  ea_pip_size :: "f64 option"
  ea_blackout_close :: blackout_close_action
  ea_breakeven :: "breakeven_snapshot option"
  ea_order_control :: "order_control_snapshot option"
  ea_superseded :: bool

record pause_entry =
  pe_trade_id :: string
  pe_blackout_id :: string
  pe_reason :: "string option"
  pe_set_at :: time
  pe_expires_at :: time

record news_entry =
  ne_trade_id :: string
  ne_news_id :: string
  ne_reason :: "string option"
  ne_set_at :: time
  ne_expires_at :: time

record spread_window =
  sw_opened_at :: time
  sw_expires_at :: time

record hours_entry =
  he_instrument :: string
  he_windows :: "no_entry_window list"
  he_updated_at :: time
  he_expires_at :: time

record remembered_stop =
  rm_id :: string
  rm_original_stop :: f64

record cancelled_order =
  co_order_id :: string
  co_signed_intent :: string

record held_record =
  hd_trade_id :: string
  hd_instrument :: string
  hd_account :: "string option"
  hd_applied :: bool
  hd_holders :: holders
  hd_opened_at :: time
  hd_expires_at :: time
  hd_pip_size :: f64
  hd_original_stops :: "remembered_stop list"
  hd_cancelled_orders :: "cancelled_order list"
  hd_stored_orders :: "stored_order list"

record position_link =
  pl_account :: "string option"
  pl_trade_id :: string
  pl_instrument :: string
  pl_direction :: direction
  pl_broker_order_id :: string
  pl_broker_position_id :: "string option"

datatype control_kind = KCooldown | KVeto | KPrep | KPause | KNews | KSpreadBlackout | KBlackoutHours

record control_event =
  ce_kind :: control_kind
  ce_name :: string
  ce_instrument :: string
  ce_set_at :: time
  ce_ttl_seconds :: nat
  ce_computed_expiry :: time
  ce_request_id :: "string option"

datatype broker_kind = Oanda | TradeNation | Ibkr | Mt5 | Ctrader

text \<open>
  Plans (\<open>core/src/trade_plan.rs\<close>, \<open>trade_plan/entry_conditions.rs\<close>,
  \<open>core/src/moving_average.rs\<close>, \<open>conventions/src/roles.rs\<close>). A rule carries the signed intent
  it sends, of type \<open>'d\<close>; \<open>cr_broker\<close> is that intent's broker. \<open>BTreeSet\<close>s are sets,
  \<open>BTreeMap\<close>s finite functions, periods (\<open>NonZeroU16\<close>) positive naturals.
\<close>

datatype signal_kind = Pinbar | Tweezer | RegularEngulfer | FloatingEngulfer | DoubleTweezer

datatype average_kind = Ema | Sma

record moving_average =
  ma_kind :: average_kind
  ma_period :: nat

record line_point =
  lp_at_epoch :: int
  lp_price :: f64

datatype cross_dir = Either | Up | Down

datatype bar_event = Intrabar | OnClose

datatype trigger =
    AdverseMaCross direction
  | AdverseMaBreak moving_average direction
  | HorizontalCross f64 cross_dir bar_event
  | PriceValueCross f64 cross_dir bar_event
  | TrendlineCross line_point line_point bool int cross_dir bar_event
  | TimeReached int
  | MwEveryBar
  | PinePattern "signal_kind option" direction
  | PullbackFromArm f64 f64 direction

datatype fire_mode = Once | EveryBar

datatype rule_kind =
    SetupInvalidation | PerPositionClose | Control | PrepBreakAndClose | PrepRetest
  | PrepPullback | PrepExpire | Enter | Unspecified

record 'd condition_rule =
  cr_rule_id :: string
  cr_trigger :: trigger
  cr_fire_mode :: fire_mode
  cr_broker :: broker_kind
  cr_intent :: 'd
  cr_kind :: rule_kind

record retrace_line =
  rl_a :: line_point
  rl_b :: line_point

record entry_conditions =
  ec_require_ma_alignment :: bool
  ec_enable_on_ma_touch :: "moving_average list"
  ec_must_touch :: "moving_average list"
  ec_be_offside :: "moving_average list"
  ec_retrace :: "retrace_line option"

record currency_snapshot =
  cs_currency :: string
  cs_direction :: string
  cs_net_score :: f64
  cs_events :: "string list"

record plan_sentiment =
  se_period_start :: time
  se_period_end :: time
  se_overall_direction :: string
  se_confidence :: string
  se_currencies :: "currency_snapshot list"

record 'd trade_plan =
  tp_entry_conditions :: entry_conditions
  tp_trade_id :: string
  tp_instrument :: string
  tp_direction :: direction
  tp_granularity :: granularity
  tp_pip_size :: f64
  tp_rules :: "'d condition_rule list"
  tp_shadow :: bool
  tp_cross_buffer_pct :: f64
  tp_cross_buffer_atr :: f64
  tp_bcr_require_golden :: bool
  tp_retest_atr_step :: f64
  tp_replay_start :: "int option"
  tp_armed_at :: "time option"
  tp_armed_sentiment :: "plan_sentiment option"
  tp_screenshot_url :: "string option"

datatype phase = AwaitBreakAndClose | AwaitEntry | Done

record plan_state =
  ps_ma_touch_seen_at :: "time option"
  ps_retrace_seen_at :: "time option"
  ps_watermark :: "time option"
  ps_phase :: phase
  ps_fired :: "string set"
  ps_last_close :: "string \<rightharpoonup> f64"
  ps_origin_open :: "string \<rightharpoonup> f64"
  ps_break_close_at :: "time option"
  ps_retest_seen_at :: "time option"
  ps_pullback_seen_at :: "time option"
  ps_last_confirmed_enter_at :: "time option"
  ps_mw :: "mw_state option"
  ps_open_news_windows :: "string set"
  ps_entries_blocked :: bool
  ps_expires_at :: time

datatype ledger_source = Activity | Cash

record settled_trade =
  sd_broker_trade_id :: string
  sd_broker_order_id :: "string option"
  sd_instrument :: "string option"
  sd_entry_price :: "f64 option"
  sd_exit_price :: "f64 option"
  sd_size :: "f64 option"
  sd_opened_at :: "time option"
  sd_closed_at :: "time option"
  sd_realized_pl :: "f64 option"
  sd_financing :: "f64 option"
  sd_currency :: "string option"

record ledger_entry =
  le_source :: ledger_source
  le_reference :: "string option"
  le_occurred_at :: "time option"
  le_description :: string
  le_instrument :: "string option"
  le_price :: "f64 option"
  le_size :: "f64 option"
  le_amount :: "f64 option"
  le_currency :: "string option"

record settlement =
  sm_broker :: string
  sm_fetched_at :: time
  sm_trades :: "settled_trade list"
  sm_ledger :: "ledger_entry list"
  sm_warnings :: "string list"

record 'd archived_plan =
  ap_account :: "string option"
  ap_plan :: "'d trade_plan"
  ap_final_state :: plan_state
  ap_archived_at :: time
  ap_settlement :: "settlement option"

record 'd stored_plan =
  sp_account :: "string option"
  sp_plan :: "'d trade_plan"

datatype 'd body =
    TextBody string | PauseBody pause_entry | NewsBody news_entry | WindowBody spread_window
  | HoursBody hours_entry | HeldBody held_record | MwBody mw_state | PlanBody "'d trade_plan"
  | StateBody plan_state | EventBody control_event | ArchiveBody "'d archived_plan"

datatype action =
    Enter | Close | Invalidate | Status | Unlock | Prep | Veto | PrepExpire | ClearPrep | ClearVeto
  | Pause | Resume | NewsStart | NewsEnd | Register | MarketInfo | PlanList | PlanShow | PlanTimeline
  | PlanDelete | PlanPaper | PlanSwapAccount | PlanClosedManually | PlanPurge | PurgeOlderThan

record cooldown_entry =
  cd_instrument :: string
  cd_set_at :: "time option"
  cd_expires_at :: time
  cd_account :: "string option"

record seen_entry =
  se_id :: string
  se_action :: action
  se_seen_at :: "time option"
  se_outcome :: string
  se_expires_at :: time
  se_trade_id :: "string option"

record prep_entry =
  pr_instrument :: string
  pr_step :: string
  pr_set_at :: time
  pr_expires_at :: time
  pr_account :: "string option"

record veto_entry =
  ve_trade_id :: string
  ve_instrument :: string
  ve_name :: string
  ve_expires_at :: time
  ve_account :: "string option"

record prep_block_entry =
  pb_instrument :: string
  pb_step :: string
  pb_expires_at :: time
  pb_account :: "string option"

record snapshot =
  sn_now :: time
  sn_cooldowns :: "cooldown_entry list"
  sn_recent_seen :: "seen_entry list"
  sn_preps :: "prep_entry list"
  sn_vetos :: "veto_entry list"
  sn_pauses :: "pause_entry list"
  sn_news_windows :: "news_entry list"
  sn_prep_blocks :: "prep_block_entry list"
  sn_spread_blackouts :: "held_record list"
  sn_spread_blackout_window :: "spread_window option"

end
