(* ===== verification/Core_Store.thy ===== *)
theory Core_Store
  imports Core_Rows
begin

text \<open>
  The in-memory state store (\<open>MemStateStore\<close> in \<open>core/src/state.rs\<close>), the reference the
  other backends are checked against. A row is stored under a colon-joined key together
  with its expiry; reading compares the expiry with the store's clock. Rows that
  \<open>serde_json\<close> encodes are kept decoded, so a row of another type is an undecodable one.
  A \<open>HashMap\<close> is kept in key order; its iteration order is not part of any statement.
  Instants stay within \<open>chrono\<close>'s range.
\<close>

section \<open>The in-memory store\<close>

record 'd mem_store =
  ms_inner :: "(string, 'd body \<times> time) bt"
  ms_attempts :: "(string \<times> string, entry_attempt list) bt"
  ms_links :: "position_link list"
  ms_clock :: "time option"
  ms_wall :: time

text \<open>\<open>ms_wall\<close> is what \<open>Utc::now()\<close> reads; an injected clock takes precedence.\<close>

definition store_now :: "'d mem_store \<Rightarrow> time" where
  "store_now s = (case ms_clock s of None \<Rightarrow> ms_wall s | Some t \<Rightarrow> t)"

definition set_clock :: "time \<Rightarrow> 'd mem_store \<Rightarrow> 'd mem_store" where
  "set_clock t s = s\<lparr>ms_clock := Some t\<rparr>"

definition empty_store :: "time \<Rightarrow> 'd mem_store" where
  "empty_store wall = \<lparr>ms_inner = [], ms_attempts = [], ms_links = [], ms_clock = None, ms_wall = wall\<rparr>"

definition get_live :: "'d mem_store \<Rightarrow> string \<Rightarrow> 'd body option" where
  "get_live s key =
     (case bt_get (ms_inner s) key of None \<Rightarrow> None
      | Some (val, expiry) \<Rightarrow> if expiry > store_now s then Some val else None)"

definition store_put :: "string \<Rightarrow> 'd body \<Rightarrow> nat \<Rightarrow> time \<Rightarrow> 'd mem_store \<Rightarrow> 'd mem_store" where
  "store_put key val ttl now s =
     s\<lparr>ms_inner := bt_insert key (val, now + seconds (int ttl)) (ms_inner s)\<rparr>"

definition store_delete :: "string \<Rightarrow> 'd mem_store \<Rightarrow> bool \<times> 'd mem_store" where
  "store_delete key s =
     (bt_get (ms_inner s) key \<noteq> None, s\<lparr>ms_inner := bt_remove key (ms_inner s)\<rparr>)"

definition min_ttl_seconds :: nat where "min_ttl_seconds = 60"
definition no_ttl_seconds :: nat where "no_ttl_seconds = 100 * 365 * 24 * 3600"

definition sat_mul64 :: "nat \<Rightarrow> nat \<Rightarrow> nat" where
  "sat_mul64 a b = min (a * b) (2 ^ 64 - 1)"

text \<open>Every store operation may fail; the in-memory one fails only on undecodable rows.\<close>

type_synonym ('d, 'a) store_op = "'d mem_store \<Rightarrow> 'a res \<times> 'd mem_store"

definition delete_row :: "string \<Rightarrow> ('d, bool) store_op" where
  "delete_row key s = (case store_delete key s of (was, s') \<Rightarrow> (Inr was, s'))"

definition clear_row :: "string \<Rightarrow> ('d, unit) store_op" where
  "clear_row key s = (Inr (), snd (store_delete key s))"

definition put_row :: "string \<Rightarrow> 'd body \<Rightarrow> nat \<Rightarrow> time \<Rightarrow> ('d, unit) store_op" where
  "put_row key val ttl now s = (Inr (), store_put key val ttl now s)"

section \<open>Seen ids, cooldowns, preps, vetos\<close>

definition seen_key :: "string \<Rightarrow> string" where "seen_key i = colon_key [''seen'', i]"

definition is_seen :: "string \<Rightarrow> ('d, bool) store_op" where
  "is_seen i s = (Inr (get_live s (seen_key i) \<noteq> None), s)"

text \<open>The in-memory store keeps neither the action nor the outcome of a seen id.\<close>

definition mark_seen ::
  "string \<Rightarrow> action \<Rightarrow> time \<Rightarrow> string \<Rightarrow> nat \<Rightarrow> string option \<Rightarrow> ('d, unit) store_op" where
  "mark_seen i act seen_at outcome ttl trade_id = put_row (seen_key i) (TextBody ''1'') ttl seen_at"

definition forget_seen :: "string \<Rightarrow> ('d, unit) store_op" where
  "forget_seen i = clear_row (seen_key i)"

text \<open>Scoped flags are looked up under the global scope first, then under the account's.\<close>

definition scoped_live :: "string \<Rightarrow> string list \<Rightarrow> string option \<Rightarrow> 'd mem_store \<Rightarrow> bool" where
  "scoped_live kind parts account s =
     (if get_live s (colon_key (kind # account_scope_global # parts)) \<noteq> None then True
      else case account of
        None \<Rightarrow> False
      | Some n \<Rightarrow> get_live s (colon_key (kind # n # parts)) \<noteq> None)"

definition scoped_key :: "string \<Rightarrow> string option \<Rightarrow> string list \<Rightarrow> string" where
  "scoped_key kind account parts = colon_key (kind # account_scope account # parts)"

definition is_cooled_down :: "string option \<Rightarrow> string \<Rightarrow> ('d, bool) store_op" where
  "is_cooled_down account instrument s = (Inr (scoped_live ''cooldown'' [instrument] account s), s)"

definition set_cooldown :: "string option \<Rightarrow> string \<Rightarrow> nat \<Rightarrow> time \<Rightarrow> ('d, unit) store_op" where
  "set_cooldown account instrument hours now =
     put_row (scoped_key ''cooldown'' account [instrument]) (TextBody ''1'')
       (max (sat_mul64 hours 3600) min_ttl_seconds) now"

definition clear_cooldown :: "string option \<Rightarrow> string \<Rightarrow> ('d, bool) store_op" where
  "clear_cooldown account instrument = delete_row (scoped_key ''cooldown'' account [instrument])"

text \<open>
  \<open>chrono\<close>'s RFC 3339 rendering is a parameter: \<open>to_rfc3339\<close> and \<open>parse_from_rfc3339\<close>.
\<close>

record chrono =
  to_rfc3339 :: "time \<Rightarrow> string"
  parse_rfc3339 :: "string \<Rightarrow> time option"
  display_utc :: "time \<Rightarrow> string"

record prep_stamp =
  st_set_at :: time
  st_now :: time

definition prep_stamp_at :: "time \<Rightarrow> prep_stamp" where
  "prep_stamp_at t = \<lparr>st_set_at = t, st_now = t\<rparr>"

definition parse_prep_value :: "string \<Rightarrow> string \<times> string" where
  "parse_prep_value raw = (case split_once CHR ''|'' raw of Some (ts, i) \<Rightarrow> (ts, i) | None \<Rightarrow> (raw, ''''))"

definition set_prep ::
  "chrono \<Rightarrow> string option \<Rightarrow> string \<Rightarrow> string \<Rightarrow> prep_stamp \<Rightarrow> nat \<Rightarrow> string \<Rightarrow> ('d, unit) store_op" where
  "set_prep C account instrument step stamp ttl setter_id =
     put_row (scoped_key ''prep'' account [instrument, step])
       (TextBody (to_rfc3339 C (st_set_at stamp) @ ''|'' @ setter_id))
       (max ttl min_ttl_seconds) (st_now stamp)"

definition body_text :: "'d body \<Rightarrow> string" where
  "body_text b = (case b of TextBody t \<Rightarrow> t | _ \<Rightarrow> [])"

definition get_prep :: "chrono \<Rightarrow> string option \<Rightarrow> string \<Rightarrow> string \<Rightarrow> ('d, time option) store_op" where
  "get_prep C account instrument step s =
     (let global = get_live s (colon_key [''prep'', account_scope_global, instrument, step]);
          found = (case global of Some b \<Rightarrow> Some b
            | None \<Rightarrow> (case account of None \<Rightarrow> None
                | Some n \<Rightarrow> get_live s (colon_key [''prep'', n, instrument, step])))
      in case found of
           None \<Rightarrow> (Inr None, s)
         | Some b \<Rightarrow>
             (case parse_rfc3339 C (fst (parse_prep_value (body_text b))) of
                None \<Rightarrow> (Inl (Err ''parse''), s)
              | Some t \<Rightarrow> (Inr (Some t), s)))"

definition clear_prep :: "string option \<Rightarrow> string \<Rightarrow> string \<Rightarrow> ('d, string option) store_op" where
  "clear_prep account instrument step s =
     (let key = scoped_key ''prep'' account [instrument, step];
          setter = map_option (\<lambda>b. snd (parse_prep_value (body_text b))) (get_live s key)
      in case store_delete key s of (was, s') \<Rightarrow>
           (Inr (if was then Some (case setter of None \<Rightarrow> [] | Some i \<Rightarrow> i) else None), s'))"

definition set_veto ::
  "string option \<Rightarrow> string \<Rightarrow> string \<Rightarrow> string \<Rightarrow> nat \<Rightarrow> ('d, unit) store_op" where
  "set_veto account trade_id instrument nm ttl s =
     put_row (scoped_key ''veto'' account [trade_id, instrument, nm]) (TextBody ''1'')
       (max ttl min_ttl_seconds) (store_now s) s"

definition is_vetoed ::
  "string option \<Rightarrow> string \<Rightarrow> string \<Rightarrow> string \<Rightarrow> ('d, bool) store_op" where
  "is_vetoed account trade_id instrument nm s =
     (Inr (scoped_live ''veto'' [trade_id, instrument, nm] account s), s)"

definition clear_veto ::
  "string option \<Rightarrow> string \<Rightarrow> string \<Rightarrow> string \<Rightarrow> ('d, bool) store_op" where
  "clear_veto account trade_id instrument nm =
     delete_row (scoped_key ''veto'' account [trade_id, instrument, nm])"

definition block_prep ::
  "string option \<Rightarrow> string \<Rightarrow> string \<Rightarrow> time \<Rightarrow> nat \<Rightarrow> ('d, unit) store_op" where
  "block_prep account instrument step now ttl =
     put_row (scoped_key ''prep-blocked'' account [instrument, step]) (TextBody ''1'')
       (max ttl min_ttl_seconds) now"

definition is_prep_blocked :: "string option \<Rightarrow> string \<Rightarrow> string \<Rightarrow> ('d, bool) store_op" where
  "is_prep_blocked account instrument step s =
     (Inr (scoped_live ''prep-blocked'' [instrument, step] account s), s)"

definition clear_prep_block :: "string option \<Rightarrow> string \<Rightarrow> string \<Rightarrow> ('d, bool) store_op" where
  "clear_prep_block account instrument step =
     delete_row (scoped_key ''prep-blocked'' account [instrument, step])"

section \<open>Pauses and news windows\<close>

definition pause_key :: "string \<Rightarrow> string \<Rightarrow> string" where
  "pause_key trade_id blackout_id = colon_key [''pause'', trade_id, blackout_id]"

definition set_pause ::
  "string \<Rightarrow> string \<Rightarrow> string option \<Rightarrow> time \<Rightarrow> nat \<Rightarrow> ('d, unit) store_op" where
  "set_pause trade_id blackout_id reason now ttl =
     put_row (pause_key trade_id blackout_id)
       (PauseBody \<lparr>pe_trade_id = trade_id, pe_blackout_id = blackout_id, pe_reason = reason,
          pe_set_at = now, pe_expires_at = now + seconds (int ttl)\<rparr>)
       (max ttl min_ttl_seconds) now"

text \<open>The live rows whose key starts with a prefix, with their bodies.\<close>

definition live_under :: "string \<Rightarrow> 'd mem_store \<Rightarrow> (string \<times> 'd body) list" where
  "live_under prefix s =
     map (\<lambda>(k, v, e). (k, v))
       (filter (\<lambda>(k, v, e). starts_with prefix k \<and> \<not> e \<le> store_now s) (ms_inner s))"

definition decode_all :: "('d body \<Rightarrow> 'r option) \<Rightarrow> string \<Rightarrow> 'd body list \<Rightarrow> 'r list res" where
  "decode_all dec msg bs =
     foldM (\<lambda>b acc. rbind (ok_or (dec b) msg) (\<lambda>r. Inr (acc @ [r]))) bs []"

definition as_pause :: "'d body \<Rightarrow> pause_entry option" where
  "as_pause b = (case b of PauseBody e \<Rightarrow> Some e | _ \<Rightarrow> None)"

definition list_pauses_for_trade :: "string \<Rightarrow> ('d, pause_entry list) store_op" where
  "list_pauses_for_trade trade_id s =
     (decode_all as_pause ''decode pause'' (map snd (live_under (''pause:'' @ trade_id @ '':'') s)), s)"

definition clear_pause :: "string \<Rightarrow> string \<Rightarrow> ('d, bool) store_op" where
  "clear_pause trade_id blackout_id = delete_row (pause_key trade_id blackout_id)"

definition news_key :: "string \<Rightarrow> string \<Rightarrow> string" where
  "news_key trade_id news_id = colon_key [''news'', trade_id, news_id]"

definition set_news_window ::
  "string \<Rightarrow> string \<Rightarrow> string option \<Rightarrow> time \<Rightarrow> nat \<Rightarrow> ('d, unit) store_op" where
  "set_news_window trade_id news_id reason now ttl =
     put_row (news_key trade_id news_id)
       (NewsBody \<lparr>ne_trade_id = trade_id, ne_news_id = news_id, ne_reason = reason,
          ne_set_at = now, ne_expires_at = now + seconds (int ttl)\<rparr>)
       (max ttl min_ttl_seconds) now"

definition as_news :: "'d body \<Rightarrow> news_entry option" where
  "as_news b = (case b of NewsBody e \<Rightarrow> Some e | _ \<Rightarrow> None)"

definition list_news_windows_for_trade :: "string \<Rightarrow> ('d, news_entry list) store_op" where
  "list_news_windows_for_trade trade_id s =
     (decode_all as_news ''decode news'' (map snd (live_under (''news:'' @ trade_id @ '':'') s)), s)"

definition clear_news_window :: "string \<Rightarrow> string \<Rightarrow> ('d, bool) store_op" where
  "clear_news_window trade_id news_id = delete_row (news_key trade_id news_id)"

section \<open>Entry attempts\<close>

definition attempt_key :: "string option \<Rightarrow> string \<Rightarrow> string \<times> string" where
  "attempt_key account trade_id = (account_scope account, trade_id)"

definition attempts_at :: "'d mem_store \<Rightarrow> string \<times> string \<Rightarrow> entry_attempt list" where
  "attempts_at s key = (case bt_get (ms_attempts s) key of None \<Rightarrow> [] | Some xs \<Rightarrow> xs)"

definition record_entry_attempt :: "entry_attempt \<Rightarrow> ('d, unit) store_op" where
  "record_entry_attempt a s =
     (let key = attempt_key (ea_account a) (ea_trade_id a) in
      (Inr (), s\<lparr>ms_attempts := bt_insert key (sort_key ea_attempt_no (attempts_at s key @ [a]))
        (ms_attempts s)\<rparr>))"

definition list_entry_attempts :: "string option \<Rightarrow> string \<Rightarrow> ('d, entry_attempt list) store_op" where
  "list_entry_attempts account trade_id s = (Inr (attempts_at s (attempt_key account trade_id)), s)"

text \<open>\<open>iter_mut().find(p)\<close>: update the first row that matches.\<close>

fun update_first :: "('a \<Rightarrow> bool) \<Rightarrow> ('a \<Rightarrow> 'a) \<Rightarrow> 'a list \<Rightarrow> 'a list" where
  "update_first p f [] = []"
| "update_first p f (x # xs) = (if p x then f x # xs else x # update_first p f xs)"

definition update_attempt ::
  "string option \<Rightarrow> string \<Rightarrow> (entry_attempt \<Rightarrow> bool) \<Rightarrow> (entry_attempt \<Rightarrow> entry_attempt) \<Rightarrow>
   ('d, unit) store_op" where
  "update_attempt account trade_id p f s =
     (case bt_get (ms_attempts s) (attempt_key account trade_id) of
        None \<Rightarrow> (Inr (), s)
      | Some rows \<Rightarrow> (Inr (), s\<lparr>ms_attempts :=
          bt_insert (attempt_key account trade_id) (update_first p f rows) (ms_attempts s)\<rparr>))"

definition set_entry_attempt_broker_trade_id ::
  "string option \<Rightarrow> string \<Rightarrow> nat \<Rightarrow> string \<Rightarrow> ('d, unit) store_op" where
  "set_entry_attempt_broker_trade_id account trade_id n broker_trade_id =
     update_attempt account trade_id (\<lambda>a. ea_attempt_no a = n)
       (\<lambda>a. a\<lparr>ea_broker_trade_id := Some broker_trade_id\<rparr>)"

definition set_entry_attempt_superseded :: "string option \<Rightarrow> string \<Rightarrow> nat \<Rightarrow> ('d, unit) store_op" where
  "set_entry_attempt_superseded account trade_id n =
     update_attempt account trade_id (\<lambda>a. ea_attempt_no a = n) (\<lambda>a. a\<lparr>ea_superseded := True\<rparr>)"

definition set_entry_attempt_replacement ::
  "string option \<Rightarrow> string \<Rightarrow> string \<Rightarrow> string \<Rightarrow> f64 option \<Rightarrow> ('d, unit) store_op" where
  "set_entry_attempt_replacement account trade_id old_id new_id new_stop =
     update_attempt account trade_id (\<lambda>a. ea_broker_order_id a = old_id)
       (\<lambda>a. a\<lparr>ea_broker_order_id := new_id, ea_stop_loss_price := new_stop\<rparr>)"

definition set_entry_attempt_adverse_extreme ::
  "string option \<Rightarrow> string \<Rightarrow> nat \<Rightarrow> f64 \<Rightarrow> ('d, unit) store_op" where
  "set_entry_attempt_adverse_extreme account trade_id n x =
     update_attempt account trade_id (\<lambda>a. ea_attempt_no a = n) (\<lambda>a. a\<lparr>ea_adverse_extreme := Some x\<rparr>)"

definition list_all_entry_attempts :: "('d, entry_attempt list) store_op" where
  "list_all_entry_attempts s = (Inr (concat (map snd (ms_attempts s))), s)"

definition delete_entry_attempt :: "string option \<Rightarrow> string \<Rightarrow> nat \<Rightarrow> ('d, unit) store_op" where
  "delete_entry_attempt account trade_id n s =
     (case bt_get (ms_attempts s) (attempt_key account trade_id) of
        None \<Rightarrow> (Inr (), s)
      | Some rows \<Rightarrow> (Inr (), s\<lparr>ms_attempts :=
          bt_insert (attempt_key account trade_id) (filter (\<lambda>a. ea_attempt_no a \<noteq> n) rows)
            (ms_attempts s)\<rparr>))"

definition retry_key :: "chrono \<Rightarrow> string option \<Rightarrow> string \<Rightarrow> time \<Rightarrow> string" where
  "retry_key C account trade_id shell_time =
     colon_key [''seen-retry'', account_scope account, trade_id, to_rfc3339 C shell_time]"

definition is_retry_fire_seen :: "chrono \<Rightarrow> string option \<Rightarrow> string \<Rightarrow> time \<Rightarrow> ('d, bool) store_op" where
  "is_retry_fire_seen C account trade_id shell_time s =
     (Inr (get_live s (retry_key C account trade_id shell_time) \<noteq> None), s)"

definition mark_retry_fire_seen ::
  "chrono \<Rightarrow> string option \<Rightarrow> string \<Rightarrow> time \<Rightarrow> nat \<Rightarrow> ('d, unit) store_op" where
  "mark_retry_fire_seen C account trade_id shell_time ttl s =
     put_row (retry_key C account trade_id shell_time) (TextBody ''1'') (max ttl min_ttl_seconds)
       (store_now s) s"

definition record_position_link :: "position_link \<Rightarrow> ('d, unit) store_op" where
  "record_position_link link s =
     (case find (\<lambda>p. pl_account p = pl_account link \<and> pl_broker_order_id p = pl_broker_order_id link)
        (ms_links s) of
        Some existing \<Rightarrow>
          (if existing = link then (Inr (), s) else (Inl (Err ''position link ownership conflict''), s))
      | None \<Rightarrow> (Inr (), s\<lparr>ms_links := ms_links s @ [link]\<rparr>))"

definition list_position_links :: "('d, position_link list) store_op" where
  "list_position_links s = (Inr (ms_links s), s)"

section \<open>Spread blackouts, held records, M/W state\<close>

definition set_spread_blackout_window :: "time \<Rightarrow> nat \<Rightarrow> ('d, unit) store_op" where
  "set_spread_blackout_window now ttl =
     (let t = max ttl min_ttl_seconds in
      put_row ''spread-blackout:window''
        (WindowBody \<lparr>sw_opened_at = now, sw_expires_at = now + seconds (int t)\<rparr>) t now)"

definition get_spread_blackout_window :: "('d, spread_window option) store_op" where
  "get_spread_blackout_window s =
     (case get_live s ''spread-blackout:window'' of
        None \<Rightarrow> (Inr None, s)
      | Some b \<Rightarrow> (case b of WindowBody w \<Rightarrow> (Inr (Some w), s) | _ \<Rightarrow> (Inl (Err ''decode''), s)))"

definition set_blackout_windows :: "string \<Rightarrow> no_entry_window list \<Rightarrow> time \<Rightarrow> nat \<Rightarrow> ('d, unit) store_op" where
  "set_blackout_windows instrument windows now ttl =
     (let t = max ttl min_ttl_seconds in
      put_row (colon_key [''blackout-hours'', instrument])
        (HoursBody \<lparr>he_instrument = instrument, he_windows = windows, he_updated_at = now,
           he_expires_at = now + seconds (int t)\<rparr>) t now)"

definition get_blackout_windows :: "string \<Rightarrow> ('d, no_entry_window list) store_op" where
  "get_blackout_windows instrument s =
     (case get_live s (colon_key [''blackout-hours'', instrument]) of
        None \<Rightarrow> (Inr [], s)
      | Some b \<Rightarrow> (case b of HoursBody e \<Rightarrow> (Inr (he_windows e), s) | _ \<Rightarrow> (Inl (Err ''decode''), s)))"

definition held_key :: "string \<Rightarrow> string" where
  "held_key trade_id = ''spread-blackout:rec:'' @ trade_id"

definition as_held :: "'d body \<Rightarrow> held_record option" where
  "as_held b = (case b of HeldBody r \<Rightarrow> Some r | _ \<Rightarrow> None)"

definition upsert_held_trade_record :: "held_record \<Rightarrow> nat \<Rightarrow> ('d, unit) store_op" where
  "upsert_held_trade_record r ttl s =
     put_row (held_key (hd_trade_id r)) (HeldBody r) (max ttl min_ttl_seconds) (store_now s) s"

definition get_held_trade_record :: "string \<Rightarrow> ('d, held_record option) store_op" where
  "get_held_trade_record trade_id s =
     (case get_live s (held_key trade_id) of
        None \<Rightarrow> (Inr None, s)
      | Some b \<Rightarrow> (case as_held b of Some r \<Rightarrow> (Inr (Some r), s) | None \<Rightarrow> (Inl (Err ''decode''), s)))"

definition list_all_held_trade_records :: "('d, held_record list) store_op" where
  "list_all_held_trade_records s =
     (decode_all as_held ''decode'' (map snd (live_under ''spread-blackout:rec:'' s)), s)"

definition clear_held_trade_record :: "string \<Rightarrow> ('d, unit) store_op" where
  "clear_held_trade_record trade_id = clear_row (held_key trade_id)"

definition get_mw_state :: "string option \<Rightarrow> string \<Rightarrow> ('d, mw_state option) store_op" where
  "get_mw_state account trade_id s =
     (let global = get_live s (colon_key [''mw-state'', account_scope None, trade_id]);
          raw = (if global = None \<and> account \<noteq> None
                 then get_live s (colon_key [''mw-state'', account_scope account, trade_id]) else global)
      in case raw of
           None \<Rightarrow> (Inr None, s)
         | Some b \<Rightarrow> (case b of MwBody m \<Rightarrow> (Inr (Some m), s) | _ \<Rightarrow> (Inl (Err ''decode mw-state''), s)))"

definition upsert_mw_state :: "string option \<Rightarrow> string \<Rightarrow> mw_state \<Rightarrow> nat \<Rightarrow> ('d, unit) store_op" where
  "upsert_mw_state account trade_id m ttl s =
     put_row (colon_key [''mw-state'', account_scope account, trade_id]) (MwBody m)
       (max ttl min_ttl_seconds) (store_now s) s"

definition clear_mw_state :: "string option \<Rightarrow> string \<Rightarrow> ('d, unit) store_op" where
  "clear_mw_state account trade_id = clear_row (colon_key [''mw-state'', account_scope account, trade_id])"

section \<open>Trade plans, plan state, control events, archive, order bodies\<close>

definition plan_key :: "string option \<Rightarrow> string \<Rightarrow> string" where
  "plan_key account trade_id = colon_key [''plan'', account_scope account, trade_id]"

definition put_trade_plan :: "string option \<Rightarrow> 'd trade_plan \<Rightarrow> ('d, unit) store_op" where
  "put_trade_plan account plan s =
     put_row (plan_key account (tp_trade_id plan)) (PlanBody plan) no_ttl_seconds (store_now s) s"

definition as_plan :: "'d body \<Rightarrow> 'd trade_plan option" where
  "as_plan b = (case b of PlanBody p \<Rightarrow> Some p | _ \<Rightarrow> None)"

definition get_trade_plan :: "string option \<Rightarrow> string \<Rightarrow> ('d, 'd trade_plan option) store_op" where
  "get_trade_plan account trade_id s =
     (case get_live s (plan_key account trade_id) of
        None \<Rightarrow> (Inr None, s)
      | Some b \<Rightarrow> (case as_plan b of Some p \<Rightarrow> (Inr (Some p), s) | None \<Rightarrow> (Inl (Err ''decode plan''), s)))"

text \<open>The scope of a row is the segment after the kind; rows without one are skipped.\<close>

definition scope_of_key :: "string \<Rightarrow> string \<Rightarrow> string option" where
  "scope_of_key prefix k =
     (case strip_prefix prefix k of None \<Rightarrow> None
      | Some rest \<Rightarrow> map_option fst (split_once CHR '':'' rest))"

definition list_scoped ::
  "string \<Rightarrow> ('d body \<Rightarrow> 'r option) \<Rightarrow> string \<Rightarrow> 'd mem_store \<Rightarrow> (string option \<times> 'r) list res" where
  "list_scoped prefix dec msg s =
     foldM (\<lambda>(k, b) acc. case scope_of_key prefix k of None \<Rightarrow> Inr acc
         | Some scope \<Rightarrow> rbind (ok_or (dec b) msg) (\<lambda>r. Inr (acc @ [(account_from_scope scope, r)])))
       (live_under prefix s) []"

definition list_all_trade_plans :: "('d, 'd stored_plan list) store_op" where
  "list_all_trade_plans s =
     (rbind (list_scoped ''plan:'' as_plan ''decode plan'' s)
        (\<lambda>xs. Inr (map (\<lambda>(a, p). \<lparr>sp_account = a, sp_plan = p\<rparr>) xs)), s)"

definition clear_trade_plan :: "string option \<Rightarrow> string \<Rightarrow> ('d, unit) store_op" where
  "clear_trade_plan account trade_id = clear_row (plan_key account trade_id)"

definition plan_state_key :: "string option \<Rightarrow> string \<Rightarrow> string" where
  "plan_state_key account trade_id = colon_key [''plan-state'', account_scope account, trade_id]"

definition get_plan_state :: "string option \<Rightarrow> string \<Rightarrow> ('d, plan_state option) store_op" where
  "get_plan_state account trade_id s =
     (case get_live s (plan_state_key account trade_id) of
        None \<Rightarrow> (Inr None, s)
      | Some b \<Rightarrow> (case b of StateBody p \<Rightarrow> (Inr (Some p), s) | _ \<Rightarrow> (Inl (Err ''decode plan-state''), s)))"

definition put_plan_state :: "string option \<Rightarrow> string \<Rightarrow> plan_state \<Rightarrow> ('d, unit) store_op" where
  "put_plan_state account trade_id st s =
     put_row (plan_state_key account trade_id) (StateBody st) no_ttl_seconds (store_now s) s"

definition clear_plan_state :: "string option \<Rightarrow> string \<Rightarrow> ('d, unit) store_op" where
  "clear_plan_state account trade_id = clear_row (plan_state_key account trade_id)"

fun kind_tag :: "control_kind \<Rightarrow> string" where
  "kind_tag KCooldown = ''cooldown''"
| "kind_tag KVeto = ''veto''"
| "kind_tag KPrep = ''prep''"
| "kind_tag KPause = ''pause''"
| "kind_tag KNews = ''news''"
| "kind_tag KSpreadBlackout = ''spread-blackout''"
| "kind_tag KBlackoutHours = ''blackout-hours''"

definition new_control_event ::
  "control_kind \<Rightarrow> string \<Rightarrow> string \<Rightarrow> time \<Rightarrow> nat \<Rightarrow> string option \<Rightarrow> control_event" where
  "new_control_event kind nm instrument set_at ttl request_id =
     \<lparr>ce_kind = kind, ce_name = nm, ce_instrument = instrument, ce_set_at = set_at, ce_ttl_seconds = ttl,
      ce_computed_expiry = set_at + seconds (int ttl), ce_request_id = request_id\<rparr>"

text \<open>\<open>DateTime::timestamp\<close> is the number of whole seconds, rounded down.\<close>

definition timestamp :: "time \<Rightarrow> int" where
  "timestamp t = t div 1000000000"

definition key_suffix :: "control_event \<Rightarrow> string" where
  "key_suffix e =
     (let epoch = show_int (timestamp (ce_set_at e)); tag = kind_tag (ce_kind e) in
      if ce_name e = [] then epoch @ ''-'' @ tag else epoch @ ''-'' @ tag @ ''-'' @ ce_name e)"

definition event_prefix :: "string option \<Rightarrow> string \<Rightarrow> string" where
  "event_prefix account trade_id = colon_key [''control-event'', account_scope account, trade_id] @ '':''"

definition record_control_event :: "string option \<Rightarrow> string \<Rightarrow> control_event \<Rightarrow> ('d, unit) store_op" where
  "record_control_event account trade_id e s =
     put_row (event_prefix account trade_id @ key_suffix e) (EventBody e) no_ttl_seconds (store_now s) s"

definition as_event :: "'d body \<Rightarrow> control_event option" where
  "as_event b = (case b of EventBody e \<Rightarrow> Some e | _ \<Rightarrow> None)"

definition list_control_events :: "string option \<Rightarrow> string \<Rightarrow> ('d, control_event list) store_op" where
  "list_control_events account trade_id s =
     (Inr (sort_key ce_set_at
        (List.map_filter (\<lambda>(k, b). as_event b) (live_under (event_prefix account trade_id) s))), s)"

definition clear_control_events :: "string option \<Rightarrow> string \<Rightarrow> ('d, unit) store_op" where
  "clear_control_events account trade_id s =
     (Inr (), s\<lparr>ms_inner :=
        bt_retain (\<lambda>k _. \<not> starts_with (event_prefix account trade_id) k) (ms_inner s)\<rparr>)"

definition archive_key :: "string option \<Rightarrow> string \<Rightarrow> string" where
  "archive_key account trade_id = colon_key [''archived-plan'', account_scope account, trade_id]"

definition archive_plan ::
  "string option \<Rightarrow> 'd trade_plan \<Rightarrow> plan_state \<Rightarrow> time \<Rightarrow> settlement option \<Rightarrow> ('d, unit) store_op" where
  "archive_plan account plan final archived_at settlement s =
     put_row (archive_key account (tp_trade_id plan))
       (ArchiveBody \<lparr>ap_account = None, ap_plan = plan, ap_final_state = final,
          ap_archived_at = archived_at, ap_settlement = settlement\<rparr>)
       no_ttl_seconds (store_now s) s"

definition as_archive :: "'d body \<Rightarrow> 'd archived_plan option" where
  "as_archive b = (case b of ArchiveBody p \<Rightarrow> Some p | _ \<Rightarrow> None)"

definition list_all_archived_plans :: "('d, 'd archived_plan list) store_op" where
  "list_all_archived_plans s =
     (rbind (list_scoped ''archived-plan:'' as_archive ''decode archived plan'' s)
        (\<lambda>xs. Inr (map (\<lambda>(a, p). p\<lparr>ap_account := a\<rparr>) xs)), s)"

definition clear_archived_plan :: "string option \<Rightarrow> string \<Rightarrow> ('d, unit) store_op" where
  "clear_archived_plan account trade_id = clear_row (archive_key account trade_id)"

definition put_order_body :: "string \<Rightarrow> string \<Rightarrow> ('d, unit) store_op" where
  "put_order_body order_id signed_body s =
     put_row (colon_key [''order'', order_id]) (TextBody signed_body) (2 ^ 32 - 1) (store_now s) s"

definition get_order_body :: "string \<Rightarrow> ('d, string option) store_op" where
  "get_order_body order_id s =
     (Inr (map_option body_text (get_live s (colon_key [''order'', order_id]))), s)"

definition delete_order_body :: "string \<Rightarrow> ('d, unit) store_op" where
  "delete_order_body order_id = clear_row (colon_key [''order'', order_id])"

section \<open>The status snapshot\<close>

text \<open>The in-memory store keeps no indexes: its snapshot is empty.\<close>

definition store_snapshot :: "('d, snapshot) store_op" where
  "store_snapshot s =
     (Inr \<lparr>sn_now = store_now s, sn_cooldowns = [], sn_recent_seen = [], sn_preps = [], sn_vetos = [],
        sn_pauses = [], sn_news_windows = [], sn_prep_blocks = [], sn_spread_blackouts = [],
        sn_spread_blackout_window = None\<rparr>, s)"

section \<open>Shared helpers of the trait\<close>

definition veto_ttl_seconds :: "nat \<Rightarrow> time \<Rightarrow> time \<Rightarrow> nat" where
  "veto_ttl_seconds ttl_hours not_after now =
     (let base = sat_mul64 ttl_hours 3600;
          remaining = nat (max 0 (num_seconds (not_after - now)))
      in max (sat_add 64 base remaining) min_ttl_seconds)"

definition prune_expired :: "('a \<Rightarrow> time) \<Rightarrow> 'a list \<Rightarrow> time \<Rightarrow> 'a list" where
  "prune_expired expires_at entries now = filter (\<lambda>e. expires_at e > now) entries"

end
