(* ===== verification/Core_Flags.thy ===== *)
theory Core_Flags
  imports Core_Store
begin

text \<open>
  Laws of the store: rows and their expiry, the invariant that a row's key determines its
  type, and the contract of account-scoped flags, provided by cooldowns, vetos and
  prep-expiry blocks.
\<close>

section \<open>The store invariant\<close>

text \<open>A row under a listing prefix has the type its readers decode, and its own key.\<close>

definition typed_row :: "string \<Rightarrow> 'd body \<Rightarrow> bool" where
  "typed_row k b \<longleftrightarrow>
     (starts_with ''pause:'' k \<longrightarrow>
        (\<exists>p. b = PauseBody p \<and> k = pause_key (pe_trade_id p) (pe_blackout_id p))) \<and>
     (starts_with ''news:'' k \<longrightarrow>
        (\<exists>p. b = NewsBody p \<and> k = news_key (ne_trade_id p) (ne_news_id p))) \<and>
     (starts_with ''plan:'' k \<longrightarrow> (\<exists>a p. b = PlanBody p \<and> k = plan_key a (tp_trade_id p))) \<and>
     (starts_with ''plan-state:'' k \<longrightarrow> (\<exists>p. b = StateBody p)) \<and>
     (starts_with ''archived-plan:'' k \<longrightarrow>
        (\<exists>a p. b = ArchiveBody p \<and> k = archive_key a (tp_trade_id (ap_plan p)))) \<and>
     (starts_with ''spread-blackout:rec:'' k \<longrightarrow> (\<exists>r. b = HeldBody r \<and> k = held_key (hd_trade_id r))) \<and>
     (k = ''spread-blackout:window'' \<longrightarrow> (\<exists>w. b = WindowBody w)) \<and>
     (starts_with ''blackout-hours:'' k \<longrightarrow> (\<exists>e. b = HoursBody e)) \<and>
     (starts_with ''mw-state:'' k \<longrightarrow> (\<exists>m. b = MwBody m)) \<and>
     (starts_with ''control-event:'' k \<longrightarrow> (\<exists>e. b = EventBody e))"

definition store_inv :: "'d mem_store \<Rightarrow> bool" where
  "store_inv s \<longleftrightarrow> bt_inv (ms_inner s) \<and> bt_inv (ms_attempts s) \<and>
     (\<forall>k b e. bt_get (ms_inner s) k = Some (b, e) \<longrightarrow> typed_row k b) \<and>
     (\<forall>k rows. bt_get (ms_attempts s) k = Some rows \<longrightarrow> sorted (map ea_attempt_no rows))"

lemma store_invD:
  "store_inv s \<Longrightarrow> bt_inv (ms_inner s)" "store_inv s \<Longrightarrow> bt_inv (ms_attempts s)"
  "store_inv s \<Longrightarrow> bt_get (ms_inner s) k = Some (b, e) \<Longrightarrow> typed_row k b"
  by (auto simp: store_inv_def)

lemma store_inv_rows:
  "store_inv s \<Longrightarrow> bt_get (ms_attempts s) k = Some rows \<Longrightarrow> sorted (map ea_attempt_no rows)"
  unfolding store_inv_def by blast

lemma empty_store_inv [simp]: "store_inv (empty_store w)"
  by (simp add: store_inv_def empty_store_def bt_get_def)

named_theorems key_simps \<open>keys as lists of characters\<close>

lemmas key_defs [key_simps] = scoped_key_def seen_key_def pause_key_def news_key_def plan_key_def
  plan_state_key_def archive_key_def event_prefix_def retry_key_def held_key_def colon_key_Cons
  colon_key_single

lemma store_put_inv:
  "store_inv s \<Longrightarrow> typed_row k b \<Longrightarrow> store_inv (store_put k b ttl t s)"
  by (auto simp: store_inv_def store_put_def bt_inv_insert bt.lookup_insert)

lemma store_delete_inv: "store_inv s \<Longrightarrow> store_inv (snd (store_delete k s))"
  by (auto simp: store_inv_def store_delete_def bt_inv_remove bt.lookup_remove)

lemma store_put_simps [simp]:
  "store_now (store_put k b ttl t s) = store_now s" "ms_attempts (store_put k b ttl t s) = ms_attempts s"
  "ms_links (store_put k b ttl t s) = ms_links s" "ms_clock (store_put k b ttl t s) = ms_clock s"
  "ms_wall (store_put k b ttl t s) = ms_wall s"
  by (simp_all add: store_put_def store_now_def split: option.split)

lemma store_delete_simps [simp]:
  "store_now (snd (store_delete k s)) = store_now s" "ms_attempts (snd (store_delete k s)) = ms_attempts s"
  "ms_links (snd (store_delete k s)) = ms_links s"
  by (simp_all add: store_delete_def store_now_def split: option.split)

lemma set_clock_simps [simp]:
  "store_now (set_clock t s) = t" "ms_inner (set_clock t s) = ms_inner s"
  "ms_attempts (set_clock t s) = ms_attempts s" "ms_links (set_clock t s) = ms_links s"
  by (simp_all add: set_clock_def store_now_def)

lemma set_clock_inv [simp]: "store_inv (set_clock t s) \<longleftrightarrow> store_inv s"
  by (simp add: store_inv_def)

section \<open>Rows\<close>

definition row_expiry :: "'d mem_store \<Rightarrow> string \<Rightarrow> time option" where
  "row_expiry s k = map_option snd (bt_get (ms_inner s) k)"

lemma get_live_put:
  "store_inv s \<Longrightarrow> get_live (store_put k b ttl t s) k' =
     (if k' = k then (if t + seconds (int ttl) > store_now s then Some b else None) else get_live s k')"
  by (auto simp: get_live_def store_put_def bt.lookup_insert store_invD store_now_def split: option.splits)

lemma get_live_delete:
  "store_inv s \<Longrightarrow> get_live (snd (store_delete k s)) k' = (if k' = k then None else get_live s k')"
  by (auto simp: get_live_def store_delete_def bt.lookup_remove store_invD store_now_def split: option.splits)

lemma get_live_expiry: "get_live s k \<noteq> None \<longleftrightarrow> (\<exists>e. row_expiry s k = Some e \<and> store_now s < e)"
  by (auto simp: get_live_def row_expiry_def split: option.splits)

lemma row_expiry_put:
  "store_inv s \<Longrightarrow> row_expiry (store_put k b ttl t s) =
     (row_expiry s)(k \<mapsto> t + seconds (int ttl))"
  by (auto simp: row_expiry_def store_put_def bt.lookup_insert store_invD fun_eq_iff)

lemma row_expiry_delete:
  "store_inv s \<Longrightarrow> row_expiry (snd (store_delete k s)) = (row_expiry s)(k := None)"
  by (auto simp: row_expiry_def store_delete_def bt.lookup_remove store_invD fun_eq_iff)

lemma row_expiry_clock [simp]: "row_expiry (set_clock t s) = row_expiry s"
  by (simp add: row_expiry_def fun_eq_iff)

lemma live_under_set:
  assumes "store_inv s"
  shows "(k, b) \<in> set (live_under p s) \<longleftrightarrow> starts_with p k \<and> get_live s k = Some b"
proof -
  have "(k, b) \<in> set (live_under p s) \<longleftrightarrow>
      (\<exists>e. (k, b, e) \<in> set (ms_inner s) \<and> starts_with p k \<and> store_now s < e)"
    by (force simp: live_under_def)
  also have "\<dots> \<longleftrightarrow> starts_with p k \<and> get_live s k = Some b"
    by (auto simp: get_live_def bt_get_in_set [OF store_invD(1) [OF assms], symmetric] split: option.splits)
  finally show ?thesis .
qed

section \<open>Account-scoped flags\<close>

text \<open>
  The contract of a scoped flag. A flag is set in a scope (an account, or all accounts)
  for a time; a query on an account sees its own flag and the global one. The laws speak
  of the expiry of each row; the clients' facts follow.
\<close>

locale scoped_flags =
  fixes set_flag :: "string option \<Rightarrow> 'k \<Rightarrow> nat \<Rightarrow> time \<Rightarrow> 's \<Rightarrow> 's"
    and clear_flag :: "string option \<Rightarrow> 'k \<Rightarrow> 's \<Rightarrow> bool \<times> 's"
    and query :: "string option \<Rightarrow> 'k \<Rightarrow> 's \<Rightarrow> bool"
    and expiry :: "'s \<Rightarrow> string option \<Rightarrow> 'k \<Rightarrow> time option"
    and now :: "'s \<Rightarrow> time" and inv :: "'s \<Rightarrow> bool" and valid :: "'k \<Rightarrow> bool"
  assumes expiry_set: "inv s \<Longrightarrow> proper_account a \<Longrightarrow> proper_account b \<Longrightarrow> valid k \<Longrightarrow> valid j \<Longrightarrow>
      expiry (set_flag a k ttl t s) b j =
        (if b = a \<and> j = k then Some (t + seconds (int ttl)) else expiry s b j)"
    and expiry_clear: "inv s \<Longrightarrow> proper_account a \<Longrightarrow> proper_account b \<Longrightarrow> valid k \<Longrightarrow> valid j \<Longrightarrow>
      expiry (snd (clear_flag a k s)) b j = (if b = a \<and> j = k then None else expiry s b j)"
    and clear_result: "inv s \<Longrightarrow> fst (clear_flag a k s) \<longleftrightarrow> expiry s a k \<noteq> None"
    and query_live: "proper_account a \<Longrightarrow> query a k s \<longleftrightarrow>
      (\<exists>e. expiry s None k = Some e \<and> now s < e) \<or> (\<exists>e. expiry s a k = Some e \<and> now s < e)"
    and now_set: "now (set_flag a k ttl t s) = now s"
    and now_clear: "now (snd (clear_flag a k s)) = now s"
begin

text \<open>A flag covers its own account, or every account if it is global, until it expires.\<close>

lemma set_covers:
  assumes "inv s" "proper_account a" "proper_account b" "valid k" "a = None \<or> b = a"
    and "now s < t + seconds (int ttl)"
  shows "query b k (set_flag a k ttl t s)"
proof (cases "a = None")
  case True
  have "expiry (set_flag a k ttl t s) None k = Some (t + seconds (int ttl))"
    using expiry_set [OF assms(1,2) proper_global assms(4,4), of ttl t] True by simp
  then show ?thesis using assms by (auto simp: query_live now_set)
next
  case False
  with assms(5) have "b = a" by simp
  then have "expiry (set_flag a k ttl t s) b k = Some (t + seconds (int ttl))"
    using expiry_set [OF assms(1,2,3,4,4), of ttl t] by simp
  then show ?thesis using assms by (auto simp: query_live now_set)
qed

text \<open>It touches no other flag, and a flag of one account no other account.\<close>

lemma set_no_leak:
  assumes "inv s" "proper_account a" "proper_account b" "valid k" "valid j"
    and "j \<noteq> k \<or> (a \<noteq> None \<and> b \<noteq> a)"
  shows "query b j (set_flag a k ttl t s) \<longleftrightarrow> query b j s"
proof -
  have "expiry (set_flag a k ttl t s) None j = expiry s None j"
    "expiry (set_flag a k ttl t s) b j = expiry s b j"
    using assms expiry_set [OF assms(1,2) proper_global assms(4,5), of ttl t]
      expiry_set [OF assms(1-5), of ttl t] by auto
  then show ?thesis using assms(3) by (simp add: query_live now_set)
qed

text \<open>Once it has expired, or been cleared, only the other scope's flag is left.\<close>

lemma set_expired:
  assumes "inv s" "proper_account a" "valid k" "t + seconds (int ttl) \<le> now s"
  shows "query a k (set_flag a k ttl t s) \<longleftrightarrow> a \<noteq> None \<and> query None k s"
  using expiry_set [OF assms(1,2) proper_global assms(3,3), of ttl t]
    expiry_set [OF assms(1,2,2,3,3), of ttl t] assms
  by (cases a) (auto simp: query_live now_set)

lemma clear_own:
  assumes "inv s" "proper_account a" "valid k"
  shows "query a k (snd (clear_flag a k s)) \<longleftrightarrow> a \<noteq> None \<and> query None k s"
  using expiry_clear [OF assms(1,2) proper_global assms(3,3)]
    expiry_clear [OF assms(1,2,2,3,3)] assms
  by (cases a) (auto simp: query_live now_clear)

lemma clear_no_leak:
  assumes "inv s" "proper_account a" "proper_account b" "valid k" "valid j"
    and "j \<noteq> k \<or> (a \<noteq> None \<and> b \<noteq> a)"
  shows "query b j (snd (clear_flag a k s)) \<longleftrightarrow> query b j s"
proof -
  have "expiry (snd (clear_flag a k s)) None j = expiry s None j"
    "expiry (snd (clear_flag a k s)) b j = expiry s b j"
    using assms expiry_clear [OF assms(1,2) proper_global assms(4,5)]
      expiry_clear [OF assms(1-5)] by auto
  then show ?thesis using assms(3) by (simp add: query_live now_clear)
qed

end

definition flag_set ::
  "string \<Rightarrow> string option \<Rightarrow> string list \<Rightarrow> nat \<Rightarrow> time \<Rightarrow> 'd mem_store \<Rightarrow> 'd mem_store" where
  "flag_set kind account parts ttl t = store_put (scoped_key kind account parts) (TextBody ''1'') ttl t"

definition flag_clear ::
  "string \<Rightarrow> string option \<Rightarrow> string list \<Rightarrow> 'd mem_store \<Rightarrow> bool \<times> 'd mem_store" where
  "flag_clear kind account parts = store_delete (scoped_key kind account parts)"

definition flag_expiry :: "string \<Rightarrow> 'd mem_store \<Rightarrow> string option \<Rightarrow> string list \<Rightarrow> time option" where
  "flag_expiry kind s account parts = row_expiry s (scoped_key kind account parts)"

definition flag_name :: "nat \<Rightarrow> string list \<Rightarrow> bool" where
  "flag_name n parts \<longleftrightarrow> length parts = n \<and> list_all no_colon parts"

lemma scoped_key_inject:
  assumes "no_colon kind" "proper_account a" "proper_account b" "list_all no_colon xs" "list_all no_colon ys"
  shows "scoped_key kind a xs = scoped_key kind b ys \<longleftrightarrow> a = b \<and> xs = ys"
  using assms colon_key_inject [of "kind # account_scope a # xs" "kind # account_scope b # ys"]
  by (auto simp: scoped_key_def account_scope_no_colon account_scope_inject)

lemma scoped_live_expiry:
  "proper_account a \<Longrightarrow> scoped_live kind parts a s \<longleftrightarrow>
     (\<exists>e. flag_expiry kind s None parts = Some e \<and> store_now s < e) \<or>
     (\<exists>e. flag_expiry kind s a parts = Some e \<and> store_now s < e)"
  by (auto simp: scoped_live_def flag_expiry_def scoped_key_def account_scope_def
      get_live_expiry [symmetric] split: option.splits)

lemma flag_laws:
  assumes "no_colon kind"
  shows "scoped_flags (flag_set kind) (flag_clear kind) (\<lambda>a parts. scoped_live kind parts a)
     (flag_expiry kind) store_now store_inv (flag_name n)"
  using assms
  by unfold_locales
    (auto simp: flag_expiry_def flag_set_def flag_clear_def flag_name_def row_expiry_put row_expiry_delete
      scoped_key_inject scoped_live_expiry, auto simp: store_delete_def row_expiry_def)

interpretation cooldowns: scoped_flags "flag_set ''cooldown''" "flag_clear ''cooldown''"
    "\<lambda>a parts. scoped_live ''cooldown'' parts a" "flag_expiry ''cooldown''" store_now store_inv "flag_name 1"
  by (rule flag_laws) simp

interpretation vetos: scoped_flags "flag_set ''veto''" "flag_clear ''veto''"
    "\<lambda>a parts. scoped_live ''veto'' parts a" "flag_expiry ''veto''" store_now store_inv "flag_name 3"
  by (rule flag_laws) simp

interpretation blocks: scoped_flags "flag_set ''prep-blocked''" "flag_clear ''prep-blocked''"
    "\<lambda>a parts. scoped_live ''prep-blocked'' parts a" "flag_expiry ''prep-blocked''" store_now store_inv
    "flag_name 2"
  by (rule flag_laws) simp

end
