(* ===== verification/Core_Intent.thy ===== *)
theory Core_Intent
  imports Core_Flags
begin

text \<open>
  The signed intent and the bar it is judged on (\<open>core/src/intent.rs\<close> and
  \<open>core/src/intent/\<close>): anchors and offsets that name prices, entry and exit
  specifications, prep slots, the owner of entry dedup, and \<open>Intent::validate\<close>.
\<close>

section \<open>The bar\<close>

record candle =
  cn_time :: time
  cn_o :: f64
  cn_h :: f64
  cn_l :: f64
  cn_c :: f64

text \<open>A pattern the detector (\<open>core/src/signals/state_machine.rs\<close>) has latched.\<close>

datatype sig_state = Pending | Valid | Invalid

record latched_signal =
  ls_direction :: direction
  ls_kind :: signal_kind
  ls_signal_high :: f64
  ls_signal_low :: f64
  ls_signal_range :: f64
  ls_signal_start_time :: time
  ls_signal_bar_time :: time
  ls_golden :: bool
  ls_signal_confirmed :: bool
  ls_band_anchor :: f64
  ls_atr :: "f64 option"
  ls_recent_high :: "f64 option"
  ls_recent_low :: "f64 option"
  ls_state :: sig_state
  ls_fires :: bool

record shell =
  sh_close :: f64
  sh_high :: f64
  sh_low :: f64
  sh_open :: "f64 option"
  sh_time :: time
  sh_signal_high :: "f64 option"
  sh_signal_low :: "f64 option"
  sh_signal_range :: "f64 option"
  sh_signal_start_time :: "time option"
  sh_signal_kind :: "signal_kind option"
  sh_band_anchor :: "f64 option"
  sh_golden :: "bool option"
  sh_atr :: "f64 option"
  sh_signal_confirmed :: "bool option"
  sh_recent_high :: "f64 option"
  sh_recent_low :: "f64 option"
  sh_next_1 :: "time option"
  sh_next_2 :: "time option"
  sh_next_3 :: "time option"
  sh_next_4 :: "time option"
  sh_next_5 :: "time option"

definition from_candle :: "candle \<Rightarrow> shell" where
  "from_candle c =
     \<lparr>sh_close = cn_c c, sh_high = cn_h c, sh_low = cn_l c, sh_open = Some (cn_o c),
      sh_time = cn_time c, sh_signal_high = None, sh_signal_low = None, sh_signal_range = None,
      sh_signal_start_time = None, sh_signal_kind = None, sh_band_anchor = None, sh_golden = None,
      sh_atr = None, sh_signal_confirmed = None, sh_recent_high = None, sh_recent_low = None,
      sh_next_1 = None, sh_next_2 = None, sh_next_3 = None, sh_next_4 = None, sh_next_5 = None\<rparr>"

definition from_candle_and_signal :: "candle \<Rightarrow> latched_signal \<Rightarrow> shell" where
  "from_candle_and_signal c sg = (from_candle c)
     \<lparr>sh_signal_high := Some (ls_signal_high sg), sh_signal_low := Some (ls_signal_low sg),
      sh_signal_range := Some (ls_signal_range sg),
      sh_signal_start_time := Some (ls_signal_start_time sg), sh_signal_kind := Some (ls_kind sg),
      sh_band_anchor := Some (ls_band_anchor sg), sh_golden := Some (ls_golden sg),
      sh_signal_confirmed := Some (ls_signal_confirmed sg), sh_atr := ls_atr sg,
      sh_recent_high := ls_recent_high sg, sh_recent_low := ls_recent_low sg\<rparr>"

definition body_high :: "shell \<Rightarrow> f64 option" where
  "body_high sh = map_option (\<lambda>x. fmax x (sh_close sh)) (sh_open sh)"

definition body_low :: "shell \<Rightarrow> f64 option" where
  "body_low sh = map_option (\<lambda>x. fmin x (sh_close sh)) (sh_open sh)"

definition next_candle_timestamp :: "shell \<Rightarrow> nat \<Rightarrow> time option" where
  "next_candle_timestamp sh n =
     (if n = 1 then sh_next_1 sh else if n = 2 then sh_next_2 sh else if n = 3 then sh_next_3 sh
      else if n = 4 then sh_next_4 sh else if n = 5 then sh_next_5 sh else None)"

section \<open>Prices by reference\<close>

datatype price_anchor =
    AnchorClose | AnchorHigh | AnchorLow | RecentHigh | RecentLow | SignalHigh | SignalLow

fun buffer_sign :: "price_anchor \<Rightarrow> f64 option" where
  "buffer_sign AnchorHigh = Some (Fin 1)"
| "buffer_sign RecentHigh = Some (Fin 1)"
| "buffer_sign SignalHigh = Some (Fin 1)"
| "buffer_sign AnchorLow = Some (Fin (- 1))"
| "buffer_sign RecentLow = Some (Fin (- 1))"
| "buffer_sign SignalLow = Some (Fin (- 1))"
| "buffer_sign AnchorClose = None"

definition or_else :: "'a option \<Rightarrow> 'a \<Rightarrow> 'a" where
  "or_else x y = (case x of None \<Rightarrow> y | Some v \<Rightarrow> v)"

fun anchor_price :: "shell \<Rightarrow> price_anchor \<Rightarrow> f64" where
  "anchor_price sh AnchorClose = sh_close sh"
| "anchor_price sh AnchorHigh = sh_high sh"
| "anchor_price sh AnchorLow = sh_low sh"
| "anchor_price sh RecentHigh = or_else (sh_recent_high sh) (sh_high sh)"
| "anchor_price sh RecentLow = or_else (sh_recent_low sh) (sh_low sh)"
| "anchor_price sh SignalHigh = or_else (sh_signal_high sh) (sh_high sh)"
| "anchor_price sh SignalLow = or_else (sh_signal_low sh) (sh_low sh)"

datatype offset_error =
    BothOffsetsSet | AtrPctOnCloseAnchor | NegativeAtrPct f64 | AtrUnavailable | InvalidBufferSign f64

definition resolve_offset ::
  "price_anchor \<Rightarrow> f64 \<Rightarrow> f64 option \<Rightarrow> shell \<Rightarrow> f64 \<Rightarrow> offset_error + f64" where
  "resolve_offset anchor offset_pips offset_atr_pct sh pip_size =
     (case offset_atr_pct of
        Some p \<Rightarrow>
          if fne offset_pips (Fin 0) then Inl BothOffsetsSet
          else if flt p (Fin 0) then Inl (NegativeAtrPct p)
          else rbind (some_or (buffer_sign anchor) AtrPctOnCloseAnchor) (\<lambda>sign.
               rbind (some_or (sh_atr sh) AtrUnavailable) (\<lambda>atr.
               Inr (fmul (fmul sign (fdiv p (Fin 100))) atr)))
      | None \<Rightarrow> Inr (fmul offset_pips pip_size))"

definition buffer_delta :: "f64 \<Rightarrow> f64 \<Rightarrow> shell \<Rightarrow> offset_error + f64" where
  "buffer_delta offset_atr_pct sign sh =
     (if \<not> is_finite offset_atr_pct \<or> flt offset_atr_pct (Fin 0) then Inl (NegativeAtrPct offset_atr_pct)
      else if fne sign (Fin 1) \<and> fne sign (Fin (- 1)) then Inl (InvalidBufferSign sign)
      else if feq offset_atr_pct (Fin 0) then Inr (Fin 0)
      else rbind (some_or (sh_atr sh) AtrUnavailable) (\<lambda>atr.
           Inr (fmul (fmul sign (fdiv offset_atr_pct (Fin 100))) atr)))"

datatype price_ref =
    AbsoluteBuffered f64 f64 f64
  | Absolute f64
  | Anchored price_anchor f64 "f64 option"

fun price_resolve :: "price_ref \<Rightarrow> shell \<Rightarrow> f64 \<Rightarrow> offset_error + f64" where
  "price_resolve (Absolute a) sh pip_size = Inr a"
| "price_resolve (AbsoluteBuffered a offset_atr_pct sign) sh pip_size =
     rbind (buffer_delta offset_atr_pct sign sh) (\<lambda>d. Inr (fadd a d))"
| "price_resolve (Anchored anchor offset_pips offset_atr_pct) sh pip_size =
     rbind (resolve_offset anchor offset_pips offset_atr_pct sh pip_size)
       (\<lambda>d. Inr (fadd (anchor_price sh anchor) d))"

datatype take_profit = RMultiple price_anchor f64 | AnchoredProfit price_ref

datatype recover_action = RecoverMarket | RecoverLimit | RecoverStop | RecoverSkip

record recover_entry =
  re_action :: recover_action
  re_max_slippage_pips :: "f64 option"

text \<open>A stop or limit entry: anchor, pip offset, ATR offset, absolute level, recovery.\<close>

datatype entry_spec =
    SpecMarket
  | SpecStop price_anchor f64 "f64 option" "f64 option" "recover_entry option"
  | SpecLimit price_anchor f64 "f64 option" "f64 option" "recover_entry option"

section \<open>Gates carried by the intent\<close>

datatype prep_req = AllOf string | AnyOf "string list"

fun alternatives :: "prep_req \<Rightarrow> string list" where
  "alternatives (AllOf nm) = [nm]"
| "alternatives (AnyOf nms) = nms"

definition from_alternatives :: "string list \<Rightarrow> prep_req option" where
  "from_alternatives nms =
     (case nms of [] \<Rightarrow> None | [nm] \<Rightarrow> Some (AllOf nm) | _ \<Rightarrow> Some (AnyOf nms))"

definition contains_step :: "prep_req \<Rightarrow> string \<Rightarrow> bool" where
  "contains_step r step = list_ex (\<lambda>s. s = step) (alternatives r)"

definition requires_step :: "prep_req list \<Rightarrow> string \<Rightarrow> bool" where
  "requires_step rs step = list_ex (\<lambda>r. contains_step r step) rs"

definition all_step_names :: "prep_req list \<Rightarrow> string list" where
  "all_step_names rs = concat (map alternatives rs)"

datatype slot_outcome = Satisfied time | OutOfOrder | Missing

text \<open>One pass over the alternatives' stamps: was any set, and the earliest after \<open>prev\<close>.\<close>

definition slot_scan :: "time option \<Rightarrow> time option \<Rightarrow> bool \<times> time option \<Rightarrow> bool \<times> time option" where
  "slot_scan prev alt acc =
     (case alt of None \<Rightarrow> acc
      | Some set_at \<Rightarrow>
          (True, if prev = None \<or> the prev < set_at
                 then Some (case snd acc of Some existing \<Rightarrow> min existing set_at | None \<Rightarrow> set_at)
                 else snd acc))"

definition resolve_slot :: "time option list \<Rightarrow> time option \<Rightarrow> slot_outcome" where
  "resolve_slot alt_set_ats prev =
     (case fold (slot_scan prev) alt_set_ats (False, None) of
        (_, Some set_at) \<Rightarrow> Satisfied set_at
      | (any_set, None) \<Rightarrow> if any_set then OutOfOrder else Missing)"

datatype entry_dedup = EngineLatched | GateOwned

definition needs_retry_gate :: "entry_dedup \<Rightarrow> bool" where
  "needs_retry_gate d \<longleftrightarrow> d = GateOwned"

datatype 'a tunable = Static 'a | Script string

definition effective_dedup :: "entry_dedup option \<Rightarrow> nat tunable \<Rightarrow> entry_dedup" where
  "effective_dedup stored max_retries =
     (case stored of Some explicit \<Rightarrow> explicit
      | None \<Rightarrow> if max_retries = Static 0 then EngineLatched else GateOwned)"

datatype veto_side = Below | Above

record entry_level_veto =
  ev_name :: string
  ev_level :: f64
  ev_past :: veto_side

definition is_past :: "entry_level_veto \<Rightarrow> f64 \<Rightarrow> bool" where
  "is_past v price = (case ev_past v of Below \<Rightarrow> fle price (ev_level v) | Above \<Rightarrow> fle (ev_level v) price)"

datatype oversize_policy = CapVolume | RejectOversize

datatype veto_level = StopNextEntry | CancelPendingLevel | ClosePositionsLevel

datatype event_window = NewsWindow | PriceWindow

record mw_params =
  mw_neckline :: f64
  mw_first_point :: f64
  mw_runup_start :: f64
  mw_right_shoulder :: "f64 option"
  mw_spread_pips :: f64
  mw_pip_size :: f64

section \<open>The intent\<close>

record 'd intent =
  i_id :: string
  i_not_before :: "time option"
  i_not_after :: time
  i_action :: action
  i_instrument :: string
  i_direction :: "direction option"
  i_entry :: "entry_spec option"
  i_stop_loss :: "price_ref option"
  i_take_profit :: "take_profit option"
  i_risk_pct :: "f64 tunable"
  i_risk_amount :: "f64 tunable option"
  i_size_units :: "f64 tunable option"
  i_on_oversize :: oversize_policy
  i_dry_run :: "bool option"
  i_cooldown_hours :: "nat tunable option"
  i_min_r :: "f64 tunable option"
  i_broker :: broker_kind
  i_account :: "string option"
  i_step :: "string option"
  i_name :: "string option"
  i_ttl_hours :: "nat tunable"
  i_level :: "veto_level option"
  i_requires_preps :: "prep_req list"
  i_vetos :: "string list"
  i_entry_level_vetos :: "entry_level_veto list"
  i_breakeven :: "breakeven option"
  i_clears :: "string list"
  i_trade_id :: "string option"
  i_max_retries :: "nat tunable"
  i_entry_dedup :: "entry_dedup option"
  i_expiry_bars :: "nat tunable option"
  i_allow_entry :: "bool tunable option"
  i_allow_close :: "bool tunable option"
  i_needs_golden :: bool
  i_needs_confirmed :: bool
  i_blackout_id :: "string option"
  i_news_id :: "string option"
  i_require_news_window :: "bool option"
  i_require_price_in_ranges :: "(f64 \<times> f64) list option"
  i_inside_window :: "event_window list"
  i_sr_bands :: "(f64 \<times> f64) list"
  i_veto_on_reversal :: bool
  i_reason :: "string option"
  i_mw :: "mw_params option"
  i_pip_size :: "f64 option"
  i_tick_size :: "f64 option"
  i_contract_multiplier :: "f64 option"
  i_spread_window :: "nat option"
  i_trade_plan :: "'d trade_plan option"
  i_blackout_close :: blackout_close_action
  i_include_archived :: bool
  i_detach_existing :: "bool option"
  i_target_account :: "string option"

text \<open>
  The last two fields are those of the optional \<open>plan_admin\<close> choices.
\<close>

record 'd verified =
  v_intent :: "'d intent"
  v_shell :: shell

definition effective_entry_dedup :: "'d intent \<Rightarrow> entry_dedup" where
  "effective_entry_dedup i = effective_dedup (i_entry_dedup i) (i_max_retries i)"

definition max_expiry_bars :: nat where
  "max_expiry_bars = 5"

text \<open>The error carries the requested count and the maximum.\<close>

definition resolve_cancel_at :: "nat \<Rightarrow> shell \<Rightarrow> time \<Rightarrow> nat \<times> nat + time" where
  "resolve_cancel_at expiry_bars sh not_after =
     (if expiry_bars = 0 \<or> max_expiry_bars < expiry_bars then Inl (expiry_bars, max_expiry_bars)
      else Inr (min (or_else (next_candle_timestamp sh expiry_bars) not_after) not_after))"

section \<open>Validation\<close>

datatype validation_error =
    InvalidTradeId | MaxRetriesWithoutTradeId | MaxRetriesOnNonEnter | EntryDedupWithoutTradeId
  | EntryDedupOnNonEnter | AllowEntryOnNonEnter | AllowCloseOnNonClose | NeedsGoldenOnDisallowedAction
  | NeedsConfirmedOnDisallowedAction | InsideWindowOnNonClose | InsideWindowSrBandsMismatch
  | InvalidSrBands | VetoOnReversalOnNonClose | VetoOnReversalWithoutPriceWindow
  | MixedOldAndNewCloseGates | MissingTtlHours | MissingPauseFields | InvalidBlackoutId
  | MissingNewsFields | InvalidNewsId | RequireNewsWindowOnNonClose | RequirePriceInRangesOnNonClose
  | InvalidPriceRanges | MissingPrepExpireStep | MwOnNonEnter | MwFieldInvalid
  | ContractMultiplierInvalid | PipSizeInvalid | OffsetSpecInvalid offset_error | MissingTradeId

definition check_offset_static :: "f64 \<times> f64 option \<times> price_anchor \<Rightarrow> offset_error + unit" where
  "check_offset_static spec =
     (case spec of (offset_pips, offset_atr_pct, anchor) \<Rightarrow>
        case offset_atr_pct of None \<Rightarrow> Inr ()
        | Some p \<Rightarrow>
            if fne offset_pips (Fin 0) then Inl BothOffsetsSet
            else if \<not> is_finite p \<or> flt p (Fin 0) then Inl (NegativeAtrPct p)
            else if buffer_sign anchor = None then Inl AtrPctOnCloseAnchor
            else Inr ())"

definition entry_offsets :: "entry_spec option \<Rightarrow> (f64 \<times> f64 option \<times> price_anchor) list" where
  "entry_offsets e =
     (case e of Some (SpecStop anchor p a _ _) \<Rightarrow> [(p, a, anchor)]
      | Some (SpecLimit anchor p a _ _) \<Rightarrow> [(p, a, anchor)] | _ \<Rightarrow> [])"

definition price_offsets :: "price_ref option \<Rightarrow> (f64 \<times> f64 option \<times> price_anchor) list" where
  "price_offsets r = (case r of Some (Anchored anchor p a) \<Rightarrow> [(p, a, anchor)] | _ \<Rightarrow> [])"

definition anchored_offsets :: "'d intent \<Rightarrow> (f64 \<times> f64 option \<times> price_anchor) list" where
  "anchored_offsets i = entry_offsets (i_entry i) @ price_offsets (i_stop_loss i) @
     price_offsets (case i_take_profit i of Some (AnchoredProfit r) \<Rightarrow> Some r | _ \<Rightarrow> None)"

definition crossed_band :: "f64 \<times> f64 \<Rightarrow> bool" where
  "crossed_band b = fgt (fst b) (snd b)"

definition mw_valid :: "mw_params \<Rightarrow> bool" where
  "mw_valid w \<longleftrightarrow>
     is_finite (mw_neckline w) \<and> is_finite (mw_first_point w) \<and> is_finite (mw_runup_start w) \<and>
     is_finite (mw_spread_pips w) \<and> fge (mw_spread_pips w) (Fin 0) \<and>
     is_finite (mw_pip_size w) \<and> fgt (mw_pip_size w) (Fin 0)"

definition mw_shoulder_valid :: "mw_params \<Rightarrow> bool" where
  "mw_shoulder_valid w =
     (case mw_right_shoulder w of None \<Rightarrow> True
      | Some rs \<Rightarrow> is_finite rs \<and> fgt rs (mw_neckline w) = fgt (mw_first_point w) (mw_neckline w))"

definition positive_finite :: "f64 option \<Rightarrow> bool" where
  "positive_finite x = (case x of None \<Rightarrow> True | Some v \<Rightarrow> is_finite v \<and> fgt v (Fin 0))"

definition trade_id_actions :: "action list" where
  "trade_id_actions = [Enter, Veto, ClearVeto, PlanDelete, PlanPaper, PlanSwapAccount,
     PlanClosedManually, PlanPurge, PlanTimeline]"

definition check_trade_id :: "'d intent \<Rightarrow> validation_error + unit" where
  "check_trade_id i =
     rbind (require (case i_trade_id i of Some t \<Rightarrow> is_valid_trade_id t | None \<Rightarrow> True) InvalidTradeId) (\<lambda>_.
     require (\<not> (i_action i \<in> set trade_id_actions \<and> i_trade_id i = None)) MissingTradeId)"

definition check_retries :: "'d intent \<Rightarrow> validation_error + unit" where
  "check_retries i =
     rbind (if i_max_retries i \<noteq> Static 0
            then rbind (require (i_trade_id i \<noteq> None) MaxRetriesWithoutTradeId) (\<lambda>_.
                 require (i_action i = Enter) MaxRetriesOnNonEnter)
            else Inr ()) (\<lambda>_.
     if i_entry_dedup i = Some GateOwned
     then rbind (require (i_trade_id i \<noteq> None) EntryDedupWithoutTradeId) (\<lambda>_.
          require (i_action i = Enter) EntryDedupOnNonEnter)
     else Inr ())"

definition check_entry_gates :: "'d intent \<Rightarrow> validation_error + unit" where
  "check_entry_gates i =
     rbind (require (i_allow_entry i = None \<or> i_action i = Enter) AllowEntryOnNonEnter) (\<lambda>_.
     rbind (require (i_allow_close i = None \<or> i_action i = Close) AllowCloseOnNonClose) (\<lambda>_.
     rbind (require (\<not> (i_needs_golden i \<and> i_action i \<notin> {Enter, Close})) NeedsGoldenOnDisallowedAction) (\<lambda>_.
     rbind (require (\<not> (i_needs_confirmed i \<and> i_action i \<notin> {Enter, Close}))
              NeedsConfirmedOnDisallowedAction) (\<lambda>_.
     rbind (require (\<not> (i_action i \<in> {Prep, Veto, PrepExpire} \<and> i_ttl_hours i = Static 0))
              MissingTtlHours) (\<lambda>_.
     require (\<not> (i_action i = PrepExpire \<and> i_step i = None)) MissingPrepExpireStep)))))"

definition check_windows :: "'d intent \<Rightarrow> validation_error + unit" where
  "check_windows i =
     rbind (if i_action i \<in> {Pause, Resume}
            then rbind (some_or (i_blackout_id i) MissingPauseFields) (\<lambda>b.
                 rbind (require (i_trade_id i \<noteq> None) MissingPauseFields) (\<lambda>_.
                 require (is_valid_trade_id b) InvalidBlackoutId))
            else Inr ()) (\<lambda>_.
     if i_action i \<in> {NewsStart, NewsEnd}
     then rbind (some_or (i_news_id i) MissingNewsFields) (\<lambda>n.
          rbind (require (i_trade_id i \<noteq> None) MissingNewsFields) (\<lambda>_.
          require (is_valid_trade_id n) InvalidNewsId))
     else Inr ())"

definition check_close_gates :: "'d intent \<Rightarrow> validation_error + unit" where
  "check_close_gates i =
     (let has_new = i_inside_window i \<noteq> [] \<or> i_sr_bands i \<noteq> [];
          has_old = i_require_news_window i \<noteq> None \<or> i_require_price_in_ranges i \<noteq> None in
      rbind (require (i_require_news_window i = None \<or> i_action i = Close) RequireNewsWindowOnNonClose) (\<lambda>_.
      rbind (case i_require_price_in_ranges i of None \<Rightarrow> Inr ()
             | Some ranges \<Rightarrow>
                 rbind (require (i_action i = Close) RequirePriceInRangesOnNonClose) (\<lambda>_.
                 require (\<not> (ranges = [] \<or> list_ex crossed_band ranges)) InvalidPriceRanges)) (\<lambda>_.
      rbind (require (\<not> (has_new \<and> has_old)) MixedOldAndNewCloseGates) (\<lambda>_.
      rbind (require (\<not> (has_new \<and> i_action i \<noteq> Close)) InsideWindowOnNonClose) (\<lambda>_.
      rbind (require ((PriceWindow \<in> set (i_inside_window i)) = (i_sr_bands i \<noteq> []))
               InsideWindowSrBandsMismatch) (\<lambda>_.
      rbind (require (\<not> list_ex crossed_band (i_sr_bands i)) InvalidSrBands) (\<lambda>_.
      if i_veto_on_reversal i
      then rbind (require (i_action i = Close) VetoOnReversalOnNonClose) (\<lambda>_.
           require (PriceWindow \<in> set (i_inside_window i) \<or> i_require_price_in_ranges i \<noteq> None)
             VetoOnReversalWithoutPriceWindow)
      else Inr ())))))))"

definition check_geometry_fields :: "'d intent \<Rightarrow> validation_error + unit" where
  "check_geometry_fields i =
     rbind (case i_mw i of None \<Rightarrow> Inr ()
            | Some w \<Rightarrow>
                rbind (require (i_action i = Enter) MwOnNonEnter) (\<lambda>_.
                rbind (require (mw_valid w) MwFieldInvalid) (\<lambda>_.
                require (mw_shoulder_valid w) MwFieldInvalid))) (\<lambda>_.
     rbind (require (positive_finite (i_pip_size i)) PipSizeInvalid) (\<lambda>_.
     rbind (require (positive_finite (i_contract_multiplier i)) ContractMultiplierInvalid) (\<lambda>_.
     case find (\<lambda>spec. check_offset_static spec \<noteq> Inr ()) (anchored_offsets i) of
       None \<Rightarrow> Inr ()
     | Some spec \<Rightarrow> (case check_offset_static spec of Inl e \<Rightarrow> Inl (OffsetSpecInvalid e) | Inr _ \<Rightarrow> Inr ()))))"

definition validate :: "'d intent \<Rightarrow> validation_error + unit" where
  "validate i =
     rbind (check_trade_id i) (\<lambda>_.
     rbind (check_retries i) (\<lambda>_.
     rbind (check_entry_gates i) (\<lambda>_.
     rbind (check_windows i) (\<lambda>_.
     rbind (check_close_gates i) (\<lambda>_. check_geometry_fields i)))))"

end
