(* ===== verification/Core_Rules.thy ===== *)
theory Core_Rules
  imports Core_Intent
begin

text \<open>
  Scripted values of an intent (\<open>core/src/rules.rs\<close>, \<open>core/src/tunable.rs\<close>): the scope a
  script sees, and the conversion of what it returns. The Rhai interpreter is a third-party
  crate and a parameter, a function from a scope and a source text to a value or an error.
\<close>

datatype dyn = DUnit | DBool bool | DInt int | DFloat f64 | DString string | DOther

datatype rhai_error = ErrorParsing string | OtherError string

type_synonym scope = "(string \<times> dyn) list"

type_synonym rhai = "scope \<Rightarrow> string \<Rightarrow> rhai_error + dyn"

datatype rule_error = ParseError string | EvalError string | WrongType string string

fun rule_error_kind :: "rule_error \<Rightarrow> string" where
  "rule_error_kind (ParseError _) = ''parse''"
| "rule_error_kind (EvalError _) = ''eval''"
| "rule_error_kind (WrongType _ _) = ''wrong-type''"

definition rule_error_text :: "rule_error \<Rightarrow> string" where
  "rule_error_text e = (case e of
     ParseError m \<Rightarrow> ''rhai parse error: '' @ m
   | EvalError m \<Rightarrow> ''rhai eval error: '' @ m
   | WrongType expected got \<Rightarrow> ''rhai script returned '' @ got @ '', expected '' @ expected)"

section \<open>Conversions\<close>

fun dyn_type_name :: "dyn \<Rightarrow> string" where
  "dyn_type_name (DBool _) = ''bool''"
| "dyn_type_name (DInt _) = ''i64''"
| "dyn_type_name (DFloat _) = ''f64''"
| "dyn_type_name DUnit = ''unit''"
| "dyn_type_name (DString _) = ''string''"
| "dyn_type_name DOther = ''other''"

definition from_rhai_bool :: "dyn \<Rightarrow> rule_error + bool" where
  "from_rhai_bool v = (case v of DBool b \<Rightarrow> Inr b | _ \<Rightarrow> Inl (WrongType ''bool'' (dyn_type_name v)))"

definition from_rhai_f64 :: "dyn \<Rightarrow> rule_error + f64" where
  "from_rhai_f64 v = (case v of DInt k \<Rightarrow> Inr (round64 (of_int k)) | DFloat x \<Rightarrow> Inr x
     | _ \<Rightarrow> Inl (WrongType ''f64'' (dyn_type_name v)))"

definition u32_max :: int where
  "u32_max = 4294967295"

definition from_rhai_u32 :: "dyn \<Rightarrow> rule_error + nat" where
  "from_rhai_u32 v = (case v of
     DInt k \<Rightarrow> if 0 \<le> k \<and> k \<le> u32_max then Inr (nat k)
       else Inl (EvalError (''value '' @ show_int k @ '' out of range for u32''))
   | _ \<Rightarrow> Inl (WrongType ''u32'' (dyn_type_name v)))"

definition eval_script :: "(dyn \<Rightarrow> rule_error + 'a) \<Rightarrow> rhai \<Rightarrow> scope \<Rightarrow> string \<Rightarrow> rule_error + 'a" where
  "eval_script from_rhai R sc src = (case R sc src of
     Inl (ErrorParsing m) \<Rightarrow> Inl (ParseError m) | Inl (OtherError m) \<Rightarrow> Inl (EvalError m)
   | Inr v \<Rightarrow> from_rhai v)"

definition resolve_tunable ::
  "(dyn \<Rightarrow> rule_error + 'a) \<Rightarrow> rhai \<Rightarrow> scope \<Rightarrow> 'a tunable \<Rightarrow> rule_error + 'a" where
  "resolve_tunable from_rhai R sc t =
     (case t of Static v \<Rightarrow> Inr v | Script src \<Rightarrow> eval_script from_rhai R sc src)"

section \<open>The bar's bindings\<close>

fun signal_kind_to_str :: "signal_kind \<Rightarrow> string" where
  "signal_kind_to_str Pinbar = ''pinbar''"
| "signal_kind_to_str Tweezer = ''tweezer''"
| "signal_kind_to_str RegularEngulfer = ''regular_engulfer''"
| "signal_kind_to_str FloatingEngulfer = ''floating_engulfer''"
| "signal_kind_to_str DoubleTweezer = ''double_tweezer''"

definition timestamp_millis :: "time \<Rightarrow> int" where
  "timestamp_millis t = t div 1000000"

definition opt_f64 :: "f64 option \<Rightarrow> dyn" where
  "opt_f64 x = (case x of Some v \<Rightarrow> DFloat v | None \<Rightarrow> DUnit)"

definition opt_i64 :: "int option \<Rightarrow> dyn" where
  "opt_i64 x = (case x of Some v \<Rightarrow> DInt v | None \<Rightarrow> DUnit)"

definition opt_bool :: "bool option \<Rightarrow> dyn" where
  "opt_bool x = DBool (or_else x False)"

definition opt_kind :: "signal_kind option \<Rightarrow> dyn" where
  "opt_kind x = (case x of Some k \<Rightarrow> DString (signal_kind_to_str k) | None \<Rightarrow> DUnit)"

definition bind_shell_anchors :: "shell \<Rightarrow> scope" where
  "bind_shell_anchors sh =
     [(''close'', DFloat (sh_close sh)), (''high'', DFloat (sh_high sh)), (''low'', DFloat (sh_low sh)),
      (''time'', DInt (timestamp_millis (sh_time sh))), (''open'', opt_f64 (sh_open sh)),
      (''signal_high'', opt_f64 (sh_signal_high sh)), (''signal_low'', opt_f64 (sh_signal_low sh)),
      (''signal_range'', opt_f64 (sh_signal_range sh)),
      (''signal_start_time'', opt_i64 (map_option timestamp_millis (sh_signal_start_time sh))),
      (''signal_kind'', opt_kind (sh_signal_kind sh)), (''golden'', opt_bool (sh_golden sh)),
      (''atr'', opt_f64 (sh_atr sh)), (''signal_confirmed'', opt_bool (sh_signal_confirmed sh)),
      (''recent_high'', opt_f64 (sh_recent_high sh)), (''recent_low'', opt_f64 (sh_recent_low sh))]"

text \<open>A count that may be a script over the bar alone.\<close>

definition resolve_u32 :: "rhai \<Rightarrow> shell \<Rightarrow> nat tunable \<Rightarrow> rule_error + nat" where
  "resolve_u32 R sh t = resolve_tunable from_rhai_u32 R (bind_shell_anchors sh) t"

definition resolve_phase1_u32 :: "rhai \<Rightarrow> string \<Rightarrow> nat tunable option \<Rightarrow> shell \<Rightarrow> nat \<Rightarrow> string + nat" where
  "resolve_phase1_u32 R field t sh dflt =
     (case t of None \<Rightarrow> Inr dflt
      | Some u \<Rightarrow> (case resolve_u32 R sh u of
          Inr n \<Rightarrow> Inr n
        | Inl e \<Rightarrow> Inl (''rejected: '' @ field @ ''-script-'' @ rule_error_kind e)))"

lemma resolve_static [simp]: "resolve_tunable conv R sc (Static v) = Inr v"
  by (simp add: resolve_tunable_def)

lemma resolve_u32_static [simp]: "resolve_u32 R sh (Static n) = Inr n"
  by (simp add: resolve_u32_def)

section \<open>The gate on the signal candle\<close>

text \<open>\<open>core/src/candle_gate.rs\<close>.\<close>

datatype candle_gate = CandleProceed | NeedsGoldenUnmet | NeedsConfirmedUnmet

definition candle_gate_of :: "'d intent \<Rightarrow> shell \<Rightarrow> candle_gate" where
  "candle_gate_of i sh =
     (if i_needs_golden i \<and> sh_golden sh \<noteq> Some True then NeedsGoldenUnmet
      else if i_needs_confirmed i \<and> sh_signal_confirmed sh \<noteq> Some True then NeedsConfirmedUnmet
      else CandleProceed)"

end
