(* ===== verification/Core_World.thy ===== *)
theory Core_World
  imports Core_Rules
begin

text \<open>
  What the request handlers of \<open>core/src\<close> run against: the store, whose calls the
  environment may let fail, and the signed request they handle. A failing backend call
  may have been refused or may have lost its reply after taking effect; the handlers
  cannot tell which.
\<close>

section \<open>Programs over the store\<close>

definition replay_ttl_seconds :: "time \<Rightarrow> time \<Rightarrow> nat" where
  "replay_ttl_seconds not_after now = sat_add 64 (nat (max 0 (num_seconds (not_after - now)))) 3600"

datatype call_outcome = Served | Refused | LostReply

record ('d, 'b) world =
  w_store :: "'d mem_store"
  w_faults :: "call_outcome list"
  w_broker :: 'b

type_synonym ('d, 'b, 'a) prog = "('d, 'b) world \<Rightarrow> 'a \<times> ('d, 'b) world"

definition preturn :: "'a \<Rightarrow> ('d, 'b, 'a) prog" where
  "preturn x W = (x, W)"

definition pbind :: "('d, 'b, 'a) prog \<Rightarrow> ('a \<Rightarrow> ('d, 'b, 'c) prog) \<Rightarrow> ('d, 'b, 'c) prog" where
  "pbind m f W = (case m W of (x, W') \<Rightarrow> f x W')"

text \<open>One awaited call of the store.\<close>

definition call :: "('d, 'a) store_op \<Rightarrow> ('d, 'b, 'a res) prog" where
  "call f W =
     (case w_faults W of
        [] \<Rightarrow> (case f (w_store W) of (r, s) \<Rightarrow> (r, W\<lparr>w_store := s\<rparr>))
      | Served # fs \<Rightarrow> (case f (w_store W) of (r, s) \<Rightarrow> (r, W\<lparr>w_store := s, w_faults := fs\<rparr>))
      | Refused # fs \<Rightarrow> (Inl (Err ''backend''), W\<lparr>w_faults := fs\<rparr>)
      | LostReply # fs \<Rightarrow> (Inl (Err ''backend''), W\<lparr>w_store := snd (f (w_store W)), w_faults := fs\<rparr>))"

text \<open>A loop of fallible calls: the first error ends it.\<close>

fun pfold :: "('x \<Rightarrow> 's \<Rightarrow> ('d, 'b, 'e + 's) prog) \<Rightarrow> 'x list \<Rightarrow> 's \<Rightarrow> ('d, 'b, 'e + 's) prog" where
  "pfold f [] s = preturn (Inr s)"
| "pfold f (x # xs) s = pbind (f x s) (\<lambda>r. case r of Inl e \<Rightarrow> preturn (Inl e) | Inr t \<Rightarrow> pfold f xs t)"

text \<open>An early return: \<open>Inl\<close> ends the handler with its answer.\<close>

definition or_return :: "('d, 'b, 'r + 'x) prog \<Rightarrow> ('x \<Rightarrow> ('d, 'b, 'r) prog) \<Rightarrow> ('d, 'b, 'r) prog" where
  "or_return m k = pbind m (\<lambda>r. case r of Inl a \<Rightarrow> preturn a | Inr x \<Rightarrow> k x)"

text \<open>The same between stages that may themselves return early.\<close>

definition and_then :: "('d, 'b, 'r + 'x) prog \<Rightarrow> ('x \<Rightarrow> ('d, 'b, 'r + 'y) prog) \<Rightarrow> ('d, 'b, 'r + 'y) prog" where
  "and_then m k = pbind m (\<lambda>r. case r of Inl a \<Rightarrow> preturn (Inl a) | Inr x \<Rightarrow> k x)"

lemma preturn_simp [simp]: "preturn x W = (x, W)"
  by (simp add: preturn_def)

lemma pbind_simp [simp]: "pbind m f W = f (fst (m W)) (snd (m W))"
  by (simp add: pbind_def case_prod_beta)

text \<open>A world without faults.\<close>

definition healthy :: "('d, 'b) world \<Rightarrow> bool" where
  "healthy W \<longleftrightarrow> w_faults W = []"

lemma call_healthy:
  "healthy W \<Longrightarrow> call f W = (fst (f (w_store W)), W\<lparr>w_store := snd (f (w_store W))\<rparr>)"
  by (simp add: call_def healthy_def case_prod_beta)

lemma call_cases:
  "call f W = (r, W') \<Longrightarrow>
     (r = fst (f (w_store W)) \<and> w_store W' = snd (f (w_store W)) \<or>
      r = Inl (Err ''backend'') \<and> (w_store W' = w_store W \<or> w_store W' = snd (f (w_store W)))) \<and>
     w_broker W' = w_broker W"
  by (auto simp: call_def case_prod_beta split: list.splits call_outcome.splits)

lemma call_ok: "call f W = (Inr x, W') \<Longrightarrow> f (w_store W) = (Inr x, w_store W') \<and> w_broker W' = w_broker W"
  by (auto simp: call_def prod_eq_iff split: list.splits call_outcome.splits prod.splits)

lemma call_value: "fst (call f W) = Inr x \<Longrightarrow> f (w_store W) = (Inr x, w_store (snd (call f W)))"
  by (metis call_ok prod.collapse)

lemma healthy_store [simp]: "healthy (W\<lparr>w_store := s\<rparr>) \<longleftrightarrow> healthy W"
  by (simp add: healthy_def)

lemma healthy_call [simp]: "healthy W \<Longrightarrow> healthy (snd (call f W))"
  by (simp add: call_healthy)

lemma call_broker [simp]: "w_broker (snd (call f W)) = w_broker W"
  by (auto simp: call_def case_prod_beta split: list.splits call_outcome.splits)

text \<open>A read leaves the store alone whatever happens to its reply.\<close>

definition reads :: "('d, 'a) store_op \<Rightarrow> bool" where
  "reads f \<longleftrightarrow> (\<forall>s. snd (f s) = s)"

lemma call_reads: "reads f \<Longrightarrow> w_store (snd (call f W)) = w_store W"
  by (auto simp: call_def reads_def case_prod_beta split: list.splits call_outcome.splits)

section \<open>Helpers of several handlers\<close>

definition record_control_event_for ::
  "string option \<Rightarrow> string option \<Rightarrow> control_kind \<Rightarrow> string \<Rightarrow> string \<Rightarrow> nat \<Rightarrow> time \<Rightarrow> string option \<Rightarrow>
   ('d, 'b, unit) prog" where
  "record_control_event_for account trade_id kind nm instrument ttl now request_id =
     (case trade_id of
        None \<Rightarrow> preturn ()
      | Some t \<Rightarrow>
          pbind (call (record_control_event account t
              (new_control_event kind nm instrument now ttl request_id)))
            (\<lambda>_. preturn ()))"

definition record_seen :: "'d verified \<Rightarrow> time \<Rightarrow> string \<Rightarrow> ('d, 'b, unit) prog" where
  "record_seen v now outcome =
     (let i = v_intent v in
      pbind (call (mark_seen (i_id i) (i_action i) now outcome
          (replay_ttl_seconds (i_not_after i) now) (i_trade_id i)))
        (\<lambda>_. preturn ()))"

text \<open>Clear each named prep, forgetting the message that set it; collect those that existed.\<close>

definition clear_named_preps ::
  "string option \<Rightarrow> string \<Rightarrow> string list \<Rightarrow> ('d, 'b, string list res) prog" where
  "clear_named_preps account instrument names =
     pfold (\<lambda>nm cleared.
         pbind (call (clear_prep account instrument nm)) (\<lambda>r. case r of
             Inl e \<Rightarrow> preturn (Inl e)
           | Inr None \<Rightarrow> preturn (Inr cleared)
           | Inr (Some setter_id) \<Rightarrow>
               (if setter_id = [] then preturn (Inr (cleared @ [nm]))
                else pbind (call (forget_seen setter_id)) (\<lambda>q. case q of
                    Inl e \<Rightarrow> preturn (Inl e)
                  | Inr _ \<Rightarrow> preturn (Inr (cleared @ [nm]))))))
       names []"

definition clear_named_vetos ::
  "string option \<Rightarrow> string \<Rightarrow> string \<Rightarrow> string list \<Rightarrow> ('d, 'b, string list res) prog" where
  "clear_named_vetos account trade_id instrument names =
     pfold (\<lambda>nm cleared.
         pbind (call (clear_veto account trade_id instrument nm)) (\<lambda>r. case r of
             Inl e \<Rightarrow> preturn (Inl e)
           | Inr was \<Rightarrow> preturn (Inr (if was then cleared @ [nm] else cleared))))
       names []"

end
