(* ===== verification/Core_Gates.thy ===== *)
theory Core_Gates
  imports Core_World
begin

text \<open>
  The news-pause gate (\<open>core/src/pause_gate.rs\<close>), the outcome of a dispatched action
  (\<open>core/src/dispatch/action_result.rs\<close>) and the rule that decides which outcomes consume
  the request's id (\<open>core/src/dispatch/seen.rs\<close>).
\<close>

section \<open>The pause gate\<close>

datatype entry_gate = Allowed | Blocked "string list"

definition is_blocked :: "entry_gate \<Rightarrow> bool" where
  "is_blocked g = (case g of Blocked _ \<Rightarrow> True | Allowed \<Rightarrow> False)"

definition apply_pause :: "'d intent \<Rightarrow> time \<Rightarrow> ('d, 'b, bool res) prog" where
  "apply_pause i now =
     (case (i_trade_id i, i_blackout_id i) of
        (Some trade_id, Some blackout_id) \<Rightarrow>
          pbind (call (set_pause trade_id blackout_id (i_reason i) now (veto_ttl_seconds 0 (i_not_after i) now)))
            (\<lambda>r. case r of Inl e \<Rightarrow> preturn (Inl e) | Inr _ \<Rightarrow> preturn (Inr True))
      | _ \<Rightarrow> preturn (Inr False))"

definition apply_resume :: "'d intent \<Rightarrow> ('d, 'b, bool res) prog" where
  "apply_resume i =
     (case (i_trade_id i, i_blackout_id i) of
        (Some trade_id, Some blackout_id) \<Rightarrow> call (clear_pause trade_id blackout_id)
      | _ \<Rightarrow> preturn (Inr False))"

definition pause_label :: "pause_entry \<Rightarrow> string" where
  "pause_label p = (case pe_reason p of Some r \<Rightarrow> pe_blackout_id p @ ''('' @ r @ '')'' | None \<Rightarrow> pe_blackout_id p)"

definition entry_blocked :: "'d intent \<Rightarrow> ('d, 'b, entry_gate res) prog" where
  "entry_blocked i =
     (case i_trade_id i of
        None \<Rightarrow> preturn (Inr Allowed)
      | Some trade_id \<Rightarrow>
          pbind (call (list_pauses_for_trade trade_id)) (\<lambda>r. case r of Inl e \<Rightarrow> preturn (Inl e)
            | Inr pauses \<Rightarrow> preturn (Inr (if pauses = [] then Allowed else Blocked (map pause_label pauses)))))"

section \<open>Outcomes of a dispatched action\<close>

datatype action_result =
    Completed string | Failed string | Rejected nat string string | AmbiguousSuccess string

definition describe_result :: "action_result \<Rightarrow> string" where
  "describe_result r =
     (case r of
        Completed s \<Rightarrow> ''Ok('' @ s @ '')''
      | Failed s \<Rightarrow> ''Failed('' @ s @ '')''
      | Rejected _ _ outcome \<Rightarrow> ''Rejected('' @ outcome @ '')''
      | AmbiguousSuccess s \<Rightarrow> ''AmbiguousSuccess('' @ s @ '')'')"

definition record_outcome :: "action_result \<Rightarrow> string" where
  "record_outcome r =
     (case r of Completed s \<Rightarrow> s | Failed s \<Rightarrow> s | AmbiguousSuccess s \<Rightarrow> s | Rejected _ _ outcome \<Rightarrow> outcome)"

datatype seen_decision = Mark string | Skip string string

definition seen_decision_of :: "action_result \<Rightarrow> seen_decision" where
  "seen_decision_of r =
     (case r of
        Completed outcome \<Rightarrow> Mark outcome
      | AmbiguousSuccess outcome \<Rightarrow> Mark outcome
      | Failed outcome \<Rightarrow> Skip ''failed'' outcome
      | Rejected _ _ outcome \<Rightarrow> Skip ''rejected'' outcome)"

definition record_dispatcher_outcome :: "'d verified \<Rightarrow> time \<Rightarrow> action_result \<Rightarrow> ('d, 'b, unit) prog" where
  "record_dispatcher_outcome v now r =
     (case seen_decision_of r of
        Mark outcome \<Rightarrow>
          pbind (call (mark_seen (i_id (v_intent v)) (i_action (v_intent v)) now outcome
              (replay_ttl_seconds (i_not_after (v_intent v)) now) (i_trade_id (v_intent v))))
            (\<lambda>_. preturn ())
      | Skip _ _ \<Rightarrow> preturn ())"

definition is_multishot_enter :: "'d intent \<Rightarrow> bool" where
  "is_multishot_enter i \<longleftrightarrow>
     i_action i = Enter \<and> i_max_retries i \<noteq> Static 0 \<and> i_trade_id i \<noteq> None"

end
