(* ===== verification/Core_Geometry.thy ===== *)
theory Core_Geometry
  imports Core_Intent
begin

text \<open>
  Price arithmetic of the entry path: the tick grid (\<open>core/src/rounding.rs\<close>), the floor of
  a stop's distance under the spread (\<open>core/src/intent/sl_spread_floor.rs\<close>), break-even
  (\<open>core/src/intent/breakeven.rs\<close>) and the live geometry of M and W patterns
  (\<open>core/src/intent/mw_state.rs\<close>, \<open>mw_resolution.rs\<close>).
\<close>

section \<open>The tick grid\<close>

datatype round_dir = Nearest | Down | Up

definition step_epsilon :: f64 where
  "step_epsilon = lit (1 / 10 ^ 9)"

text \<open>
  The number of decimals of a tick, \<open>(-(tick.log10())).round()\<close> clamped to 0..12: the number
  of \<open>k < 12\<close> with \<open>tick < 10\<^sup>-\<^sup>k\<^sup>-\<^sup>1\<^sup>/\<^sup>2\<close>. Written with the square, so that no logarithm is
  evaluated.
\<close>

definition tick_decimal_places :: "rat \<Rightarrow> nat" where
  "tick_decimal_places tick = length (filter (\<lambda>k. tick * tick * 10 ^ (2 * k + 1) < 1) [0..<12])"

definition round_half_away :: "f64 \<Rightarrow> nat \<Rightarrow> f64" where
  "round_half_away v places =
     (let factor = Fin (10 ^ places) in fdiv (fround (fmul v factor)) factor)"

definition scrub_steps :: "f64 \<Rightarrow> f64" where
  "scrub_steps steps =
     (let nearest = fround steps in
      if fle (fabs64 (fsub steps nearest)) (fmul step_epsilon (fmax (fabs64 steps) (Fin 1)))
      then nearest else steps)"

fun snap :: "round_dir \<Rightarrow> f64 \<Rightarrow> f64" where
  "snap Nearest x = fround x"
| "snap Down x = ffloor x"
| "snap Up x = fceil x"

definition round_to_tick :: "f64 \<Rightarrow> f64 \<Rightarrow> round_dir \<Rightarrow> f64" where
  "round_to_tick price tick dir =
     (case tick of
        Fin t \<Rightarrow>
          if t \<le> 0 \<or> \<not> is_finite price then price
          else round_half_away (fmul (snap dir (scrub_steps (fdiv price tick))) tick) (tick_decimal_places t)
      | _ \<Rightarrow> price)"

definition round_price :: "f64 \<Rightarrow> f64 \<Rightarrow> f64" where
  "round_price price tick = round_to_tick price tick Nearest"

definition round_stop_loss :: "f64 \<Rightarrow> f64 \<Rightarrow> f64 \<Rightarrow> f64" where
  "round_stop_loss stop_loss entry tick =
     round_to_tick stop_loss tick (if fle stop_loss entry then Down else Up)"

definition round_take_profit :: "f64 \<Rightarrow> f64 \<Rightarrow> f64 \<Rightarrow> f64" where
  "round_take_profit take_profit entry tick =
     round_to_tick take_profit tick (if fge take_profit entry then Down else Up)"

text \<open>
  The grid's decimals are those of a decimal tick. A tick of a quarter has one decimal by
  this count, and a price on its grid is moved off it: 4500.25 becomes 4500.3.
\<close>

lemma lit_nonneg: "0 \<le> q \<Longrightarrow> fle (Fin 0) (lit q)"
  unfolding lit_def by (rule round64_ge) simp_all

lemma half_floor [simp]: "\<lfloor>1 / 2 :: rat\<rfloor> = 0"
  by (simp add: floor_eq_iff)

lemma scrub_grid: "scrub_steps (Fin (of_int k)) = Fin (of_int k)"
  by (simp add: scrub_steps_def fround_def round_away_def Let_def)

lemma places_quarter: "tick_decimal_places (1 / 4) = 1"
  by (simp add: tick_decimal_places_def upt_conv_Cons)

lemma quarter_tick_off_grid: "round_price (Fin (18001 / 4)) (Fin (1 / 4)) = lit (45003 / 10)"
proof -
  have "\<lfloor>36003 / 2 :: rat\<rfloor> = 18001" by (simp add: floor_eq_iff)
  then show ?thesis using scrub_grid [of 18001]
    by (simp add: round_price_def round_to_tick_def places_quarter round_half_away_def Let_def
        fround_def round_away_def lit_def)
qed
section \<open>The spread floor of a stop\<close>

definition sl_min_spread_multiple :: f64 where
  "sl_min_spread_multiple = Fin 10"

definition default_spread_window :: nat where
  "default_spread_window = 5"

definition mean_spread :: "f64 list \<Rightarrow> f64 option" where
  "mean_spread spreads =
     (case fold (\<lambda>s (acc, n). (fadd acc s, n + 1))
        (filter (\<lambda>s. is_finite s \<and> fgt s (Fin 0)) spreads) (Fin 0, 0 :: nat) of
        (acc, n) \<Rightarrow> if n = 0 then None else Some (fdiv acc (Fin (of_nat n))))"

definition sl_spread_floor_violation :: "f64 \<Rightarrow> f64 \<Rightarrow> bool" where
  "sl_spread_floor_violation sl_distance spread =
     (if \<not> is_finite spread \<or> fle spread (Fin 0) \<or> \<not> is_finite sl_distance then False
      else flt sl_distance (fmul sl_min_spread_multiple spread))"

text \<open>New stop, its distance and the R it leaves; a rejection also carries the floor of R.\<close>

datatype sl_widen = Unwidened | Widened f64 f64 f64 | WidenRejected f64 f64 f64 f64

definition widened_stop :: "f64 \<Rightarrow> f64 \<Rightarrow> f64 \<Rightarrow> f64 \<Rightarrow> f64 \<times> f64" where
  "widened_stop entry stop_loss spread tick =
     (let raw_distance = fmul sl_min_spread_multiple spread;
          raw_stop = (if fge stop_loss entry then fadd entry raw_distance else fsub entry raw_distance);
          new_stop = round_stop_loss raw_stop entry tick in
      (new_stop, if feq new_stop raw_stop then raw_distance else fabs64 (fsub entry new_stop)))"

definition widen_sl_to_spread_floor ::
  "f64 \<Rightarrow> f64 \<Rightarrow> f64 \<Rightarrow> f64 \<Rightarrow> f64 \<Rightarrow> f64 \<Rightarrow> sl_widen" where
  "widen_sl_to_spread_floor entry stop_loss take_profit spread min_r tick =
     (if \<not> sl_spread_floor_violation (fabs64 (fsub entry stop_loss)) spread then Unwidened
      else if \<not> is_finite entry \<or> \<not> is_finite take_profit \<or> \<not> is_finite min_r then Unwidened
      else case widened_stop entry stop_loss spread tick of (new_stop, distance) \<Rightarrow>
        let tp_distance = fabs64 (fsub take_profit entry);
            new_r = (if fgt distance (Fin 0) then fdiv tp_distance distance else NaN) in
        if is_finite new_r \<and> fge new_r min_r then Widened new_stop distance new_r
        else WidenRejected new_stop distance new_r min_r)"

section \<open>Break-even\<close>

definition default_breakeven_threshold :: f64 where
  "default_breakeven_threshold = Fin (1 / 2)"

definition sane_threshold :: "breakeven \<Rightarrow> f64" where
  "sane_threshold b =
     (if \<not> is_finite (bk_threshold b) \<or> fle (bk_threshold b) (Fin 0) \<or> fge (bk_threshold b) (Fin 1)
      then default_breakeven_threshold else bk_threshold b)"

definition arms_at :: "breakeven \<Rightarrow> f64 \<Rightarrow> f64 \<Rightarrow> f64" where
  "arms_at b entry take_profit = fadd entry (fmul (sane_threshold b) (fsub take_profit entry))"

definition close_arms :: "breakeven \<Rightarrow> direction \<Rightarrow> f64 \<Rightarrow> f64 \<Rightarrow> bool" where
  "close_arms b dir level close_price =
     (if bk_trigger b \<in> {MaCrossOnly, MaProtectionOnly} then False
      else case dir of Long \<Rightarrow> fge close_price level | Short \<Rightarrow> fle close_price level)"

definition decide_move :: "breakeven \<Rightarrow> direction \<Rightarrow> f64 \<Rightarrow> f64 \<Rightarrow> f64 \<Rightarrow> f64 \<Rightarrow> f64 option" where
  "decide_move b dir entry take_profit current_stop best_close =
     (if \<not> close_arms b dir (arms_at b entry take_profit) best_close then None
      else if (case dir of Long \<Rightarrow> fge current_stop entry | Short \<Rightarrow> fle current_stop entry) then None
      else Some entry)"

definition more_progressed :: "direction \<Rightarrow> f64 \<Rightarrow> f64 \<Rightarrow> f64" where
  "more_progressed dir a b = (case dir of Long \<Rightarrow> fmax a b | Short \<Rightarrow> fmin a b)"

section \<open>Live geometry of an M or W\<close>

datatype mw_update = MwProceed mw_state bool | MwCancel | MwNoChange

definition validity_floor_frac :: f64 where "validity_floor_frac = lit (60 / 100)"

definition cancel_ext_frac :: f64 where "cancel_ext_frac = lit (13 / 10)"

record mw_anchors =
  an_direction :: direction
  an_runup_start :: f64
  an_left_shoulder :: f64
  an_baked_neckline :: f64
  an_drawn_right_shoulder :: "f64 option"

text \<open>A point \<open>share\<close> of the way from \<open>a\<close> to \<open>b\<close>.\<close>

definition leg_level :: "f64 \<Rightarrow> f64 \<Rightarrow> f64 \<Rightarrow> f64" where
  "leg_level a b share = fadd a (fmul share (fsub b a))"

definition prior_neckline :: "mw_anchors \<Rightarrow> mw_state option \<Rightarrow> f64" where
  "prior_neckline an prior = (case prior of Some p \<Rightarrow> mst_neckline p | None \<Rightarrow> an_baked_neckline an)"

definition prior_shoulder :: "mw_anchors \<Rightarrow> mw_state option \<Rightarrow> f64 option" where
  "prior_shoulder an prior =
     (case prior of Some p \<Rightarrow> (case mst_right_shoulder p of Some rs \<Rightarrow> Some rs
        | None \<Rightarrow> an_drawn_right_shoulder an)
      | None \<Rightarrow> an_drawn_right_shoulder an)"

definition plan_mw_update :: "mw_anchors \<Rightarrow> mw_state option \<Rightarrow> shell \<Rightarrow> time \<Rightarrow> time \<Rightarrow> mw_update" where
  "plan_mw_update an prior sh now expires_at =
     (case (body_high sh, body_low sh) of
        (Some hi, Some lo) \<Rightarrow>
          let neckline = prior_neckline an prior;
              rs = prior_shoulder an prior;
              floor_level = leg_level (an_runup_start an) (an_left_shoulder an) validity_floor_frac;
              cancel_level = leg_level (an_baked_neckline an) (an_left_shoulder an) cancel_ext_frac in
          (case an_direction an of
             Short \<Rightarrow>
               if flt lo floor_level then MwCancel
               else let deeper = flt lo neckline;
                        higher = (flt hi cancel_level \<and> (case rs of None \<Rightarrow> True | Some r \<Rightarrow> fgt hi r)) in
                 MwProceed \<lparr>mst_neckline = (if deeper then lo else neckline),
                     mst_right_shoulder = (if higher then Some hi else rs),
                     mst_updated_at = now, mst_expires_at = expires_at\<rparr> (deeper \<or> higher)
           | Long \<Rightarrow>
               if fgt hi floor_level then MwCancel
               else let deeper = fgt hi neckline;
                        higher = (fgt lo cancel_level \<and> (case rs of None \<Rightarrow> True | Some r \<Rightarrow> flt lo r)) in
                 MwProceed \<lparr>mst_neckline = (if deeper then hi else neckline),
                     mst_right_shoulder = (if higher then Some lo else rs),
                     mst_updated_at = now, mst_expires_at = expires_at\<rparr> (deeper \<or> higher))
      | _ \<Rightarrow> MwNoChange)"

definition outer_shoulder :: "direction \<Rightarrow> f64 \<Rightarrow> f64 option \<Rightarrow> f64" where
  "outer_shoulder dir peak rs =
     (case rs of None \<Rightarrow> peak
      | Some r \<Rightarrow> (case dir of Short \<Rightarrow> fmax peak r | Long \<Rightarrow> fmin peak r))"

definition effective_mw_params :: "mw_params \<Rightarrow> mw_state \<Rightarrow> direction \<Rightarrow> mw_params" where
  "effective_mw_params baked st dir =
     baked\<lparr>mw_neckline := mst_neckline st,
       mw_first_point := outer_shoulder dir (mw_first_point baked) (mst_right_shoulder st)\<rparr>"

definition mw_static_prices :: "direction \<Rightarrow> mw_params \<Rightarrow> f64 \<times> f64 \<times> f64" where
  "mw_static_prices dir w =
     (let pip = mw_pip_size w; spread = fmul (mw_spread_pips w) pip;
          half_spread = fdiv spread (Fin 2); half_pip = fmul (Fin (1 / 2)) pip;
          neckline = mw_neckline w; peak = mw_first_point w in
      case dir of
        Long \<Rightarrow>
          let entry = fadd (fadd neckline half_spread) half_pip;
              sl = fsub (fadd peak half_spread) (fadd spread pip) in
          (entry, sl, fadd entry (fsub entry sl))
      | Short \<Rightarrow>
          let entry = fsub (fsub neckline half_spread) half_pip;
              sl = fadd (fsub peak half_spread) (fadd spread pip) in
          (entry, sl, fsub entry (fsub sl entry)))"

definition right_tower_min_frac :: f64 where "right_tower_min_frac = lit (7 / 10)"

definition mid_cross_frac :: f64 where "mid_cross_frac = Fin (1 / 2)"

text \<open>
  Whether a bar may arm the breakout stop: not past the 1.3 extension; without a drawn right
  shoulder, a right tower reached and the middle crossed; the stop on the far side of the close.
\<close>

definition mw_past_cancel :: "direction \<Rightarrow> mw_params \<Rightarrow> shell \<Rightarrow> bool" where
  "mw_past_cancel dir w sh =
     (let cancel = leg_level (mw_neckline w) (outer_shoulder dir (mw_first_point w) (mw_right_shoulder w))
         cancel_ext_frac in
      case dir of Short \<Rightarrow> fge (sh_high sh) cancel | Long \<Rightarrow> fle (sh_low sh) cancel)"

definition mw_right_tower :: "direction \<Rightarrow> mw_params \<Rightarrow> shell \<Rightarrow> bool" where
  "mw_right_tower dir w sh =
     (let tower = leg_level (mw_neckline w) (mw_first_point w) right_tower_min_frac in
      case dir of Short \<Rightarrow> fge (sh_high sh) tower | Long \<Rightarrow> fle (sh_low sh) tower)"

definition mw_crossed_middle :: "direction \<Rightarrow> mw_params \<Rightarrow> shell \<Rightarrow> bool" where
  "mw_crossed_middle dir w sh =
     (let mid = leg_level (mw_neckline w) (mw_first_point w) mid_cross_frac in
      case dir of Short \<Rightarrow> fge (sh_high sh) mid \<and> flt (sh_close sh) mid
      | Long \<Rightarrow> fle (sh_low sh) mid \<and> fgt (sh_close sh) mid)"

definition mw_armed :: "direction \<Rightarrow> mw_params \<Rightarrow> shell \<Rightarrow> f64 \<Rightarrow> bool" where
  "mw_armed dir w sh entry \<longleftrightarrow>
     \<not> mw_past_cancel dir w sh \<and>
     (mw_right_shoulder w = None \<longrightarrow> mw_right_tower dir w sh \<and> mw_crossed_middle dir w sh) \<and>
     (case dir of Long \<Rightarrow> fgt entry (sh_close sh) | Short \<Rightarrow> flt entry (sh_close sh))"

end
