(* ===== verification/Core_Resolve.thy ===== *)
theory Core_Resolve
  imports Core_Geometry Core_Rules
begin

text \<open>
  From a signed intent and a bar to the geometry of an order
  (\<open>core/src/intent/resolution.rs\<close>, \<open>mw_resolution.rs\<close>): where the entry rests or fills, the
  stop and the target on the tick grid, the floor on R and the risk to take; and the
  operator's \<open>allow_entry\<close> script (\<open>core/src/allow_entry_gate.rs\<close>).
\<close>

section \<open>Resolved geometry\<close>

datatype resolved_entry = Market f64 | StopAt f64 | LimitAt f64

fun reference_price :: "resolved_entry \<Rightarrow> f64" where
  "reference_price (Market p) = p"
| "reference_price (StopAt p) = p"
| "reference_price (LimitAt p) = p"

datatype risk_budget = RiskPercent f64 | RiskAmount f64 | RiskUnits f64

record resolved_recover =
  rr_action :: recover_action
  rr_max_slippage_price :: "f64 option"

record resolved =
  rs_setup_id :: string
  rs_id :: string
  rs_not_after :: time
  rs_instrument :: string
  rs_direction :: direction
  rs_entry :: resolved_entry
  rs_stop_loss :: f64
  rs_take_profit :: f64
  rs_risk :: risk_budget
  rs_on_oversize :: oversize_policy
  rs_min_r :: f64
  rs_dry_run :: bool
  rs_recover_entry :: "resolved_recover option"
  rs_breakeven :: "breakeven option"
  rs_contract_multiplier :: "f64 option"

definition min_r_floor :: f64 where
  "min_r_floor = Fin 1"

datatype resolve_error =
    MissingField string | InvalidGeometry | NotArmedYet | NotAnEntry | MinRBelowFloor f64
  | BelowMinRatio f64 f64 | EntryOutsideRange f64 f64 f64 | BothRiskModesSet
  | InvalidRiskAmount f64 | InvalidSizeUnits f64 | ScriptFailed string string string
  | InvalidTunableValue string f64 | OffsetFailed offset_error

definition of_offset :: "offset_error + 'a \<Rightarrow> resolve_error + 'a" where
  "of_offset r = (case r of Inl e \<Rightarrow> Inl (OffsetFailed e) | Inr x \<Rightarrow> Inr x)"

section \<open>Scripts over the geometry\<close>

definition direction_str :: "direction \<Rightarrow> string" where
  "direction_str d = (case d of Long \<Rightarrow> ''long'' | Short \<Rightarrow> ''short'')"

definition bind_intent_derived :: "resolved \<Rightarrow> f64 \<Rightarrow> scope" where
  "bind_intent_derived r pip_size =
     (let entry = reference_price (rs_entry r);
          sl_distance = fabs64 (fsub entry (rs_stop_loss r));
          tp_distance = fabs64 (fsub (rs_take_profit r) entry);
          r_multiple = (if feq sl_distance (Fin 0) then Fin 0 else fdiv tp_distance sl_distance) in
      [(''entry_price'', DFloat entry), (''stop_loss'', DFloat (rs_stop_loss r)),
       (''take_profit'', DFloat (rs_take_profit r)), (''sl_distance'', DFloat sl_distance),
       (''tp_distance'', DFloat tp_distance), (''r_multiple'', DFloat r_multiple),
       (''pip_size'', DFloat pip_size), (''instrument'', DString (rs_instrument r)),
       (''direction'', DString (direction_str (rs_direction r)))])"

definition full_scope :: "shell \<Rightarrow> resolved \<Rightarrow> f64 \<Rightarrow> scope" where
  "full_scope sh r pip_size = bind_shell_anchors sh @ bind_intent_derived r pip_size"

definition resolve_f64_tunable ::
  "rhai \<Rightarrow> string \<Rightarrow> f64 tunable \<Rightarrow> shell \<Rightarrow> resolved \<Rightarrow> f64 \<Rightarrow> resolve_error + f64" where
  "resolve_f64_tunable R field t sh r pip_size =
     (case resolve_tunable from_rhai_f64 R (full_scope sh r pip_size) t of
        Inr x \<Rightarrow> Inr x
      | Inl e \<Rightarrow> Inl (ScriptFailed field (rule_error_kind e) (rule_error_text e)))"

section \<open>Entry, target and risk\<close>

definition resolve_recover_entry :: "recover_entry \<Rightarrow> f64 \<Rightarrow> f64 \<Rightarrow> f64 \<Rightarrow> resolved_recover" where
  "resolve_recover_entry rec pip_size stop_loss trigger =
     \<lparr>rr_action = re_action rec,
      rr_max_slippage_price = (case re_max_slippage_pips rec of
          Some pips \<Rightarrow> Some (fmul (fabs64 pips) pip_size)
        | None \<Rightarrow> if re_action rec = RecoverMarket then Some (fabs64 (fsub stop_loss trigger)) else None)\<rparr>"

definition trigger_of ::
  "price_anchor \<Rightarrow> f64 \<Rightarrow> f64 option \<Rightarrow> f64 option \<Rightarrow> shell \<Rightarrow> f64 \<Rightarrow> resolve_error + f64" where
  "trigger_of anchor offset_pips offset_atr_pct lvl sh pip_size =
     (case lvl of Some absolute \<Rightarrow> Inr absolute
      | None \<Rightarrow> rbind (of_offset (resolve_offset anchor offset_pips offset_atr_pct sh pip_size))
          (\<lambda>d. Inr (fadd (anchor_price sh anchor) d)))"

text \<open>
  A stop entry must lie beyond the close, a limit entry before it; on the wrong side the
  intent's recovery decides. Only a trigger derived from the bar is checked.
\<close>

definition wrong_side_stop :: "direction \<Rightarrow> f64 \<Rightarrow> shell \<Rightarrow> bool" where
  "wrong_side_stop dir trigger sh =
     (case dir of Long \<Rightarrow> fle trigger (sh_close sh) | Short \<Rightarrow> fge trigger (sh_close sh))"

definition wrong_side_limit :: "direction \<Rightarrow> f64 \<Rightarrow> shell \<Rightarrow> bool" where
  "wrong_side_limit dir trigger sh =
     (case dir of Long \<Rightarrow> fge trigger (sh_close sh) | Short \<Rightarrow> fle trigger (sh_close sh))"

definition resolve_entry ::
  "entry_spec \<Rightarrow> direction \<Rightarrow> shell \<Rightarrow> f64 \<Rightarrow> f64 \<Rightarrow>
   resolve_error + resolved_entry \<times> f64 \<times> resolved_recover option" where
  "resolve_entry e dir sh pip_size stop_loss =
     (case e of
        SpecMarket \<Rightarrow> Inr (Market (sh_close sh), sh_close sh, None)
      | SpecStop anchor offset_pips offset_atr_pct lvl rec \<Rightarrow>
          rbind (trigger_of anchor offset_pips offset_atr_pct lvl sh pip_size) (\<lambda>trigger.
          let recover = map_option (\<lambda>o'. resolve_recover_entry o' pip_size stop_loss trigger) rec in
          if lvl = None \<and> wrong_side_stop dir trigger sh then
            (case map_option re_action rec of
               Some RecoverMarket \<Rightarrow> Inr (Market (sh_close sh), sh_close sh, recover)
             | Some RecoverLimit \<Rightarrow>
                 (if \<not> wrong_side_stop dir trigger sh then Inl InvalidGeometry
                  else Inr (LimitAt trigger, trigger,
                    Some \<lparr>rr_action = RecoverLimit, rr_max_slippage_price = None\<rparr>))
             | _ \<Rightarrow> Inl InvalidGeometry)
          else Inr (StopAt trigger, trigger, recover))
      | SpecLimit anchor offset_pips offset_atr_pct lvl rec \<Rightarrow>
          rbind (trigger_of anchor offset_pips offset_atr_pct lvl sh pip_size) (\<lambda>trigger.
          let recover = map_option (\<lambda>o'. resolve_recover_entry o' pip_size stop_loss trigger) rec in
          if lvl = None \<and> wrong_side_limit dir trigger sh then
            (case map_option re_action rec of
               Some RecoverStop \<Rightarrow>
                 (if \<not> wrong_side_limit dir trigger sh then Inl InvalidGeometry
                  else Inr (StopAt trigger, trigger, recover))
             | _ \<Rightarrow> Inl InvalidGeometry)
          else Inr (LimitAt trigger, trigger, recover)))"

definition resolve_tp ::
  "take_profit \<Rightarrow> shell \<Rightarrow> f64 \<Rightarrow> direction \<Rightarrow> f64 \<Rightarrow> f64 \<Rightarrow> resolve_error + f64" where
  "resolve_tp spec sh pip_size dir entry stop_loss =
     (case spec of
        AnchoredProfit r \<Rightarrow> of_offset (price_resolve r sh pip_size)
      | RMultiple _ offset_r \<Rightarrow>
          let r = fabs64 (fsub entry stop_loss) in
          Inr (case dir of Long \<Rightarrow> fadd entry (fmul offset_r r) | Short \<Rightarrow> fsub entry (fmul offset_r r)))"

fun round_resolved_entry :: "f64 \<Rightarrow> resolved_entry \<Rightarrow> resolved_entry" where
  "round_resolved_entry tick (Market p) = Market (round_price p tick)"
| "round_resolved_entry tick (StopAt p) = StopAt (round_price p tick)"
| "round_resolved_entry tick (LimitAt p) = LimitAt (round_price p tick)"

definition in_range :: "direction \<Rightarrow> f64 \<Rightarrow> f64 \<Rightarrow> f64 \<Rightarrow> bool" where
  "in_range dir entry stop_loss take_profit =
     (case dir of Long \<Rightarrow> flt stop_loss entry \<and> flt entry take_profit
      | Short \<Rightarrow> flt take_profit entry \<and> flt entry stop_loss)"

definition resolve_min_r :: "rhai \<Rightarrow> 'd intent \<Rightarrow> shell \<Rightarrow> resolved \<Rightarrow> f64 \<Rightarrow> resolve_error + f64" where
  "resolve_min_r R i sh snapshot pip_size =
     rbind (case i_min_r i of None \<Rightarrow> Inr min_r_floor
            | Some t \<Rightarrow> resolve_f64_tunable R ''min_r'' t sh snapshot pip_size) (\<lambda>min_r.
     if \<not> is_finite min_r \<or> flt min_r min_r_floor then Inl (MinRBelowFloor min_r) else Inr min_r)"

definition resolve_risk :: "rhai \<Rightarrow> 'd intent \<Rightarrow> shell \<Rightarrow> resolved \<Rightarrow> f64 \<Rightarrow> resolve_error + risk_budget" where
  "resolve_risk R i sh snapshot pip_size =
     (case (i_risk_amount i, i_size_units i) of
        (None, None) \<Rightarrow>
          rbind (resolve_f64_tunable R ''risk_pct'' (i_risk_pct i) sh snapshot pip_size) (\<lambda>x.
          if \<not> is_finite x \<or> fle x (Fin 0) then Inl (InvalidTunableValue ''risk_pct'' x) else Inr (RiskPercent x))
      | (Some t, None) \<Rightarrow>
          rbind (resolve_f64_tunable R ''risk_amount'' t sh snapshot pip_size) (\<lambda>x.
          if \<not> is_finite x \<or> fle x (Fin 0) then Inl (InvalidRiskAmount x) else Inr (RiskAmount x))
      | (None, Some t) \<Rightarrow>
          rbind (resolve_f64_tunable R ''size_units'' t sh snapshot pip_size) (\<lambda>x.
          if \<not> is_finite x \<or> fle x (Fin 0) then Inl (InvalidSizeUnits x) else Inr (RiskUnits x))
      | (Some _, Some _) \<Rightarrow> Inl BothRiskModesSet)"

definition geometry_snapshot ::
  "'d intent \<Rightarrow> direction \<Rightarrow> resolved_entry \<Rightarrow> f64 \<Rightarrow> f64 \<Rightarrow> resolved_recover option \<Rightarrow> resolved" where
  "geometry_snapshot i dir entry stop_loss take_profit recover =
     \<lparr>rs_setup_id = or_else (i_trade_id i) (i_id i), rs_id = i_id i, rs_not_after = i_not_after i,
      rs_instrument = i_instrument i, rs_direction = dir, rs_entry = entry, rs_stop_loss = stop_loss,
      rs_take_profit = take_profit, rs_risk = RiskPercent (Fin 0), rs_on_oversize = i_on_oversize i,
      rs_min_r = min_r_floor, rs_dry_run = or_else (i_dry_run i) False, rs_recover_entry = recover,
      rs_breakeven = i_breakeven i, rs_contract_multiplier = i_contract_multiplier i\<rparr>"

text \<open>
  The shared tail: prices onto the grid, the stop rounded away from the entry and the target
  towards it; the range check; the floor on R; the risk.
\<close>

definition finish_with_sizing ::
  "rhai \<Rightarrow> 'd intent \<Rightarrow> shell \<Rightarrow> f64 \<Rightarrow> f64 \<Rightarrow> direction \<Rightarrow> resolved_entry \<Rightarrow> f64 \<Rightarrow> f64 \<Rightarrow> f64 \<Rightarrow>
   resolved_recover option \<Rightarrow> resolve_error + resolved" where
  "finish_with_sizing R i sh pip_size tick dir entry ref stop_loss take_profit recover =
     (let ref = round_price ref tick;
          entry = round_resolved_entry tick entry;
          stop_loss = round_stop_loss stop_loss ref tick;
          take_profit = round_take_profit take_profit ref tick;
          snapshot = geometry_snapshot i dir entry stop_loss take_profit recover in
      rbind (require (i_risk_amount i = None \<or> i_size_units i = None) BothRiskModesSet) (\<lambda>_.
      rbind (require (in_range dir ref stop_loss take_profit)
               (EntryOutsideRange ref stop_loss take_profit)) (\<lambda>_.
      rbind (resolve_min_r R i sh snapshot pip_size) (\<lambda>min_r.
      let actual_r = fdiv (fabs64 (fsub take_profit ref)) (fabs64 (fsub ref stop_loss)) in
      rbind (require (\<not> flt actual_r min_r) (BelowMinRatio actual_r min_r)) (\<lambda>_.
      rbind (resolve_risk R i sh snapshot pip_size) (\<lambda>risk.
      Inr (snapshot\<lparr>rs_risk := risk, rs_min_r := min_r\<rparr>)))))))"

definition from_mw_intent :: "rhai \<Rightarrow> 'd intent \<Rightarrow> shell \<Rightarrow> mw_params \<Rightarrow> f64 \<Rightarrow> resolve_error + resolved" where
  "from_mw_intent R i sh w tick =
     rbind (some_or (i_direction i) (MissingField ''direction'')) (\<lambda>dir.
     case mw_static_prices dir w of (entry, stop_loss, take_profit) \<Rightarrow>
       rbind (require (mw_armed dir w sh entry) NotArmedYet) (\<lambda>_.
       finish_with_sizing R i sh (mw_pip_size w) tick dir (StopAt entry) entry stop_loss take_profit None))"

definition from_intent :: "rhai \<Rightarrow> 'd intent \<Rightarrow> shell \<Rightarrow> f64 \<Rightarrow> f64 \<Rightarrow> resolve_error + resolved" where
  "from_intent R i sh pip_size tick =
     rbind (require (i_action i = Enter) NotAnEntry) (\<lambda>_.
     case i_mw i of
       Some w \<Rightarrow> from_mw_intent R i sh w tick
     | None \<Rightarrow>
         rbind (some_or (i_direction i) (MissingField ''direction'')) (\<lambda>dir.
         rbind (some_or (i_entry i) (MissingField ''entry'')) (\<lambda>e.
         rbind (some_or (i_stop_loss i) (MissingField ''stop_loss'')) (\<lambda>sl.
         rbind (some_or (i_take_profit i) (MissingField ''take_profit'')) (\<lambda>tp.
         rbind (of_offset (price_resolve sl sh pip_size)) (\<lambda>stop_loss.
         rbind (resolve_entry e dir sh pip_size stop_loss) (\<lambda>(entry, ref, recover).
         rbind (resolve_tp tp sh pip_size dir ref stop_loss) (\<lambda>take_profit.
         finish_with_sizing R i sh pip_size tick dir entry ref stop_loss take_profit recover))))))))"

section \<open>The operator's veto script\<close>

datatype allow_entry =
    AllowProceed | AllowBlocked | AllowNeedsGolden | AllowNeedsConfirmed | AllowScriptError string string

definition allow_entry_of :: "rhai \<Rightarrow> 'd intent \<Rightarrow> shell \<Rightarrow> resolved \<Rightarrow> f64 \<Rightarrow> allow_entry" where
  "allow_entry_of R i sh r pip_size =
     (case candle_gate_of i sh of
        NeedsGoldenUnmet \<Rightarrow> AllowNeedsGolden
      | NeedsConfirmedUnmet \<Rightarrow> AllowNeedsConfirmed
      | CandleProceed \<Rightarrow>
          (case i_allow_entry i of None \<Rightarrow> AllowProceed
           | Some gate \<Rightarrow>
               (case resolve_tunable from_rhai_bool R (full_scope sh r pip_size) gate of
                  Inr b \<Rightarrow> if b then AllowProceed else AllowBlocked
                | Inl e \<Rightarrow> AllowScriptError (rule_error_kind e) (rule_error_text e))))"

end
