(* ===== verification/Core_Calendar.thy ===== *)
theory Core_Calendar
  imports Core_Geometry "HOL-Library.Word" "HOL-Library.While_Combinator"
begin

text \<open>
  When an instrument may be traded: the weekly mask of market hours
  (\<open>core/src/intent/blackout/\<close>), sessions (\<open>core/src/market_session.rs\<close>), the New York close
  (\<open>core/src/ny_clock.rs\<close>) and the spread hours (\<open>core/src/spread_blackout.rs\<close>). The baked
  tables are generated data and time zones and the civil calendar belong to \<open>chrono\<close>; both
  are parameters, collected in a \<open>venue\<close>. Hours in the tables are below 24.
\<close>

section \<open>The venue\<close>

record spread_row =
  sr_symbol :: string
  sr_schedule :: string
  sr_mask :: "32 word"
  sr_widen :: "f64 list"
  sr_median :: f64
  sr_low :: f64
  sr_high :: f64
  sr_forecast :: "f64 list"

text \<open>
  Market hours have a symbol, whether they were reviewed, and the closed hours (unused slots
  hold \<open>u32::MAX\<close>); a session its symbol, time zone, first hour and length. \<open>vn_local\<close> parses
  a time zone and reads an instant's hour and minute there; days are numbered from the epoch.
\<close>

record venue =
  vn_candle :: "spread_row list"
  vn_mt5 :: "spread_row list"
  vn_ctrader :: "spread_row list"
  vn_oanda :: "spread_row list"
  vn_hours :: "(string \<times> bool \<times> nat list) list"
  vn_sessions :: "(string \<times> string \<times> nat \<times> nat) list"
  vn_local :: "string \<Rightarrow> (time \<Rightarrow> nat \<times> nat) option"
  vn_year :: "int \<Rightarrow> int"
  vn_day :: "int \<Rightarrow> nat \<Rightarrow> nat \<Rightarrow> int option"

definition day_number :: "time \<Rightarrow> int" where
  "day_number t = t div seconds 86400"

definition utc_hour :: "time \<Rightarrow> nat" where
  "utc_hour t = nat (t div seconds 3600 mod 24)"

definition utc_minute :: "time \<Rightarrow> nat" where
  "utc_minute t = nat (t div seconds 60 mod 60)"

text \<open>The epoch was a Thursday.\<close>

definition days_from_monday :: "int \<Rightarrow> nat" where
  "days_from_monday d = nat ((d + 3) mod 7)"

definition days_from_sunday :: "int \<Rightarrow> nat" where
  "days_from_sunday d = nat ((d + 4) mod 7)"

section \<open>The week mask\<close>

definition minutes_per_day :: nat where "minutes_per_day = 1440"

definition minutes_per_week :: nat where "minutes_per_week = 7 * minutes_per_day"

type_synonym week_mask = "bool list"

definition empty_mask :: week_mask where
  "empty_mask = replicate minutes_per_week False"

definition cell :: "nat \<Rightarrow> nat \<Rightarrow> nat" where
  "cell weekday minute = (weekday mod 7) * minutes_per_day + minute mod minutes_per_day"

text \<open>The loop that marks a cell and advances modulo \<open>n\<close> until it meets the end.\<close>

definition mark_step :: "nat \<Rightarrow> (nat \<Rightarrow> nat) \<Rightarrow> nat \<times> week_mask \<Rightarrow> nat \<times> week_mask" where
  "mark_step n at_cell s = (case s of (i, m) \<Rightarrow> ((i + 1) mod n, m[at_cell i := True]))"

definition mark_until :: "nat \<Rightarrow> (nat \<Rightarrow> nat) \<Rightarrow> nat \<Rightarrow> nat \<Rightarrow> week_mask \<Rightarrow> week_mask" where
  "mark_until n at_cell start stop m =
     snd (while (\<lambda>s. fst s \<noteq> stop) (mark_step n at_cell) (start, m))"

definition block_span :: "nat \<Rightarrow> nat \<Rightarrow> nat \<Rightarrow> nat \<Rightarrow> week_mask \<Rightarrow> week_mask" where
  "block_span from_day from_min to_day to_min m =
     mark_until minutes_per_week id (cell from_day from_min) (cell to_day to_min) m"

definition block_daily :: "nat \<Rightarrow> nat \<Rightarrow> week_mask \<Rightarrow> week_mask" where
  "block_daily from_min to_min m =
     fold (\<lambda>wd. mark_until minutes_per_day (cell wd) (from_min mod minutes_per_day)
         (to_min mod minutes_per_day)) [0..<7] m"

text \<open>A closed hour of a table blocks that hour of every day.\<close>

definition block_hour :: "nat \<Rightarrow> week_mask \<Rightarrow> week_mask" where
  "block_hour h = block_daily (h * 60) ((h + 1) * 60)"

definition is_blocked_at :: "week_mask \<Rightarrow> time \<Rightarrow> bool" where
  "is_blocked_at m now = m ! cell (days_from_monday (day_number now)) (utc_hour now * 60 + utc_minute now)"

definition blocked_minutes :: "week_mask \<Rightarrow> nat" where
  "blocked_minutes m = length (filter id m)"

definition weekend_mask :: week_mask where
  "weekend_mask = block_span 4 (21 * 60) 6 (22 * 60) empty_mask"

definition u32_max_nat :: nat where
  "u32_max_nat = 4294967295"

definition baked_daily_hours :: "venue \<Rightarrow> string \<Rightarrow> nat list option" where
  "baked_daily_hours V symbol =
     (case find (\<lambda>(s, _, _). s = symbol) (vn_hours V) of
        None \<Rightarrow> None
      | Some (_, reviewed, hours) \<Rightarrow>
          if \<not> reviewed then Some [] else Some (filter (\<lambda>h. h \<noteq> u32_max_nat) hours))"

definition baked_market_hours :: "venue \<Rightarrow> string \<Rightarrow> week_mask option" where
  "baked_market_hours V symbol =
     (case baked_daily_hours V symbol of None \<Rightarrow> None
      | Some hours \<Rightarrow> Some (fold block_hour hours weekend_mask))"

definition weekend_blocked :: "time \<Rightarrow> bool" where
  "weekend_blocked now = is_blocked_at weekend_mask now"

definition market_hours_blocked :: "venue \<Rightarrow> string \<Rightarrow> time \<Rightarrow> bool" where
  "market_hours_blocked V symbol now =
     (case baked_market_hours V symbol of None \<Rightarrow> False | Some m \<Rightarrow> is_blocked_at m now)"

section \<open>No-entry windows\<close>

definition new_window :: "nat \<Rightarrow> nat \<Rightarrow> no_entry_window" where
  "new_window open_min close_min =
     \<lparr>nw_open_min = open_min mod minutes_per_day, nw_close_min = close_min mod minutes_per_day\<rparr>"

definition wraps_midnight :: "no_entry_window \<Rightarrow> bool" where
  "wraps_midnight w \<longleftrightarrow> nw_close_min w < nw_open_min w"

definition is_inside_window :: "nat \<Rightarrow> no_entry_window \<Rightarrow> bool" where
  "is_inside_window now_min w =
     (let now = now_min mod minutes_per_day in
      if nw_open_min w = nw_close_min w then False
      else if wraps_midnight w then nw_open_min w \<le> now \<or> now < nw_close_min w
      else nw_open_min w \<le> now \<and> now < nw_close_min w)"

definition is_inside_any :: "nat \<Rightarrow> no_entry_window list \<Rightarrow> bool" where
  "is_inside_any now_min windows = list_ex (is_inside_window now_min) windows"

section \<open>Sessions\<close>

definition session_contains :: "nat \<Rightarrow> nat \<Rightarrow> nat \<Rightarrow> bool" where
  "session_contains local_hour start_hour hours \<longleftrightarrow> (local_hour + 24 - start_hour) mod 24 < hours"

definition session_closed :: "venue \<Rightarrow> string \<Rightarrow> time \<Rightarrow> bool" where
  "session_closed V symbol now =
     (case find (\<lambda>(s, _, _, _). s = symbol) (vn_sessions V) of
        None \<Rightarrow> False
      | Some (_, tz, start_hour, hours) \<Rightarrow>
          (case vn_local V tz of None \<Rightarrow> False
           | Some local \<Rightarrow> \<not> session_contains (fst (local now)) start_hour hours \<or> weekend_blocked now))"

definition market_open :: "venue \<Rightarrow> string \<Rightarrow> time \<Rightarrow> bool" where
  "market_open V symbol now \<longleftrightarrow> \<not> session_closed V symbol now \<and> \<not> market_hours_blocked V symbol now"

section \<open>The New York close\<close>

definition nth_weekday_of_month :: "venue \<Rightarrow> int \<Rightarrow> nat \<Rightarrow> nat \<Rightarrow> nat \<Rightarrow> int option" where
  "nth_weekday_of_month V year month weekday n =
     (case vn_day V year month 1 of None \<Rightarrow> None
      | Some first \<Rightarrow>
          let offset = (7 + weekday - days_from_sunday first) mod 7 in
          if n = 0 then None else vn_day V year month (offset + 1 + (n - 1) * 7))"

definition ny_is_edt :: "venue \<Rightarrow> int \<Rightarrow> bool" where
  "ny_is_edt V date =
     (case (nth_weekday_of_month V (vn_year V date) 3 0 2, nth_weekday_of_month V (vn_year V date) 11 0 1) of
        (Some dst_start, Some dst_end) \<Rightarrow> dst_start \<le> date \<and> date < dst_end
      | _ \<Rightarrow> False)"

definition is_ny_close_edge :: "venue \<Rightarrow> time \<Rightarrow> bool" where
  "is_ny_close_edge V now \<longleftrightarrow> utc_hour now = (if ny_is_edt V (day_number now) then 21 else 22)"

section \<open>Spread hours\<close>

definition schedule_tz :: "string \<Rightarrow> string option" where
  "schedule_tz schedule = map_of
     [(''utc'', ''UTC''), (''ny'', ''America/New_York''), (''london'', ''Europe/London''),
      (''frankfurt'', ''Europe/Berlin''), (''zurich'', ''Europe/Zurich''), (''sydney'', ''Australia/Sydney''),
      (''johannesburg'', ''Africa/Johannesburg''), (''hongkong'', ''Asia/Hong_Kong''),
      (''singapore'', ''Asia/Singapore''), (''tokyo'', ''Asia/Tokyo'')] schedule"

definition spread_rows :: "venue \<Rightarrow> spread_row list" where
  "spread_rows V = vn_candle V @ vn_mt5 V @ vn_ctrader V @ vn_oanda V"

definition baked_row :: "venue \<Rightarrow> string \<Rightarrow> spread_row option" where
  "baked_row V instrument = find (\<lambda>r. sr_symbol r = instrument) (spread_rows V)"

definition schedule_clock :: "venue \<Rightarrow> string \<Rightarrow> (time \<Rightarrow> nat \<times> nat) option" where
  "schedule_clock V schedule = Option.bind (schedule_tz schedule) (vn_local V)"

definition spread_hour_lead_minutes :: nat where
  "spread_hour_lead_minutes = 30"

definition mask_active_with_lead :: "32 word \<Rightarrow> nat \<times> nat \<Rightarrow> bool" where
  "mask_active_with_lead mk local =
     (if mk = 0 then False
      else case local of (hour, minute) \<Rightarrow>
        if 60 \<le> minute + spread_hour_lead_minutes \<and> bit mk ((hour + 1) mod 24) then True
        else bit mk hour)"

definition spread_hour_widen_for :: "32 word \<Rightarrow> f64 list \<Rightarrow> nat \<times> nat \<Rightarrow> nat \<Rightarrow> f64 option" where
  "spread_hour_widen_for mk widen local lead_minutes =
     (if mk = 0 then None
      else case local of (hour, minute) \<Rightarrow>
        if 60 \<le> minute + lead_minutes \<and> bit mk ((hour + 1) mod 24)
        then Some (widen ! ((hour + 1) mod 24))
        else if bit mk hour then Some (widen ! hour) else None)"

definition is_spread_hour :: "venue \<Rightarrow> string \<Rightarrow> time \<Rightarrow> bool" where
  "is_spread_hour V instrument now =
     (case baked_row V instrument of
        Some r \<Rightarrow>
          if sr_mask r \<noteq> 0
          then (case schedule_clock V (sr_schedule r) of
              Some local \<Rightarrow> mask_active_with_lead (sr_mask r) (local now)
            | None \<Rightarrow> is_ny_close_edge V now)
          else is_ny_close_edge V now
      | None \<Rightarrow> is_ny_close_edge V now)"

definition suppress_on_spread_hour :: "venue \<Rightarrow> string \<Rightarrow> time \<Rightarrow> int \<Rightarrow> bool" where
  "suppress_on_spread_hour V instrument now bar_seconds \<longleftrightarrow>
     (bar_seconds \<le> 0 \<or> bar_seconds \<le> 3600) \<and> is_spread_hour V instrument now"

definition max_block_hours :: nat where
  "max_block_hours = 23"

text \<open>Count hours while they are blocked, at most \<open>max_block_hours\<close>.\<close>

fun count_while :: "nat \<Rightarrow> (nat \<Rightarrow> bool) \<Rightarrow> nat \<Rightarrow> nat" where
  "count_while 0 p k = k"
| "count_while (Suc fuel) p k = (if p k then count_while fuel p (k + 1) else k)"

definition block_hours_from_mask :: "32 word \<Rightarrow> nat \<Rightarrow> nat" where
  "block_hours_from_mask mk opened_hour =
     count_while max_block_hours (\<lambda>k. bit mk ((opened_hour + k) mod 24)) 0"

definition block_start_hours_from_mask :: "32 word \<Rightarrow> nat \<Rightarrow> nat" where
  "block_start_hours_from_mask mk hour =
     count_while max_block_hours (\<lambda>k. bit mk ((hour + 24 - ((k + 1) mod 24)) mod 24)) 0"

definition block_hours_by_probe :: "venue \<Rightarrow> string \<Rightarrow> time \<Rightarrow> nat" where
  "block_hours_by_probe V instrument opened_at =
     count_while max_block_hours (\<lambda>k. is_spread_hour V instrument (opened_at + seconds (3600 * int k))) 0"

definition block_start_hours_by_probe :: "venue \<Rightarrow> string \<Rightarrow> time \<Rightarrow> nat" where
  "block_start_hours_by_probe V instrument now =
     count_while max_block_hours (\<lambda>k. is_spread_hour V instrument (now - seconds (3600 * int (k + 1)))) 0"

definition masked_clock :: "venue \<Rightarrow> string \<Rightarrow> (32 word \<times> (time \<Rightarrow> nat \<times> nat)) option" where
  "masked_clock V instrument =
     (case baked_row V instrument of None \<Rightarrow> None
      | Some r \<Rightarrow> (case schedule_clock V (sr_schedule r) of None \<Rightarrow> None
          | Some local \<Rightarrow> if sr_mask r = 0 then None else Some (sr_mask r, local)))"

definition spread_block_ttl_seconds :: "venue \<Rightarrow> string \<Rightarrow> time \<Rightarrow> nat" where
  "spread_block_ttl_seconds V instrument opened_at =
     (case masked_clock V instrument of
        Some (mk, local) \<Rightarrow> block_hours_from_mask mk (fst (local opened_at))
      | None \<Rightarrow> block_hours_by_probe V instrument opened_at) * 3600 + 3600"

definition hour_top :: "time \<Rightarrow> time" where
  "hour_top now = now div seconds 3600 * seconds 3600"

definition spread_block_window :: "venue \<Rightarrow> string \<Rightarrow> time \<Rightarrow> (time \<times> time) option" where
  "spread_block_window V instrument now =
     (let t = hour_top now;
          span = (\<lambda>back fwd. Some (t - seconds (3600 * int back), t + seconds (3600 * int fwd))) in
      case masked_clock V instrument of
        Some (mk, local) \<Rightarrow>
          let h = fst (local now) in
          if \<not> bit mk h then None
          else span (block_start_hours_from_mask mk h) (block_hours_from_mask mk h)
      | None \<Rightarrow>
          if \<not> is_spread_hour V instrument t then None
          else span (block_start_hours_by_probe V instrument t) (block_hours_by_probe V instrument t))"

definition spread_reject_multiple :: f64 where "spread_reject_multiple = Fin 5"

definition spread_blackout_elevated_pips :: f64 where "spread_blackout_elevated_pips = Fin 8"

text \<open>Low, high and median of an instrument's usual spread; only a positive median counts.\<close>

definition baked_baseline :: "venue \<Rightarrow> string \<Rightarrow> (f64 \<times> f64 \<times> f64) option" where
  "baked_baseline V instrument =
     (case baked_row V instrument of None \<Rightarrow> None
      | Some r \<Rightarrow> if fgt (sr_median r) (Fin 0) then Some (sr_low r, sr_high r, sr_median r) else None)"

definition elevated_threshold_pips :: "venue \<Rightarrow> string \<Rightarrow> f64" where
  "elevated_threshold_pips V instrument =
     (case baked_baseline V instrument of
        Some (_, _, median) \<Rightarrow> fmul median spread_reject_multiple
      | None \<Rightarrow> spread_blackout_elevated_pips)"

definition spread_blackout_decision :: "bool \<Rightarrow> f64 \<Rightarrow> f64 \<Rightarrow> bool" where
  "spread_blackout_decision window_open spread_pips threshold_pips \<longleftrightarrow>
     window_open \<and> fgt spread_pips threshold_pips"

definition mt5_spread_key :: "string \<Rightarrow> string \<Rightarrow> string" where
  "mt5_spread_key account instrument = ''mt5:'' @ account @ '':'' @ instrument"

definition ctrader_spread_key :: "string \<Rightarrow> string \<Rightarrow> string" where
  "ctrader_spread_key account instrument = ''ctrader:'' @ account @ '':'' @ instrument"

definition scoped_match :: "string \<Rightarrow> string \<Rightarrow> string \<Rightarrow> string option" where
  "scoped_match account instrument symbol =
     (if starts_with (''oanda:'' @ account @ '':'') symbol
      then Some (''oanda:'' @ account @ '':'' @ instrument)
      else if starts_with (''ctrader:'' @ account @ '':'') symbol
      then Some (ctrader_spread_key account instrument)
      else if symbol = mt5_spread_key account instrument then Some (mt5_spread_key account instrument)
      else None)"

definition spread_lookup_key :: "venue \<Rightarrow> string \<Rightarrow> string option \<Rightarrow> string" where
  "spread_lookup_key V instrument account =
     (case account of None \<Rightarrow> instrument
      | Some a \<Rightarrow>
          (case List.map_filter (scoped_match a instrument)
              (map sr_symbol (vn_ctrader V @ vn_mt5 V @ vn_oanda V)) of
             [] \<Rightarrow> instrument | k # _ \<Rightarrow> k))"

section \<open>The candles of a spread mean\<close>

text \<open>The books of a bar, and the mid bar they share.\<close>

record bid_ask_candle =
  ba_time :: time
  ba_o :: f64
  ba_h :: f64
  ba_l :: f64
  ba_c :: f64
  ba_bid_o :: f64
  ba_bid_h :: f64
  ba_bid_l :: f64
  ba_bid_c :: f64
  ba_ask_o :: f64
  ba_ask_h :: f64
  ba_ask_l :: f64
  ba_ask_c :: f64

definition mid_candle :: "bid_ask_candle \<Rightarrow> candle" where
  "mid_candle c =
     \<lparr>cn_time = ba_time c, cn_o = ba_o c, cn_h = ba_h c, cn_l = ba_l c, cn_c = ba_c c\<rparr>"

definition closes_outside_spread_hours ::
  "venue \<Rightarrow> string \<Rightarrow> bid_ask_candle list \<Rightarrow> int \<Rightarrow> bid_ask_candle list" where
  "closes_outside_spread_hours V instrument candles bar_seconds =
     filter (\<lambda>c. \<not> is_spread_hour V instrument (ba_time c + seconds bar_seconds)) candles"

definition close_spread :: "bid_ask_candle \<Rightarrow> f64" where
  "close_spread c = fsub (ba_ask_c c) (ba_bid_c c)"

definition trailing_spread_mean :: "bid_ask_candle list \<Rightarrow> nat \<Rightarrow> (f64 \<times> nat) option" where
  "trailing_spread_mean candles window =
     (if candles = [] then None
      else let w = max window 1;
               spreads = map close_spread (drop (length candles - w) candles) in
        (case mean_spread spreads of None \<Rightarrow> None | Some m \<Rightarrow> Some (m, length spreads)))"

definition lookback_bars :: "nat \<Rightarrow> int \<Rightarrow> int" where
  "lookback_bars window bar_seconds =
     (let w = int (max window 1) in
      if bar_seconds \<le> 0 then w + 2 else w + 2 + (50 * 3600 + bar_seconds - 1) div bar_seconds)"

end
