(* ===== verification/Core_Text.thy ===== *)
theory Core_Text
  imports Core_Float
begin

text \<open>
  Floats in operator messages: Rust's \<open>{:.n}\<close> rounds the exact value half to even, its
  \<open>{}\<close> prints the shortest decimal that reads back as the same double, in positional form.
\<close>

definition show_fixed_rat :: "nat \<Rightarrow> rat \<Rightarrow> string" where
  "show_fixed_rat n q =
     (let k = nat (round_even (\<bar>q\<bar> * 10 ^ n)); digits = show_nat (k mod 10 ^ n) in
      (if q < 0 then ''-'' else []) @ show_nat (k div 10 ^ n) @
      (if n = 0 then [] else ''.'' @ replicate (n - length digits) CHR ''0'' @ digits))"

definition show_special :: "f64 \<Rightarrow> string" where
  "show_special x = (case x of Inf True \<Rightarrow> ''-inf'' | Inf False \<Rightarrow> ''inf'' | _ \<Rightarrow> ''NaN'')"

definition show_fixed :: "nat \<Rightarrow> f64 \<Rightarrow> string" where
  "show_fixed n x = (case x of Fin q \<Rightarrow> show_fixed_rat n q | _ \<Rightarrow> show_special x)"

definition trim_zeros :: "string \<Rightarrow> string" where
  "trim_zeros s = rev (dropWhile (\<lambda>c. c = CHR ''0'') (rev s))"

definition trim_dot :: "string \<Rightarrow> string" where
  "trim_dot s = rev (dropWhile (\<lambda>c. c = CHR ''.'') (rev s))"

text \<open>The decimal exponent: \<open>10\<^sup>e \<le> x < 10\<^sup>e\<^sup>+\<^sup>1\<close>, counted from a starting point below any double.\<close>

definition pow10 :: "int \<Rightarrow> rat" where
  "pow10 k = (if 0 \<le> k then 10 ^ nat k else 1 / 10 ^ nat (- k))"

fun dec_exponent :: "nat \<Rightarrow> int \<Rightarrow> rat \<Rightarrow> int" where
  "dec_exponent 0 e x = e"
| "dec_exponent (Suc fuel) e x = (if pow10 (e + 1) \<le> x then dec_exponent fuel (e + 1) x else e)"

text \<open>The nearest decimal of \<open>k\<close> significant digits.\<close>

definition nearest_digits :: "int \<Rightarrow> nat \<Rightarrow> rat \<Rightarrow> rat" where
  "nearest_digits e k x = (let u = pow10 (e - int k + 1) in of_int (round_even (x / u)) * u)"

definition shortest_digits :: "rat \<Rightarrow> nat \<times> rat" where
  "shortest_digits x =
     (let e = dec_exponent 640 (- 325) x in
      case find (\<lambda>k. round64 (nearest_digits e k x) = round64 x) [1..<18] of
        Some k \<Rightarrow> (nat (int k - 1 - e), nearest_digits e k x)
      | None \<Rightarrow> (nat (17 - 1 - e), nearest_digits e 17 x))"

text \<open>The first component counts the decimals that the digits occupy.\<close>

definition show_f64 :: "f64 \<Rightarrow> string" where
  "show_f64 x = (case x of
     Fin q \<Rightarrow> if q = 0 then ''0''
       else (case shortest_digits \<bar>q\<bar> of (n, d) \<Rightarrow>
         (if q < 0 then ''-'' else []) @ show_fixed_rat n d)
   | _ \<Rightarrow> show_special x)"

definition fmt_price_trim :: "f64 \<Rightarrow> string" where
  "fmt_price_trim v = (if \<not> is_finite v then show_f64 v else trim_dot (trim_zeros (show_fixed 6 v)))"

text \<open>Text in the program is UTF-8; the dashes of its messages take three bytes.\<close>

definition em_dash :: string where
  "em_dash = [CHR 0xE2, CHR 0x80, CHR 0x94]"

definition en_dash :: string where
  "en_dash = [CHR 0xE2, CHR 0x80, CHR 0x93]"

end
