(* ===== verification/Core_Orders.thy ===== *)
theory Core_Orders
  imports Core_Resolve Core_Calendar Core_Text
begin

text \<open>
  What is sent to a broker and what comes back (\<open>core/src/broker.rs\<close>,
  \<open>core/src/broker/entry_distance.rs\<close>), and the plan for an entry that was refused as too
  close to the market (\<open>core/src/recover_entry.rs\<close>).
\<close>

section \<open>Requests and replies\<close>

record quote =
  qt_bid :: f64
  qt_ask :: f64

definition quote_mid :: "quote \<Rightarrow> f64" where
  "quote_mid q = fdiv (fadd (qt_bid q) (qt_ask q)) (Fin 2)"

definition quote_spread :: "quote \<Rightarrow> f64" where
  "quote_spread q = fsub (qt_ask q) (qt_bid q)"

definition executable_side :: "direction \<Rightarrow> quote \<Rightarrow> f64" where
  "executable_side dir q = (case dir of Long \<Rightarrow> qt_ask q | Short \<Rightarrow> qt_bid q)"

record placement =
  pl_order_id :: string
  pl_size :: "f64 option"
  pl_price :: "f64 option"

definition describe_fill :: "placement \<Rightarrow> string" where
  "describe_fill p =
     (case pl_size p of Some s \<Rightarrow> '' size='' @ show_f64 s | None \<Rightarrow> []) @
     (case pl_price p of Some x \<Rightarrow> '' @ '' @ show_f64 x | None \<Rightarrow> [])"

record entry_request =
  er_setup_id :: "string option"
  er_instrument :: string
  er_direction :: direction
  er_entry :: resolved_entry
  er_stop_loss :: f64
  er_take_profit :: f64
  er_risk :: risk_budget
  er_on_oversize :: oversize_policy
  er_dry_run :: bool
  er_contract_multiplier :: "f64 option"

definition request_of :: "resolved \<Rightarrow> resolved_entry \<Rightarrow> entry_request" where
  "request_of r entry =
     \<lparr>er_setup_id = Some (rs_setup_id r), er_instrument = rs_instrument r,
      er_direction = rs_direction r, er_entry = entry, er_stop_loss = rs_stop_loss r,
      er_take_profit = rs_take_profit r, er_risk = rs_risk r, er_on_oversize = rs_on_oversize r,
      er_dry_run = rs_dry_run r, er_contract_multiplier = rs_contract_multiplier r\<rparr>"

section \<open>Proximity evidence\<close>

datatype pending_kind = PendingStop | PendingLimit

record pending_distance =
  pd_kind :: pending_kind
  pd_direction :: direction
  pd_trigger_price :: f64
  pd_quote :: quote
  pd_minimum_distance :: f64

definition executable_price :: "pending_distance \<Rightarrow> f64" where
  "executable_price d = executable_side (pd_direction d) (pd_quote d)"

definition signed_distance :: "pending_distance \<Rightarrow> f64" where
  "signed_distance d =
     (if (pd_kind d, pd_direction d) \<in> {(PendingStop, Long), (PendingLimit, Short)}
      then fsub (pd_trigger_price d) (executable_price d)
      else fsub (executable_price d) (pd_trigger_price d))"

definition distance_valid :: "pending_distance \<Rightarrow> bool" where
  "distance_valid d \<longleftrightarrow>
     is_finite (pd_trigger_price d) \<and> fgt (pd_trigger_price d) (Fin 0) \<and>
     is_finite (qt_bid (pd_quote d)) \<and> fgt (qt_bid (pd_quote d)) (Fin 0) \<and>
     is_finite (qt_ask (pd_quote d)) \<and> fge (qt_ask (pd_quote d)) (qt_bid (pd_quote d)) \<and>
     is_finite (pd_minimum_distance d) \<and> fge (pd_minimum_distance d) (Fin 0)"

definition f64_epsilon :: f64 where
  "f64_epsilon = Fin (1 / 2 ^ 52)"

definition tolerance :: "pending_distance \<Rightarrow> f64" where
  "tolerance d = fmul (fmul (fmax (fabs64 (pd_trigger_price d)) (fabs64 (executable_price d))) f64_epsilon)
     (Fin 8)"

definition distance_rejected :: "pending_distance \<Rightarrow> bool" where
  "distance_rejected d \<longleftrightarrow> distance_valid d \<and>
     (fle (signed_distance d) (Fin 0) \<or>
      flt (fadd (signed_distance d) (tolerance d)) (pd_minimum_distance d))"

definition is_near :: "pending_distance \<Rightarrow> bool" where
  "is_near d \<longleftrightarrow> distance_valid d \<and> fgt (pd_minimum_distance d) (Fin 0) \<and>
     flt (fadd (fabs64 (fsub (pd_trigger_price d) (executable_price d))) (tolerance d))
       (pd_minimum_distance d)"

definition distance_matches :: "pending_distance \<Rightarrow> pending_kind \<Rightarrow> direction \<Rightarrow> f64 \<Rightarrow> bool" where
  "distance_matches d kind dir trigger \<longleftrightarrow> is_near d \<and> pd_kind d = kind \<and> pd_direction d = dir \<and>
     fle (fabs64 (fsub (pd_trigger_price d) trigger)) (tolerance d)"

definition direction_debug :: "direction \<Rightarrow> string" where
  "direction_debug d = (case d of Long \<Rightarrow> ''Long'' | Short \<Rightarrow> ''Short'')"

definition kind_debug :: "pending_kind \<Rightarrow> string" where
  "kind_debug k = (case k of PendingStop \<Rightarrow> ''Stop'' | PendingLimit \<Rightarrow> ''Limit'')"

definition distance_text :: "pending_distance \<Rightarrow> string" where
  "distance_text d =
     direction_debug (pd_direction d) @ '' '' @ kind_debug (pd_kind d) @ '' at '' @
     show_f64 (pd_trigger_price d) @ '' blocked before submission: bid='' @ show_f64 (qt_bid (pd_quote d)) @
     '' ask='' @ show_f64 (qt_ask (pd_quote d)) @ '' distance='' @ show_fixed 8 (signed_distance d) @
     '' minimum='' @ show_f64 (pd_minimum_distance d)"

section \<open>Failures\<close>

datatype entry_error =
    AccountFetch | CurrencyConversion string string string | EquityParse | RiskCapExceeded f64 f64
  | OpenPositionsCapExceeded | UnitsBelowMinimum | ContractSizeUnavailable | EntryTooCloseToMarket
  | EntryWithinMinimumDistance pending_distance | MarketRecoveryDeclined string | OrderRejected
  | OrderRejectedWithDetail string | AmbiguousEntry string

fun entry_error_text :: "entry_error \<Rightarrow> string" where
  "entry_error_text AccountFetch = ''failed to fetch account''"
| "entry_error_text (CurrencyConversion a b detail) =
     ''failed to convert '' @ a @ '' to '' @ b @ '' for position sizing: '' @ detail"
| "entry_error_text EquityParse = ''failed to parse account equity''"
| "entry_error_text (RiskCapExceeded requested cap) =
     ''risk '' @ show_f64 requested @ ''% > cap '' @ show_f64 cap @ ''%''"
| "entry_error_text OpenPositionsCapExceeded = ''open positions cap exceeded''"
| "entry_error_text UnitsBelowMinimum = ''computed units below minimum''"
| "entry_error_text ContractSizeUnavailable = ''no contract multiplier for this futures instrument''"
| "entry_error_text EntryTooCloseToMarket =
     ''entry trigger too close to (or wrong side of) the market price''"
| "entry_error_text (EntryWithinMinimumDistance d) = distance_text d"
| "entry_error_text (MarketRecoveryDeclined reason) = reason"
| "entry_error_text OrderRejected = ''broker rejected the order''"
| "entry_error_text (OrderRejectedWithDetail detail) = ''broker rejected the order: '' @ detail"
| "entry_error_text (AmbiguousEntry detail) =
     ''entry submission outcome is unknown; an order may already exist; '' @
     ''reconcile with the broker before retrying ('' @ detail @ '')''"

fun failure_token :: "entry_error \<Rightarrow> string" where
  "failure_token AccountFetch = ''account-fetch''"
| "failure_token (CurrencyConversion _ _ _) = ''currency-conversion''"
| "failure_token EquityParse = ''equity-parse''"
| "failure_token (RiskCapExceeded _ _) = ''risk-cap-exceeded''"
| "failure_token OpenPositionsCapExceeded = ''open-positions-cap''"
| "failure_token UnitsBelowMinimum = ''units-below-minimum''"
| "failure_token ContractSizeUnavailable = ''contract-size-unavailable''"
| "failure_token EntryTooCloseToMarket = ''too-close-to-market''"
| "failure_token (EntryWithinMinimumDistance _) = ''pending-entry-too-close''"
| "failure_token (MarketRecoveryDeclined _) = ''market-recovery-declined''"
| "failure_token OrderRejected = ''broker-rejected''"
| "failure_token (OrderRejectedWithDetail _) = ''broker-rejected''"
| "failure_token (AmbiguousEntry _) = ''ambiguous-success''"

definition outcome_for_entry_failure :: "entry_error \<Rightarrow> string option \<Rightarrow> string" where
  "outcome_for_entry_failure err skip_reason =
     (case skip_reason of
        Some reason \<Rightarrow> ''entry-failed: '' @ failure_token err @ '' ('' @ reason @ '')''
      | None \<Rightarrow>
          if err \<in> {OrderRejected, EntryTooCloseToMarket} then ''entry-failed: '' @ failure_token err
          else ''entry-failed: '' @ failure_token err @ '' ('' @ entry_error_text err @ '')'')"

section \<open>The band of a market fallback\<close>

record market_band =
  mb_trigger_price :: f64
  mb_max_distance :: f64
  mb_min_r :: f64
  mb_entry_level_vetos :: "entry_level_veto list"

definition band_geometry_ok :: "market_band \<Rightarrow> f64 \<Rightarrow> bool" where
  "band_geometry_ok b price \<longleftrightarrow>
     \<not> (\<not> is_finite (mb_trigger_price b) \<or> fle (mb_trigger_price b) (Fin 0) \<or>
        \<not> is_finite (mb_max_distance b) \<or> fle (mb_max_distance b) (Fin 0) \<or>
        \<not> is_finite (mb_min_r b) \<or> flt (mb_min_r b) min_r_floor \<or>
        \<not> is_finite price \<or> fle price (Fin 0) \<or>
        fge (fabs64 (fsub price (mb_trigger_price b))) (mb_max_distance b))"

definition band_check :: "market_band \<Rightarrow> entry_request \<Rightarrow> f64 \<Rightarrow> entry_error + unit" where
  "band_check b req price =
     (case er_entry req of
        Market _ \<Rightarrow>
          rbind (require (band_geometry_ok b price) (MarketRecoveryDeclined
            (''fresh entry price '' @ show_f64 price @ '' is outside the market fallback band: trigger='' @
             show_f64 (mb_trigger_price b) @ '' maximum_distance='' @ show_f64 (mb_max_distance b)))) (\<lambda>_.
          rbind (case find (\<lambda>v. \<not> is_finite (ev_level v) \<or> is_past v price) (mb_entry_level_vetos b) of
                   None \<Rightarrow> Inr ()
                 | Some v \<Rightarrow> Inl (MarketRecoveryDeclined
                     (''entry veto '' @ ev_name v @ '' blocks market price '' @ show_f64 price @
                      '' at level '' @ show_f64 (ev_level v)))) (\<lambda>_.
          let (risk, reward) = (case er_direction req of
                Long \<Rightarrow> (fsub price (er_stop_loss req), fsub (er_take_profit req) price)
              | Short \<Rightarrow> (fsub (er_stop_loss req) price, fsub price (er_take_profit req))) in
          require (\<not> (\<not> is_finite risk \<or> \<not> is_finite reward \<or> fle risk (Fin 0) \<or>
                     flt (fdiv reward risk) (mb_min_r b)))
            (MarketRecoveryDeclined
              (''fresh entry price '' @ show_f64 price @ '' fails SL/TP geometry or minimum R '' @
               show_f64 (mb_min_r b) @ '': SL='' @ show_f64 (er_stop_loss req) @ '' TP='' @
               show_f64 (er_take_profit req)))))
      | _ \<Rightarrow> Inl OrderRejected)"

section \<open>Recovering an entry too close to the market\<close>

datatype recover_plan = PlanMarket f64 | PlanLimit f64 | PlanStop f64 | PlanSkip string

definition recover_entry_plan :: "resolved_recover option \<Rightarrow> direction \<Rightarrow> f64 \<Rightarrow> f64 \<Rightarrow> recover_plan" where
  "recover_entry_plan rec dir trigger current =
     (case rec of
        None \<Rightarrow> PlanSkip ''recover-entry-none''
      | Some r \<Rightarrow>
          (case rr_action r of
             RecoverSkip \<Rightarrow> PlanSkip ''recover-entry-skip''
           | RecoverLimit \<Rightarrow>
               if \<not> is_finite current \<or> \<not> is_finite trigger then PlanSkip ''recover-entry-price-unavailable''
               else if (case dir of Long \<Rightarrow> fge current trigger | Short \<Rightarrow> fle current trigger)
               then PlanLimit trigger else PlanSkip ''recover-entry-limit-wrong-side''
           | RecoverStop \<Rightarrow>
               if \<not> is_finite current \<or> \<not> is_finite trigger then PlanSkip ''recover-entry-price-unavailable''
               else if (case dir of Long \<Rightarrow> fle current trigger | Short \<Rightarrow> fge current trigger)
               then PlanStop trigger else PlanSkip ''recover-entry-stop-wrong-side''
           | RecoverMarket \<Rightarrow>
               (case rr_max_slippage_price r of
                  None \<Rightarrow> PlanSkip ''recover-entry-market-no-slippage-bound''
                | Some max_slip \<Rightarrow>
                    if \<not> is_finite current \<or> \<not> is_finite trigger
                    then PlanSkip ''recover-entry-price-unavailable''
                    else if fle (case dir of Long \<Rightarrow> fsub current trigger | Short \<Rightarrow> fsub trigger current) max_slip
                    then PlanMarket current else PlanSkip ''recover-entry-slippage'')))"

end
