(* ===== verification/Core_Broker.thy ===== *)
theory Core_Broker
  imports Core_Gates Core_Orders
begin

text \<open>
  What the entry path asks of a broker (\<open>core/src/broker.rs\<close>, \<open>core/src/broker_exit.rs\<close>,
  \<open>core/src/attempt_resolution/observation.rs\<close>). The broker is not in the repository's
  hands: it is a record of functions over a state of its own, unconstrained except where a
  statement says so.
\<close>

section \<open>Broker facts\<close>

datatype exit_reason = TakeProfitExit | StopLossExit | TrailingStopLossExit | OtherExit | UnknownExit

record broker_trade_exit =
  be_broker_trade_id :: string
  be_exit_order_id :: "string option"
  be_transaction_id :: "string option"
  be_closed_at :: "time option"
  be_reason :: exit_reason
  be_broker_reason :: "string option"
  be_entry_price :: "f64 option"
  be_exit_price :: "f64 option"
  be_expected_price :: "f64 option"
  be_realized_pl :: "f64 option"
  be_account_currency :: "string option"
  be_units :: "f64 option"
  be_quote_currency :: "string option"

datatype attempt_state =
    Pending | OpenPosition string | ClosedWin f64 | ClosedLossOrBreakeven f64
  | ClosedConfirmed broker_trade_exit | Cancelled | Unknown

datatype lookup_error = Transient

record open_position =
  op_instrument :: string
  op_direction :: direction
  op_stop_loss :: "f64 option"
  op_take_profit :: "f64 option"
  op_position_id :: string
  op_order_id :: string
  op_stake :: f64
  op_entry_price :: "f64 option"
  op_opened_at :: "time option"

section \<open>Evidence\<close>

datatype event_kind = ExecuteEvent | OpenEvent | CloseEvent | CancelEvent

record event =
  ev_kind :: event_kind
  ev_id :: string
  ev_instrument :: string
  ev_direction :: direction
  ev_currency :: string
  ev_stake :: f64
  ev_at :: time
  ev_price :: "f64 option"

record position =
  po_id :: string
  po_order_id :: string
  po_entry_price :: "f64 option"
  po_opened_at :: "time option"

record evidence =
  evd_pending :: "string list"
  evd_positions :: "position list"
  evd_events :: "event list"
  evd_history_complete :: bool

record diagnostic =
  dg_order_id :: string
  dg_stored_position_id :: "string option"
  dg_resolved_position_id :: "string option"
  dg_state :: string
  dg_reason :: string
  dg_history_complete :: bool
  dg_positions :: "position list"
  dg_candidates :: "event list"
  dg_execution :: "event option"

record observation =
  ob_state :: attempt_state
  ob_diagnostic :: "diagnostic option"

definition observation_plain :: "attempt_state \<Rightarrow> observation" where
  "observation_plain st = \<lparr>ob_state = st, ob_diagnostic = None\<rparr>"

section \<open>The broker\<close>

datatype candle_error = CandleTransient | CandleUnavailable string | BadRange | UnsupportedGranularity

text \<open>
  \<open>cancel_order\<close> takes an account and an order, \<open>place_entry\<close> the caps on risk and on open
  positions. \<open>cancel_pending_for_instrument\<close> answers how many orders it took off the book.
\<close>

record 'b broker =
  lookup_attempt :: "string \<Rightarrow> string \<Rightarrow> string option \<Rightarrow> 'b \<Rightarrow> (lookup_error + observation) \<times> 'b"
  cancel_order :: "string \<Rightarrow> string \<Rightarrow> 'b \<Rightarrow> (unit + unit) \<times> 'b"
  list_open_positions :: "string \<Rightarrow> 'b \<Rightarrow> (lookup_error + open_position list) \<times> 'b"
  cancel_pending_for_instrument :: "string \<Rightarrow> 'b \<Rightarrow> nat \<times> 'b"
  get_quote :: "string \<Rightarrow> 'b \<Rightarrow> (lookup_error + quote) \<times> 'b"
  get_bidask_candles :: "string \<Rightarrow> granularity \<Rightarrow> time \<Rightarrow> time \<Rightarrow> 'b \<Rightarrow>
    (candle_error + bid_ask_candle list) \<times> 'b"
  place_entry :: "f64 \<Rightarrow> nat \<Rightarrow> entry_request \<Rightarrow> 'b \<Rightarrow> (entry_error + placement) \<times> 'b"
  place_market_entry_in_band :: "f64 \<Rightarrow> nat \<Rightarrow> entry_request \<Rightarrow> market_band \<Rightarrow> 'b \<Rightarrow>
    (entry_error + placement) \<times> 'b"

definition bcall :: "('b \<Rightarrow> 'a \<times> 'b) \<Rightarrow> ('d, 'b, 'a) prog" where
  "bcall f W = (case f (w_broker W) of (r, b) \<Rightarrow> (r, W\<lparr>w_broker := b\<rparr>))"

lemma bcall_simps [simp]:
  "fst (bcall f W) = fst (f (w_broker W))" "w_store (snd (bcall f W)) = w_store W"
  "w_faults (snd (bcall f W)) = w_faults W" "w_broker (snd (bcall f W)) = snd (f (w_broker W))"
  by (simp_all add: bcall_def case_prod_beta)

section \<open>Observing an attempt\<close>

text \<open>The in-memory store keeps no diagnostics: the trait's default answers true.\<close>

definition record_attempt_diagnostic ::
  "entry_attempt \<Rightarrow> diagnostic \<Rightarrow> time \<Rightarrow> ('d, bool) store_op" where
  "record_attempt_diagnostic a d now s = (Inr True, s)"

definition failed_lookup :: "entry_attempt \<Rightarrow> observation" where
  "failed_lookup a =
     \<lparr>ob_state = Unknown,
      ob_diagnostic = Some \<lparr>dg_order_id = ea_broker_order_id a,
        dg_stored_position_id = ea_broker_trade_id a, dg_resolved_position_id = None,
        dg_state = ''lookup-failed'', dg_reason = ''broker-transient'', dg_history_complete = False,
        dg_positions = [], dg_candidates = [], dg_execution = None\<rparr>\<rparr>"

definition recovered_id :: "attempt_state \<Rightarrow> string option" where
  "recovered_id st = (case st of OpenPosition i \<Rightarrow> Some i
     | ClosedConfirmed exit \<Rightarrow> Some (be_broker_trade_id exit) | _ \<Rightarrow> None)"

definition persist_identity :: "entry_attempt \<Rightarrow> string option \<Rightarrow> ('d, 'b, unit) prog" where
  "persist_identity a found =
     (case (ea_broker_trade_id a, found) of
        (None, Some i) \<Rightarrow>
          pbind (call (set_entry_attempt_broker_trade_id (ea_account a) (ea_trade_id a) (ea_attempt_no a) i))
            (\<lambda>_. preturn ())
      | _ \<Rightarrow> preturn ())"

definition journal_diagnostic :: "entry_attempt \<Rightarrow> diagnostic option \<Rightarrow> time \<Rightarrow> ('d, 'b, unit) prog" where
  "journal_diagnostic a d now =
     (case d of None \<Rightarrow> preturn ()
      | Some dg \<Rightarrow> pbind (call (record_attempt_diagnostic a dg now)) (\<lambda>_. preturn ()))"

definition observe ::
  "'b broker \<Rightarrow> entry_attempt \<Rightarrow> time \<Rightarrow> ('d, 'b, lookup_error + attempt_state) prog" where
  "observe B a now =
     pbind (bcall (lookup_attempt B (ea_instrument a) (ea_broker_order_id a) (ea_broker_trade_id a)))
       (\<lambda>observed.
     let obs = (case observed of Inr x \<Rightarrow> x | Inl _ \<Rightarrow> failed_lookup a) in
     pbind (persist_identity a (recovered_id (ob_state obs))) (\<lambda>_.
     pbind (journal_diagnostic a (ob_diagnostic obs) now) (\<lambda>_.
     preturn (case observed of Inl e \<Rightarrow> Inl e | Inr x \<Rightarrow> Inr (ob_state x)))))"

end
