(* ===== verification/Core_Retry.thy ===== *)
theory Core_Retry
  imports Core_Broker
begin

text \<open>
  The retry gate of multi-shot entries (\<open>core/src/retry_gate.rs\<close>) and the record of a
  placement. Attempt numbers are unbounded here: the code's \<open>u32\<close> has room for
  four thousand million placements of one trade.
\<close>

section \<open>The gate\<close>

datatype gate_outcome = Proceed nat | Reject nat string string

datatype gate_mode = Full | Probe

definition resolve_max_retries :: "rhai \<Rightarrow> nat tunable \<Rightarrow> shell \<Rightarrow> gate_outcome + nat" where
  "resolve_max_retries eval t sh =
     (case resolve_u32 eval sh t of
        Inr n \<Rightarrow> Inr n
      | Inl e \<Rightarrow> Inl (Reject 412 ''max_retries script error''
          (''rejected: max-retries-script-'' @ rule_error_kind e)))"

definition gate_state_error :: gate_outcome where
  "gate_state_error = Reject 500 ''state error'' ''rejected: state-error''"

definition gate_transient :: gate_outcome where
  "gate_transient = Reject 503 ''broker transient'' ''rejected: broker-transient''"

definition gate_unknown :: gate_outcome where
  "gate_unknown = Reject 412 ''prior attempt state unknown'' ''rejected: prior-attempt-unknown''"

text \<open>\<open>str::to_lowercase\<close> on instrument names, which are ASCII.\<close>

definition ascii_lower :: "char \<Rightarrow> char" where
  "ascii_lower c =
     (let n = of_char c :: nat in if 65 \<le> n \<and> n \<le> 90 then char_of (n + 32) else c)"

definition to_lowercase :: "string \<Rightarrow> string" where
  "to_lowercase = map ascii_lower"

definition owns_position :: "open_position \<Rightarrow> entry_attempt \<Rightarrow> bool" where
  "owns_position p a \<longleftrightarrow>
     ea_broker_order_id a = op_order_id p \<or> ea_broker_trade_id a = Some (op_position_id p)"

definition open_position_backstop ::
  "'b broker \<Rightarrow> string option \<Rightarrow> string \<Rightarrow> entry_attempt list \<Rightarrow> ('d, 'b, gate_outcome option) prog" where
  "open_position_backstop B account instrument attempts =
     pbind (bcall (list_open_positions B (case account of None \<Rightarrow> [] | Some n \<Rightarrow> n))) (\<lambda>r.
     case r of
       Inl _ \<Rightarrow> preturn (Some gate_transient)
     | Inr positions \<Rightarrow>
         (if \<exists>p \<in> set (filter (\<lambda>p. to_lowercase (op_instrument p) = to_lowercase instrument) positions).
               \<exists>a \<in> set attempts. owns_position p a
          then preturn (Some (Reject 412 ''trade already open'' ''rejected: trade-already-open (backstop)''))
          else preturn None))"

text \<open>
  What the walk over the attempts comes to: a rejection, or the attempt numbers it has
  superseded.
\<close>

definition after_failed_cancel ::
  "'b broker \<Rightarrow> entry_attempt \<Rightarrow> time \<Rightarrow> ('d, 'b, gate_outcome + nat list) prog" where
  "after_failed_cancel B a now =
     pbind (observe B a now) (\<lambda>r. preturn (case r of
         Inl _ \<Rightarrow> Inl gate_transient
       | Inr (OpenPosition _) \<Rightarrow>
           Inl (Reject 412 ''trade already open (raced with cancel)'' ''rejected: raced-with-cancel'')
       | Inr Unknown \<Rightarrow> Inl gate_unknown
       | Inr Pending \<Rightarrow> Inl gate_unknown
       | Inr _ \<Rightarrow> Inr []))"

definition cancel_to_replace ::
  "'b broker \<Rightarrow> string option \<Rightarrow> string \<Rightarrow> entry_attempt \<Rightarrow> time \<Rightarrow> ('d, 'b, gate_outcome + nat list) prog" where
  "cancel_to_replace B account trade_id a now =
     pbind (bcall (cancel_order B (case account of None \<Rightarrow> [] | Some n \<Rightarrow> n) (ea_broker_order_id a)))
       (\<lambda>c. case c of
          Inr _ \<Rightarrow>
            pbind (call (set_entry_attempt_superseded account trade_id (ea_attempt_no a)))
              (\<lambda>_. preturn (Inr [ea_attempt_no a]))
        | Inl _ \<Rightarrow> after_failed_cancel B a now)"

fun walk ::
  "'b broker \<Rightarrow> string option \<Rightarrow> string \<Rightarrow> time \<Rightarrow> gate_mode \<Rightarrow> entry_attempt list \<Rightarrow>
   ('d, 'b, gate_outcome + nat list) prog" where
  "walk B account trade_id now mode [] = preturn (Inr [])"
| "walk B account trade_id now mode (a # as) =
     pbind (observe B a now) (\<lambda>r. case r of
         Inl _ \<Rightarrow> preturn (Inl gate_transient)
       | Inr Pending \<Rightarrow>
           (if mode = Probe
            then preturn (Inl (Reject 412 ''order already resting'' ''rejected: order-resting''))
            else cancel_to_replace B account trade_id a now)
       | Inr (OpenPosition _) \<Rightarrow> preturn (Inl (Reject 412 ''trade already open'' ''rejected: trade-already-open''))
       | Inr (ClosedWin _) \<Rightarrow> walk B account trade_id now mode as
       | Inr (ClosedLossOrBreakeven _) \<Rightarrow> walk B account trade_id now mode as
       | Inr (ClosedConfirmed _) \<Rightarrow> walk B account trade_id now mode as
       | Inr Cancelled \<Rightarrow> walk B account trade_id now mode as
       | Inr Unknown \<Rightarrow> preturn (Inl gate_unknown))"

definition placed_entries :: "entry_attempt list \<Rightarrow> nat list \<Rightarrow> nat" where
  "placed_entries attempts superseded_now =
     length (filter (\<lambda>a. \<not> ea_superseded a \<and> ea_attempt_no a \<notin> set superseded_now) attempts)"

definition next_attempt_no :: "entry_attempt list \<Rightarrow> nat" where
  "next_attempt_no attempts = fold max (map ea_attempt_no attempts) 0 + 1"

definition cap_check :: "entry_attempt list \<Rightarrow> nat \<Rightarrow> nat list \<Rightarrow> gate_outcome" where
  "cap_check attempts max_retries superseded_now =
     (if max_retries \<le> placed_entries attempts superseded_now
      then Reject 429 ''retry cap reached'' (''rejected: retry-cap ('' @ show_nat max_retries @ '')'')
      else Proceed (next_attempt_no attempts))"

text \<open>From the recorded attempts on: the backstop, the walk newest first, the cap.\<close>

definition judge_attempts ::
  "'b broker \<Rightarrow> 'd intent \<Rightarrow> string \<Rightarrow> time \<Rightarrow> gate_mode \<Rightarrow> nat \<Rightarrow> entry_attempt list \<Rightarrow>
   ('d, 'b, gate_outcome) prog" where
  "judge_attempts B i trade_id now mode max_retries attempts =
     pbind (if attempts = [] then preturn None
            else open_position_backstop B (i_account i) (i_instrument i) attempts) (\<lambda>b. case b of
         Some outcome \<Rightarrow> preturn outcome
       | None \<Rightarrow>
           pbind (walk B (i_account i) trade_id now mode (rev attempts)) (\<lambda>w. preturn (case w of
               Inl outcome \<Rightarrow> outcome
             | Inr superseded_now \<Rightarrow> cap_check attempts max_retries superseded_now)))"

definition evaluate_at ::
  "chrono \<Rightarrow> rhai \<Rightarrow> 'b broker \<Rightarrow> 'd intent \<Rightarrow> shell \<Rightarrow> time \<Rightarrow> gate_mode \<Rightarrow>
   ('d, 'b, gate_outcome) prog" where
  "evaluate_at C eval B i sh now mode =
     (case resolve_max_retries eval (i_max_retries i) sh of
        Inl outcome \<Rightarrow> preturn outcome
      | Inr max_retries \<Rightarrow>
          if max_retries = 0
          then preturn (Reject 412 ''max_retries resolved to zero'' ''rejected: max-retries-zero'')
          else case i_trade_id i of
            None \<Rightarrow> preturn (Proceed 1)
          | Some trade_id \<Rightarrow>
              pbind (call (is_retry_fire_seen C (i_account i) trade_id (sh_time sh))) (\<lambda>q. case q of
                  Inl _ \<Rightarrow> preturn gate_state_error
                | Inr seen \<Rightarrow>
                    if seen then preturn (Reject 409 ''replay (retry-fire)'' ''rejected: retry-fire-replay'')
                    else pbind (call (list_entry_attempts (i_account i) trade_id)) (\<lambda>l. case l of
                        Inl _ \<Rightarrow> preturn gate_state_error
                      | Inr attempts \<Rightarrow> judge_attempts B i trade_id now mode max_retries attempts)))"

definition evaluate ::
  "chrono \<Rightarrow> rhai \<Rightarrow> 'b broker \<Rightarrow> 'd intent \<Rightarrow> shell \<Rightarrow> ('d, 'b, gate_outcome) prog" where
  "evaluate C eval B i sh = evaluate_at C eval B i sh (sh_time sh) Full"

definition probe ::
  "chrono \<Rightarrow> rhai \<Rightarrow> 'b broker \<Rightarrow> 'd intent \<Rightarrow> shell \<Rightarrow> ('d, 'b, gate_outcome) prog" where
  "probe C eval B i sh = evaluate_at C eval B i sh (sh_time sh) Probe"

section \<open>Recording a placement\<close>

definition new_attempt ::
  "'d intent \<Rightarrow> string \<Rightarrow> time \<Rightarrow> time \<Rightarrow> nat \<Rightarrow> nat \<Rightarrow> string \<Rightarrow> direction \<Rightarrow> f64 \<Rightarrow> time option \<Rightarrow>
   breakeven_snapshot option \<Rightarrow> order_control_snapshot option \<Rightarrow> entry_attempt" where
  "new_attempt i trade_id shell_time now ttl attempt_no order_id dir stop cancel_at breakeven control =
     \<lparr>ea_trade_id = trade_id, ea_account = i_account i, ea_instrument = i_instrument i,
      ea_attempt_no = attempt_no, ea_broker_order_id = order_id, ea_broker_trade_id = None,
      ea_direction = dir, ea_placed_at = now, ea_shell_time = shell_time,
      ea_expires_at = now + seconds (int ttl), ea_stop_loss_price = Some stop,
      ea_adverse_extreme = None, ea_cancel_at = cancel_at, ea_pip_size = i_pip_size i,
      ea_blackout_close = i_blackout_close i, ea_breakeven = breakeven, ea_order_control = control,
      ea_superseded = False\<rparr>"

definition record_placement ::
  "chrono \<Rightarrow> 'd intent \<Rightarrow> time \<Rightarrow> time \<Rightarrow> time \<Rightarrow> nat \<Rightarrow> string \<Rightarrow> direction \<Rightarrow> f64 \<Rightarrow> time option \<Rightarrow>
   breakeven_snapshot option \<Rightarrow> order_control_snapshot option \<Rightarrow> ('d, 'b, unit) prog" where
  "record_placement C i shell_time not_after now attempt_no order_id dir stop cancel_at breakeven control =
     (case i_trade_id i of
        None \<Rightarrow> preturn ()
      | Some trade_id \<Rightarrow>
          (let ttl = replay_ttl_seconds not_after now in
           pbind (call (record_entry_attempt (new_attempt i trade_id shell_time now ttl attempt_no order_id
               dir stop cancel_at breakeven control))) (\<lambda>_.
           pbind (call (mark_retry_fire_seen C (i_account i) trade_id shell_time ttl)) (\<lambda>_.
           preturn ()))))"

end
