(* ===== verification/Core_Reach.thy ===== *)
theory Core_Reach
  imports Core_Flags
begin

text \<open>
  The stores that the operations of \<open>MemStateStore\<close> can produce, the invariant they
  preserve, and the readers that therefore never meet an undecodable row.
\<close>

section \<open>Reachable stores\<close>

inductive store_step :: "chrono \<Rightarrow> 'd mem_store \<Rightarrow> 'd mem_store \<Rightarrow> bool" for C where
  clock: "store_step C s (set_clock t s)"
| wall: "store_step C s (s\<lparr>ms_wall := t\<rparr>)"
| seen: "store_step C s (snd (mark_seen i act t outcome ttl tid s))"
| forget: "store_step C s (snd (forget_seen i s))"
| cooldown: "store_step C s (snd (set_cooldown a ins hours t s))"
| no_cooldown: "store_step C s (snd (clear_cooldown a ins s))"
| prep: "store_step C s (snd (set_prep C a ins step stamp ttl i s))"
| no_prep: "store_step C s (snd (clear_prep a ins step s))"
| veto: "store_step C s (snd (set_veto a tid' ins nm ttl s))"
| no_veto: "store_step C s (snd (clear_veto a tid' ins nm s))"
| block: "store_step C s (snd (block_prep a ins step t ttl s))"
| no_block: "store_step C s (snd (clear_prep_block a ins step s))"
| pause: "store_step C s (snd (set_pause tid' bid reason t ttl s))"
| no_pause: "store_step C s (snd (clear_pause tid' bid s))"
| news: "store_step C s (snd (set_news_window tid' nid reason t ttl s))"
| no_news: "store_step C s (snd (clear_news_window tid' nid s))"
| attempt: "store_step C s (snd (record_entry_attempt row s))"
| attempt_trade: "store_step C s (snd (set_entry_attempt_broker_trade_id a tid' n bt s))"
| attempt_superseded: "store_step C s (snd (set_entry_attempt_superseded a tid' n s))"
| attempt_replaced: "store_step C s (snd (set_entry_attempt_replacement a tid' old_id new_id stop s))"
| attempt_extreme: "store_step C s (snd (set_entry_attempt_adverse_extreme a tid' n x s))"
| attempt_deleted: "store_step C s (snd (delete_entry_attempt a tid' n s))"
| retry: "store_step C s (snd (mark_retry_fire_seen C a tid' t ttl s))"
| link: "store_step C s (snd (record_position_link pl s))"
| window: "store_step C s (snd (set_spread_blackout_window t ttl s))"
| hours: "store_step C s (snd (set_blackout_windows ins ws t ttl s))"
| held: "store_step C s (snd (upsert_held_trade_record hr ttl s))"
| no_held: "store_step C s (snd (clear_held_trade_record tid' s))"
| mw: "store_step C s (snd (upsert_mw_state a tid' mst ttl s))"
| no_mw: "store_step C s (snd (clear_mw_state a tid' s))"
| plan: "store_step C s (snd (put_trade_plan a p s))"
| no_plan: "store_step C s (snd (clear_trade_plan a tid' s))"
| state: "store_step C s (snd (put_plan_state a tid' st s))"
| no_state: "store_step C s (snd (clear_plan_state a tid' s))"
| event: "store_step C s (snd (record_control_event a tid' ev s))"
| no_events: "store_step C s (snd (clear_control_events a tid' s))"
| archive: "store_step C s (snd (archive_plan a p st t settlement s))"
| no_archive: "store_step C s (snd (clear_archived_plan a tid' s))"
| order_body: "store_step C s (snd (put_order_body oid body s))"
| no_order_body: "store_step C s (snd (delete_order_body oid s))"

inductive store_reach :: "chrono \<Rightarrow> 'd mem_store \<Rightarrow> bool" for C where
  start: "store_reach C (empty_store w)"
| step: "store_reach C s \<Longrightarrow> store_step C s s' \<Longrightarrow> store_reach C s'"

section \<open>Rows keep their types\<close>

lemma put_row_inv: "store_inv s \<Longrightarrow> typed_row k b \<Longrightarrow> store_inv (snd (put_row k b ttl t s))"
  by (simp add: put_row_def store_put_inv)

lemma clear_row_inv: "store_inv s \<Longrightarrow> store_inv (snd (clear_row k s))"
  by (simp add: clear_row_def store_delete_inv)

lemma delete_row_inv: "store_inv s \<Longrightarrow> store_inv (snd (delete_row k s))"
  using store_delete_inv [of s k] by (simp add: delete_row_def case_prod_beta)

lemma clear_prep_inv: "store_inv s \<Longrightarrow> store_inv (snd (clear_prep a ins step s))"
  using store_delete_inv [of s] by (simp add: clear_prep_def Let_def case_prod_beta)

lemma attempts_inv:
  assumes "store_inv s" "sorted (map ea_attempt_no rows)"
  shows "store_inv (s\<lparr>ms_attempts := bt_insert k rows (ms_attempts s)\<rparr>)"
  using assms by (auto simp: store_inv_def bt_inv_insert bt.lookup_insert)

lemma update_first_keeps: "(\<And>x. g (f x) = g x) \<Longrightarrow> map g (update_first p f xs) = map g xs"
  by (induction xs) auto

lemma update_attempt_inv:
  assumes "store_inv s" "\<And>x. ea_attempt_no (f x) = ea_attempt_no x"
  shows "store_inv (snd (update_attempt a t p f s))"
proof (cases "bt_get (ms_attempts s) (attempt_key a t)")
  case None
  then show ?thesis using assms by (simp add: update_attempt_def)
next
  case (Some rows)
  then have "sorted (map ea_attempt_no (update_first p f rows))"
    using store_inv_rows [OF assms(1)] by (simp add: update_first_keeps assms(2))
  then show ?thesis using Some attempts_inv [OF assms(1)] by (simp add: update_attempt_def)
qed

lemma record_attempt_inv: "store_inv s \<Longrightarrow> store_inv (snd (record_entry_attempt x s))"
  by (simp add: record_entry_attempt_def Let_def attempts_inv)

lemma delete_attempt_inv:
  assumes "store_inv s"
  shows "store_inv (snd (delete_entry_attempt a t n s))"
proof (cases "bt_get (ms_attempts s) (attempt_key a t)")
  case None
  then show ?thesis using assms by (simp add: delete_entry_attempt_def)
next
  case (Some rows)
  then have "sorted (map ea_attempt_no rows)" using store_inv_rows [OF assms] by simp
  then show ?thesis using Some attempts_inv [OF assms]
    by (simp add: delete_entry_attempt_def sorted_filter)
qed

lemma retain_inv: "store_inv s \<Longrightarrow> store_inv (s\<lparr>ms_inner := bt_retain p (ms_inner s)\<rparr>)"
  by (auto simp: store_inv_def bt_inv_retain bt_get_retain split: option.splits if_splits)

lemma link_inv: "store_inv s \<Longrightarrow> store_inv (snd (record_position_link l s))"
  by (auto simp: store_inv_def record_position_link_def split: option.split)

lemma starts_with_same [simp]: "starts_with (p @ x) (p @ y) \<longleftrightarrow> starts_with x y"
  by (auto simp: starts_with_iff)

lemmas row_ops = mark_seen_def set_cooldown_def set_prep_def set_veto_def block_prep_def set_pause_def
  set_news_window_def mark_retry_fire_seen_def set_spread_blackout_window_def set_blackout_windows_def
  upsert_held_trade_record_def upsert_mw_state_def put_trade_plan_def put_plan_state_def
  record_control_event_def archive_plan_def put_order_body_def

lemmas clear_ops = forget_seen_def clear_held_trade_record_def clear_mw_state_def clear_trade_plan_def
  clear_plan_state_def clear_archived_plan_def delete_order_body_def

lemmas delete_ops = clear_cooldown_def clear_veto_def clear_prep_block_def clear_pause_def
  clear_news_window_def

lemmas attempt_ops = set_entry_attempt_broker_trade_id_def set_entry_attempt_superseded_def
  set_entry_attempt_replacement_def set_entry_attempt_adverse_extreme_def

lemma typed_plan: "typed_row (plan_key a (tp_trade_id p)) (PlanBody p)"
  by (simp add: typed_row_def key_simps) blast

lemma typed_archive:
  "typed_row (archive_key a (tp_trade_id p))
     (ArchiveBody \<lparr>ap_account = None, ap_plan = p, ap_final_state = st, ap_archived_at = t, ap_settlement = x\<rparr>)"
  by (simp add: typed_row_def key_simps) force

lemma store_step_inv:
  assumes "store_step C s s'" "store_inv s"
  shows "store_inv s'"
  using assms
proof cases
  case wall
  then show ?thesis using assms(2) by (simp add: store_inv_def)
next
  case no_events
  then show ?thesis using assms(2) by (simp add: clear_control_events_def retain_inv)
next
  case plan
  then show ?thesis using assms(2) by (simp add: put_trade_plan_def put_row_inv typed_plan)
next
  case archive
  then show ?thesis using assms(2) by (simp add: archive_plan_def put_row_inv typed_archive)
qed (simp_all add: row_ops clear_ops delete_ops attempt_ops Let_def put_row_inv clear_row_inv delete_row_inv
    clear_prep_inv update_attempt_inv record_attempt_inv delete_attempt_inv link_inv typed_row_def key_simps
    split: if_splits)

lemma store_reach_inv: "store_reach C s \<Longrightarrow> store_inv s"
  by (induction rule: store_reach.induct) (auto intro: store_step_inv)

section \<open>Readers\<close>

lemma live_row_typed: "store_inv s \<Longrightarrow> get_live s k = Some b \<Longrightarrow> typed_row k b"
  by (auto simp: get_live_def dest: store_invD(3) split: option.splits if_splits)

lemma decode_foldM:
  "\<forall>b \<in> set bs. dec b \<noteq> None \<Longrightarrow>
     foldM (\<lambda>b acc. rbind (ok_or (dec b) msg) (\<lambda>r. Inr (acc @ [r]))) bs acc = Inr (acc @ map (the \<circ> dec) bs)"
  by (induction bs arbitrary: acc) (auto simp: ok_or_def)

lemma decode_all_ok:
  "\<forall>b \<in> set bs. dec b \<noteq> None \<Longrightarrow> decode_all dec msg bs = Inr (map (the \<circ> dec) bs)"
  by (simp add: decode_all_def decode_foldM)

text \<open>What \<open>list_scoped\<close> returns when every row decodes.\<close>

definition scoped_row :: "string \<Rightarrow> ('d body \<Rightarrow> 'r option) \<Rightarrow> string \<times> 'd body \<Rightarrow> (string option \<times> 'r) option" where
  "scoped_row prefix dec e =
     map_option (\<lambda>scope. (account_from_scope scope, the (dec (snd e)))) (scope_of_key prefix (fst e))"

lemma scoped_foldM:
  "\<forall>e \<in> set es. dec (snd e) \<noteq> None \<Longrightarrow>
     foldM (\<lambda>(k, b) acc. case scope_of_key prefix k of None \<Rightarrow> Inr acc
         | Some scope \<Rightarrow> rbind (ok_or (dec b) msg) (\<lambda>r. Inr (acc @ [(account_from_scope scope, r)]))) es acc
     = Inr (acc @ List.map_filter (scoped_row prefix dec) es)"
  by (induction es arbitrary: acc) (auto simp: ok_or_def scoped_row_def split: option.split)

lemma list_scoped_ok:
  "\<forall>e \<in> set (live_under prefix s). dec (snd e) \<noteq> None \<Longrightarrow>
     list_scoped prefix dec msg s = Inr (List.map_filter (scoped_row prefix dec) (live_under prefix s))"
  by (simp add: list_scoped_def scoped_foldM)

text \<open>The rows under each listing prefix decode.\<close>

lemma typed_rowD:
  assumes "typed_row k b"
  shows "starts_with ''pause:'' k \<Longrightarrow> \<exists>e. b = PauseBody e \<and> k = pause_key (pe_trade_id e) (pe_blackout_id e)"
    and "starts_with ''news:'' k \<Longrightarrow> \<exists>e. b = NewsBody e \<and> k = news_key (ne_trade_id e) (ne_news_id e)"
    and "starts_with ''plan:'' k \<Longrightarrow> \<exists>a q. b = PlanBody q \<and> k = plan_key a (tp_trade_id q)"
    and "starts_with ''archived-plan:'' k \<Longrightarrow> \<exists>a q. b = ArchiveBody q \<and> k = archive_key a (tp_trade_id (ap_plan q))"
    and "starts_with ''spread-blackout:rec:'' k \<Longrightarrow> \<exists>r. b = HeldBody r \<and> k = held_key (hd_trade_id r)"
  using assms unfolding typed_row_def by blast+

lemma starts_with_appendD: "starts_with (p @ q) k \<Longrightarrow> starts_with p k"
  unfolding starts_with_iff by (metis append.assoc)

lemma live_decodes:
  assumes "store_inv s" "(k, b) \<in> set (live_under p s)"
  shows "p = ''pause:'' @ t \<Longrightarrow> \<exists>e. b = PauseBody e \<and> k = pause_key (pe_trade_id e) (pe_blackout_id e)"
    and "p = ''news:'' @ t \<Longrightarrow> \<exists>e. b = NewsBody e \<and> k = news_key (ne_trade_id e) (ne_news_id e)"
    and "p = ''plan:'' \<Longrightarrow> \<exists>a q. b = PlanBody q \<and> k = plan_key a (tp_trade_id q)"
    and "p = ''archived-plan:'' \<Longrightarrow> \<exists>a q. b = ArchiveBody q \<and> k = archive_key a (tp_trade_id (ap_plan q))"
    and "p = ''spread-blackout:rec:'' \<Longrightarrow> \<exists>r. b = HeldBody r \<and> k = held_key (hd_trade_id r)"
proof -
  have p: "starts_with p k" using live_under_set [OF assms(1)] assms(2) by blast
  have "get_live s k = Some b" using live_under_set [OF assms(1)] assms(2) by blast
  then have row: "typed_row k b" by (rule live_row_typed [OF assms(1)])
  show "p = ''pause:'' @ t \<Longrightarrow> \<exists>e. b = PauseBody e \<and> k = pause_key (pe_trade_id e) (pe_blackout_id e)"
    using p by (intro typed_rowD(1) [OF row]) (simp only: starts_with_appendD)
  show "p = ''news:'' @ t \<Longrightarrow> \<exists>e. b = NewsBody e \<and> k = news_key (ne_trade_id e) (ne_news_id e)"
    using p by (intro typed_rowD(2) [OF row]) (simp only: starts_with_appendD)
  show "p = ''plan:'' \<Longrightarrow> \<exists>a q. b = PlanBody q \<and> k = plan_key a (tp_trade_id q)"
    using p by (intro typed_rowD(3) [OF row]) (simp only:)
  show "p = ''archived-plan:'' \<Longrightarrow> \<exists>a q. b = ArchiveBody q \<and> k = archive_key a (tp_trade_id (ap_plan q))"
    using p by (intro typed_rowD(4) [OF row]) (simp only:)
  show "p = ''spread-blackout:rec:'' \<Longrightarrow> \<exists>r. b = HeldBody r \<and> k = held_key (hd_trade_id r)"
    using p by (intro typed_rowD(5) [OF row]) (simp only:)
qed

lemmas reader_defs = list_pauses_for_trade_def list_news_windows_for_trade_def
  list_all_held_trade_records_def list_all_trade_plans_def list_all_archived_plans_def
  as_pause_def as_news_def as_held_def as_plan_def as_archive_def

lemma readers_decode:
  assumes inv: "store_inv s"
  shows "\<exists>xs. fst (list_pauses_for_trade t s) = Inr xs"
    and "\<exists>xs. fst (list_news_windows_for_trade t s) = Inr xs"
    and "\<exists>xs. fst (list_all_held_trade_records s) = Inr xs"
    and "\<exists>xs. fst (list_all_trade_plans s) = Inr xs"
    and "\<exists>xs. fst (list_all_archived_plans s) = Inr xs"
proof -
  have "\<forall>b \<in> set (map snd (live_under (''pause:'' @ t @ '':'') s)). as_pause b \<noteq> None"
    using live_decodes(1) [OF inv, where t = "t @ '':''"] by (fastforce simp: as_pause_def)
  then show "\<exists>xs. fst (list_pauses_for_trade t s) = Inr xs"
    unfolding list_pauses_for_trade_def fst_conv by (blast dest: decode_all_ok)
  have "\<forall>b \<in> set (map snd (live_under (''news:'' @ t @ '':'') s)). as_news b \<noteq> None"
    using live_decodes(2) [OF inv, where t = "t @ '':''"] by (fastforce simp: as_news_def)
  then show "\<exists>xs. fst (list_news_windows_for_trade t s) = Inr xs"
    unfolding list_news_windows_for_trade_def fst_conv by (blast dest: decode_all_ok)
  have "\<forall>b \<in> set (map snd (live_under ''spread-blackout:rec:'' s)). as_held b \<noteq> None"
    using live_decodes(5) [OF inv] by (fastforce simp: as_held_def)
  then show "\<exists>xs. fst (list_all_held_trade_records s) = Inr xs"
    unfolding list_all_held_trade_records_def fst_conv by (blast dest: decode_all_ok)
  have "\<forall>e \<in> set (live_under ''plan:'' s). as_plan (snd e) \<noteq> None"
    using live_decodes(3) [OF inv] by (fastforce simp: as_plan_def)
  then show "\<exists>xs. fst (list_all_trade_plans s) = Inr xs"
    unfolding list_all_trade_plans_def fst_conv by (simp add: list_scoped_ok)
  have "\<forall>e \<in> set (live_under ''archived-plan:'' s). as_archive (snd e) \<noteq> None"
    using live_decodes(4) [OF inv] by (fastforce simp: as_archive_def)
  then show "\<exists>xs. fst (list_all_archived_plans s) = Inr xs"
    unfolding list_all_archived_plans_def fst_conv by (simp add: list_scoped_ok)
qed

lemma live_key_typed:
  assumes inv: "store_inv s"
  shows "get_live s (plan_key a t) = Some b \<Longrightarrow> \<exists>p. b = PlanBody p"
    "get_live s (plan_state_key a t) = Some b \<Longrightarrow> \<exists>p. b = StateBody p"
    "get_live s (held_key t) = Some b \<Longrightarrow> \<exists>p. b = HeldBody p"
    "get_live s ''spread-blackout:window'' = Some b \<Longrightarrow> \<exists>p. b = WindowBody p"
    "get_live s (colon_key [''blackout-hours'', t]) = Some b \<Longrightarrow> \<exists>p. b = HoursBody p"
    "get_live s (colon_key [''mw-state'', sc, t]) = Some b \<Longrightarrow> \<exists>p. b = MwBody p"
  by (drule live_row_typed [OF inv], simp add: typed_row_def key_simps, blast?)+

lemma getters_decode:
  assumes inv: "store_inv s"
  shows "\<exists>x. fst (get_trade_plan a t s) = Inr x" "\<exists>x. fst (get_plan_state a t s) = Inr x"
    "\<exists>x. fst (get_held_trade_record t s) = Inr x" "\<exists>x. fst (get_spread_blackout_window s) = Inr x"
    "\<exists>x. fst (get_blackout_windows ins s) = Inr x"
proof -
  show "\<exists>x. fst (get_trade_plan a t s) = Inr x"
    using live_key_typed(1) [OF inv, of a t]
    by (cases "get_live s (plan_key a t)") (auto simp: get_trade_plan_def as_plan_def)
  show "\<exists>x. fst (get_plan_state a t s) = Inr x"
    using live_key_typed(2) [OF inv, of a t]
    by (cases "get_live s (plan_state_key a t)") (auto simp: get_plan_state_def)
  show "\<exists>x. fst (get_held_trade_record t s) = Inr x"
    using live_key_typed(3) [OF inv, of t]
    by (cases "get_live s (held_key t)") (auto simp: get_held_trade_record_def as_held_def)
  show "\<exists>x. fst (get_spread_blackout_window s) = Inr x"
    using live_key_typed(4) [OF inv]
    by (cases "get_live s ''spread-blackout:window''") (auto simp: get_spread_blackout_window_def)
  show "\<exists>x. fst (get_blackout_windows ins s) = Inr x"
    using live_key_typed(5) [OF inv, of ins]
    by (cases "get_live s (colon_key [''blackout-hours'', ins])") (auto simp: get_blackout_windows_def)
qed

lemma mw_decodes:
  assumes inv: "store_inv s"
  shows "\<exists>x. fst (get_mw_state a t s) = Inr x"
proof -
  define g where "g = get_live s (colon_key [''mw-state'', account_scope None, t])"
  define o1 where "o1 = get_live s (colon_key [''mw-state'', account_scope a, t])"
  have "g = Some b \<Longrightarrow> \<exists>p. b = MwBody p" "o1 = Some b \<Longrightarrow> \<exists>p. b = MwBody p" for b
    by (auto simp: g_def o1_def dest: live_key_typed(6) [OF inv])
  moreover have "fst (get_mw_state a t s) = fst (case (if g = None \<and> a \<noteq> None then o1 else g) of
           None \<Rightarrow> (Inr None, s)
         | Some b \<Rightarrow> (case b of MwBody m \<Rightarrow> (Inr (Some m), s) | _ \<Rightarrow> (Inl (Err ''decode mw-state''), s)))"
    by (simp only: get_mw_state_def Let_def g_def o1_def)
  ultimately show ?thesis by (cases g; cases o1; fastforce)
qed

section \<open>Position links\<close>

text \<open>Only \<open>record_position_link\<close> touches the links, and it appends at most one.\<close>

lemma update_attempt_links [simp]: "ms_links (snd (update_attempt a t p f s)) = ms_links s"
  by (simp add: update_attempt_def split: option.split)

lemma other_links [simp]:
  "ms_links (snd (record_entry_attempt x s)) = ms_links s"
  "ms_links (snd (delete_entry_attempt a t n s)) = ms_links s"
  "ms_links (snd (clear_prep a i st s)) = ms_links s"
  "ms_links (snd (delete_row k s)) = ms_links s"
  "ms_links (snd (put_row k b ttl u s)) = ms_links s"
  "ms_links (snd (clear_row k s)) = ms_links s"
  "ms_links (snd (clear_control_events a t s)) = ms_links s"
  by (simp_all add: record_entry_attempt_def delete_entry_attempt_def clear_prep_def delete_row_def
      put_row_def clear_row_def clear_control_events_def store_delete_def Let_def split: option.split)

definition new_links :: "position_link list \<Rightarrow> position_link list \<Rightarrow> bool" where
  "new_links old new \<longleftrightarrow> new = [] \<or>
     (\<exists>l. new = [l] \<and> (\<forall>p \<in> set old. \<not> (pl_account p = pl_account l \<and>
        pl_broker_order_id p = pl_broker_order_id l)))"

lemma record_link_new: "\<exists>new. ms_links (snd (record_position_link l s)) = ms_links s @ new \<and>
    new_links (ms_links s) new"
  by (auto simp: record_position_link_def new_links_def find_None_iff split: option.split)

lemma links_new: "store_step C s s' \<Longrightarrow> \<exists>new. ms_links s' = ms_links s @ new \<and> new_links (ms_links s) new"
proof (induction rule: store_step.induct)
  case link
  show ?case by (rule record_link_new)
qed (simp_all add: row_ops clear_ops delete_ops attempt_ops Let_def new_links_def)

lemma links_append: "store_step C s s' \<Longrightarrow> \<exists>new. ms_links s' = ms_links s @ new"
  using links_new by blast

lemma links_distinct:
  "store_reach C s \<Longrightarrow> distinct (map (\<lambda>l. (pl_account l, pl_broker_order_id l)) (ms_links s))"
proof (induction rule: store_reach.induct)
  case (start w)
  show ?case by (simp add: empty_store_def)
next
  case (step s s')
  obtain new where new: "ms_links s' = ms_links s @ new" "new_links (ms_links s) new"
    using links_new [OF step.hyps(2)] by blast
  then have "new = [] \<or> (\<exists>l. new = [l] \<and>
      (pl_account l, pl_broker_order_id l) \<notin> (\<lambda>l. (pl_account l, pl_broker_order_id l)) ` set (ms_links s))"
    by (force simp: new_links_def)
  then show ?case using new(1) step.IH by (elim disjE exE) (simp_all del: image_iff add: distinct_append)
qed

section \<open>Preps\<close>

lemma split_once_bar: "CHR ''|'' \<notin> set x \<Longrightarrow> split_once CHR ''|'' (x @ CHR ''|'' # rest) = Some (x, rest)"
proof -
  assume "CHR ''|'' \<notin> set x"
  then have "\<And>c. c \<in> set x \<Longrightarrow> c \<noteq> CHR ''|''" by auto
  then show ?thesis by (simp add: split_once_def takeWhile_append2 dropWhile_append2)
qed

text \<open>The law \<open>chrono\<close> documents: rendered instants parse back, and hold no bar.\<close>

definition chrono_laws :: "chrono \<Rightarrow> bool" where
  "chrono_laws C \<longleftrightarrow> (\<forall>t. parse_rfc3339 C (to_rfc3339 C t) = Some t \<and>
     CHR ''|'' \<notin> set (to_rfc3339 C t))"

lemma prep_read_back:
  assumes inv: "store_inv s" and C: "chrono_laws C" and a: "proper_account a"
    and nm: "flag_name 2 [ins, step]"
    and live: "store_now s < st_now stamp + seconds (int (max ttl min_ttl_seconds))"
    and no_global: "a \<noteq> None \<Longrightarrow> get_live s (scoped_key ''prep'' None [ins, step]) = None"
  shows "fst (get_prep C a ins step (snd (set_prep C a ins step stamp ttl setter s))) =
      Inr (Some (st_set_at stamp)) \<and>
    fst (clear_prep a ins step (snd (set_prep C a ins step stamp ttl setter s))) = Inr (Some setter)"
proof -
  define raw where "raw = to_rfc3339 C (st_set_at stamp) @ ''|'' @ setter"
  define s' where "s' = snd (set_prep C a ins step stamp ttl setter s)"
  have raw: "parse_prep_value raw = (to_rfc3339 C (st_set_at stamp), setter)"
    using C split_once_bar by (simp add: raw_def parse_prep_value_def chrono_laws_def)
  have s': "s' = store_put (scoped_key ''prep'' a [ins, step]) (TextBody raw) (max ttl min_ttl_seconds)
      (st_now stamp) s"
    by (simp add: s'_def raw_def set_prep_def put_row_def)
  have own: "get_live s' (scoped_key ''prep'' a [ins, step]) = Some (TextBody raw)"
    using live by (simp add: s' get_live_put [OF inv])
  have other: "get_live s' (scoped_key ''prep'' None [ins, step]) = None" if "a \<noteq> None"
    using that no_global nm a by (auto simp: s' get_live_put [OF inv] scoped_key_inject flag_name_def)
  have row: "bt_get (ms_inner s') (scoped_key ''prep'' a [ins, step]) \<noteq> None"
    using own by (auto simp: get_live_def split: option.splits)
  have "fst (get_prep C a ins step s') = Inr (Some (st_set_at stamp))"
    using own other C raw
    by (cases a) (auto simp: get_prep_def Let_def scoped_key_def account_scope_def body_text_def
        chrono_laws_def)
  moreover have "fst (clear_prep a ins step s') = Inr (Some setter)"
    using own row raw by (auto simp: clear_prep_def Let_def store_delete_def body_text_def)
  ultimately show ?thesis by (simp add: s'_def)
qed

end
