(* ===== verification/Core_Retry_Facts.thy ===== *)
theory Core_Retry_Facts
  imports Core_Retry Core_Reach
begin

text \<open>
  What the retry gate guarantees: the probe touches no order, a fire that proceeds is
  fresh, under its cap and above no open position of its trade, and a placement blocks its
  own bar.
\<close>

section \<open>The probe\<close>

text \<open>The probe never calls \<open>cancel_order\<close>: replacing that function changes nothing.\<close>

lemma observe_no_cancel: "observe (B\<lparr>cancel_order := f\<rparr>) a now = observe B a now"
  by (simp add: observe_def)

lemma walk_probe: "walk (B\<lparr>cancel_order := f\<rparr>) acc t now Probe as W = walk B acc t now Probe as W"
proof (induction as arbitrary: W)
  case (Cons a as)
  show ?case
    by (simp add: observe_no_cancel Cons split: sum.split attempt_state.split)
qed simp

lemma judge_probe:
  "judge_attempts (B\<lparr>cancel_order := f\<rparr>) i t now Probe m as W = judge_attempts B i t now Probe m as W"
  by (simp add: judge_attempts_def open_position_backstop_def walk_probe fun_eq_iff
      split: option.split sum.split)

lemma evaluate_probe:
  "evaluate_at C eval (B\<lparr>cancel_order := f\<rparr>) i sh now Probe W = evaluate_at C eval B i sh now Probe W"
  by (simp add: evaluate_at_def judge_probe split: sum.split option.split)

section \<open>A fire that proceeds\<close>

lemma fold_max_le: "(x::nat) \<le> fold max xs x"
  by (induction xs arbitrary: x) (auto intro: order_trans [OF max.cobounded2])

lemma fold_max_bound: "x \<in> set xs \<Longrightarrow> (x::nat) \<le> fold max xs y"
  by (induction xs arbitrary: y) (auto intro: order_trans [OF max.cobounded1 fold_max_le])

lemma next_attempt_fresh: "a \<in> set as \<Longrightarrow> ea_attempt_no a < next_attempt_no as"
  using fold_max_bound [of "ea_attempt_no a" "map ea_attempt_no as" 0]
  by (simp add: next_attempt_no_def)

lemma cap_check_Proceed:
  "cap_check as m sp = Proceed n \<longleftrightarrow> placed_entries as sp < m \<and> n = next_attempt_no as"
  by (auto simp: cap_check_def)

lemma walk_rejections [simp]:
  "fst (walk B acc t now mode as W) \<noteq> Inl (Proceed n)"
  "fst (walk B acc t now mode as W) \<noteq> Inl (Reject 429 msg outcome)"
  by (induction as arbitrary: W)
    (auto simp: cancel_to_replace_def after_failed_cancel_def gate_transient_def gate_unknown_def
      split: sum.split attempt_state.split)

definition backstop_clear :: "'b broker \<Rightarrow> 'd intent \<Rightarrow> entry_attempt list \<Rightarrow> 'b \<Rightarrow> bool" where
  "backstop_clear B i as b \<longleftrightarrow>
     (\<exists>ps. fst (list_open_positions B (case i_account i of None \<Rightarrow> [] | Some n \<Rightarrow> n) b) = Inr ps \<and>
       (\<forall>p \<in> set ps. to_lowercase (op_instrument p) = to_lowercase (i_instrument i) \<longrightarrow>
          (\<forall>a \<in> set as. \<not> owns_position p a)))"

lemma judge_Proceed:
  fixes W :: "('d, 'b) world"
  assumes "fst (judge_attempts B i t now mode m as W) = Proceed n"
  shows "n = next_attempt_no as \<and> (as \<noteq> [] \<longrightarrow> backstop_clear B i as (w_broker W)) \<and>
    (\<exists>sp (W' :: ('d, 'b) world). fst (walk B (i_account i) t now mode (rev as) W') = Inr sp \<and> placed_entries as sp < m)"
  using assms
  by (auto simp: judge_attempts_def open_position_backstop_def backstop_clear_def cap_check_Proceed
      gate_transient_def split: sum.splits option.splits if_splits)

lemma evaluate_Proceed:
  fixes W :: "('d, 'b) world"
  assumes run: "fst (evaluate_at C eval B i sh now mode W) = Proceed n" and t: "i_trade_id i = Some t"
  shows "\<exists>m as (W' :: ('d, 'b) world). resolve_u32 eval sh (i_max_retries i) = Inr m \<and>
      as = attempts_at (w_store W) (attempt_key (i_account i) t) \<and>
      get_live (w_store W) (retry_key C (i_account i) t (sh_time sh)) = None \<and>
      w_broker W' = w_broker W \<and>
      fst (judge_attempts B i t now mode m as W') = Proceed n"
proof -
  obtain m where m: "resolve_u32 eval sh (i_max_retries i) = Inr m" and m0: "m \<noteq> 0"
    using run by (auto simp: evaluate_at_def resolve_max_retries_def split: sum.splits if_splits)
  define W1 where "W1 = snd (call (is_retry_fire_seen C (i_account i) t (sh_time sh)) W)"
  obtain seen where q: "fst (call (is_retry_fire_seen C (i_account i) t (sh_time sh)) W) = Inr seen"
      and not_seen: "\<not> seen"
    using run t m m0
    by (auto simp: evaluate_at_def resolve_max_retries_def gate_state_error_def split: sum.splits if_splits)
  have live: "get_live (w_store W) (retry_key C (i_account i) t (sh_time sh)) = None"
    using call_value [OF q] not_seen by (auto simp only: is_retry_fire_seen_def prod.inject sum.inject)
  have s1: "w_store W1 = w_store W" "w_broker W1 = w_broker W"
    by (simp_all add: W1_def call_reads reads_def is_retry_fire_seen_def)
  define W2 where "W2 = snd (call (list_entry_attempts (i_account i) t) W1)"
  obtain as where l: "fst (call (list_entry_attempts (i_account i) t) W1) = Inr as"
      and j: "fst (judge_attempts B i t now mode m as W2) = Proceed n"
    using run t m m0 q not_seen
    by (auto simp: evaluate_at_def resolve_max_retries_def gate_state_error_def W1_def W2_def split: sum.splits)
  have "as = attempts_at (w_store W) (attempt_key (i_account i) t)"
    using call_value [OF l] s1(1) by (auto simp only: list_entry_attempts_def prod.inject sum.inject)
  moreover have "w_broker W2 = w_broker W" by (simp add: W2_def s1)
  ultimately show ?thesis using m live j by blast
qed

lemma evaluate_capped:
  fixes W :: "('d, 'b) world"
  assumes run: "fst (evaluate_at C eval B i sh now mode W) = Reject 429 msg outcome"
    and t: "i_trade_id i = Some t"
  shows "\<exists>m as (W' :: ('d, 'b) world). resolve_u32 eval sh (i_max_retries i) = Inr m \<and>
      as = attempts_at (w_store W) (attempt_key (i_account i) t) \<and> w_broker W' = w_broker W \<and>
      fst (judge_attempts B i t now mode m as W') = Reject 429 msg outcome"
proof -
  obtain m where m: "resolve_u32 eval sh (i_max_retries i) = Inr m" and m0: "m \<noteq> 0"
    using run by (auto simp: evaluate_at_def resolve_max_retries_def split: sum.splits if_splits)
  define W1 where "W1 = snd (call (is_retry_fire_seen C (i_account i) t (sh_time sh)) W)"
  have s1: "w_store W1 = w_store W" "w_broker W1 = w_broker W"
    by (simp_all add: W1_def call_reads reads_def is_retry_fire_seen_def)
  define W2 where "W2 = snd (call (list_entry_attempts (i_account i) t) W1)"
  obtain as where l: "fst (call (list_entry_attempts (i_account i) t) W1) = Inr as"
      and j: "fst (judge_attempts B i t now mode m as W2) = Reject 429 msg outcome"
    using run t m m0
    by (auto simp: evaluate_at_def resolve_max_retries_def gate_state_error_def W1_def W2_def
        split: sum.splits if_splits)
  have "as = attempts_at (w_store W) (attempt_key (i_account i) t)"
    using call_value [OF l] s1(1) by (auto simp only: list_entry_attempts_def prod.inject sum.inject)
  moreover have "w_broker W2 = w_broker W" by (simp add: W2_def s1)
  ultimately show ?thesis using m j by blast
qed

section \<open>The walk\<close>

text \<open>A broker whose reads change nothing, and what it says of an attempt.\<close>

definition steady :: "'b broker \<Rightarrow> bool" where
  "steady B \<longleftrightarrow> (\<forall>i o1 t b. snd (lookup_attempt B i o1 t b) = b) \<and>
     (\<forall>a b. snd (list_open_positions B a b) = b)"

definition reported :: "'b broker \<Rightarrow> 'b \<Rightarrow> entry_attempt \<Rightarrow> attempt_state option" where
  "reported B b a =
     (case fst (lookup_attempt B (ea_instrument a) (ea_broker_order_id a) (ea_broker_trade_id a) b) of
        Inl _ \<Rightarrow> None | Inr ob \<Rightarrow> Some (ob_state ob))"

fun is_done :: "attempt_state \<Rightarrow> bool" where
  "is_done (ClosedWin _) = True" | "is_done (ClosedLossOrBreakeven _) = True"
| "is_done (ClosedConfirmed _) = True" | "is_done Cancelled = True" | "is_done _ = False"

lemma observe_broker: "steady B \<Longrightarrow> w_broker (snd (observe B a now W)) = w_broker W"
  by (auto simp: observe_def steady_def persist_identity_def journal_diagnostic_def Let_def
      split: option.split sum.split)

lemma observe_value:
  "fst (observe B a now W) =
     (case reported B (w_broker W) a of None \<Rightarrow> Inl Transient | Some st \<Rightarrow> Inr st)"
  by (auto simp: observe_def reported_def Let_def split: sum.split intro: lookup_error.exhaust)

definition settled_to :: "'b broker \<Rightarrow> 'b \<Rightarrow> gate_mode \<Rightarrow> entry_attempt list \<Rightarrow> nat list \<Rightarrow> bool" where
  "settled_to B b mode as sp \<longleftrightarrow> (\<exists>newer rest. as = newer @ rest \<and>
     (\<forall>a \<in> set newer. \<exists>st. reported B b a = Some st \<and> is_done st) \<and>
     (rest = [] \<longrightarrow> sp = []) \<and>
     (rest \<noteq> [] \<longrightarrow> mode = Full \<and> reported B b (hd rest) = Some Pending \<and>
        (sp = [] \<or> sp = [ea_attempt_no (hd rest)])))"

lemma settled_to_Cons:
  "reported B b a = Some st \<Longrightarrow> is_done st \<Longrightarrow> settled_to B b mode as sp \<Longrightarrow> settled_to B b mode (a # as) sp"
  unfolding settled_to_def
  by (elim exE conjE, rule_tac x = "a # newer" in exI, rule_tac x = rest in exI) auto

lemma settled_to_Pending:
  "reported B b a = Some Pending \<Longrightarrow> sp = [] \<or> sp = [ea_attempt_no a] \<Longrightarrow> settled_to B b Full (a # as) sp"
  unfolding settled_to_def by (rule exI [of _ "[]"], rule exI [of _ "a # as"]) simp

lemma cancel_to_replace_sp:
  "fst (cancel_to_replace B acc t a now W) = Inr sp \<Longrightarrow> sp = [] \<or> sp = [ea_attempt_no a]"
  by (auto simp: cancel_to_replace_def after_failed_cancel_def split: sum.splits attempt_state.splits)

lemma walk_settled:
  assumes "steady B" "fst (walk B acc t now mode as W) = Inr sp"
  shows "settled_to B (w_broker W) mode as sp"
  using assms(2)
proof (induction as arbitrary: W)
  case Nil
  then show ?case by (simp add: settled_to_def)
next
  case (Cons a as)
  then obtain st where st: "reported B (w_broker W) a = Some st"
    by (auto simp: observe_value split: option.splits)
  show ?case
  proof (cases "is_done st")
    case True
    then have "fst (walk B acc t now mode as (snd (observe B a now W))) = Inr sp"
      using Cons.prems st by (cases st) (auto simp: observe_value)
    then show ?thesis
      using Cons.IH observe_broker [OF assms(1)] st True by (metis settled_to_Cons)
  next
    case False
    then have p: "st = Pending \<and> mode = Full"
      using Cons.prems st by (cases st; cases mode) (auto simp: observe_value)
    then have "sp = [] \<or> sp = [ea_attempt_no a]"
      using Cons.prems st by (auto simp: observe_value cancel_to_replace_sp)
    then show ?thesis using st p by (simp add: settled_to_Pending)
  qed
qed

lemma judge_cases:
  fixes W :: "('d, 'b) world"
  assumes "steady B"
  shows "(\<exists>W' :: ('d, 'b) world. w_broker W' = w_broker W \<and>
      fst (judge_attempts B i t now mode m as W) =
        (case fst (walk B (i_account i) t now mode (rev as) W') of Inl r \<Rightarrow> r | Inr sp \<Rightarrow> cap_check as m sp)) \<or>
    fst (judge_attempts B i t now mode m as W) = gate_transient \<or>
    fst (judge_attempts B i t now mode m as W) =
      Reject 412 ''trade already open'' ''rejected: trade-already-open (backstop)''"
proof (cases "fst ((if as = [] then preturn None
      else open_position_backstop B (i_account i) (i_instrument i) as) W)")
  case None
  define W' where "W' = snd ((if as = [] then preturn None
      else open_position_backstop B (i_account i) (i_instrument i) as) W)"
  have "w_broker W' = w_broker W" using assms
    by (simp add: W'_def open_position_backstop_def steady_def split: sum.split)
  moreover have "fst (judge_attempts B i t now mode m as W) =
      (case fst (walk B (i_account i) t now mode (rev as) W') of Inl r \<Rightarrow> r | Inr sp \<Rightarrow> cap_check as m sp)"
    using None by (simp add: judge_attempts_def W'_def)
  ultimately show ?thesis by blast
next
  case (Some r)
  then have "r = gate_transient \<or>
      r = Reject 412 ''trade already open'' ''rejected: trade-already-open (backstop)''"
    by (auto simp: open_position_backstop_def split: sum.splits if_splits)
  then show ?thesis using Some by (auto simp: judge_attempts_def)
qed

lemma judge_settled:
  fixes W :: "('d, 'b) world"
  assumes "steady B"
  shows "fst (judge_attempts B i t now mode m as W) = Proceed n \<Longrightarrow>
      \<exists>sp. settled_to B (w_broker W) mode (rev as) sp \<and> placed_entries as sp < m"
    and "fst (judge_attempts B i t now mode m as W) = Reject 429 msg outcome \<Longrightarrow>
      \<exists>sp. settled_to B (w_broker W) mode (rev as) sp \<and> m \<le> placed_entries as sp"
proof -
  have *: "\<exists>sp. settled_to B (w_broker W) mode (rev as) sp \<and> r = cap_check as m sp"
    if r: "fst (judge_attempts B i t now mode m as W) = r" and r2: "r = Proceed n \<or> r = Reject 429 msg outcome"
    for r
  proof -
    obtain W' :: "('d, 'b) world" where W': "w_broker W' = w_broker W"
        "r = (case fst (walk B (i_account i) t now mode (rev as) W') of Inl r \<Rightarrow> r | Inr sp \<Rightarrow> cap_check as m sp)"
      using judge_cases [OF assms, of W i t now mode m as] r r2 by (auto simp: gate_transient_def)
    then obtain sp where w: "fst (walk B (i_account i) t now mode (rev as) W') = Inr sp"
      using r2 by (cases "fst (walk B (i_account i) t now mode (rev as) W')") auto
    show ?thesis using walk_settled [OF assms w] W' w by auto
  qed
  show "fst (judge_attempts B i t now mode m as W) = Proceed n \<Longrightarrow>
      \<exists>sp. settled_to B (w_broker W) mode (rev as) sp \<and> placed_entries as sp < m"
    using * by (metis cap_check_Proceed)
  show "fst (judge_attempts B i t now mode m as W) = Reject 429 msg outcome \<Longrightarrow>
      \<exists>sp. settled_to B (w_broker W) mode (rev as) sp \<and> m \<le> placed_entries as sp"
    using * by (auto simp: cap_check_def split: if_splits)
qed

section \<open>A placement blocks its own bar\<close>

lemma record_attempt_simps [simp]:
  "store_now (snd (record_entry_attempt a s)) = store_now s"
  "ms_inner (snd (record_entry_attempt a s)) = ms_inner s"
  by (simp_all add: record_entry_attempt_def Let_def store_now_def split: option.split)

lemma seconds_pos: "0 < n \<Longrightarrow> (t::time) < t + seconds (int n)"
  by (simp add: seconds_def)

lemma min_ttl_pos [simp]: "0 < max ttl min_ttl_seconds"
  by (simp add: min_ttl_seconds_def less_max_iff_disj)

lemma retry_marked:
  assumes "store_inv s"
  shows "get_live (snd (mark_retry_fire_seen C a t st ttl s)) (retry_key C a t st) \<noteq> None"
  using seconds_pos [OF min_ttl_pos, of "store_now s" ttl]
  by (simp add: mark_retry_fire_seen_def put_row_def get_live_put [OF assms])

lemma placement_store:
  assumes "healthy W" "i_trade_id i = Some t"
  shows "w_store (snd (record_placement C i st na now n oid dir stop ca be oc W)) =
     snd (mark_retry_fire_seen C (i_account i) t st (replay_ttl_seconds na now)
       (snd (record_entry_attempt (new_attempt i t st now (replay_ttl_seconds na now) n oid dir stop ca be oc)
         (w_store W))))"
    and "healthy (snd (record_placement C i st na now n oid dir stop ca be oc W))"
    and "w_broker (snd (record_placement C i st na now n oid dir stop ca be oc W)) = w_broker W"
  using assms by (simp_all add: record_placement_def Let_def call_healthy)

lemma evaluate_seen:
  assumes "healthy W" "i_trade_id i = Some t" "resolve_u32 eval sh (i_max_retries i) = Inr m" "m \<noteq> 0"
    and "get_live (w_store W) (retry_key C (i_account i) t (sh_time sh)) \<noteq> None"
  shows "fst (evaluate_at C eval B i sh now mode W) =
     Reject 409 ''replay (retry-fire)'' ''rejected: retry-fire-replay''"
  using assms by (simp add: evaluate_at_def resolve_max_retries_def call_healthy is_retry_fire_seen_def)

end
