(* ===== verification/Core_Control.thy ===== *)
theory Core_Control
  imports Core_World
begin

text \<open>
  The control handlers (\<open>core/src/dispatch/control.rs\<close>): requests that set or read store
  rows and never touch the broker. Bodies that \<open>serde_yaml\<close> renders are kept as the value
  rendered; rendering them does not fail. Log lines are not modelled.
\<close>

section \<open>Responses\<close>

record plan_summary_row =
  su_trade_id :: string
  su_account :: "string option"
  su_instrument :: string
  su_granularity :: granularity
  su_shadow :: bool
  su_rules :: nat
  su_phase :: "phase option"
  su_entries_blocked :: bool
  su_watermark :: "time option"
  su_fired :: "string set"
  su_retest_seen_at :: "time option"
  su_archived_at :: "time option"

record 'd plan_detail_row =
  de_account :: "string option"
  de_plan :: "'d trade_plan"
  de_state :: "plan_state option"
  de_archived_at :: "time option"
  de_settlement :: "settlement option"

datatype 'd response_body =
    RText string | RSnapshot snapshot | RUnlock string bool
  | RSummaries "plan_summary_row list" | RDetails "'d plan_detail_row list"

record 'd control_result =
  c_status :: nat
  c_body :: "'d response_body"

definition result_ok :: "'d response_body \<Rightarrow> 'd control_result" where
  "result_ok b = \<lparr>c_status = 200, c_body = b\<rparr>"

definition result_error :: "string \<Rightarrow> nat \<Rightarrow> 'd control_result" where
  "result_error msg status = \<lparr>c_status = status, c_body = RText msg\<rparr>"

definition is_success :: "'d control_result \<Rightarrow> bool" where
  "is_success r \<longleftrightarrow> 200 \<le> c_status r \<and> c_status r < 300"

definition state_error :: "'d control_result" where
  "state_error = result_error ''state error'' 500"

type_synonym ('d, 'b) handler = "('d, 'b, 'd control_result) prog"

text \<open>The tail of a handler: mark the request as seen, then answer.\<close>

definition finish :: "'d verified \<Rightarrow> time \<Rightarrow> string \<Rightarrow> 'd control_result \<Rightarrow> ('d, 'b) handler" where
  "finish v now outcome r = pbind (record_seen v now outcome) (\<lambda>_. preturn r)"

text \<open>\<open>match store.f().await { Err => 500, Ok(x) => .. }\<close>\<close>

definition or_state_error :: "('d, 'b, 'a res) prog \<Rightarrow> ('a \<Rightarrow> ('d, 'b) handler) \<Rightarrow> ('d, 'b) handler" where
  "or_state_error m k = pbind m (\<lambda>r. case r of Inl _ \<Rightarrow> preturn state_error | Inr x \<Rightarrow> k x)"

section \<open>Status, unlock\<close>

definition handle_status :: "'d verified \<Rightarrow> time \<Rightarrow> ('d, 'b) handler" where
  "handle_status v now =
     or_state_error (call store_snapshot) (\<lambda>snap. finish v now ''status'' (result_ok (RSnapshot snap)))"

definition handle_unlock :: "'d verified \<Rightarrow> time \<Rightarrow> ('d, 'b) handler" where
  "handle_unlock v now =
     (let i = v_intent v in
      or_state_error (call (clear_cooldown (i_account i) (i_instrument i))) (\<lambda>was.
      finish v now (if was then ''unlocked'' else ''unlocked: noop'')
        (result_ok (RUnlock (i_instrument i) was))))"

section \<open>Preps\<close>

definition format_prep_set_outcome :: "string \<Rightarrow> nat \<Rightarrow> string list \<Rightarrow> string" where
  "format_prep_set_outcome step ttl_hours cleared =
     (if cleared = [] then ''prep-set: '' @ step @ '' ttl='' @ show_nat ttl_hours @ ''h''
      else ''prep-set: '' @ step @ '' ttl='' @ show_nat ttl_hours @ ''h cleared=['' @ join '','' cleared @ '']'')"

definition handle_prep :: "chrono \<Rightarrow> rhai \<Rightarrow> 'd verified \<Rightarrow> time \<Rightarrow> ('d, 'b) handler" where
  "handle_prep C eval v now =
     (let i = v_intent v in
      case i_step i of
        None \<Rightarrow> preturn (result_error ''prep requires `step`'' 400)
      | Some step \<Rightarrow>
          (case resolve_phase1_u32 eval ''ttl_hours'' (Some (i_ttl_hours i)) (v_shell v) 0 of
             Inl _ \<Rightarrow> preturn (result_error ''ttl_hours script error'' 412)
           | Inr ttl_hours \<Rightarrow>
               (let ttl = sat_mul64 ttl_hours 3600 in
                or_state_error (call (is_prep_blocked (i_account i) (i_instrument i) step)) (\<lambda>blocked.
                if blocked then preturn (result_error (''prep-expired: '' @ step) 409)
                else
                  pbind (clear_named_preps (i_account i) (i_instrument i) (i_clears i)) (\<lambda>c.
                  let cleared = (case c of Inl _ \<Rightarrow> [] | Inr xs \<Rightarrow> xs);
                      stamp = \<lparr>st_set_at = sh_time (v_shell v), st_now = now\<rparr> in
                  or_state_error (call (set_prep C (i_account i) (i_instrument i) step stamp ttl (i_id i)))
                    (\<lambda>_.
                  pbind (record_control_event_for (i_account i) (i_trade_id i) KPrep step (i_instrument i)
                      ttl now None) (\<lambda>_.
                  finish v now (format_prep_set_outcome step ttl_hours cleared)
                    (result_ok (RText ''ok'')))))))))"

definition handle_prep_expire :: "rhai \<Rightarrow> 'd verified \<Rightarrow> time \<Rightarrow> ('d, 'b) handler" where
  "handle_prep_expire eval v now =
     (let i = v_intent v in
      case i_step i of
        None \<Rightarrow> preturn (result_error ''prep-expire requires `step`'' 400)
      | Some step \<Rightarrow>
          (case resolve_phase1_u32 eval ''ttl_hours'' (Some (i_ttl_hours i)) (v_shell v) 0 of
             Inl _ \<Rightarrow> preturn (result_error ''ttl_hours script error'' 412)
           | Inr ttl_hours \<Rightarrow>
               or_state_error (call (block_prep (i_account i) (i_instrument i) step now
                   (sat_mul64 ttl_hours 3600))) (\<lambda>_.
               finish v now (''prep-expire: '' @ step @ '' blocked ttl='' @ show_nat ttl_hours @ ''h'')
                 (result_ok (RText ''ok'')))))"

definition handle_clear_prep :: "'d verified \<Rightarrow> time \<Rightarrow> ('d, 'b) handler" where
  "handle_clear_prep v now =
     (let i = v_intent v in
      case i_step i of
        None \<Rightarrow> preturn (result_error ''clear-prep requires `step`'' 400)
      | Some step \<Rightarrow>
          or_state_error (call (clear_prep (i_account i) (i_instrument i) step)) (\<lambda>setter.
          pbind (case setter of
              None \<Rightarrow> preturn ()
            | Some sid \<Rightarrow> (if sid = [] then preturn () else pbind (call (forget_seen sid)) (\<lambda>_. preturn ())))
          (\<lambda>_.
          finish v now
            (if setter \<noteq> None then ''prep-cleared: '' @ step else ''prep-cleared: '' @ step @ '' (noop)'')
            (result_ok (RText ''ok'')))))"

section \<open>Vetos\<close>

definition format_veto_set_outcome ::
  "string \<Rightarrow> nat \<Rightarrow> string \<Rightarrow> string list \<Rightarrow> nat option \<Rightarrow> string option \<Rightarrow> string" where
  "format_veto_set_outcome nm ttl_hours level_tag cleared cancelled closed_tag =
     ''veto-set: '' @ nm @ '' ttl='' @ show_nat ttl_hours @ ''h level='' @ level_tag @
     (case cancelled of None \<Rightarrow> [] | Some c \<Rightarrow> '' cancelled='' @ show_nat c) @
     (case closed_tag of None \<Rightarrow> [] | Some t \<Rightarrow> '' '' @ t) @
     (if cleared = [] then [] else '' cleared=['' @ join '','' cleared @ '']'')"

definition handle_veto :: "rhai \<Rightarrow> 'd verified \<Rightarrow> time \<Rightarrow> ('d, 'b) handler" where
  "handle_veto eval v now =
     (let i = v_intent v in
      case i_name i of
        None \<Rightarrow> preturn (result_error ''veto requires `name`'' 400)
      | Some nm \<Rightarrow>
          (case i_trade_id i of
             None \<Rightarrow> preturn (result_error ''veto requires trade_id'' 400)
           | Some trade_id \<Rightarrow>
               (case resolve_phase1_u32 eval ''ttl_hours'' (Some (i_ttl_hours i)) (v_shell v) 0 of
                  Inl _ \<Rightarrow> preturn (result_error ''ttl_hours script error'' 412)
                | Inr ttl_hours \<Rightarrow>
                    (let ttl = veto_ttl_seconds ttl_hours (i_not_after i) now in
                     pbind (clear_named_vetos (i_account i) trade_id (i_instrument i) (i_clears i)) (\<lambda>c.
                     let cleared = (case c of Inl _ \<Rightarrow> [] | Inr xs \<Rightarrow> xs) in
                     or_state_error (call (set_veto (i_account i) trade_id (i_instrument i) nm ttl)) (\<lambda>_.
                     pbind (record_control_event_for (i_account i) (Some trade_id) KVeto nm
                         (i_instrument i) ttl now None) (\<lambda>_.
                     finish v now
                       (format_veto_set_outcome nm ttl_hours ''stop-next-entry'' cleared None None)
                       (result_ok (RText ''ok'')))))))))"

definition handle_clear_veto :: "'d verified \<Rightarrow> time \<Rightarrow> ('d, 'b) handler" where
  "handle_clear_veto v now =
     (let i = v_intent v in
      case i_name i of
        None \<Rightarrow> preturn (result_error ''clear-veto requires `name`'' 400)
      | Some nm \<Rightarrow>
          (case i_trade_id i of
             None \<Rightarrow> preturn (result_error ''clear-veto requires trade_id'' 400)
           | Some trade_id \<Rightarrow>
               or_state_error (call (clear_veto (i_account i) trade_id (i_instrument i) nm)) (\<lambda>was.
               finish v now
                 (if was then ''veto-cleared: '' @ nm else ''veto-cleared: '' @ nm @ '' (noop)'')
                 (result_ok (RText ''ok'')))))"

section \<open>Pauses and news windows\<close>

definition reason_suffix :: "string option \<Rightarrow> string" where
  "reason_suffix reason = (case reason of None \<Rightarrow> [] | Some r \<Rightarrow> '' ('' @ r @ '')'')"

definition handle_pause :: "'d verified \<Rightarrow> time \<Rightarrow> ('d, 'b) handler" where
  "handle_pause v now =
     (let i = v_intent v in
      case i_trade_id i of
        None \<Rightarrow> preturn (result_error ''pause requires `trade_id`'' 400)
      | Some trade_id \<Rightarrow>
          (case i_blackout_id i of
             None \<Rightarrow> preturn (result_error ''pause requires `blackout_id`'' 400)
           | Some blackout_id \<Rightarrow>
               (let ttl = veto_ttl_seconds 0 (i_not_after i) now in
                or_state_error (call (set_pause trade_id blackout_id (i_reason i) now ttl)) (\<lambda>_.
                pbind (record_control_event_for (i_account i) (Some trade_id) KPause blackout_id
                    (i_instrument i) ttl now None) (\<lambda>_.
                finish v now (''pause-set: '' @ blackout_id @ reason_suffix (i_reason i))
                  (result_ok (RText ''ok'')))))))"

definition handle_resume :: "'d verified \<Rightarrow> time \<Rightarrow> ('d, 'b) handler" where
  "handle_resume v now =
     (let i = v_intent v in
      case i_trade_id i of
        None \<Rightarrow> preturn (result_error ''resume requires `trade_id`'' 400)
      | Some trade_id \<Rightarrow>
          (case i_blackout_id i of
             None \<Rightarrow> preturn (result_error ''resume requires `blackout_id`'' 400)
           | Some blackout_id \<Rightarrow>
               or_state_error (call (clear_pause trade_id blackout_id)) (\<lambda>was.
               finish v now
                 (if was then ''pause-cleared: '' @ blackout_id
                  else ''pause-cleared: '' @ blackout_id @ '' (noop)'')
                 (result_ok (RText ''ok'')))))"

definition handle_news_start :: "'d verified \<Rightarrow> time \<Rightarrow> ('d, 'b) handler" where
  "handle_news_start v now =
     (let i = v_intent v in
      case i_trade_id i of
        None \<Rightarrow> preturn (result_error ''news-start requires `trade_id`'' 400)
      | Some trade_id \<Rightarrow>
          (case i_news_id i of
             None \<Rightarrow> preturn (result_error ''news-start requires `news_id`'' 400)
           | Some news_id \<Rightarrow>
               (let ttl = veto_ttl_seconds 0 (i_not_after i) now in
                or_state_error (call (set_news_window trade_id news_id (i_reason i) now ttl)) (\<lambda>_.
                pbind (record_control_event_for (i_account i) (Some trade_id) KNews news_id
                    (i_instrument i) ttl now None) (\<lambda>_.
                finish v now (''news-start: '' @ news_id @ reason_suffix (i_reason i))
                  (result_ok (RText ''ok'')))))))"

definition handle_news_end :: "'d verified \<Rightarrow> time \<Rightarrow> ('d, 'b) handler" where
  "handle_news_end v now =
     (let i = v_intent v in
      case i_trade_id i of
        None \<Rightarrow> preturn (result_error ''news-end requires `trade_id`'' 400)
      | Some trade_id \<Rightarrow>
          (case i_news_id i of
             None \<Rightarrow> preturn (result_error ''news-end requires `news_id`'' 400)
           | Some news_id \<Rightarrow>
               or_state_error (call (clear_news_window trade_id news_id)) (\<lambda>was.
               finish v now
                 (if was then ''news-end: '' @ news_id else ''news-end: '' @ news_id @ '' (noop)'')
                 (result_ok (RText ''ok'')))))"

end
