(* ===== verification/Core_Plans.thy ===== *)
theory Core_Plans
  imports Core_Control
begin

text \<open>
  Registering, listing, showing and deleting trade plans
  (\<open>core/src/dispatch/control.rs\<close>, \<open>core/src/trade_plan/broker_check.rs\<close>). The account
  index is any function that finds an account's broker or fails.
\<close>

section \<open>Registering\<close>

datatype metadata_error = AccountNotFound string | AlreadyExists string | MetadataBackend string

type_synonym account_index = "string \<Rightarrow> metadata_error + broker_kind"

fun show_broker :: "broker_kind \<Rightarrow> string" where
  "show_broker Oanda = ''Oanda''"
| "show_broker TradeNation = ''TradeNation''"
| "show_broker Ibkr = ''Ibkr''"
| "show_broker Mt5 = ''Mt5''"
| "show_broker Ctrader = ''Ctrader''"

record rule_mismatch =
  mm_rule_id :: string
  mm_broker :: broker_kind

record plan_mismatch =
  mi_account :: string
  mi_account_broker :: broker_kind
  mi_rules :: "rule_mismatch list"

definition check_plan_broker :: "'d trade_plan \<Rightarrow> string \<Rightarrow> broker_kind \<Rightarrow> plan_mismatch + unit" where
  "check_plan_broker plan account account_broker =
     (let rules = map (\<lambda>r. \<lparr>mm_rule_id = cr_rule_id r, mm_broker = cr_broker r\<rparr>)
            (filter (\<lambda>r. cr_broker r \<noteq> account_broker) (tp_rules plan))
      in if rules = [] then Inr ()
         else Inl \<lparr>mi_account = account, mi_account_broker = account_broker, mi_rules = rules\<rparr>)"

text \<open>The message holds an em dash, three bytes of UTF-8.\<close>

definition mismatch_message :: "plan_mismatch \<Rightarrow> string" where
  "mismatch_message m =
     ''register: account '' @ [CHR 0x27] @ mi_account m @ [CHR 0x27] @ '' is a '' @
     show_broker (mi_account_broker m) @
     '' account but these rules route to another broker: '' @
     join '', '' (map (\<lambda>r. mm_rule_id r @ '' ('' @ show_broker (mm_broker r) @ '')'') (mi_rules m)) @
     '' '' @ [CHR 0xE2, CHR 0x80, CHR 0x94] @ '' re-arm with the account'' @ [CHR 0x27] @ ''s broker''"

definition check_register_account ::
  "account_index \<Rightarrow> string \<Rightarrow> 'd trade_plan \<Rightarrow> 'd control_result + unit" where
  "check_register_account accounts nm plan =
     (case accounts nm of
        Inl (AccountNotFound _) \<Rightarrow>
          Inl (result_error (''register: unknown account '' @ [CHR 0x27] @ nm @ [CHR 0x27]) 400)
      | Inl _ \<Rightarrow> Inl state_error
      | Inr broker \<Rightarrow>
          (case check_plan_broker plan nm broker of
             Inl m \<Rightarrow> Inl (result_error (mismatch_message m) 400)
           | Inr _ \<Rightarrow> Inr ()))"

definition handle_register :: "account_index \<Rightarrow> 'd verified \<Rightarrow> time \<Rightarrow> ('d, 'b) handler" where
  "handle_register accounts v now =
     (let i = v_intent v in
      case i_trade_plan i of
        None \<Rightarrow> preturn (result_error ''register requires a `trade_plan`'' 400)
      | Some plan \<Rightarrow>
          (if (case i_trade_id i of None \<Rightarrow> False | Some t \<Rightarrow> t \<noteq> tp_trade_id plan)
           then preturn (result_error ''register: intent trade_id does not match plan trade_id'' 400)
           else
             (case (case i_account i of None \<Rightarrow> Inr () | Some nm \<Rightarrow> check_register_account accounts nm plan) of
                Inl rejection \<Rightarrow> preturn rejection
              | Inr _ \<Rightarrow>
                  or_state_error (call (put_trade_plan (i_account i) plan)) (\<lambda>_.
                  finish v now
                    (''registered: '' @ tp_trade_id plan @ '' ('' @ show_nat (length (tp_rules plan)) @
                     '' rules, persisted)'')
                    (result_ok (RText ''ok''))))))"

section \<open>Listing and showing\<close>

definition plan_summary :: "'d stored_plan \<Rightarrow> plan_state option \<Rightarrow> plan_summary_row" where
  "plan_summary stored st =
     (let plan = sp_plan stored in
      \<lparr>su_trade_id = tp_trade_id plan, su_account = sp_account stored,
       su_instrument = tp_instrument plan, su_granularity = tp_granularity plan,
       su_shadow = tp_shadow plan, su_rules = length (tp_rules plan),
       su_phase = map_option ps_phase st,
       su_entries_blocked = (case st of None \<Rightarrow> False | Some p \<Rightarrow> ps_entries_blocked p),
       su_watermark = (case st of None \<Rightarrow> None | Some p \<Rightarrow> ps_watermark p),
       su_fired = (case st of None \<Rightarrow> {} | Some p \<Rightarrow> ps_fired p),
       su_retest_seen_at = (case st of None \<Rightarrow> None | Some p \<Rightarrow> ps_retest_seen_at p),
       su_archived_at = None\<rparr>)"

definition archived_plan_summary :: "'d archived_plan \<Rightarrow> plan_summary_row" where
  "archived_plan_summary archived =
     (let plan = ap_plan archived; st = ap_final_state archived in
      \<lparr>su_trade_id = tp_trade_id plan, su_account = ap_account archived,
       su_instrument = tp_instrument plan, su_granularity = tp_granularity plan,
       su_shadow = tp_shadow plan, su_rules = length (tp_rules plan),
       su_phase = Some (ps_phase st), su_entries_blocked = ps_entries_blocked st,
       su_watermark = ps_watermark st, su_fired = ps_fired st,
       su_retest_seen_at = ps_retest_seen_at st, su_archived_at = Some (ap_archived_at archived)\<rparr>)"

text \<open>\<open>unwrap_or(None)\<close>: a failed read of a plan's state shows the plan without it.\<close>

definition state_or_none :: "plan_state option res \<Rightarrow> plan_state option" where
  "state_or_none r = (case r of Inl _ \<Rightarrow> None | Inr x \<Rightarrow> x)"

fun summarize :: "'d stored_plan list \<Rightarrow> ('d, 'b, plan_summary_row list) prog" where
  "summarize [] = preturn []"
| "summarize (p # ps) =
     pbind (call (get_plan_state (sp_account p) (tp_trade_id (sp_plan p)))) (\<lambda>r.
     pbind (summarize ps) (\<lambda>rest. preturn (plan_summary p (state_or_none r) # rest)))"

text \<open>\<open>Option<String>\<close> orders \<open>None\<close> first.\<close>

definition summary_key :: "plan_summary_row \<Rightarrow> (bool \<times> string) \<times> string" where
  "summary_key u =
     ((case su_account u of None \<Rightarrow> (False, []) | Some a \<Rightarrow> (True, a)), su_trade_id u)"

definition handle_plan_list :: "'d verified \<Rightarrow> time \<Rightarrow> ('d, 'b) handler" where
  "handle_plan_list v now =
     or_state_error (call list_all_trade_plans) (\<lambda>plans.
     pbind (summarize plans) (\<lambda>live.
     or_state_error (if i_include_archived (v_intent v) then call list_all_archived_plans
                     else preturn (Inr [])) (\<lambda>archived.
     let summaries = sort_key summary_key (live @ map archived_plan_summary archived) in
     finish v now (''plan-list: '' @ show_nat (length summaries) @ '' plans'')
       (result_ok (RSummaries summaries)))))"

fun live_details :: "string \<Rightarrow> 'd stored_plan list \<Rightarrow> ('d, 'b, 'd plan_detail_row list) prog" where
  "live_details target [] = preturn []"
| "live_details target (p # ps) =
     (if tp_trade_id (sp_plan p) \<noteq> target then live_details target ps
      else
        pbind (call (get_plan_state (sp_account p) (tp_trade_id (sp_plan p)))) (\<lambda>r.
        pbind (live_details target ps) (\<lambda>rest.
        preturn (\<lparr>de_account = sp_account p, de_plan = sp_plan p, de_state = state_or_none r,
          de_archived_at = None, de_settlement = None\<rparr> # rest))))"

definition archived_detail :: "'d archived_plan \<Rightarrow> 'd plan_detail_row" where
  "archived_detail a = \<lparr>de_account = ap_account a, de_plan = ap_plan a,
     de_state = Some (ap_final_state a), de_archived_at = Some (ap_archived_at a),
     de_settlement = ap_settlement a\<rparr>"

definition collect_plan_details :: "string \<Rightarrow> ('d, 'b, 'd plan_detail_row list res) prog" where
  "collect_plan_details target =
     pbind (call list_all_trade_plans) (\<lambda>r. case r of Inl e \<Rightarrow> preturn (Inl e) | Inr plans \<Rightarrow>
     pbind (live_details target plans) (\<lambda>live.
     pbind (call list_all_archived_plans) (\<lambda>q. case q of Inl e \<Rightarrow> preturn (Inl e) | Inr archived \<Rightarrow>
     preturn (Inr (live @
       map archived_detail (filter (\<lambda>a. tp_trade_id (ap_plan a) = target) archived))))))"

definition handle_plan_show :: "'d verified \<Rightarrow> time \<Rightarrow> ('d, 'b) handler" where
  "handle_plan_show v now =
     (case i_trade_id (v_intent v) of
        None \<Rightarrow> preturn (result_error ''plan-show requires a `trade_id`'' 400)
      | Some target \<Rightarrow>
          or_state_error (collect_plan_details target) (\<lambda>details.
          if details = [] then
            finish v now (''plan-show: '' @ target @ '' not found'')
              (result_error (''no registered plan with trade_id '' @ target) 404)
          else finish v now (''plan-show: '' @ target) (result_ok (RDetails details))))"

section \<open>Deleting\<close>

definition delete_live :: "string \<Rightarrow> 'd stored_plan list \<Rightarrow> nat \<Rightarrow> ('d, 'b, nat res) prog" where
  "delete_live target =
     pfold (\<lambda>p n. if tp_trade_id (sp_plan p) \<noteq> target then preturn (Inr n)
       else
         pbind (call (clear_trade_plan (sp_account p) target)) (\<lambda>r. case r of Inl e \<Rightarrow> preturn (Inl e) | Inr _ \<Rightarrow>
         pbind (call (clear_plan_state (sp_account p) target)) (\<lambda>q. case q of Inl e \<Rightarrow> preturn (Inl e) | Inr _ \<Rightarrow>
         preturn (Inr (n + 1)))))"

definition delete_archived :: "string \<Rightarrow> 'd archived_plan list \<Rightarrow> nat \<Rightarrow> ('d, 'b, nat res) prog" where
  "delete_archived target =
     pfold (\<lambda>p n. if tp_trade_id (ap_plan p) \<noteq> target then preturn (Inr n)
       else
         pbind (call (clear_archived_plan (ap_account p) target)) (\<lambda>r. case r of Inl e \<Rightarrow> preturn (Inl e)
           | Inr _ \<Rightarrow> preturn (Inr (n + 1))))"

definition handle_plan_delete :: "'d verified \<Rightarrow> time \<Rightarrow> ('d, 'b) handler" where
  "handle_plan_delete v now =
     (case i_trade_id (v_intent v) of
        None \<Rightarrow> preturn (result_error ''plan-delete requires a `trade_id`'' 400)
      | Some target \<Rightarrow>
          or_state_error (call list_all_trade_plans) (\<lambda>plans.
          or_state_error (delete_live target plans 0) (\<lambda>n.
          or_state_error (call list_all_archived_plans) (\<lambda>archived.
          or_state_error (delete_archived target archived n) (\<lambda>deleted.
          let outcome = (if deleted = 0 then ''plan-deleted: '' @ target @ '' (noop)''
                else ''plan-deleted: '' @ target @ '' ('' @ show_nat deleted @ '')'') in
          finish v now outcome (result_ok (RText outcome)))))))"

end
