(* ===== verification/Core_Frame.thy ===== *)
theory Core_Frame
  imports Core_Reach Core_Plans
begin

text \<open>
  Which rows a program over the store may change. \<open>touches kinds m\<close> says that whatever
  faults occur, \<open>m\<close> keeps the store's invariant and clock, the attempts and the position
  links, and every row whose key starts with none of the \<open>kinds\<close>. The predicate is closed
  under the combinators the handlers are written with.
\<close>

section \<open>Frames\<close>

definition outside :: "string list \<Rightarrow> string \<Rightarrow> bool" where
  "outside kinds k \<longleftrightarrow> list_all (\<lambda>p. \<not> starts_with p k) kinds"

definition frame :: "string list \<Rightarrow> 'd mem_store \<Rightarrow> 'd mem_store \<Rightarrow> bool" where
  "frame kinds s s' \<longleftrightarrow> (store_inv s \<longrightarrow> store_inv s') \<and> store_now s' = store_now s \<and>
     ms_attempts s' = ms_attempts s \<and> ms_links s' = ms_links s \<and>
     (store_inv s \<longrightarrow> (\<forall>k. outside kinds k \<longrightarrow> bt_get (ms_inner s') k = bt_get (ms_inner s) k))"

definition touches :: "string list \<Rightarrow> ('d, 'b, 'a) prog \<Rightarrow> bool" where
  "touches kinds m \<longleftrightarrow> (\<forall>W. frame kinds (w_store W) (w_store (snd (m W))))"

definition op_touches :: "string list \<Rightarrow> ('d, 'a) store_op \<Rightarrow> bool" where
  "op_touches kinds f \<longleftrightarrow> (\<forall>s. frame kinds s (snd (f s)))"

lemma frame_refl [simp]: "frame kinds s s"
  by (simp add: frame_def)

lemma frame_trans: "frame kinds s t \<Longrightarrow> frame kinds t u \<Longrightarrow> frame kinds s u"
  by (simp add: frame_def)

named_theorems touch_intros \<open>programs that stay touches kinds of rows\<close>

lemma touch_preturn [touch_intros]: "touches kinds (preturn x)"
  by (simp add: touches_def)

lemma touch_pbind [touch_intros]:
  "touches kinds m \<Longrightarrow> (\<And>x. touches kinds (f x)) \<Longrightarrow> touches kinds (pbind m f)"
  unfolding touches_def pbind_simp by (blast intro: frame_trans)

lemma touch_call [touch_intros]: "op_touches kinds f \<Longrightarrow> touches kinds (call f)"
  by (auto simp: touches_def op_touches_def call_def case_prod_beta split: list.split call_outcome.split)

lemma touch_pfold [touch_intros]:
  assumes "\<And>x t. touches kinds (f x t)"
  shows "touches kinds (pfold f xs s)"
proof (induction xs arbitrary: s)
  case (Cons x xs)
  show ?case unfolding pfold.simps
    by (intro touch_pbind assms) (auto split: sum.split intro: touch_preturn Cons)
qed (simp add: touch_preturn)

lemma touch_or_state_error [touch_intros]:
  "touches kinds m \<Longrightarrow> (\<And>x. touches kinds (k x)) \<Longrightarrow> touches kinds (or_state_error m k)"
  unfolding or_state_error_def by (intro touch_pbind) (auto split: sum.split intro: touch_preturn)

lemma touch_reads [touch_intros]: "reads f \<Longrightarrow> op_touches kinds f"
  by (simp add: op_touches_def reads_def)

section \<open>Operations on rows\<close>

lemma outside_Cons [simp]: "outside (p # ps) k \<longleftrightarrow> \<not> starts_with p k \<and> outside ps k"
  by (simp add: outside_def)

lemma outside_Nil [simp]: "outside [] k"
  by (simp add: outside_def)

lemma in_kind: "p \<in> set kinds \<Longrightarrow> starts_with p k \<Longrightarrow> \<not> outside kinds k"
  by (auto simp: outside_def list_all_iff)

lemma frame_rows:
  assumes "store_inv s \<Longrightarrow> store_inv s'" "store_now s' = store_now s"
    "ms_attempts s' = ms_attempts s" "ms_links s' = ms_links s"
    and "\<And>k. store_inv s \<Longrightarrow> outside kinds k \<Longrightarrow> bt_get (ms_inner s') k = bt_get (ms_inner s) k"
  shows "frame kinds s s'"
  using assms by (simp add: frame_def)

lemma touch_put_row:
  "p \<in> set kinds \<Longrightarrow> starts_with p k \<Longrightarrow> typed_row k b \<Longrightarrow> frame kinds s (snd (put_row k b ttl t s))"
  by (rule frame_rows)
    (auto simp: put_row_def store_put_inv, auto simp: store_put_def bt.lookup_insert store_invD dest: in_kind)

lemma touch_clear_row: "p \<in> set kinds \<Longrightarrow> starts_with p k \<Longrightarrow> frame kinds s (snd (clear_row k s))"
  by (rule frame_rows)
    (auto simp: clear_row_def store_delete_inv, auto simp: store_delete_def bt.lookup_remove store_invD dest: in_kind)

lemma touch_delete_row: "p \<in> set kinds \<Longrightarrow> starts_with p k \<Longrightarrow> frame kinds s (snd (delete_row k s))"
  using touch_clear_row [of p kinds k s] by (simp add: delete_row_def clear_row_def case_prod_beta)

lemma touch_clear_prep: "p \<in> set kinds \<Longrightarrow> starts_with p (scoped_key ''prep'' a [i, step]) \<Longrightarrow>
    frame kinds s (snd (clear_prep a i step s))"
  using touch_clear_row [of p kinds "scoped_key ''prep'' a [i, step]" s]
  by (simp add: clear_prep_def clear_row_def Let_def case_prod_beta)

text \<open>Each operation changes rows of its own kind only.\<close>

lemma op_frames [touch_intros]:
  "''seen:'' \<in> set kinds \<Longrightarrow> op_touches kinds (mark_seen i act t outcome ttl tid)"
  "''seen:'' \<in> set kinds \<Longrightarrow> op_touches kinds (forget_seen i)"
  "''cooldown:'' \<in> set kinds \<Longrightarrow> op_touches kinds (clear_cooldown a ins)"
  "''cooldown:'' \<in> set kinds \<Longrightarrow> op_touches kinds (set_cooldown a ins hours t)"
  "''prep:'' \<in> set kinds \<Longrightarrow> op_touches kinds (set_prep C a ins step stamp ttl i)"
  "''prep:'' \<in> set kinds \<Longrightarrow> op_touches kinds (clear_prep a ins step)"
  "''prep-blocked:'' \<in> set kinds \<Longrightarrow> op_touches kinds (block_prep a ins step t ttl)"
  "''veto:'' \<in> set kinds \<Longrightarrow> op_touches kinds (set_veto a tid' ins nm ttl)"
  "''veto:'' \<in> set kinds \<Longrightarrow> op_touches kinds (clear_veto a tid' ins nm)"
  "''pause:'' \<in> set kinds \<Longrightarrow> op_touches kinds (set_pause tid' bid reason t ttl)"
  "''pause:'' \<in> set kinds \<Longrightarrow> op_touches kinds (clear_pause tid' bid)"
  "''news:'' \<in> set kinds \<Longrightarrow> op_touches kinds (set_news_window tid' nid reason t ttl)"
  "''news:'' \<in> set kinds \<Longrightarrow> op_touches kinds (clear_news_window tid' nid)"
  "''control-event:'' \<in> set kinds \<Longrightarrow> op_touches kinds (record_control_event a tid' ev)"
  "''plan:'' \<in> set kinds \<Longrightarrow> op_touches kinds (put_trade_plan a p)"
  "''plan:'' \<in> set kinds \<Longrightarrow> op_touches kinds (clear_trade_plan a tid')"
  "''plan-state:'' \<in> set kinds \<Longrightarrow> op_touches kinds (clear_plan_state a tid')"
  "''archived-plan:'' \<in> set kinds \<Longrightarrow> op_touches kinds (clear_archived_plan a tid')"
  unfolding op_touches_def row_ops clear_ops delete_ops
  by (rule allI, (rule touch_put_row touch_clear_row touch_delete_row touch_clear_prep, assumption,
      auto simp: typed_row_def key_simps)+)

section \<open>The handlers\<close>

lemma touch_if [touch_intros]:
  "(c \<Longrightarrow> touches kinds m) \<Longrightarrow> (\<not> c \<Longrightarrow> touches kinds n) \<Longrightarrow> touches kinds (if c then m else n)"
  by simp

lemma touch_option [touch_intros]:
  "touches kinds m \<Longrightarrow> (\<And>x. touches kinds (f x)) \<Longrightarrow>
     touches kinds (case z of None \<Rightarrow> m | Some x \<Rightarrow> f x)"
  by (simp split: option.split)

lemma touch_sum [touch_intros]:
  "(\<And>x. touches kinds (f x)) \<Longrightarrow> (\<And>x. touches kinds (g x)) \<Longrightarrow>
     touches kinds (case z of Inl x \<Rightarrow> f x | Inr x \<Rightarrow> g x)"
  by (simp split: sum.split)

lemma touch_let [touch_intros]: "(\<And>x. touches kinds (f x)) \<Longrightarrow> touches kinds (Let z f)"
  by (simp add: Let_def)

lemma touch_record_seen [touch_intros]: "''seen:'' \<in> set kinds \<Longrightarrow> touches kinds (record_seen v now outcome)"
  unfolding record_seen_def by (intro touch_intros)

lemma touch_finish [touch_intros]: "''seen:'' \<in> set kinds \<Longrightarrow> touches kinds (finish v now outcome r)"
  unfolding finish_def by (intro touch_intros)

lemma touch_event [touch_intros]:
  "''control-event:'' \<in> set kinds \<Longrightarrow>
     touches kinds (record_control_event_for a t kind nm ins ttl now req)"
  unfolding record_control_event_for_def by (intro touch_intros)

lemma touch_clear_named_preps [touch_intros]:
  "''prep:'' \<in> set kinds \<Longrightarrow> ''seen:'' \<in> set kinds \<Longrightarrow> touches kinds (clear_named_preps a ins names)"
  unfolding clear_named_preps_def by (intro touch_intros)

lemma touch_clear_named_vetos [touch_intros]:
  "''veto:'' \<in> set kinds \<Longrightarrow> touches kinds (clear_named_vetos a t ins names)"
  unfolding clear_named_vetos_def by (intro touch_intros)

lemma reads_intros [touch_intros]:
  "reads store_snapshot" "reads (is_prep_blocked a ins step)" "reads list_all_trade_plans"
  "reads list_all_archived_plans" "reads (get_plan_state a t)" "reads (is_seen i)"
  "reads (is_cooled_down a ins)" "reads (is_vetoed a t ins nm)" "reads (list_pauses_for_trade t)"
  "reads (list_news_windows_for_trade t)" "reads (list_entry_attempts a t)"
  "reads (is_retry_fire_seen C a t st)"
  by (simp_all add: reads_def store_snapshot_def is_prep_blocked_def list_all_trade_plans_def
      list_all_archived_plans_def get_plan_state_def is_seen_def is_cooled_down_def is_vetoed_def
      list_pauses_for_trade_def list_news_windows_for_trade_def list_entry_attempts_def
      is_retry_fire_seen_def split: option.split body.split)

lemma touch_summarize [touch_intros]: "touches kinds (summarize ps)"
  by (induction ps) (simp_all only: summarize.simps, (intro touch_intros; assumption?)+)

lemma touch_live_details [touch_intros]: "touches kinds (live_details t ps)"
  by (induction ps) (simp_all only: live_details.simps, (intro touch_intros; assumption?)+)

lemma touch_delete_live [touch_intros]:
  "''plan:'' \<in> set kinds \<Longrightarrow> ''plan-state:'' \<in> set kinds \<Longrightarrow> touches kinds (delete_live t ps n)"
  unfolding delete_live_def by (intro touch_intros)

lemma touch_delete_archived [touch_intros]:
  "''archived-plan:'' \<in> set kinds \<Longrightarrow> touches kinds (delete_archived t ps n)"
  unfolding delete_archived_def by (intro touch_intros)

lemma touch_collect [touch_intros]: "touches kinds (collect_plan_details t)"
  unfolding collect_plan_details_def by (intro touch_intros)

lemma handler_frames:
  "touches [''seen:''] (handle_status v now)"
  "touches [''cooldown:'', ''seen:''] (handle_unlock v now)"
  "touches [''prep:'', ''seen:'', ''control-event:''] (handle_prep C eval v now)"
  "touches [''prep-blocked:'', ''seen:''] (handle_prep_expire eval v now)"
  "touches [''prep:'', ''seen:''] (handle_clear_prep v now)"
  "touches [''veto:'', ''seen:'', ''control-event:''] (handle_veto eval v now)"
  "touches [''veto:'', ''seen:''] (handle_clear_veto v now)"
  "touches [''pause:'', ''seen:'', ''control-event:''] (handle_pause v now)"
  "touches [''pause:'', ''seen:''] (handle_resume v now)"
  "touches [''news:'', ''seen:'', ''control-event:''] (handle_news_start v now)"
  "touches [''news:'', ''seen:''] (handle_news_end v now)"
  "touches [''plan:'', ''seen:''] (handle_register accounts v now)"
  "touches [''seen:''] (handle_plan_list v now)"
  "touches [''seen:''] (handle_plan_show v now)"
  "touches [''plan:'', ''plan-state:'', ''archived-plan:'', ''seen:''] (handle_plan_delete v now)"
  unfolding handle_status_def handle_unlock_def handle_prep_def handle_prep_expire_def handle_clear_prep_def
    handle_veto_def handle_clear_veto_def handle_pause_def handle_resume_def handle_news_start_def
    handle_news_end_def handle_register_def handle_plan_list_def handle_plan_show_def handle_plan_delete_def
  by (intro touch_intros; simp)+

end
