(* ===== verification/Core_Handlers.thy ===== *)
theory Core_Handlers
  imports Core_Frame Core_Gates
begin

text \<open>
  What a handler that answers with success has done to the store, whatever calls failed on
  the way, and what a rejected request has not done.
\<close>

section \<open>A successful write has landed\<close>

lemma success_simps [simp]:
  "is_success (result_ok b)" "\<not> is_success state_error"
  "is_success (result_error msg n) \<longleftrightarrow> 200 \<le> n \<and> n < 300"
  by (simp_all add: is_success_def result_ok_def state_error_def result_error_def)

lemma frameD:
  assumes "frame kinds s s'" "store_inv s"
  shows "store_inv s'" "store_now s' = store_now s"
    "outside kinds k \<Longrightarrow> get_live s' k = get_live s k"
    "outside kinds k \<Longrightarrow> row_expiry s' k = row_expiry s k"
  using assms by (auto simp: frame_def get_live_def row_expiry_def split: option.split)

lemma touchesD: "touches kinds m \<Longrightarrow> frame kinds (w_store W) (w_store (snd (m W)))"
  by (simp add: touches_def)

lemma write_lands:
  assumes ok: "is_success (fst (or_state_error (call f) k W))"
    and f: "store_inv (snd (f (w_store W)))"
    and k: "\<And>x. touches kinds (k x)"
  shows "frame kinds (snd (f (w_store W))) (w_store (snd (or_state_error (call f) k W))) \<and>
    (\<exists>x. fst (f (w_store W)) = Inr x)"
proof -
  obtain x where x: "fst (call f W) = Inr x"
    using ok by (auto simp: or_state_error_def split: sum.splits)
  then have "f (w_store W) = (Inr x, w_store (snd (call f W)))" by (rule call_value)
  moreover have "or_state_error (call f) k W = k x (snd (call f W))"
    using x by (simp add: or_state_error_def)
  ultimately show ?thesis using touchesD [OF k [of x], of "snd (call f W)"] by simp
qed

lemma frame_weaken: "frame kinds s s' \<Longrightarrow> set kinds \<subseteq> set kinds' \<Longrightarrow> frame kinds' s s'"
  by (auto simp: frame_def outside_def list_all_iff)

section \<open>Vetos, blocks, preps, pauses\<close>

lemma scoped_live_frame:
  assumes "frame kinds s s'" "store_inv s" "\<And>a. outside kinds (scoped_key kind a parts)"
  shows "scoped_live kind parts b s' = scoped_live kind parts b s"
proof -
  have "outside kinds (colon_key (kind # account_scope_global # parts))"
      "\<And>n. outside kinds (colon_key (kind # n # parts))"
    using assms(3) [of None] assms(3) [of "Some _"] by (simp_all add: scoped_key_def account_scope_def)
  then show ?thesis
    using frameD(3) [OF assms(1,2)] by (simp add: scoped_live_def split: option.split)
qed

lemma veto_effect:
  assumes inv: "store_inv (w_store W)" and ok: "is_success (fst (handle_veto eval v now W))"
  shows "\<exists>nm t hours s. i_name (v_intent v) = Some nm \<and> i_trade_id (v_intent v) = Some t \<and>
     resolve_phase1_u32 eval ''ttl_hours'' (Some (i_ttl_hours (v_intent v))) (v_shell v) 0 = Inr hours \<and>
     frame [''veto:''] (w_store W) s \<and>
     frame [''seen:'', ''control-event:'']
       (snd (set_veto (i_account (v_intent v)) t (i_instrument (v_intent v)) nm
          (veto_ttl_seconds hours (i_not_after (v_intent v)) now) s))
       (w_store (snd (handle_veto eval v now W)))"
proof -
  define i where "i = v_intent v"
  obtain nm t hours where *: "i_name i = Some nm" "i_trade_id i = Some t"
      "resolve_phase1_u32 eval ''ttl_hours'' (Some (i_ttl_hours i)) (v_shell v) 0 = Inr hours"
    using ok by (auto simp: handle_veto_def i_def Let_def split: option.splits sum.splits)
  define W1 where "W1 = snd (clear_named_vetos (i_account i) t (i_instrument i) (i_clears i) W)"
  have f1: "frame [''veto:''] (w_store W) (w_store W1)"
    unfolding W1_def by (rule touchesD) (intro touch_intros; simp)
  define ttl where "ttl = veto_ttl_seconds hours (i_not_after i) now"
  define k :: "unit \<Rightarrow> ('a, 'b) handler" where "k = (\<lambda>_.
      pbind (record_control_event_for (i_account i) (Some t) KVeto nm (i_instrument i) ttl now None) (\<lambda>_.
        finish v now (format_veto_set_outcome nm hours ''stop-next-entry''
          (case fst (clear_named_vetos (i_account i) t (i_instrument i) (i_clears i) W) of
             Inl _ \<Rightarrow> [] | Inr xs \<Rightarrow> xs) None None) (result_ok (RText ''ok''))))"
  have run: "handle_veto eval v now W =
      or_state_error (call (set_veto (i_account i) t (i_instrument i) nm ttl)) k W1"
    using * by (simp add: handle_veto_def i_def [symmetric] Let_def k_def ttl_def W1_def)
  have "store_inv (w_store W1)" using frameD(1) [OF f1 inv] .
  then have "store_inv (snd (set_veto (i_account i) t (i_instrument i) nm ttl (w_store W1)))"
    by (rule store_step_inv [OF store_step.veto])
  moreover have "touches [''seen:'', ''control-event:''] (k x)" for x
    unfolding k_def by (intro touch_intros; simp)
  ultimately have "frame [''seen:'', ''control-event:'']
      (snd (set_veto (i_account i) t (i_instrument i) nm ttl (w_store W1)))
      (w_store (snd (handle_veto eval v now W)))"
    using write_lands [of "set_veto (i_account i) t (i_instrument i) nm ttl" k W1] ok run by simp
  then show ?thesis using * f1 unfolding i_def ttl_def by blast
qed

lemma num_seconds_le: "seconds (num_seconds d) \<le> max 0 d"
  by (auto simp: seconds_def num_seconds_def trunc_div_def)

lemma veto_ttl_covers:
  assumes "not_after - now < seconds (2 ^ 64)"
  shows "num_seconds (not_after - now) \<le> int (max (veto_ttl_seconds hours not_after now) min_ttl_seconds)"
proof -
  have "num_seconds (not_after - now) < 2 ^ 64"
    using assms by (auto simp: seconds_def num_seconds_def trunc_div_def)
  then show ?thesis by (auto simp: veto_ttl_seconds_def Let_def sat_add_def)
qed

lemma veto_in_force:
  assumes inv: "store_inv (w_store W)" and now: "store_now (w_store W) = now"
    and ok: "is_success (fst (handle_veto eval v now W))"
    and nm: "i_name (v_intent v) = Some nm" and t: "i_trade_id (v_intent v) = Some t"
    and a: "proper_account (i_account (v_intent v))" and b: "proper_account b"
    and covers: "i_account (v_intent v) = None \<or> b = i_account (v_intent v)"
    and names: "flag_name 3 [t, i_instrument (v_intent v), nm]"
    and u: "u < now + seconds (num_seconds (i_not_after (v_intent v) - now))"
    and rng: "i_not_after (v_intent v) - now < seconds (2 ^ 64)"
  shows "scoped_live ''veto'' [t, i_instrument (v_intent v), nm] b
     (set_clock u (w_store (snd (handle_veto eval v now W))))"
proof -
  define i where "i = v_intent v"
  define S where "S = w_store (snd (handle_veto eval v now W))"
  obtain hours s where fr1: "frame [''veto:''] (w_store W) s"
    and fr2: "frame [''seen:'', ''control-event:'']
       (snd (set_veto (i_account i) t (i_instrument i) nm (veto_ttl_seconds hours (i_not_after i) now) s)) S"
    using veto_effect [OF inv ok] nm t unfolding i_def S_def by auto
  define ttl where "ttl = max (veto_ttl_seconds hours (i_not_after i) now) min_ttl_seconds"
  define T where "T = flag_set ''veto'' (i_account i) [t, i_instrument i, nm] ttl now s"
  have s: "store_inv s" "store_now s = now" using frameD(1,2) [OF fr1 inv] now by auto
  have T: "snd (set_veto (i_account i) t (i_instrument i) nm (veto_ttl_seconds hours (i_not_after i) now) s) = T"
    by (simp add: T_def set_veto_def put_row_def flag_set_def ttl_def s)
  have "store_inv T" unfolding T [symmetric] by (rule store_step_inv [OF store_step.veto s(1)])
  then have keep: "flag_expiry ''veto'' S acc [t, i_instrument i, nm] =
      flag_expiry ''veto'' T acc [t, i_instrument i, nm]" for acc
    using frameD(4) [OF fr2 [unfolded T]] by (simp add: flag_expiry_def key_simps outside_def)
  have own: "flag_expiry ''veto'' T (i_account i) [t, i_instrument i, nm] = Some (now + seconds (int ttl))"
    using vetos.expiry_set [OF s(1) a a names names, of ttl now] by (simp add: T_def i_def)
  have "num_seconds (i_not_after i - now) \<le> int ttl"
    using veto_ttl_covers [OF rng] by (simp add: ttl_def i_def)
  then have "u < now + seconds (int ttl)" using u by (simp add: i_def seconds_def)
  then show ?thesis
    using covers own keep unfolding scoped_live_expiry [OF b] S_def [symmetric] i_def [symmetric]
    by (auto simp: flag_expiry_def)
qed

lemma pause_effect:
  assumes inv: "store_inv (w_store W)" and ok: "is_success (fst (handle_pause v now W))"
  shows "\<exists>t b. i_trade_id (v_intent v) = Some t \<and> i_blackout_id (v_intent v) = Some b \<and>
     frame [''seen:'', ''control-event:'']
       (snd (set_pause t b (i_reason (v_intent v)) now
          (veto_ttl_seconds 0 (i_not_after (v_intent v)) now) (w_store W)))
       (w_store (snd (handle_pause v now W)))"
proof -
  define i where "i = v_intent v"
  obtain t b where *: "i_trade_id i = Some t" "i_blackout_id i = Some b"
    using ok by (auto simp: handle_pause_def i_def Let_def split: option.splits)
  define ttl where "ttl = veto_ttl_seconds 0 (i_not_after i) now"
  define k :: "unit \<Rightarrow> ('a, 'b) handler" where "k = (\<lambda>_.
      pbind (record_control_event_for (i_account i) (Some t) KPause b (i_instrument i) ttl now None) (\<lambda>_.
        finish v now (''pause-set: '' @ b @ reason_suffix (i_reason i)) (result_ok (RText ''ok''))))"
  have run: "handle_pause v now W = or_state_error (call (set_pause t b (i_reason i) now ttl)) k W"
    using * by (simp add: handle_pause_def i_def [symmetric] Let_def k_def ttl_def)
  have "store_inv (snd (set_pause t b (i_reason i) now ttl (w_store W)))"
    by (rule store_step_inv [OF store_step.pause inv])
  moreover have "touches [''seen:'', ''control-event:''] (k x)" for x
    unfolding k_def by (intro touch_intros; simp)
  ultimately show ?thesis
    using write_lands [of "set_pause t b (i_reason i) now ttl" k W] ok run *
    unfolding i_def ttl_def by auto
qed

lemma block_effect:
  assumes inv: "store_inv (w_store W)" and ok: "is_success (fst (handle_prep_expire eval v now W))"
  shows "\<exists>step hours. i_step (v_intent v) = Some step \<and>
     resolve_phase1_u32 eval ''ttl_hours'' (Some (i_ttl_hours (v_intent v))) (v_shell v) 0 = Inr hours \<and>
     frame [''seen:'']
       (snd (block_prep (i_account (v_intent v)) (i_instrument (v_intent v)) step now
          (sat_mul64 hours 3600) (w_store W)))
       (w_store (snd (handle_prep_expire eval v now W)))"
proof -
  define i where "i = v_intent v"
  obtain step hours where *: "i_step i = Some step"
      "resolve_phase1_u32 eval ''ttl_hours'' (Some (i_ttl_hours i)) (v_shell v) 0 = Inr hours"
    using ok by (auto simp: handle_prep_expire_def i_def Let_def split: option.splits sum.splits)
  define k :: "unit \<Rightarrow> ('a, 'b) handler" where "k = (\<lambda>_.
      finish v now (''prep-expire: '' @ step @ '' blocked ttl='' @ show_nat hours @ ''h'')
        (result_ok (RText ''ok'')))"
  have run: "handle_prep_expire eval v now W =
      or_state_error (call (block_prep (i_account i) (i_instrument i) step now (sat_mul64 hours 3600))) k W"
    using * by (simp add: handle_prep_expire_def i_def [symmetric] Let_def k_def)
  have "store_inv (snd (block_prep (i_account i) (i_instrument i) step now (sat_mul64 hours 3600) (w_store W)))"
    by (rule store_step_inv [OF store_step.block inv])
  moreover have "touches [''seen:''] (k x)" for x
    unfolding k_def by (intro touch_intros; simp)
  ultimately show ?thesis
    using write_lands [of "block_prep (i_account i) (i_instrument i) step now (sat_mul64 hours 3600)" k W]
      ok run *
    unfolding i_def by auto
qed

lemma register_effect:
  assumes inv: "store_inv (w_store W)" and ok: "is_success (fst (handle_register accounts v now W))"
  shows "\<exists>p. i_trade_plan (v_intent v) = Some p \<and>
     (i_trade_id (v_intent v) = None \<or> i_trade_id (v_intent v) = Some (tp_trade_id p)) \<and>
     (\<forall>n. i_account (v_intent v) = Some n \<longrightarrow> check_register_account accounts n p = Inr ()) \<and>
     frame [''seen:''] (snd (put_trade_plan (i_account (v_intent v)) p (w_store W)))
       (w_store (snd (handle_register accounts v now W)))"
proof -
  define i where "i = v_intent v"
  obtain p where *: "i_trade_plan i = Some p"
      "i_trade_id i = None \<or> i_trade_id i = Some (tp_trade_id p)"
    using ok
    by (auto simp: handle_register_def i_def Let_def split: option.splits if_splits)
  have acc: "(case i_account i of None \<Rightarrow> Inr () | Some nm \<Rightarrow> check_register_account accounts nm p) = Inr ()"
    using ok *
    by (auto simp: handle_register_def i_def Let_def check_register_account_def
        split: option.splits if_splits sum.splits metadata_error.splits)
  define k :: "unit \<Rightarrow> ('a, 'b) handler" where "k = (\<lambda>_.
      finish v now
        (''registered: '' @ tp_trade_id p @ '' ('' @ show_nat (length (tp_rules p)) @ '' rules, persisted)'')
        (result_ok (RText ''ok'')))"
  have run: "handle_register accounts v now W = or_state_error (call (put_trade_plan (i_account i) p)) k W"
    using * acc by (auto simp: handle_register_def i_def [symmetric] Let_def k_def)
  have "store_inv (snd (put_trade_plan (i_account i) p (w_store W)))"
    by (rule store_step_inv [OF store_step.plan inv])
  moreover have "touches [''seen:''] (k x)" for x
    unfolding k_def by (intro touch_intros; simp)
  ultimately show ?thesis
    using write_lands [of "put_trade_plan (i_account i) p" k W] ok run * acc
    unfolding i_def by (auto split: option.splits)
qed

section \<open>A rejected request changes nothing\<close>

lemma finish_result [simp]: "fst (finish v now outcome r W) = r"
  by (simp add: finish_def)

lemma status_simps [simp]:
  "c_status (result_ok b) = 200" "c_status state_error = 500" "c_status (result_error m n) = n"
  by (simp_all add: result_ok_def state_error_def result_error_def)

definition rejects_cleanly :: "('d, 'b) handler \<Rightarrow> bool" where
  "rejects_cleanly h \<longleftrightarrow> (\<forall>W. c_status (fst (h W)) \<in> {400, 412} \<longrightarrow> snd (h W) = W)"

definition never_rejects :: "('d, 'b) handler \<Rightarrow> bool" where
  "never_rejects h \<longleftrightarrow> (\<forall>W. c_status (fst (h W)) \<notin> {400, 412})"

named_theorems reject_intros \<open>handlers that reject before their first effect\<close>

lemma clean_preturn [reject_intros]: "rejects_cleanly (preturn r)"
  by (simp add: rejects_cleanly_def)

lemma clean_never: "never_rejects h \<Longrightarrow> rejects_cleanly h"
  by (simp add: rejects_cleanly_def never_rejects_def)

lemma never_preturn [reject_intros]: "c_status r \<notin> {400, 412} \<Longrightarrow> never_rejects (preturn r)"
  by (simp add: never_rejects_def)

lemma never_finish [reject_intros]: "c_status r \<notin> {400, 412} \<Longrightarrow> never_rejects (finish v now outcome r)"
  by (simp add: never_rejects_def)

lemma never_pbind [reject_intros]: "(\<And>x. never_rejects (f x)) \<Longrightarrow> never_rejects (pbind m f)"
  by (simp add: never_rejects_def)

lemma never_or_error [reject_intros]: "(\<And>x. never_rejects (k x)) \<Longrightarrow> never_rejects (or_state_error m k)"
  by (auto simp: never_rejects_def or_state_error_def split: sum.split)

lemma clean_or_error [reject_intros]: "(\<And>x. never_rejects (k x)) \<Longrightarrow> rejects_cleanly (or_state_error m k)"
  by (intro clean_never never_or_error)

lemma clean_pbind [reject_intros]: "(\<And>x. never_rejects (f x)) \<Longrightarrow> rejects_cleanly (pbind m f)"
  by (intro clean_never never_pbind)

lemma reject_branches [reject_intros]:
  "(c \<Longrightarrow> never_rejects m) \<Longrightarrow> (\<not> c \<Longrightarrow> never_rejects n) \<Longrightarrow> never_rejects (if c then m else n)"
  "(c \<Longrightarrow> rejects_cleanly m) \<Longrightarrow> (\<not> c \<Longrightarrow> rejects_cleanly n) \<Longrightarrow> rejects_cleanly (if c then m else n)"
  "(\<And>x. never_rejects (f x)) \<Longrightarrow> never_rejects (Let z f)"
  "(\<And>x. rejects_cleanly (f x)) \<Longrightarrow> rejects_cleanly (Let z f)"
  by (simp_all add: Let_def)

lemma reject_cases [reject_intros]:
  "rejects_cleanly m \<Longrightarrow> (\<And>x. rejects_cleanly (f x)) \<Longrightarrow>
     rejects_cleanly (case o1 of None \<Rightarrow> m | Some x \<Rightarrow> f x)"
  "(\<And>x. rejects_cleanly (g x)) \<Longrightarrow> (\<And>x. rejects_cleanly (f x)) \<Longrightarrow>
     rejects_cleanly (case r of Inl x \<Rightarrow> g x | Inr x \<Rightarrow> f x)"
  by (simp_all split: option.split sum.split)

lemma handlers_reject_cleanly:
  "rejects_cleanly (handle_prep C eval v now)"
  "rejects_cleanly (handle_prep_expire eval v now)"
  "rejects_cleanly (handle_clear_prep v now)"
  "rejects_cleanly (handle_veto eval v now)"
  "rejects_cleanly (handle_clear_veto v now)"
  "rejects_cleanly (handle_pause v now)"
  "rejects_cleanly (handle_resume v now)"
  "rejects_cleanly (handle_news_start v now)"
  "rejects_cleanly (handle_news_end v now)"
  "rejects_cleanly (handle_register accounts v now)"
  "rejects_cleanly (handle_plan_show v now)"
  "rejects_cleanly (handle_plan_delete v now)"
  unfolding handle_prep_def handle_prep_expire_def handle_clear_prep_def
    handle_veto_def handle_clear_veto_def handle_pause_def handle_resume_def handle_news_start_def
    handle_news_end_def handle_register_def handle_plan_show_def handle_plan_delete_def
  by (intro reject_intros; simp)+

end
