(* ===== verification/Core_Example.thy ===== *)
theory Core_Example
  imports Core_Retry_Facts Core_Handlers
begin

text \<open>
  Concrete parameters and a small world, at which the properties are instantiated: a time
  format that satisfies the round-trip law, a script engine, a broker and requests.
\<close>

definition unary_rfc3339 :: "time \<Rightarrow> string" where
  "unary_rfc3339 t = (if t < 0 then CHR ''-'' else CHR ''+'') # replicate (nat \<bar>t\<bar>) CHR ''1''"

definition unary_parse :: "string \<Rightarrow> time option" where
  "unary_parse s = (case s of [] \<Rightarrow> None
     | c # cs \<Rightarrow> if c = CHR ''+'' then Some (int (length cs))
                else if c = CHR ''-'' then Some (- int (length cs)) else None)"

definition unary_chrono :: chrono where
  "unary_chrono = \<lparr>to_rfc3339 = unary_rfc3339, parse_rfc3339 = unary_parse,
     display_utc = unary_rfc3339\<rparr>"

lemma unary_laws: "chrono_laws unary_chrono"
  by (auto simp: chrono_laws_def unary_chrono_def unary_rfc3339_def unary_parse_def)

definition no_script :: rhai where
  "no_script sc src = Inl (ErrorParsing [])"

definition ex_shell :: shell where
  "ex_shell = from_candle \<lparr>cn_time = 0, cn_o = Fin 1, cn_h = Fin 1, cn_l = Fin 1, cn_c = Fin 1\<rparr>"

definition ex_intent :: "unit intent" where
  "ex_intent = \<lparr>i_id = ''id1'', i_not_before = None, i_not_after = 7200000000000, i_action = Enter,
     i_instrument = ''EUR_USD'', i_direction = None, i_entry = None, i_stop_loss = None,
     i_take_profit = None, i_risk_pct = Static (Fin 1), i_risk_amount = None, i_size_units = None,
     i_on_oversize = CapVolume, i_dry_run = None, i_cooldown_hours = None, i_min_r = None,
     i_broker = Oanda, i_account = Some ''acc'', i_step = Some ''retest'', i_name = Some ''too-low'',
     i_ttl_hours = Static 1, i_level = None, i_requires_preps = [], i_vetos = [],
     i_entry_level_vetos = [], i_breakeven = None, i_clears = [], i_trade_id = Some ''t1'',
     i_max_retries = Static 2, i_entry_dedup = None, i_expiry_bars = None, i_allow_entry = None,
     i_allow_close = None, i_needs_golden = False, i_needs_confirmed = False,
     i_blackout_id = Some ''cpi'', i_news_id = Some ''cpi'', i_require_news_window = None,
     i_require_price_in_ranges = None, i_inside_window = [], i_sr_bands = [],
     i_veto_on_reversal = False, i_reason = None, i_mw = None, i_pip_size = None, i_tick_size = None,
     i_contract_multiplier = None, i_spread_window = None, i_trade_plan = None,
     i_blackout_close = CancelResting, i_include_archived = False, i_detach_existing = None,
     i_target_account = None\<rparr>"

definition ex_verified :: "unit verified" where
  "ex_verified = \<lparr>v_intent = ex_intent, v_shell = ex_shell\<rparr>"

definition ex_world :: "(unit, unit) world" where
  "ex_world = \<lparr>w_store = empty_store 0, w_faults = [], w_broker = ()\<rparr>"

definition idle_broker :: "'b broker" where
  "idle_broker = \<lparr>lookup_attempt = \<lambda>_ _ _ b. (Inr (observation_plain Cancelled), b),
     cancel_order = \<lambda>_ _ b. (Inr (), b), list_open_positions = \<lambda>_ b. (Inr [], b),
     cancel_pending_for_instrument = \<lambda>_ b. (0, b), get_quote = \<lambda>_ b. (Inl Transient, b),
     get_bidask_candles = \<lambda>_ _ _ _ b. (Inl CandleTransient, b),
     place_entry = \<lambda>_ _ _ b. (Inl OrderRejected, b),
     place_market_entry_in_band = \<lambda>_ _ _ _ b.
       (Inl (MarketRecoveryDeclined ''broker cannot enforce the market fallback price band''), b)\<rparr>"

definition ex_broker :: "unit broker" where
  "ex_broker = idle_broker"

lemma ex_steady: "steady ex_broker"
  by (simp add: steady_def ex_broker_def idle_broker_def)

lemma empty_simps [simp]: "store_now (empty_store w) = w" "get_live (empty_store w) k = None"
  by (simp_all add: empty_store_def store_now_def get_live_def bt_get_def)

lemma ex_world_simps [simp]:
  "w_store ex_world = empty_store 0" "w_faults ex_world = []" "healthy ex_world"
  by (simp_all add: ex_world_def healthy_def)

lemma ex_simps [simp]:
  "v_intent ex_verified = ex_intent" "v_shell ex_verified = ex_shell" "i_id ex_intent = ''id1''"
  "i_not_after ex_intent = 7200000000000" "i_instrument ex_intent = ''EUR_USD''"
  "i_account ex_intent = Some ''acc''" "i_step ex_intent = Some ''retest''"
  "i_name ex_intent = Some ''too-low''" "i_ttl_hours ex_intent = Static 1" "i_clears ex_intent = []"
  "i_trade_id ex_intent = Some ''t1''" "i_max_retries ex_intent = Static 2"
  "i_blackout_id ex_intent = Some ''cpi''" "i_reason ex_intent = None" "sh_time ex_shell = 0"
  by (simp_all add: ex_verified_def ex_intent_def ex_shell_def from_candle_def)

lemma ex_account [simp]: "proper_account (Some ''acc'')"
  by (simp add: proper_account_def account_scope_global_def)

lemma ex_resolve [simp]: "resolve_phase1_u32 eval field (Some (Static n)) sh d = Inr n"
  by (simp add: resolve_phase1_u32_def)

end
