(* ===== verification/Core_Listing.thy ===== *)
theory Core_Listing
  imports Core_Handlers
begin

text \<open>
  What the listings of pauses and plans contain, and the requests that put a row there.
\<close>

section \<open>Pauses\<close>

lemma set_map_filter: "set (List.map_filter f xs) = {y. \<exists>x \<in> set xs. f x = Some y}"
  by (force simp: List.map_filter_def)

lemma list_pauses_set:
  assumes inv: "store_inv s"
  obtains xs where "fst (list_pauses_for_trade t s) = Inr xs"
    "\<And>e. e \<in> set xs \<longleftrightarrow> (\<exists>k. starts_with (''pause:'' @ t @ '':'') k \<and> get_live s k = Some (PauseBody e))"
proof -
  let ?rows = "live_under (''pause:'' @ t @ '':'') s"
  have dec: "\<forall>b \<in> set (map snd ?rows). as_pause b \<noteq> None"
    using live_decodes(1) [OF inv, where t = "t @ '':''"] by (fastforce simp: as_pause_def)
  have "fst (list_pauses_for_trade t s) = Inr (map (the \<circ> as_pause) (map snd ?rows))"
    unfolding list_pauses_for_trade_def fst_conv by (rule decode_all_ok [OF dec])
  moreover have "e \<in> set (map (the \<circ> as_pause) (map snd ?rows)) \<longleftrightarrow> (\<exists>k. (k, PauseBody e) \<in> set ?rows)" for e
  proof
    assume "e \<in> set (map (the \<circ> as_pause) (map snd ?rows))"
    then obtain k b where kb: "(k, b) \<in> set ?rows" "e = the (as_pause b)" by auto
    moreover have "as_pause b \<noteq> None" using dec kb(1) by force
    ultimately show "\<exists>k. (k, PauseBody e) \<in> set ?rows" by (auto simp: as_pause_def split: body.splits)
  next
    assume "\<exists>k. (k, PauseBody e) \<in> set ?rows"
    then show "e \<in> set (map (the \<circ> as_pause) (map snd ?rows))" by (force simp: as_pause_def)
  qed
  ultimately show ?thesis using that live_under_set [OF inv] by auto
qed

lemma pause_key_prefix: "pause_key t b = ''pause:'' @ t @ '':'' @ b"
  by (simp add: key_simps)

lemma entry_blocked_healthy:
  assumes "healthy V" "i_trade_id i = Some t" "fst (list_pauses_for_trade t (w_store V)) = Inr xs"
  shows "fst (entry_blocked i V) = Inr (if xs = [] then Allowed else Blocked (map pause_label xs))"
  using assms by (simp add: entry_blocked_def call_healthy)

lemma live_pause_blocks:
  assumes "healthy V" "store_inv (w_store V)" "i_trade_id i = Some t"
    and "get_live (w_store V) (pause_key t b) = Some (PauseBody e)"
  shows "\<exists>bs. fst (entry_blocked i V) = Inr (Blocked bs) \<and> pause_label e \<in> set bs"
proof -
  obtain xs where xs: "fst (list_pauses_for_trade t (w_store V)) = Inr xs"
    "\<And>e. e \<in> set xs \<longleftrightarrow>
      (\<exists>k. starts_with (''pause:'' @ t @ '':'') k \<and> get_live (w_store V) k = Some (PauseBody e))"
    using list_pauses_set [OF assms(2), of t] by blast
  have "starts_with (''pause:'' @ t @ '':'') (pause_key t b)"
    using starts_with_append [of "''pause:'' @ t @ '':''" b] by (simp add: pause_key_prefix)
  then have "e \<in> set xs" using xs(2) assms(4) by blast
  then show ?thesis using entry_blocked_healthy [OF assms(1,3) xs(1)] by (cases xs) auto
qed

lemma pause_row:
  assumes inv: "store_inv (w_store W)" and now: "store_now (w_store W) = now"
    and ok: "is_success (fst (handle_pause v now W))"
    and ids: "i_trade_id (v_intent v) = Some t" "i_blackout_id (v_intent v) = Some b"
    and u: "u < now + seconds (num_seconds (i_not_after (v_intent v) - now))"
    and rng: "i_not_after (v_intent v) - now < seconds (2 ^ 64)"
  shows "\<exists>e. get_live (set_clock u (w_store (snd (handle_pause v now W)))) (pause_key t b) = Some (PauseBody e) \<and>
      pe_trade_id e = t \<and> pe_blackout_id e = b \<and> pe_reason e = i_reason (v_intent v) \<and>
      store_inv (w_store (snd (handle_pause v now W)))"
proof -
  define S where "S = w_store (snd (handle_pause v now W))"
  define ttl where "ttl = veto_ttl_seconds 0 (i_not_after (v_intent v)) now"
  define T where "T = snd (set_pause t b (i_reason (v_intent v)) now ttl (w_store W))"
  have fr: "frame [''seen:'', ''control-event:''] T S"
    using pause_effect [OF inv ok] ids by (auto simp: S_def T_def ttl_def)
  have T_inv: "store_inv T" unfolding T_def by (rule store_step_inv [OF store_step.pause inv])
  have "num_seconds (i_not_after (v_intent v) - now) \<le> int (max ttl min_ttl_seconds)"
    using veto_ttl_covers [OF rng] by (simp add: ttl_def)
  then have u': "u < now + seconds (int (max ttl min_ttl_seconds))" using u by (simp add: seconds_def)
  obtain e where row: "bt_get (ms_inner T) (pause_key t b) =
      Some (PauseBody e, now + seconds (int (max ttl min_ttl_seconds)))"
    and e: "pe_trade_id e = t" "pe_blackout_id e = b" "pe_reason e = i_reason (v_intent v)"
    using inv by (simp add: T_def set_pause_def put_row_def store_put_def bt.lookup_insert store_invD)
  have "bt_get (ms_inner S) (pause_key t b) = bt_get (ms_inner T) (pause_key t b)"
    using fr T_inv by (simp add: frame_def key_simps)
  then have "get_live (set_clock u S) (pause_key t b) = Some (PauseBody e)"
    using row u' by (simp add: get_live_def)
  then show ?thesis using e frameD(1) [OF fr T_inv] by (auto simp: S_def)
qed

lemma resume_row:
  assumes inv: "store_inv (w_store W)" and "healthy W"
    and ids: "i_trade_id (v_intent v) = Some t" "i_blackout_id (v_intent v) = Some b"
  shows "get_live (w_store (snd (handle_resume v now W))) (pause_key t b) = None \<and>
    store_inv (w_store (snd (handle_resume v now W)))"
proof -
  define i where "i = v_intent v"
  define S where "S = w_store (snd (handle_resume v now W))"
  define T where "T = snd (clear_pause t b (w_store W))"
  have T_inv: "store_inv T" unfolding T_def by (rule store_step_inv [OF store_step.no_pause inv])
  have "frame [''seen:''] T S"
  proof -
    obtain was where was: "fst (clear_pause t b (w_store W)) = Inr was"
      by (simp add: clear_pause_def delete_row_def case_prod_beta)
    define k :: "('a, 'b) handler" where "k = finish v now
        (if was then ''pause-cleared: '' @ b else ''pause-cleared: '' @ b @ '' (noop)'') (result_ok (RText ''ok''))"
    have "handle_resume v now W = k (W\<lparr>w_store := T\<rparr>)"
      using ids was assms(2)
      by (simp add: handle_resume_def Let_def or_state_error_def call_healthy k_def T_def)
    moreover have "touches [''seen:''] k" unfolding k_def by (intro touch_intros; simp)
    ultimately show ?thesis using touchesD [of "[''seen:'']" k "W\<lparr>w_store := T\<rparr>"] by (simp add: S_def)
  qed
  moreover have "get_live T (pause_key t b) = None"
    by (simp add: T_def clear_pause_def delete_row_def case_prod_beta get_live_delete [OF inv])
  ultimately show ?thesis using frameD(1,3) [OF _ T_inv] by (auto simp: S_def key_simps)
qed

section \<open>Plans\<close>

lemma scope_of_plan_key:
  "proper_account a \<Longrightarrow> scope_of_key ''plan:'' (plan_key a t) = Some (account_scope a)"
  using split_once_colon [OF account_scope_no_colon]
  by (simp add: scope_of_key_def strip_prefix_def key_simps)

lemma plan_listed:
  assumes inv: "store_inv s" and a: "proper_account a"
    and live: "get_live s (plan_key a (tp_trade_id p)) = Some (PlanBody p)"
  shows "\<exists>xs. fst (list_all_trade_plans s) = Inr xs \<and> \<lparr>sp_account = a, sp_plan = p\<rparr> \<in> set xs"
proof -
  have dec: "\<forall>e \<in> set (live_under ''plan:'' s). as_plan (snd e) \<noteq> None"
    using live_decodes(3) [OF inv] by (fastforce simp: as_plan_def)
  have row: "(plan_key a (tp_trade_id p), PlanBody p) \<in> set (live_under ''plan:'' s)"
    using live by (simp add: live_under_set [OF inv] key_simps)
  have "scoped_row ''plan:'' as_plan (plan_key a (tp_trade_id p), PlanBody p) = Some (a, p)"
    using a by (simp add: scoped_row_def scope_of_plan_key account_from_to_scope as_plan_def)
  then have "(a, p) \<in> set (List.map_filter (scoped_row ''plan:'' as_plan) (live_under ''plan:'' s))"
    using row unfolding set_map_filter by blast
  then have "\<lparr>sp_account = a, sp_plan = p\<rparr> \<in> set (map (\<lambda>(a, p). \<lparr>sp_account = a, sp_plan = p\<rparr>)
      (List.map_filter (scoped_row ''plan:'' as_plan) (live_under ''plan:'' s)))"
    by force
  then show ?thesis
    unfolding list_all_trade_plans_def fst_conv list_scoped_ok [OF dec] by simp
qed

lemma registered_row:
  assumes inv: "store_inv (w_store W)" and ok: "is_success (fst (handle_register accounts v now W))"
    and p: "i_trade_plan (v_intent v) = Some p"
    and u: "u < store_now (w_store W) + seconds (int no_ttl_seconds)"
  shows "get_live (set_clock u (w_store (snd (handle_register accounts v now W))))
      (plan_key (i_account (v_intent v)) (tp_trade_id p)) = Some (PlanBody p)"
    and "store_inv (w_store (snd (handle_register accounts v now W)))"
proof -
  define S where "S = w_store (snd (handle_register accounts v now W))"
  define T where "T = snd (put_trade_plan (i_account (v_intent v)) p (w_store W))"
  have fr: "frame [''seen:''] T S"
    using register_effect [OF inv ok] p by (auto simp: S_def T_def)
  have T_inv: "store_inv T" unfolding T_def by (rule store_step_inv [OF store_step.plan inv])
  let ?k = "plan_key (i_account (v_intent v)) (tp_trade_id p)"
  have "bt_get (ms_inner T) ?k = Some (PlanBody p, store_now (w_store W) + seconds (int no_ttl_seconds))"
    using inv by (simp add: T_def put_trade_plan_def put_row_def store_put_def bt.lookup_insert store_invD)
  moreover have "bt_get (ms_inner S) ?k = bt_get (ms_inner T) ?k"
    using fr T_inv by (simp add: frame_def key_simps)
  ultimately show "get_live (set_clock u S) ?k = Some (PlanBody p)" using u by (simp add: get_live_def)
  show "store_inv S" by (rule frameD(1) [OF fr T_inv])
qed

lemma check_register_brokers:
  "check_register_account accounts n p = Inr () \<longleftrightarrow>
     (\<exists>b. accounts n = Inr b \<and> (\<forall>r \<in> set (tp_rules p). cr_broker r = b))"
  by (auto simp: check_register_account_def check_plan_broker_def Let_def filter_empty_conv
      split: sum.splits metadata_error.splits if_splits)

section \<open>Blocks and preps\<close>

lemma block_row:
  assumes inv: "store_inv (w_store W)" and ok: "is_success (fst (handle_prep_expire eval v now W))"
    and step: "i_step (v_intent v) = Some step"
    and hours: "i_ttl_hours (v_intent v) = Static h"
    and a: "proper_account (i_account (v_intent v))" and b: "proper_account b"
    and covers: "i_account (v_intent v) = None \<or> b = i_account (v_intent v)"
    and names: "flag_name 2 [i_instrument (v_intent v), step]"
    and u: "u < now + seconds (int (max (sat_mul64 h 3600) min_ttl_seconds))"
  shows "scoped_live ''prep-blocked'' [i_instrument (v_intent v), step] b
     (set_clock u (w_store (snd (handle_prep_expire eval v now W))))"
proof -
  define i where "i = v_intent v"
  define S where "S = w_store (snd (handle_prep_expire eval v now W))"
  define ttl where "ttl = max (sat_mul64 h 3600) min_ttl_seconds"
  define T where "T = flag_set ''prep-blocked'' (i_account i) [i_instrument i, step] ttl now (w_store W)"
  have T: "snd (block_prep (i_account i) (i_instrument i) step now (sat_mul64 h 3600) (w_store W)) = T"
    by (simp add: T_def block_prep_def put_row_def flag_set_def ttl_def)
  have fr: "frame [''seen:''] T S"
    using block_effect [OF inv ok] step hours
    by (auto simp: S_def T [symmetric] i_def resolve_phase1_u32_def resolve_u32_def)
  have "store_inv T" unfolding T [symmetric] by (rule store_step_inv [OF store_step.block inv])
  then have keep: "flag_expiry ''prep-blocked'' S acc [i_instrument i, step] =
      flag_expiry ''prep-blocked'' T acc [i_instrument i, step]" for acc
    using frameD(4) [OF fr] by (simp add: flag_expiry_def key_simps outside_def)
  have own: "flag_expiry ''prep-blocked'' T (i_account i) [i_instrument i, step] = Some (now + seconds (int ttl))"
    using blocks.expiry_set [OF inv a a names names, of ttl now] by (simp add: T_def i_def)
  have "u < now + seconds (int ttl)" using u by (simp add: ttl_def)
  then show ?thesis
    using covers own keep unfolding scoped_live_expiry [OF b] S_def [symmetric] i_def [symmetric]
    by (auto simp: flag_expiry_def)
qed

lemma blocked_prep:
  assumes "healthy V" "i_step (v_intent v) = Some step" "i_ttl_hours (v_intent v) = Static h"
    and "scoped_live ''prep-blocked'' [i_instrument (v_intent v), step] (i_account (v_intent v)) (w_store V)"
  shows "handle_prep C eval v now V = (result_error (''prep-expired: '' @ step) 409, V)"
  using assms
  by (simp add: handle_prep_def Let_def resolve_phase1_u32_def resolve_u32_def or_state_error_def
      call_healthy is_prep_blocked_def)

section \<open>Consumed ids\<close>

lemma outcome_marks:
  assumes "healthy W" "store_inv (w_store W)" "seen_decision_of r = Mark outcome"
    and "u < now + seconds (int (replay_ttl_seconds (i_not_after (v_intent v)) now))"
  shows "get_live (set_clock u (w_store (snd (record_dispatcher_outcome v now r W))))
     (seen_key (i_id (v_intent v))) \<noteq> None"
  using assms
  by (simp add: record_dispatcher_outcome_def call_healthy mark_seen_def put_row_def get_live_def
      store_put_def bt.lookup_insert store_invD)

lemma outcome_skips:
  "seen_decision_of r = Skip kind outcome \<Longrightarrow> snd (record_dispatcher_outcome v now r W) = W"
  by (simp add: record_dispatcher_outcome_def)

end
