(* ===== verification/Core_Properties.thy ===== *)
theory Core_Properties
  imports Core_Example Core_Listing
begin

text \<open>
  The properties of the control plane: hold reference counts, the state store, the request
  handlers and the retry gate, each with a witness where it has hypotheses.
\<close>

section \<open>Holds\<close>

text \<open>
  The sorted, deduplicated vector of holders implements a set. After any sequence of
  holds and releases the vector is strictly sorted, holds exactly the reasons held and not
  released since, and answers membership and count accordingly.
\<close>

theorem holders_implement_set:
  "sorted_wrt (<) (hr_holders (run_holds es)) \<and>
   set (hr_holders (run_holds es)) = holding (rev es) \<and>
   (holders_contains r (hr_holders (run_holds es)) \<longleftrightarrow> r \<in> holding (rev es)) \<and>
   holders_len (hr_holders (run_holds es)) = card (holding (rev es)) \<and>
   (holders_is_empty (hr_holders (run_holds es)) \<longleftrightarrow> holding (rev es) = {})"
proof -
  have inv: "holders_inv (hr_holders (run_holds es))" using run_holds_inv [of es] by (simp add: run_inv_def)
  then have "sorted_wrt (<) (hr_holders (run_holds es))" by (simp add: holders_inv_def)
  moreover from this have "distinct (hr_holders (run_holds es))" by (simp add: strict_sorted_iff)
  ultimately show ?thesis
    using contains_refines [OF inv, of r] run_holds_set [of es]
    by (auto simp: holders_len_def holders_is_empty_def distinct_card [symmetric])
qed

text \<open>
  The restore fires exactly once per hold episode. Over any sequence of holds and
  releases the number of episodes opened is the number of restores fired, plus one while
  something is still held; a release fires the restore exactly when it drops the last reason.
\<close>

theorem restore_fires_once:
  "hr_episodes (run_holds es) =
     hr_restores (run_holds es) + (if holding (rev es) = {} then 0 else 1) \<and>
   (fst (release r (hr_holders (run_holds es))) = Emptied \<longleftrightarrow> holding (rev es) = {r})"
proof -
  have inv: "run_inv (run_holds es)" by (rule run_holds_inv)
  then have h: "holders_inv (hr_holders (run_holds es))" by (simp add: run_inv_def)
  have "hr_holders (run_holds es) = [] \<longleftrightarrow> holding (rev es) = {}"
    by (simp flip: run_holds_set)
  moreover have "fst (release r (hr_holders (run_holds es))) = Emptied \<longleftrightarrow> holding (rev es) = {r}"
    using release_refines(1,3) [OF h, of r] by (auto simp flip: run_holds_set)
  ultimately show ?thesis using inv by (simp add: run_inv_def)
qed

section \<open>The store\<close>

text \<open>
  In every store that the operations can produce, from any interleaving of writes,
  clears and clock changes, the rows have the types their readers decode: no listing and no
  getter ever fails.
\<close>

theorem stored_rows_decode:
  assumes "store_reach C s"
  shows "\<exists>pauses news held plans archived plan state mw rec window hours.
    fst (list_pauses_for_trade t s) = Inr pauses \<and> fst (list_news_windows_for_trade t s) = Inr news \<and>
    fst (list_all_held_trade_records s) = Inr held \<and> fst (list_all_trade_plans s) = Inr plans \<and>
    fst (list_all_archived_plans s) = Inr archived \<and> fst (get_trade_plan a t s) = Inr plan \<and>
    fst (get_plan_state a t s) = Inr state \<and> fst (get_mw_state a t s) = Inr mw \<and>
    fst (get_held_trade_record t s) = Inr rec \<and> fst (get_spread_blackout_window s) = Inr window \<and>
    fst (get_blackout_windows ins s) = Inr hours"
proof -
  have inv: "store_inv s" using assms by (rule store_reach_inv)
  show ?thesis
    using readers_decode(1,2) [OF inv, of t] readers_decode(3-5) [OF inv]
      getters_decode(1,2) [OF inv, of a t] getters_decode(3) [OF inv, of t] getters_decode(4) [OF inv]
      getters_decode(5) [OF inv, of ins] mw_decodes [OF inv, of a t]
    by blast
qed

definition ex_paused :: "unit mem_store" where
  "ex_paused = snd (set_pause ''t1'' ''cpi'' None 0 600 (empty_store 0))"

lemma ex_paused_reach: "store_reach unary_chrono ex_paused"
  unfolding ex_paused_def by (rule store_reach.step [OF store_reach.start store_step.pause])

theorem stored_rows_decode_witness:
  "fst (list_pauses_for_trade ''t1'' ex_paused) \<noteq> Inl (Err ''decode pause'')"
  using stored_rows_decode [OF ex_paused_reach, where t = "''t1''"] by auto

text \<open>
  An order belongs to one trade. In every reachable store no two position links share
  an account and broker order id, and recorded links are never changed or dropped.
\<close>

theorem position_links_owned:
  assumes "store_reach C s"
  shows "distinct (map (\<lambda>l. (pl_account l, pl_broker_order_id l)) (ms_links s)) \<and>
    (\<forall>s'. store_step C s s' \<longrightarrow> (\<exists>new. ms_links s' = ms_links s @ new))"
  using links_distinct [OF assms] links_append by blast

theorem position_links_owned_witness:
  "\<exists>new. ms_links (snd (set_pause ''t2'' ''nfp'' None 0 600 ex_paused)) = ms_links ex_paused @ new"
  using position_links_owned [OF ex_paused_reach] store_step.pause by blast

text \<open>
  C34: a stored prep reads back. The instant a prep was stamped with is what every later
  read returns until the prep expires, and clearing it returns the id of the message that
  set it, for any id (also one that holds the separator).
\<close>

theorem prep_round_trip:
  assumes "store_inv s" "chrono_laws C" "proper_account a" "flag_name 2 [ins, step]"
    and "store_now s < st_now stamp + seconds (int (max ttl min_ttl_seconds))"
    and "a \<noteq> None \<Longrightarrow> get_live s (scoped_key ''prep'' None [ins, step]) = None"
  shows "fst (get_prep C a ins step (snd (set_prep C a ins step stamp ttl setter s))) =
      Inr (Some (st_set_at stamp)) \<and>
    fst (clear_prep a ins step (snd (set_prep C a ins step stamp ttl setter s))) = Inr (Some setter)"
  using assms by (rule prep_read_back)

theorem prep_round_trip_witness:
  "fst (get_prep unary_chrono (Some ''acc'') ''EUR_USD'' ''retest''
     (snd (set_prep unary_chrono (Some ''acc'') ''EUR_USD'' ''retest'' (prep_stamp_at 5) 3600 ''a|b''
       (empty_store 0 :: unit mem_store)))) = Inr (Some 5)"
  using prep_round_trip [of "empty_store 0 :: unit mem_store" unary_chrono "Some ''acc''" "''EUR_USD''" "''retest''"
      "prep_stamp_at 5" 3600 "''a|b''"] unary_laws
  by (simp add: flag_name_def prep_stamp_at_def seconds_def)

section \<open>Requests\<close>

text \<open>
  Requests are isolated. Whatever calls fail on the way, a control request changes
  only rows of its own kind, the seen-id rows and, where it sets something with a lifetime,
  the audit rows; it never touches the recorded attempts, the position links or the clock,
  and keeps the store's invariant.
\<close>

theorem requests_stay_in_their_rows:
  "touches [''seen:''] (handle_status v now) \<and>
   touches [''cooldown:'', ''seen:''] (handle_unlock v now) \<and>
   touches [''prep:'', ''seen:'', ''control-event:''] (handle_prep C eval v now) \<and>
   touches [''prep-blocked:'', ''seen:''] (handle_prep_expire eval v now) \<and>
   touches [''prep:'', ''seen:''] (handle_clear_prep v now) \<and>
   touches [''veto:'', ''seen:'', ''control-event:''] (handle_veto eval v now) \<and>
   touches [''veto:'', ''seen:''] (handle_clear_veto v now) \<and>
   touches [''pause:'', ''seen:'', ''control-event:''] (handle_pause v now) \<and>
   touches [''pause:'', ''seen:''] (handle_resume v now) \<and>
   touches [''news:'', ''seen:'', ''control-event:''] (handle_news_start v now) \<and>
   touches [''news:'', ''seen:''] (handle_news_end v now) \<and>
   touches [''plan:'', ''seen:''] (handle_register accounts v now) \<and>
   touches [''seen:''] (handle_plan_list v now) \<and>
   touches [''seen:''] (handle_plan_show v now) \<and>
   touches [''plan:'', ''plan-state:'', ''archived-plan:'', ''seen:''] (handle_plan_delete v now)"
  by (intro conjI handler_frames)

text \<open>
  A rejected request changes nothing. Every handler that answers 400 (a missing field,
  a mismatch) or 412 (a script that fails) leaves the store, the pending faults and the
  broker as they were, and so does not consume the request's id.
\<close>

theorem rejections_change_nothing:
  "rejects_cleanly (handle_prep C eval v now) \<and> rejects_cleanly (handle_prep_expire eval v now) \<and>
   rejects_cleanly (handle_clear_prep v now) \<and> rejects_cleanly (handle_veto eval v now) \<and>
   rejects_cleanly (handle_clear_veto v now) \<and> rejects_cleanly (handle_pause v now) \<and>
   rejects_cleanly (handle_resume v now) \<and> rejects_cleanly (handle_news_start v now) \<and>
   rejects_cleanly (handle_news_end v now) \<and> rejects_cleanly (handle_register accounts v now) \<and>
   rejects_cleanly (handle_plan_show v now) \<and> rejects_cleanly (handle_plan_delete v now)"
  by (intro conjI handlers_reject_cleanly)

text \<open>
  C35: an acknowledged veto is in force. When the veto request answers with success, even
  if other calls of it failed, every query for that trade, instrument and name on the
  account it was set for (on any account, if it was global) sees the veto at every instant
  before the request's \<open>not_after\<close>, in whole seconds.
\<close>

theorem acknowledged_veto_in_force:
  assumes "store_inv (w_store W)" "store_now (w_store W) = now"
    and "is_success (fst (handle_veto eval v now W))"
    and "i_name (v_intent v) = Some nm" "i_trade_id (v_intent v) = Some t"
    and "proper_account (i_account (v_intent v))" "proper_account b"
    and "i_account (v_intent v) = None \<or> b = i_account (v_intent v)"
    and "flag_name 3 [t, i_instrument (v_intent v), nm]"
    and "u < now + seconds (num_seconds (i_not_after (v_intent v) - now))"
    and "i_not_after (v_intent v) - now < seconds (2 ^ 64)"
  shows "fst (is_vetoed b t (i_instrument (v_intent v)) nm
     (set_clock u (w_store (snd (handle_veto eval v now W))))) = Inr True"
  using veto_in_force [OF assms] by (simp add: is_vetoed_def)

theorem acknowledged_veto_in_force_witness:
  "fst (is_vetoed (Some ''acc'') ''t1'' ''EUR_USD'' ''too-low''
     (set_clock 3600000000000 (w_store (snd (handle_veto no_script ex_verified 0 ex_world))))) = Inr True"
proof -
  have ok: "is_success (fst (handle_veto no_script ex_verified 0 ex_world))"
    by (simp add: handle_veto_def Let_def clear_named_vetos_def or_state_error_def call_healthy
        set_veto_def put_row_def)
  show ?thesis
    using acknowledged_veto_in_force [OF _ _ ok, of "''too-low''" "''t1''" "Some ''acc''" 3600000000000]
    by (simp add: flag_name_def seconds_def num_seconds_def trunc_div_def)
qed

text \<open>
  An expired prep stays refused. After an acknowledged prep-expire, every later prep
  request for that step on the account (on any account, if the expiry was global) is
  answered 409 and changes nothing, until the block's own lifetime ends.
\<close>

theorem expired_prep_refused:
  assumes "store_inv (w_store W)" "is_success (fst (handle_prep_expire eval v now W))"
    and "i_step (v_intent v) = Some step" "i_ttl_hours (v_intent v) = Static h"
    and "proper_account (i_account (v_intent v))" "flag_name 2 [i_instrument (v_intent v), step]"
    and "u < now + seconds (int (max (sat_mul64 h 3600) min_ttl_seconds))"
    and "healthy V" "w_store V = set_clock u (w_store (snd (handle_prep_expire eval v now W)))"
    and "i_step (v_intent v') = Some step" "i_ttl_hours (v_intent v') = Static h'"
    and "i_instrument (v_intent v') = i_instrument (v_intent v)" "proper_account (i_account (v_intent v'))"
    and "i_account (v_intent v) = None \<or> i_account (v_intent v') = i_account (v_intent v)"
  shows "handle_prep C eval v' now' V = (result_error (''prep-expired: '' @ step) 409, V)"
  using blocked_prep [OF assms(8,10,11)] block_row [OF assms(1-5,13,14,6,7)] assms(9,12) by simp

theorem expired_prep_refused_witness:
  "fst (handle_prep unary_chrono no_script ex_verified 60
     (ex_world\<lparr>w_store := set_clock 60 (w_store (snd (handle_prep_expire no_script ex_verified 0 ex_world)))\<rparr>))
   = result_error ''prep-expired: retest'' 409"
proof -
  have ok: "is_success (fst (handle_prep_expire no_script ex_verified 0 ex_world))"
    by (simp add: handle_prep_expire_def Let_def or_state_error_def call_healthy block_prep_def put_row_def)
  show ?thesis
    using expired_prep_refused [OF _ ok, of "''retest''" 1 60
        "ex_world\<lparr>w_store := set_clock 60 (w_store (snd (handle_prep_expire no_script ex_verified 0 ex_world)))\<rparr>"
        ex_verified 1 unary_chrono 60]
    by (simp add: flag_name_def seconds_def sat_mul64_def min_ttl_seconds_def)
qed

text \<open>
  An acknowledged pause blocks entries until it is resumed. At every instant before the
  pause request's \<open>not_after\<close> (in whole seconds) the gate blocks each entry of that trade
  and names the blackout; after a resume of that blackout no live row for it is left,
  whatever other pauses there are.
\<close>

theorem pause_blocks_entries:
  assumes "store_inv (w_store W)" "store_now (w_store W) = now"
    and "is_success (fst (handle_pause v now W))"
    and "i_trade_id (v_intent v) = Some t" "i_blackout_id (v_intent v) = Some b"
    and "u < now + seconds (num_seconds (i_not_after (v_intent v) - now))"
    and "i_not_after (v_intent v) - now < seconds (2 ^ 64)"
    and "healthy V" "w_store V = set_clock u (w_store (snd (handle_pause v now W)))"
    and "i_trade_id entry = Some t"
    and "i_trade_id (v_intent r) = Some t" "i_blackout_id (v_intent r) = Some b"
  shows "(\<exists>bs. fst (entry_blocked entry V) = Inr (Blocked bs) \<and>
      (case i_reason (v_intent v) of None \<Rightarrow> b \<in> set bs | Some why \<Rightarrow> b @ ''('' @ why @ '')'' \<in> set bs)) \<and>
    get_live (w_store (snd (handle_resume r later V))) (pause_key t b) = None"
proof -
  obtain e where e: "get_live (w_store V) (pause_key t b) = Some (PauseBody e)"
      "pe_blackout_id e = b" "pe_reason e = i_reason (v_intent v)"
    and inv: "store_inv (w_store V)"
    using pause_row [OF assms(1-7)] assms(9) by auto
  obtain bs where "fst (entry_blocked entry V) = Inr (Blocked bs)" "pause_label e \<in> set bs"
    using live_pause_blocks [OF assms(8) inv assms(10) e(1)] by blast
  moreover from this e(2,3) have "case i_reason (v_intent v) of None \<Rightarrow> b \<in> set bs
      | Some why \<Rightarrow> b @ ''('' @ why @ '')'' \<in> set bs"
    by (auto simp: pause_label_def split: option.splits)
  ultimately show ?thesis using resume_row [OF inv assms(8,11,12)] by blast
qed

theorem pause_blocks_entries_witness:
  "\<exists>bs. fst (entry_blocked ex_intent
     (ex_world\<lparr>w_store := set_clock 60 (w_store (snd (handle_pause ex_verified 0 ex_world)))\<rparr>)) =
     Inr (Blocked bs) \<and> ''cpi'' \<in> set bs"
proof -
  have ok: "is_success (fst (handle_pause ex_verified 0 ex_world))"
    by (simp add: handle_pause_def Let_def or_state_error_def call_healthy set_pause_def put_row_def)
  show ?thesis
    using pause_blocks_entries [OF _ _ ok, of "''t1''" "''cpi''" 60
        "ex_world\<lparr>w_store := set_clock 60 (w_store (snd (handle_pause ex_verified 0 ex_world)))\<rparr>"
        ex_intent ex_verified]
    by (simp add: seconds_def num_seconds_def trunc_div_def)
qed

text \<open>
  A registered plan is stored as sent. After an acknowledged registration the plan is
  read back unchanged under its account and listed with it for a hundred years, its id
  matches the request's, and every rule trades at the account's own broker.
\<close>

theorem registered_plan_listed:
  assumes "store_inv (w_store W)" "is_success (fst (handle_register accounts v now W))"
    and "i_trade_plan (v_intent v) = Some p" "proper_account (i_account (v_intent v))"
    and "u < store_now (w_store W) + seconds (int no_ttl_seconds)"
  shows "fst (get_trade_plan (i_account (v_intent v)) (tp_trade_id p)
      (set_clock u (w_store (snd (handle_register accounts v now W))))) = Inr (Some p) \<and>
    (\<exists>plans. fst (list_all_trade_plans (set_clock u (w_store (snd (handle_register accounts v now W))))) =
       Inr plans \<and> \<lparr>sp_account = i_account (v_intent v), sp_plan = p\<rparr> \<in> set plans) \<and>
    (i_trade_id (v_intent v) = None \<or> i_trade_id (v_intent v) = Some (tp_trade_id p)) \<and>
    (\<forall>n. i_account (v_intent v) = Some n \<longrightarrow>
       (\<exists>broker. accounts n = Inr broker \<and> (\<forall>r \<in> set (tp_rules p). cr_broker r = broker)))"
proof (intro conjI)
  note row = registered_row [OF assms(1-3,5)]
  show "fst (get_trade_plan (i_account (v_intent v)) (tp_trade_id p)
      (set_clock u (w_store (snd (handle_register accounts v now W))))) = Inr (Some p)"
    using row(1) by (simp add: get_trade_plan_def as_plan_def)
  show "\<exists>plans. fst (list_all_trade_plans (set_clock u (w_store (snd (handle_register accounts v now W))))) =
       Inr plans \<and> \<lparr>sp_account = i_account (v_intent v), sp_plan = p\<rparr> \<in> set plans"
    by (rule plan_listed [OF _ assms(4) row(1)]) (simp add: row(2))
qed (use register_effect [OF assms(1,2)] assms(3) in \<open>auto simp: check_register_brokers\<close>)

definition ex_conditions :: entry_conditions where
  "ex_conditions = \<lparr>ec_require_ma_alignment = False, ec_enable_on_ma_touch = [], ec_must_touch = [],
     ec_be_offside = [], ec_retrace = None\<rparr>"

definition ex_plan :: "unit trade_plan" where
  "ex_plan = \<lparr>tp_entry_conditions = ex_conditions, tp_trade_id = ''t1'', tp_instrument = ''EUR_USD'', tp_direction = Long,
     tp_granularity = H1, tp_pip_size = Fin 0,
     tp_rules = [\<lparr>cr_rule_id = ''r1'', cr_trigger = MwEveryBar, cr_fire_mode = Once, cr_broker = Oanda,
        cr_intent = (), cr_kind = Unspecified\<rparr>],
     tp_shadow = False, tp_cross_buffer_pct = Fin 0, tp_cross_buffer_atr = Fin 0,
     tp_bcr_require_golden = False, tp_retest_atr_step = Fin 0, tp_replay_start = None, tp_armed_at = None,
     tp_armed_sentiment = None, tp_screenshot_url = None\<rparr>"

definition ex_register :: "unit verified" where
  "ex_register = \<lparr>v_intent = ex_intent\<lparr>i_trade_plan := Some ex_plan\<rparr>, v_shell = ex_shell\<rparr>"

lemma ex_plan_simps [simp]:
  "tp_trade_id ex_plan = ''t1''" "i_trade_plan (v_intent ex_register) = Some ex_plan"
  "i_account (v_intent ex_register) = Some ''acc''" "i_trade_id (v_intent ex_register) = Some ''t1''"
  "map cr_broker (tp_rules ex_plan) = [Oanda]"
  by (simp_all add: ex_plan_def ex_register_def)

lemma ex_check: "check_register_account (\<lambda>_. Inr Oanda) n ex_plan = Inr ()"
  by (simp add: check_register_brokers ex_plan_def)

theorem registered_plan_listed_witness:
  "fst (get_trade_plan (Some ''acc'') ''t1''
     (set_clock 60 (w_store (snd (handle_register (\<lambda>_. Inr Oanda) ex_register 0 ex_world))))) =
   Inr (Some ex_plan)"
proof -
  have ok: "is_success (fst (handle_register (\<lambda>_. Inr Oanda) ex_register 0 ex_world))"
    by (simp add: handle_register_def Let_def or_state_error_def call_healthy put_trade_plan_def put_row_def
        ex_check)
  show ?thesis
    using registered_plan_listed [OF _ ok, of ex_plan 60]
    by (simp add: seconds_def no_ttl_seconds_def)
qed

text \<open>
  Which outcomes consume a request's id. A completed action, and one whose outcome at
  the broker is unknown, mark the id as seen for the whole replay window; a failed or
  rejected one leaves the world as it was, so the next fire is let through.
\<close>

theorem outcome_consumes_id:
  assumes "healthy W" "store_inv (w_store W)"
    and "u < now + seconds (int (replay_ttl_seconds (i_not_after (v_intent v)) now))"
  shows "case r of
      Completed _ \<Rightarrow> fst (is_seen (i_id (v_intent v))
        (set_clock u (w_store (snd (record_dispatcher_outcome v now r W))))) = Inr True
    | AmbiguousSuccess _ \<Rightarrow> fst (is_seen (i_id (v_intent v))
        (set_clock u (w_store (snd (record_dispatcher_outcome v now r W))))) = Inr True
    | _ \<Rightarrow> snd (record_dispatcher_outcome v now r W) = W"
  using outcome_marks [OF assms(1,2) _ assms(3), of r] outcome_skips [of r _ _ v now W]
  by (cases r) (simp_all add: seen_decision_of_def is_seen_def)

theorem outcome_consumes_id_witness:
  "fst (is_seen ''id1'' (set_clock 60
     (w_store (snd (record_dispatcher_outcome ex_verified 0 (AmbiguousSuccess ''unread'') ex_world))))) = Inr True"
  using outcome_consumes_id [of ex_world 60 0 ex_verified "AmbiguousSuccess ''unread''"]
  by (simp add: seconds_def replay_ttl_seconds_def num_seconds_def trunc_div_def sat_add_def)

end
