(* ===== verification/Core_Recovery.thy ===== *)
theory Core_Recovery
  imports Core_Broker
begin

text \<open>
  Placing an entry, with recovery when its trigger is too close to the market: the bounded
  stop, limit, market sequence (\<open>core/src/dispatch/near_market.rs\<close>) and the single fallback
  of \<open>core/src/dispatch/enter.rs\<close>. Quotes and orders go through the broker; nothing is
  stored here.
\<close>

section \<open>Stop, limit, market\<close>

record recovered_entry =
  rc_placement :: placement
  rc_entry :: resolved_entry

text \<open>Each step also returns the detail that the outcome will show.\<close>

type_synonym ('d, 'b) recovery = "('d, 'b, string \<times> (entry_error + recovered_entry)) prog"

definition market_band_of ::
  "resolved \<Rightarrow> pending_distance \<Rightarrow> pending_distance \<Rightarrow> entry_level_veto list \<Rightarrow> entry_error + market_band" where
  "market_band_of r stop_d limit_d vetos =
     (let max_distance = fmin (pd_minimum_distance stop_d) (pd_minimum_distance limit_d) in
      rbind (case Option.bind (rs_recover_entry r) rr_max_slippage_price of
               Some bound \<Rightarrow>
                 if is_finite bound \<and> fgt bound (Fin 0) then Inr (fmin bound max_distance)
                 else Inl (MarketRecoveryDeclined ''invalid explicit slippage allowance'')
             | None \<Rightarrow> Inr max_distance) (\<lambda>d.
      Inr \<lparr>mb_trigger_price = reference_price (rs_entry r), mb_max_distance = d,
           mb_min_r = rs_min_r r, mb_entry_level_vetos = vetos\<rparr>))"

definition quote_valid :: "quote \<Rightarrow> bool" where
  "quote_valid q \<longleftrightarrow> \<not> (\<not> is_finite (qt_bid q) \<or> fle (qt_bid q) (Fin 0) \<or>
     \<not> is_finite (qt_ask q) \<or> flt (qt_ask q) (qt_bid q))"

definition band_note :: "quote \<Rightarrow> market_band \<Rightarrow> string" where
  "band_note q band = ''; market fallback: fresh bid='' @ show_f64 (qt_bid q) @ '' ask='' @
     show_f64 (qt_ask q) @ '' trigger='' @ show_f64 (mb_trigger_price band) @ '' maximum_distance='' @
     show_f64 (mb_max_distance band)"

definition place_market ::
  "'b broker \<Rightarrow> resolved \<Rightarrow> market_band \<Rightarrow> f64 \<Rightarrow> nat \<Rightarrow> string \<Rightarrow> ('d, 'b) recovery" where
  "place_market B r band cap positions detail =
     pbind (bcall (get_quote B (rs_instrument r))) (\<lambda>qr. case qr of
       Inl _ \<Rightarrow> preturn (detail @ ''; market not attempted: fresh quote unavailable '' @
           ''(broker lookup failed (transient))'', Inl AccountFetch)
     | Inr q \<Rightarrow>
         if \<not> quote_valid q
         then preturn (detail @ ''; market not attempted: fresh bid/ask quote is invalid'',
           Inl (MarketRecoveryDeclined ''invalid executable quote''))
         else
           let price = executable_side (rs_direction r) q;
               req = request_of r (Market price) in
           (case band_check band req price of
              Inl e \<Rightarrow> preturn (detail @ ''; market not attempted: '' @ entry_error_text e, Inl e)
            | Inr _ \<Rightarrow>
                let detail = detail @ band_note q band in
                pbind (bcall (place_market_entry_in_band B cap positions req band)) (\<lambda>p. preturn (case p of
                  Inl e \<Rightarrow> (detail @ ''; market result: '' @ entry_error_text e, Inl e)
                | Inr placed \<Rightarrow>
                    (detail @ (if rs_dry_run r then ''; market preview passed; no order submitted''
                       else ''; market entry accepted''),
                     Inr \<lparr>rc_placement = placed, rc_entry = Market (or_else (pl_price placed) price)\<rparr>)))))"

definition recovers_by_limit :: "resolved \<Rightarrow> bool" where
  "recovers_by_limit r \<longleftrightarrow> (case rs_entry r of StopAt _ \<Rightarrow> True | _ \<Rightarrow> False) \<and>
     (case rs_recover_entry r of Some rec \<Rightarrow> rr_action rec = RecoverLimit | None \<Rightarrow> False)"

definition recover_near ::
  "'b broker \<Rightarrow> resolved \<Rightarrow> pending_distance \<Rightarrow> entry_level_veto list \<Rightarrow> f64 \<Rightarrow> nat \<Rightarrow> ('d, 'b) recovery" where
  "recover_near B r stop_d vetos cap positions =
     (let detail = ''stop rejected: '' @ distance_text stop_d;
          trigger = reference_price (rs_entry r) in
      if \<not> recovers_by_limit r \<or> \<not> distance_matches stop_d PendingStop (rs_direction r) trigger
      then preturn (detail @ ''; market not attempted: stop rejection does not establish proximity'',
        Inl (EntryWithinMinimumDistance stop_d))
      else
        pbind (bcall (place_entry B cap positions (request_of r (LimitAt trigger)))) (\<lambda>p. case p of
          Inr placed \<Rightarrow>
            preturn (detail @ (if rs_dry_run r
                then ''; limit preview passed; market not attempted; no order submitted''
                else ''; limit accepted; market not attempted''),
              Inr \<lparr>rc_placement = placed, rc_entry = LimitAt trigger\<rparr>)
        | Inl e \<Rightarrow>
            (case e of
               EntryWithinMinimumDistance limit_d \<Rightarrow>
                 let detail = detail @ ''; limit rejected: '' @ distance_text limit_d in
                 if \<not> distance_matches limit_d PendingLimit (rs_direction r) trigger
                 then preturn (detail @
                     ''; market not attempted: limit rejection does not establish proximity'',
                   Inl (EntryWithinMinimumDistance limit_d))
                 else (case market_band_of r stop_d limit_d vetos of
                     Inl e' \<Rightarrow> preturn (detail @ ''; market not attempted: '' @ entry_error_text e', Inl e')
                   | Inr band \<Rightarrow> place_market B r band cap positions detail)
             | _ \<Rightarrow> preturn (detail @ ''; limit failed: '' @ entry_error_text e @
                 ''; market not attempted: failure is not verified proximity'', Inl e))))"

section \<open>The single fallback\<close>

text \<open>The first component is the reason for skipping, when there is one.\<close>

definition too_close_fallback ::
  "'b broker \<Rightarrow> resolved \<Rightarrow> f64 \<Rightarrow> nat \<Rightarrow> ('d, 'b, string option \<times> (entry_error + placement)) prog" where
  "too_close_fallback B r cap positions =
     (case rs_entry r of
        StopAt trigger \<Rightarrow>
          pbind (bcall (get_quote B (rs_instrument r))) (\<lambda>qr. case qr of
            Inl _ \<Rightarrow> preturn (Some ''recover-entry-price-read-failed'', Inl EntryTooCloseToMarket)
          | Inr q \<Rightarrow>
              let place = (\<lambda>e. pbind (bcall (place_entry B cap positions (request_of r e)))
                    (\<lambda>p. preturn (None, p))) in
              (case recover_entry_plan (rs_recover_entry r) (rs_direction r) trigger
                  (executable_side (rs_direction r) q) of
                 PlanSkip reason \<Rightarrow> preturn (Some reason, Inl EntryTooCloseToMarket)
               | PlanMarket p \<Rightarrow> place (Market p)
               | PlanLimit p \<Rightarrow> place (LimitAt p)
               | PlanStop p \<Rightarrow> place (StopAt p)))
      | _ \<Rightarrow> preturn (Some ''recover-entry-not-a-stop-entry'', Inl EntryTooCloseToMarket))"

section \<open>One entry, with its recovery\<close>

record placed_entry =
  pn_result :: "entry_error + placement"
  pn_entry :: resolved_entry
  pn_skip :: "string option"
  pn_detail :: string

definition place_with_recovery ::
  "'b broker \<Rightarrow> resolved \<Rightarrow> entry_level_veto list \<Rightarrow> f64 \<Rightarrow> nat \<Rightarrow> ('d, 'b, placed_entry) prog" where
  "place_with_recovery B r vetos cap positions =
     (let fallback = (\<lambda>detail. pbind (too_close_fallback B r cap positions) (\<lambda>(skip, p).
            preturn \<lparr>pn_result = p, pn_entry = rs_entry r, pn_skip = skip, pn_detail = detail\<rparr>)) in
      pbind (bcall (place_entry B cap positions (request_of r (rs_entry r)))) (\<lambda>p. case p of
        Inl (EntryWithinMinimumDistance d) \<Rightarrow>
          if recovers_by_limit r
          then pbind (recover_near B r d vetos cap positions) (\<lambda>(detail, q).
            preturn (case q of
                Inl e \<Rightarrow> \<lparr>pn_result = Inl e, pn_entry = rs_entry r, pn_skip = None, pn_detail = detail\<rparr>
              | Inr rec \<Rightarrow> \<lparr>pn_result = Inr (rc_placement rec), pn_entry = rc_entry rec, pn_skip = None,
                  pn_detail = detail\<rparr>))
          else fallback (distance_text d)
      | Inl EntryTooCloseToMarket \<Rightarrow> fallback []
      | _ \<Rightarrow> preturn \<lparr>pn_result = p, pn_entry = rs_entry r, pn_skip = None, pn_detail = []\<rparr>))"

definition describe_recovery :: "string \<Rightarrow> string \<Rightarrow> string" where
  "describe_recovery outcome detail =
     (if detail = [] then outcome else outcome @ ''; recovery: '' @ detail)"

end
