(* ===== verification/Core_Park.thy ===== *)
theory Core_Park
  imports Core_Recovery Core_Retry
begin

text \<open>
  Entries that the clock or the spread holds back: when a stored order is promoted or dropped
  (\<open>core/src/order_control/stored.rs\<close>) and the record that keeps it
  (\<open>core/src/order_control/park.rs\<close>).
\<close>

section \<open>Stored orders\<close>

definition drop_bars_before_expiry :: int where
  "drop_bars_before_expiry = 3"

definition stored_reason_str :: "stored_reason \<Rightarrow> string" where
  "stored_reason_str r = (case r of
     BelowMinR \<Rightarrow> ''below-min-r'' | BelowMinRForecast \<Rightarrow> ''below-min-r-forecast''
   | BelowMinSize \<Rightarrow> ''below-min-size'' | Core_Rows.SpreadHour \<Rightarrow> ''spread-hour''
   | MarketClosed \<Rightarrow> ''market-closed'')"

definition rechecked_per_bar :: "stored_reason \<Rightarrow> bool" where
  "rechecked_per_bar r \<longleftrightarrow> r = BelowMinSize"

definition bucket :: "time \<Rightarrow> int \<Rightarrow> int" where
  "bucket t secs = timestamp t div secs"

definition is_a_later_bar :: "stored_order \<Rightarrow> time option \<Rightarrow> bool" where
  "is_a_later_bar order bar_time =
     (case (bar_time, so_bar_seconds order) of
        (Some bar, Some secs) \<Rightarrow>
          if secs \<le> 0 then False else bucket (so_shell_time order) secs < bucket bar secs
      | _ \<Rightarrow> False)"

definition spread_gate_defers :: "granularity option \<Rightarrow> bool" where
  "spread_gate_defers g =
     (case g of None \<Rightarrow> False | Some g \<Rightarrow> granularity_seconds H4 \<le> granularity_seconds g)"

definition drop_at :: "time \<Rightarrow> int \<Rightarrow> time \<Rightarrow> time" where
  "drop_at expiry bar_seconds stored_at =
     max (expiry - seconds (max bar_seconds 0 * drop_bars_before_expiry)) stored_at"

datatype stored_verdict = Promote | KeepWaiting | DropOrder

record stored_check =
  sc_clears_min_r :: bool
  sc_bar_time :: "time option"
  sc_spread_hour_over :: bool
  sc_market_open :: bool

definition stored_verdict_of :: "stored_order \<Rightarrow> time \<Rightarrow> stored_check \<Rightarrow> stored_verdict" where
  "stored_verdict_of order now check =
     (if so_drop_at order \<le> now then DropOrder
      else
        let promote = (case so_reason order of
            Core_Rows.SpreadHour \<Rightarrow> sc_spread_hour_over check
          | MarketClosed \<Rightarrow> sc_market_open check
          | r \<Rightarrow> if rechecked_per_bar r then is_a_later_bar order (sc_bar_time check)
                 else sc_clears_min_r check) in
        if promote then Promote else KeepWaiting)"

section \<open>The record that keeps them\<close>

definition held_ttl :: "held_record \<Rightarrow> time \<Rightarrow> nat" where
  "held_ttl r now = nat (max 0 (num_seconds (hd_expires_at r - now)))"

definition fresh_held :: "string \<Rightarrow> string \<Rightarrow> string option \<Rightarrow> f64 \<Rightarrow> time \<Rightarrow> time \<Rightarrow> held_record" where
  "fresh_held trade_id instrument account pip_size expires_at now =
     \<lparr>hd_trade_id = trade_id, hd_instrument = instrument, hd_account = account, hd_applied = False,
      hd_holders = holders_new, hd_opened_at = now, hd_expires_at = expires_at,
      hd_pip_size = pip_size, hd_original_stops = [], hd_cancelled_orders = [], hd_stored_orders = []\<rparr>"

definition with_order :: "f64 \<Rightarrow> stored_order \<Rightarrow> time \<Rightarrow> held_record \<Rightarrow> held_record" where
  "with_order pip_size order expires_at r =
     r\<lparr>hd_pip_size := if fle (hd_pip_size r) (Fin 0) \<and> fgt pip_size (Fin 0) then pip_size
         else hd_pip_size r,
       hd_stored_orders := [order], hd_expires_at := max (hd_expires_at r) expires_at\<rparr>"

definition park_order ::
  "string \<Rightarrow> string \<Rightarrow> string option \<Rightarrow> f64 \<Rightarrow> stored_order \<Rightarrow> time \<Rightarrow> time \<Rightarrow> ('d, 'b, unit res) prog" where
  "park_order trade_id instrument account pip_size order expires_at now =
     and_then (call (get_held_trade_record trade_id)) (\<lambda>existing.
     let record = with_order pip_size order expires_at
           (or_else existing (fresh_held trade_id instrument account pip_size expires_at now)) in
     call (upsert_held_trade_record record (held_ttl record now)))"

definition stored_order :: "string \<Rightarrow> ('d, 'b, stored_order option res) prog" where
  "stored_order trade_id =
     and_then (call (get_held_trade_record trade_id)) (\<lambda>r. preturn (Inr
       (case r of None \<Rightarrow> None
        | Some r \<Rightarrow> (case hd_stored_orders r of [] \<Rightarrow> None | order # _ \<Rightarrow> Some order))))"

definition still_needed :: "held_record \<Rightarrow> bool" where
  "still_needed r \<longleftrightarrow> \<not> holders_is_empty (hd_holders r) \<or> hd_original_stops r \<noteq> [] \<or>
     hd_cancelled_orders r \<noteq> [] \<or> hd_applied r"

definition clear_stored_order :: "string \<Rightarrow> time \<Rightarrow> ('d, 'b, unit res) prog" where
  "clear_stored_order trade_id now =
     and_then (call (get_held_trade_record trade_id)) (\<lambda>r. case r of
       None \<Rightarrow> preturn (Inr ())
     | Some r \<Rightarrow>
         let record = r\<lparr>hd_stored_orders := []\<rparr> in
         if still_needed record then call (upsert_held_trade_record record (held_ttl record now))
         else call (clear_held_trade_record trade_id))"

end
