(* ===== verification/Core_Enter.thy ===== *)
theory Core_Enter
  imports Core_Park
begin

text \<open>
  The \<open>enter\<close> path (\<open>core/src/dispatch/enter.rs\<close>): gates that may refuse, the geometry of
  the order, the retry gate, the placement and what is recorded of it. Each stage either
  answers the request or hands on what the later ones need; \<open>run_enter\<close> chains them in the
  code's order.
\<close>

section \<open>Configuration\<close>

text \<open>\<open>core/src/dispatch_config.rs\<close>, \<open>core/src/account/caps.rs\<close>, \<open>core/src/dispatch/entry_origin.rs\<close>.\<close>

record account_caps =
  cap_max_risk_pct :: "f64 option"
  cap_max_open_positions :: "nat option"

definition resolve_max_risk_pct :: "account_caps \<Rightarrow> f64 \<Rightarrow> f64" where
  "resolve_max_risk_pct c worker = (case cap_max_risk_pct c of
     Some account \<Rightarrow> if flt account worker then account else worker | None \<Rightarrow> worker)"

definition resolve_max_open_positions :: "account_caps \<Rightarrow> nat \<Rightarrow> nat" where
  "resolve_max_open_positions c worker = (case cap_max_open_positions c of
     Some account \<Rightarrow> if account < worker then account else worker | None \<Rightarrow> worker)"

record dispatch_config =
  dc_worker_max_risk_pct :: f64
  dc_worker_max_open_positions :: nat
  dc_pip_size :: f64
  dc_tick_size :: "f64 option"
  dc_caps :: account_caps

datatype entry_origin = Fresh | Replacing string | Promotion

definition is_replacement :: "entry_origin \<Rightarrow> bool" where
  "is_replacement o' \<longleftrightarrow> o' \<noteq> Fresh"

definition skips_retry_gate :: "entry_origin \<Rightarrow> bool" where
  "skips_retry_gate o' = (case o' of Replacing _ \<Rightarrow> True | _ \<Rightarrow> False)"

definition replaced_order_id :: "entry_origin \<Rightarrow> string option" where
  "replaced_order_id o' = (case o' of Replacing oid \<Rightarrow> Some oid | _ \<Rightarrow> None)"

text \<open>
  The parts that are not the program's: time formats, the script engine, the calendar, and
  the YAML rendering of an intent.
\<close>

record 'd platform =
  pf_chrono :: chrono
  pf_rhai :: rhai
  pf_venue :: venue
  pf_yaml :: "'d intent \<Rightarrow> string option"

definition state_error_result :: action_result where
  "state_error_result = Rejected 500 ''state error'' ''rejected: state-error''"

text \<open>A call whose failure is answered with 500.\<close>

definition call_or_500 :: "('d, 'a) store_op \<Rightarrow> ('d, 'b, action_result + 'a) prog" where
  "call_or_500 f = pbind (call f) (\<lambda>r. preturn (case r of Inl _ \<Rightarrow> Inl state_error_result | Inr x \<Rightarrow> Inr x))"

definition refuse_if :: "bool \<Rightarrow> action_result \<Rightarrow> ('d, 'b, action_result + unit) prog" where
  "refuse_if c r = preturn (if c then Inl r else Inr ())"

section \<open>Gates over the store\<close>

definition pause_stage :: "'d intent \<Rightarrow> ('d, 'b, action_result + unit) prog" where
  "pause_stage i =
     (case i_trade_id i of None \<Rightarrow> preturn (Inr ())
      | Some tid \<Rightarrow> and_then (call_or_500 (list_pauses_for_trade tid)) (\<lambda>pauses.
          refuse_if (pauses \<noteq> []) (Rejected 423 ''trade paused''
            (''rejected: paused ['' @ join '','' (map pause_label pauses) @ '']''))))"

definition cooldown_stage :: "'d intent \<Rightarrow> ('d, 'b, action_result + unit) prog" where
  "cooldown_stage i =
     and_then (call_or_500 (is_cooled_down (i_account i) (i_instrument i))) (\<lambda>cooled.
     refuse_if cooled (Rejected 423 ''instrument cooled down'' ''rejected: cooled-down''))"

definition slot_set_ats :: "chrono \<Rightarrow> 'd intent \<Rightarrow> prep_req \<Rightarrow> ('d, 'b, action_result + time option list) prog" where
  "slot_set_ats C i slot =
     pfold (\<lambda>step acc. and_then (call_or_500 (get_prep C (i_account i) (i_instrument i) step))
         (\<lambda>set_at. preturn (Inr (acc @ [set_at]))))
       (alternatives slot) []"

definition judge_slot :: "prep_req \<Rightarrow> time option list \<Rightarrow> time option \<Rightarrow> action_result + time option" where
  "judge_slot slot alt_set_ats prev =
     (let label = join ''|'' (alternatives slot) in
      case resolve_slot alt_set_ats prev of
        Satisfied set_at \<Rightarrow> Inr (Some set_at)
      | OutOfOrder \<Rightarrow> Inl (Rejected 412 ''prep order violated''
          (''rejected: prep-order-violated ('' @ label @ '')''))
      | Missing \<Rightarrow> Inl (Rejected 412 ''missing prep'' (''rejected: missing-prep ('' @ label @ '')'')))"

definition prep_step ::
  "chrono \<Rightarrow> 'd intent \<Rightarrow> prep_req \<Rightarrow> time option \<Rightarrow> ('d, 'b, action_result + time option) prog" where
  "prep_step C i slot prev = and_then (slot_set_ats C i slot) (\<lambda>ats. preturn (judge_slot slot ats prev))"

definition prep_stage :: "chrono \<Rightarrow> 'd intent \<Rightarrow> ('d, 'b, action_result + time option) prog" where
  "prep_stage C i = pfold (prep_step C i) (i_requires_preps i) None"

definition veto_stage :: "'d intent \<Rightarrow> ('d, 'b, action_result + string) prog" where
  "veto_stage i =
     (case i_trade_id i of
        None \<Rightarrow> preturn (Inl (Rejected 400 ''enter requires trade_id'' ''rejected: missing-trade-id''))
      | Some trade_id \<Rightarrow>
          and_then (pfold (\<lambda>veto _.
              and_then (call_or_500 (is_vetoed (i_account i) trade_id (i_instrument i) veto)) (\<lambda>active.
              refuse_if active (Rejected 412 ''veto active'' (''rejected: veto-active ('' @ veto @ '')''))))
            (i_vetos i) ()) (\<lambda>_. preturn (Inr trade_id)))"

section \<open>Live geometry of an M or W\<close>

datatype mw_outcome = NotMw | MwGeometry mw_params | MwCancelled action_result

definition mw_cancel_veto_name :: string where
  "mw_cancel_veto_name = ''mw-cancel''"

text \<open>A breached pattern: take the resting orders off the book, leave a veto, forget the state.\<close>

definition cancel_mw :: "'b broker \<Rightarrow> 'd intent \<Rightarrow> string \<Rightarrow> nat \<Rightarrow> time \<Rightarrow> ('d, 'b, mw_outcome) prog" where
  "cancel_mw B i trade_id ttl now =
     pbind (bcall (cancel_pending_for_instrument B (i_instrument i))) (\<lambda>_.
     pbind (call (set_veto (i_account i) trade_id (i_instrument i) mw_cancel_veto_name ttl)) (\<lambda>_.
     pbind (record_control_event_for (i_account i) (Some trade_id) KVeto mw_cancel_veto_name
         (i_instrument i) ttl now None) (\<lambda>_.
     pbind (call (clear_mw_state (i_account i) trade_id)) (\<lambda>_.
     preturn (MwCancelled (Rejected 412 ''mw pattern cancelled (validity floor breached)''
       ''rejected: mw-cancel (validity-floor)''))))))"

definition mw_anchors_of :: "direction \<Rightarrow> mw_params \<Rightarrow> mw_anchors" where
  "mw_anchors_of dir w =
     \<lparr>an_direction = dir, an_runup_start = mw_runup_start w, an_left_shoulder = mw_first_point w,
      an_baked_neckline = mw_neckline w, an_drawn_right_shoulder = mw_right_shoulder w\<rparr>"

definition maybe_update_mw_state :: "'b broker \<Rightarrow> 'd verified \<Rightarrow> time \<Rightarrow> ('d, 'b, mw_outcome) prog" where
  "maybe_update_mw_state B v now =
     (let i = v_intent v in
      case (i_mw i, i_trade_id i, i_direction i) of
        (Some w, Some trade_id, Some dir) \<Rightarrow>
          pbind (call (get_mw_state (i_account i) trade_id)) (\<lambda>r. case r of
            Inl _ \<Rightarrow> preturn NotMw
          | Inr prior \<Rightarrow>
              let ttl = veto_ttl_seconds 0 (i_not_after i) now;
                  expires_at = now + seconds (int ttl) in
              (case plan_mw_update (mw_anchors_of dir w) prior (v_shell v) now expires_at of
                 MwNoChange \<Rightarrow> preturn NotMw
               | MwProceed st changed \<Rightarrow>
                   pbind (if changed
                       then pbind (call (upsert_mw_state (i_account i) trade_id st ttl)) (\<lambda>_. preturn ())
                       else preturn ()) (\<lambda>_.
                   preturn (MwGeometry (effective_mw_params w st dir)))
               | MwCancel \<Rightarrow> cancel_mw B i trade_id ttl now))
      | _ \<Rightarrow> preturn NotMw)"

section \<open>The geometry and the gates on it\<close>

definition pip_size_of :: "'d intent \<Rightarrow> dispatch_config \<Rightarrow> f64" where
  "pip_size_of i cfg = or_else (i_pip_size i) (dc_pip_size cfg)"

definition tick_size_of :: "'d intent \<Rightarrow> dispatch_config \<Rightarrow> f64" where
  "tick_size_of i cfg =
     (case i_tick_size i of Some t \<Rightarrow> t | None \<Rightarrow> or_else (dc_tick_size cfg) (pip_size_of i cfg))"

definition resolve_answer :: "resolve_error + resolved \<Rightarrow> action_result + resolved" where
  "resolve_answer r = (case r of
     Inr x \<Rightarrow> Inr x
   | Inl NotArmedYet \<Rightarrow> Inl (Rejected 200 ''declined: mw-not-armed'' ''declined: mw-not-armed'')
   | Inl _ \<Rightarrow> Inl (Rejected 400 ''rejected'' ''rejected: resolve-failed''))"

definition resolve_stage ::
  "'d platform \<Rightarrow> 'b broker \<Rightarrow> 'd verified \<Rightarrow> dispatch_config \<Rightarrow> time \<Rightarrow> ('d, 'b, action_result + resolved) prog" where
  "resolve_stage P B v cfg now =
     (let i = v_intent v; sh = v_shell v; tick = tick_size_of i cfg in
      pbind (maybe_update_mw_state B v now) (\<lambda>m. preturn (case m of
        MwCancelled result \<Rightarrow> Inl result
      | MwGeometry w \<Rightarrow> resolve_answer (from_mw_intent (pf_rhai P) i sh w tick)
      | NotMw \<Rightarrow> resolve_answer (from_intent (pf_rhai P) i sh (pip_size_of i cfg) tick))))"

definition entry_level_stage :: "'d intent \<Rightarrow> resolved \<Rightarrow> action_result + unit" where
  "entry_level_stage i r =
     (case find (\<lambda>v. is_past v (reference_price (rs_entry r))) (i_entry_level_vetos i) of
        None \<Rightarrow> Inr ()
      | Some v \<Rightarrow> Inl (Rejected 412 ''veto active'' (''rejected: veto-active ('' @ ev_name v @ '')'')))"

definition allow_entry_stage ::
  "rhai \<Rightarrow> 'd intent \<Rightarrow> shell \<Rightarrow> resolved \<Rightarrow> f64 \<Rightarrow> action_result + unit" where
  "allow_entry_stage R i sh r pip_size =
     (case allow_entry_of R i sh r pip_size of
        AllowProceed \<Rightarrow> Inr ()
      | AllowBlocked \<Rightarrow> Inl (Rejected 412 ''entry blocked'' ''rejected: allow-entry-false'')
      | AllowNeedsGolden \<Rightarrow> Inl (Rejected 412 ''entry blocked: needs-golden'' ''rejected: needs-golden'')
      | AllowNeedsConfirmed \<Rightarrow>
          Inl (Rejected 412 ''entry blocked: needs-confirmed'' ''rejected: needs-confirmed'')
      | AllowScriptError kind _ \<Rightarrow>
          Inl (Rejected 412 ''entry blocked: script error'' (''rejected: allow-entry-'' @ kind)))"

definition expiry_stage :: "rhai \<Rightarrow> 'd intent \<Rightarrow> shell \<Rightarrow> action_result + time option" where
  "expiry_stage R i sh =
     (case i_expiry_bars i of None \<Rightarrow> Inr None
      | Some t \<Rightarrow>
          (case resolve_phase1_u32 R ''expiry-bars'' (Some t) sh 0 of
             Inl outcome \<Rightarrow> Inl (Rejected 412 ''entry blocked: expiry-bars script'' outcome)
           | Inr n \<Rightarrow>
               (case resolve_cancel_at n sh (i_not_after i) of
                  Inr ts \<Rightarrow> Inr (Some ts)
                | Inl _ \<Rightarrow> Inl (Rejected 400 ''entry blocked: expiry-bars out of range''
                    ''rejected: expiry-bars-out-of-range''))))"

section \<open>Deferral\<close>

text \<open>The arguments of the code's \<open>run_enter\<close>; \<open>en_granularity\<close> is the bar of the signal.\<close>

record 'd entry_call =
  en_verified :: "'d verified"
  en_cfg :: dispatch_config
  en_now :: time
  en_raw_body :: "string option"
  en_granularity :: "granularity option"
  en_origin :: entry_origin

abbreviation en_intent :: "'d entry_call \<Rightarrow> 'd intent" where
  "en_intent E \<equiv> v_intent (en_verified E)"

definition needs_gate :: "'d entry_call \<Rightarrow> bool" where
  "needs_gate E \<longleftrightarrow> \<not> skips_retry_gate (en_origin E) \<and>
     needs_retry_gate (effective_entry_dedup (en_intent E))"

definition gate_answer :: "gate_outcome \<Rightarrow> action_result + nat" where
  "gate_answer g = (case g of Proceed n \<Rightarrow> Inr n | Reject status body outcome \<Rightarrow> Inl (Rejected status body outcome))"

definition ask_gate ::
  "'d platform \<Rightarrow> 'b broker \<Rightarrow> 'd entry_call \<Rightarrow> gate_mode \<Rightarrow> ('d, 'b, action_result + nat) prog" where
  "ask_gate P B E mode =
     pbind (evaluate_at (pf_chrono P) (pf_rhai P) B (en_intent E) (v_shell (en_verified E)) (en_now E) mode)
       (\<lambda>g. preturn (gate_answer g))"

definition dedup_before_park ::
  "'d platform \<Rightarrow> 'b broker \<Rightarrow> 'd entry_call \<Rightarrow> ('d, 'b, action_result + unit) prog" where
  "dedup_before_park P B E =
     (if \<not> needs_gate E then preturn (Inr ())
      else and_then (ask_gate P B E Probe) (\<lambda>_. preturn (Inr ())))"

text \<open>The answer is the note the outcome carries: empty when nothing was stored.\<close>

definition park_stored_entry ::
  "'d platform \<Rightarrow> 'd entry_call \<Rightarrow> stored_reason \<Rightarrow> string \<Rightarrow> string \<Rightarrow> f64 \<Rightarrow> f64 \<Rightarrow> f64 \<Rightarrow>
   ('d, 'b, string) prog" where
  "park_stored_entry P E reason trade_id instrument sl_distance tp_distance min_r =
     (let i = en_intent E; bar = map_option granularity_seconds (en_granularity E) in
      case (case en_raw_body E of Some b \<Rightarrow> Some b | None \<Rightarrow> pf_yaml P i) of
        None \<Rightarrow> preturn []
      | Some body \<Rightarrow>
          let deadline = drop_at (i_not_after i) (or_else bar 3600) (en_now E);
              order = \<lparr>so_signed_intent = body, so_reason = reason, so_original_sl_distance = sl_distance,
                so_tp_distance = tp_distance, so_min_r = min_r, so_stored_at = en_now E,
                so_drop_at = deadline, so_shell_time = sh_time (v_shell (en_verified E)),
                so_replaces = replaced_order_id (en_origin E), so_bar_seconds = bar\<rparr> in
          pbind (park_order trade_id instrument (i_account i) (or_else (i_pip_size i) (Fin 0)) order
              (i_not_after i) (en_now E))
            (\<lambda>r. preturn (case r of
               Inl _ \<Rightarrow> [] | Inr _ \<Rightarrow> '' stored until '' @ display_utc (pf_chrono P) deadline)))"

text \<open>Store the entry for later, unless the retry gate already refuses it.\<close>

definition defer_entry ::
  "'d platform \<Rightarrow> 'b broker \<Rightarrow> 'd entry_call \<Rightarrow> stored_reason \<Rightarrow> string \<Rightarrow> resolved \<Rightarrow> f64 \<Rightarrow>
   ('d, 'b, action_result + string) prog" where
  "defer_entry P B E reason trade_id r min_r =
     (let entry = reference_price (rs_entry r) in
      and_then (dedup_before_park P B E) (\<lambda>_.
      pbind (park_stored_entry P E reason trade_id (rs_instrument r)
          (fabs64 (fsub entry (rs_stop_loss r))) (fabs64 (fsub entry (rs_take_profit r))) min_r)
        (\<lambda>parked. preturn (Inr parked))))"

section \<open>Sessions, market hours, spread hours\<close>

definition session_gate ::
  "'d platform \<Rightarrow> 'b broker \<Rightarrow> 'd entry_call \<Rightarrow> string \<Rightarrow> resolved \<Rightarrow> ('d, 'b, action_result + unit) prog" where
  "session_gate P B E trade_id r =
     (if \<not> session_closed (pf_venue P) (rs_instrument r) (en_now E) then preturn (Inr ())
      else and_then (defer_entry P B E MarketClosed trade_id r (rs_min_r r)) (\<lambda>parked.
        preturn (Inl (Rejected 423
          (''entry deferred: market closed '' @ em_dash @ '' parked until the session opens'')
          (''rejected: market-closed'' @ parked)))))"

definition hours_gate :: "'d platform \<Rightarrow> 'd entry_call \<Rightarrow> resolved \<Rightarrow> action_result + unit" where
  "hours_gate P E r =
     (if market_hours_blocked (pf_venue P) (rs_instrument r) (en_now E)
      then Inl (Rejected 423 ''entry blocked: market-hours blackout'' ''rejected: market-blackout'')
      else Inr ())"

definition normal_spread_text :: "venue \<Rightarrow> string \<Rightarrow> string \<Rightarrow> string" where
  "normal_spread_text V key instrument =
     (case baked_baseline V key of
        Some (low, high, median) \<Rightarrow>
          instrument @ '' normal spread ~'' @ show_fixed 1 median @ ''p (seen '' @ show_fixed 1 low @
          en_dash @ show_fixed 1 high @ ''p)''
      | None \<Rightarrow> instrument @ '' (no baseline)'')"

definition spread_gate ::
  "'d platform \<Rightarrow> 'b broker \<Rightarrow> 'd entry_call \<Rightarrow> string \<Rightarrow> resolved \<Rightarrow> ('d, 'b, action_result + unit) prog" where
  "spread_gate P B E trade_id r =
     pbind (call get_spread_blackout_window) (\<lambda>w. case w of
       Inr (Some _) \<Rightarrow>
         pbind (bcall (get_quote B (rs_instrument r))) (\<lambda>qr. case qr of
           Inl _ \<Rightarrow> preturn (Inr ())
         | Inr q \<Rightarrow>
             let V = pf_venue P; i = en_intent E;
                 key = spread_lookup_key V (rs_instrument r) (i_account i);
                 pips = fdiv (quote_spread q) (pip_size_of i (en_cfg E));
                 threshold = elevated_threshold_pips V key in
             if \<not> spread_blackout_decision True pips threshold then preturn (Inr ())
             else and_then (if spread_gate_defers (en_granularity E)
                 then defer_entry P B E Core_Rows.SpreadHour trade_id r (rs_min_r r)
                 else preturn (Inr [])) (\<lambda>parked.
               preturn (Inl (Rejected 423
                 (''entry blocked: spread blackout '' @ em_dash @ '' '' @
                  normal_spread_text V key (rs_instrument r) @ '', current spread '' @
                  show_fixed 1 pips @ ''p > '' @ show_fixed 1 threshold @
                  ''p; preventing entry for safety'')
                 (''rejected: spread-blackout'' @ parked)))))
     | _ \<Rightarrow> preturn (Inr ()))"

text \<open>A replacement or a promotion was admitted before: it passes.\<close>

definition blackout_stage ::
  "'d platform \<Rightarrow> 'b broker \<Rightarrow> 'd entry_call \<Rightarrow> string \<Rightarrow> resolved \<Rightarrow> ('d, 'b, action_result + unit) prog" where
  "blackout_stage P B E trade_id r =
     (if is_replacement (en_origin E) then preturn (Inr ())
      else and_then (session_gate P B E trade_id r) (\<lambda>_.
           and_then (preturn (hours_gate P E r)) (\<lambda>_. spread_gate P B E trade_id r)))"

section \<open>The stop against the spread\<close>

definition windowed_entry_spread ::
  "'d platform \<Rightarrow> 'b broker \<Rightarrow> 'd entry_call \<Rightarrow> string \<Rightarrow> ('d, 'b, (f64 \<times> nat) option) prog" where
  "windowed_entry_spread P B E instrument =
     (case en_granularity E of None \<Rightarrow> preturn None
      | Some g \<Rightarrow>
          let i = en_intent E; V = pf_venue P; bar = granularity_seconds g;
              window = max (or_else (i_spread_window i) default_spread_window) 1;
              since = en_now E - seconds (bar * lookback_bars window bar) in
          pbind (bcall (get_bidask_candles B instrument g since (en_now E))) (\<lambda>r. preturn (case r of
              Inl _ \<Rightarrow> None
            | Inr candles \<Rightarrow>
                if candles = [] then None
                else
                  let kept = closes_outside_spread_hours V (spread_lookup_key V instrument (i_account i))
                        candles bar in
                  if kept = [] then None else trailing_spread_mean kept window)))"

definition effective_spread ::
  "'d platform \<Rightarrow> 'b broker \<Rightarrow> 'd entry_call \<Rightarrow> string \<Rightarrow> ('d, 'b, f64 option) prog" where
  "effective_spread P B E instrument =
     pbind (windowed_entry_spread P B E instrument) (\<lambda>w. case w of
       Some (mean, _) \<Rightarrow> preturn (Some mean)
     | None \<Rightarrow> pbind (bcall (get_quote B instrument)) (\<lambda>q. preturn (case q of
           Inl _ \<Rightarrow> None | Inr q \<Rightarrow> Some (quote_spread q))))"

definition widen_reject_body :: "f64 \<Rightarrow> f64 \<Rightarrow> f64 \<Rightarrow> f64 \<Rightarrow> f64 \<Rightarrow> string" where
  "widen_reject_body spread stop distance r_at_widen min_r =
     ''entry blocked: SL too close to spread and widening to '' @ show_fixed 0 sl_min_spread_multiple @
     ''x spread (SL would move to '' @ fmt_price_trim stop @ '', sl_distance '' @ fmt_price_trim distance @
     '', spread '' @ fmt_price_trim spread @ '') would drop R to '' @ show_fixed 2 r_at_widen @
     '' < min_r '' @ show_fixed 2 min_r"

definition widen_reject_outcome :: "f64 \<Rightarrow> f64 \<Rightarrow> f64 \<Rightarrow> f64 \<Rightarrow> string \<Rightarrow> string" where
  "widen_reject_outcome spread stop r_at_widen min_r parked =
     ''rejected: sl-widen-below-min-r (spread='' @ fmt_price_trim spread @ '' widened_sl_lvl='' @
     fmt_price_trim stop @ '' r_at_widen='' @ show_fixed 2 r_at_widen @ '' < min_r='' @
     show_fixed 2 min_r @ parked @ '')''"

text \<open>The answer is the stop to send: the drawn one, or the widened one.\<close>

definition spread_floor_stage ::
  "'d platform \<Rightarrow> 'b broker \<Rightarrow> 'd entry_call \<Rightarrow> string \<Rightarrow> resolved \<Rightarrow> ('d, 'b, action_result + f64) prog" where
  "spread_floor_stage P B E trade_id r =
     pbind (effective_spread P B E (rs_instrument r)) (\<lambda>s. case s of
       None \<Rightarrow> preturn (Inr (rs_stop_loss r))
     | Some spread \<Rightarrow>
         (case widen_sl_to_spread_floor (reference_price (rs_entry r)) (rs_stop_loss r) (rs_take_profit r)
             spread (rs_min_r r) (tick_size_of (en_intent E) (en_cfg E)) of
            Unwidened \<Rightarrow> preturn (Inr (rs_stop_loss r))
          | Widened stop _ _ \<Rightarrow> preturn (Inr stop)
          | WidenRejected stop distance r_at_widen min_r \<Rightarrow>
              and_then (defer_entry P B E BelowMinR trade_id r min_r) (\<lambda>parked.
              preturn (Inl (Rejected 422 (widen_reject_body spread stop distance r_at_widen min_r)
                (widen_reject_outcome spread stop r_at_widen min_r parked))))))"

section \<open>The retry gate, last of all\<close>

definition retry_stage ::
  "'d platform \<Rightarrow> 'b broker \<Rightarrow> 'd entry_call \<Rightarrow> ('d, 'b, action_result + nat option) prog" where
  "retry_stage P B E =
     (if needs_gate E then and_then (ask_gate P B E Full) (\<lambda>n. preturn (Inr (Some n)))
      else preturn (Inr None))"

section \<open>The placement and its records\<close>

text \<open>\<open>core/src/position_tracking/placement.rs\<close>.\<close>

definition link_placement :: "'d intent \<Rightarrow> string \<Rightarrow> ('d, 'b, unit) prog" where
  "link_placement i order_id =
     (case (i_trade_id i, i_direction i) of
        (Some trade_id, Some dir) \<Rightarrow>
          if or_else (i_dry_run i) False \<or> order_id = [] then preturn ()
          else pbind (call (record_position_link
              \<lparr>pl_account = i_account i, pl_trade_id = trade_id, pl_instrument = i_instrument i,
               pl_direction = dir, pl_broker_order_id = order_id, pl_broker_position_id = None\<rparr>))
            (\<lambda>_. preturn ())
      | _ \<Rightarrow> preturn ())"

definition breakeven_of :: "resolved \<Rightarrow> resolved_entry \<Rightarrow> granularity option \<Rightarrow> breakeven_snapshot option" where
  "breakeven_of r entry g =
     (case (rs_breakeven r, g) of
        (Some rule, Some g) \<Rightarrow> Some \<lparr>bs_rule = rule, bs_entry_price = reference_price entry,
          bs_take_profit = rs_take_profit r, bs_granularity = g\<rparr>
      | _ \<Rightarrow> None)"

definition record_attempt ::
  "'d platform \<Rightarrow> 'd entry_call \<Rightarrow> resolved \<Rightarrow> resolved_entry \<Rightarrow> f64 \<Rightarrow> time option \<Rightarrow> nat option \<Rightarrow> string \<Rightarrow>
   ('d, 'b, unit) prog" where
  "record_attempt P E r entry stop cancel_at attempt order_id =
     (case attempt of None \<Rightarrow> preturn ()
      | Some n \<Rightarrow>
          let i = en_intent E in
          record_placement (pf_chrono P) i (sh_time (v_shell (en_verified E))) (i_not_after i) (en_now E) n
            order_id (rs_direction r) stop cancel_at (breakeven_of r entry (en_granularity E))
            (Some \<lparr>oc_original_stop_loss = rs_stop_loss r, oc_take_profit_price = rs_take_profit r,
               oc_min_r = rs_min_r r,
               oc_bar_seconds = map_option granularity_seconds (en_granularity E)\<rparr>))"

definition repoint_replaced :: "'d entry_call \<Rightarrow> f64 \<Rightarrow> string \<Rightarrow> ('d, 'b, unit) prog" where
  "repoint_replaced E stop order_id =
     (let i = en_intent E in
      case (replaced_order_id (en_origin E), i_trade_id i) of
        (Some old, Some trade_id) \<Rightarrow>
          pbind (call (set_entry_attempt_replacement (i_account i) trade_id old order_id (Some stop)))
            (\<lambda>_. preturn ())
      | _ \<Rightarrow> preturn ())"

definition keep_body :: "'d entry_call \<Rightarrow> string \<Rightarrow> ('d, 'b, unit) prog" where
  "keep_body E order_id =
     (case en_raw_body E of None \<Rightarrow> preturn ()
      | Some body \<Rightarrow> pbind (call (put_order_body order_id body)) (\<lambda>_. preturn ()))"

definition placement_verb :: "resolved_entry \<Rightarrow> string" where
  "placement_verb e = (case e of Market _ \<Rightarrow> ''entered'' | _ \<Rightarrow> ''placed'')"

definition placed_outcome ::
  "'d platform \<Rightarrow> 'd entry_call \<Rightarrow> resolved \<Rightarrow> f64 \<Rightarrow> time option \<Rightarrow> nat option \<Rightarrow> placed_entry \<Rightarrow> placement \<Rightarrow>
   ('d, 'b, action_result) prog" where
  "placed_outcome P E r stop cancel_at attempt p placed =
     (let i = en_intent E; oid = pl_order_id placed in
      if rs_dry_run r
      then preturn (Completed (describe_recovery (''dry-run: id='' @ i_id i) (pn_detail p)))
      else
        pbind (link_placement i oid) (\<lambda>_.
        pbind (record_attempt P E r (pn_entry p) stop cancel_at attempt oid) (\<lambda>_.
        pbind (repoint_replaced E stop oid) (\<lambda>_.
        pbind (keep_body E oid) (\<lambda>_.
        preturn (Completed (describe_recovery
          (placement_verb (pn_entry p) @ '': order='' @ oid @ describe_fill placed) (pn_detail p))))))))"

definition undersized_outcome ::
  "'d platform \<Rightarrow> 'd entry_call \<Rightarrow> string \<Rightarrow> resolved \<Rightarrow> f64 \<Rightarrow> placed_entry \<Rightarrow> ('d, 'b, action_result) prog" where
  "undersized_outcome P E trade_id r stop p =
     (let entry = reference_price (rs_entry r); distance = fabs64 (fsub entry stop) in
      pbind (park_stored_entry P E BelowMinSize trade_id (rs_instrument r) distance
          (fabs64 (fsub (rs_take_profit r) entry)) (rs_min_r r)) (\<lambda>parked.
      preturn (Rejected 422
        (''entry blocked: computed position size is below the broker minimum (sl_distance '' @
         show_f64 distance @ '')'')
        (describe_recovery (''rejected: units-below-minimum'' @ parked) (pn_detail p)))))"

definition place_stage ::
  "'d platform \<Rightarrow> 'b broker \<Rightarrow> 'd entry_call \<Rightarrow> string \<Rightarrow> resolved \<Rightarrow> f64 \<Rightarrow> time option \<Rightarrow> nat option \<Rightarrow>
   ('d, 'b, action_result) prog" where
  "place_stage P B E trade_id r stop cancel_at attempt =
     (let cfg = en_cfg E in
      pbind (place_with_recovery B (r\<lparr>rs_stop_loss := stop\<rparr>) (i_entry_level_vetos (en_intent E))
          (resolve_max_risk_pct (dc_caps cfg) (dc_worker_max_risk_pct cfg))
          (resolve_max_open_positions (dc_caps cfg) (dc_worker_max_open_positions cfg))) (\<lambda>p.
      case pn_result p of
        Inr placed \<Rightarrow> placed_outcome P E r stop cancel_at attempt p placed
      | Inl UnitsBelowMinimum \<Rightarrow> undersized_outcome P E trade_id r stop p
      | Inl (AmbiguousEntry detail) \<Rightarrow> preturn (AmbiguousSuccess (describe_recovery
          (outcome_for_entry_failure (AmbiguousEntry detail) (pn_skip p)) (pn_detail p)))
      | Inl e \<Rightarrow> preturn (Failed (describe_recovery (outcome_for_entry_failure e (pn_skip p))
          (pn_detail p)))))"

section \<open>The whole path\<close>

definition run_enter :: "'d platform \<Rightarrow> 'b broker \<Rightarrow> 'd entry_call \<Rightarrow> ('d, 'b, action_result) prog" where
  "run_enter P B E =
     (let v = en_verified E; i = v_intent v; sh = v_shell v; cfg = en_cfg E in
      or_return (pause_stage i) (\<lambda>_.
      or_return (cooldown_stage i) (\<lambda>_.
      or_return (prep_stage (pf_chrono P) i) (\<lambda>_.
      or_return (veto_stage i) (\<lambda>trade_id.
      or_return (resolve_stage P B v cfg (en_now E)) (\<lambda>r.
      or_return (preturn (entry_level_stage i r)) (\<lambda>_.
      or_return (preturn (allow_entry_stage (pf_rhai P) i sh r (pip_size_of i cfg))) (\<lambda>_.
      or_return (preturn (expiry_stage (pf_rhai P) i sh)) (\<lambda>cancel_at.
      or_return (blackout_stage P B E trade_id r) (\<lambda>_.
      or_return (spread_floor_stage P B E trade_id r) (\<lambda>stop.
      or_return (retry_stage P B E) (\<lambda>attempt.
      place_stage P B E trade_id r stop cancel_at attempt))))))))))))"

end
