(* ===== verification/Core_Enter_Facts.thy ===== *)
theory Core_Enter_Facts
  imports Core_Enter
begin

text \<open>
  What the stages of the \<open>enter\<close> path may do to the broker and to the store. \<open>moves R m\<close>
  says that \<open>m\<close> takes the broker only from a state to an \<open>R\<close>-later one, whatever store calls
  fail; the predicate is closed under the combinators of the path. With an order that ignores
  some of the broker's operations, it tells which stages use them.
\<close>

section \<open>Movements of the broker\<close>

definition quasi :: "('b \<Rightarrow> 'b \<Rightarrow> bool) \<Rightarrow> bool" where
  "quasi R \<longleftrightarrow> reflp R \<and> transp R"

definition moves :: "('b \<Rightarrow> 'b \<Rightarrow> bool) \<Rightarrow> ('d, 'b, 'a) prog \<Rightarrow> bool" where
  "moves R m \<longleftrightarrow> (\<forall>W. R (w_broker W) (w_broker (snd (m W))))"

definition op_moves :: "('b \<Rightarrow> 'b \<Rightarrow> bool) \<Rightarrow> ('b \<Rightarrow> 'a \<times> 'b) \<Rightarrow> bool" where
  "op_moves R f \<longleftrightarrow> (\<forall>b. R b (snd (f b)))"

named_theorems move_intros \<open>programs that move the broker along an order\<close>

lemma quasi_refl: "quasi R \<Longrightarrow> R b b"
  by (simp add: quasi_def reflpD)

lemma quasi_trans: "quasi R \<Longrightarrow> R b c \<Longrightarrow> R c d \<Longrightarrow> R b d"
  unfolding quasi_def by (blast dest: transpD)

lemma move_preturn [move_intros]: "quasi R \<Longrightarrow> moves R (preturn x)"
  by (simp add: moves_def quasi_refl)

lemma move_call [move_intros]: "quasi R \<Longrightarrow> moves R (call f)"
  by (simp add: moves_def quasi_refl)

lemma move_bcall [move_intros]: "op_moves R f \<Longrightarrow> moves R (bcall f)"
  by (simp add: moves_def op_moves_def)

lemma move_pbind [move_intros]:
  "quasi R \<Longrightarrow> moves R m \<Longrightarrow> (\<And>x. moves R (k x)) \<Longrightarrow> moves R (pbind m k)"
  unfolding moves_def pbind_simp by (blast intro: quasi_trans)

lemma move_and_then [move_intros]:
  "quasi R \<Longrightarrow> moves R m \<Longrightarrow> (\<And>x. moves R (k x)) \<Longrightarrow> moves R (and_then m k)"
  unfolding and_then_def by (intro move_pbind) (auto split: sum.split intro: move_preturn)

lemma move_pfold [move_intros]:
  assumes "quasi R" "\<And>x t. moves R (f x t)"
  shows "moves R (pfold f xs s)"
proof (induction xs arbitrary: s)
  case (Cons x xs)
  show ?case unfolding pfold.simps
    by (intro move_pbind assms) (auto split: sum.split intro: move_preturn assms(1) Cons)
qed (simp add: move_preturn assms)

lemma move_if [move_intros]: "moves R m \<Longrightarrow> moves R n \<Longrightarrow> moves R (if c then m else n)"
  by simp

lemma move_option [move_intros]:
  "moves R m \<Longrightarrow> (\<And>x. moves R (n x)) \<Longrightarrow> moves R (case q of None \<Rightarrow> m | Some x \<Rightarrow> n x)"
  by (cases q) simp_all

lemma move_sum [move_intros]:
  "(\<And>x. moves R (m x)) \<Longrightarrow> (\<And>x. moves R (n x)) \<Longrightarrow> moves R (case q of Inl x \<Rightarrow> m x | Inr x \<Rightarrow> n x)"
  by (cases q) simp_all

lemma move_prod [move_intros]: "(\<And>x y. moves R (m x y)) \<Longrightarrow> moves R (case q of (x, y) \<Rightarrow> m x y)"
  by (cases q) simp

lemma move_call_or_500 [move_intros]: "quasi R \<Longrightarrow> moves R (call_or_500 f)"
  unfolding call_or_500_def by (intro move_intros)

lemma move_refuse [move_intros]: "quasi R \<Longrightarrow> moves R (refuse_if c r)"
  unfolding refuse_if_def by (intro move_intros)

section \<open>The stages\<close>

definition asks_move :: "('b \<Rightarrow> 'b \<Rightarrow> bool) \<Rightarrow> 'b broker \<Rightarrow> bool" where
  "asks_move R B \<longleftrightarrow> (\<forall>i oid t. op_moves R (lookup_attempt B i oid t)) \<and>
     (\<forall>a. op_moves R (list_open_positions B a)) \<and> (\<forall>i. op_moves R (get_quote B i)) \<and>
     (\<forall>i g t u. op_moves R (get_bidask_candles B i g t u))"

definition cancels_move :: "('b \<Rightarrow> 'b \<Rightarrow> bool) \<Rightarrow> 'b broker \<Rightarrow> bool" where
  "cancels_move R B \<longleftrightarrow> (\<forall>a oid. op_moves R (cancel_order B a oid))"

definition sweeps_move :: "('b \<Rightarrow> 'b \<Rightarrow> bool) \<Rightarrow> 'b broker \<Rightarrow> bool" where
  "sweeps_move R B \<longleftrightarrow> (\<forall>i. op_moves R (cancel_pending_for_instrument B i))"

definition orders_move :: "('b \<Rightarrow> 'b \<Rightarrow> bool) \<Rightarrow> 'b broker \<Rightarrow> bool" where
  "orders_move R B \<longleftrightarrow> (\<forall>cap n req. op_moves R (place_entry B cap n req)) \<and>
     (\<forall>cap n req band. op_moves R (place_market_entry_in_band B cap n req band))"

lemma asks_moveD [move_intros]:
  "asks_move R B \<Longrightarrow> op_moves R (lookup_attempt B i oid t)"
  "asks_move R B \<Longrightarrow> op_moves R (list_open_positions B a)"
  "asks_move R B \<Longrightarrow> op_moves R (get_quote B i)"
  "asks_move R B \<Longrightarrow> op_moves R (get_bidask_candles B i g t' u)"
  by (simp_all add: asks_move_def)

lemma move_pause: "quasi R \<Longrightarrow> moves R (pause_stage i)"
  unfolding pause_stage_def by (intro move_intros)

lemma move_cooldown: "quasi R \<Longrightarrow> moves R (cooldown_stage i)"
  unfolding cooldown_stage_def by (intro move_intros)

lemma move_prep: "quasi R \<Longrightarrow> moves R (prep_stage C i)"
  unfolding prep_stage_def prep_step_def slot_set_ats_def by (intro move_intros)

lemma move_veto: "quasi R \<Longrightarrow> moves R (veto_stage i)"
  unfolding veto_stage_def by (intro move_intros)

lemma move_event [move_intros]: "quasi R \<Longrightarrow> moves R (record_control_event_for a t k nm i ttl now q)"
  unfolding record_control_event_for_def by (intro move_intros)

lemma move_resolve:
  assumes "quasi R" "sweeps_move R B"
  shows "moves R (resolve_stage P B v cfg now)"
proof -
  have "moves R (cancel_mw B i t ttl now)" for i t ttl
    using assms unfolding cancel_mw_def sweeps_move_def by (intro move_intros) auto
  then have "moves R (maybe_update_mw_state B v now)"
    using assms unfolding maybe_update_mw_state_def Let_def
    by (auto intro!: move_intros split: option.split mw_update.split)
  then show ?thesis using assms unfolding resolve_stage_def Let_def by (intro move_intros) auto
qed

section \<open>The gate, the parks and the orders\<close>

lemma move_persist [move_intros]: "quasi R \<Longrightarrow> moves R (persist_identity a found)"
  by (cases "ea_broker_trade_id a"; cases found) (simp_all add: persist_identity_def move_intros)

lemma move_observe: "quasi R \<Longrightarrow> asks_move R B \<Longrightarrow> moves R (observe B a now)"
  unfolding observe_def journal_diagnostic_def Let_def by (intro move_intros)

lemma move_attempt_state [move_intros]:
  "moves R p \<Longrightarrow> (\<And>x. moves R (q x)) \<Longrightarrow> (\<And>x. moves R (w x)) \<Longrightarrow> (\<And>x. moves R (l x)) \<Longrightarrow>
   (\<And>x. moves R (e x)) \<Longrightarrow> moves R c \<Longrightarrow> moves R u \<Longrightarrow>
   moves R (case st of Pending \<Rightarrow> p | OpenPosition x \<Rightarrow> q x | ClosedWin x \<Rightarrow> w x
     | ClosedLossOrBreakeven x \<Rightarrow> l x | ClosedConfirmed x \<Rightarrow> e x | Cancelled \<Rightarrow> c | Unknown \<Rightarrow> u)"
  by (cases st) simp_all

lemma move_cancel_to_replace:
  assumes "quasi R" "asks_move R B" "cancels_move R B"
  shows "moves R (cancel_to_replace B acc t a now)"
proof -
  have "op_moves R (cancel_order B acc' oid)" for acc' oid using assms(3) by (simp add: cancels_move_def)
  then show ?thesis unfolding cancel_to_replace_def after_failed_cancel_def
    by (intro move_intros move_observe assms)
qed

lemma move_walk:
  assumes "quasi R" "asks_move R B" "mode = Full \<Longrightarrow> cancels_move R B"
  shows "moves R (walk B acc t now mode as)"
proof (induction as)
  case Nil
  show ?case unfolding walk.simps by (rule move_preturn [OF assms(1)])
next
  case (Cons a as)
  have "moves R (if mode = Probe then preturn (Inl g) else cancel_to_replace B acc t a now)" for g
    using assms by (cases mode) (simp_all add: move_preturn move_cancel_to_replace)
  then show ?case unfolding walk.simps
    by (intro move_pbind move_sum move_attempt_state move_observe move_preturn Cons assms(1,2))
qed

lemma move_evaluate:
  assumes "quasi R" "asks_move R B" "mode = Full \<Longrightarrow> cancels_move R B"
  shows "moves R (evaluate_at C eval B i sh now mode)"
proof -
  have "moves R (judge_attempts B i t now mode m as)" for t m as
    unfolding judge_attempts_def open_position_backstop_def by (intro move_intros move_walk assms)
  then show ?thesis unfolding evaluate_at_def by (intro move_intros assms)
qed

lemma move_ask_gate:
  "quasi R \<Longrightarrow> asks_move R B \<Longrightarrow> (mode = Full \<Longrightarrow> cancels_move R B) \<Longrightarrow> moves R (ask_gate P B E mode)"
  unfolding ask_gate_def by (intro move_intros move_evaluate)

lemma move_park: "quasi R \<Longrightarrow> moves R (park_stored_entry P E reason t i sl tp m)"
  unfolding park_stored_entry_def park_order_def Let_def by (intro move_intros)

lemma move_defer: "quasi R \<Longrightarrow> asks_move R B \<Longrightarrow> moves R (defer_entry P B E reason t r m)"
  unfolding defer_entry_def dedup_before_park_def Let_def
  by (intro move_intros move_ask_gate move_park) simp_all

lemma move_blackout: "quasi R \<Longrightarrow> asks_move R B \<Longrightarrow> moves R (blackout_stage P B E t r)"
  unfolding blackout_stage_def session_gate_def spread_gate_def Let_def
  by (intro move_intros move_defer)

lemma move_spread_floor: "quasi R \<Longrightarrow> asks_move R B \<Longrightarrow> moves R (spread_floor_stage P B E t r)"
  unfolding spread_floor_stage_def effective_spread_def windowed_entry_spread_def Let_def
  by (auto intro!: move_intros move_defer split: sl_widen.split)

lemma move_retry:
  "quasi R \<Longrightarrow> asks_move R B \<Longrightarrow> cancels_move R B \<Longrightarrow> moves R (retry_stage P B E)"
  unfolding retry_stage_def by (intro move_intros move_ask_gate)

lemma place_with_recovery_first:
  assumes "quasi R" "asks_move R B" "orders_move R B"
  shows "\<exists>k. place_with_recovery B r vetos cap n =
      pbind (bcall (place_entry B cap n (request_of r (rs_entry r)))) k \<and> (\<forall>x. moves R (k x))"
proof -
  have o: "op_moves R (place_entry B cap n req)" "op_moves R (place_market_entry_in_band B cap n req band)"
    for req band using assms by (simp_all add: orders_move_def)
  have m: "moves R (place_market B r band cap n d)" for band d
    unfolding place_market_def Let_def by (intro move_intros o assms)
  have "moves R (recover_near B r d vetos cap n)" for d
    unfolding recover_near_def Let_def
    by (auto intro!: move_intros o m assms split: entry_error.split)
  moreover have "moves R (too_close_fallback B r cap n)"
    unfolding too_close_fallback_def Let_def
    by (auto intro!: move_intros o assms split: resolved_entry.split recover_plan.split)
  ultimately show ?thesis unfolding place_with_recovery_def Let_def
    by (intro exI conjI allI) (rule refl, auto intro!: move_intros assms split: entry_error.split)
qed

lemma move_place_with_recovery:
  assumes "quasi R" "asks_move R B" "orders_move R B"
  shows "moves R (place_with_recovery B r vetos cap n :: ('d, 'b, placed_entry) prog)"
proof -
  obtain k :: "entry_error + placement \<Rightarrow> ('d, 'b, placed_entry) prog" where
      "place_with_recovery B r vetos cap n =
      pbind (bcall (place_entry B cap n (request_of r (rs_entry r)))) k" "\<forall>x. moves R (k x)"
    using place_with_recovery_first [OF assms] by blast
  then show ?thesis using assms(3)
    by (simp only:) (rule move_pbind [OF assms(1) move_bcall], simp_all add: orders_move_def)
qed

lemma place_stage_first:
  assumes "quasi R"
  shows "\<exists>k. place_stage P B E t r stop ca n =
      pbind (place_with_recovery B (r\<lparr>rs_stop_loss := stop\<rparr>) (i_entry_level_vetos (en_intent E))
          (resolve_max_risk_pct (dc_caps (en_cfg E)) (dc_worker_max_risk_pct (en_cfg E)))
          (resolve_max_open_positions (dc_caps (en_cfg E)) (dc_worker_max_open_positions (en_cfg E)))) k \<and>
    (\<forall>x. moves R (k x))"
proof -
  have "moves R (placed_outcome P E r stop ca n p placed)" for p placed
    unfolding placed_outcome_def link_placement_def record_attempt_def record_placement_def
      repoint_replaced_def keep_body_def Let_def by (intro move_intros assms(1))
  moreover have "moves R (undersized_outcome P E t r stop p)" for p
    unfolding undersized_outcome_def Let_def by (intro move_intros move_park assms(1))
  ultimately show ?thesis unfolding place_stage_def Let_def
    by (intro exI conjI allI) (rule refl, auto intro!: move_preturn assms split: sum.split entry_error.split)
qed

lemma move_place:
  assumes "quasi R" "asks_move R B" "orders_move R B"
  shows "moves R (place_stage P B E t r stop ca n)"
proof -
  obtain k where "place_stage P B E t r stop ca n =
      pbind (place_with_recovery B (r\<lparr>rs_stop_loss := stop\<rparr>) (i_entry_level_vetos (en_intent E))
          (resolve_max_risk_pct (dc_caps (en_cfg E)) (dc_worker_max_risk_pct (en_cfg E)))
          (resolve_max_open_positions (dc_caps (en_cfg E)) (dc_worker_max_open_positions (en_cfg E)))) k"
      "\<forall>x. moves R (k x)"
    using place_stage_first [OF assms(1), of P B E t r stop ca n] by blast
  then show ?thesis
    by (simp only:) (rule move_pbind [OF assms(1) move_place_with_recovery [OF assms]], simp)
qed

section \<open>Early returns\<close>

lemma or_return_cases:
  "or_return m k W = (case fst (m W) of Inl a \<Rightarrow> (a, snd (m W)) | Inr x \<Rightarrow> k x (snd (m W)))"
  by (simp add: or_return_def split: sum.split)

text \<open>A chain that left the \<open>R\<close>-successors of its start did so after its first stage passed.\<close>

lemma or_return_escape:
  assumes "quasi R" "moves R m" "\<not> R b (w_broker (snd (or_return m k W)))" "R b (w_broker W)"
  obtains x where "fst (m W) = Inr x" "or_return m k W = k x (snd (m W))"
    "R b (w_broker (snd (m W)))" "\<not> R b (w_broker (snd (k x (snd (m W)))))"
proof -
  have "R b (w_broker (snd (m W)))"
    using assms(2,4) quasi_trans [OF assms(1)] by (auto simp: moves_def)
  with assms(3) that show thesis by (auto simp: or_return_cases split: sum.splits)
qed

lemma move_or_return [move_intros]:
  "quasi R \<Longrightarrow> moves R m \<Longrightarrow> (\<And>x. moves R (k x)) \<Longrightarrow> moves R (or_return m k)"
  unfolding or_return_def by (intro move_pbind) (auto split: sum.split intro: move_preturn)

end
