(* ===== verification/Core_Enter_Preps.thy ===== *)
theory Core_Enter_Preps
  imports Core_Enter_Facts
begin

text \<open>
  The gates of the \<open>enter\<close> path that only read the store: what a pass of each means for the
  store, and the preparation chain, whose greedy pass over the slots finds a chain whenever
  one exists.
\<close>

section \<open>Read-only stages\<close>

lemma call_or_500_store [simp]: "reads f \<Longrightarrow> w_store (snd (call_or_500 f W)) = w_store W"
  by (simp add: call_or_500_def call_reads)

lemma call_or_500_value: "fst (call_or_500 f W) = Inr x \<Longrightarrow> fst (f (w_store W)) = Inr x"
  using call_value [of f W x] by (auto simp: call_or_500_def split: sum.splits)

lemma refuse_if_simps [simp]:
  "fst (refuse_if c r W) = Inr u \<longleftrightarrow> \<not> c" "snd (refuse_if c r W) = W"
  by (simp_all add: refuse_if_def)

lemma and_then_Inr:
  "fst (and_then m k W) = Inr y \<longleftrightarrow> (\<exists>x. fst (m W) = Inr x \<and> fst (k x (snd (m W))) = Inr y)"
  by (auto simp: and_then_def split: sum.split)

lemma and_then_store:
  "w_store (snd (m W)) = w_store W \<Longrightarrow> (\<And>x. w_store (snd (k x (snd (m W)))) = w_store (snd (m W))) \<Longrightarrow>
   w_store (snd (and_then m k W)) = w_store W"
  by (simp add: and_then_def split: sum.split)

lemma pfold_store:
  "(\<And>x t W. w_store (snd (f x t W)) = w_store W) \<Longrightarrow> w_store (snd (pfold f xs s W)) = w_store W"
proof (induction xs arbitrary: s W)
  case (Cons x xs)
  then show ?case by (simp split: sum.split)
qed simp

lemma reads_simps [simp]:
  "reads (list_pauses_for_trade t)" "reads (is_cooled_down a i)" "reads (get_prep C a i step)"
  "reads (is_vetoed a t i v)"
  by (simp_all add: reads_def list_pauses_for_trade_def is_cooled_down_def get_prep_def is_vetoed_def
      split: option.split)

lemma pause_pass:
  "w_store (snd (pause_stage i W)) = w_store W"
  "fst (pause_stage i W) = Inr u \<Longrightarrow> i_trade_id i = Some t \<Longrightarrow>
     fst (list_pauses_for_trade t (w_store W)) = Inr []"
  by (auto simp: pause_stage_def and_then_Inr dest: call_or_500_value intro!: and_then_store split: option.split)

lemma cooldown_pass:
  "w_store (snd (cooldown_stage i W)) = w_store W"
  "fst (cooldown_stage i W) = Inr u \<Longrightarrow> fst (is_cooled_down (i_account i) (i_instrument i) (w_store W)) = Inr False"
  by (auto simp: cooldown_stage_def and_then_Inr dest: call_or_500_value intro!: and_then_store)

lemma veto_fold:
  assumes "\<And>v u W. w_store (snd (f v u W)) = w_store W"
    and "\<And>v u W x. fst (f v u W) = Inr x \<Longrightarrow> p v (w_store W)"
  shows "fst (pfold f vs u W) = Inr x \<Longrightarrow> v \<in> set vs \<Longrightarrow> p v (w_store W)"
proof (induction vs arbitrary: u W)
  case (Cons w vs)
  then show ?case using assms by (auto split: sum.splits) metis+
qed simp

lemma veto_pass:
  "w_store (snd (veto_stage i W)) = w_store W"
  "fst (veto_stage i W) = Inr t \<Longrightarrow> i_trade_id i = Some t \<and>
     (\<forall>v \<in> set (i_vetos i). fst (is_vetoed (i_account i) t (i_instrument i) v (w_store W)) = Inr False)"
proof -
  let ?f = "\<lambda>t veto (_ :: unit). and_then (call_or_500 (is_vetoed (i_account i) t (i_instrument i) veto)) (\<lambda>active.
      refuse_if active (Rejected 412 ''veto active'' (''rejected: veto-active ('' @ veto @ '')'')))"
  have s: "w_store (snd (?f t v u W)) = w_store W" for t v u and W :: "('a, 'b) world"
    by (rule and_then_store) simp_all
  show "w_store (snd (veto_stage i W)) = w_store W"
    by (auto simp: veto_stage_def intro!: and_then_store pfold_store s split: option.split)
  have v: "fst (?f t v u W) = Inr x \<Longrightarrow> fst (is_vetoed (i_account i) t (i_instrument i) v (w_store W)) = Inr False"
    for t v u x and W :: "('a, 'b) world" by (auto simp: and_then_Inr dest: call_or_500_value)
  show "fst (veto_stage i W) = Inr t \<Longrightarrow> i_trade_id i = Some t \<and>
     (\<forall>v \<in> set (i_vetos i). fst (is_vetoed (i_account i) t (i_instrument i) v (w_store W)) = Inr False)"
    using veto_fold [where f = "?f t" and p = "\<lambda>v s. fst (is_vetoed (i_account i) t (i_instrument i) v s) = Inr False",
        OF s v]
    by (auto simp: veto_stage_def and_then_Inr split: option.splits)
qed

section \<open>One slot\<close>

definition lates :: "time option \<Rightarrow> time option list \<Rightarrow> time set" where
  "lates prev ats = {t. Some t \<in> set ats \<and> (prev = None \<or> the prev < t)}"

lemma finite_lates [simp]: "finite (lates prev ats)"
  by (rule finite_subset [of _ "the ` set ats"]) (force simp: lates_def)+

lemma lates_Cons:
  "lates prev (a # ats) = (case a of Some t \<Rightarrow> if prev = None \<or> the prev < t then insert t (lates prev ats)
     else lates prev ats | None \<Rightarrow> lates prev ats)"
  by (auto simp: lates_def split: option.split)

lemma slot_scan_Min:
  "snd (fold (slot_scan prev) ats (b, m)) =
     (let S = lates prev ats \<union> set_option m in if S = {} then None else Some (Min S))"
proof (induction ats arbitrary: b m)
  case Nil
  show ?case by (cases m) (simp_all add: lates_def)
next
  case (Cons a ats)
  then show ?case
    by (cases a; cases m; cases "lates prev ats = {}")
      (auto simp: slot_scan_def lates_Cons Let_def min.assoc min.left_commute min.commute)
qed

lemma resolve_slot_Satisfied:
  "resolve_slot ats prev = Satisfied t \<longleftrightarrow> lates prev ats \<noteq> {} \<and> t = Min (lates prev ats)"
proof -
  obtain b q where f: "fold (slot_scan prev) ats (False, None) = (b, q)" by fastforce
  with slot_scan_Min [of prev ats False None]
  have "q = (if lates prev ats = {} then None else Some (Min (lates prev ats)))" by (simp add: Let_def)
  with f show ?thesis by (auto simp: resolve_slot_def split: if_splits)
qed

section \<open>The chain\<close>

text \<open>One instant per slot, each later than the one before.\<close>

fun chain_from :: "time option \<Rightarrow> time option list list \<Rightarrow> bool" where
  "chain_from prev [] \<longleftrightarrow> True"
| "chain_from prev (ats # rest) \<longleftrightarrow> (\<exists>t \<in> lates prev ats. chain_from (Some t) rest)"

lemma chain_from_sorted:
  "chain_from prev slots \<longleftrightarrow> (\<exists>ts. list_all2 (\<lambda>t ats. Some t \<in> set ats) ts slots \<and> sorted_wrt (<) ts \<and>
     (\<forall>t \<in> set ts. prev = None \<or> the prev < t))"
proof (induction slots arbitrary: prev)
  case (Cons ats rest)
  show ?case
  proof
    assume "chain_from prev (ats # rest)"
    then obtain t where t: "t \<in> lates prev ats" "chain_from (Some t) rest" by auto
    then obtain ts where "list_all2 (\<lambda>t ats. Some t \<in> set ats) ts rest" "sorted_wrt (<) ts" "\<forall>u \<in> set ts. t < u"
      using Cons.IH by auto
    with t(1) show "\<exists>ts. list_all2 (\<lambda>t ats. Some t \<in> set ats) ts (ats # rest) \<and> sorted_wrt (<) ts \<and>
        (\<forall>t \<in> set ts. prev = None \<or> the prev < t)"
      by (intro exI [of _ "t # ts"]) (auto simp: lates_def intro: less_trans)
  next
    assume "\<exists>ts. list_all2 (\<lambda>t ats. Some t \<in> set ats) ts (ats # rest) \<and> sorted_wrt (<) ts \<and>
        (\<forall>t \<in> set ts. prev = None \<or> the prev < t)"
    then obtain t ts where "Some t \<in> set ats" "list_all2 (\<lambda>t ats. Some t \<in> set ats) ts rest"
        "sorted_wrt (<) (t # ts)" "prev = None \<or> the prev < t"
      by (auto simp: list_all2_Cons2)
    then show "chain_from prev (ats # rest)" using Cons.IH [of "Some t"] by (auto simp: lates_def)
  qed
qed simp

lemma chain_earlier:
  "chain_from (Some t) slots \<Longrightarrow> u \<le> t \<Longrightarrow> chain_from (Some u) slots"
  by (cases slots) (force simp: lates_def)+

text \<open>The greedy choice of the code: the earliest stamp late enough.\<close>

fun greedy :: "time option \<Rightarrow> time option list list \<Rightarrow> bool" where
  "greedy prev [] \<longleftrightarrow> True"
| "greedy prev (ats # rest) \<longleftrightarrow> lates prev ats \<noteq> {} \<and> greedy (Some (Min (lates prev ats))) rest"

lemma greedy_chain: "greedy prev slots \<longleftrightarrow> chain_from prev slots"
proof (induction slots arbitrary: prev)
  case (Cons ats rest)
  have "chain_from (Some (Min (lates prev ats))) rest" if "t \<in> lates prev ats" "chain_from (Some t) rest" for t
    using chain_earlier [OF that(2)] that(1) by simp
  moreover have "Min (lates prev ats) \<in> lates prev ats" if "lates prev ats \<noteq> {}"
    using that by (rule Min_in [OF finite_lates])
  ultimately show ?case unfolding greedy.simps chain_from.simps Cons by blast
qed simp

section \<open>The preparation stage\<close>

definition slot_stamps :: "chrono \<Rightarrow> 'd intent \<Rightarrow> 'd mem_store \<Rightarrow> prep_req \<Rightarrow> time option list" where
  "slot_stamps C i s slot = map (\<lambda>step. case fst (get_prep C (i_account i) (i_instrument i) step s) of
     Inr q \<Rightarrow> q | Inl _ \<Rightarrow> None) (alternatives slot)"

definition prep_chain :: "chrono \<Rightarrow> 'd intent \<Rightarrow> 'd mem_store \<Rightarrow> bool" where
  "prep_chain C i s \<longleftrightarrow> chain_from None (map (slot_stamps C i s) (i_requires_preps i))"

lemma pfold_collect:
  assumes "\<And>x acc W. w_store (snd (f x acc W)) = w_store W"
    and "\<And>x acc t W. fst (f x acc W) = Inr t \<Longrightarrow> t = acc @ [g x (w_store W)]"
  shows "fst (pfold f xs acc W) = Inr t \<Longrightarrow> t = acc @ map (\<lambda>x. g x (w_store W)) xs"
proof (induction xs arbitrary: acc W)
  case (Cons x xs)
  from Cons.prems obtain u where "fst (f x acc W) = Inr u" "fst (pfold f xs u (snd (f x acc W))) = Inr t"
    by (auto split: sum.splits)
  with Cons.IH [OF this(2)] assms(2) [OF this(1)] show ?case by (simp add: assms(1))
qed simp

lemma slot_set_ats_pass:
  "w_store (snd (slot_set_ats C i slot W)) = w_store W"
  "fst (slot_set_ats C i slot W) = Inr ats \<Longrightarrow> ats = slot_stamps C i (w_store W) slot"
proof -
  let ?f = "\<lambda>step acc. and_then (call_or_500 (get_prep C (i_account i) (i_instrument i) step))
         (\<lambda>set_at. preturn (Inr (acc @ [set_at])))"
  have s: "w_store (snd (?f step acc W)) = w_store W" for step acc and W :: "('a, 'b) world"
    by (rule and_then_store) simp_all
  show "w_store (snd (slot_set_ats C i slot W)) = w_store W"
    unfolding slot_set_ats_def by (rule pfold_store) (rule s)
  have v: "fst (?f step acc W) = Inr t \<Longrightarrow> t = acc @ [case fst (get_prep C (i_account i) (i_instrument i) step
      (w_store W)) of Inr q \<Rightarrow> q | Inl _ \<Rightarrow> None]" for step acc t and W :: "('a, 'b) world"
    by (auto simp: and_then_Inr dest: call_or_500_value)
  show "fst (slot_set_ats C i slot W) = Inr ats \<Longrightarrow> ats = slot_stamps C i (w_store W) slot"
    using pfold_collect [where f = ?f and g = "\<lambda>step s. case fst (get_prep C (i_account i) (i_instrument i) step s) of
        Inr q \<Rightarrow> q | Inl _ \<Rightarrow> None" and acc = "[]", OF s v]
    by (simp add: slot_set_ats_def slot_stamps_def)
qed

lemma judge_slot_Inr:
  "judge_slot slot ats prev = Inr q \<longleftrightarrow> lates prev ats \<noteq> {} \<and> q = Some (Min (lates prev ats))"
proof (cases "resolve_slot ats prev")
  case (Satisfied t)
  with resolve_slot_Satisfied [of ats prev t] show ?thesis by (auto simp: judge_slot_def)
next
  case OutOfOrder
  with resolve_slot_Satisfied [of ats prev] show ?thesis by (auto simp: judge_slot_def)
next
  case Missing
  with resolve_slot_Satisfied [of ats prev] show ?thesis by (auto simp: judge_slot_def)
qed

lemma prep_step_store: "w_store (snd (prep_step C i slot prev W)) = w_store W"
  unfolding prep_step_def by (rule and_then_store) (simp_all add: slot_set_ats_pass)

lemma prep_fold_greedy:
  "fst (pfold (prep_step C i) slots prev W) = Inr q \<Longrightarrow> greedy prev (map (slot_stamps C i (w_store W)) slots)"
proof (induction slots arbitrary: prev W)
  case (Cons slot slots)
  from Cons.prems obtain p where p: "fst (prep_step C i slot prev W) = Inr p"
      "fst (pfold (prep_step C i) slots p (snd (prep_step C i slot prev W))) = Inr q"
    by (auto split: sum.splits)
  from p(1) have "lates prev (slot_stamps C i (w_store W) slot) \<noteq> {}"
      "p = Some (Min (lates prev (slot_stamps C i (w_store W) slot)))"
    by (auto simp: prep_step_def and_then_Inr judge_slot_Inr dest!: slot_set_ats_pass(2))
  with Cons.IH [OF p(2)] show ?case by (simp add: prep_step_store)
qed simp

lemma prep_pass:
  "w_store (snd (prep_stage C i W)) = w_store W"
  "fst (prep_stage C i W) = Inr q \<Longrightarrow> prep_chain C i (w_store W)"
  unfolding prep_stage_def
  by (rule pfold_store, rule prep_step_store)
    (auto simp: prep_chain_def simp flip: greedy_chain dest: prep_fold_greedy)

text \<open>Without faults and with stamps that parse, the stage passes whenever it may.\<close>

definition preps_readable :: "chrono \<Rightarrow> 'd intent \<Rightarrow> 'd mem_store \<Rightarrow> prep_req list \<Rightarrow> bool" where
  "preps_readable C i s slots \<longleftrightarrow> (\<forall>slot \<in> set slots. \<forall>step \<in> set (alternatives slot).
     is_ok (fst (get_prep C (i_account i) (i_instrument i) step s)))"

lemma slot_set_ats_healthy:
  fixes W :: "('d, 'b) world"
  assumes "healthy W" "preps_readable C i (w_store W) [slot]"
  shows "slot_set_ats C i slot W = (Inr (slot_stamps C i (w_store W) slot), W)"
proof -
  let ?f = "\<lambda>step acc. and_then (call_or_500 (get_prep C (i_account i) (i_instrument i) step))
         (\<lambda>set_at. preturn (Inr (acc @ [set_at])))"
  have g: "snd (get_prep C a n step s) = s" for a n step and s :: "'d mem_store"
    by (simp add: get_prep_def split: option.split)
  have "\<forall>step \<in> set steps. is_ok (fst (get_prep C (i_account i) (i_instrument i) step (w_store W))) \<Longrightarrow>
      pfold ?f steps acc W = (Inr (acc @ map (\<lambda>step. case fst (get_prep C (i_account i) (i_instrument i) step (w_store W))
        of Inr q \<Rightarrow> q | Inl _ \<Rightarrow> None) steps), W)" for steps acc
  proof (induction steps arbitrary: acc)
    case (Cons step steps)
    then obtain q where "fst (get_prep C (i_account i) (i_instrument i) step (w_store W)) = Inr q"
      by (auto simp: is_ok_def split: sum.splits)
    with Cons assms(1) show ?case
      by (simp add: and_then_def call_or_500_def call_healthy g)
  qed simp
  from this [of "alternatives slot" "[]"] assms(2) show ?thesis
    by (simp add: preps_readable_def slot_set_ats_def slot_stamps_def)
qed

lemma prep_fold_healthy:
  fixes W :: "('d, 'b) world"
  assumes "healthy W"
  shows "preps_readable C i (w_store W) slots \<Longrightarrow> greedy prev (map (slot_stamps C i (w_store W)) slots) \<Longrightarrow>
    \<exists>q. fst (pfold (prep_step C i) slots prev W) = Inr q"
proof (induction slots arbitrary: prev)
  case (Cons slot slots)
  have r: "preps_readable C i (w_store W) [slot]" "preps_readable C i (w_store W) slots"
    using Cons.prems(1) by (simp_all add: preps_readable_def)
  have "prep_step C i slot prev W = (Inr (Some (Min (lates prev (slot_stamps C i (w_store W) slot)))), W)"
    using Cons.prems(2) judge_slot_Inr [of slot "slot_stamps C i (w_store W) slot" prev]
    by (simp add: prep_step_def and_then_def slot_set_ats_healthy [OF assms r(1)])
  with Cons.IH [OF r(2)] Cons.prems(2) show ?case by simp
qed simp

lemma prep_stage_iff:
  assumes "healthy W" "preps_readable C i (w_store W) (i_requires_preps i)"
  shows "is_ok (fst (prep_stage C i W)) \<longleftrightarrow> prep_chain C i (w_store W)"
proof
  assume "is_ok (fst (prep_stage C i W))"
  then show "prep_chain C i (w_store W)" by (auto simp: is_ok_def split: sum.splits intro: prep_pass(2))
next
  assume "prep_chain C i (w_store W)"
  then show "is_ok (fst (prep_stage C i W))"
    using prep_fold_healthy [OF assms, of None]
    by (auto simp: prep_chain_def prep_stage_def is_ok_def simp flip: greedy_chain)
qed

end
