(* ===== verification/Core_Enter_Chain.thy ===== *)
theory Core_Enter_Chain
  imports Core_Enter_Preps
begin

text \<open>
  The \<open>enter\<close> path as a whole: a run that gets as far as the retry gate has passed every gate
  before it, and a run that gets as far as placing has passed that one too.
\<close>

section \<open>What the later stages' passes mean\<close>

lemma resolve_pass:
  assumes "fst (resolve_stage P B v cfg now W) = Inr r"
  shows "from_intent (pf_rhai P) (v_intent v) (v_shell v) (pip_size_of (v_intent v) cfg)
        (tick_size_of (v_intent v) cfg) = Inr r \<or>
    (\<exists>w. from_mw_intent (pf_rhai P) (v_intent v) (v_shell v) w (tick_size_of (v_intent v) cfg) = Inr r)"
proof -
  have "resolve_answer q = Inr r \<Longrightarrow> q = Inr r" for q
    by (auto simp: resolve_answer_def split: sum.splits resolve_error.splits)
  with assms show ?thesis by (auto simp: resolve_stage_def Let_def split: mw_outcome.splits)
qed

lemma entry_level_pass:
  "entry_level_stage i r = Inr u \<longleftrightarrow>
     list_all (\<lambda>v. \<not> is_past v (reference_price (rs_entry r))) (i_entry_level_vetos i)"
  by (auto simp: entry_level_stage_def list_all_iff find_None_iff find_Some_iff split: option.split)

lemma allow_entry_pass:
  "allow_entry_stage R i sh r pip_size = Inr u \<Longrightarrow> allow_entry_of R i sh r pip_size = AllowProceed"
  by (simp add: allow_entry_stage_def split: allow_entry.splits)

lemma blackout_pass:
  assumes "fst (blackout_stage P B E t r W) = Inr u" "en_origin E = Fresh"
  shows "\<not> session_closed (pf_venue P) (rs_instrument r) (en_now E) \<and>
    \<not> market_hours_blocked (pf_venue P) (rs_instrument r) (en_now E)"
  using assms
  by (auto simp: blackout_stage_def is_replacement_def and_then_Inr session_gate_def hours_gate_def
      split: if_splits)

lemma spread_floor_pass:
  assumes "fst (spread_floor_stage P B E t r W) = Inr stop"
  shows "stop = rs_stop_loss r \<or> (\<exists>spread d q. widen_sl_to_spread_floor (reference_price (rs_entry r))
      (rs_stop_loss r) (rs_take_profit r) spread (rs_min_r r) (tick_size_of (en_intent E) (en_cfg E))
      = Widened stop d q)"
  using assms
  by (auto simp: spread_floor_stage_def and_then_Inr split: option.splits sl_widen.splits)

lemma retry_pass:
  assumes "fst (retry_stage P B E W) = Inr n" "needs_gate E"
  shows "\<exists>m. n = Some m \<and> fst (evaluate_at (pf_chrono P) (pf_rhai P) B (en_intent E)
    (v_shell (en_verified E)) (en_now E) Full W) = Proceed m"
  using assms
  by (auto simp: retry_stage_def and_then_Inr ask_gate_def gate_answer_def split: gate_outcome.splits)

section \<open>As far as the retry gate\<close>

text \<open>What the gates before the retry gate have let pass.\<close>

definition admitted ::
  "'d platform \<Rightarrow> 'd entry_call \<Rightarrow> 'd mem_store \<Rightarrow> string \<Rightarrow> resolved \<Rightarrow> f64 \<Rightarrow> bool" where
  "admitted P E s t r stop \<longleftrightarrow>
     (let i = en_intent E; sh = v_shell (en_verified E); cfg = en_cfg E;
          pip_size = pip_size_of i cfg; tick = tick_size_of i cfg in
      i_trade_id i = Some t \<and>
      fst (list_pauses_for_trade t s) = Inr [] \<and>
      fst (is_cooled_down (i_account i) (i_instrument i) s) = Inr False \<and>
      prep_chain (pf_chrono P) i s \<and>
      list_all (\<lambda>v. fst (is_vetoed (i_account i) t (i_instrument i) v s) = Inr False) (i_vetos i) \<and>
      (from_intent (pf_rhai P) i sh pip_size tick = Inr r \<or>
        (\<exists>w. from_mw_intent (pf_rhai P) i sh w tick = Inr r)) \<and>
      list_all (\<lambda>v. \<not> is_past v (reference_price (rs_entry r))) (i_entry_level_vetos i) \<and>
      allow_entry_of (pf_rhai P) i sh r pip_size = AllowProceed \<and>
      (en_origin E = Fresh \<longrightarrow> \<not> session_closed (pf_venue P) (rs_instrument r) (en_now E) \<and>
        \<not> market_hours_blocked (pf_venue P) (rs_instrument r) (en_now E)) \<and>
      (stop = rs_stop_loss r \<or> (\<exists>spread d q. widen_sl_to_spread_floor (reference_price (rs_entry r))
        (rs_stop_loss r) (rs_take_profit r) spread (rs_min_r r) tick = Widened stop d q)))"

lemma admittedI:
  assumes "fst (pause_stage i W) = Inr u1" "fst (cooldown_stage i W1) = Inr u2"
    and "fst (prep_stage (pf_chrono P) i W2) = Inr u3" "fst (veto_stage i W3) = Inr t"
    and "fst (resolve_stage P B (en_verified E) (en_cfg E) (en_now E) W4) = Inr r"
    and "fst (preturn (entry_level_stage i r) W5) = Inr u5"
    and "fst (preturn (allow_entry_stage (pf_rhai P) i (v_shell (en_verified E)) r
           (pip_size_of i (en_cfg E))) W6) = Inr u6"
    and "fst (blackout_stage P B E t r W7) = Inr u7" "fst (spread_floor_stage P B E t r W8) = Inr stop"
    and "w_store W1 = w_store W" "w_store W2 = w_store W" "w_store W3 = w_store W" "i = en_intent E"
  shows "admitted P E (w_store W) t r stop"
  using assms pause_pass(2) [OF assms(1)] cooldown_pass(2) [OF assms(2)] prep_pass(2) [OF assms(3)]
    veto_pass(2) [OF assms(4)] resolve_pass [OF assms(5)] allow_entry_pass spread_floor_pass [OF assms(9)]
    blackout_pass [OF assms(8)]
  by (simp add: admitted_def Let_def entry_level_pass list_all_iff)

lemma escape_step:
  assumes "quasi R" "\<not> R b (w_broker (snd X))" "X = or_return m k W" "R b (w_broker W)" "moves R m"
  obtains x where "fst (m W) = Inr x" "X = k x (snd (m W))" "R b (w_broker (snd (m W)))"
  using or_return_escape [OF assms(1,5), of b k W] assms by metis

lemma enter_to_retry:
  fixes W :: "('d, 'b) world"
  assumes "quasi R" "asks_move R B" "sweeps_move R B"
    and escape: "\<not> R (w_broker W) (w_broker (snd (run_enter P B E W)))"
  obtains (reached) t r stop ca W' where "admitted P E (w_store W) t r stop" "R (w_broker W) (w_broker W')"
    "run_enter P B E W = or_return (retry_stage P B E) (place_stage P B E t r stop ca) W'"
proof -
  define X where "X = run_enter P B E W"
  note step = escape_step [OF assms(1) escape [folded X_def]]
  note q = assms(1)
  have that': thesis if "X = or_return (retry_stage P B E) (place_stage P B E t r stop ca) W'"
      "R (w_broker W) (w_broker W')" "admitted P E (w_store W) t r stop" for t r stop ca and W' :: "('d, 'b) world"
    by (rule reached [OF that(3,2)]) (simp add: that(1) X_def [symmetric])
  note mv = move_pause [OF q] move_cooldown [OF q] move_prep [OF q] move_veto [OF q]
    move_resolve [OF q assms(3)] move_preturn [OF q] move_blackout [OF q assms(2)]
    move_spread_floor [OF q assms(2)]
  from X_def show thesis
    unfolding run_enter_def Let_def
    apply -
    apply (erule step, rule quasi_refl [OF q], rule mv)
    apply (erule (1) step, rule mv)+
    apply (erule (1) that')
    apply (rule admittedI, assumption+)
       apply (simp_all add: pause_pass(1) cooldown_pass(1) prep_pass(1))
    done
qed

section \<open>The first order call\<close>

text \<open>Placing always asks for the order first, so a count of order calls grows.\<close>

lemma quasi_count: "quasi (\<lambda>b b'. g b \<le> (g b' :: nat))"
  by (auto simp: quasi_def intro!: reflpI transpI)

lemma place_counts:
  fixes W :: "('d, 'b) world"
  assumes "asks_move (\<lambda>b b'. g b \<le> (g b' :: nat)) B" "orders_move (\<lambda>b b'. g b \<le> g b') B"
    and first: "\<forall>cap n req b. g b < g (snd (place_entry B cap n req b))"
  shows "g (w_broker W) < g (w_broker (snd (place_stage P B E t r stop ca n W)))"
proof -
  note q = quasi_count [of g]
  obtain k where k: "place_stage P B E t r stop ca n =
      pbind (place_with_recovery B (r\<lparr>rs_stop_loss := stop\<rparr>) (i_entry_level_vetos (en_intent E))
          (resolve_max_risk_pct (dc_caps (en_cfg E)) (dc_worker_max_risk_pct (en_cfg E)))
          (resolve_max_open_positions (dc_caps (en_cfg E)) (dc_worker_max_open_positions (en_cfg E)))) k"
      "\<forall>x. moves (\<lambda>b b'. g b \<le> g b') (k x)"
    using place_stage_first [OF q] by blast
  have "g (w_broker W) < g (w_broker (snd (place_with_recovery B q vetos cap n W)))" for q vetos cap n
  proof -
    obtain j :: "entry_error + placement \<Rightarrow> ('d, 'b, placed_entry) prog" where
      "place_with_recovery B q vetos cap n =
        pbind (bcall (place_entry B cap n (request_of q (rs_entry q)))) j" "\<forall>x. moves (\<lambda>b b'. g b \<le> g b') (j x)"
      using place_with_recovery_first [OF quasi_count assms(1,2)] by blast
    moreover have "g (w_broker W) < g (w_broker (snd (bcall (place_entry B cap n (request_of q (rs_entry q))) W)))"
      using first by simp
    ultimately show ?thesis unfolding moves_def by (simp only: pbind_simp) (blast intro: less_le_trans)
  qed
  then show ?thesis using k(2) unfolding k(1) moves_def pbind_simp by (blast intro: less_le_trans)
qed

section \<open>Resolved geometry\<close>

lemma resolve_entry_ref:
  "resolve_entry e dir sh pip_size stop_loss = Inr (entry, ref, rec) \<Longrightarrow> reference_price entry = ref"
  by (auto simp: resolve_entry_def Let_def result_simps split: entry_spec.splits if_splits option.splits recover_action.splits)

lemma round_entry_ref [simp]:
  "reference_price (round_resolved_entry tick e) = round_price (reference_price e) tick"
  by (cases e) simp_all

text \<open>What every resolved trade satisfies.\<close>

definition risk_value :: "risk_budget \<Rightarrow> f64" where
  "risk_value b = (case b of RiskPercent x \<Rightarrow> x | RiskAmount x \<Rightarrow> x | RiskUnits x \<Rightarrow> x)"

definition sane_trade :: "resolved \<Rightarrow> bool" where
  "sane_trade r \<longleftrightarrow>
     (let entry = reference_price (rs_entry r); stop = rs_stop_loss r; target = rs_take_profit r in
      Core_Resolve.in_range (rs_direction r) entry stop target \<and>
      is_finite (rs_min_r r) \<and> fle (Fin 1) (rs_min_r r) \<and>
      \<not> flt (fdiv (fabs64 (fsub target entry)) (fabs64 (fsub entry stop))) (rs_min_r r) \<and>
      is_finite (risk_value (rs_risk r)) \<and> flt (Fin 0) (risk_value (rs_risk r)))"

lemma finite_not_NaN: "is_finite x \<Longrightarrow> x \<noteq> NaN"
  by (cases x) simp_all

lemma resolve_min_r_bounds:
  "resolve_min_r R i sh q pip = Inr m \<Longrightarrow> is_finite m \<and> fle (Fin 1) m"
  using not_flt [of m "Fin 1"] finite_not_NaN [of m]
  by (auto simp: resolve_min_r_def min_r_floor_def result_simps split: if_splits)

lemma positive_flt: "is_finite x \<Longrightarrow> \<not> fle x (Fin 0) \<Longrightarrow> flt (Fin 0) x"
  by (cases x) (auto simp: fle_def)

lemma resolve_risk_positive:
  "resolve_risk R i sh q pip = Inr b \<Longrightarrow> is_finite (risk_value b) \<and> flt (Fin 0) (risk_value b)"
  by (auto simp: resolve_risk_def risk_value_def result_simps intro: positive_flt split: option.splits if_splits)

lemma finish_sane:
  assumes "finish_with_sizing R i sh pip tick dir entry ref sl tp rec = Inr r" "reference_price entry = ref"
  shows "sane_trade r"
  using assms
  by (auto dest!: resolve_min_r_bounds resolve_risk_positive simp: finish_with_sizing_def Let_def result_simps sane_trade_def geometry_snapshot_def)

lemma from_mw_sane: "from_mw_intent R i sh w tick = Inr r \<Longrightarrow> sane_trade r"
  by (auto simp: from_mw_intent_def result_simps case_prod_beta intro: finish_sane)

lemma from_intent_sane: "from_intent R i sh pip tick = Inr r \<Longrightarrow> sane_trade r"
  by (auto simp: from_intent_def result_simps split: option.splits
      intro: from_mw_sane finish_sane dest!: resolve_entry_ref)

end
