(* ===== verification/Entry_Properties.thy ===== *)
theory Entry_Properties
  imports Core_Example
begin

text \<open>
  The properties of the retry gate, with witnesses on a trade whose first order has been
  cancelled unfilled and whose second still rests.
\<close>

section \<open>An example trade\<close>

definition ex_attempt :: "nat \<Rightarrow> string \<Rightarrow> entry_attempt" where
  "ex_attempt n oid = new_attempt ex_intent ''t1'' (- int n) (- int n) 7200 n oid Long (Fin 1) None None None"

definition ex_traded :: "(unit, unit) world" where
  "ex_traded = ex_world\<lparr>w_store := snd (record_entry_attempt (ex_attempt 3 ''o2'')
     (snd (record_entry_attempt (ex_attempt 2 ''o1'') (empty_store 0))))\<rparr>"

definition ex_states :: "attempt_state \<Rightarrow> attempt_state \<Rightarrow> unit broker" where
  "ex_states st1 st2 = idle_broker\<lparr>lookup_attempt := \<lambda>_ oid _ b. (Inr (observation_plain
       (if oid = ''o1'' then st1 else st2)), b)\<rparr>"

lemma ex_states_steady [simp]: "steady (ex_states st1 st2)"
  by (simp add: steady_def ex_states_def idle_broker_def)

lemma ex_attempt_simps [simp]:
  "ea_attempt_no (ex_attempt n oid) = n" "ea_broker_order_id (ex_attempt n oid) = oid"
  "ea_account (ex_attempt n oid) = Some ''acc''" "ea_trade_id (ex_attempt n oid) = ''t1''"
  "ea_broker_trade_id (ex_attempt n oid) = None" "\<not> ea_superseded (ex_attempt n oid)"
  by (simp_all add: ex_attempt_def new_attempt_def)

lemma ex_traded_simps [simp]:
  "healthy ex_traded" "get_live (w_store ex_traded) k = None"
  "attempts_at (w_store ex_traded) (attempt_key (Some ''acc'') ''t1'') = [ex_attempt 2 ''o1'', ex_attempt 3 ''o2'']"
  by (simp_all add: ex_traded_def record_entry_attempt_def Let_def get_live_def empty_store_def bt_get_def
      attempts_at_def attempt_key_def)

lemma ex_traded_broker [simp]: "w_broker ex_traded = ()"
  by simp

lemma ex_inv_traded: "store_inv (w_store ex_traded)"
  by (simp add: ex_traded_def record_attempt_inv)

lemma ex_observe:
  "fst (observe (ex_states st1 st2) (ex_attempt n oid) now W) =
     Inr (if oid = ''o1'' then st1 else st2)"
  by (simp add: observe_value reported_def ex_states_def idle_broker_def observation_plain_def)

lemma ex_retries [simp]: "resolve_max_retries eval (Static n) sh = Inr n"
  by (simp add: resolve_max_retries_def resolve_u32_def)

lemma ex_evaluate:
  "fst (evaluate_at C no_script (ex_states st1 st2) ex_intent ex_shell 0 mode ex_traded) =
     fst (judge_attempts (ex_states st1 st2) ex_intent ''t1'' 0 mode 2
       [ex_attempt 2 ''o1'', ex_attempt 3 ''o2''] ex_traded)"
  by (simp add: evaluate_at_def call_healthy is_retry_fire_seen_def list_entry_attempts_def)

lemma unit_broker [simp]: "(W :: ('d, unit) world)\<lparr>w_broker := ()\<rparr> = W"
  by (cases W) simp

lemma ex_calls [simp]:
  "bcall (list_open_positions (ex_states st1 st2) a) W = (Inr [], W)"
  "bcall (cancel_order (ex_states st1 st2) a oid) W = (Inr (), W)"
  by (simp_all add: bcall_def ex_states_def idle_broker_def)

lemma ex_judge:
  "fst (judge_attempts (ex_states st1 st2) ex_intent ''t1'' 0 mode m
       [ex_attempt 2 ''o1'', ex_attempt 3 ''o2''] ex_traded) =
     (case fst (walk (ex_states st1 st2) (Some ''acc'') ''t1'' 0 mode
         [ex_attempt 3 ''o2'', ex_attempt 2 ''o1''] ex_traded) of
        Inl r \<Rightarrow> r | Inr sp \<Rightarrow> cap_check [ex_attempt 2 ''o1'', ex_attempt 3 ''o2''] m sp)"
  by (simp add: judge_attempts_def open_position_backstop_def del: walk.simps)

section \<open>The gate\<close>

text \<open>
  C5: a fire that the gate lets through is safe to place. Whatever store calls fail, the bar
  has not been entered before; the new attempt number is larger than every recorded one; no
  open position the broker reports for the instrument belongs to any recorded attempt; the
  attempts, newest first, are closed or cancelled down to at most one resting order, which
  only the full gate passes; and the entries other than one just cancelled are below the cap.
  The broker is one whose reads change nothing.
\<close>

theorem gate_proceeds_safely:
  assumes "fst (evaluate_at C eval B i sh now mode W) = Proceed n"
    and "i_trade_id i = Some t" "steady B"
  shows "\<exists>m as sp. resolve_u32 eval sh (i_max_retries i) = Inr m \<and>
      as = attempts_at (w_store W) (attempt_key (i_account i) t) \<and>
      get_live (w_store W) (retry_key C (i_account i) t (sh_time sh)) = None \<and>
      (\<forall>a \<in> set as. ea_attempt_no a < n) \<and>
      (as \<noteq> [] \<longrightarrow> backstop_clear B i as (w_broker W)) \<and>
      settled_to B (w_broker W) mode (rev as) sp \<and> placed_entries as sp < m"
proof -
  obtain m as W' where run: "resolve_u32 eval sh (i_max_retries i) = Inr m"
      "as = attempts_at (w_store W) (attempt_key (i_account i) t)"
      "get_live (w_store W) (retry_key C (i_account i) t (sh_time sh)) = None" "w_broker W' = w_broker W"
      "fst (judge_attempts B i t now mode m as W') = Proceed n"
    using evaluate_Proceed [OF assms(1,2)] by blast
  note j = judge_Proceed [OF run(5)] and st = judge_settled(1) [OF assms(3) run(5)]
  show ?thesis using run(1-4) j st next_attempt_fresh by metis
qed

theorem gate_proceeds_safely_witness:
  "\<exists>sp. settled_to (ex_states Cancelled Pending) () Full [ex_attempt 3 ''o2'', ex_attempt 2 ''o1''] sp \<and>
     placed_entries [ex_attempt 2 ''o1'', ex_attempt 3 ''o2''] sp < 2"
proof -
  have "fst (evaluate_at unary_chrono no_script (ex_states Cancelled Pending) ex_intent ex_shell 0 Full ex_traded)
      = Proceed 4"
    by (simp add: ex_evaluate ex_judge ex_observe cancel_to_replace_def cap_check_def placed_entries_def
        next_attempt_no_def)
  from gate_proceeds_safely [OF this] show ?thesis by (auto simp: resolve_u32_def)
qed

text \<open>
  The probe cancels nothing. Its verdict and every effect of it are the same whatever
  the broker's \<open>cancel_order\<close> would do.
\<close>

theorem probe_cancels_nothing:
  "evaluate_at C eval (B\<lparr>cancel_order := f\<rparr>) i sh now Probe W = evaluate_at C eval B i sh now Probe W \<and>
   probe C eval (B\<lparr>cancel_order := f\<rparr>) i sh W = probe C eval B i sh W"
  by (simp add: evaluate_probe probe_def)

text \<open>
  The cap counts entries into the market. The gate answers 429 only when the recorded
  entries that have not been superseded, leaving out a resting order it has just cancelled,
  fill the cap; so a replacement is refused after its cancel only if older entries alone
  reach the cap.
\<close>

theorem cap_ignores_replaced_order:
  assumes "fst (evaluate_at C eval B i sh now mode W) = Reject 429 msg outcome"
    and "i_trade_id i = Some t" "steady B"
  shows "\<exists>m as sp. resolve_u32 eval sh (i_max_retries i) = Inr m \<and>
      as = attempts_at (w_store W) (attempt_key (i_account i) t) \<and>
      settled_to B (w_broker W) mode (rev as) sp \<and> m \<le> placed_entries as sp"
  using evaluate_capped [OF assms(1,2)] judge_settled(2) [OF assms(3)] by metis

theorem cap_ignores_replaced_order_witness:
  "\<exists>sp. settled_to (ex_states Cancelled Cancelled) () Full [ex_attempt 3 ''o2'', ex_attempt 2 ''o1''] sp \<and>
     2 \<le> placed_entries [ex_attempt 2 ''o1'', ex_attempt 3 ''o2''] sp"
proof -
  have "fst (evaluate_at unary_chrono no_script (ex_states Cancelled Cancelled) ex_intent ex_shell 0 Full
      ex_traded) = Reject 429 ''retry cap reached'' (''rejected: retry-cap ('' @ show_nat 2 @ '')'')"
    by (simp add: ex_evaluate ex_judge ex_observe cap_check_def placed_entries_def)
  from cap_ignores_replaced_order [OF this] show ?thesis by (auto simp: resolve_u32_def)
qed

text \<open>
  A placement closes its own bar. After a placement is recorded, every later fire that
  resolves to the same bar is rejected as a replay while the record lives, whatever the
  broker says, and in either mode.
\<close>

theorem placement_closes_bar:
  assumes "healthy W" "store_inv (w_store W)" "i_trade_id i = Some t"
    and "resolve_u32 eval sh (i_max_retries i) = Inr m" "m \<noteq> 0"
  shows "fst (evaluate_at C eval B i sh later mode
      (snd (record_placement C i (sh_time sh) not_after now n oid dir stop ca be oc W))) =
    Reject 409 ''replay (retry-fire)'' ''rejected: retry-fire-replay''"
  by (rule evaluate_seen [where t = t and m = m])
    (use assms placement_store [OF assms(1,3)] retry_marked [OF record_attempt_inv [OF assms(2)]] in simp_all)

theorem placement_closes_bar_witness:
  "fst (evaluate_at unary_chrono no_script ex_broker ex_intent ex_shell 60 Full
     (snd (record_placement unary_chrono ex_intent 0 7200000000000 0 1 ''o1'' Long (Fin 1) None None None
       ex_world))) = Reject 409 ''replay (retry-fire)'' ''rejected: retry-fire-replay''"
  using placement_closes_bar [of ex_world ex_intent "''t1''" no_script ex_shell 2 unary_chrono ex_broker]
  by (simp add: resolve_u32_def)

section \<open>A cancelled order without a replacement\<close>

text \<open>
  The gate cancels before it counts. When the cap has shrunk since the resting order was
  placed (it may be a script), the order is taken off the book and the fire then refused.
\<close>

definition ex_shrunk :: "unit intent" where
  "ex_shrunk = ex_intent\<lparr>i_max_retries := Static 1\<rparr>"

definition count_cancels :: "nat broker" where
  "count_cancels = idle_broker\<lparr>lookup_attempt := \<lambda>_ oid _ b. (Inr (observation_plain
       (if oid = ''o1'' then ClosedLossOrBreakeven (Fin (- 1)) else Pending)), b),
     cancel_order := \<lambda>_ _ b. (Inr (), b + 1)\<rparr>"

definition ex_resting :: "(unit, nat) world" where
  "ex_resting = \<lparr>w_store = w_store ex_traded, w_faults = [], w_broker = 0\<rparr>"

lemma count_steady: "steady count_cancels"
  by (simp add: steady_def count_cancels_def idle_broker_def)

lemma count_calls [simp]:
  "fst (list_open_positions count_cancels a b) = Inr []" "snd (list_open_positions count_cancels a b) = b"
  "cancel_order count_cancels a oid b = (Inr (), b + 1)"
  "fst (observe count_cancels (ex_attempt n oid) now W) =
     Inr (if oid = ''o1'' then ClosedLossOrBreakeven (Fin (- 1)) else Pending)"
  by (simp_all add: observe_value reported_def count_cancels_def idle_broker_def observation_plain_def)

lemma ex_resting_simps [simp]:
  "w_store ex_resting = w_store ex_traded" "healthy ex_resting" "w_broker ex_resting = 0"
  by (simp_all add: ex_resting_def healthy_def)

lemma ex_shrunk_simps [simp]:
  "i_max_retries ex_shrunk = Static 1" "i_account ex_shrunk = Some ''acc''" "i_trade_id ex_shrunk = Some ''t1''"
  by (simp_all add: ex_shrunk_def)

lemma cancelled_then_capped:
  "fst (evaluate_at unary_chrono no_script count_cancels ex_shrunk ex_shell 0 Full ex_resting) =
     Reject 429 ''retry cap reached'' (''rejected: retry-cap ('' @ show_nat 1 @ '')'') \<and>
   w_broker (snd (evaluate_at unary_chrono no_script count_cancels ex_shrunk ex_shell 0 Full ex_resting)) = 1"
proof -
  define W where "W = snd (call (list_entry_attempts (Some ''acc'') ''t1'')
      (snd (call (is_retry_fire_seen unary_chrono (Some ''acc'') ''t1'' 0) ex_resting)))"
  have b: "w_broker W = 0" by (simp add: W_def)
  have eq: "evaluate_at unary_chrono no_script count_cancels ex_shrunk ex_shell 0 Full ex_resting =
      judge_attempts count_cancels ex_shrunk ''t1'' 0 Full 1 [ex_attempt 2 ''o1'', ex_attempt 3 ''o2''] W"
    by (simp add: evaluate_at_def W_def call_healthy is_retry_fire_seen_def list_entry_attempts_def)
  show ?thesis unfolding eq
    using b
    by (simp add: judge_attempts_def open_position_backstop_def cancel_to_replace_def cap_check_def
        placed_entries_def observe_broker [OF count_steady])
qed

end
