(* ===== verification/Core_Calendar_Facts.thy ===== *)
theory Core_Calendar_Facts
  imports Core_Calendar
begin

text \<open>
  The loops of the week mask end, and mark exactly the cells between their ends on the
  cycle of the week; so the mask answers as a comparison of times of the week would.
\<close>

section \<open>Marking a cyclic interval\<close>

definition in_cycle :: "nat \<Rightarrow> nat \<Rightarrow> nat \<Rightarrow> bool" where
  "in_cycle a b c = (if a \<le> b then a \<le> c \<and> c < b else a \<le> c \<or> c < b)"

definition cycle_dist :: "nat \<Rightarrow> nat \<Rightarrow> nat \<Rightarrow> nat" where
  "cycle_dist n i stop = (if i \<le> stop then stop - i else stop + n - i)"

lemma cycle_dist_Suc:
  "i < n \<Longrightarrow> stop < n \<Longrightarrow> i \<noteq> stop \<Longrightarrow> cycle_dist n ((i + 1) mod n) stop < cycle_dist n i stop"
  by (cases "i + 1 = n") (auto simp: cycle_dist_def)

lemma in_cycle_Suc:
  "i < n \<Longrightarrow> stop < n \<Longrightarrow> i \<noteq> stop \<Longrightarrow> j < n \<Longrightarrow>
     in_cycle i stop j \<longleftrightarrow> j = i \<or> in_cycle ((i + 1) mod n) stop j"
  by (cases "i + 1 = n") (auto simp: in_cycle_def)

lemma mark_runs:
  assumes "i < n" "stop < n"
  shows "\<exists>m'. while_option (\<lambda>s. fst s \<noteq> stop) (mark_step n f) (i, m) = Some (stop, m') \<and>
    length m' = length m \<and>
    (\<forall>c < length m. m' ! c \<longleftrightarrow> m ! c \<or> (\<exists>j < n. in_cycle i stop j \<and> f j = c))"
  using assms(1)
proof (induction "cycle_dist n i stop" arbitrary: i m rule: less_induct)
  case less
  show ?case
  proof (cases "i = stop")
    case True
    then show ?thesis by (auto simp: while_option_unfold in_cycle_def)
  next
    case False
    let ?i = "(i + 1) mod n" and ?m = "m[f i := True]"
    have lt: "?i < n" using assms by simp
    obtain m' where m': "while_option (\<lambda>s. fst s \<noteq> stop) (mark_step n f) (?i, ?m) = Some (stop, m')"
        "length m' = length ?m"
        "\<forall>c < length ?m. m' ! c \<longleftrightarrow> ?m ! c \<or> (\<exists>j < n. in_cycle ?i stop j \<and> f j = c)"
      using less.hyps [OF cycle_dist_Suc [OF less.prems assms(2) False] lt] by blast
    have "while_option (\<lambda>s. fst s \<noteq> stop) (mark_step n f) (i, m) = Some (stop, m')"
      using m'(1) False by (subst while_option_unfold) (simp add: mark_step_def)
    moreover have "m' ! c \<longleftrightarrow> m ! c \<or> (\<exists>j < n. in_cycle i stop j \<and> f j = c)" if "c < length m" for c
    proof -
      have "?m ! c \<longleftrightarrow> m ! c \<or> f i = c" using that by (cases "f i = c") simp_all
      then show ?thesis
        using m'(3) that in_cycle_Suc [OF less.prems assms(2) False] less.prems by auto
    qed
    ultimately show ?thesis using m'(2) by auto
  qed
qed

lemma mark_until_marks:
  assumes "i < n" "stop < n"
  shows "length (mark_until n f i stop m) = length m"
    and "c < length m \<Longrightarrow> mark_until n f i stop m ! c \<longleftrightarrow> m ! c \<or> (\<exists>j < n. in_cycle i stop j \<and> f j = c)"
  using mark_runs [OF assms, of f m] by (auto simp: mark_until_def while_def)

section \<open>The mask of an instrument\<close>

lemma cell_less [simp]: "cell d k < minutes_per_week"
proof -
  have "d mod 7 \<le> 6" "k mod minutes_per_day < minutes_per_day" by (auto simp: minutes_per_day_def)
  then show ?thesis by (simp add: cell_def minutes_per_week_def minutes_per_day_def)
qed

lemma minutes_pos [simp]: "0 < minutes_per_day" "length empty_mask = minutes_per_week"
  by (simp_all add: minutes_per_day_def empty_mask_def)

lemma cell_parts:
  assumes "d < 7" "k < minutes_per_day"
  shows "cell d k div minutes_per_day = d" "cell d k mod minutes_per_day = k"
  using assms by (simp_all add: cell_def)

lemma cell_inject:
  "d < 7 \<Longrightarrow> d' < 7 \<Longrightarrow> k < minutes_per_day \<Longrightarrow> k' < minutes_per_day \<Longrightarrow>
     cell d k = cell d' k' \<longleftrightarrow> d = d' \<and> k = k'"
  by (metis cell_parts)

lemma block_daily_marks:
  assumes "length m = minutes_per_week"
  shows "length (block_daily a b m) = minutes_per_week"
    and "d < 7 \<Longrightarrow> k < minutes_per_day \<Longrightarrow> block_daily a b m ! cell d k \<longleftrightarrow>
      m ! cell d k \<or> in_cycle (a mod minutes_per_day) (b mod minutes_per_day) k"
proof -
  let ?mark = "\<lambda>wd. mark_until minutes_per_day (cell wd) (a mod minutes_per_day) (b mod minutes_per_day)"
  have *: "length (fold ?mark ds m) = minutes_per_week \<and>
      (d < 7 \<longrightarrow> k < minutes_per_day \<longrightarrow> (fold ?mark ds m ! cell d k \<longleftrightarrow>
         m ! cell d k \<or> d \<in> set ds \<and> in_cycle (a mod minutes_per_day) (b mod minutes_per_day) k))"
    if "\<forall>d \<in> set ds. d < 7" "length m = minutes_per_week" for ds m d k
    using that
  proof (induction ds arbitrary: m)
    case (Cons wd ds)
    have "length (?mark wd m) = minutes_per_week"
      using Cons.prems mark_until_marks(1) by simp
    then show ?case using Cons.IH [of "?mark wd m"] Cons.prems
      by (auto simp: mark_until_marks(2) cell_inject)
  qed simp
  show "length (block_daily a b m) = minutes_per_week"
    "d < 7 \<Longrightarrow> k < minutes_per_day \<Longrightarrow> block_daily a b m ! cell d k \<longleftrightarrow>
      m ! cell d k \<or> in_cycle (a mod minutes_per_day) (b mod minutes_per_day) k"
    using * [of "[0..<7]" m] assms by (auto simp: block_daily_def)
qed

lemma hour_cycle:
  "h < 24 \<Longrightarrow> k < minutes_per_day \<Longrightarrow>
     in_cycle (h * 60 mod minutes_per_day) ((h + 1) * 60 mod minutes_per_day) k \<longleftrightarrow> k div 60 = h"
proof -
  assume "h < 24" "k < minutes_per_day"
  then show ?thesis
    by (cases "h = 23") (auto simp: in_cycle_def minutes_per_day_def)
qed

lemma block_hour_marks:
  assumes "length m = minutes_per_week" "h < 24" "d < 7" "k < minutes_per_day"
  shows "length (block_hour h m) = minutes_per_week"
    and "block_hour h m ! cell d k \<longleftrightarrow> m ! cell d k \<or> k div 60 = h"
  using assms by (simp_all only: block_hour_def block_daily_marks hour_cycle)

lemma hours_marked:
  assumes "d < 7" "k < minutes_per_day"
  shows "length m = minutes_per_week \<Longrightarrow> \<forall>h \<in> set hs. h < 24 \<Longrightarrow>
    fold block_hour hs m ! cell d k \<longleftrightarrow> m ! cell d k \<or> k div 60 \<in> set hs"
  using assms by (induction hs arbitrary: m) (auto simp: block_hour_marks)

text \<open>The weekend runs from Friday 21:00 to Sunday 22:00.\<close>

definition in_weekend :: "nat \<Rightarrow> nat \<Rightarrow> bool" where
  "in_weekend d k \<longleftrightarrow> d = 4 \<and> 21 * 60 \<le> k \<or> d = 5 \<or> d = 6 \<and> k < 22 * 60"

lemma weekend_marked:
  "length weekend_mask = minutes_per_week"
  "d < 7 \<Longrightarrow> k < minutes_per_day \<Longrightarrow> weekend_mask ! cell d k \<longleftrightarrow> in_weekend d k"
proof -
  show "length weekend_mask = minutes_per_week"
    by (simp add: weekend_mask_def block_span_def mark_until_marks(1))
  assume dk: "d < 7" "k < minutes_per_day"
  have "weekend_mask ! cell d k \<longleftrightarrow> in_cycle (cell 4 (21 * 60)) (cell 6 (22 * 60)) (cell d k)"
    by (simp add: weekend_mask_def block_span_def mark_until_marks(2)) (simp add: empty_mask_def)
  also have "\<dots> \<longleftrightarrow> in_weekend d k"
    using dk by (auto simp: in_cycle_def in_weekend_def cell_def minutes_per_day_def)
  finally show "weekend_mask ! cell d k \<longleftrightarrow> in_weekend d k" .
qed

definition minute_of_day :: "time \<Rightarrow> nat" where
  "minute_of_day t = utc_hour t * 60 + utc_minute t"

lemma minute_of_day_bounds [simp]: "minute_of_day t < minutes_per_day" "minute_of_day t div 60 = utc_hour t"
proof -
  have "utc_hour t < 24" "utc_minute t < 60" by (simp_all add: utc_hour_def utc_minute_def nat_less_iff)
  then show "minute_of_day t < minutes_per_day" "minute_of_day t div 60 = utc_hour t"
    by (auto simp: minute_of_day_def minutes_per_day_def)
qed

lemma weekday_less [simp]: "days_from_monday d < 7"
  by (simp add: days_from_monday_def nat_less_iff)

text \<open>
  Blocking a span of the week ends, for any two ends, also across the wrap from Sunday
  to Monday, and marks exactly the cells from the first end up to the second on the cycle
  of the week, leaving the others alone; equal ends mark nothing.
\<close>

theorem block_span_ends:
  assumes "length m = minutes_per_week"
  shows "\<exists>m'. while_option (\<lambda>s. fst s \<noteq> cell d2 k2) (mark_step minutes_per_week id) (cell d1 k1, m) =
        Some (cell d2 k2, m') \<and>
      block_span d1 k1 d2 k2 m = m' \<and> length m' = minutes_per_week \<and>
      (\<forall>c < minutes_per_week. m' ! c \<longleftrightarrow> m ! c \<or> in_cycle (cell d1 k1) (cell d2 k2) c)"
  using mark_runs [OF cell_less [of d1 k1] cell_less [of d2 k2], of id m] assms
  by (auto simp: block_span_def mark_until_def while_def)

theorem block_span_ends_witness:
  "\<exists>m'. while_option (\<lambda>s. fst s \<noteq> cell 0 60) (mark_step minutes_per_week id) (cell 6 1380, empty_mask) =
     Some (cell 0 60, m')"
  using block_span_ends [of empty_mask 0 60 6 1380] by auto

text \<open>
  The mask is the calendar. For a reviewed symbol whose closed hours are hours of the
  day, an entry is blocked exactly on the weekend, from Friday 21:00 to Sunday 22:00 UTC, and
  in a closed hour of any day; for an unreviewed symbol on the weekend alone; and a symbol
  without a row is never blocked.
\<close>

theorem market_hours_calendar:
  assumes "find (\<lambda>(s, _, _). s = symbol) (vn_hours V) = Some (symbol, reviewed, hours)"
    and "\<forall>h \<in> set hours. h < 24 \<or> h = u32_max_nat"
  shows "market_hours_blocked V symbol now \<longleftrightarrow>
    in_weekend (days_from_monday (day_number now)) (minute_of_day now) \<or>
    reviewed \<and> utc_hour now \<in> set hours"
proof -
  define hs where "hs = (if reviewed then filter (\<lambda>h. h \<noteq> u32_max_nat) hours else [])"
  have baked: "baked_market_hours V symbol = Some (fold block_hour hs weekend_mask)"
    using assms(1) by (simp add: baked_market_hours_def baked_daily_hours_def hs_def)
  have "\<forall>h \<in> set hs. h < 24" using assms(2) by (auto simp: hs_def)
  then have "market_hours_blocked V symbol now \<longleftrightarrow>
      in_weekend (days_from_monday (day_number now)) (minute_of_day now) \<or> utc_hour now \<in> set hs"
    using hours_marked [OF weekday_less minute_of_day_bounds(1) weekend_marked(1)]
    by (simp add: market_hours_blocked_def baked is_blocked_at_def weekend_marked(2)
        flip: minute_of_day_def)
  moreover have "utc_hour now \<noteq> u32_max_nat"
    using nat_less_iff [of "now div seconds 3600 mod 24" 24] by (simp add: utc_hour_def u32_max_nat_def)
  ultimately show ?thesis by (auto simp: hs_def)
qed

definition ex_venue :: venue where
  "ex_venue = \<lparr>vn_candle = [], vn_mt5 = [], vn_ctrader = [], vn_oanda = [],
     vn_hours = [(''DE30_EUR'', True, [20, u32_max_nat])], vn_sessions = [],
     vn_local = \<lambda>_. None, vn_year = \<lambda>_. 1970, vn_day = \<lambda>_ _ _. None\<rparr>"

theorem market_hours_calendar_witness:
  "market_hours_blocked ex_venue ''DE30_EUR'' (seconds (20 * 3600 + 1800))"
  using market_hours_calendar [of "''DE30_EUR''" ex_venue True "[20, u32_max_nat]"]
  by (simp add: ex_venue_def utc_hour_def seconds_def)

end
