(* ===== verification/Core_Enter_Example.thy ===== *)
theory Core_Enter_Example
  imports Core_Enter_Chain Entry_Properties Core_Calendar_Facts
begin

text \<open>
  A run of the \<open>enter\<close> path on concrete values: a long stop entry at 100 with its stop at 50
  and its target at 200, on the trade of \<open>Entry_Properties\<close> whose second order still rests,
  at a broker that counts cancels and order requests.
\<close>

definition tally_broker :: "(nat \<times> nat) broker" where
  "tally_broker = idle_broker\<lparr>
     lookup_attempt := \<lambda>_ oid _ b. (Inr (observation_plain (if oid = ''o1'' then Cancelled else Pending)), b),
     cancel_order := \<lambda>_ _ b. (Inr (), (fst b + 1, snd b)),
     place_entry := \<lambda>_ _ _ b. (Inr \<lparr>pl_order_id = ''n1'', pl_size = None, pl_price = None\<rparr>,
       (fst b, snd b + 1)),
     place_market_entry_in_band := \<lambda>_ _ _ _ b. (Inl OrderRejected, (fst b, snd b + 1))\<rparr>"

definition ex_platform :: "unit platform" where
  "ex_platform = \<lparr>pf_chrono = unary_chrono, pf_rhai = no_script, pf_venue = ex_venue, pf_yaml = \<lambda>_. None\<rparr>"

definition ex_entering :: "unit intent" where
  "ex_entering = ex_intent\<lparr>i_direction := Some Long,
     i_entry := Some (SpecStop AnchorClose (Fin 0) None (Some (Fin 100)) None),
     i_stop_loss := Some (Absolute (Fin 50)), i_take_profit := Some (AnchoredProfit (Absolute (Fin 200))),
     i_pip_size := Some (Fin 1), i_vetos := [''too-low'']\<rparr>"

definition ex_call :: "unit entry_call" where
  "ex_call = \<lparr>en_verified = \<lparr>v_intent = ex_entering, v_shell = ex_shell\<rparr>,
     en_cfg = \<lparr>dc_worker_max_risk_pct = Fin 1, dc_worker_max_open_positions = 3, dc_pip_size = Fin 1,
       dc_tick_size = None, dc_caps = \<lparr>cap_max_risk_pct = None, cap_max_open_positions = None\<rparr>\<rparr>,
     en_now = 0, en_raw_body = None, en_granularity = None, en_origin = Fresh\<rparr>"

definition ex_book :: "(unit, nat \<times> nat) world" where
  "ex_book = \<lparr>w_store = w_store ex_traded, w_faults = [], w_broker = (0, 0)\<rparr>"

definition ex_resolved :: resolved where
  "ex_resolved = \<lparr>rs_setup_id = ''t1'', rs_id = ''id1'', rs_not_after = 7200000000000,
     rs_instrument = ''EUR_USD'', rs_direction = Long, rs_entry = StopAt (Fin 100),
     rs_stop_loss = Fin 50, rs_take_profit = Fin 200, rs_risk = RiskPercent (Fin 1),
     rs_on_oversize = CapVolume, rs_min_r = Fin 1, rs_dry_run = False, rs_recover_entry = None,
     rs_breakeven = None, rs_contract_multiplier = None\<rparr>"

lemma ex_call_simps [simp]:
  "en_verified ex_call = \<lparr>v_intent = ex_entering, v_shell = ex_shell\<rparr>" "en_now ex_call = 0"
  "en_raw_body ex_call = None" "en_granularity ex_call = None" "en_origin ex_call = Fresh"
  "pip_size_of ex_entering (en_cfg ex_call) = Fin 1" "tick_size_of ex_entering (en_cfg ex_call) = Fin 1"
  by (simp_all add: ex_call_def pip_size_of_def tick_size_of_def ex_entering_def ex_intent_def or_else_def)

lemma ex_entering_simps [simp]:
  "i_account ex_entering = Some ''acc''" "i_trade_id ex_entering = Some ''t1''"
  "i_instrument ex_entering = ''EUR_USD''" "i_vetos ex_entering = [''too-low'']"
  "i_requires_preps ex_entering = []" "i_entry_level_vetos ex_entering = []" "i_mw ex_entering = None"
  "i_max_retries ex_entering = Static 2" "i_expiry_bars ex_entering = None" "i_id ex_entering = ''id1''"
  by (simp_all add: ex_entering_def ex_intent_def)

lemma ex_platform_simps [simp]:
  "pf_chrono ex_platform = unary_chrono" "pf_rhai ex_platform = no_script" "pf_venue ex_platform = ex_venue"
  by (simp_all add: ex_platform_def)

lemma ex_book_simps [simp]: "w_store ex_book = w_store ex_traded" "healthy ex_book" "w_broker ex_book = (0, 0)"
  by (simp_all add: ex_book_def healthy_def)

lemma on_unit_grid [simp]: "round_to_tick (Fin (numeral k)) (Fin 1) d = Fin (numeral k)"
  if "numeral k < (2 :: int) ^ 53"
proof -
  have p: "tick_decimal_places 1 = 0" by (simp add: tick_decimal_places_def upt_conv_Cons)
  have s: "scrub_steps (Fin (numeral k)) = Fin (numeral k)" using scrub_grid [of "numeral k"] by simp
  have "snap d (Fin (numeral k)) = Fin (numeral k)"
    by (cases d) (simp_all add: fround_def ffloor_def fceil_def round_away_def that)
  then show ?thesis using that
    by (simp add: round_to_tick_def p s round_half_away_def fround_def round_away_def)
qed

lemma ex_from_intent:
  "from_intent no_script ex_entering ex_shell (Fin 1) (Fin 1) = Inr ex_resolved"
  by (simp add: from_intent_def ex_entering_def ex_intent_def resolve_entry_def trigger_of_def of_offset_def
      resolve_tp_def finish_with_sizing_def Let_def round_price_def round_stop_loss_def round_take_profit_def
      Core_Resolve.in_range_def geometry_snapshot_def resolve_min_r_def resolve_risk_def min_r_floor_def
      resolve_f64_tunable_def require_def some_or_def or_else_def ex_resolved_def fsub_def)

section \<open>The run\<close>

lemma tally_ops [simp]:
  "lookup_attempt tally_broker i oid t b =
     (Inr (observation_plain (if oid = ''o1'' then Cancelled else Pending)), b)"
  "cancel_order tally_broker a oid b = (Inr (), (fst b + 1, snd b))"
  "list_open_positions tally_broker a b = (Inr [], b)"
  "cancel_pending_for_instrument tally_broker i b = (0, b)"
  "get_quote tally_broker i b = (Inl Transient, b)"
  "get_bidask_candles tally_broker i g t' u b = (Inl CandleTransient, b)"
  "snd (place_entry tally_broker cap n req b) = (fst b, snd b + 1)"
  "snd (place_market_entry_in_band tally_broker cap n req band b) = (fst b, snd b + 1)"
  by (simp_all add: tally_broker_def idle_broker_def)

lemma tally_moves:
  "asks_move R tally_broker \<longleftrightarrow> reflp R" "sweeps_move R tally_broker \<longleftrightarrow> reflp R"
  "cancels_move R tally_broker \<longleftrightarrow> (\<forall>b. R b (fst b + 1, snd b))"
  "orders_move R tally_broker \<longleftrightarrow> (\<forall>b. R b (fst b, snd b + 1))"
  by (auto simp: asks_move_def sweeps_move_def cancels_move_def orders_move_def op_moves_def reflp_def)

lemma ex_store [simp]: "get_live (w_store ex_traded) = (\<lambda>_. None)" "live_under p (w_store ex_traded) = []"
  by (auto simp: ex_traded_def record_entry_attempt_def Let_def get_live_def empty_store_def bt_get_def
      live_under_def)

lemma call_reads_healthy: "healthy W \<Longrightarrow> reads f \<Longrightarrow> call f W = (fst (f (w_store W)), W)"
  by (simp add: call_healthy reads_def)

lemma ex_stages:
  "pause_stage ex_entering ex_book = (Inr (), ex_book)" "cooldown_stage ex_entering ex_book = (Inr (), ex_book)"
  "prep_stage C ex_entering ex_book = (Inr None, ex_book)" "veto_stage ex_entering ex_book = (Inr ''t1'', ex_book)"
  by (simp_all add: pause_stage_def cooldown_stage_def prep_stage_def veto_stage_def and_then_def call_or_500_def
      call_reads_healthy list_pauses_for_trade_def is_cooled_down_def is_vetoed_def scoped_live_def refuse_if_def
      decode_all_def)

lemma ex_resolve_stage:
  "resolve_stage ex_platform B \<lparr>v_intent = ex_entering, v_shell = ex_shell\<rparr> (en_cfg ex_call) 0 ex_book =
     (Inr ex_resolved, ex_book)"
  by (simp add: resolve_stage_def maybe_update_mw_state_def ex_from_intent resolve_answer_def Let_def)

lemma ex_gates:
  "entry_level_stage ex_entering ex_resolved = Inr ()"
  "allow_entry_stage no_script ex_entering ex_shell ex_resolved (Fin 1) = Inr ()"
  "expiry_stage no_script ex_entering ex_shell = Inr None"
  by (simp_all add: entry_level_stage_def allow_entry_stage_def expiry_stage_def allow_entry_of_def
      candle_gate_of_def ex_entering_def ex_intent_def)

lemma ex_blackout: "blackout_stage ex_platform tally_broker ex_call ''t1'' ex_resolved ex_book = (Inr (), ex_book)"
  by (simp add: blackout_stage_def is_replacement_def and_then_def session_gate_def hours_gate_def spread_gate_def
      session_closed_def market_hours_blocked_def baked_market_hours_def baked_daily_hours_def ex_venue_def
      ex_resolved_def get_spread_blackout_window_def call_healthy)

lemma ex_spread_floor:
  "spread_floor_stage ex_platform tally_broker ex_call ''t1'' ex_resolved ex_book = (Inr (Fin 50), ex_book)"
  by (simp add: spread_floor_stage_def effective_spread_def windowed_entry_spread_def bcall_def ex_resolved_def
      ex_book_def)

lemma tally_observe:
  "fst (observe tally_broker (ex_attempt n oid) now W) = Inr (if oid = ''o1'' then Cancelled else Pending)"
  "w_broker (snd (observe tally_broker a now W)) = w_broker W"
  using observe_broker [of tally_broker] by (simp_all add: observe_value reported_def observation_plain_def steady_def)

lemma ex_retry:
  "fst (retry_stage ex_platform tally_broker ex_call ex_book) = Inr (Some 4) \<and>
   w_broker (snd (retry_stage ex_platform tally_broker ex_call ex_book)) = (1, 0)"
proof -
  have n: "needs_gate ex_call"
    by (simp add: needs_gate_def skips_retry_gate_def effective_entry_dedup_def effective_dedup_def
        needs_retry_gate_def ex_entering_def ex_intent_def)
  show ?thesis
    by (simp add: retry_stage_def n and_then_def ask_gate_def evaluate_at_def call_reads_healthy reads_def
        is_retry_fire_seen_def list_entry_attempts_def judge_attempts_def open_position_backstop_def
        cancel_to_replace_def cap_check_def placed_entries_def next_attempt_no_def gate_answer_def tally_observe
        case_prod_beta)
qed

lemma ex_enter_run:
  "run_enter ex_platform tally_broker ex_call ex_book =
     place_stage ex_platform tally_broker ex_call ''t1'' ex_resolved (Fin 50) None (Some 4)
       (snd (retry_stage ex_platform tally_broker ex_call ex_book))"
  by (simp add: run_enter_def or_return_cases ex_stages ex_resolve_stage ex_gates ex_blackout ex_spread_floor ex_retry
      Let_def)

lemma ex_enter_broker:
  "fst (w_broker (snd (run_enter ex_platform tally_broker ex_call ex_book))) = 1"
  "0 < snd (w_broker (snd (run_enter ex_platform tally_broker ex_call ex_book)))"
proof -
  let ?W = "snd (retry_stage ex_platform tally_broker ex_call ex_book)"
  have "moves (\<lambda>b b'. fst b' = fst b) (place_stage ex_platform tally_broker ex_call t r stop ca n)" for t r stop ca n
    by (rule move_place) (auto simp: quasi_def tally_moves intro!: reflpI transpI)
  then show "fst (w_broker (snd (run_enter ex_platform tally_broker ex_call ex_book))) = 1"
    by (simp add: ex_enter_run moves_def ex_retry)
  show "0 < snd (w_broker (snd (run_enter ex_platform tally_broker ex_call ex_book)))"
    using place_counts [of snd tally_broker ?W] by (simp add: ex_enter_run ex_retry tally_moves reflp_def)
qed

end
