(* ===== verification/Enter_Properties.thy ===== *)
theory Enter_Properties
  imports Core_Enter_Example
begin

text \<open>
  The properties of the \<open>enter\<close> path as a whole, with witnesses on a broker that counts what
  it is asked to do.
\<close>

section \<open>Observations of the broker\<close>



lemma quasi_le [simp]: "quasi (\<lambda>b b'. g b \<le> (g b' :: nat))"
  by (auto simp: quasi_def intro!: reflpI transpI)







text \<open>
  C6: a resolved trade is sane, whatever scripts the intent carries. Stop, entry and target
  are in the order of the direction; the required R is finite and at least one; the R of the
  prices as rounded is not below it; and the risk is a positive finite amount, in the one mode
  the intent chose.
\<close>

theorem resolved_trade_sane:
  assumes "from_intent R i sh pip_size tick = Inr r \<or> from_mw_intent R i sh w tick = Inr r"
  shows "sane_trade r"
  using assms from_intent_sane from_mw_sane by blast

theorem resolved_trade_sane_witness: "sane_trade ex_resolved"
  using resolved_trade_sane [OF disjI1, OF ex_from_intent] .

text \<open>
  The preparation gate is complete. It takes the slots in order and for each the earliest
  stamp later than the one before; without faults, on a store whose stamps read, it passes
  exactly when some choice of one stamp per slot is strictly increasing.
\<close>

theorem prep_gate_complete:
  assumes "healthy W" "preps_readable C i (w_store W) (i_requires_preps i)"
  shows "is_ok (fst (prep_stage C i W)) \<longleftrightarrow>
    (\<exists>ts. list_all2 (\<lambda>t ats. Some t \<in> set ats) ts (map (slot_stamps C i (w_store W)) (i_requires_preps i)) \<and>
       sorted_wrt (<) ts)"
  unfolding prep_stage_iff [OF assms] prep_chain_def by (simp add: chain_from_sorted)

theorem prep_gate_complete_witness:
  "\<not> is_ok (fst (prep_stage unary_chrono (ex_entering\<lparr>i_requires_preps := [AllOf ''retest'']\<rparr>) ex_book))"
proof -
  let ?i = "ex_entering\<lparr>i_requires_preps := [AllOf ''retest'']\<rparr>"
  have g: "fst (get_prep unary_chrono a n step (w_store ex_traded)) = Inr None" for a n step
    by (simp add: get_prep_def split: option.split)
  then have "preps_readable unary_chrono ?i (w_store ex_book) (i_requires_preps ?i)"
    by (simp add: preps_readable_def)
  from prep_gate_complete [OF ex_book_simps(2) this] show ?thesis
    by (simp add: slot_stamps_def g list_all2_Cons2)
qed

end
