(* ===== verification/Signal_Detect.thy ===== *)
theory Signal_Detect
  imports Core_Intent
begin

text \<open>
  The candle patterns (\<open>core/src/signals/\<close>: \<open>metrics.rs\<close>, \<open>atr.rs\<close>, \<open>band_anchor.rs\<close>,
  \<open>detect.rs\<close>): which pattern, if any, prints on a bar, judged on that bar and up to three
  before it.
\<close>

section \<open>One bar\<close>

record candle_metrics =
  mt_high :: f64
  mt_low :: f64
  mt_open :: f64
  mt_close :: f64
  mt_range :: f64
  mt_body_size :: f64
  mt_body_top :: f64
  mt_body_bottom :: f64
  mt_upper_wick :: f64
  mt_lower_wick :: f64
  mt_top_25 :: f64
  mt_bottom_25 :: f64
  mt_midpoint :: f64
  mt_close_position :: "f64 option"
  mt_valid_candle :: bool
  mt_is_bullish :: bool
  mt_is_bearish :: bool

definition metrics_of :: "candle \<Rightarrow> candle_metrics" where
  "metrics_of c =
     (let range = fsub (cn_h c) (cn_l c);
          body_size = fabs64 (fsub (cn_c c) (cn_o c));
          body_top = fmax (cn_o c) (cn_c c);
          body_bottom = fmin (cn_o c) (cn_c c) in
      \<lparr>mt_high = cn_h c, mt_low = cn_l c, mt_open = cn_o c, mt_close = cn_c c,
       mt_range = range, mt_body_size = body_size, mt_body_top = body_top,
       mt_body_bottom = body_bottom,
       mt_upper_wick = fsub (cn_h c) body_top, mt_lower_wick = fsub body_bottom (cn_l c),
       mt_top_25 = fsub (cn_h c) (fmul range (Fin (1 / 4))),
       mt_bottom_25 = fadd (cn_l c) (fmul range (Fin (1 / 4))),
       mt_midpoint = fadd (cn_l c) (fmul range (Fin (1 / 2))),
       mt_close_position = (if fgt range (Fin 0)
          then Some (fdiv (fsub (cn_c c) (cn_l c)) range) else None),
       mt_valid_candle = (fgt range (Fin 0) \<and> fgt body_size (Fin 0)),
       mt_is_bullish = fgt (cn_c c) (cn_o c), mt_is_bearish = flt (cn_c c) (cn_o c)\<rparr>)"

definition close_in_top_25 :: "candle_metrics \<Rightarrow> bool" where
  "close_in_top_25 m = (case mt_close_position m of Some p \<Rightarrow> fge p (Fin (3 / 4)) | None \<Rightarrow> False)"

definition close_in_bottom_25 :: "candle_metrics \<Rightarrow> bool" where
  "close_in_bottom_25 m = (case mt_close_position m of Some p \<Rightarrow> fle p (Fin (1 / 4)) | None \<Rightarrow> False)"

section \<open>Wilder's average true range\<close>

definition atr_length_for_bar_minutes :: "int \<Rightarrow> nat" where
  "atr_length_for_bar_minutes m =
     (if m \<le> 15 then 96 else if m \<le> 60 then 24 else if m \<le> 240 then 36
      else if m \<le> 1440 then 24 else if m \<le> 10080 then 52 else 24)"

definition atr_length_for :: "granularity \<Rightarrow> nat" where
  "atr_length_for g = atr_length_for_bar_minutes (granularity_seconds g div 60)"

definition true_range :: "candle \<Rightarrow> f64 option \<Rightarrow> f64" where
  "true_range c prev_close =
     (let hl = fsub (cn_h c) (cn_l c) in
      case prev_close of None \<Rightarrow> hl
      | Some pc \<Rightarrow> fmax (fmax hl (fabs64 (fsub (cn_h c) pc))) (fabs64 (fsub (cn_l c) pc)))"

fun true_ranges :: "f64 option \<Rightarrow> candle list \<Rightarrow> f64 list" where
  "true_ranges _ [] = []"
| "true_ranges pc (c # cs) = true_range c pc # true_ranges (Some (cn_c c)) cs"

definition wilder_step :: "nat \<Rightarrow> f64 \<Rightarrow> f64 \<Rightarrow> f64" where
  "wilder_step n atr tr =
     (let len_f = Fin (of_nat n) in fdiv (fadd (fmul atr (fsub len_f (Fin 1))) tr) len_f)"

definition wilder_atr :: "candle list \<Rightarrow> nat \<Rightarrow> f64 option" where
  "wilder_atr candles n =
     (if n = 0 \<or> length candles < n then None
      else let trs = true_ranges None candles;
               seed = fdiv (foldl fadd (Fin 0) (take n trs)) (Fin (of_nat n)) in
        Some (foldl (wilder_step n) seed (drop n trs)))"

section \<open>Where a pattern prints\<close>

definition band_anchor :: "signal_kind \<Rightarrow> direction \<Rightarrow> candle \<Rightarrow> candle \<Rightarrow> f64" where
  "band_anchor kind dir origin prnt =
     (if kind = RegularEngulfer \<or> kind = FloatingEngulfer then cn_o origin
      else
        let body_top = fmax (cn_o prnt) (cn_c prnt);
            body_bot = fmin (cn_o prnt) (cn_c prnt) in
        case dir of
          Short \<Rightarrow> fadd body_top (fdiv (fsub (cn_h prnt) body_top) (Fin 2))
        | Long \<Rightarrow> fsub body_bot (fdiv (fsub body_bot (cn_l prnt)) (Fin 2)))"

record signal_geometry =
  sg_high :: f64
  sg_low :: f64
  sg_range :: f64
  sg_kind :: signal_kind
  sg_start_time :: time
  sg_band_anchor :: f64

record detected =
  dt_direction :: direction
  dt_geometry :: signal_geometry
  dt_size :: f64

definition is_golden :: "detected \<Rightarrow> f64 \<Rightarrow> bool" where
  "is_golden d atr = fge (dt_size d) atr"

section \<open>The patterns\<close>

record dir_flags =
  dg_double_tweezer :: bool
  dg_tweezer :: bool
  dg_pinbar :: bool
  dg_regular :: bool
  dg_floating :: bool

definition any_flag :: "dir_flags \<Rightarrow> bool" where
  "any_flag f \<longleftrightarrow> dg_double_tweezer f \<or> dg_tweezer f \<or> dg_pinbar f \<or> dg_regular f \<or> dg_floating f"

record detect_flags =
  df_pinbars :: bool
  df_tweezers :: bool
  df_double_tweezers :: bool
  df_regular_engulfers :: bool
  df_floating_engulfers :: bool
  df_similarity_pct :: f64

definition default_flags :: detect_flags where
  "default_flags = \<lparr>df_pinbars = True, df_tweezers = True, df_double_tweezers = True,
     df_regular_engulfers = True, df_floating_engulfers = True, df_similarity_pct = Fin 20\<rparr>"

definition tweezer_wick_threshold :: f64 where
  "tweezer_wick_threshold = lit (35 / 100)"

definition pinbar :: "direction \<Rightarrow> candle_metrics \<Rightarrow> candle_metrics option \<Rightarrow> bool" where
  "pinbar dir m pm =
     (case pm of None \<Rightarrow> False
      | Some pm \<Rightarrow>
          (case dir of
             Long \<Rightarrow> fge (mt_body_top m) (mt_top_25 m) \<and> fge (mt_body_bottom m) (mt_midpoint m) \<and>
               fge (mt_lower_wick m) (fmul (mt_range m) (Fin (1 / 2))) \<and> flt (mt_low m) (mt_low pm)
           | Short \<Rightarrow> fle (mt_body_bottom m) (mt_bottom_25 m) \<and> fle (mt_body_top m) (mt_midpoint m) \<and>
               fge (mt_upper_wick m) (fmul (mt_range m) (Fin (1 / 2))) \<and>
               fgt (mt_high m) (mt_high pm)))"

definition pinbar_tweezer_leg :: "direction \<Rightarrow> candle_metrics \<Rightarrow> bool" where
  "pinbar_tweezer_leg dir m \<longleftrightarrow> mt_valid_candle m \<and>
     (case dir of
        Long \<Rightarrow> fge (mt_body_top m) (mt_top_25 m) \<and> fge (mt_body_bottom m) (mt_midpoint m) \<and>
          fge (mt_lower_wick m) (fmul (mt_range m) tweezer_wick_threshold)
      | Short \<Rightarrow> fle (mt_body_bottom m) (mt_bottom_25 m) \<and> fle (mt_body_top m) (mt_midpoint m) \<and>
          fge (mt_upper_wick m) (fmul (mt_range m) tweezer_wick_threshold))"

definition twin_pivot :: "direction \<Rightarrow> f64 \<Rightarrow> candle_metrics option \<Rightarrow> bool" where
  "twin_pivot dir pattern_extreme prior =
     (case prior of None \<Rightarrow> False
      | Some b \<Rightarrow> mt_valid_candle b \<and>
          (case dir of Long \<Rightarrow> flt pattern_extreme (mt_low b)
           | Short \<Rightarrow> fgt pattern_extreme (mt_high b)))"

definition near :: "f64 \<Rightarrow> f64 \<Rightarrow> f64 \<Rightarrow> bool" where
  "near thresh x y = fle (fabs64 (fsub x y)) thresh"

definition double_tweezer ::
  "direction \<Rightarrow> candle_metrics \<Rightarrow> candle_metrics \<Rightarrow> candle_metrics option \<Rightarrow> candle_metrics option
    \<Rightarrow> detect_flags \<Rightarrow> bool" where
  "double_tweezer dir m pm pm2 pm3 flags =
     (case pm2 of None \<Rightarrow> False
      | Some pm2 \<Rightarrow>
          let triple_range = fmax (fmax (mt_range m) (mt_range pm)) (mt_range pm2);
              has_triple = fgt triple_range (Fin 0);
              thresh = fmul (fmul triple_range (df_similarity_pct flags)) (lit (1 / 100));
              triple_highs = (has_triple \<and> near thresh (mt_high m) (mt_high pm) \<and>
                near thresh (mt_high pm) (mt_high pm2));
              triple_lows = (has_triple \<and> near thresh (mt_low m) (mt_low pm) \<and>
                near thresh (mt_low pm) (mt_low pm2));
              valid_triple = (has_triple \<and> mt_valid_candle pm \<and> mt_valid_candle pm2 \<and>
                triple_highs \<and> triple_lows);
              triple_extreme = (case dir of
                  Long \<Rightarrow> fmin (fmin (mt_low m) (mt_low pm)) (mt_low pm2)
                | Short \<Rightarrow> fmax (fmax (mt_high m) (mt_high pm)) (mt_high pm2)) in
          df_double_tweezers flags \<and> valid_triple \<and> twin_pivot dir triple_extreme pm3 \<and>
          pinbar_tweezer_leg dir m \<and> pinbar_tweezer_leg dir pm \<and> pinbar_tweezer_leg dir pm2)"

definition tweezers ::
  "direction \<Rightarrow> candle_metrics \<Rightarrow> candle_metrics option \<Rightarrow> candle_metrics option
    \<Rightarrow> candle_metrics option \<Rightarrow> detect_flags \<Rightarrow> bool \<times> bool" where
  "tweezers dir m pm pm2 pm3 flags =
     (case pm of None \<Rightarrow> (False, False)
      | Some pm \<Rightarrow>
          let pair_range = fmax (mt_range m) (mt_range pm);
              has_pair = fgt pair_range (Fin 0);
              thresh = fmul (fmul pair_range (df_similarity_pct flags)) (lit (1 / 100));
              highs_close = (has_pair \<and> near thresh (mt_high m) (mt_high pm));
              lows_close = (has_pair \<and> near thresh (mt_low m) (mt_low pm));
              valid_pair = (has_pair \<and> mt_valid_candle pm \<and> highs_close \<and> lows_close);
              pair_extreme = (case dir of Long \<Rightarrow> fmin (mt_low m) (mt_low pm)
                | Short \<Rightarrow> fmax (mt_high m) (mt_high pm));
              double = double_tweezer dir m pm pm2 pm3 flags in
          (double, df_tweezers flags \<and> valid_pair \<and> twin_pivot dir pair_extreme pm2 \<and>
             pinbar_tweezer_leg dir m \<and> pinbar_tweezer_leg dir pm \<and> \<not> double))"

definition regular_engulfer :: "direction \<Rightarrow> candle_metrics \<Rightarrow> candle_metrics option \<Rightarrow> bool" where
  "regular_engulfer dir m pm =
     (case pm of None \<Rightarrow> False
      | Some pm \<Rightarrow> mt_valid_candle pm \<and>
          (case dir of
             Long \<Rightarrow> mt_is_bearish pm \<and> mt_is_bullish m \<and> fle (mt_open m) (mt_close pm) \<and>
               fgt (mt_close m) (mt_high pm) \<and> close_in_top_25 m
           | Short \<Rightarrow> mt_is_bullish pm \<and> mt_is_bearish m \<and> fge (mt_open m) (mt_close pm) \<and>
               flt (mt_close m) (mt_low pm) \<and> close_in_bottom_25 m))"

definition floating_engulfer :: "direction \<Rightarrow> candle_metrics \<Rightarrow> candle_metrics option \<Rightarrow> bool" where
  "floating_engulfer dir m pm =
     (case pm of None \<Rightarrow> False
      | Some pm \<Rightarrow> mt_valid_candle pm \<and>
          (case dir of
             Long \<Rightarrow> mt_is_bullish pm \<and> mt_is_bullish m \<and> fgt (mt_close m) (mt_high pm) \<and>
               close_in_top_25 m
           | Short \<Rightarrow> mt_is_bearish pm \<and> mt_is_bearish m \<and> flt (mt_close m) (mt_low pm) \<and>
               close_in_bottom_25 m))"

definition flags_for ::
  "direction \<Rightarrow> candle_metrics \<Rightarrow> candle_metrics option \<Rightarrow> candle_metrics option
    \<Rightarrow> candle_metrics option \<Rightarrow> detect_flags \<Rightarrow> dir_flags" where
  "flags_for dir m pm pm2 pm3 flags =
     (let pin = (df_pinbars flags \<and> pinbar dir m pm) in
      case tweezers dir m pm pm2 pm3 flags of (double, tweezer) \<Rightarrow>
        \<lparr>dg_double_tweezer = double, dg_tweezer = tweezer,
         dg_pinbar = (pin \<and> \<not> tweezer \<and> \<not> double),
         dg_regular = (df_regular_engulfers flags \<and> regular_engulfer dir m pm),
         dg_floating = (df_floating_engulfers flags \<and> floating_engulfer dir m pm)\<rparr>)"

text \<open>Extremes, size for the golden test, and kind, by priority of the patterns.\<close>

definition extremes_of ::
  "dir_flags \<Rightarrow> candle_metrics \<Rightarrow> candle_metrics option \<Rightarrow> candle_metrics option
    \<Rightarrow> f64 \<times> f64 \<times> f64 \<times> signal_kind" where
  "extremes_of f m pm pm2 =
     (let ph = (case pm of None \<Rightarrow> mt_high m | Some x \<Rightarrow> mt_high x);
          pl = (case pm of None \<Rightarrow> mt_low m | Some x \<Rightarrow> mt_low x);
          p2h = (case pm2 of None \<Rightarrow> mt_high m | Some x \<Rightarrow> mt_high x);
          p2l = (case pm2 of None \<Rightarrow> mt_low m | Some x \<Rightarrow> mt_low x);
          prev_range = (case pm of None \<Rightarrow> Fin 0 | Some x \<Rightarrow> mt_range x);
          prev2_range = (case pm2 of None \<Rightarrow> Fin 0 | Some x \<Rightarrow> mt_range x) in
      if dg_double_tweezer f
      then (fmax (fmax (mt_high m) ph) p2h, fmin (fmin (mt_low m) pl) p2l,
            fadd (fadd (mt_range m) prev_range) prev2_range, DoubleTweezer)
      else if dg_tweezer f
      then (fmax (mt_high m) ph, fmin (mt_low m) pl, fadd (mt_range m) prev_range, Tweezer)
      else if dg_floating f
      then let high = fmax (mt_high m) ph; low = fmin (mt_low m) pl in
        (high, low, fsub high low, FloatingEngulfer)
      else if dg_regular f
      then (fmax (mt_high m) ph, fmin (mt_low m) pl, mt_range m, RegularEngulfer)
      else (mt_high m, mt_low m, mt_range m, Pinbar))"

definition build ::
  "direction \<Rightarrow> dir_flags \<Rightarrow> candle \<Rightarrow> candle option \<Rightarrow> candle option \<Rightarrow> candle_metrics
    \<Rightarrow> candle_metrics option \<Rightarrow> candle_metrics option \<Rightarrow> detected" where
  "build dir f cur prev prev2 m pm pm2 =
     (case extremes_of f m pm pm2 of (high, low, sz, kind) \<Rightarrow>
       let start_time =
             (if dg_double_tweezer f
              then (case prev2 of None \<Rightarrow> cn_time cur | Some c \<Rightarrow> cn_time c)
              else if dg_tweezer f \<or> dg_regular f \<or> dg_floating f
              then (case prev of None \<Rightarrow> cn_time cur | Some c \<Rightarrow> cn_time c)
              else cn_time cur);
           origin = (if kind = RegularEngulfer \<or> kind = FloatingEngulfer
              then (case prev of Some p \<Rightarrow> p | None \<Rightarrow> cur) else cur) in
       \<lparr>dt_direction = dir,
        dt_geometry = \<lparr>sg_high = high, sg_low = low, sg_range = fsub high low, sg_kind = kind,
          sg_start_time = start_time, sg_band_anchor = band_anchor kind dir origin cur\<rparr>,
        dt_size = sz\<rparr>)"

text \<open>The bar \<open>k\<close> before bar \<open>i\<close>, if the window has one.\<close>

definition bar_back :: "candle list \<Rightarrow> nat \<Rightarrow> nat \<Rightarrow> candle option" where
  "bar_back candles i k =
     (if k \<le> i \<and> i - k < length candles then Some (candles ! (i - k)) else None)"

definition detect_at :: "candle list \<Rightarrow> nat \<Rightarrow> detect_flags \<Rightarrow> detected option" where
  "detect_at candles i flags =
     (case bar_back candles i 0 of None \<Rightarrow> None
      | Some cur \<Rightarrow>
          let m = metrics_of cur in
          if \<not> mt_valid_candle m then None
          else
            let prev = bar_back candles i 1; prev2 = bar_back candles i 2;
                pm = map_option metrics_of prev; pm2 = map_option metrics_of prev2;
                pm3 = map_option metrics_of (bar_back candles i 3);
                bull = flags_for Long m pm pm2 pm3 flags;
                bear = flags_for Short m pm pm2 pm3 flags in
            if any_flag bull then Some (build Long bull cur prev prev2 m pm pm2)
            else if any_flag bear then Some (build Short bear cur prev prev2 m pm pm2)
            else None)"

section \<open>Facts\<close>

lemma bar_back_take: "i < n \<Longrightarrow> bar_back (take n cs) i k = bar_back cs i k"
  by (auto simp: bar_back_def)

text \<open>A pattern is judged on the bars up to its own.\<close>

lemma detect_at_take: "i < n \<Longrightarrow> detect_at (take n cs) i fl = detect_at cs i fl"
  by (simp only: detect_at_def bar_back_take)

lemma length_true_ranges [simp]: "length (true_ranges pc cs) = length cs"
  by (induction cs arbitrary: pc) auto

lemma true_ranges_append:
  "true_ranges pc (cs @ ds) =
     true_ranges pc cs @ true_ranges (if cs = [] then pc else Some (cn_c (last cs))) ds"
  by (induction cs arbitrary: pc) auto

lemma true_ranges_snoc:
  "true_ranges pc (cs @ [c]) =
     true_ranges pc cs @ [true_range c (if cs = [] then pc else Some (cn_c (last cs)))]"
  by (simp add: true_ranges_append)

lemma wilder_atr_snoc:
  assumes "n \<le> length cs" and "0 < n"
  shows "wilder_atr (cs @ [c]) n =
    map_option (\<lambda>atr. wilder_step n atr (true_range c (Some (cn_c (last cs))))) (wilder_atr cs n)"
  using assms by (auto simp: wilder_atr_def true_ranges_snoc Let_def)

lemma wilder_atr_seed:
  assumes "length cs = n" and "0 < n"
  shows "wilder_atr cs n =
    Some (fdiv (foldl fadd (Fin 0) (true_ranges None cs)) (Fin (of_nat n)))"
  using assms by (simp add: wilder_atr_def Let_def)

lemma wilder_atr_short: "length cs < n \<Longrightarrow> wilder_atr cs n = None"
  by (simp add: wilder_atr_def)

lemma atr_length_pos [simp]: "0 < atr_length_for g"
  by (cases g) (simp_all add: atr_length_for_def atr_length_for_bar_minutes_def)

end
