(* ===== verification/Signal_Track.thy ===== *)
theory Signal_Track
  imports Signal_Detect
begin

text \<open>
  From printed patterns to signals (\<open>core/src/signals/state_machine.rs\<close>, \<open>signals.rs\<close>): every
  print is tracked until it is confirmed or refuted, the newest is latched, and an entry may
  ask for the first one to be confirmed.
\<close>

section \<open>Configuration\<close>

record detector_config =
  dc_detect :: detect_flags
  dc_confirm_bars :: nat
  dc_sl_lookback :: nat
  dc_granularity :: granularity

definition pine_defaults :: "granularity \<Rightarrow> detector_config" where
  "pine_defaults g = \<lparr>dc_detect = default_flags, dc_confirm_bars = 2, dc_sl_lookback = 5,
     dc_granularity = g\<rparr>"

definition min_lookback_bars :: "detector_config \<Rightarrow> nat" where
  "min_lookback_bars cfg = 3 + dc_sl_lookback cfg + dc_confirm_bars cfg + 2"

definition detector_lookback_bars :: "detector_config \<Rightarrow> granularity \<Rightarrow> nat" where
  "detector_lookback_bars cfg g = max (min_lookback_bars cfg) (atr_length_for g + 2)"

definition confirmed_scan_floor ::
  "time list \<Rightarrow> nat \<Rightarrow> detector_config \<Rightarrow> granularity \<Rightarrow> time option \<Rightarrow> time option" where
  "confirmed_scan_floor window as_of cfg g explicit =
     (if explicit \<noteq> None then explicit
      else if window = [] then None
      else let i = min as_of (length window - 1) in
        Some (window ! (i - detector_lookback_bars cfg g)))"

section \<open>Tracked prints\<close>

record tracked =
  tk_direction :: direction
  tk_high :: f64
  tk_low :: f64
  tk_range :: f64
  tk_kind :: signal_kind
  tk_start_time :: time
  tk_band_anchor :: f64
  tk_atr :: "f64 option"
  tk_signal_bar :: nat
  tk_state :: sig_state
  tk_golden :: bool
  tk_broke :: bool

record latch =
  lt_direction :: direction
  lt_kind :: signal_kind
  lt_high :: f64
  lt_low :: f64
  lt_range :: f64
  lt_start_time :: time
  lt_band_anchor :: f64
  lt_golden :: bool
  lt_confirmed :: bool
  lt_atr :: "f64 option"

definition golden_print :: "detected \<Rightarrow> f64 option \<Rightarrow> bool" where
  "golden_print d atr = (case atr of Some a \<Rightarrow> is_golden d a | None \<Rightarrow> False)"

definition track :: "detected \<Rightarrow> f64 option \<Rightarrow> nat \<Rightarrow> tracked" where
  "track d atr bar = (let g = dt_geometry d in
     \<lparr>tk_direction = dt_direction d, tk_high = sg_high g, tk_low = sg_low g, tk_range = sg_range g,
      tk_kind = sg_kind g, tk_start_time = sg_start_time g, tk_band_anchor = sg_band_anchor g,
      tk_atr = atr, tk_signal_bar = bar, tk_state = Pending, tk_golden = golden_print d atr,
      tk_broke = False\<rparr>)"

definition latch_print :: "detected \<Rightarrow> f64 option \<Rightarrow> latch" where
  "latch_print d atr = (let g = dt_geometry d in
     \<lparr>lt_direction = dt_direction d, lt_kind = sg_kind g, lt_high = sg_high g, lt_low = sg_low g,
      lt_range = sg_range g, lt_start_time = sg_start_time g, lt_band_anchor = sg_band_anchor g,
      lt_golden = golden_print d atr, lt_confirmed = False, lt_atr = atr\<rparr>)"

text \<open>
  The body of the loop of \<open>update_tracked\<close>, for a signal that is not refuted. \<open>opp\<close> tells
  whether a signal of the other direction printed on this bar and whether it is golden.
\<close>

definition pushed :: "candle \<Rightarrow> tracked \<Rightarrow> bool" where
  "pushed c t = (case tk_direction t of Long \<Rightarrow> fgt (cn_h c) (tk_high t)
     | Short \<Rightarrow> flt (cn_l c) (tk_low t))"

definition breached :: "candle \<Rightarrow> tracked \<Rightarrow> bool" where
  "breached c t = (case tk_direction t of Long \<Rightarrow> flt (cn_l c) (tk_low t)
     | Short \<Rightarrow> fgt (cn_h c) (tk_high t))"

definition next_tracked ::
  "detector_config \<Rightarrow> nat \<Rightarrow> candle \<Rightarrow> (direction \<Rightarrow> bool option) \<Rightarrow> tracked \<Rightarrow> tracked" where
  "next_tracked cfg bar c opp t =
     (let elapsed = bar - tk_signal_bar t;
          broke = (tk_broke t \<or>
            tk_state t = Pending \<and> elapsed \<le> dc_confirm_bars cfg \<and> pushed c t);
          s1 = (if tk_state t = Pending \<and> dc_confirm_bars cfg \<le> elapsed
            then if broke then Valid else Invalid else tk_state t);
          s2 = (if breached c t then Invalid else s1);
          s3 = (if elapsed \<le> dc_confirm_bars cfg \<and> s2 \<noteq> Invalid
            then (case opp (tk_direction t) of None \<Rightarrow> s2
                  | Some opp_golden \<Rightarrow> if tk_golden t \<and> \<not> opp_golden then s2 else Invalid)
            else s2) in
      t\<lparr>tk_broke := broke, tk_state := s3\<rparr>)"

definition note_transition ::
  "nat option \<Rightarrow> tracked \<Rightarrow> sig_state \<Rightarrow> latch option \<times> bool \<Rightarrow> latch option \<times> bool" where
  "note_transition latch_bar t new = (\<lambda>(latch, just_valid).
     if new = tk_state t then (latch, just_valid)
     else
       let latched = (latch_bar = Some (tk_signal_bar t)) in
       if new = Valid
       then (if latched then map_option (lt_confirmed_update (\<lambda>_. True)) latch else latch, True)
       else if tk_state t \<noteq> Invalid \<and> new = Invalid \<and> latched
       then (map_option (lt_confirmed_update (\<lambda>_. False)) latch, just_valid)
       else (latch, just_valid))"

definition opposer_golden ::
  "detector_config \<Rightarrow> candle list \<Rightarrow> nat \<Rightarrow> detected option \<Rightarrow> direction \<Rightarrow> bool option" where
  "opposer_golden cfg candles bar printed dir =
     (case printed of None \<Rightarrow> None
      | Some d \<Rightarrow>
          if dt_direction d = dir then None
          else Some (golden_print d
            (wilder_atr (take (bar + 1) candles) (atr_length_for (dc_granularity cfg)))))"

fun update_all ::
  "(tracked \<Rightarrow> tracked) \<Rightarrow> nat option \<Rightarrow> tracked list \<Rightarrow> latch option \<times> bool
    \<Rightarrow> tracked list \<times> latch option \<times> bool" where
  "update_all f latch_bar [] s = ([], s)"
| "update_all f latch_bar (t # ts) s =
     (if tk_state t = Invalid
      then case update_all f latch_bar ts s of (ts', s') \<Rightarrow> (t # ts', s')
      else case update_all f latch_bar ts (note_transition latch_bar t (tk_state (f t)) s) of
        (ts', s') \<Rightarrow> (f t # ts', s'))"

definition update_tracked ::
  "tracked list \<Rightarrow> nat \<Rightarrow> candle list \<Rightarrow> detector_config \<Rightarrow> detected option \<Rightarrow> latch option
    \<Rightarrow> nat option \<Rightarrow> tracked list \<times> latch option \<times> bool" where
  "update_tracked ts bar candles cfg printed latch latch_bar =
     update_all (next_tracked cfg bar (candles ! bar) (opposer_golden cfg candles bar printed))
       latch_bar ts (latch, False)"

text \<open>\<open>f64::MAX\<close> and \<open>f64::MIN\<close> start the folds over the bars before the signal.\<close>

definition f64_max :: f64 where
  "f64_max = Fin ((2 - 1 / 2 ^ 52) * 2 ^ 1023)"

definition recent_extremes :: "candle list \<Rightarrow> nat \<Rightarrow> nat \<Rightarrow> f64 option \<times> f64 option" where
  "recent_extremes candles signal_bar lookback =
     (if signal_bar = 0 \<or> lookback = 0 then (None, None)
      else
        let start = signal_bar - lookback;
            window = drop start (take signal_bar candles) in
        if window = [] then (None, None)
        else (Some (foldl fmax (fneg f64_max) (map cn_h window)),
              Some (foldl fmin f64_max (map cn_l window))))"

section \<open>The newest signal\<close>

definition emit ::
  "candle list \<Rightarrow> detector_config \<Rightarrow> tracked list \<Rightarrow> latch option \<Rightarrow> nat option \<Rightarrow> bool
    \<Rightarrow> latched_signal option" where
  "emit candles cfg ts latch latch_bar fires =
     (case (latch, latch_bar) of
        (Some l, Some signal_bar) \<Rightarrow>
          (case recent_extremes candles signal_bar (dc_sl_lookback cfg) of (hi, lo) \<Rightarrow>
            Some \<lparr>ls_direction = lt_direction l, ls_kind = lt_kind l, ls_signal_high = lt_high l,
              ls_signal_low = lt_low l, ls_signal_range = lt_range l,
              ls_signal_start_time = lt_start_time l,
              ls_signal_bar_time = cn_time (candles ! signal_bar), ls_golden = lt_golden l,
              ls_signal_confirmed = lt_confirmed l, ls_band_anchor = lt_band_anchor l,
              ls_atr = lt_atr l, ls_recent_high = hi, ls_recent_low = lo,
              ls_state = (case find (\<lambda>t. tk_signal_bar t = signal_bar) ts of
                 Some t \<Rightarrow> tk_state t | None \<Rightarrow> Pending),
              ls_fires = fires\<rparr>)
      | _ \<Rightarrow> None)"

type_synonym replay = "tracked list \<times> latch option \<times> nat option \<times> bool"

definition replay_bar ::
  "candle list \<Rightarrow> detector_config \<Rightarrow> nat \<Rightarrow> nat \<Rightarrow> replay \<Rightarrow> replay" where
  "replay_bar candles cfg as_of bar = (\<lambda>(ts, latch, latch_bar, fired).
     let printed = detect_at candles bar (dc_detect cfg) in
     case update_tracked ts bar candles cfg printed latch latch_bar of (ts, latch, just_valid) \<Rightarrow>
     case printed of
       Some d \<Rightarrow>
         let atr = wilder_atr (take (bar + 1) candles) (atr_length_for (dc_granularity cfg)) in
         (ts @ [track d atr bar], Some (latch_print d atr), Some bar,
          fired \<or> bar = as_of \<or> bar = as_of \<and> just_valid)
     | None \<Rightarrow> (ts, latch, latch_bar, fired \<or> bar = as_of \<and> just_valid))"

definition latched_signal_at ::
  "candle list \<Rightarrow> nat \<Rightarrow> detector_config \<Rightarrow> latched_signal option" where
  "latched_signal_at candles as_of cfg =
     (if length candles \<le> as_of then None
      else case fold (replay_bar candles cfg as_of) [0..<as_of + 1] ([], None, None, False) of
        (ts, latch, latch_bar, fired) \<Rightarrow> emit candles cfg ts latch latch_bar fired)"

section \<open>Every bar in one pass\<close>

text \<open>The running mean: last close, sum while seeding, and the average once seeded.\<close>

type_synonym running_atr = "f64 option \<times> f64 \<times> f64 option"

definition running_atr_step :: "nat \<Rightarrow> nat \<Rightarrow> candle \<Rightarrow> running_atr \<Rightarrow> running_atr" where
  "running_atr_step atr_len bar c = (\<lambda>(prev_close, seed_sum, atr).
     let tr = true_range c prev_close in
     (Some (cn_c c),
      if atr_len \<noteq> 0 \<and> bar + 1 \<le> atr_len then fadd seed_sum tr else seed_sum,
      if atr_len = 0 then None
      else if bar + 1 < atr_len then atr
      else if bar + 1 = atr_len then Some (fdiv (fadd seed_sum tr) (Fin (of_nat atr_len)))
      else map_option (\<lambda>prev. wilder_step atr_len prev tr) atr))"

type_synonym history =
  "running_atr \<times> tracked list \<times> latch option \<times> nat option \<times> latched_signal option list"

definition history_bar :: "candle list \<Rightarrow> detector_config \<Rightarrow> nat \<Rightarrow> history \<Rightarrow> history" where
  "history_bar candles cfg bar = (\<lambda>(r, ts, latch, latch_bar, out).
     let r = running_atr_step (atr_length_for (dc_granularity cfg)) bar (candles ! bar) r;
         printed = detect_at candles bar (dc_detect cfg) in
     case update_tracked ts bar candles cfg printed latch latch_bar of (ts, latch, just_valid) \<Rightarrow>
     case printed of
       Some d \<Rightarrow>
         let atr = snd (snd r); ts = ts @ [track d atr bar]; latch = Some (latch_print d atr) in
         (r, ts, latch, Some bar, out @ [emit candles cfg ts latch (Some bar) True])
     | None \<Rightarrow> (r, ts, latch, latch_bar, out @ [emit candles cfg ts latch latch_bar just_valid]))"

definition latched_signal_history ::
  "candle list \<Rightarrow> detector_config \<Rightarrow> latched_signal option list" where
  "latched_signal_history candles cfg =
     (case fold (history_bar candles cfg) [0..<length candles]
        ((None, Fin 0, None), [], None, None, []) of (_, _, _, _, out) \<Rightarrow> out)"

section \<open>The first signal to be confirmed\<close>

record signal_criteria =
  sc_dir :: direction
  sc_kind :: "signal_kind option"
  sc_require_golden :: bool
  sc_not_before :: "time option"
  sc_after :: "time option"

definition admits :: "signal_criteria \<Rightarrow> tracked \<Rightarrow> time \<Rightarrow> bool" where
  "admits crit t print_time \<longleftrightarrow>
     tk_direction t = sc_dir crit \<and>
     (case sc_kind crit of None \<Rightarrow> True | Some k \<Rightarrow> tk_kind t = k) \<and>
     (case sc_not_before crit of None \<Rightarrow> True | Some t0 \<Rightarrow> t0 \<le> print_time) \<and>
     (case sc_after crit of None \<Rightarrow> True | Some w \<Rightarrow> w < print_time) \<and>
     (sc_require_golden crit \<longrightarrow> tk_golden t)"

text \<open>The bars on which the winner printed and was confirmed.\<close>

type_synonym winner_scan = "tracked list \<times> (nat \<times> nat) option"

definition scan_bar ::
  "candle list \<Rightarrow> detector_config \<Rightarrow> signal_criteria \<Rightarrow> (time \<Rightarrow> time \<Rightarrow> bool) \<Rightarrow> nat
    \<Rightarrow> winner_scan \<Rightarrow> winner_scan" where
  "scan_bar candles cfg crit accepts bar = (\<lambda>(ts, winner).
     let printed = detect_at candles bar (dc_detect cfg);
         was_valid = map (\<lambda>t. tk_state t = Valid) ts;
         ts = fst (update_tracked ts bar candles cfg printed None None);
         winner = (case winner of Some w \<Rightarrow> Some w
           | None \<Rightarrow> map_option (\<lambda>(t, _). (tk_signal_bar t, bar))
               (find (\<lambda>(t, was). tk_state t = Valid \<and> \<not> was \<and>
                    admits crit t (cn_time (candles ! tk_signal_bar t)) \<and>
                    accepts (tk_start_time t) (cn_time (candles ! tk_signal_bar t)))
                  (zip ts was_valid))) in
     (case printed of
        Some d \<Rightarrow> ts @ [track d (wilder_atr (take (bar + 1) candles)
            (atr_length_for (dc_granularity cfg))) bar]
      | None \<Rightarrow> ts, winner))"

definition first_confirmed_signal_matching_at ::
  "candle list \<Rightarrow> nat \<Rightarrow> detector_config \<Rightarrow> signal_criteria \<Rightarrow> (time \<Rightarrow> time \<Rightarrow> bool)
    \<Rightarrow> latched_signal option" where
  "first_confirmed_signal_matching_at candles as_of cfg crit accepts =
     (if length candles \<le> as_of then None
      else case fold (scan_bar candles cfg crit accepts) [0..<as_of + 1] ([], None) of
        (_, None) \<Rightarrow> None
      | (ts, Some (winner_bar, confirmed_on)) \<Rightarrow>
          (case find (\<lambda>t. tk_signal_bar t = winner_bar) ts of
             None \<Rightarrow> None
           | Some t \<Rightarrow>
               (case recent_extremes candles (tk_signal_bar t) (dc_sl_lookback cfg) of (hi, lo) \<Rightarrow>
                 Some \<lparr>ls_direction = tk_direction t, ls_kind = tk_kind t,
                   ls_signal_high = tk_high t, ls_signal_low = tk_low t,
                   ls_signal_range = tk_range t, ls_signal_start_time = tk_start_time t,
                   ls_signal_bar_time = cn_time (candles ! tk_signal_bar t),
                   ls_golden = tk_golden t, ls_signal_confirmed = True,
                   ls_band_anchor = tk_band_anchor t, ls_atr = tk_atr t,
                   ls_recent_high = hi, ls_recent_low = lo, ls_state = tk_state t,
                   ls_fires = (confirmed_on = as_of)\<rparr>)))"

end
