(* ===== verification/Signal_Facts.thy ===== *)
theory Signal_Facts
  imports Signal_Track
begin

text \<open>
  What the detector's answers depend on: the pass over all bars gives each bar's own answer,
  no answer looks ahead, a confirmed winner is never replaced, and a signal is confirmed by a
  push past its extreme with no breach in between.
\<close>

lemma fold_upt_Suc: "fold f [0..<Suc k] s = f k (fold f [0..<k] s)"
  by simp

section \<open>Tracked prints evolve independently\<close>

definition advance ::
  "candle list \<Rightarrow> detector_config \<Rightarrow> nat \<Rightarrow> tracked \<Rightarrow> tracked" where
  "advance cs cfg bar t = (if tk_state t = Invalid then t
     else next_tracked cfg bar (cs ! bar) (opposer_golden cfg cs bar (detect_at cs bar (dc_detect cfg))) t)"

lemma fst_update_all:
  "fst (update_all f lb ts s) = map (\<lambda>t. if tk_state t = Invalid then t else f t) ts"
  by (induction f lb ts s rule: update_all.induct) (auto split: prod.splits)

lemma fst_update_tracked:
  "fst (update_tracked ts bar cs cfg (detect_at cs bar (dc_detect cfg)) latch lb) =
     map (advance cs cfg bar) ts"
  by (simp add: update_tracked_def fst_update_all advance_def)

lemma next_tracked_fixed [simp]:
  "tk_direction (next_tracked cfg bar c opp t) = tk_direction t"
  "tk_high (next_tracked cfg bar c opp t) = tk_high t"
  "tk_low (next_tracked cfg bar c opp t) = tk_low t"
  "tk_range (next_tracked cfg bar c opp t) = tk_range t"
  "tk_kind (next_tracked cfg bar c opp t) = tk_kind t"
  "tk_start_time (next_tracked cfg bar c opp t) = tk_start_time t"
  "tk_band_anchor (next_tracked cfg bar c opp t) = tk_band_anchor t"
  "tk_atr (next_tracked cfg bar c opp t) = tk_atr t"
  "tk_signal_bar (next_tracked cfg bar c opp t) = tk_signal_bar t"
  "tk_golden (next_tracked cfg bar c opp t) = tk_golden t"
  by (simp_all add: next_tracked_def Let_def)

definition same_print :: "tracked \<Rightarrow> tracked \<Rightarrow> bool" where
  "same_print t t' \<longleftrightarrow> t' = t\<lparr>tk_state := tk_state t', tk_broke := tk_broke t'\<rparr>"

lemma same_print_refl [simp]: "same_print t t"
  by (simp add: same_print_def)

lemma same_print_trans: "same_print s t \<Longrightarrow> same_print t u \<Longrightarrow> same_print s u"
  unfolding same_print_def by (cases s; cases t; cases u) simp

lemma same_print_fields:
  "same_print t t' \<Longrightarrow> tk_direction t' = tk_direction t \<and> tk_high t' = tk_high t \<and> tk_low t' = tk_low t \<and>
     tk_range t' = tk_range t \<and> tk_kind t' = tk_kind t \<and> tk_start_time t' = tk_start_time t \<and>
     tk_band_anchor t' = tk_band_anchor t \<and> tk_atr t' = tk_atr t \<and>
     tk_signal_bar t' = tk_signal_bar t \<and> tk_golden t' = tk_golden t"
  unfolding same_print_def by (cases t; cases t') simp

lemma same_print_advance: "same_print t (advance cs cfg bar t)"
  unfolding same_print_def advance_def next_tracked_def Let_def by (cases t) simp

lemma advance_signal_bar [simp]: "tk_signal_bar (advance cs cfg bar t) = tk_signal_bar t"
  using same_print_fields [OF same_print_advance] by simp

section \<open>The tracked list\<close>

definition print_at :: "candle list \<Rightarrow> detector_config \<Rightarrow> nat \<Rightarrow> tracked option" where
  "print_at cs cfg bar = map_option
     (\<lambda>d. track d (wilder_atr (take (bar + 1) cs) (atr_length_for (dc_granularity cfg))) bar)
     (detect_at cs bar (dc_detect cfg))"

fun tracks :: "candle list \<Rightarrow> detector_config \<Rightarrow> nat \<Rightarrow> tracked list" where
  "tracks cs cfg 0 = []"
| "tracks cs cfg (Suc k) = map (advance cs cfg k) (tracks cs cfg k) @
     (case print_at cs cfg k of None \<Rightarrow> [] | Some t \<Rightarrow> [t])"

abbreviation replay_to :: "candle list \<Rightarrow> detector_config \<Rightarrow> nat \<Rightarrow> nat \<Rightarrow> replay" where
  "replay_to cs cfg a k \<equiv> fold (replay_bar cs cfg a) [0..<k] ([], None, None, False)"

abbreviation scan_to ::
  "candle list \<Rightarrow> detector_config \<Rightarrow> signal_criteria \<Rightarrow> (time \<Rightarrow> time \<Rightarrow> bool) \<Rightarrow> nat \<Rightarrow> winner_scan"
where
  "scan_to cs cfg crit acc k \<equiv> fold (scan_bar cs cfg crit acc) [0..<k] ([], None)"

lemma fst_replay_bar:
  "fst (replay_bar cs cfg a bar st) = map (advance cs cfg bar) (fst st) @
     (case print_at cs cfg bar of None \<Rightarrow> [] | Some t \<Rightarrow> [t])"
  using fst_update_tracked [of "fst st" bar cs cfg "fst (snd st)" "fst (snd (snd st))"]
  by (cases st) (auto simp: replay_bar_def print_at_def Let_def split: prod.splits option.splits)

lemma fst_replay_to: "fst (replay_to cs cfg a k) = tracks cs cfg k"
  by (induction k) (simp_all add: fold_upt_Suc fst_replay_bar)

lemma fst_scan_bar:
  "fst (scan_bar cs cfg crit acc bar st) = map (advance cs cfg bar) (fst st) @
     (case print_at cs cfg bar of None \<Rightarrow> [] | Some t \<Rightarrow> [t])"
  using fst_update_tracked [of "fst st" bar cs cfg None None]
  by (cases st) (auto simp: scan_bar_def print_at_def Let_def split: option.splits)

lemma fst_scan_to: "fst (scan_to cs cfg crit acc k) = tracks cs cfg k"
  by (induction k) (simp_all add: fold_upt_Suc fst_scan_bar)

lemma tracks_signal_bar:
  "map tk_signal_bar (tracks cs cfg k) = filter (\<lambda>b. detect_at cs b (dc_detect cfg) \<noteq> None) [0..<k]"
proof (induction k)
  case (Suc k)
  then have "map (tk_signal_bar \<circ> advance cs cfg k) (tracks cs cfg k) =
      filter (\<lambda>b. detect_at cs b (dc_detect cfg) \<noteq> None) [0..<k]"
    by (simp add: comp_def)
  then show ?case by (auto simp: print_at_def track_def Let_def split: option.splits)
qed simp

lemma tracks_distinct: "distinct (map tk_signal_bar (tracks cs cfg k))"
  by (simp add: tracks_signal_bar)

lemma tracks_bound: "t \<in> set (tracks cs cfg k) \<Longrightarrow> tk_signal_bar t < k"
proof -
  assume "t \<in> set (tracks cs cfg k)"
  then have "tk_signal_bar t \<in> set (map tk_signal_bar (tracks cs cfg k))" by simp
  then show ?thesis unfolding tracks_signal_bar by simp
qed

section \<open>One pass gives every bar's answer\<close>

text \<open>The loop body of the replay, with what would fire on its own bar.\<close>

definition core_bar :: "candle list \<Rightarrow> detector_config \<Rightarrow> nat \<Rightarrow> replay \<Rightarrow> replay" where
  "core_bar cs cfg bar = (\<lambda>(ts, latch, lb, _). replay_bar cs cfg bar bar (ts, latch, lb, False))"

abbreviation core_to :: "candle list \<Rightarrow> detector_config \<Rightarrow> nat \<Rightarrow> replay" where
  "core_to cs cfg k \<equiv> fold (core_bar cs cfg) [0..<k] ([], None, None, False)"

lemma replay_bar_core:
  "replay_bar cs cfg a bar (ts, latch, lb, fired) =
     (case core_bar cs cfg bar (ts, latch, lb, g) of
        (ts, latch, lb, fires) \<Rightarrow> (ts, latch, lb, fired \<or> bar = a \<and> fires))"
  by (auto simp: replay_bar_def core_bar_def Let_def split: prod.splits option.splits)

lemma replay_to_core:
  "replay_to cs cfg a k = (case core_to cs cfg k of (ts, latch, lb, _) \<Rightarrow>
     (ts, latch, lb, a < k \<and> snd (snd (snd (core_to cs cfg (Suc a))))))"
proof (induction k)
  case (Suc k)
  obtain ts latch lb g where c: "core_to cs cfg k = (ts, latch, lb, g)" by (metis prod_cases4)
  have "a < Suc k \<longleftrightarrow> a < k \<or> k = a" by auto
  then show ?case
    unfolding fold_upt_Suc [of _ k] Suc c
    using c by (cases "k = a")
      (simp_all add: replay_bar_core [where g = g] fold_upt_Suc split: prod.splits)
qed simp

lemma latched_signal_core:
  "latched_signal_at cs i cfg = (if length cs \<le> i then None
     else case core_to cs cfg (Suc i) of (ts, latch, lb, fires) \<Rightarrow> emit cs cfg ts latch lb fires)"
  by (simp add: latched_signal_at_def replay_to_core split: prod.splits del: upt_Suc)

definition atr_upto :: "nat \<Rightarrow> candle list \<Rightarrow> running_atr \<Rightarrow> bool" where
  "atr_upto n cs r \<longleftrightarrow> fst r = (if cs = [] then None else Some (cn_c (last cs))) \<and>
     (length cs < n \<longrightarrow> fst (snd r) = foldl fadd (Fin 0) (true_ranges None cs)) \<and>
     snd (snd r) = wilder_atr cs n"

lemma atr_upto_step:
  assumes "atr_upto n cs r" and "0 < n"
  shows "atr_upto n (cs @ [c]) (running_atr_step n (length cs) c r)"
proof -
  obtain pc s a where r: "r = (pc, s, a)" by (metis prod_cases3)
  show ?thesis
  proof (cases "Suc (length cs) < n")
    case True
    then show ?thesis using assms
      by (simp add: atr_upto_def running_atr_step_def r Let_def true_ranges_snoc wilder_atr_short)
  next
    case False
    show ?thesis
    proof (cases "Suc (length cs) = n")
      case True
      then show ?thesis using assms
        by (simp add: atr_upto_def running_atr_step_def r Let_def true_ranges_snoc wilder_atr_seed)
    next
      case False
      with \<open>\<not> Suc (length cs) < n\<close> have "n \<le> length cs" by simp
      then show ?thesis using assms False
        by (auto simp: atr_upto_def running_atr_step_def r Let_def wilder_atr_snoc)
    qed
  qed
qed

lemma history_to:
  assumes "k \<le> length cs"
  shows "\<exists>r. fold (history_bar cs cfg) [0..<k] ((None, Fin 0, None), [], None, None, []) =
      (r, fst (core_to cs cfg k), fst (snd (core_to cs cfg k)), fst (snd (snd (core_to cs cfg k))),
       map (\<lambda>i. latched_signal_at cs i cfg) [0..<k]) \<and>
    atr_upto (atr_length_for (dc_granularity cfg)) (take k cs) r"
  using assms
proof (induction k)
  case 0
  then show ?case by (simp add: atr_upto_def wilder_atr_def)
next
  case (Suc k)
  let ?n = "atr_length_for (dc_granularity cfg)"
  obtain r where h: "fold (history_bar cs cfg) [0..<k] ((None, Fin 0, None), [], None, None, []) =
      (r, fst (core_to cs cfg k), fst (snd (core_to cs cfg k)), fst (snd (snd (core_to cs cfg k))),
       map (\<lambda>i. latched_signal_at cs i cfg) [0..<k])"
    and a: "atr_upto ?n (take k cs) r"
    using Suc by auto
  obtain ts latch lb g where c: "core_to cs cfg k = (ts, latch, lb, g)" by (metis prod_cases4)
  let ?r = "running_atr_step ?n k (cs ! k) r"
  have a': "atr_upto ?n (take (Suc k) cs) ?r"
    using atr_upto_step [OF a, of "cs ! k"] Suc.prems by (simp add: take_Suc_conv_app_nth)
  then have w: "snd (snd ?r) = wilder_atr (take (Suc k) cs) ?n" by (simp add: atr_upto_def)
  have s: "latched_signal_at cs k cfg = (case core_bar cs cfg k (ts, latch, lb, g) of
      (ts, latch, lb, fires) \<Rightarrow> emit cs cfg ts latch lb fires)"
    using Suc.prems by (simp add: latched_signal_core c fold_upt_Suc)
  have "history_bar cs cfg k (r, ts, latch, lb, map (\<lambda>i. latched_signal_at cs i cfg) [0..<k]) =
      (case core_bar cs cfg k (ts, latch, lb, g) of (ts', latch', lb', fires) \<Rightarrow>
        (?r, ts', latch', lb', map (\<lambda>i. latched_signal_at cs i cfg) [0..<k] @
           [emit cs cfg ts' latch' lb' fires]))"
    using w by (auto simp: history_bar_def core_bar_def replay_bar_def Let_def split: prod.splits option.splits)
  then show ?case using s a'
    by (intro exI [of _ ?r]) (simp add: fold_upt_Suc h c split: prod.splits)
qed

section \<open>No answer looks ahead\<close>

lemma prefix_take: "bar < m \<Longrightarrow> take (bar + 1) (take m cs) = take (bar + 1) cs"
  by (simp add: min_absorb1)

lemma opposer_golden_take:
  "bar < m \<Longrightarrow> opposer_golden cfg (take m cs) bar p = opposer_golden cfg cs bar p"
  by (rule ext) (simp add: opposer_golden_def min_absorb1 split: option.split)

lemma update_tracked_take:
  "bar < m \<Longrightarrow> update_tracked ts bar (take m cs) cfg p latch lb = update_tracked ts bar cs cfg p latch lb"
  by (simp add: update_tracked_def opposer_golden_take)

lemma replay_bar_take:
  assumes "bar < m"
  shows "replay_bar (take m cs) cfg a bar = replay_bar cs cfg a bar"
  using assms unfolding replay_bar_def prefix_take [OF assms]
  by (simp add: update_tracked_take detect_at_take)

lemma scan_bar_take:
  assumes "bar < m" and "\<And>t. t \<in> set (fst st) \<Longrightarrow> tk_signal_bar t < m"
  shows "scan_bar (take m cs) cfg crit acc bar st = scan_bar cs cfg crit acc bar st"
proof -
  obtain ts w where st: "st = (ts, w)" by fastforce
  let ?ts = "fst (update_tracked ts bar cs cfg (detect_at cs bar (dc_detect cfg)) None None)"
  let ?V = "map (\<lambda>t. tk_state t = Valid) ts"
  have b: "tk_signal_bar t < m" if "(t, v) \<in> set (zip ?ts ?V)" for t v
    using assms(2) set_zip_leftD [OF that] unfolding fst_update_tracked by (auto simp: st)
  have "find (\<lambda>(t, was). tk_state t = Valid \<and> \<not> was \<and> admits crit t (cn_time (take m cs ! tk_signal_bar t)) \<and>
        acc (tk_start_time t) (cn_time (take m cs ! tk_signal_bar t))) (zip ?ts ?V) =
      find (\<lambda>(t, was). tk_state t = Valid \<and> \<not> was \<and> admits crit t (cn_time (cs ! tk_signal_bar t)) \<and>
        acc (tk_start_time t) (cn_time (cs ! tk_signal_bar t))) (zip ?ts ?V)"
    by (intro find_cong) (auto dest: b)
  then show ?thesis using assms(1) unfolding scan_bar_def prefix_take [OF assms(1)]
    by (cases w) (simp_all add: st update_tracked_take detect_at_take Let_def)
qed

lemma emit_take:
  "(\<And>b. lb = Some b \<Longrightarrow> b < m) \<Longrightarrow> emit (take m cs) cfg ts latch lb f = emit cs cfg ts latch lb f"
  by (auto simp: emit_def recent_extremes_def min_absorb1 split: option.splits)

lemma latch_bar_bound: "fst (snd (snd (replay_to cs cfg a k))) = Some b \<Longrightarrow> b < k"
proof (induction k)
  case (Suc k)
  then show ?case
    by (auto simp: fold_upt_Suc replay_bar_def Let_def less_Suc_eq split: prod.splits option.splits)
qed simp

lemma latched_signal_take:
  assumes "i < m"
  shows "latched_signal_at (take m cs) i cfg = latched_signal_at cs i cfg"
proof -
  have f: "replay_to (take m cs) cfg i (Suc i) = replay_to cs cfg i (Suc i)"
    using assms by (intro fold_cong) (auto intro!: replay_bar_take)
  obtain ts l lb g where r: "replay_to cs cfg i (Suc i) = (ts, l, lb, g)" by (metis prod_cases4)
  have "\<And>b. lb = Some b \<Longrightarrow> b < m" using latch_bar_bound [of cs cfg i "Suc i"] assms r by fastforce
  then show ?thesis using assms f r by (auto simp: latched_signal_at_def emit_take simp del: upt_Suc)
qed

lemma scan_to_take:
  assumes "k \<le> m"
  shows "scan_to (take m cs) cfg crit acc k = scan_to cs cfg crit acc k"
  using assms
proof (induction k)
  case (Suc k)
  have "tk_signal_bar t < m" if "t \<in> set (fst (scan_to cs cfg crit acc k))" for t
    using that Suc.prems by (auto simp: fst_scan_to dest: tracks_bound)
  with Suc show ?case by (simp add: fold_upt_Suc scan_bar_take)
qed simp

section \<open>What confirms a signal\<close>

text \<open>
  On bar \<open>i\<close> a signal is broken by a trade through its own extreme, or, inside its window of
  \<open>n\<close> bars, by a signal of the other direction unless only the signal itself is golden.
\<close>

definition opposed :: "candle list \<Rightarrow> detector_config \<Rightarrow> tracked \<Rightarrow> nat \<Rightarrow> bool" where
  "opposed cs cfg p i =
     (case opposer_golden cfg cs i (detect_at cs i (dc_detect cfg)) (tk_direction p) of
        None \<Rightarrow> False | Some g \<Rightarrow> \<not> (tk_golden p \<and> \<not> g))"

definition broken_on :: "candle list \<Rightarrow> detector_config \<Rightarrow> tracked \<Rightarrow> nat \<Rightarrow> bool" where
  "broken_on cs cfg p i \<longleftrightarrow> breached (cs ! i) p \<or>
     i \<le> tk_signal_bar p + dc_confirm_bars cfg \<and> opposed cs cfg p i"

abbreviation life :: "candle list \<Rightarrow> detector_config \<Rightarrow> tracked \<Rightarrow> nat \<Rightarrow> tracked" where
  "life cs cfg p k \<equiv> fold (advance cs cfg) [Suc (tk_signal_bar p)..<k] p"

lemma life_Suc:
  "tk_signal_bar p < k \<Longrightarrow> life cs cfg p (Suc k) = advance cs cfg k (life cs cfg p k)"
  by simp

lemma same_print_life: "same_print p (life cs cfg p k)"
proof (induction k)
  case (Suc k)
  then show ?case
    by (cases "tk_signal_bar p < k") (auto simp: life_Suc intro: same_print_trans same_print_advance simp del: upt_Suc)
qed simp

lemma pushed_same: "same_print p t \<Longrightarrow> pushed c t = pushed c p" "same_print p t \<Longrightarrow> breached c t = breached c p"
  by (simp_all add: pushed_def breached_def same_print_fields split: direction.splits)

lemma advance_state:
  fixes cfg :: detector_config and p :: tracked
  assumes "same_print p t" and "tk_state t \<noteq> Invalid"
  defines "n \<equiv> dc_confirm_bars cfg" and "b \<equiv> tk_signal_bar p"
  shows "tk_broke (advance cs cfg k t) =
      (tk_broke t \<or> tk_state t = Pending \<and> k - b \<le> n \<and> pushed (cs ! k) p)" (is ?broke)
    and "b < k \<Longrightarrow> tk_state (advance cs cfg k t) =
      (if broken_on cs cfg p k then Invalid
       else if tk_state t = Pending \<and> n \<le> k - b
       then if tk_broke (advance cs cfg k t) then Valid else Invalid else tk_state t)" (is "_ \<Longrightarrow> ?state")
proof -
  note f = same_print_fields [OF assms(1)] pushed_same [OF assms(1)]
  show ?broke using assms(2) by (simp add: advance_def next_tracked_def Let_def f n_def b_def)
  show ?state if "b < k"
    using assms(2) that
    by (auto simp: advance_def next_tracked_def Let_def f n_def b_def broken_on_def opposed_def
        split: option.splits)
qed

lemma life_state:
  fixes cfg :: detector_config and p :: tracked
  assumes "tk_state p = Pending" "\<not> tk_broke p" and n: "0 < dc_confirm_bars cfg" and "tk_signal_bar p < k"
  defines "n \<equiv> dc_confirm_bars cfg" and "b \<equiv> tk_signal_bar p"
  shows "tk_state (life cs cfg p k) =
      (if \<exists>i\<in>{b<..<k}. broken_on cs cfg p i then Invalid
       else if k \<le> b + n then Pending
       else if \<exists>i\<in>{b<..b + n}. pushed (cs ! i) p then Valid else Invalid) \<and>
    (tk_state (life cs cfg p k) = Pending \<longrightarrow>
       tk_broke (life cs cfg p k) = (\<exists>i\<in>{b<..<k}. pushed (cs ! i) p))"
  using assms(4)
proof (induction k)
  case (Suc k)
  show ?case
  proof (cases "k = b")
    case True
    have "{b<..<Suc b} = {}" by auto
    with True show ?thesis using assms(1,2) n by (simp add: b_def n_def)
  next
    case False
    then have bk: "b < k" using Suc.prems by (simp add: b_def)
    let ?t = "life cs cfg p k"
    note IH = Suc.IH [OF bk [unfolded b_def]]
    have r: "{b<..<Suc k} = insert k {b<..<k}" using bk by auto
    have st: "life cs cfg p (Suc k) = advance cs cfg k ?t" using bk by (simp add: life_Suc b_def)
    have i: "tk_state (advance cs cfg k ?t) = Invalid" if "tk_state ?t = Invalid"
      using that by (simp add: advance_def)
    note step0 = advance_state [where cfg = cfg and cs = cs and k = k, OF same_print_life [of p cs cfg k]]
    have step: "tk_state ?t \<noteq> Invalid \<Longrightarrow> tk_broke (advance cs cfg k ?t) =
        (tk_broke ?t \<or> tk_state ?t = Pending \<and> k - b \<le> n \<and> pushed (cs ! k) p)"
      "tk_state ?t \<noteq> Invalid \<Longrightarrow> tk_state (advance cs cfg k ?t) =
        (if broken_on cs cfg p k then Invalid
         else if tk_state ?t = Pending \<and> n \<le> k - b
         then if tk_broke (advance cs cfg k ?t) then Valid else Invalid else tk_state ?t)"
      using step0 bk unfolding n_def b_def by blast+
    let ?dead = "\<lambda>k. \<exists>i\<in>{b<..<k}. broken_on cs cfg p i"
    let ?hit = "\<lambda>k. \<exists>i\<in>{b<..<k}. pushed (cs ! i) p"
    have dead: "?dead (Suc k) \<longleftrightarrow> broken_on cs cfg p k \<or> ?dead k" unfolding r by blast
    have hit: "?hit (Suc k) \<longleftrightarrow> pushed (cs ! k) p \<or> ?hit k" unfolding r by blast
    consider (gone) "tk_state ?t = Invalid" | (wait) "tk_state ?t = Pending" "k \<le> b + n" "\<not> ?dead k"
      | (held) "tk_state ?t = Valid" "\<not> k \<le> b + n" "\<not> ?dead k" "\<exists>i\<in>{b<..b + n}. pushed (cs ! i) p"
      using IH by (auto split: if_splits)
    then show ?thesis
    proof cases
      case gone
      then have "?dead k \<or> \<not> k \<le> b + n \<and> \<not> (\<exists>i\<in>{b<..b + n}. pushed (cs ! i) p)"
        using IH by (auto split: if_splits)
      then show ?thesis unfolding st dead i [OF gone] by (elim disjE) auto
    next
      case wait
      have "tk_broke ?t = ?hit k" using IH wait by blast
      then have w: "tk_broke (advance cs cfg k ?t) = ?hit (Suc k)"
        using step(1) wait bk unfolding hit by auto
      have e: "{b<..<Suc k} = {b<..b + n}" if "n \<le> k - b" using that wait bk by auto
      show ?thesis unfolding st dead using step(2) wait bk w e by auto
    next
      case held
      then show ?thesis unfolding st dead using step(2) bk by auto
    qed
  qed
qed simp

section \<open>The winner\<close>

definition confirmed_print :: "candle list \<Rightarrow> detector_config \<Rightarrow> tracked \<Rightarrow> bool" where
  "confirmed_print cs cfg p \<longleftrightarrow>
     (let b = tk_signal_bar p; window = [Suc b..<Suc (b + dc_confirm_bars cfg)] in
      list_ex (\<lambda>i. pushed (cs ! i) p) window \<and> list_all (\<lambda>i. \<not> broken_on cs cfg p i) window)"

definition claims ::
  "candle list \<Rightarrow> detector_config \<Rightarrow> signal_criteria \<Rightarrow> (time \<Rightarrow> time \<Rightarrow> bool) \<Rightarrow> nat \<Rightarrow> bool" where
  "claims cs cfg crit acc b =
     (case print_at cs cfg b of None \<Rightarrow> False
      | Some p \<Rightarrow> admits crit p (cn_time (cs ! b)) \<and> acc (tk_start_time p) (cn_time (cs ! b)) \<and>
          confirmed_print cs cfg p)"

lemma print_at_fresh:
  "print_at cs cfg b = Some p \<Longrightarrow> tk_signal_bar p = b \<and> tk_state p = Pending \<and> \<not> tk_broke p"
  by (auto simp: print_at_def track_def Let_def)

lemma valid_iff:
  assumes "print_at cs cfg b = Some p" and "0 < dc_confirm_bars cfg" and "b < k"
  shows "tk_state (life cs cfg p k) = Valid \<longleftrightarrow> b + dc_confirm_bars cfg < k \<and>
    confirmed_print cs cfg p \<and> (\<forall>i\<in>{b<..<k}. \<not> broken_on cs cfg p i)"
proof -
  note p = print_at_fresh [OF assms(1)]
  have c: "confirmed_print cs cfg p \<longleftrightarrow> (\<exists>i\<in>{b<..b + dc_confirm_bars cfg}. pushed (cs ! i) p) \<and>
      (\<forall>i\<in>{b<..b + dc_confirm_bars cfg}. \<not> broken_on cs cfg p i)"
    using p by (auto simp: confirmed_print_def Let_def list_ex_iff list_all_iff simp del: upt_Suc)
  show ?thesis
    using life_state [of p cfg k cs] p assms unfolding c by (auto split: if_splits)
qed

lemma freshly_valid_iff:
  assumes "print_at cs cfg b = Some p" and "0 < dc_confirm_bars cfg" and "b < k"
  shows "tk_state (life cs cfg p (Suc k)) = Valid \<and> tk_state (life cs cfg p k) \<noteq> Valid \<longleftrightarrow>
    k = b + dc_confirm_bars cfg \<and> confirmed_print cs cfg p"
proof -
  note p = print_at_fresh [OF assms(1)]
  have c: "\<not> broken_on cs cfg p i" if "confirmed_print cs cfg p" "b < i" "i \<le> b + dc_confirm_bars cfg" for i
    using that p by (auto simp: confirmed_print_def Let_def list_all_iff simp del: upt_Suc)
  show ?thesis
    using valid_iff [OF assms] valid_iff [OF assms(1,2), of "Suc k"] assms(3) c by (auto simp: less_Suc_eq)
qed

lemma set_tracks:
  "t \<in> set (tracks cs cfg k) \<longleftrightarrow> (\<exists>b<k. \<exists>p. print_at cs cfg b = Some p \<and> t = life cs cfg p k)"
proof (induction k arbitrary: t)
  case (Suc k)
  have l: "life cs cfg p (Suc k) = advance cs cfg k (life cs cfg p k)"
    if "print_at cs cfg b = Some p" "b < k" for b p
    using print_at_fresh [OF that(1)] that(2) by (simp add: life_Suc)
  have e: "life cs cfg p (Suc k) = p" if "print_at cs cfg k = Some p" for p
    using print_at_fresh [OF that] by simp
  have "t \<in> advance cs cfg k ` set (tracks cs cfg k) \<longleftrightarrow>
      (\<exists>b<k. \<exists>p. print_at cs cfg b = Some p \<and> t = life cs cfg p (Suc k))"
    unfolding image_iff Bex_def Suc by (metis l)
  moreover have "t \<in> set (case print_at cs cfg k of None \<Rightarrow> [] | Some t \<Rightarrow> [t]) \<longleftrightarrow>
      (\<exists>p. print_at cs cfg k = Some p \<and> t = life cs cfg p (Suc k))"
    using e by (cases "print_at cs cfg k") (simp_all del: upt_Suc)
  ultimately show ?case by (auto simp: less_Suc_eq simp del: upt_Suc)
qed simp

lemma scan_bar_winner:
  assumes n: "0 < dc_confirm_bars cfg"
  shows "snd (scan_bar cs cfg crit acc k (tracks cs cfg k, w)) =
    (case w of Some x \<Rightarrow> Some x | None \<Rightarrow>
       if dc_confirm_bars cfg \<le> k \<and> claims cs cfg crit acc (k - dc_confirm_bars cfg)
       then Some (k - dc_confirm_bars cfg, k) else None)"
proof (cases w)
  case None
  let ?n = "dc_confirm_bars cfg"
  let ?P = "\<lambda>(t, was). tk_state t = Valid \<and> \<not> was \<and> admits crit t (cn_time (cs ! tk_signal_bar t)) \<and>
      acc (tk_start_time t) (cn_time (cs ! tk_signal_bar t))"
  let ?Z = "zip (map (advance cs cfg k) (tracks cs cfg k)) (map (\<lambda>t. tk_state t = Valid) (tracks cs cfg k))"
  have Z: "?Z = map (\<lambda>t. (advance cs cfg k t, tk_state t = Valid)) (tracks cs cfg k)"
    by (simp add: zip_map_map) (simp add: zip_same_conv_map)
  have P: "?P (advance cs cfg k (life cs cfg p k), tk_state (life cs cfg p k) = Valid) \<longleftrightarrow>
      k = b + ?n \<and> claims cs cfg crit acc b" if p: "print_at cs cfg b = Some p" "b < k" for b p
  proof -
    have l: "advance cs cfg k (life cs cfg p k) = life cs cfg p (Suc k)"
      using print_at_fresh [OF p(1)] p(2) by (simp add: life_Suc)
    note f = same_print_fields [OF same_print_life [of p cs cfg "Suc k"]]
    have a: "admits crit (life cs cfg p (Suc k)) x = admits crit p x" for x
      using f by (simp add: admits_def del: upt_Suc split: option.splits)
    have c: "claims cs cfg crit acc b \<longleftrightarrow> admits crit p (cn_time (cs ! b)) \<and>
        acc (tk_start_time p) (cn_time (cs ! b)) \<and> confirmed_print cs cfg p"
      by (simp add: claims_def p)
    have g: "tk_signal_bar (life cs cfg p (Suc k)) = b" "tk_start_time (life cs cfg p (Suc k)) = tk_start_time p"
      using f print_at_fresh [OF p(1)] by simp_all
    show ?thesis
      using freshly_valid_iff [OF p(1) n p(2)] unfolding l c prod.case a g by blast
  qed
  have s: "tk_signal_bar (advance cs cfg k (life cs cfg p k)) = b" if "print_at cs cfg b = Some p" for b p
    using print_at_fresh [OF that] same_print_fields [OF same_print_life [of p cs cfg k]] by simp
  have "map_option (\<lambda>(t, _). (tk_signal_bar t, k)) (find ?P ?Z) =
      (if ?n \<le> k \<and> claims cs cfg crit acc (k - ?n) then Some (k - ?n, k) else None)"
  proof (cases "find ?P ?Z")
    case None
    have "\<not> (?n \<le> k \<and> claims cs cfg crit acc (k - ?n))"
    proof
      assume c: "?n \<le> k \<and> claims cs cfg crit acc (k - ?n)"
      then obtain p where p: "print_at cs cfg (k - ?n) = Some p" by (auto simp: claims_def split: option.splits)
      have "k - ?n < k" using c n by simp
      then have "life cs cfg p k \<in> set (tracks cs cfg k)" using p set_tracks by blast
      then have "(advance cs cfg k (life cs cfg p k), tk_state (life cs cfg p k) = Valid) \<in> set ?Z"
        unfolding Z by simp
      with None have "\<not> ?P (advance cs cfg k (life cs cfg p k), tk_state (life cs cfg p k) = Valid)"
        by (meson find_None_iff)
      with P [OF p \<open>k - ?n < k\<close>] c show False by simp
    qed
    with None show ?thesis by simp
  next
    case (Some x)
    then have "x \<in> set ?Z" "?P x" by (auto simp: find_Some_iff in_set_conv_nth)
    then obtain b p where p: "print_at cs cfg b = Some p" "b < k"
        and x: "x = (advance cs cfg k (life cs cfg p k), tk_state (life cs cfg p k) = Valid)"
      unfolding Z by (auto simp: set_tracks)
    have "k = b + ?n \<and> claims cs cfg crit acc b" using P [OF p] \<open>?P x\<close> unfolding x by blast
    then show ?thesis using Some s [OF p(1)] by (simp add: x)
  qed
  then show ?thesis using None
    by (simp add: scan_bar_def fst_update_tracked Let_def)
qed (simp add: scan_bar_def Let_def)

lemma scan_winner:
  assumes n: "0 < dc_confirm_bars cfg"
  shows "snd (scan_to cs cfg crit acc k) =
    map_option (\<lambda>b. (b, b + dc_confirm_bars cfg))
      (find (claims cs cfg crit acc) [0..<k - dc_confirm_bars cfg])"
proof (induction k)
  case (Suc k)
  have "scan_to cs cfg crit acc k = (tracks cs cfg k, snd (scan_to cs cfg crit acc k))"
    using fst_scan_to [of cs cfg crit acc k] by (metis prod.collapse)
  then have s: "snd (scan_to cs cfg crit acc (Suc k)) =
      snd (scan_bar cs cfg crit acc k (tracks cs cfg k, snd (scan_to cs cfg crit acc k)))"
    by (simp add: fold_upt_Suc)
  have f: "find P (xs @ [x]) = (case find P xs of Some y \<Rightarrow> Some y | None \<Rightarrow> if P x then Some x else None)"
    for P :: "nat \<Rightarrow> bool" and xs x by (induction xs) auto
  show ?case
  proof (cases "dc_confirm_bars cfg \<le> k")
    case True
    then show ?thesis unfolding s scan_bar_winner [OF n] Suc
      by (simp add: Suc_diff_le f split: option.splits)
  next
    case False
    then show ?thesis unfolding s scan_bar_winner [OF n] Suc by simp
  qed
qed simp

text \<open>The signal that printed on bar \<open>b\<close>, as it stands after bar \<open>i\<close>.\<close>

definition winner_signal :: "candle list \<Rightarrow> detector_config \<Rightarrow> nat \<Rightarrow> nat \<Rightarrow> latched_signal option" where
  "winner_signal cs cfg i b =
     map_option (\<lambda>p. case recent_extremes cs b (dc_sl_lookback cfg) of (hi, lo) \<Rightarrow>
       \<lparr>ls_direction = tk_direction p, ls_kind = tk_kind p, ls_signal_high = tk_high p,
        ls_signal_low = tk_low p, ls_signal_range = tk_range p,
        ls_signal_start_time = tk_start_time p, ls_signal_bar_time = cn_time (cs ! b),
        ls_golden = tk_golden p, ls_signal_confirmed = True, ls_band_anchor = tk_band_anchor p,
        ls_atr = tk_atr p, ls_recent_high = hi, ls_recent_low = lo,
        ls_state = tk_state (life cs cfg p (Suc i)), ls_fires = (b + dc_confirm_bars cfg = i)\<rparr>)
      (print_at cs cfg b)"

lemma find_print:
  assumes "print_at cs cfg b = Some p" and "b < k"
  shows "find (\<lambda>t. tk_signal_bar t = b) (tracks cs cfg k) = Some (life cs cfg p k)"
proof -
  have m: "life cs cfg p k \<in> set (tracks cs cfg k)" using assms set_tracks by blast
  have s: "tk_signal_bar (life cs cfg p k) = b"
    using print_at_fresh [OF assms(1)] same_print_fields [OF same_print_life [of p cs cfg k]] by simp
  obtain t where t: "find (\<lambda>t. tk_signal_bar t = b) (tracks cs cfg k) = Some t"
    using m s by (metis (mono_tags, lifting) find_None_iff not_None_eq)
  then have "t \<in> set (tracks cs cfg k)" "tk_signal_bar t = b"
    by (auto simp: find_Some_iff in_set_conv_nth)
  then show ?thesis using t m s tracks_distinct [of cs cfg k]
    by (metis distinct_map inj_onD)
qed

lemma first_confirmed_winner:
  assumes "0 < dc_confirm_bars cfg" and "i < length cs"
  shows "first_confirmed_signal_matching_at cs i cfg crit acc =
    Option.bind (find (claims cs cfg crit acc) [0..<Suc i - dc_confirm_bars cfg]) (winner_signal cs cfg i)"
proof (cases "find (claims cs cfg crit acc) [0..<Suc i - dc_confirm_bars cfg]")
  case None
  then have "snd (scan_to cs cfg crit acc (Suc i)) = None" unfolding scan_winner [OF assms(1)] by simp
  then show ?thesis using assms(2) None
    by (auto simp: first_confirmed_signal_matching_at_def simp del: upt_Suc split: prod.splits option.splits)
next
  case (Some b)
  then have b: "b < Suc i - dc_confirm_bars cfg" "claims cs cfg crit acc b"
    by (auto simp: find_Some_iff simp del: upt_Suc)
  then obtain p where p: "print_at cs cfg b = Some p" by (auto simp: claims_def split: option.splits)
  have "snd (scan_to cs cfg crit acc (Suc i)) = Some (b, b + dc_confirm_bars cfg)"
    unfolding scan_winner [OF assms(1)] Some by simp
  then have s: "scan_to cs cfg crit acc (Suc i) = (tracks cs cfg (Suc i), Some (b, b + dc_confirm_bars cfg))"
    using fst_scan_to [of cs cfg crit acc "Suc i"] by (metis prod.collapse)
  define q where "q = life cs cfg p (Suc i)"
  have t: "find (\<lambda>t. tk_signal_bar t = b) (tracks cs cfg (Suc i)) = Some q"
    using p b unfolding q_def by (intro find_print) auto
  note f = same_print_fields [OF same_print_life [of p cs cfg "Suc i"], folded q_def] print_at_fresh [OF p]
  note w = winner_signal_def [of cs cfg i b, unfolded p option.map, folded q_def]
  show ?thesis
    using assms(2)
    by (simp add: first_confirmed_signal_matching_at_def s t Some w f
        del: upt_Suc tracks.simps split: prod.split)
qed

end
