(* ===== verification/Signal_Properties.thy ===== *)
theory Signal_Properties
  imports Signal_Facts
begin

text \<open>
  The properties of the pattern detector, with witnesses on four bars of which the second
  prints a long pinbar and the fourth confirms it.
\<close>

definition ex_bar :: "time \<Rightarrow> rat \<Rightarrow> rat \<Rightarrow> rat \<Rightarrow> rat \<Rightarrow> candle" where
  "ex_bar t a b c d = \<lparr>cn_time = t, cn_o = Fin a, cn_h = Fin b, cn_l = Fin c, cn_c = Fin d\<rparr>"

definition ex_bars :: "candle list" where
  "ex_bars = [ex_bar 0 100 104 96 100, ex_bar 1 100 104 80 102, ex_bar 2 100 108 92 102,
     ex_bar 3 100 108 92 102]"

definition ex_criteria :: signal_criteria where
  "ex_criteria = \<lparr>sc_dir = Long, sc_kind = Some Pinbar, sc_require_golden = False,
     sc_not_before = Some 1, sc_after = None\<rparr>"

lemma atr_length_H1: "atr_length_for H1 = 24"
  by (simp add: atr_length_for_def atr_length_for_bar_minutes_def)

lemma ex_atr: "wilder_atr (take k ex_bars) 24 = None"
  by (rule wilder_atr_short) (simp add: ex_bars_def)

lemmas pattern_eval = detect_at_def bar_back_def metrics_of_def flags_for_def tweezers_def
  double_tweezer_def twin_pivot_def pinbar_def pinbar_tweezer_leg_def regular_engulfer_def
  floating_engulfer_def any_flag_def close_in_top_25_def close_in_bottom_25_def default_flags_def
  fmax_def fmin_def fge_def fgt_def fle_def fsub_def ex_bars_def ex_bar_def Let_def

lemma ex_prints:
  "detect_at ex_bars 0 default_flags = None"
  "detect_at ex_bars (Suc 0) default_flags = Some \<lparr>dt_direction = Long, dt_geometry =
     \<lparr>sg_high = Fin 104, sg_low = Fin 80, sg_range = Fin 24, sg_kind = Pinbar, sg_start_time = 1,
      sg_band_anchor = Fin 90\<rparr>, dt_size = Fin 24\<rparr>"
  "detect_at ex_bars 2 default_flags = None"
  "detect_at ex_bars 3 default_flags = None"
  by (simp_all add: pattern_eval build_def extremes_of_def band_anchor_def numeral_2_eq_2 numeral_3_eq_3)

section \<open>One pass\<close>

text \<open>
  C36: the forward pass over a window gives, for every bar, exactly the signal that replaying
  the window up to that bar gives, running average true range included.
\<close>

theorem history_answers_every_bar:
  "latched_signal_history cs cfg = map (\<lambda>i. latched_signal_at cs i cfg) [0..<length cs]"
  using history_to [of "length cs" cs cfg] by (auto simp: latched_signal_history_def)

section \<open>No answer looks ahead\<close>

text \<open>
  C37: neither the newest signal at a bar nor the first confirmed one depends on later candles.
\<close>

theorem signals_do_not_look_ahead:
  assumes "i < m"
  shows "latched_signal_at (take m cs) i cfg = latched_signal_at cs i cfg \<and>
    first_confirmed_signal_matching_at (take m cs) i cfg crit acc =
      first_confirmed_signal_matching_at cs i cfg crit acc"
proof
  show "latched_signal_at (take m cs) i cfg = latched_signal_at cs i cfg"
    using assms by (rule latched_signal_take)
  have f: "scan_to (take m cs) cfg crit acc (Suc i) = scan_to cs cfg crit acc (Suc i)"
    using assms by (intro scan_to_take) simp
  obtain ts w where s: "scan_to cs cfg crit acc (Suc i) = (ts, w)" by fastforce
  have ts: "ts = tracks cs cfg (Suc i)" using fst_scan_to [of cs cfg crit acc "Suc i"] s by simp
  have t: "tk_signal_bar t < m" if "find P ts = Some t" for P t
  proof -
    have "t \<in> set ts" using that by (auto simp: find_Some_iff)
    then show ?thesis using assms unfolding ts by (blast dest: tracks_bound intro: order.strict_trans2 Suc_leI)
  qed
  have c: "take m cs ! b = cs ! b" "recent_extremes (take m cs) b k = recent_extremes cs b k" if "b < m" for b k
    using that by (simp_all add: recent_extremes_def min_absorb1)
  show "first_confirmed_signal_matching_at (take m cs) i cfg crit acc =
      first_confirmed_signal_matching_at cs i cfg crit acc"
    using assms f s by (auto simp: first_confirmed_signal_matching_at_def c t simp del: upt_Suc split: option.splits)
qed

theorem signals_do_not_look_ahead_witness:
  "latched_signal_at (take 3 ex_bars) 2 (pine_defaults H1) = latched_signal_at ex_bars 2 (pine_defaults H1) \<and>
   first_confirmed_signal_matching_at (take 3 ex_bars) 2 (pine_defaults H1) ex_criteria (\<lambda>_ _. True) =
     first_confirmed_signal_matching_at ex_bars 2 (pine_defaults H1) ex_criteria (\<lambda>_ _. True)"
  using signals_do_not_look_ahead [of 2 3 ex_bars "pine_defaults H1" ex_criteria "\<lambda>_ _. True"] by simp

section \<open>The first confirmed signal\<close>

text \<open>
  C38: the confirmed signal an entry waits for is the earliest print that meets the entry's
  criteria, was pushed past its extreme inside the confirmation window, and was neither traded
  through nor opposed in it; it appears on the last bar of that window.
\<close>

theorem first_confirmed_is_earliest:
  assumes "0 < dc_confirm_bars cfg" and "i < length cs"
  shows "first_confirmed_signal_matching_at cs i cfg crit acc =
    Option.bind (find (claims cs cfg crit acc) [0..<Suc i - dc_confirm_bars cfg]) (winner_signal cs cfg i)"
  using assms by (rule first_confirmed_winner)

lemma ex_print_1: "\<exists>p. print_at ex_bars (pine_defaults H1) (Suc 0) = Some p \<and> tk_signal_bar p = Suc 0 \<and>
    tk_direction p = Long \<and> tk_high p = Fin 104 \<and> tk_low p = Fin 80 \<and> tk_kind p = Pinbar"
  by (simp add: print_at_def pine_defaults_def ex_prints track_def)

lemma ex_claims: "claims ex_bars (pine_defaults H1) ex_criteria (\<lambda>_ _. True) (Suc 0)"
proof -
  obtain p where p: "print_at ex_bars (pine_defaults H1) (Suc 0) = Some p" "tk_signal_bar p = Suc 0"
      "tk_direction p = Long" "tk_high p = Fin 104" "tk_low p = Fin 80" "tk_kind p = Pinbar"
    using ex_print_1 by blast
  have o: "\<not> opposed ex_bars (pine_defaults H1) p 2" "\<not> opposed ex_bars (pine_defaults H1) p 3"
    by (simp_all add: opposed_def opposer_golden_def pine_defaults_def ex_prints)
  have w: "[Suc (Suc 0)..<Suc (Suc 0 + 2)] = [2, 3]" "[Suc (Suc 0)..<Suc (Suc (Suc (Suc 0)))] = [2, 3]"
    by (simp_all add: upt_rec numeral_2_eq_2 numeral_3_eq_3)
  have b: "ex_bars ! Suc 0 = ex_bar 1 100 104 80 102" "ex_bars ! 2 = ex_bar 2 100 108 92 102"
      "ex_bars ! 3 = ex_bar 3 100 108 92 102"
    by (simp_all add: ex_bars_def)
  have m: "pushed (ex_bars ! 2) p" "\<not> breached (ex_bars ! 2) p" "\<not> breached (ex_bars ! 3) p"
      "admits ex_criteria p (cn_time (ex_bars ! Suc 0))"
    using p by (simp_all add: b pushed_def breached_def admits_def ex_criteria_def ex_bar_def fgt_def)
  have c: "dc_confirm_bars (pine_defaults H1) = 2" by (simp add: pine_defaults_def)
  show ?thesis
    using p o m by (simp add: claims_def confirmed_print_def broken_on_def w c Let_def del: upt_Suc)
qed

lemma ex_winner:
  "find (claims ex_bars (pine_defaults H1) ex_criteria (\<lambda>_ _. True))
     [0..<Suc 3 - dc_confirm_bars (pine_defaults H1)] = Some 1"
  "winner_signal ex_bars (pine_defaults H1) 3 1 \<noteq> None"
  "0 < dc_confirm_bars (pine_defaults H1)" "3 < length ex_bars"
proof -
  have "\<not> claims ex_bars (pine_defaults H1) ex_criteria (\<lambda>_ _. True) 0"
    by (simp add: claims_def print_at_def pine_defaults_def ex_prints)
  moreover have "[0..<Suc 3 - dc_confirm_bars (pine_defaults H1)] = [0, Suc 0]"
    by (simp add: pine_defaults_def upt_rec)
  ultimately show "find (claims ex_bars (pine_defaults H1) ex_criteria (\<lambda>_ _. True))
     [0..<Suc 3 - dc_confirm_bars (pine_defaults H1)] = Some 1"
    using ex_claims by (simp only: find.simps if_True if_False One_nat_def)
  show "winner_signal ex_bars (pine_defaults H1) 3 1 \<noteq> None"
    using ex_print_1 by (auto simp: winner_signal_def simp del: upt_Suc)
qed (simp_all add: pine_defaults_def ex_bars_def)

theorem first_confirmed_is_earliest_witness:
  "first_confirmed_signal_matching_at ex_bars 3 (pine_defaults H1) ex_criteria (\<lambda>_ _. True) =
     winner_signal ex_bars (pine_defaults H1) 3 1 \<and>
   winner_signal ex_bars (pine_defaults H1) 3 1 \<noteq> None"
  unfolding first_confirmed_is_earliest [OF ex_winner(3,4)] ex_winner(1)
  using ex_winner(2) by simp

text \<open>
  Once a signal has been the first to be confirmed it stays the answer on every later bar,
  only its state may change, and it asks for an entry on exactly one bar.
\<close>

theorem confirmed_signal_settles:
  assumes "0 < dc_confirm_bars cfg"
    and "first_confirmed_signal_matching_at cs i cfg crit acc = Some s"
  shows "\<exists>k\<le>i. (\<forall>j<k. first_confirmed_signal_matching_at cs j cfg crit acc = None) \<and>
    (\<forall>j\<in>{k..<length cs}. \<exists>st. first_confirmed_signal_matching_at cs j cfg crit acc =
       Some (s\<lparr>ls_state := st, ls_fires := (j = k)\<rparr>))"
proof -
  let ?n = "dc_confirm_bars cfg"
  have i: "i < length cs" using assms(2) by (auto simp: first_confirmed_signal_matching_at_def split: if_splits)
  note eq = first_confirmed_winner [OF assms(1), of _ cs crit acc]
  obtain b where b: "find (claims cs cfg crit acc) [0..<Suc i - ?n] = Some b"
      and s: "winner_signal cs cfg i b = Some s"
    using assms(2) unfolding eq [OF i] by (auto simp: bind_eq_Some_conv)
  have c: "b < Suc i - ?n" "claims cs cfg crit acc b" "\<And>b'. b' < b \<Longrightarrow> \<not> claims cs cfg crit acc b'"
    using b by (auto simp: find_Some_iff simp del: upt_Suc)
  have later: "find (claims cs cfg crit acc) [0..<Suc j - ?n] = Some b" if "b + ?n \<le> j" for j
    using c that by (auto simp: find_Some_iff intro!: exI [of _ b] simp del: upt_Suc)
  have early: "find (claims cs cfg crit acc) [0..<Suc j - ?n] = None" if "j < b + ?n" for j
    using c that by (auto simp: find_None_iff simp del: upt_Suc)
  have w: "\<exists>st. winner_signal cs cfg j b = Some (s\<lparr>ls_state := st, ls_fires := (j = b + ?n)\<rparr>)" for j
  proof -
    obtain hi lo where e: "recent_extremes cs b (dc_sl_lookback cfg) = (hi, lo)" by fastforce
    obtain p where p: "print_at cs cfg b = Some p" using s by (auto simp: winner_signal_def)
    show ?thesis using s by (auto simp: winner_signal_def e p simp del: upt_Suc)
  qed
  show ?thesis
  proof (intro exI [of _ "b + ?n"] conjI)
    show "b + ?n \<le> i" using c(1) by simp
    show "\<forall>j<b + ?n. first_confirmed_signal_matching_at cs j cfg crit acc = None"
      using early eq i c(1) by (auto simp del: upt_Suc)
    show "\<forall>j\<in>{b + ?n..<length cs}. \<exists>st. first_confirmed_signal_matching_at cs j cfg crit acc =
       Some (s\<lparr>ls_state := st, ls_fires := (j = b + ?n)\<rparr>)"
      using later eq w by (auto simp del: upt_Suc)
  qed
qed

theorem confirmed_signal_settles_witness:
  "\<exists>s. first_confirmed_signal_matching_at ex_bars 3 (pine_defaults H1) ex_criteria (\<lambda>_ _. True) = Some s \<and>
     (\<exists>k\<le>3. (\<forall>j<k. first_confirmed_signal_matching_at ex_bars j (pine_defaults H1) ex_criteria (\<lambda>_ _. True) = None) \<and>
       (\<forall>j\<in>{k..<length ex_bars}. \<exists>st.
          first_confirmed_signal_matching_at ex_bars j (pine_defaults H1) ex_criteria (\<lambda>_ _. True) =
            Some (s\<lparr>ls_state := st, ls_fires := (j = k)\<rparr>)))"
proof -
  obtain s where s: "first_confirmed_signal_matching_at ex_bars 3 (pine_defaults H1) ex_criteria (\<lambda>_ _. True) = Some s"
    using ex_winner(2) unfolding first_confirmed_winner [OF ex_winner(3,4)] ex_winner(1) by auto
  from confirmed_signal_settles [OF ex_winner(3) this] s show ?thesis by blast
qed

end
