(* ===== verification/Plan_Averages.thy ===== *)
theory Plan_Averages
  imports Signal_Track Core_Text
begin

text \<open>
  Moving averages and what plans ask of them (\<open>core/src/moving_average.rs\<close> and
  \<open>moving_average/offside.rs\<close>, \<open>core/src/ma_cross.rs\<close>, \<open>core/src/intent/breakeven/ma_veto.rs\<close>,
  \<open>core/src/trade_plan/entry_conditions.rs\<close>). A period is positive.
\<close>

section \<open>Values\<close>

definition standard_set :: "moving_average list" where
  "standard_set = [\<lparr>ma_kind = Ema, ma_period = 9\<rparr>, \<lparr>ma_kind = Sma, ma_period = 20\<rparr>,
     \<lparr>ma_kind = Sma, ma_period = 200\<rparr>]"

definition history_bars :: "moving_average \<Rightarrow> nat" where
  "history_bars ma = (case ma_kind ma of Sma \<Rightarrow> ma_period ma | Ema \<Rightarrow> ma_period ma * 10)"

text \<open>\<open>slice::get\<close>.\<close>

definition candle_at :: "candle list \<Rightarrow> nat \<Rightarrow> candle option" where
  "candle_at cs i = (if i < length cs then Some (cs ! i) else None)"

definition value_at :: "moving_average \<Rightarrow> candle list \<Rightarrow> nat \<Rightarrow> f64 option" where
  "value_at ma cs index =
     (let finish = index + 1 in
      if finish < history_bars ma \<or> length cs < finish then None
      else
        let tail = drop (finish - history_bars ma) (take finish cs) in
        if list_ex (\<lambda>bar. \<not> is_finite (cn_c bar)) tail then None
        else
          let period = ma_period ma; n = Fin (of_nat period);
              seed = fdiv (foldl fadd (Fin 0) (map cn_c (take period tail))) n;
              alpha = fdiv (Fin 2) (fadd n (Fin 1));
              v = foldl (\<lambda>ema bar. fadd ema (fmul alpha (fsub (cn_c bar) ema))) seed (drop period tail) in
          if is_finite v then Some v else None)"

definition touches_at :: "moving_average \<Rightarrow> candle list \<Rightarrow> nat \<Rightarrow> bool" where
  "touches_at ma cs index =
     (case (candle_at cs index, value_at ma cs index) of
        (Some bar, Some v) \<Rightarrow> fle (cn_l bar) v \<and> fle v (cn_h bar)
      | _ \<Rightarrow> False)"

definition pattern_matches :: "candle list \<Rightarrow> time \<Rightarrow> time \<Rightarrow> (nat \<Rightarrow> bool) \<Rightarrow> bool" where
  "pattern_matches cs start prnt matches \<longleftrightarrow>
     list_ex (\<lambda>bar. cn_time bar = start) cs \<and> list_ex (\<lambda>bar. cn_time bar = prnt) cs \<and>
     list_ex (\<lambda>(i, bar). start \<le> cn_time bar \<and> cn_time bar \<le> prnt \<and> matches i)
       (enumerate 0 cs)"

definition touches_pattern :: "moving_average \<Rightarrow> candle list \<Rightarrow> time \<Rightarrow> time \<Rightarrow> bool" where
  "touches_pattern ma cs start prnt = pattern_matches cs start prnt (touches_at ma cs)"

definition offside_pattern ::
  "moving_average \<Rightarrow> candle list \<Rightarrow> time \<Rightarrow> time \<Rightarrow> direction \<Rightarrow> bool" where
  "offside_pattern ma cs start prnt dir =
     pattern_matches cs start prnt (\<lambda>i. case value_at ma cs i of None \<Rightarrow> False
       | Some v \<Rightarrow> (case dir of Short \<Rightarrow> fge (cn_h (cs ! i)) v | Long \<Rightarrow> fle (cn_l (cs ! i)) v))"

section \<open>Crosses\<close>

definition alignment_pause_id :: string where "alignment_pause_id = ''ma-alignment''"

datatype ordering = Less | Equal | Greater

definition partial_cmp :: "f64 \<Rightarrow> f64 \<Rightarrow> ordering option" where
  "partial_cmp x y = (if flt x y then Some Less else if feq x y then Some Equal
     else if fgt x y then Some Greater else None)"

definition favorable_side :: "direction \<Rightarrow> ordering" where
  "favorable_side dir = (case dir of Long \<Rightarrow> Greater | Short \<Rightarrow> Less)"

definition adverse_side :: "direction \<Rightarrow> ordering" where
  "adverse_side dir = (case dir of Long \<Rightarrow> Less | Short \<Rightarrow> Greater)"

text \<open>The nine-bar exponential against the twenty-bar simple average.\<close>

definition relation_at :: "candle list \<Rightarrow> nat \<Rightarrow> ordering option" where
  "relation_at cs index =
     Option.bind (value_at (standard_set ! 0) cs index) (\<lambda>fast.
     Option.bind (value_at (standard_set ! 1) cs index) (\<lambda>slow. partial_cmp fast slow))"

definition favorable_at :: "candle list \<Rightarrow> nat \<Rightarrow> direction \<Rightarrow> bool" where
  "favorable_at cs index dir \<longleftrightarrow> relation_at cs index = Some (favorable_side dir)"

definition before_bar :: "(nat \<Rightarrow> 'a option) \<Rightarrow> nat \<Rightarrow> 'a option" where
  "before_bar f index = (if index = 0 then None else f (index - 1))"

definition ready_at :: "candle list \<Rightarrow> nat \<Rightarrow> bool" where
  "ready_at cs index \<longleftrightarrow>
     before_bar (relation_at cs) index \<noteq> None \<and> relation_at cs index \<noteq> None"

text \<open>A side newly taken: adverse now, known and not adverse one bar ago.\<close>

definition newly_adverse :: "(nat \<Rightarrow> ordering option) \<Rightarrow> nat \<Rightarrow> direction \<Rightarrow> bool" where
  "newly_adverse relation index dir \<longleftrightarrow> relation index = Some (adverse_side dir) \<and>
     (case before_bar relation index of None \<Rightarrow> False | Some previous \<Rightarrow> previous \<noteq> adverse_side dir)"

definition adverse_cross_at :: "candle list \<Rightarrow> nat \<Rightarrow> direction \<Rightarrow> bool" where
  "adverse_cross_at cs index dir = newly_adverse (relation_at cs) index dir"

definition average_ready_at :: "candle list \<Rightarrow> nat \<Rightarrow> moving_average \<Rightarrow> bool" where
  "average_ready_at cs index ma \<longleftrightarrow>
     before_bar (value_at ma cs) index \<noteq> None \<and> value_at ma cs index \<noteq> None"

definition close_relation :: "candle list \<Rightarrow> moving_average \<Rightarrow> nat \<Rightarrow> ordering option" where
  "close_relation cs ma i = Option.bind (candle_at cs i) (\<lambda>bar.
     Option.bind (value_at ma cs i) (\<lambda>v. partial_cmp (cn_c bar) v))"

definition average_break_at :: "candle list \<Rightarrow> nat \<Rightarrow> moving_average \<Rightarrow> direction \<Rightarrow> bool" where
  "average_break_at cs index ma dir = newly_adverse (close_relation cs ma) index dir"

section \<open>Stops moved to the fill\<close>

definition tighten_to_fill :: "direction \<Rightarrow> f64 \<Rightarrow> f64 \<Rightarrow> f64 \<Rightarrow> f64 option" where
  "tighten_to_fill dir fill current_stop exit_price =
     (if \<not> list_all is_finite [fill, current_stop, exit_price] then None
      else if (case dir of Long \<Rightarrow> flt current_stop fill \<and> flt fill exit_price
               | Short \<Rightarrow> fgt current_stop fill \<and> fgt fill exit_price)
      then Some fill else None)"

record stop_inputs =
  si_direction :: direction
  si_fill :: f64
  si_current_stop :: f64
  si_exit_price :: f64
  si_event_exit_price :: f64

definition includes_ma_cross :: "breakeven_trigger \<Rightarrow> bool" where
  "includes_ma_cross t \<longleftrightarrow> t = PriceProgressOrMaCross \<or> t = MaCrossOnly"

definition ma_veto_at :: "breakeven \<Rightarrow> candle list \<Rightarrow> nat \<Rightarrow> direction \<Rightarrow> bool" where
  "ma_veto_at rule cs index dir \<longleftrightarrow>
     includes_ma_cross (bk_trigger rule) \<and> adverse_cross_at cs index dir \<or>
     bk_sma_200_break rule \<and> average_break_at cs index (last standard_set) dir"

definition cross_stop_at ::
  "breakeven \<Rightarrow> candle list \<Rightarrow> nat \<Rightarrow> stop_inputs \<Rightarrow> f64 option" where
  "cross_stop_at rule cs index x =
     (if \<not> ma_veto_at rule cs index (si_direction x) then None
      else Option.bind (tighten_to_fill (si_direction x) (si_fill x) (si_current_stop x)
             (si_event_exit_price x))
           (\<lambda>_. tighten_to_fill (si_direction x) (si_fill x) (si_current_stop x) (si_exit_price x)))"

section \<open>Entry conditions\<close>

definition ma_cross_history_bars :: nat where
  "ma_cross_history_bars = 91"

definition max_of :: "nat list \<Rightarrow> nat" where
  "max_of xs = fold max xs 0"

definition no_conditions :: "entry_conditions \<Rightarrow> bool" where
  "no_conditions ec \<longleftrightarrow> \<not> ec_require_ma_alignment ec \<and> ec_retrace ec = None \<and> ec_must_touch ec = [] \<and>
     ec_be_offside ec = [] \<and> ec_enable_on_ma_touch ec = []"

definition condition_history_bars :: "entry_conditions \<Rightarrow> nat" where
  "condition_history_bars ec =
     max (max_of (map history_bars (ec_must_touch ec @ ec_enable_on_ma_touch ec @ ec_be_offside ec)))
       (if ec_require_ma_alignment ec then ma_cross_history_bars else 0)"

definition pattern_touches :: "entry_conditions \<Rightarrow> candle list \<Rightarrow> time \<Rightarrow> time \<Rightarrow> bool" where
  "pattern_touches ec cs start prnt \<longleftrightarrow>
     ec_must_touch ec = [] \<or> list_ex (\<lambda>ma. touches_pattern ma cs start prnt) (ec_must_touch ec)"

definition pattern_qualifies ::
  "entry_conditions \<Rightarrow> candle list \<Rightarrow> time \<Rightarrow> time \<Rightarrow> direction \<Rightarrow> bool" where
  "pattern_qualifies ec cs start prnt dir \<longleftrightarrow> pattern_touches ec cs start prnt \<and>
     (ec_be_offside ec = [] \<or>
      list_ex (\<lambda>ma. offside_pattern ma cs start prnt dir) (ec_be_offside ec))"

definition rule_history_bars :: "trigger \<Rightarrow> nat option" where
  "rule_history_bars t = (case t of
     AdverseMaCross _ \<Rightarrow> Some ma_cross_history_bars
   | AdverseMaBreak ma _ \<Rightarrow> Some (history_bars ma + 1)
   | _ \<Rightarrow> None)"

definition ma_veto_history_bars :: "'d trade_plan \<Rightarrow> nat" where
  "ma_veto_history_bars plan = max_of (List.map_filter (rule_history_bars \<circ> cr_trigger) (tp_rules plan))"

definition has_ma_veto :: "'d trade_plan \<Rightarrow> bool" where
  "has_ma_veto plan \<longleftrightarrow> 0 < ma_veto_history_bars plan"

definition ma_veto_ready_at :: "'d trade_plan \<Rightarrow> candle list \<Rightarrow> nat \<Rightarrow> bool" where
  "ma_veto_ready_at plan cs index =
     list_all (\<lambda>r. case cr_trigger r of
         AdverseMaCross _ \<Rightarrow> ready_at cs index
       | AdverseMaBreak ma _ \<Rightarrow> average_ready_at cs index ma
       | _ \<Rightarrow> True) (tp_rules plan)"

definition detector_history_bars :: "'d trade_plan \<Rightarrow> nat" where
  "detector_history_bars plan =
     (let cfg = pine_defaults (tp_granularity plan) in
      max (max (detector_lookback_bars cfg (tp_granularity plan))
            (condition_history_bars (tp_entry_conditions plan) + dc_confirm_bars cfg + 3))
        (ma_veto_history_bars plan))"

end
