(* ===== verification/Plan_Rules.thy ===== *)
theory Plan_Rules
  imports Plan_Averages Core_Calendar Core_Resolve
begin

text \<open>
  A plan's rules (\<open>engine/src/evaluate.rs\<close>): what part a rule plays, where its line lies at a
  bar, and whether a bar crosses it. The intent of a rule has its own nested type \<open>'e\<close>.
\<close>

type_synonym 'e rule = "'e intent condition_rule"

type_synonym 'e plan = "'e intent trade_plan"

section \<open>The part a rule plays\<close>

definition prep_step_retest :: string where "prep_step_retest = ''retest''"

definition prep_step_break_and_close :: string where
  "prep_step_break_and_close = ''break-and-close''"

definition prep_step_pullback :: string where "prep_step_pullback = ''pullback''"

definition role_break_and_close :: string where "role_break_and_close = ''prep-break-and-close''"

definition role_retest :: string where "role_retest = ''prep-retest''"

fun contains_text :: "string \<Rightarrow> string \<Rightarrow> bool" where
  "contains_text needle [] = (needle = [])"
| "contains_text needle (c # cs) =
     (take (length needle) (c # cs) = needle \<or> contains_text needle cs)"

definition legacy_kind :: "'e rule \<Rightarrow> rule_kind" where
  "legacy_kind r =
     (if contains_text role_break_and_close (cr_rule_id r) then PrepBreakAndClose
      else if contains_text role_retest (cr_rule_id r) then PrepRetest
      else case i_action (cr_intent r) of
        Veto \<Rightarrow> SetupInvalidation | Invalidate \<Rightarrow> SetupInvalidation
      | Close \<Rightarrow> PerPositionClose
      | Pause \<Rightarrow> Control | Resume \<Rightarrow> Control | NewsStart \<Rightarrow> Control | NewsEnd \<Rightarrow> Control
      | action.Enter \<Rightarrow> rule_kind.Enter
      | _ \<Rightarrow> Unspecified)"

definition resolved_kind :: "'e rule \<Rightarrow> rule_kind" where
  "resolved_kind r = (if cr_kind r = Unspecified then legacy_kind r else cr_kind r)"

definition is_guard :: "'e rule \<Rightarrow> bool" where
  "is_guard r \<longleftrightarrow> resolved_kind r = SetupInvalidation \<or> resolved_kind r = PerPositionClose"

definition guard_is_terminal :: "'e rule \<Rightarrow> bool" where
  "guard_is_terminal r \<longleftrightarrow> resolved_kind r = SetupInvalidation"

definition is_ma_trigger :: "trigger \<Rightarrow> bool" where
  "is_ma_trigger t = (case t of AdverseMaCross _ \<Rightarrow> True | AdverseMaBreak _ _ \<Rightarrow> True | _ \<Rightarrow> False)"

text \<open>The level of a veto that names none is \<open>StopNextEntry\<close>.\<close>

definition veto_retires_plan :: "'e rule \<Rightarrow> bool" where
  "veto_retires_plan r \<longleftrightarrow> \<not> is_ma_trigger (cr_trigger r) \<and>
     or_else (i_level (cr_intent r)) StopNextEntry \<noteq> StopNextEntry"

definition is_control_rule :: "'e rule \<Rightarrow> bool" where
  "is_control_rule r \<longleftrightarrow> resolved_kind r = Control"

definition is_break_and_close :: "'e rule \<Rightarrow> bool" where
  "is_break_and_close r \<longleftrightarrow> resolved_kind r = PrepBreakAndClose"

definition is_retest :: "'e rule \<Rightarrow> bool" where
  "is_retest r \<longleftrightarrow> resolved_kind r = PrepRetest"

definition is_pullback :: "'e rule \<Rightarrow> bool" where
  "is_pullback r = (case cr_trigger r of PullbackFromArm _ _ _ \<Rightarrow> True | _ \<Rightarrow> False)"

definition is_enter_rule :: "'e rule \<Rightarrow> bool" where
  "is_enter_rule r \<longleftrightarrow> i_action (cr_intent r) = action.Enter"

definition is_pine :: "trigger \<Rightarrow> bool" where
  "is_pine t = (case t of PinePattern _ _ \<Rightarrow> True | _ \<Rightarrow> False)"

definition armed_in_rule :: "'e rule \<Rightarrow> phase \<Rightarrow> bool \<Rightarrow> bool" where
  "armed_in_rule r ph entries_blocked \<longleftrightarrow>
     guard_is_terminal r \<or> ph = AwaitEntry \<or> entries_blocked"

definition enter_rule_count :: "'e plan \<Rightarrow> nat" where
  "enter_rule_count plan = length (filter is_enter_rule (tp_rules plan))"

definition is_multi_enter :: "'e plan \<Rightarrow> bool" where
  "is_multi_enter plan \<longleftrightarrow> 1 < enter_rule_count plan"

definition has_break_and_close :: "'e plan \<Rightarrow> bool" where
  "has_break_and_close plan = list_ex is_break_and_close (tp_rules plan)"

definition initial_phase :: "'e plan \<Rightarrow> phase" where
  "initial_phase plan =
     (if is_multi_enter plan then AwaitEntry
      else if has_break_and_close plan then AwaitBreakAndClose else AwaitEntry)"

section \<open>Lines\<close>

definition f64_of_int :: "int \<Rightarrow> f64" where
  "f64_of_int n = round64 (of_int n)"

definition timestamp :: "time \<Rightarrow> int" where
  "timestamp t = t div seconds 1"

definition position :: "('a \<Rightarrow> bool) \<Rightarrow> 'a list \<Rightarrow> nat option" where
  "position P xs = find (\<lambda>i. P (xs ! i)) [0..<length xs]"

definition bar_index_at :: "int \<Rightarrow> candle list \<Rightarrow> int \<Rightarrow> f64 option" where
  "bar_index_at epoch window bar_seconds =
     (if window = [] then None
      else case position (\<lambda>c. timestamp (cn_time c) = epoch) window of
        Some i \<Rightarrow> Some (f64_of_int (int i))
      | None \<Rightarrow>
          let first = timestamp (cn_time (window ! 0));
              final = timestamp (cn_time (window ! (length window - 1))) in
          if epoch < first
          then if bar_seconds \<le> 0 then None
            else Some (fneg (fdiv (f64_of_int (first - epoch)) (f64_of_int bar_seconds)))
          else if final < epoch
          then if bar_seconds \<le> 0 then None
            else Some (fadd (f64_of_int (int (length window - 1)))
              (fdiv (f64_of_int (epoch - final)) (f64_of_int bar_seconds)))
          else case position (\<lambda>c. epoch < timestamp (cn_time c)) window of
            None \<Rightarrow> None
          | Some hi \<Rightarrow>
              let lo = hi - 1; lo_t = timestamp (cn_time (window ! lo));
                  hi_t = timestamp (cn_time (window ! hi)) in
              Some (fadd (f64_of_int (int lo))
                (fdiv (f64_of_int (epoch - lo_t)) (f64_of_int (hi_t - lo_t)))))"

definition line_price_at ::
  "line_point \<Rightarrow> line_point \<Rightarrow> candle \<Rightarrow> bool \<Rightarrow> int \<Rightarrow> candle list \<Rightarrow> f64 option" where
  "line_price_at a b t extend_forward bar_seconds window =
     Option.bind (bar_index_at (lp_at_epoch a) window bar_seconds) (\<lambda>ia.
     Option.bind (bar_index_at (lp_at_epoch b) window bar_seconds) (\<lambda>ib.
     Option.bind (bar_index_at (timestamp (cn_time t)) window bar_seconds) (\<lambda>it.
       if fgt it ib \<and> \<not> extend_forward then None
       else
         let span = fsub ib ia in
         if feq span (Fin 0) then Some (lp_price a)
         else Some (fadd (lp_price a)
           (fmul (fsub (lp_price b) (lp_price a)) (fdiv (fsub it ia) span))))))"

section \<open>Crossing a level\<close>

record on_close_refs =
  or_origin :: "f64 option"
  or_prev_close :: "f64 option"
  or_settled :: bool

record cross_buffer =
  cb_pct :: f64
  cb_atr_abs :: f64

definition buffer_at :: "cross_buffer \<Rightarrow> f64 \<Rightarrow> f64" where
  "buffer_at cb level = fadd (fdiv (fmul level (cb_pct cb)) (Fin 100)) (cb_atr_abs cb)"

definition resolve_cross_buffer :: "'e plan \<Rightarrow> candle list \<Rightarrow> cross_buffer" where
  "resolve_cross_buffer plan window =
     \<lparr>cb_pct = tp_cross_buffer_pct plan,
      cb_atr_abs =
        (if fne (tp_cross_buffer_atr plan) (Fin 0)
         then (case wilder_atr window (atr_length_for (tp_granularity plan)) of
             Some atr \<Rightarrow> fmul (tp_cross_buffer_atr plan) atr | None \<Rightarrow> Fin 0)
         else Fin 0)\<rparr>"

definition bar_is_golden :: "candle \<Rightarrow> candle list \<Rightarrow> granularity \<Rightarrow> bool" where
  "bar_is_golden c window g =
     (case wilder_atr window (atr_length_for g) of
        None \<Rightarrow> False | Some atr \<Rightarrow> fge (fsub (cn_h c) (cn_l c)) atr)"

definition level_crossed ::
  "f64 \<Rightarrow> cross_dir \<Rightarrow> bar_event \<Rightarrow> candle \<Rightarrow> on_close_refs \<Rightarrow> cross_buffer \<Rightarrow> bool" where
  "level_crossed level dir bar c refs cb =
     (let buffer = buffer_at cb level in
      case bar of
        Intrabar \<Rightarrow>
          fle (cn_l c) level \<and> fle level (cn_h c) \<and>
          (case dir of Either \<Rightarrow> True
           | cross_dir.Up \<Rightarrow> fge (cn_h c) (fadd level buffer)
           | cross_dir.Down \<Rightarrow> fle (cn_l c) (fsub level buffer))
      | OnClose \<Rightarrow>
          let upper = fadd level buffer; lower = fsub level buffer in
          case (if or_settled refs
                then map_option (\<lambda>origin. (flt origin level \<and> fge (cn_c c) upper,
                       fgt origin level \<and> fle (cn_c c) lower)) (or_origin refs)
                else map_option (\<lambda>prev. (flt prev upper \<and> fge (cn_c c) upper,
                       fgt prev lower \<and> fle (cn_c c) lower)) (or_prev_close refs)) of
            None \<Rightarrow> False
          | Some (up, down) \<Rightarrow> (case dir of cross_dir.Up \<Rightarrow> up | cross_dir.Down \<Rightarrow> down | Either \<Rightarrow> up \<or> down))"

definition bar_position :: "time \<Rightarrow> candle list \<Rightarrow> nat option" where
  "bar_position t window = position (\<lambda>c. cn_time c = t) window"

definition at_bar :: "time \<Rightarrow> candle list \<Rightarrow> (nat \<Rightarrow> bool) \<Rightarrow> bool" where
  "at_bar t window P = (case bar_position t window of None \<Rightarrow> False | Some i \<Rightarrow> P i)"

definition eval_trigger ::
  "trigger \<Rightarrow> candle \<Rightarrow> on_close_refs \<Rightarrow> candle list \<Rightarrow> cross_buffer \<Rightarrow> bool" where
  "eval_trigger t c refs window cb =
     (case t of
        HorizontalCross level dir bar \<Rightarrow> level_crossed level dir bar c refs cb
      | PriceValueCross level dir bar \<Rightarrow> level_crossed level dir bar c refs cb
      | TrendlineCross a b extend_forward bar_seconds dir bar \<Rightarrow>
          (case line_price_at a b c extend_forward bar_seconds window of
             None \<Rightarrow> False | Some level \<Rightarrow> level_crossed level dir bar c refs cb)
      | AdverseMaBreak ma dir \<Rightarrow>
          at_bar (cn_time c) window (\<lambda>i. average_break_at window i ma dir)
      | AdverseMaCross dir \<Rightarrow> at_bar (cn_time c) window (\<lambda>i. adverse_cross_at window i dir)
      | TimeReached at_epoch \<Rightarrow> at_epoch \<le> timestamp (cn_time c)
      | MwEveryBar \<Rightarrow> True
      | PinePattern _ _ \<Rightarrow> False
      | PullbackFromArm _ _ _ \<Rightarrow> False)"

definition trigger_uses_close :: "trigger \<Rightarrow> bool" where
  "trigger_uses_close t =
     (case t of
        AdverseMaCross _ \<Rightarrow> True | AdverseMaBreak _ _ \<Rightarrow> True
      | HorizontalCross _ _ bar \<Rightarrow> bar = OnClose
      | PriceValueCross _ _ bar \<Rightarrow> bar = OnClose
      | TrendlineCross _ _ _ _ _ bar \<Rightarrow> bar = OnClose
      | _ \<Rightarrow> False)"

definition onclose_level_at :: "trigger \<Rightarrow> candle \<Rightarrow> candle list \<Rightarrow> f64 option" where
  "onclose_level_at t c window =
     (case t of
        HorizontalCross level _ bar \<Rightarrow> if bar = OnClose then Some level else None
      | PriceValueCross level _ bar \<Rightarrow> if bar = OnClose then Some level else None
      | TrendlineCross a b extend_forward bar_seconds _ bar \<Rightarrow>
          if bar = OnClose then line_price_at a b c extend_forward bar_seconds window else None
      | _ \<Rightarrow> None)"

text \<open>The direction of a level judged on closes.\<close>

definition onclose_dir :: "trigger \<Rightarrow> cross_dir option" where
  "onclose_dir t =
     (case t of
        HorizontalCross _ dir bar \<Rightarrow> if bar = OnClose then Some dir else None
      | PriceValueCross _ dir bar \<Rightarrow> if bar = OnClose then Some dir else None
      | TrendlineCross _ _ _ _ dir bar \<Rightarrow> if bar = OnClose then Some dir else None
      | _ \<Rightarrow> None)"

end
