(* ===== verification/Plan_Steps.thy ===== *)
theory Plan_Steps
  imports Plan_Rules
begin

text \<open>
  The pieces of an evaluation of a plan: its state (\<open>core/src/plan_state.rs\<close>), what it reports
  (\<open>core/src/plan_eval.rs\<close>), spread hours of a plan (\<open>engine/src/spread_identity.rs\<close>), firing a
  rule, the moving-average gates (\<open>engine/src/ma_alignment.rs\<close>, \<open>ma_enablement.rs\<close>,
  \<open>entry_conditions.rs\<close>), the pullback (\<open>engine/src/pullback.rs\<close>) and the preflight of an entry.
\<close>

section \<open>Reports and state\<close>

record 'e fired_intent =
  fi_rule_id :: string
  fi_intent :: "'e intent"
  fi_candle :: candle
  fi_signal :: "latched_signal option"

record entry_decline =
  ed_bar :: time
  ed_rule_id :: string
  ed_reason :: string

record 'e plan_eval =
  pv_fired :: "'e fired_intent list"
  pv_new_state :: plan_state
  pv_done :: bool
  pv_warnings :: "string list"
  pv_entry_declines :: "entry_decline list"

definition advanced_vs :: "plan_state \<Rightarrow> plan_state \<Rightarrow> bool" where
  "advanced_vs st prior \<longleftrightarrow>
     ps_ma_touch_seen_at st \<noteq> ps_ma_touch_seen_at prior \<or>
     ps_retrace_seen_at st \<noteq> ps_retrace_seen_at prior \<or> ps_phase st \<noteq> ps_phase prior \<or>
     ps_fired st \<noteq> ps_fired prior \<or> ps_break_close_at st \<noteq> ps_break_close_at prior \<or>
     ps_retest_seen_at st \<noteq> ps_retest_seen_at prior \<or>
     ps_last_confirmed_enter_at st \<noteq> ps_last_confirmed_enter_at prior \<or> ps_mw st \<noteq> ps_mw prior \<or>
     ps_open_news_windows st \<noteq> ps_open_news_windows prior \<or>
     ps_entries_blocked st \<noteq> ps_entries_blocked prior"

definition is_noteworthy :: "'e plan_eval \<Rightarrow> plan_state \<Rightarrow> bool" where
  "is_noteworthy ev prior \<longleftrightarrow>
     pv_fired ev \<noteq> [] \<or> pv_done ev \<or> advanced_vs (pv_new_state ev) prior"

definition seed :: "phase \<Rightarrow> time \<Rightarrow> plan_state" where
  "seed ph expires_at =
     \<lparr>ps_ma_touch_seen_at = None, ps_retrace_seen_at = None, ps_watermark = None, ps_phase = ph,
      ps_fired = {}, ps_last_close = Map.empty, ps_origin_open = Map.empty,
      ps_break_close_at = None, ps_retest_seen_at = None, ps_pullback_seen_at = None,
      ps_last_confirmed_enter_at = None, ps_mw = None, ps_open_news_windows = {},
      ps_entries_blocked = False, ps_expires_at = expires_at\<rparr>"

definition fire :: "'e rule \<Rightarrow> candle \<Rightarrow> latched_signal option \<Rightarrow> 'e fired_intent" where
  "fire r c sig = \<lparr>fi_rule_id = cr_rule_id r, fi_intent = cr_intent r, fi_candle = c, fi_signal = sig\<rparr>"

definition mark_fired :: "'e rule \<Rightarrow> plan_state \<Rightarrow> plan_state" where
  "mark_fired r st = st\<lparr>ps_fired := insert (cr_rule_id r) (ps_fired st)\<rparr>"

section \<open>Spread hours of a plan\<close>

definition spread_keys :: "venue \<Rightarrow> 'e plan \<Rightarrow> string list" where
  "spread_keys V plan =
     (let keys = map (\<lambda>r. spread_lookup_key V (i_instrument (cr_intent r)) (i_account (cr_intent r)))
            (filter (\<lambda>r. i_instrument (cr_intent r) = tp_instrument plan) (tp_rules plan)) in
      if keys = [] then [tp_instrument plan] else keys)"

definition suppress_plan :: "venue \<Rightarrow> 'e plan \<Rightarrow> time \<Rightarrow> bool" where
  "suppress_plan V plan t = list_ex
     (\<lambda>key. suppress_on_spread_hour V key t (granularity_seconds (tp_granularity plan)))
     (spread_keys V plan)"

definition suppress_intent :: "venue \<Rightarrow> 'e intent \<Rightarrow> time \<Rightarrow> granularity \<Rightarrow> bool" where
  "suppress_intent V i t g = suppress_on_spread_hour V
     (spread_lookup_key V (i_instrument i) (i_account i)) t (granularity_seconds g)"

definition block_window :: "venue \<Rightarrow> 'e plan \<Rightarrow> time \<Rightarrow> (time \<times> time) option" where
  "block_window V plan t =
     (case List.map_filter (\<lambda>key. spread_block_window V key t) (spread_keys V plan) of
        [] \<Rightarrow> None
      | w # ws \<Rightarrow> Some (foldl (\<lambda>(a, b) (a', b'). (min a a', max b b')) w ws))"

section \<open>Firing a rule\<close>

definition record_last_close :: "string \<Rightarrow> trigger \<Rightarrow> candle \<Rightarrow> plan_state \<Rightarrow> plan_state" where
  "record_last_close rid t c st =
     (if trigger_uses_close t then st\<lparr>ps_last_close := (ps_last_close st)(rid \<mapsto> cn_c c)\<rparr> else st)"

definition record_origin_open :: "string \<Rightarrow> trigger \<Rightarrow> candle \<Rightarrow> plan_state \<Rightarrow> plan_state" where
  "record_origin_open rid t c st =
     (if trigger_uses_close t \<and> ps_origin_open st rid = None
      then st\<lparr>ps_origin_open := (ps_origin_open st)(rid \<mapsto> cn_o c)\<rparr> else st)"

definition reseated_origin :: "cross_dir \<Rightarrow> f64 \<Rightarrow> f64 \<Rightarrow> candle \<Rightarrow> f64 option" where
  "reseated_origin dir level origin c =
     (case dir of
        cross_dir.Up \<Rightarrow>
          if fge origin level \<and> (flt (cn_o c) level \<or> flt (cn_c c) level)
          then Some (fmin (cn_o c) (cn_c c)) else None
      | cross_dir.Down \<Rightarrow>
          if fle origin level \<and> (fgt (cn_o c) level \<or> fgt (cn_c c) level)
          then Some (fmax (cn_o c) (cn_c c)) else None
      | Either \<Rightarrow> None)"

definition reseat_origin_on_dip :: "'e rule \<Rightarrow> candle \<Rightarrow> candle list \<Rightarrow> plan_state \<Rightarrow> plan_state" where
  "reseat_origin_on_dip r c window st =
     (if is_enter_rule r then st
      else case onclose_dir (cr_trigger r) of
        None \<Rightarrow> st
      | Some Either \<Rightarrow> st
      | Some dir \<Rightarrow>
          (case (onclose_level_at (cr_trigger r) c window, ps_origin_open st (cr_rule_id r)) of
             (Some level, Some origin) \<Rightarrow>
               (case reseated_origin dir level origin c of
                  Some x \<Rightarrow> st\<lparr>ps_origin_open := (ps_origin_open st)(cr_rule_id r \<mapsto> x)\<rparr>
                | None \<Rightarrow> st)
           | _ \<Rightarrow> st))"

definition is_time_reached :: "trigger \<Rightarrow> bool" where
  "is_time_reached t = (case t of TimeReached _ \<Rightarrow> True | _ \<Rightarrow> False)"

definition fire_rule ::
  "venue \<Rightarrow> 'e rule \<Rightarrow> candle \<Rightarrow> candle list \<Rightarrow> cross_buffer \<Rightarrow> granularity \<Rightarrow> plan_state
    \<Rightarrow> bool \<times> plan_state" where
  "fire_rule V r c window cb g st =
     (let rid = cr_rule_id r; t = cr_trigger r;
          st = record_origin_open rid t c st;
          st = reseat_origin_on_dip r c window st;
          refs = \<lparr>or_origin = ps_origin_open st rid, or_prev_close = ps_last_close st rid,
            or_settled = (\<not> is_enter_rule r)\<rparr>;
          hit = eval_trigger t c refs window cb;
          st = record_last_close rid t c st;
          wick_cross = (\<not> trigger_uses_close t \<and> \<not> is_time_reached t) in
      (hit \<and> \<not> (wick_cross \<and> suppress_intent V (cr_intent r) (cn_time c) g), st))"

section \<open>Moving-average gates\<close>

definition ma_aligned :: "'e plan \<Rightarrow> time \<Rightarrow> candle list \<Rightarrow> bool" where
  "ma_aligned plan bar window \<longleftrightarrow>
     \<not> ec_require_ma_alignment (tp_entry_conditions plan) \<or>
     at_bar bar window (\<lambda>i. favorable_at window i (tp_direction plan))"

definition alignment_control ::
  "'e plan \<Rightarrow> plan_state \<Rightarrow> candle \<Rightarrow> candle list \<Rightarrow> 'e fired_intent option" where
  "alignment_control plan st c window =
     (if \<not> ec_require_ma_alignment (tp_entry_conditions plan) then None
      else map_option (\<lambda>entry.
          let favorable = (\<not> ps_entries_blocked st \<and> ma_aligned plan (cn_time c) window);
              rid = ''ma-alignment-'' @ (if favorable then ''resume'' else ''pause'') in
          \<lparr>fi_rule_id = rid,
           fi_intent = (cr_intent entry)\<lparr>i_id := tp_trade_id plan @ ''-'' @ rid,
             i_action := (if favorable then Resume else Pause),
             i_trade_id := Some (tp_trade_id plan), i_blackout_id := Some alignment_pause_id,
             i_reason := Some ''requires favorable 9 EMA / 20 SMA alignment'',
             i_not_before := None\<rparr>,
           fi_candle = c, fi_signal = None\<rparr>)
        (find is_enter_rule (tp_rules plan)))"

text \<open>\<open>DateTime::from_timestamp\<close>, on the instants \<open>chrono\<close> can represent.\<close>

definition from_timestamp :: "int \<Rightarrow> time option" where
  "from_timestamp s =
     (if - 8334601228800 \<le> s \<and> s \<le> 8210266876799 then Some (seconds s) else None)"

text \<open>The latest of some instants.\<close>

definition latest :: "time option list \<Rightarrow> time option" where
  "latest ts = (case List.map_filter id ts of [] \<Rightarrow> None | x # xs \<Rightarrow> Some (foldl max x xs))"

definition ma_enabled :: "'e plan \<Rightarrow> plan_state \<Rightarrow> bool" where
  "ma_enabled plan st \<longleftrightarrow>
     ec_enable_on_ma_touch (tp_entry_conditions plan) = [] \<or> ps_ma_touch_seen_at st \<noteq> None"

definition signal_floor :: "plan_state \<Rightarrow> time option" where
  "signal_floor st = latest [ps_retrace_seen_at st, ps_ma_touch_seen_at st]"

definition stamp_ma_touch ::
  "venue \<Rightarrow> 'e plan \<Rightarrow> candle \<Rightarrow> candle list \<Rightarrow> plan_state \<Rightarrow> plan_state" where
  "stamp_ma_touch V plan c window st =
     (let averages = ec_enable_on_ma_touch (tp_entry_conditions plan);
          start = latest [tp_armed_at plan, Option.bind (tp_replay_start plan) from_timestamp] in
      if averages = [] \<or> ps_ma_touch_seen_at st \<noteq> None then st
      else if (case start of Some t0 \<Rightarrow> cn_time c < t0 | None \<Rightarrow> False) \<or>
        suppress_plan V plan (cn_time c) then st
      else if at_bar (cn_time c) window (\<lambda>i. list_ex (\<lambda>ma. touches_at ma window i) averages)
      then st\<lparr>ps_ma_touch_seen_at := Some (cn_time c)\<rparr> else st)"

definition bar_close :: "'e plan \<Rightarrow> candle \<Rightarrow> time" where
  "bar_close plan c = cn_time c + seconds (granularity_seconds (tp_granularity plan))"

definition stamp_retrace ::
  "venue \<Rightarrow> 'e plan \<Rightarrow> candle \<Rightarrow> candle list \<Rightarrow> plan_state \<Rightarrow> plan_state" where
  "stamp_retrace V plan c window st =
     (case ec_retrace (tp_entry_conditions plan) of
        None \<Rightarrow> st
      | Some line \<Rightarrow>
          if ps_retrace_seen_at st \<noteq> None \<or>
            (case tp_armed_at plan of Some armed \<Rightarrow> bar_close plan c \<le> armed | None \<Rightarrow> False) \<or>
            suppress_plan V plan (cn_time c)
          then st
          else case line_price_at (rl_a line) (rl_b line) c True
              (granularity_seconds (tp_granularity plan)) window of
            None \<Rightarrow> st
          | Some level \<Rightarrow>
              if is_finite level \<and>
                (case tp_direction plan of Short \<Rightarrow> fge (cn_c c) level | Long \<Rightarrow> fle (cn_c c) level)
              then st\<lparr>ps_retrace_seen_at := Some (cn_time c)\<rparr> else st)"

section \<open>The pullback\<close>

definition extreme_body :: "candle \<Rightarrow> direction \<Rightarrow> f64" where
  "extreme_body c dir = (case dir of Long \<Rightarrow> fmax (cn_o c) (cn_c c) | Short \<Rightarrow> fmin (cn_o c) (cn_c c))"

definition trigger_body :: "candle \<Rightarrow> direction \<Rightarrow> f64" where
  "trigger_body c dir = (case dir of Long \<Rightarrow> fmin (cn_o c) (cn_c c) | Short \<Rightarrow> fmax (cn_o c) (cn_c c))"

definition body_extreme :: "candle list \<Rightarrow> time \<Rightarrow> time \<Rightarrow> direction \<Rightarrow> f64 option" where
  "body_extreme window armed_at up_to dir =
     (case map (\<lambda>c. extreme_body c dir)
        (filter (\<lambda>c. armed_at \<le> cn_time c \<and> cn_time c \<le> up_to) window) of
        [] \<Rightarrow> None
      | x # xs \<Rightarrow> Some (foldl (\<lambda>acc v. case dir of Long \<Rightarrow> fmax acc v | Short \<Rightarrow> fmin acc v) x xs))"

definition pullback_triggered ::
  "f64 \<Rightarrow> candle list \<Rightarrow> time \<Rightarrow> f64 \<Rightarrow> f64 \<Rightarrow> direction \<Rightarrow> candle \<Rightarrow> bool" where
  "pullback_triggered anchor_open window armed_at atr atr_mult dir c =
     (if \<not> is_finite atr \<or> fle atr (Fin 0) \<or> fle atr_mult (Fin 0) then False
      else
        let running = (case body_extreme window armed_at (cn_time c) dir of
                Some x \<Rightarrow> (case dir of Long \<Rightarrow> fmax x anchor_open | Short \<Rightarrow> fmin x anchor_open)
              | None \<Rightarrow> anchor_open);
            distance = fmul atr_mult atr; body = trigger_body c dir in
        (case dir of Long \<Rightarrow> fle body (fsub running distance)
         | Short \<Rightarrow> fge body (fadd running distance)))"

end
