(* ===== verification/Plan_Engine.thy ===== *)
theory Plan_Engine
  imports Plan_Steps
begin

text \<open>
  The evaluation of a plan over new candles (\<open>engine/src/evaluate.rs\<close>): a spine that waits for
  the break and then for the entry, guards that may close, block or retire, and controls on the
  wall clock. An evaluation carries the state and the intents fired so far.
\<close>

type_synonym 'e run_state = "plan_state \<times> 'e fired_intent list"

section \<open>Seeding\<close>

definition arming_bar :: "'e plan \<Rightarrow> candle list \<Rightarrow> candle option" where
  "arming_bar plan candles =
     (case tp_armed_at plan of None \<Rightarrow> None
      | Some armed \<Rightarrow> find (\<lambda>c. cn_time c \<le> armed \<and> armed < bar_close plan c) candles)"

text \<open>\<open>Iterator::max_by_key\<close>: the last of the newest.\<close>

definition newest :: "candle list \<Rightarrow> candle option" where
  "newest candles = (case candles of [] \<Rightarrow> None
     | c # cs \<Rightarrow> Some (foldl (\<lambda>best x. if cn_time best \<le> cn_time x then x else best) c cs))"

definition seed_plan_state :: "'e plan \<Rightarrow> candle list \<Rightarrow> time \<Rightarrow> plan_state" where
  "seed_plan_state plan candles expires_at =
     (let st = seed (initial_phase plan) expires_at in
      case newest candles of None \<Rightarrow> st
      | Some n \<Rightarrow>
          let st = st\<lparr>ps_watermark := Some (cn_time n)\<rparr>;
              st = (case arming_bar plan candles of None \<Rightarrow> st
                | Some arming \<Rightarrow> fold (\<lambda>r. record_origin_open (cr_rule_id r) (cr_trigger r) arming)
                    (tp_rules plan) st) in
          fold (\<lambda>r. record_last_close (cr_rule_id r) (cr_trigger r) n) (tp_rules plan) st)"

section \<open>Controls\<close>

definition control_clock_for :: "candle \<Rightarrow> granularity \<Rightarrow> time \<Rightarrow> time" where
  "control_clock_for c g now = min (cn_time c + seconds (granularity_seconds g)) now"

definition control_rule_fires ::
  "venue \<Rightarrow> 'e rule \<Rightarrow> candle \<Rightarrow> candle list \<Rightarrow> cross_buffer \<Rightarrow> time \<Rightarrow> granularity \<Rightarrow> plan_state
    \<Rightarrow> bool \<times> plan_state" where
  "control_rule_fires V r c window cb now g st =
     (case cr_trigger r of
        TimeReached at_epoch \<Rightarrow> (at_epoch \<le> timestamp now, st)
      | _ \<Rightarrow> fire_rule V r c window cb g st)"

definition note_news :: "'e intent \<Rightarrow> plan_state \<Rightarrow> plan_state" where
  "note_news i st =
     (case i_news_id i of None \<Rightarrow> st
      | Some news_id \<Rightarrow>
          if i_action i = NewsStart
          then st\<lparr>ps_open_news_windows := insert news_id (ps_open_news_windows st)\<rparr>
          else if i_action i = NewsEnd
          then st\<lparr>ps_open_news_windows := ps_open_news_windows st - {news_id}\<rparr>
          else st)"

definition control_step ::
  "venue \<Rightarrow> 'e plan \<Rightarrow> candle \<Rightarrow> candle list \<Rightarrow> time \<Rightarrow> 'e rule \<Rightarrow> 'e run_state \<Rightarrow> 'e run_state" where
  "control_step V plan c window now r = (\<lambda>(st, fired).
     if \<not> is_control_rule r \<or> cr_rule_id r \<in> ps_fired st then (st, fired)
     else case control_rule_fires V r c window (resolve_cross_buffer plan window) now
         (tp_granularity plan) st of
       (False, st) \<Rightarrow> (st, fired)
     | (True, st) \<Rightarrow> (note_news (cr_intent r) (mark_fired r st), fired @ [fire r c None]))"

definition evaluate_controls ::
  "venue \<Rightarrow> 'e plan \<Rightarrow> candle \<Rightarrow> candle list \<Rightarrow> time \<Rightarrow> 'e run_state \<Rightarrow> 'e run_state" where
  "evaluate_controls V plan c window now = fold (control_step V plan c window now) (tp_rules plan)"

section \<open>Patterns on a bar\<close>

definition eval_pine_entry ::
  "candle \<Rightarrow> candle list \<Rightarrow> detector_config \<Rightarrow> signal_kind option \<Rightarrow> direction \<Rightarrow> bool \<Rightarrow> bool
    \<Rightarrow> time option \<Rightarrow> time option \<Rightarrow> bool \<Rightarrow> entry_conditions option \<Rightarrow> latched_signal option" where
  "eval_pine_entry c window cfg pattern dir confirmed_first needs_golden confirmed_floor
     confirmed_after print_only conditions =
     Option.bind (bar_position (cn_time c) window) (\<lambda>idx.
     Option.bind
       (if confirmed_first
        then first_confirmed_signal_matching_at window idx cfg
          \<lparr>sc_dir = dir, sc_kind = pattern, sc_require_golden = needs_golden,
           sc_not_before = confirmed_scan_floor (map cn_time window) idx cfg (dc_granularity cfg)
             confirmed_floor,
           sc_after = confirmed_after\<rparr>
          (\<lambda>start prnt. case conditions of None \<Rightarrow> True
             | Some ec \<Rightarrow> pattern_qualifies ec window start prnt dir)
        else latched_signal_at window idx cfg) (\<lambda>sig.
     if \<not> ls_fires sig then None
     else if ls_direction sig \<noteq> dir then None
     else if (case pattern of Some want \<Rightarrow> ls_kind sig \<noteq> want | None \<Rightarrow> False) then None
     else if print_only \<and> \<not> confirmed_first \<and> ls_signal_bar_time sig \<noteq> cn_time c then None
     else if (case conditions of None \<Rightarrow> False
        | Some ec \<Rightarrow> \<not> pattern_qualifies ec window (ls_signal_start_time sig)
            (ls_signal_bar_time sig) dir)
     then None
     else Some sig))"

definition price_in_any_band :: "f64 \<Rightarrow> (f64 \<times> f64) list \<Rightarrow> (f64 \<times> f64) option" where
  "price_in_any_band price bands = find (\<lambda>(lo, hi). fge price lo \<and> fle price hi) bands"

definition close_windows_pass :: "'e intent \<Rightarrow> latched_signal \<Rightarrow> string set \<Rightarrow> bool" where
  "close_windows_pass i sig open_news \<longleftrightarrow>
     (let wants_news = NewsWindow \<in> set (i_inside_window i);
          wants_price = PriceWindow \<in> set (i_inside_window i);
          news_passed = (wants_news \<and> open_news \<noteq> {});
          price_passed = (wants_price \<and> price_in_any_band (ls_band_anchor sig) (i_sr_bands i) \<noteq> None) in
      news_passed \<or> price_passed \<or> \<not> (wants_news \<or> wants_price))"

definition eval_pine_guard ::
  "'e intent \<Rightarrow> candle \<Rightarrow> candle list \<Rightarrow> detector_config \<Rightarrow> signal_kind option \<Rightarrow> direction
    \<Rightarrow> string set \<Rightarrow> latched_signal option" where
  "eval_pine_guard i c window cfg pattern dir open_news =
     Option.bind (eval_pine_entry c window cfg pattern dir False False None None False None) (\<lambda>sig.
       if \<not> close_windows_pass i sig open_news then None
       else if i_needs_golden i \<and> \<not> ls_golden sig then None
       else if i_needs_confirmed i \<and> \<not> ls_signal_confirmed sig then None
       else Some sig)"

section \<open>Guards\<close>

text \<open>A moving-average guard ignores bars that closed before the plan was armed or replayed.\<close>

definition before_arming :: "'e plan \<Rightarrow> candle \<Rightarrow> bool" where
  "before_arming plan c \<longleftrightarrow>
     (case tp_armed_at plan of Some arm \<Rightarrow> bar_close plan c \<le> arm | None \<Rightarrow> False) \<or>
     (case tp_replay_start plan of Some start \<Rightarrow>
        timestamp (cn_time c) + granularity_seconds (tp_granularity plan) \<le> start | None \<Rightarrow> False)"

text \<open>\<open>Some signal\<close> when the guard fires, with the signal of a pattern guard.\<close>

definition guard_fires ::
  "venue \<Rightarrow> 'e plan \<Rightarrow> candle \<Rightarrow> candle list \<Rightarrow> detector_config \<Rightarrow> 'e rule \<Rightarrow> plan_state
    \<Rightarrow> latched_signal option option \<times> plan_state" where
  "guard_fires V plan c window cfg r st =
     (if is_ma_trigger (cr_trigger r) \<and> before_arming plan c then (None, st)
      else case cr_trigger r of
        PinePattern pattern dir \<Rightarrow>
          (if suppress_intent V (cr_intent r) (cn_time c) (tp_granularity plan) then None
           else map_option Some (eval_pine_guard (cr_intent r) c window cfg pattern dir
             (ps_open_news_windows st)), st)
      | _ \<Rightarrow>
          (case fire_rule V r c window (resolve_cross_buffer plan window) (tp_granularity plan) st of
             (hit, st) \<Rightarrow> (if hit then Some None else None, st)))"

definition guard_step ::
  "venue \<Rightarrow> 'e plan \<Rightarrow> candle \<Rightarrow> candle list \<Rightarrow> detector_config \<Rightarrow> 'e rule
    \<Rightarrow> 'e run_state \<times> bool \<Rightarrow> 'e run_state \<times> bool" where
  "guard_step V plan c window cfg r = (\<lambda>((st, fired), terminal_fired).
     if \<not> is_guard r \<or> cr_rule_id r \<in> ps_fired st \<or>
        \<not> armed_in_rule r (ps_phase st) (ps_entries_blocked st)
     then ((st, fired), terminal_fired)
     else case guard_fires V plan c window cfg r st of
       (None, st) \<Rightarrow> ((st, fired), terminal_fired)
     | (Some signal, st) \<Rightarrow>
         let st = mark_fired r st; fired = fired @ [fire r c signal] in
         if guard_is_terminal r
         then if veto_retires_plan r then ((st, fired), True)
           else ((st\<lparr>ps_entries_blocked := True\<rparr>, fired), terminal_fired)
         else ((st, fired), terminal_fired))"

definition evaluate_guards ::
  "venue \<Rightarrow> 'e plan \<Rightarrow> candle \<Rightarrow> candle list \<Rightarrow> detector_config \<Rightarrow> 'e run_state \<Rightarrow> 'e run_state" where
  "evaluate_guards V plan c window cfg rs =
     (case fold (guard_step V plan c window cfg) (tp_rules plan) (rs, False) of
        ((st, fired), terminal_fired) \<Rightarrow>
          (if terminal_fired then st\<lparr>ps_phase := Done\<rparr> else st, fired))"

section \<open>The break\<close>

definition evaluate_break_and_close ::
  "venue \<Rightarrow> 'e plan \<Rightarrow> candle \<Rightarrow> candle list \<Rightarrow> 'e run_state \<Rightarrow> 'e run_state" where
  "evaluate_break_and_close V plan c window = (\<lambda>(st, fired).
     case find is_break_and_close (tp_rules plan) of
       None \<Rightarrow> (st\<lparr>ps_phase := AwaitEntry\<rparr>, fired)
     | Some r \<Rightarrow>
         if cr_rule_id r \<in> ps_fired st then (st, fired)
         else if tp_bcr_require_golden plan \<and> \<not> bar_is_golden c window (tp_granularity plan)
         then (st, fired)
         else case fire_rule V r c window (resolve_cross_buffer plan window) (tp_granularity plan) st of
           (False, st) \<Rightarrow> (st, fired)
         | (True, st) \<Rightarrow>
             ((mark_fired r st)\<lparr>ps_break_close_at := Some (cn_time c), ps_phase := AwaitEntry\<rparr>,
              fired @ [fire r c None]))"

section \<open>Retest and pullback\<close>

definition effective_break_at :: "'e plan \<Rightarrow> plan_state \<Rightarrow> candle list \<Rightarrow> time option" where
  "effective_break_at plan st window =
     (case ps_break_close_at st of
        Some t \<Rightarrow> Some t
      | None \<Rightarrow> if has_break_and_close plan then None
          else (case window of [] \<Rightarrow> None | c # _ \<Rightarrow> Some (cn_time c - seconds 1)))"

definition neckline_slope :: "'e rule \<Rightarrow> candle list \<Rightarrow> f64" where
  "neckline_slope r window =
     (case cr_trigger r of
        TrendlineCross a b _ bar_seconds _ _ \<Rightarrow>
          (case (bar_index_at (lp_at_epoch a) window bar_seconds,
                 bar_index_at (lp_at_epoch b) window bar_seconds) of
             (Some ia, Some ib) \<Rightarrow>
               let span = fsub ib ia in
               if feq span (Fin 0) then Fin 0 else fdiv (fsub (lp_price b) (lp_price a)) span
           | _ \<Rightarrow> Fin 0)
      | _ \<Rightarrow> Fin 0)"

definition retest_tolerance ::
  "'e plan \<Rightarrow> 'e rule \<Rightarrow> time \<Rightarrow> candle \<Rightarrow> candle list \<Rightarrow> f64" where
  "retest_tolerance plan r break_at c window =
     (let bars_since_break =
            length (filter (\<lambda>x. break_at < cn_time x \<and> cn_time x \<le> cn_time c) window) in
      if bars_since_break \<le> 1 then Fin 0
      else if wilder_atr window (atr_length_for (tp_granularity plan)) = None then Fin 0
      else fmul (fmul (fsub (f64_of_int (int bars_since_break)) (Fin 1)) (tp_retest_atr_step plan))
        (fabs64 (neckline_slope r window)))"

definition retest_level ::
  "trigger \<Rightarrow> candle \<Rightarrow> candle list \<Rightarrow> (f64 option \<times> cross_dir \<times> bar_event) option" where
  "retest_level t c window =
     (case t of
        HorizontalCross level dir bar \<Rightarrow> Some (Some level, dir, bar)
      | PriceValueCross level dir bar \<Rightarrow> Some (Some level, dir, bar)
      | TrendlineCross a b extend_forward bar_seconds dir bar \<Rightarrow>
          Some (line_price_at a b c extend_forward bar_seconds window, dir, bar)
      | _ \<Rightarrow> None)"

definition retest_crossed ::
  "trigger \<Rightarrow> candle \<Rightarrow> on_close_refs \<Rightarrow> candle list \<Rightarrow> cross_buffer \<Rightarrow> f64 \<Rightarrow> bool" where
  "retest_crossed t c refs window cb tol =
     (if fle tol (Fin 0) then eval_trigger t c refs window cb
      else case retest_level t c window of
        None \<Rightarrow> eval_trigger t c refs window cb
      | Some (None, _, _) \<Rightarrow> False
      | Some (Some level, dir, bar) \<Rightarrow>
          (case bar of
             Intrabar \<Rightarrow>
               let below = fle (cn_l c) (fadd level tol); above = fge (cn_h c) (fsub level tol) in
               (case dir of cross_dir.Down \<Rightarrow> below | cross_dir.Up \<Rightarrow> above | Either \<Rightarrow> below \<and> above)
           | OnClose \<Rightarrow> level_crossed level dir bar c refs cb))"

definition stamp_retest ::
  "venue \<Rightarrow> 'e plan \<Rightarrow> candle \<Rightarrow> candle list \<Rightarrow> 'e run_state \<Rightarrow> 'e run_state" where
  "stamp_retest V plan c window = (\<lambda>(st, fired).
     case effective_break_at plan st window of
       None \<Rightarrow> (st, fired)
     | Some break_at \<Rightarrow>
         if cn_time c \<le> break_at then (st, fired)
         else case find is_retest (tp_rules plan) of
           None \<Rightarrow> (st, fired)
         | Some r \<Rightarrow>
             let rid = cr_rule_id r; t = cr_trigger r;
                 tol = retest_tolerance plan r break_at c window;
                 spread_hour = suppress_plan V plan (cn_time c);
                 st = record_origin_open rid t c st;
                 st = reseat_origin_on_dip r c window st;
                 refs = \<lparr>or_origin = ps_origin_open st rid, or_prev_close = ps_last_close st rid,
                   or_settled = True\<rparr>;
                 golden_ok = (\<not> tp_bcr_require_golden plan \<or> bar_is_golden c window (tp_granularity plan));
                 stamped = (golden_ok \<and> \<not> spread_hour \<and> ps_retest_seen_at st = None \<and>
                   retest_crossed t c refs window (resolve_cross_buffer plan window) tol);
                 st' = (if stamped then st\<lparr>ps_retest_seen_at := Some (cn_time c)\<rparr> else st) in
             (record_last_close rid t c st', if stamped then fired @ [fire r c None] else fired))"

definition stamp_pullback ::
  "venue \<Rightarrow> 'e plan \<Rightarrow> candle \<Rightarrow> candle list \<Rightarrow> 'e run_state \<Rightarrow> 'e run_state" where
  "stamp_pullback V plan c window = (\<lambda>(st, fired).
     if ps_pullback_seen_at st \<noteq> None then (st, fired)
     else case find is_pullback (tp_rules plan) of
       None \<Rightarrow> (st, fired)
     | Some r \<Rightarrow>
       (case (cr_trigger r, tp_armed_at plan, effective_break_at plan st window) of
          (PullbackFromArm anchor_open atr_mult dir, Some armed_at, Some break_at) \<Rightarrow>
            if cn_time c \<le> break_at \<or> suppress_plan V plan (cn_time c) then (st, fired)
            else (case wilder_atr window (atr_length_for (tp_granularity plan)) of
                None \<Rightarrow> (st, fired)
              | Some atr \<Rightarrow>
                  if pullback_triggered anchor_open window armed_at atr atr_mult dir c
                  then (st\<lparr>ps_pullback_seen_at := Some (cn_time c)\<rparr>, fired @ [fire r c None])
                  else (st, fired))
        | _ \<Rightarrow> (st, fired)))"

text \<open>Has a milestone been seen after the break and up to the entry?\<close>

definition milestone_in :: "'e plan \<Rightarrow> time option \<Rightarrow> time option \<Rightarrow> time \<Rightarrow> bool" where
  "milestone_in plan break_close_at seen_at entry_time =
     (case (break_close_at, seen_at) of
        (Some break_at, Some seen) \<Rightarrow> break_at < seen \<and> seen \<le> entry_time
      | (None, Some seen) \<Rightarrow> \<not> has_break_and_close plan \<and> seen \<le> entry_time
      | _ \<Rightarrow> False)"

definition retest_satisfied :: "'e plan \<Rightarrow> plan_state \<Rightarrow> time \<Rightarrow> bool" where
  "retest_satisfied plan st t = milestone_in plan (ps_break_close_at st) (ps_retest_seen_at st) t"

definition pullback_satisfied :: "'e plan \<Rightarrow> plan_state \<Rightarrow> time \<Rightarrow> bool" where
  "pullback_satisfied plan st t = milestone_in plan (ps_break_close_at st) (ps_pullback_seen_at st) t"

definition required_milestones :: "'e plan \<Rightarrow> 'e rule \<Rightarrow> bool \<times> bool" where
  "required_milestones plan r =
     (if is_multi_enter plan
      then (requires_step (i_requires_preps (cr_intent r)) prep_step_retest,
            requires_step (i_requires_preps (cr_intent r)) prep_step_pullback)
      else (list_ex is_retest (tp_rules plan), list_ex is_pullback (tp_rules plan)))"

definition enter_prep_milestones_satisfied :: "'e plan \<Rightarrow> plan_state \<Rightarrow> 'e rule \<Rightarrow> time \<Rightarrow> bool" where
  "enter_prep_milestones_satisfied plan st r t =
     (case required_milestones plan r of
        (False, False) \<Rightarrow> True
      | (True, True) \<Rightarrow> retest_satisfied plan st t \<or> pullback_satisfied plan st t
      | (True, False) \<Rightarrow> retest_satisfied plan st t
      | (False, True) \<Rightarrow> pullback_satisfied plan st t)"

end
