(* ===== verification/Plan_Evaluate.thy ===== *)
theory Plan_Evaluate
  imports Plan_Engine
begin

text \<open>
  The entry rules and the evaluation of a plan as a whole (\<open>engine/src/evaluate.rs\<close>), with the
  explanation of why an entry is not ready yet.
\<close>

section \<open>The preflight of an entry\<close>

definition offset_error_text :: "offset_error \<Rightarrow> string" where
  "offset_error_text e = (case e of
     BothOffsetsSet \<Rightarrow> ''offset_pips and offset_atr_pct are mutually exclusive''
   | AtrPctOnCloseAnchor \<Rightarrow> ''offset_atr_pct needs a directional anchor, not `close`''
   | NegativeAtrPct v \<Rightarrow> ''offset_atr_pct must be non-negative, got '' @ show_f64 v
   | AtrUnavailable \<Rightarrow> ''offset_atr_pct set but ATR is unavailable (warmup / short feed)''
   | InvalidBufferSign v \<Rightarrow> ''buffered-absolute sign must be +1.0 or -1.0, got '' @ show_f64 v)"

definition resolve_error_text :: "resolve_error \<Rightarrow> string" where
  "resolve_error_text e = (case e of
     MissingField name \<Rightarrow> ''missing field for entry: '' @ name
   | InvalidGeometry \<Rightarrow> ''stop/entry geometry inconsistent with direction''
   | NotArmedYet \<Rightarrow> ''M/W setup has not completed its arming sequence yet''
   | NotAnEntry \<Rightarrow> ''intent is not an entry action''
   | MinRBelowFloor requested \<Rightarrow> ''min_r='' @ show_f64 requested @ '' is below the hard floor of '' @
       show_f64 min_r_floor
   | BelowMinRatio actual least \<Rightarrow> ''trade R='' @ show_fixed 3 actual @
       '' is below the required minimum of '' @ show_fixed 3 least
   | EntryOutsideRange entry sl tp \<Rightarrow> ''entry '' @ show_f64 entry @ '' is outside the SL..TP range ('' @
       show_f64 sl @ ''..'' @ show_f64 tp @ '')''
   | BothRiskModesSet \<Rightarrow> ''risk_pct / risk_amount / size_units are mutually exclusive''
   | InvalidRiskAmount v \<Rightarrow> ''risk_amount must be positive and finite, got '' @ show_f64 v
   | InvalidSizeUnits v \<Rightarrow> ''size_units must be positive and finite, got '' @ show_f64 v
   | ScriptFailed field kind message \<Rightarrow> field @ '' script ('' @ kind @ ''): '' @ message
   | InvalidTunableValue field v \<Rightarrow> field @ '' must be positive and finite, got '' @ show_f64 v
   | OffsetFailed e \<Rightarrow> ''offset resolution failed: '' @ offset_error_text e)"

definition not_golden_decline :: string where
  "not_golden_decline = ''needs golden but signal is not golden''"

definition not_confirmed_decline :: string where
  "not_confirmed_decline = ''needs confirmation but signal is not confirmed''"

definition pine_entry_dispatchable ::
  "rhai \<Rightarrow> 'e intent \<Rightarrow> candle \<Rightarrow> latched_signal \<Rightarrow> f64 \<Rightarrow> string + unit" where
  "pine_entry_dispatchable R i c sig pip_size =
     (if i_needs_golden i \<and> \<not> ls_golden sig then Inl not_golden_decline
      else if i_needs_confirmed i \<and> \<not> ls_signal_confirmed sig then Inl not_confirmed_decline
      else case from_intent R i (from_candle_and_signal c sig) pip_size
          (or_else (i_tick_size i) pip_size) of
        Inr _ \<Rightarrow> Inr ()
      | Inl e \<Rightarrow> Inl (resolve_error_text e))"

section \<open>One entry rule\<close>

definition confirmed_setup_floor :: "'e plan \<Rightarrow> plan_state \<Rightarrow> 'e rule \<Rightarrow> time option" where
  "confirmed_setup_floor plan st r =
     latest [if requires_step (i_requires_preps (cr_intent r)) prep_step_break_and_close
               then ps_break_close_at st else None,
             signal_floor st, Option.bind (tp_replay_start plan) from_timestamp]"

text \<open>The gates before the trigger of an entry is looked at, in the order of the code.\<close>

definition entry_gates_open :: "venue \<Rightarrow> 'e plan \<Rightarrow> plan_state \<Rightarrow> 'e rule \<Rightarrow> candle \<Rightarrow> candle list \<Rightarrow> bool" where
  "entry_gates_open V plan st r c window \<longleftrightarrow>
     ma_aligned plan (cn_time c) window \<and>
     \<not> (has_ma_veto plan \<and> \<not> at_bar (cn_time c) window (ma_veto_ready_at plan window)) \<and>
     \<not> (ec_retrace (tp_entry_conditions plan) \<noteq> None \<and> ps_retrace_seen_at st = None) \<and>
     ma_enabled plan st \<and>
     \<not> ((ec_must_touch (tp_entry_conditions plan) \<noteq> [] \<or> ec_be_offside (tp_entry_conditions plan) \<noteq> [] \<or>
         ec_enable_on_ma_touch (tp_entry_conditions plan) \<noteq> []) \<and> \<not> is_pine (cr_trigger r)) \<and>
     (case tp_replay_start plan of Some start \<Rightarrow> \<not> timestamp (cn_time c) < start | None \<Rightarrow> True) \<and>
     \<not> suppress_plan V plan (cn_time c)"

definition multi_shot :: "'e rule \<Rightarrow> bool" where
  "multi_shot r \<longleftrightarrow> i_max_retries (cr_intent r) \<noteq> Static 0"

definition entry_trigger ::
  "venue \<Rightarrow> 'e plan \<Rightarrow> candle \<Rightarrow> candle list \<Rightarrow> detector_config \<Rightarrow> 'e rule \<Rightarrow> plan_state
    \<Rightarrow> latched_signal option option \<times> plan_state" where
  "entry_trigger V plan c window cfg r st =
     (case cr_trigger r of
        PinePattern pattern dir \<Rightarrow>
          (map_option Some (eval_pine_entry c window cfg pattern dir (i_needs_confirmed (cr_intent r))
             (i_needs_golden (cr_intent r)) (confirmed_setup_floor plan st r)
             (ps_last_confirmed_enter_at st) (\<not> i_needs_confirmed (cr_intent r))
             (Some (tp_entry_conditions plan))), st)
      | _ \<Rightarrow>
          (case fire_rule V r c window (resolve_cross_buffer plan window) (tp_granularity plan) st of
             (hit, st) \<Rightarrow> (if hit then Some None else None, st)))"

type_synonym 'e entry_state = "plan_state \<times> 'e fired_intent list \<times> entry_decline list"

definition after_entry :: "'e plan \<Rightarrow> 'e rule \<Rightarrow> latched_signal option \<Rightarrow> plan_state \<Rightarrow> plan_state" where
  "after_entry plan r signal st =
     (let st = (case signal of
            Some sig \<Rightarrow> if i_needs_confirmed (cr_intent r) \<and> multi_shot r
              then st\<lparr>ps_last_confirmed_enter_at := Some (ls_signal_bar_time sig)\<rparr> else st
          | None \<Rightarrow> st) in
      if cr_fire_mode r = Once \<and> \<not> multi_shot r
      then let st = mark_fired r st in
        if \<not> has_ma_veto plan \<and> \<not> ec_require_ma_alignment (tp_entry_conditions plan)
        then st\<lparr>ps_phase := Done\<rparr> else st
      else st)"

definition evaluate_one_entry ::
  "venue \<Rightarrow> rhai \<Rightarrow> 'e plan \<Rightarrow> candle \<Rightarrow> candle list \<Rightarrow> detector_config \<Rightarrow> 'e rule
    \<Rightarrow> 'e entry_state \<Rightarrow> 'e entry_state" where
  "evaluate_one_entry V R plan c window cfg r = (\<lambda>(st, fired, declines).
     if \<not> entry_gates_open V plan st r c window then (st, fired, declines)
     else case entry_trigger V plan c window cfg r st of
       (None, st) \<Rightarrow> (st, fired, declines)
     | (Some signal, st) \<Rightarrow>
         if (case signal of
               Some sig \<Rightarrow> (case signal_floor st of Some t0 \<Rightarrow> ls_signal_bar_time sig < t0 | None \<Rightarrow> False)
             | None \<Rightarrow> False)
         then (st, fired, declines)
         else case (case signal of
               Some sig \<Rightarrow> pine_entry_dispatchable R (cr_intent r) c sig (tp_pip_size plan)
             | None \<Rightarrow> Inr ()) of
           Inl reason \<Rightarrow> (st, fired, declines @
             [\<lparr>ed_bar = cn_time c, ed_rule_id = cr_rule_id r, ed_reason = reason\<rparr>])
         | Inr _ \<Rightarrow>
             if \<not> enter_prep_milestones_satisfied plan st r (cn_time c) then (st, fired, declines)
             else (after_entry plan r signal st, fired @ [fire r c signal], declines))"

text \<open>
  The loop over the entry rules' ids: a rule is looked up again by its id, and the loop ends
  with the plan.
\<close>

fun entry_loop ::
  "venue \<Rightarrow> rhai \<Rightarrow> 'e plan \<Rightarrow> candle \<Rightarrow> candle list \<Rightarrow> detector_config \<Rightarrow> string list
    \<Rightarrow> 'e entry_state \<Rightarrow> 'e entry_state" where
  "entry_loop V R plan c window cfg [] s = s"
| "entry_loop V R plan c window cfg (rid # rids) s =
     (if rid \<in> ps_fired (fst s) then entry_loop V R plan c window cfg rids s
      else case find (\<lambda>r. cr_rule_id r = rid) (tp_rules plan) of
        None \<Rightarrow> entry_loop V R plan c window cfg rids s
      | Some r \<Rightarrow>
          let s = evaluate_one_entry V R plan c window cfg r s in
          if ps_phase (fst s) = Done then s else entry_loop V R plan c window cfg rids s)"

definition evaluate_entry ::
  "venue \<Rightarrow> rhai \<Rightarrow> 'e plan \<Rightarrow> candle \<Rightarrow> candle list \<Rightarrow> detector_config
    \<Rightarrow> 'e entry_state \<Rightarrow> 'e entry_state" where
  "evaluate_entry V R plan c window cfg =
     entry_loop V R plan c window cfg (map cr_rule_id (filter is_enter_rule (tp_rules plan)))"

section \<open>One candle\<close>

definition spine_step ::
  "venue \<Rightarrow> rhai \<Rightarrow> 'e plan \<Rightarrow> candle \<Rightarrow> candle list \<Rightarrow> detector_config
    \<Rightarrow> 'e entry_state \<Rightarrow> 'e entry_state" where
  "spine_step V R plan c window cfg = (\<lambda>(st, fired, declines).
     case ps_phase st of
       AwaitBreakAndClose \<Rightarrow>
         (case evaluate_break_and_close V plan c window (st, fired) of
            (st, fired) \<Rightarrow> (st, fired, declines))
     | AwaitEntry \<Rightarrow>
         let rs = (if is_multi_enter plan then evaluate_break_and_close V plan c window (st, fired)
                   else (st, fired));
             rs = stamp_retest V plan c window rs;
             (st, fired) = stamp_pullback V plan c window rs in
         evaluate_entry V R plan c window cfg (st, fired, declines)
     | Done \<Rightarrow> (st, fired, declines))"

definition set_watermark :: "candle \<Rightarrow> plan_state \<Rightarrow> plan_state" where
  "set_watermark c st = st\<lparr>ps_watermark := Some (cn_time c)\<rparr>"

definition candle_step ::
  "venue \<Rightarrow> rhai \<Rightarrow> 'e plan \<Rightarrow> candle list \<Rightarrow> time \<Rightarrow> candle \<Rightarrow> 'e entry_state \<Rightarrow> 'e entry_state" where
  "candle_step V R plan window now c = (\<lambda>(st, fired, declines).
     let cfg = pine_defaults (tp_granularity plan);
         rs = evaluate_controls V plan c window (control_clock_for c (tp_granularity plan) now) (st, fired);
         (st, fired) = evaluate_guards V plan c window cfg rs in
     if ps_phase st = Done then (set_watermark c st, fired, declines)
     else
       let fired = (case alignment_control plan st c window of Some f \<Rightarrow> fired @ [f] | None \<Rightarrow> fired) in
       if ps_entries_blocked st then (set_watermark c st, fired, declines)
       else
         let st = stamp_retrace V plan c window st;
             st = stamp_ma_touch V plan c window st;
             (st, fired, declines) = spine_step V R plan c window cfg (st, fired, declines) in
         (set_watermark c st, fired, declines))"

fun candle_loop ::
  "venue \<Rightarrow> rhai \<Rightarrow> 'e plan \<Rightarrow> candle list \<Rightarrow> time \<Rightarrow> candle list \<Rightarrow> 'e entry_state \<Rightarrow> 'e entry_state" where
  "candle_loop V R plan window now [] s = s"
| "candle_loop V R plan window now (c # cs) s =
     (let s = candle_step V R plan window now c s in
      if ps_phase (fst s) = Done then s else candle_loop V R plan window now cs s)"

section \<open>Warnings about anchors\<close>

datatype anchor_resolution = InWindow | Extrapolated | Unresolvable

definition classify_anchor :: "int \<Rightarrow> candle list \<Rightarrow> int \<Rightarrow> anchor_resolution" where
  "classify_anchor epoch window bar_seconds =
     (if window = [] then Unresolvable
      else
        let first = timestamp (cn_time (window ! 0));
            final = timestamp (cn_time (window ! (length window - 1))) in
        if first \<le> epoch \<and> epoch \<le> final then InWindow
        else if bar_seconds \<le> 0 then Unresolvable else Extrapolated)"

definition anchor_warning :: "string \<Rightarrow> string \<Rightarrow> int \<Rightarrow> candle list \<Rightarrow> int \<Rightarrow> string list" where
  "anchor_warning rid label epoch window bar_seconds =
     (let head = ''trendline '' @ rid @ '': anchor '' @ label @ '' (epoch '' @ show_int epoch @
            '') is outside the '' @ show_nat (length window) @ ''-bar window'' in
      case classify_anchor epoch window bar_seconds of
        InWindow \<Rightarrow> []
      | Extrapolated \<Rightarrow> [head @ ''; its bar-index was estimated from bar_seconds='' @ show_int bar_seconds @
          '' (wall-clock spacing across any gap in the un-fetched span). Widen the '' @
          ''candle fetch so anchors are in-window.'']
      | Unresolvable \<Rightarrow> [head @ '' and bar_seconds=0 (plan signed before the field existed), '' @
          ''so this trendline cannot be evaluated this tick (silently won't fire). '' @
          ''Re-arm the plan to bake bar_seconds, or widen the candle fetch.''])"

definition trendline_anchor_warnings :: "'e plan \<Rightarrow> candle list \<Rightarrow> string list" where
  "trendline_anchor_warnings plan window =
     concat (map (\<lambda>r. case cr_trigger r of
         TrendlineCross a b _ bar_seconds _ _ \<Rightarrow>
           anchor_warning (cr_rule_id r) ''a'' (lp_at_epoch a) window bar_seconds @
           anchor_warning (cr_rule_id r) ''b'' (lp_at_epoch b) window bar_seconds
       | _ \<Rightarrow> []) (tp_rules plan))"

section \<open>A plan\<close>

definition evaluate_plan ::
  "venue \<Rightarrow> rhai \<Rightarrow> 'e plan \<Rightarrow> plan_state \<Rightarrow> candle list \<Rightarrow> candle list \<Rightarrow> time \<Rightarrow> time \<Rightarrow> 'e plan_eval" where
  "evaluate_plan V R plan prior new_candles window now expires_at =
     (case candle_loop V R plan window now new_candles (prior\<lparr>ps_expires_at := expires_at\<rparr>, [], []) of
        (st, fired, declines) \<Rightarrow>
          \<lparr>pv_fired = fired, pv_new_state = st, pv_done = (ps_phase st = Done),
           pv_warnings = trendline_anchor_warnings plan window, pv_entry_declines = declines\<rparr>)"

definition evaluate_controls_only ::
  "venue \<Rightarrow> 'e plan \<Rightarrow> plan_state \<Rightarrow> candle \<Rightarrow> time \<Rightarrow> time \<Rightarrow> 'e plan_eval" where
  "evaluate_controls_only V plan prior last_candle now expires_at =
     (case evaluate_controls V plan last_candle [last_candle] now (prior\<lparr>ps_expires_at := expires_at\<rparr>, []) of
        (st, fired) \<Rightarrow>
          \<lparr>pv_fired = fired, pv_new_state = st, pv_done = (ps_phase st = Done), pv_warnings = [],
           pv_entry_declines = []\<rparr>)"

section \<open>Why an entry is not ready\<close>

datatype enter_block =
    NeedsMaAlignment | NeedsEnablingMaTouch | NeedsRetracement | NeedsBreakAndClose
  | NeedsConfirmation | NeedsRetest

definition enter_block_reason :: "enter_block \<Rightarrow> string" where
  "enter_block_reason b = (case b of
     NeedsMaAlignment \<Rightarrow> ''requires favorable 9 EMA / 20 SMA alignment''
   | NeedsEnablingMaTouch \<Rightarrow> ''requires MA touch (entry not enabled yet)''
   | NeedsRetracement \<Rightarrow> ''requires retracement (no close beyond the line yet)''
   | NeedsBreakAndClose \<Rightarrow> ''requires break-and-close (prep not satisfied yet)''
   | NeedsConfirmation \<Rightarrow> ''requires confirmation (no confirmed signal yet)''
   | NeedsRetest \<Rightarrow> ''requires retest/pullback (no milestone stamped yet)'')"

definition leg_has_confirmed_signal ::
  "'e plan \<Rightarrow> plan_state \<Rightarrow> 'e rule \<Rightarrow> time \<Rightarrow> candle list \<Rightarrow> bool" where
  "leg_has_confirmed_signal plan st r bar window =
     (case cr_trigger r of
        PinePattern pattern dir \<Rightarrow>
          at_bar bar window (\<lambda>idx.
            let cfg = pine_defaults (tp_granularity plan) in
            first_confirmed_signal_matching_at window idx cfg
              \<lparr>sc_dir = dir, sc_kind = pattern, sc_require_golden = i_needs_golden (cr_intent r),
               sc_not_before = confirmed_scan_floor (map cn_time window) idx cfg (tp_granularity plan)
                 (confirmed_setup_floor plan st r),
               sc_after = ps_last_confirmed_enter_at st\<rparr>
              (\<lambda>start prnt. pattern_qualifies (tp_entry_conditions plan) window start prnt dir) \<noteq> None)
      | _ \<Rightarrow> False)"

definition leg_blocks ::
  "'e plan \<Rightarrow> plan_state \<Rightarrow> time \<Rightarrow> candle list option \<Rightarrow> 'e rule \<Rightarrow> enter_block list" where
  "leg_blocks plan st bar window r =
     (if ec_require_ma_alignment (tp_entry_conditions plan) \<and>
         \<not> (case window of None \<Rightarrow> False | Some w \<Rightarrow> ma_aligned plan bar w)
      then [NeedsMaAlignment] else []) @
     (if \<not> ma_enabled plan st then [NeedsEnablingMaTouch] else []) @
     (if ec_retrace (tp_entry_conditions plan) \<noteq> None \<and> ps_retrace_seen_at st = None
      then [NeedsRetracement] else []) @
     (if ps_phase st = AwaitBreakAndClose \<and> has_break_and_close plan then [NeedsBreakAndClose] else []) @
     (if i_needs_confirmed (cr_intent r) \<and>
         (case window of None \<Rightarrow> True | Some w \<Rightarrow> \<not> leg_has_confirmed_signal plan st r bar w)
      then [NeedsConfirmation] else []) @
     (if \<not> enter_prep_milestones_satisfied plan st r bar then [NeedsRetest] else [])"

definition enter_preconditions_by_leg ::
  "'e plan \<Rightarrow> plan_state \<Rightarrow> time \<Rightarrow> candle list option \<Rightarrow> enter_block list list" where
  "enter_preconditions_by_leg plan st bar window =
     filter (\<lambda>leg. leg \<noteq> [])
       (map (leg_blocks plan st bar window)
         (filter (\<lambda>r. cr_rule_id r \<notin> ps_fired st) (filter is_enter_rule (tp_rules plan))))"

text \<open>The first occurrence of each value, in order.\<close>

definition dedup :: "'a list \<Rightarrow> 'a list" where
  "dedup xs = fold (\<lambda>x acc. if x \<in> set acc then acc else acc @ [x]) xs []"

definition enter_preconditions_unmet :: "'e plan \<Rightarrow> plan_state \<Rightarrow> time \<Rightarrow> enter_block list" where
  "enter_preconditions_unmet plan st bar = dedup (concat (enter_preconditions_by_leg plan st bar None))"

definition enter_preconditions_reason ::
  "'e plan \<Rightarrow> plan_state \<Rightarrow> time \<Rightarrow> candle list option \<Rightarrow> string option" where
  "enter_preconditions_reason plan st bar window =
     (let legs = enter_preconditions_by_leg plan st bar window in
      if legs = [] then None
      else Some (join '' or ''
        (dedup (map (\<lambda>leg. join '' and '' (map enter_block_reason leg)) legs))))"

end
