(* ===== verification/Plan_Machine.thy ===== *)
theory Plan_Machine
  imports Plan_Evaluate
begin

text \<open>
  The engine as a state machine: the changes one bar can make to a plan, each with its guard,
  and the runs they form. Every evaluation is such a run, so what holds along all runs holds
  for the engine.
\<close>

section \<open>Changes\<close>

text \<open>Bookkeeping touches the reference prices and the watermark only.\<close>

definition same_spine :: "plan_state \<Rightarrow> plan_state \<Rightarrow> bool" where
  "same_spine st st' \<longleftrightarrow> st' = st\<lparr>ps_last_close := ps_last_close st',
     ps_origin_open := ps_origin_open st', ps_watermark := ps_watermark st'\<rparr>"

abbreviation spine_free :: "plan_state \<Rightarrow> bool" where
  "spine_free st \<equiv> ps_phase st \<noteq> Done \<and> \<not> ps_entries_blocked st"

inductive bar_change ::
  "venue \<Rightarrow> rhai \<Rightarrow> 'e plan \<Rightarrow> candle \<Rightarrow> candle list \<Rightarrow> plan_state \<Rightarrow> 'e fired_intent list
    \<Rightarrow> plan_state \<Rightarrow> bool"
for V R plan c window where
  booked: "same_spine st st' \<Longrightarrow> bar_change V R plan c window st [] st'"
| controlled: "r \<in> set (tp_rules plan) \<Longrightarrow> is_control_rule r \<Longrightarrow> cr_rule_id r \<notin> ps_fired st \<Longrightarrow>
    bar_change V R plan c window st [fire r c None] (note_news (cr_intent r) (mark_fired r st))"
| guarded: "r \<in> set (tp_rules plan) \<Longrightarrow> is_guard r \<Longrightarrow> cr_rule_id r \<notin> ps_fired st \<Longrightarrow>
    armed_in_rule r (ps_phase st) (ps_entries_blocked st) \<Longrightarrow>
    bar_change V R plan c window st [fire r c sig] (mark_fired r st)"
| blocked: "r \<in> set (tp_rules plan) \<Longrightarrow> guard_is_terminal r \<Longrightarrow> \<not> veto_retires_plan r \<Longrightarrow>
    cr_rule_id r \<in> ps_fired st \<Longrightarrow>
    bar_change V R plan c window st [] (st\<lparr>ps_entries_blocked := True\<rparr>)"
| retired: "r \<in> set (tp_rules plan) \<Longrightarrow> guard_is_terminal r \<Longrightarrow> veto_retires_plan r \<Longrightarrow>
    cr_rule_id r \<in> ps_fired st \<Longrightarrow> bar_change V R plan c window st [] (st\<lparr>ps_phase := Done\<rparr>)"
| aligned: "alignment_control plan st c window = Some f \<Longrightarrow> bar_change V R plan c window st [f] st"
| retraced: "spine_free st \<Longrightarrow> ps_retrace_seen_at st = None \<Longrightarrow>
    bar_change V R plan c window st [] (st\<lparr>ps_retrace_seen_at := Some (cn_time c)\<rparr>)"
| touched: "spine_free st \<Longrightarrow> ps_ma_touch_seen_at st = None \<Longrightarrow>
    bar_change V R plan c window st [] (st\<lparr>ps_ma_touch_seen_at := Some (cn_time c)\<rparr>)"
| unbroken: "spine_free st \<Longrightarrow> \<not> has_break_and_close plan \<Longrightarrow>
    bar_change V R plan c window st [] (st\<lparr>ps_phase := AwaitEntry\<rparr>)"
| broken: "spine_free st \<Longrightarrow> find is_break_and_close (tp_rules plan) = Some r \<Longrightarrow>
    cr_rule_id r \<notin> ps_fired st \<Longrightarrow>
    (tp_bcr_require_golden plan \<Longrightarrow> bar_is_golden c window (tp_granularity plan)) \<Longrightarrow>
    bar_change V R plan c window st [fire r c None]
      ((mark_fired r st)\<lparr>ps_break_close_at := Some (cn_time c), ps_phase := AwaitEntry\<rparr>)"
| retested: "\<not> ps_entries_blocked st \<Longrightarrow> ps_phase st = AwaitEntry \<Longrightarrow> ps_retest_seen_at st = None \<Longrightarrow>
    effective_break_at plan st window = Some b \<Longrightarrow> b < cn_time c \<Longrightarrow> \<not> suppress_plan V plan (cn_time c) \<Longrightarrow>
    find is_retest (tp_rules plan) = Some r \<Longrightarrow>
    bar_change V R plan c window st [fire r c None] (st\<lparr>ps_retest_seen_at := Some (cn_time c)\<rparr>)"
| pulled: "\<not> ps_entries_blocked st \<Longrightarrow> ps_phase st = AwaitEntry \<Longrightarrow> ps_pullback_seen_at st = None \<Longrightarrow>
    effective_break_at plan st window = Some b \<Longrightarrow> b < cn_time c \<Longrightarrow> \<not> suppress_plan V plan (cn_time c) \<Longrightarrow>
    find is_pullback (tp_rules plan) = Some r \<Longrightarrow>
    bar_change V R plan c window st [fire r c None] (st\<lparr>ps_pullback_seen_at := Some (cn_time c)\<rparr>)"
| entered: "\<not> ps_entries_blocked st \<Longrightarrow> ps_phase st = AwaitEntry \<Longrightarrow> r \<in> set (tp_rules plan) \<Longrightarrow>
    (\<exists>e\<in>set (tp_rules plan). is_enter_rule e \<and> cr_rule_id e = cr_rule_id r) \<Longrightarrow>
    cr_rule_id r \<notin> ps_fired st \<Longrightarrow>
    entry_gates_open V plan st r c window \<Longrightarrow>
    (\<And>pattern dir. cr_trigger r = PinePattern pattern dir \<Longrightarrow>
       \<exists>sig. signal = Some sig \<and> ls_direction sig = dir) \<Longrightarrow>
    (\<And>sig. signal = Some sig \<Longrightarrow> pine_entry_dispatchable R (cr_intent r) c sig (tp_pip_size plan) = Inr ()) \<Longrightarrow>
    (\<And>sig t0. signal = Some sig \<Longrightarrow> signal_floor st = Some t0 \<Longrightarrow> t0 \<le> ls_signal_bar_time sig) \<Longrightarrow>
    enter_prep_milestones_satisfied plan st r (cn_time c) \<Longrightarrow>
    bar_change V R plan c window st [fire r c signal] (after_entry plan r signal st)"

section \<open>Runs\<close>

text \<open>\<open>B\<close> holds of the bars and windows a run may look at.\<close>

inductive engine_run ::
  "venue \<Rightarrow> rhai \<Rightarrow> 'e plan \<Rightarrow> (candle \<Rightarrow> candle list \<Rightarrow> bool) \<Rightarrow> plan_state \<Rightarrow> 'e fired_intent list
    \<Rightarrow> plan_state \<Rightarrow> bool"
for V R plan B st where
  start: "engine_run V R plan B st [] st"
| change: "engine_run V R plan B st fs st' \<Longrightarrow> B c window \<Longrightarrow> bar_change V R plan c window st' gs st'' \<Longrightarrow>
    engine_run V R plan B st (fs @ gs) st''"

lemma run_trans:
  assumes "engine_run V R plan B st fs st'" "engine_run V R plan B st' gs st''"
  shows "engine_run V R plan B st (fs @ gs) st''"
  using assms(2)
proof induction
  case start
  then show ?case using assms(1) by simp
next
  case (change hs st1 c window gs st2)
  then show ?case by (metis append_assoc engine_run.change)
qed

lemma run_one: "B c window \<Longrightarrow> bar_change V R plan c window st gs st' \<Longrightarrow> engine_run V R plan B st gs st'"
  using engine_run.change [OF engine_run.start] by fastforce

lemma run_mono: "engine_run V R plan B st fs st' \<Longrightarrow> (\<And>c w. B c w \<Longrightarrow> B' c w) \<Longrightarrow> engine_run V R plan B' st fs st'"
  by (induction rule: engine_run.induct) (auto intro: engine_run.intros)

definition runs ::
  "venue \<Rightarrow> rhai \<Rightarrow> 'e plan \<Rightarrow> (candle \<Rightarrow> candle list \<Rightarrow> bool) \<Rightarrow> ('e run_state \<Rightarrow> 'e run_state) \<Rightarrow> bool" where
  "runs V R plan B F \<longleftrightarrow> (\<forall>st fired. \<exists>new.
     snd (F (st, fired)) = fired @ new \<and> engine_run V R plan B st new (fst (F (st, fired))))"

lemma runsI:
  "(\<And>st fired. \<exists>new. snd (F (st, fired)) = fired @ new \<and> engine_run V R plan B st new (fst (F (st, fired))))
     \<Longrightarrow> runs V R plan B F"
  by (simp add: runs_def)

lemma runs_comp:
  assumes F: "runs V R plan B F" and G: "runs V R plan B G"
  shows "runs V R plan B (\<lambda>s. G (F s))"
proof (rule runsI)
  fix st fired
  obtain st' fired' where e: "F (st, fired) = (st', fired')" by fastforce
  obtain new where n: "fired' = fired @ new" "engine_run V R plan B st new st'"
    using F e unfolding runs_def by (metis fst_conv snd_conv)
  obtain more where m: "snd (G (st', fired')) = fired' @ more" "engine_run V R plan B st' more (fst (G (st', fired')))"
    using G unfolding runs_def by blast
  show "\<exists>new. snd (G (F (st, fired))) = fired @ new \<and> engine_run V R plan B st new (fst (G (F (st, fired))))"
    using n m run_trans [OF n(2) m(2)] e by auto
qed

lemma runs_id: "runs V R plan B (\<lambda>s. s)"
  by (auto simp: runs_def intro: engine_run.start)

lemma runs_fold:
  assumes "\<And>x. x \<in> set xs \<Longrightarrow> runs V R plan B (f x)"
  shows "runs V R plan B (fold f xs)"
  using assms
proof (induction xs)
  case (Cons x xs)
  then show ?case using runs_comp [of V R plan B "f x" "fold f xs"] by (simp add: comp_def)
qed (simp add: runs_id id_def)

section \<open>Bookkeeping\<close>

lemma same_spine_refl [simp]: "same_spine st st"
  by (simp add: same_spine_def)

lemma same_spine_trans: "same_spine a b \<Longrightarrow> same_spine b d \<Longrightarrow> same_spine a d"
  unfolding same_spine_def by (cases a; cases b; cases d) simp

lemma same_spine_fields:
  "same_spine st st' \<Longrightarrow> ps_phase st' = ps_phase st \<and> ps_fired st' = ps_fired st \<and>
     ps_break_close_at st' = ps_break_close_at st \<and> ps_retest_seen_at st' = ps_retest_seen_at st \<and>
     ps_pullback_seen_at st' = ps_pullback_seen_at st \<and> ps_retrace_seen_at st' = ps_retrace_seen_at st \<and>
     ps_ma_touch_seen_at st' = ps_ma_touch_seen_at st \<and> ps_entries_blocked st' = ps_entries_blocked st \<and>
     ps_last_confirmed_enter_at st' = ps_last_confirmed_enter_at st \<and> ps_mw st' = ps_mw st \<and>
     ps_open_news_windows st' = ps_open_news_windows st \<and> ps_expires_at st' = ps_expires_at st"
  unfolding same_spine_def by (cases st; cases st') simp

lemma same_spine_records:
  "same_spine st (record_last_close rid t c st)" "same_spine st (record_origin_open rid t c st)"
  "same_spine st (reseat_origin_on_dip r c window st)" "same_spine st (set_watermark c st)"
  by (auto simp: same_spine_def record_last_close_def record_origin_open_def reseat_origin_on_dip_def
      set_watermark_def split: option.split cross_dir.split)

lemma same_spine_fire_rule: "same_spine st (snd (fire_rule V r c window cb g st))"
  by (simp add: fire_rule_def Let_def) (meson same_spine_records same_spine_trans)

lemma run_note: "B c window \<Longrightarrow> same_spine st st' \<Longrightarrow> engine_run V R plan B st [] st'"
  by (rule run_one) (auto intro: bar_change.booked)

text \<open>A change after some bookkeeping.\<close>

lemma run_noted:
  "B c window \<Longrightarrow> same_spine st st' \<Longrightarrow> bar_change V R plan c window st' gs st'' \<Longrightarrow>
     engine_run V R plan B st gs st''"
  using run_trans [OF run_note run_one, of B c window st st' c window] by simp

end
