(* ===== verification/Plan_Refine.thy ===== *)
theory Plan_Refine
  imports Plan_Machine
begin

text \<open>
  Every function of the engine, and the evaluation of a plan as a whole, is a run of the
  changes of \<open>Plan_Machine\<close>.
\<close>

section \<open>Controls and guards\<close>

lemma same_spine_control: "same_spine st (snd (control_rule_fires V r c window cb now g st))"
  by (auto simp: control_rule_fires_def same_spine_fire_rule split: trigger.split)

lemma runs_control_step:
  assumes "r \<in> set (tp_rules plan)" "B c window"
  shows "runs V R plan B (control_step V plan c window now r)"
proof (rule runsI)
  fix st and fired :: "'a fired_intent list"
  obtain hit st1 where e: "control_rule_fires V r c window (resolve_cross_buffer plan window) now
      (tp_granularity plan) st = (hit, st1)" by fastforce
  have ss: "same_spine st st1" by (metis e same_spine_control snd_conv)
  have start: "engine_run V R plan B st [] st" by (rule engine_run.start)
  have skip: "engine_run V R plan B st [] st1" by (rule run_note [where B = B, OF assms(2) ss])
  have go: "engine_run V R plan B st [fire r c None] (note_news (cr_intent r) (mark_fired r st1))"
    if "is_control_rule r" "cr_rule_id r \<notin> ps_fired st"
    using run_noted [where B = B, OF assms(2) ss bar_change.controlled [OF assms(1)]] that same_spine_fields [OF ss]
    by simp
  show "\<exists>new. snd (control_step V plan c window now r (st, fired)) = fired @ new \<and>
      engine_run V R plan B st new (fst (control_step V plan c window now r (st, fired)))"
    using skip go start by (cases hit) (auto simp: control_step_def e)
qed

lemma runs_controls: "B c window \<Longrightarrow> runs V R plan B (evaluate_controls V plan c window now)"
  unfolding evaluate_controls_def by (rule runs_fold) (rule runs_control_step)

lemma same_spine_guard_fires: "same_spine st (snd (guard_fires V plan c window cfg r st))"
  using same_spine_fire_rule [of st V r c window "resolve_cross_buffer plan window" "tp_granularity plan"]
  by (auto simp: guard_fires_def split: trigger.split prod.split)

definition retiring_fired :: "'e plan \<Rightarrow> plan_state \<Rightarrow> bool" where
  "retiring_fired plan st \<longleftrightarrow>
     (\<exists>r\<in>set (tp_rules plan). guard_is_terminal r \<and> veto_retires_plan r \<and> cr_rule_id r \<in> ps_fired st)"

text \<open>The fold over the guards, with what its flag stands for.\<close>

lemma run_guard_step:
  assumes "r \<in> set (tp_rules plan)" "B c window"
    and s: "guard_step V plan c window cfg r ((st, fired), t) = ((st', fired'), t')"
    and t: "t \<Longrightarrow> retiring_fired plan st"
  shows "(\<exists>new. fired' = fired @ new \<and> engine_run V R plan B st new st') \<and>
    (t' \<longrightarrow> retiring_fired plan st')"
proof (cases "\<not> is_guard r \<or> cr_rule_id r \<in> ps_fired st \<or>
    \<not> armed_in_rule r (ps_phase st) (ps_entries_blocked st)")
  case True
  then show ?thesis using s t by (auto simp: guard_step_def intro: engine_run.start)
next
  case live: False
  obtain hit st1 where e: "guard_fires V plan c window cfg r st = (hit, st1)" by fastforce
  have ss: "same_spine st st1" by (metis e same_spine_guard_fires snd_conv)
  note f = same_spine_fields [OF ss]
  show ?thesis
  proof (cases hit)
    case None
    then show ?thesis using s t live f run_note [where B = B, OF assms(2) ss]
      by (auto simp: guard_step_def e retiring_fired_def)
  next
    case (Some sig)
    have go: "engine_run V R plan B st [fire r c sig] (mark_fired r st1)"
      using run_noted [where B = B, OF assms(2) ss bar_change.guarded [OF assms(1)]] live f by simp
    have blocked: "engine_run V R plan B st [fire r c sig] ((mark_fired r st1)\<lparr>ps_entries_blocked := True\<rparr>)"
      if "guard_is_terminal r" "\<not> veto_retires_plan r"
      using run_trans [OF go run_one [where B = B, OF assms(2) bar_change.blocked [OF assms(1)]]] that
      by (simp add: mark_fired_def)
    show ?thesis
      using s t Some live f go blocked assms(1)
      by (auto simp: guard_step_def e Let_def mark_fired_def retiring_fired_def split: if_splits)
  qed
qed

lemma run_guard_fold:
  assumes "set rs \<subseteq> set (tp_rules plan)" "B c window"
    and "fold (guard_step V plan c window cfg) rs ((st, fired), t) = ((st', fired'), t')"
    and "t \<Longrightarrow> retiring_fired plan st"
  shows "(\<exists>new. fired' = fired @ new \<and> engine_run V R plan B st new st') \<and>
    (t' \<longrightarrow> retiring_fired plan st')"
  using assms
proof (induction rs arbitrary: st fired t)
  case Nil
  then show ?case by (auto intro: engine_run.start)
next
  case (Cons r rs)
  obtain st1 fired1 t1 where e: "guard_step V plan c window cfg r ((st, fired), t) = ((st1, fired1), t1)"
    by (metis surj_pair)
  note one = run_guard_step [where B = B and R = R, OF _ Cons.prems(2) e Cons.prems(4)]
  have "r \<in> set (tp_rules plan)" using Cons.prems(1) by simp
  then obtain new where n: "fired1 = fired @ new" "engine_run V R plan B st new st1"
    and t1: "t1 \<Longrightarrow> retiring_fired plan st1"
    using one by blast
  have "(\<exists>more. fired' = fired1 @ more \<and> engine_run V R plan B st1 more st') \<and>
    (t' \<longrightarrow> retiring_fired plan st')"
    using Cons.IH [of st1 fired1 t1] Cons.prems e t1 by simp
  then show ?case using n run_trans [OF n(2)] by (metis append_assoc)
qed

lemma runs_guards:
  assumes "B c window"
  shows "runs V R plan B (evaluate_guards V plan c window cfg)"
proof (rule runsI)
  fix st and fired :: "'a fired_intent list"
  obtain st1 fired1 t where e: "fold (guard_step V plan c window cfg) (tp_rules plan) ((st, fired), False) = ((st1, fired1), t)"
    by (metis surj_pair)
  obtain new where n: "fired1 = fired @ new" "engine_run V R plan B st new st1"
    and t: "t \<Longrightarrow> retiring_fired plan st1"
    using run_guard_fold [where B = B and R = R, OF order_refl assms e] by auto
  have d: "engine_run V R plan B st new (st1\<lparr>ps_phase := Done\<rparr>)" if "t"
  proof -
    obtain r where "r \<in> set (tp_rules plan)" "guard_is_terminal r" "veto_retires_plan r" "cr_rule_id r \<in> ps_fired st1"
      using t \<open>t\<close> unfolding retiring_fired_def by blast
    then show ?thesis
      using run_trans [OF n(2) run_one [where B = B, OF assms bar_change.retired]] by auto
  qed
  show "\<exists>new. snd (evaluate_guards V plan c window cfg (st, fired)) = fired @ new \<and>
      engine_run V R plan B st new (fst (evaluate_guards V plan c window cfg (st, fired)))"
    using n d by (auto simp: evaluate_guards_def e)
qed

section \<open>Stamps\<close>

lemma run_stamps:
  assumes b: "B c window" and free: "spine_free st"
  shows "engine_run V R plan B st [] (stamp_ma_touch V plan c window (stamp_retrace V plan c window st))"
    and "spine_free (stamp_ma_touch V plan c window (stamp_retrace V plan c window st))"
proof -
  have retrace: "engine_run V R plan B st [] (stamp_retrace V plan c window st) \<and>
      spine_free (stamp_retrace V plan c window st)"
    using free run_one [where B = B, OF b bar_change.retraced]
    by (auto simp: stamp_retrace_def intro: engine_run.start split: option.split)
  have touch: "engine_run V R plan B st [] (stamp_ma_touch V plan c window st) \<and>
      spine_free (stamp_ma_touch V plan c window st)" if "spine_free st" for st
    using that run_one [where B = B, OF b bar_change.touched]
    by (auto simp: stamp_ma_touch_def Let_def intro: engine_run.start)
  show "engine_run V R plan B st [] (stamp_ma_touch V plan c window (stamp_retrace V plan c window st))"
    using run_trans [of V R plan B st "[]" "stamp_retrace V plan c window st"] retrace touch by fastforce
  show "spine_free (stamp_ma_touch V plan c window (stamp_retrace V plan c window st))"
    using retrace touch by blast
qed

section \<open>Break, retest and pullback\<close>

lemma run_break_and_close:
  assumes b: "B c window" and free: "spine_free st"
    and e: "evaluate_break_and_close V plan c window (st, fired) = (st', fired')"
  shows "(\<exists>new. fired' = fired @ new \<and> engine_run V R plan B st new st') \<and> spine_free st' \<and>
    (ps_phase st = AwaitEntry \<longrightarrow> ps_phase st' = AwaitEntry)"
proof (cases "find is_break_and_close (tp_rules plan)")
  case None
  then have "\<not> has_break_and_close plan"
    by (auto simp: has_break_and_close_def find_None_iff list_ex_iff)
  then show ?thesis using e None free run_one [where B = B, OF b bar_change.unbroken [OF free]]
    by (auto simp: evaluate_break_and_close_def)
next
  case (Some r)
  obtain hit st1 where f: "fire_rule V r c window (resolve_cross_buffer plan window) (tp_granularity plan) st = (hit, st1)"
    by fastforce
  have ss: "same_spine st st1" by (metis f same_spine_fire_rule snd_conv)
  note ff = same_spine_fields [OF ss]
  have go: "engine_run V R plan B st [fire r c None]
      ((mark_fired r st1)\<lparr>ps_break_close_at := Some (cn_time c), ps_phase := AwaitEntry\<rparr>)"
    if "cr_rule_id r \<notin> ps_fired st" "tp_bcr_require_golden plan \<Longrightarrow> bar_is_golden c window (tp_granularity plan)"
    using run_noted [where B = B, OF b ss bar_change.broken [OF _ Some]] that ff free by simp
  show ?thesis
    using e Some go run_note [where B = B, OF b ss] free ff
    by (cases hit) (auto simp: evaluate_break_and_close_def f mark_fired_def intro: engine_run.start split: if_splits)
qed

lemma effective_break_same:
  "same_spine st st' \<Longrightarrow> effective_break_at plan st' window = effective_break_at plan st window"
  by (simp add: effective_break_at_def same_spine_fields)

lemma run_stamp_retest:
  assumes b: "B c window" and w: "\<not> ps_entries_blocked st" "ps_phase st = AwaitEntry"
    and e: "stamp_retest V plan c window (st, fired) = (st', fired')"
  shows "(\<exists>new. fired' = fired @ new \<and> engine_run V R plan B st new st') \<and>
    \<not> ps_entries_blocked st' \<and> ps_phase st' = AwaitEntry"
proof (cases "\<exists>brk r. effective_break_at plan st window = Some brk \<and> brk < cn_time c \<and>
    find is_retest (tp_rules plan) = Some r")
  case False
  then have "st' = st \<and> fired' = fired"
    using e by (auto simp: stamp_retest_def not_le split: option.splits if_splits)
  then show ?thesis using w by (auto intro: engine_run.start)
next
  case True
  then obtain brk r where h: "effective_break_at plan st window = Some brk" "brk < cn_time c"
      "find is_retest (tp_rules plan) = Some r" by blast
  define st1 where "st1 = reseat_origin_on_dip r c window (record_origin_open (cr_rule_id r) (cr_trigger r) c st)"
  have ss: "same_spine st st1" unfolding st1_def by (meson same_spine_records same_spine_trans)
  note f = same_spine_fields [OF ss]
  define st2 where "st2 = st1\<lparr>ps_retest_seen_at := Some (cn_time c)\<rparr>"
  let ?rec = "record_last_close (cr_rule_id r) (cr_trigger r) c"
  define stamped where "stamped \<longleftrightarrow> (\<not> tp_bcr_require_golden plan \<or> bar_is_golden c window (tp_granularity plan)) \<and>
    \<not> suppress_plan V plan (cn_time c) \<and> ps_retest_seen_at st1 = None \<and>
    retest_crossed (cr_trigger r) c \<lparr>or_origin = ps_origin_open st1 (cr_rule_id r),
      or_prev_close = ps_last_close st1 (cr_rule_id r), or_settled = True\<rparr> window (resolve_cross_buffer plan window)
      (retest_tolerance plan r brk c window)"
  have "stamp_retest V plan c window (st, fired) =
      (?rec (if stamped then st2 else st1), if stamped then fired @ [fire r c None] else fired)"
    unfolding stamp_retest_def using h(2)
    by (simp only: h(1,3) prod.case option.case Let_def st1_def [symmetric] st2_def [symmetric]
        stamped_def [symmetric] if_False not_le [symmetric])
  then have s: "st' = ?rec (if stamped then st2 else st1)"
      "fired' = (if stamped then fired @ [fire r c None] else fired)"
      "stamped \<Longrightarrow> \<not> suppress_plan V plan (cn_time c) \<and> ps_retest_seen_at st1 = None"
    using e by (simp_all only: stamped_def) simp_all
  have idle: "engine_run V R plan B st [] (?rec st1)"
    by (rule run_note [where B = B, OF b]) (meson ss same_spine_records same_spine_trans)
  have go: "engine_run V R plan B st [fire r c None] st2" if "stamped"
    using run_noted [where B = B, OF b ss bar_change.retested [where b = brk and r = r]] s(3) [OF that] h w f
    by (simp add: st2_def effective_break_same [OF ss])
  have go2: "engine_run V R plan B st [fire r c None] (?rec st2)" if "stamped"
    using run_trans [OF go [OF that] run_note [where B = B, OF b same_spine_records(1)]] by simp
  have "\<not> ps_entries_blocked st' \<and> ps_phase st' = AwaitEntry"
    using s(1) w f by (simp add: record_last_close_def st2_def)
  then show ?thesis using idle go2 s by (cases stamped) auto
qed

lemma run_stamp_pullback:
  assumes b: "B c window" and w: "\<not> ps_entries_blocked st" "ps_phase st = AwaitEntry"
    and e: "stamp_pullback V plan c window (st, fired) = (st', fired')"
  shows "(\<exists>new. fired' = fired @ new \<and> engine_run V R plan B st new st') \<and>
    \<not> ps_entries_blocked st' \<and> ps_phase st' = AwaitEntry"
proof (cases "st' = st \<and> fired' = fired")
  case True
  then show ?thesis using w by (auto intro: engine_run.start)
next
  case False
  then obtain r where r: "find is_pullback (tp_rules plan) = Some r" "ps_pullback_seen_at st = None"
    using e by (cases "ps_pullback_seen_at st"; cases "find is_pullback (tp_rules plan)") (simp_all add: stamp_pullback_def)
  then obtain x m d armed brk where t: "cr_trigger r = PullbackFromArm x m d" "tp_armed_at plan = Some armed"
      "effective_break_at plan st window = Some brk"
    using e False by (cases "cr_trigger r"; cases "tp_armed_at plan"; cases "effective_break_at plan st window")
      (simp_all add: stamp_pullback_def)
  have h: "brk < cn_time c" "\<not> suppress_plan V plan (cn_time c)"
      "st' = st\<lparr>ps_pullback_seen_at := Some (cn_time c)\<rparr>" "fired' = fired @ [fire r c None]"
    using e False r t by (auto simp: stamp_pullback_def split: option.splits if_splits)
  show ?thesis
    using run_one [where B = B, OF b bar_change.pulled [OF w r(2) t(3) h(1,2) r(1)]] w h(3,4) by simp
qed

section \<open>Entries\<close>

lemma pine_entry_direction:
  "eval_pine_entry c window cfg p d a b f g pr ec = Some sig \<Longrightarrow> ls_direction sig = d"
  by (auto simp: eval_pine_entry_def Option.bind_eq_Some_conv split: if_splits)

lemma entry_trigger_facts:
  assumes "entry_trigger V plan c window cfg r st = (hit, st1)"
  shows "same_spine st st1"
    and "hit = Some signal \<Longrightarrow> cr_trigger r = PinePattern p d \<Longrightarrow> \<exists>sig. signal = Some sig \<and> ls_direction sig = d"
proof -
  obtain b st2 where f: "fire_rule V r c window (resolve_cross_buffer plan window) (tp_granularity plan) st = (b, st2)"
    by fastforce
  have "same_spine st st2" by (metis f same_spine_fire_rule snd_conv)
  then show "same_spine st st1" using assms
    by (cases "cr_trigger r") (auto simp: entry_trigger_def f)
  show "\<exists>sig. signal = Some sig \<and> ls_direction sig = d" if "hit = Some signal" "cr_trigger r = PinePattern p d"
    using assms that pine_entry_direction by (auto simp: entry_trigger_def)
qed

lemma gates_same:
  "same_spine st st' \<Longrightarrow> entry_gates_open V plan st' r c window = entry_gates_open V plan st r c window"
  "same_spine st st' \<Longrightarrow> signal_floor st' = signal_floor st"
  "same_spine st st' \<Longrightarrow> enter_prep_milestones_satisfied plan st' r t = enter_prep_milestones_satisfied plan st r t"
proof -
  assume s: "same_spine st st'"
  note f = same_spine_fields [OF s]
  show "entry_gates_open V plan st' r c window = entry_gates_open V plan st r c window"
    "signal_floor st' = signal_floor st"
    using f by (simp_all add: entry_gates_open_def ma_enabled_def signal_floor_def)
  have "retest_satisfied plan st' t = retest_satisfied plan st t"
    "pullback_satisfied plan st' t = pullback_satisfied plan st t"
    using f by (simp_all add: retest_satisfied_def pullback_satisfied_def)
  then show "enter_prep_milestones_satisfied plan st' r t = enter_prep_milestones_satisfied plan st r t"
    unfolding enter_prep_milestones_satisfied_def by (simp only:)
qed

lemma after_entry_fields:
  "ps_entries_blocked (after_entry plan r signal st) = ps_entries_blocked st"
  "ps_phase (after_entry plan r signal st) = ps_phase st \<or> ps_phase (after_entry plan r signal st) = Done"
  by (auto simp: after_entry_def Let_def mark_fired_def split: option.split)

lemma run_one_entry:
  assumes b: "B c window" and w: "\<not> ps_entries_blocked st" "ps_phase st = AwaitEntry"
    and r: "r \<in> set (tp_rules plan)" "\<exists>x\<in>set (tp_rules plan). is_enter_rule x \<and> cr_rule_id x = cr_rule_id r"
      "cr_rule_id r \<notin> ps_fired st"
    and e: "evaluate_one_entry V R plan c window cfg r (st, fired, declines) = (st', fired', declines')"
  shows "(\<exists>new. fired' = fired @ new \<and> engine_run V R plan B st new st') \<and>
    \<not> ps_entries_blocked st' \<and> ps_phase st' \<noteq> AwaitBreakAndClose"
proof -
  obtain hit st1 where t: "entry_trigger V plan c window cfg r st = (hit, st1)" by fastforce
  note ss = entry_trigger_facts(1) [OF t]
  note f = same_spine_fields [OF ss]
  have idle: "engine_run V R plan B st [] st" "engine_run V R plan B st [] st1"
    by (rule engine_run.start) (rule run_note [where B = B, OF b ss])
  show ?thesis
  proof (cases "st' = after_entry plan r (the hit) st1 \<and> fired' = fired @ [fire r c (the hit)]")
    case False
    then have "(st' = st \<or> st' = st1) \<and> fired' = fired"
      using e by (auto simp: evaluate_one_entry_def t split: if_splits option.splits sum.splits)
    then show ?thesis using idle w f by auto
  next
    case True
    have hit: "entry_gates_open V plan st r c window" "hit = Some (the hit)"
      "\<And>sig. the hit = Some sig \<Longrightarrow> pine_entry_dispatchable R (cr_intent r) c sig (tp_pip_size plan) = Inr ()"
      "\<And>sig t0. the hit = Some sig \<Longrightarrow> signal_floor st1 = Some t0 \<Longrightarrow> t0 \<le> ls_signal_bar_time sig"
      "enter_prep_milestones_satisfied plan st1 r (cn_time c)"
      using e True
      by (auto simp: evaluate_one_entry_def t split: if_splits option.splits sum.splits)
    have "engine_run V R plan B st [fire r c (the hit)] (after_entry plan r (the hit) st1)"
      using hit(2-) w r f gates_same(1) [OF ss, THEN iffD2, OF hit(1)] entry_trigger_facts(2) [OF t hit(2)]
      by (intro run_noted [where B = B, OF b ss bar_change.entered]) auto
    then show ?thesis using True w f after_entry_fields [of plan r "the hit" st1] by auto
  qed
qed

lemma run_entry_loop:
  assumes b: "B c window" and ids: "\<And>i. i \<in> set rids \<Longrightarrow> \<exists>x\<in>set (tp_rules plan). is_enter_rule x \<and> cr_rule_id x = i"
    and w: "\<not> ps_entries_blocked st" "ps_phase st = AwaitEntry"
    and e: "entry_loop V R plan c window cfg rids (st, fired, declines) = (st', fired', declines')"
  shows "\<exists>new. fired' = fired @ new \<and> engine_run V R plan B st new st'"
  using assms(2-)
proof (induction rids arbitrary: st fired declines)
  case Nil
  then show ?case by (auto intro: engine_run.start)
next
  case (Cons i rids)
  show ?case
  proof (cases "i \<in> ps_fired st \<or> find (\<lambda>r. cr_rule_id r = i) (tp_rules plan) = None")
    case True
    then have "entry_loop V R plan c window cfg rids (st, fired, declines) = (st', fired', declines')"
      using Cons.prems(4) by (auto split: if_splits)
    then show ?thesis using Cons.IH Cons.prems(1-3) by simp
  next
    case False
    then obtain r where r: "find (\<lambda>r. cr_rule_id r = i) (tp_rules plan) = Some r" "i \<notin> ps_fired st" by auto
    then have ri: "r \<in> set (tp_rules plan)" "cr_rule_id r = i"
      by (auto simp: find_Some_iff)
    obtain st1 fired1 declines1 where s:
      "evaluate_one_entry V R plan c window cfg r (st, fired, declines) = (st1, fired1, declines1)" by (metis surj_pair)
    obtain new where n: "fired1 = fired @ new" "engine_run V R plan B st new st1"
        "\<not> ps_entries_blocked st1" "ps_phase st1 \<noteq> AwaitBreakAndClose"
      using run_one_entry [where B = B, OF b Cons.prems(2,3) ri(1) _ _ s] Cons.prems(1) ri r by auto
    show ?thesis
    proof (cases "ps_phase st1 = Done")
      case True
      then show ?thesis using Cons.prems(4) r s n by (auto simp: Let_def)
    next
      case False
      then have "ps_phase st1 = AwaitEntry" using n(4) by (cases "ps_phase st1") auto
      then obtain more where "fired' = fired1 @ more" "engine_run V R plan B st1 more st'"
        using Cons.IH [of st1 fired1 declines1] Cons.prems(1,4) r s n False by (auto simp: Let_def)
      then show ?thesis using n run_trans [OF n(2)] by (metis append_assoc)
    qed
  qed
qed

lemma run_entry:
  "B c window \<Longrightarrow> \<not> ps_entries_blocked st \<Longrightarrow> ps_phase st = AwaitEntry \<Longrightarrow>
     evaluate_entry V R plan c window cfg (st, fired, declines) = (st', fired', declines') \<Longrightarrow>
     \<exists>new. fired' = fired @ new \<and> engine_run V R plan B st new st'"
  unfolding evaluate_entry_def by (rule run_entry_loop [where B = B]) auto

section \<open>A candle and a plan\<close>

lemma run_spine:
  assumes b: "B c window" and free: "spine_free st"
    and e: "spine_step V R plan c window cfg (st, fired, declines) = (st', fired', declines')"
  shows "\<exists>new. fired' = fired @ new \<and> engine_run V R plan B st new st'"
proof (cases "ps_phase st")
  case Done
  then show ?thesis using free by simp
next
  case AwaitBreakAndClose
  obtain st1 fired1 where s: "evaluate_break_and_close V plan c window (st, fired) = (st1, fired1)" by fastforce
  then show ?thesis
    using run_break_and_close [where B = B, OF b free s] e AwaitBreakAndClose by (auto simp: spine_step_def)
next
  case AwaitEntry
  obtain st1 fired1 where s1: "(if is_multi_enter plan then evaluate_break_and_close V plan c window (st, fired)
      else (st, fired)) = (st1, fired1)" by fastforce
  obtain st2 fired2 where s2: "stamp_retest V plan c window (st1, fired1) = (st2, fired2)" by fastforce
  obtain st3 fired3 where s3: "stamp_pullback V plan c window (st2, fired2) = (st3, fired3)" by fastforce
  have s4: "evaluate_entry V R plan c window cfg (st3, fired3, declines) = (st', fired', declines')"
    using e AwaitEntry s1 s2 s3 by (simp add: spine_step_def)
  have "(\<exists>new. fired1 = fired @ new \<and> engine_run V R plan B st new st1) \<and> spine_free st1 \<and> ps_phase st1 = AwaitEntry"
    using s1 free AwaitEntry run_break_and_close [where B = B and R = R and V = V and plan = plan, OF b free]
    by (cases "is_multi_enter plan") (auto intro: engine_run.start)
  then obtain n1 where n1: "fired1 = fired @ n1" "engine_run V R plan B st n1 st1" "\<not> ps_entries_blocked st1"
      "ps_phase st1 = AwaitEntry" by blast
  obtain n2 where n2: "fired2 = fired1 @ n2" "engine_run V R plan B st1 n2 st2" "\<not> ps_entries_blocked st2"
      "ps_phase st2 = AwaitEntry"
    using run_stamp_retest [where B = B and R = R, OF b n1(3,4) s2] by blast
  obtain n3 where n3: "fired3 = fired2 @ n3" "engine_run V R plan B st2 n3 st3" "\<not> ps_entries_blocked st3"
      "ps_phase st3 = AwaitEntry"
    using run_stamp_pullback [where B = B and R = R, OF b n2(3,4) s3] by blast
  obtain n4 where n4: "fired' = fired3 @ n4" "engine_run V R plan B st3 n4 st'"
    using run_entry [where B = B, OF b n3(3,4) s4] by blast
  have "engine_run V R plan B st (n1 @ n2 @ n3 @ n4) st'"
    by (rule run_trans [OF n1(2) run_trans [OF n2(2) run_trans [OF n3(2) n4(2)]]])
  then show ?thesis using n1 n2 n3 n4 by auto
qed

lemma run_watermark: "B c window \<Longrightarrow> engine_run V R plan B st [] (set_watermark c st)"
  by (rule run_note [where B = B]) (auto simp: same_spine_records)

lemma run_candle:
  assumes b: "B c window" and e: "candle_step V R plan window now c (st, fired, declines) = (st', fired', declines')"
  shows "\<exists>new. fired' = fired @ new \<and> engine_run V R plan B st new st'"
proof -
  obtain st1 fired1 where s1: "evaluate_controls V plan c window
      (control_clock_for c (tp_granularity plan) now) (st, fired) = (st1, fired1)" by fastforce
  obtain st2 fired2 where s2: "evaluate_guards V plan c window (pine_defaults (tp_granularity plan))
      (st1, fired1) = (st2, fired2)" by fastforce
  obtain n1 where n1: "fired1 = fired @ n1" "engine_run V R plan B st n1 st1"
    using runs_controls [where B = B and R = R and V = V and plan = plan, OF b] s1 unfolding runs_def by (metis fst_conv snd_conv)
  obtain n2 where n2: "fired2 = fired1 @ n2" "engine_run V R plan B st1 n2 st2"
    using runs_guards [where B = B and R = R and V = V and plan = plan, OF b] s2 unfolding runs_def by (metis fst_conv snd_conv)
  define al where "al = (case alignment_control plan st2 c window of Some f \<Rightarrow> [f] | None \<Rightarrow> [])"
  have al: "engine_run V R plan B st2 al st2"
    using run_one [where B = B, OF b bar_change.aligned] by (auto simp: al_def intro: engine_run.start split: option.split)
  have n12: "engine_run V R plan B st (n1 @ n2) st2" by (rule run_trans [OF n1(2) n2(2)])
  note mark = run_watermark [where B = B, OF b]
  show ?thesis
  proof (cases "ps_phase st2 = Done")
    case True
    then have "st' = set_watermark c st2" "fired' = fired2"
      using e by (simp_all add: candle_step_def s1 s2 Let_def)
    then show ?thesis using n1(1) n2(1) run_trans [OF n12 mark] by auto
  next
    case False
    have fired_al: "(case alignment_control plan st2 c window of Some f \<Rightarrow> fired2 @ [f] | None \<Rightarrow> fired2) = fired2 @ al"
      by (auto simp: al_def split: option.split)
    have n123: "engine_run V R plan B st (n1 @ n2 @ al) st2"
      using run_trans [OF n12 al] by simp
    show ?thesis
    proof (cases "ps_entries_blocked st2")
      case True
      then have "st' = set_watermark c st2" "fired' = fired2 @ al"
        using e False by (simp_all add: candle_step_def s1 s2 fired_al Let_def)
      then show ?thesis using n1(1) n2(1) run_trans [OF n123 mark] by auto
    next
      case open_case: False
      define st3 where "st3 = stamp_ma_touch V plan c window (stamp_retrace V plan c window st2)"
      have st3: "engine_run V R plan B st2 [] st3" "spine_free st3"
        using run_stamps(1) [where B = B and V = V and R = R and plan = plan, OF b, of st2]
          run_stamps(2) [where B = B and V = V and plan = plan, OF b, of st2] False open_case unfolding st3_def by auto
      obtain st4 fired4 declines4 where s4: "spine_step V R plan c window (pine_defaults (tp_granularity plan))
          (st3, fired2 @ al, declines) = (st4, fired4, declines4)" by (metis surj_pair)
      obtain n4 where n4: "fired4 = (fired2 @ al) @ n4" "engine_run V R plan B st3 n4 st4"
        using run_spine [where B = B, OF b st3(2) s4] by blast
      have "st' = set_watermark c st4" "fired' = fired4"
        using e False open_case s4 by (auto simp: candle_step_def s1 s2 fired_al Let_def st3_def)
      moreover have "engine_run V R plan B st ((n1 @ n2 @ al) @ [] @ n4 @ []) (set_watermark c st4)"
        by (rule run_trans [OF n123 run_trans [OF st3(1) run_trans [OF n4(2) mark]]])
      ultimately show ?thesis using n1(1) n2(1) n4(1) by auto
    qed
  qed
qed

lemma run_candles:
  assumes "\<And>c. c \<in> set cs \<Longrightarrow> B c window"
    and "candle_loop V R plan window now cs (st, fired, declines) = (st', fired', declines')"
  shows "\<exists>new. fired' = fired @ new \<and> engine_run V R plan B st new st'"
  using assms
proof (induction cs arbitrary: st fired declines)
  case Nil
  then show ?case by (auto intro: engine_run.start)
next
  case (Cons c cs)
  obtain st1 fired1 declines1 where s:
    "candle_step V R plan window now c (st, fired, declines) = (st1, fired1, declines1)" by (metis surj_pair)
  obtain n where n: "fired1 = fired @ n" "engine_run V R plan B st n st1"
    using run_candle [where B = B, OF _ s] Cons.prems(1) by auto
  show ?case
  proof (cases "ps_phase st1 = Done")
    case True
    then show ?thesis using Cons.prems(2) s n by (auto simp: Let_def)
  next
    case False
    then obtain m where "fired' = fired1 @ m" "engine_run V R plan B st1 m st'"
      using Cons.IH [of st1 fired1 declines1] Cons.prems s by (auto simp: Let_def)
    then show ?thesis using n run_trans [OF n(2)] by (metis append_assoc)
  qed
qed

definition seen_in :: "candle list \<Rightarrow> candle list \<Rightarrow> candle \<Rightarrow> candle list \<Rightarrow> bool" where
  "seen_in candles window c w \<longleftrightarrow> c \<in> set candles \<and> w = window"

lemma plan_run:
  "engine_run V R plan (seen_in new_candles window) (prior\<lparr>ps_expires_at := expires_at\<rparr>)
     (pv_fired (evaluate_plan V R plan prior new_candles window now expires_at))
     (pv_new_state (evaluate_plan V R plan prior new_candles window now expires_at))"
proof -
  obtain st fired declines where e: "candle_loop V R plan window now new_candles
      (prior\<lparr>ps_expires_at := expires_at\<rparr>, [], []) = (st, fired, declines)" by (metis surj_pair)
  show ?thesis
    using run_candles [where B = "seen_in new_candles window", OF _ e]
    by (auto simp: evaluate_plan_def e seen_in_def)
qed

lemma controls_run:
  "engine_run V R plan (seen_in [c] [c]) (prior\<lparr>ps_expires_at := expires_at\<rparr>)
     (pv_fired (evaluate_controls_only V plan prior c now expires_at))
     (pv_new_state (evaluate_controls_only V plan prior c now expires_at))"
proof -
  obtain st fired where e: "evaluate_controls V plan c [c] now (prior\<lparr>ps_expires_at := expires_at\<rparr>, [])
      = (st, fired)" by fastforce
  have "runs V R plan (seen_in [c] [c]) (evaluate_controls V plan c [c] now)"
    by (rule runs_controls) (simp add: seen_in_def)
  then obtain new where "fired = new" "engine_run V R plan (seen_in [c] [c]) (prior\<lparr>ps_expires_at := expires_at\<rparr>) new st"
    using e unfolding runs_def by (metis append_Nil fst_conv snd_conv)
  then show ?thesis by (simp add: evaluate_controls_only_def e)
qed

end
