(* ===== verification/Plan_Facts.thy ===== *)
theory Plan_Facts
  imports Plan_Refine
begin

text \<open>
  What holds along every run of the engine: a blocked plan stays blocked and enters nothing,
  a latched rule fires once, milestones are stamped once and in order, and every entry passed
  its gates.
\<close>

section \<open>Histories\<close>

text \<open>The life of a plan: evaluations over new candles and wall-clock ticks, in any order.\<close>

datatype tick = Candles "candle list" "candle list" time time | Clock candle time time

fun run_tick :: "venue \<Rightarrow> rhai \<Rightarrow> 'e plan \<Rightarrow> tick \<Rightarrow> 'e run_state \<Rightarrow> 'e run_state" where
  "run_tick V R plan (Candles new_candles window now expires_at) (st, fired) =
     (let ev = evaluate_plan V R plan st new_candles window now expires_at in
      (pv_new_state ev, fired @ pv_fired ev))"
| "run_tick V R plan (Clock c now expires_at) (st, fired) =
     (let ev = evaluate_controls_only V plan st c now expires_at in
      (pv_new_state ev, fired @ pv_fired ev))"

definition history :: "venue \<Rightarrow> rhai \<Rightarrow> 'e plan \<Rightarrow> plan_state \<Rightarrow> tick list \<Rightarrow> 'e run_state" where
  "history V R plan st ticks = fold (run_tick V R plan) ticks (st, [])"

abbreviation any_bar :: "candle \<Rightarrow> candle list \<Rightarrow> bool" where "any_bar \<equiv> \<lambda>_ _. True"

text \<open>An invariant of the runs that ignores the expiry holds along every history.\<close>

lemma history_invariant:
  assumes start: "I st []"
    and run: "\<And>st' fs gs st''. I st' fs \<Longrightarrow> engine_run V R plan any_bar st' gs st'' \<Longrightarrow> I st'' (fs @ gs)"
    and expiry: "\<And>st' fs e. I st' fs \<Longrightarrow> I (st'\<lparr>ps_expires_at := e\<rparr>) fs"
  shows "I (fst (history V R plan st ticks)) (snd (history V R plan st ticks))"
proof -
  have step: "I (fst (run_tick V R plan t (st', fs))) (snd (run_tick V R plan t (st', fs)))" if "I st' fs" for t st' fs
  proof (cases t)
    case (Candles cs w now e)
    have "engine_run V R plan any_bar (st'\<lparr>ps_expires_at := e\<rparr>) (pv_fired (evaluate_plan V R plan st' cs w now e))
        (pv_new_state (evaluate_plan V R plan st' cs w now e))"
      by (rule run_mono [OF plan_run]) simp
    then show ?thesis using run [OF expiry [OF that]] Candles by (simp add: Let_def)
  next
    case (Clock c now e)
    have "engine_run V R plan any_bar (st'\<lparr>ps_expires_at := e\<rparr>) (pv_fired (evaluate_controls_only V plan st' c now e))
        (pv_new_state (evaluate_controls_only V plan st' c now e))"
      by (rule run_mono [OF controls_run]) simp
    then show ?thesis using run [OF expiry [OF that]] Clock by (simp add: Let_def)
  qed
  have "I (fst s) (snd s) \<Longrightarrow> I (fst (fold (run_tick V R plan) ticks s)) (snd (fold (run_tick V R plan) ticks s))" for s
  proof (induction ticks arbitrary: s)
    case (Cons t ticks)
    then show ?case using step [of "fst s" "snd s" t] by simp
  qed simp
  then show ?thesis using start by (simp add: history_def)
qed

section \<open>Sealed plans\<close>

definition sealed :: "plan_state \<Rightarrow> bool" where
  "sealed st \<longleftrightarrow> ps_phase st = Done \<or> ps_entries_blocked st"

definition from_rule :: "'e plan \<Rightarrow> ('e rule \<Rightarrow> bool) \<Rightarrow> 'e fired_intent \<Rightarrow> bool" where
  "from_rule plan P f \<longleftrightarrow>
     (\<exists>r\<in>set (tp_rules plan). P r \<and> fi_rule_id f = cr_rule_id r \<and> fi_intent f = cr_intent r)"

definition alignment_ids :: "string list" where
  "alignment_ids = [''ma-alignment-resume'', ''ma-alignment-pause'']"

lemma from_rule_fire: "r \<in> set (tp_rules plan) \<Longrightarrow> P r \<Longrightarrow> from_rule plan P (fire r c sig)"
  by (auto simp: from_rule_def fire_def)

lemma note_news_spine [simp]:
  "ps_phase (note_news i st) = ps_phase st" "ps_entries_blocked (note_news i st) = ps_entries_blocked st"
  "ps_fired (note_news i st) = ps_fired st" "ps_break_close_at (note_news i st) = ps_break_close_at st"
  "ps_retest_seen_at (note_news i st) = ps_retest_seen_at st"
  "ps_pullback_seen_at (note_news i st) = ps_pullback_seen_at st"
  "ps_retrace_seen_at (note_news i st) = ps_retrace_seen_at st"
  "ps_ma_touch_seen_at (note_news i st) = ps_ma_touch_seen_at st"
  by (simp_all add: note_news_def split: option.split)

lemma mark_fired_spine [simp]:
  "ps_phase (mark_fired r st) = ps_phase st" "ps_entries_blocked (mark_fired r st) = ps_entries_blocked st"
  "ps_fired (mark_fired r st) = insert (cr_rule_id r) (ps_fired st)"
  "ps_break_close_at (mark_fired r st) = ps_break_close_at st"
  "ps_retest_seen_at (mark_fired r st) = ps_retest_seen_at st"
  "ps_pullback_seen_at (mark_fired r st) = ps_pullback_seen_at st"
  "ps_retrace_seen_at (mark_fired r st) = ps_retrace_seen_at st"
  "ps_ma_touch_seen_at (mark_fired r st) = ps_ma_touch_seen_at st"
  by (simp_all add: mark_fired_def)

lemma alignment_control_id:
  "alignment_control plan st c window = Some f \<Longrightarrow>
     fi_rule_id f \<in> set alignment_ids \<and> i_action (fi_intent f) \<in> {Pause, Resume}"
  by (auto simp: alignment_control_def Let_def alignment_ids_def split: if_splits)

lemma sealed_change:
  "bar_change V R plan c window st gs st' \<Longrightarrow> sealed st \<Longrightarrow> sealed st' \<and>
     (\<forall>f\<in>set gs. from_rule plan (\<lambda>r. is_control_rule r \<or> is_guard r) f \<or> fi_rule_id f \<in> set alignment_ids \<and> i_action (fi_intent f) \<in> {Pause, Resume})"
  by (induction rule: bar_change.induct)
    (auto simp: sealed_def same_spine_fields from_rule_fire dest!: alignment_control_id)

lemma sealed_run:
  "engine_run V R plan B st fs st' \<Longrightarrow> sealed st \<Longrightarrow> sealed st' \<and>
     (\<forall>f\<in>set fs. from_rule plan (\<lambda>r. is_control_rule r \<or> is_guard r) f \<or> fi_rule_id f \<in> set alignment_ids \<and> i_action (fi_intent f) \<in> {Pause, Resume})"
  by (induction rule: engine_run.induct) (auto dest: sealed_change)

section \<open>Latched rules\<close>

definition latched :: "'e rule \<Rightarrow> bool" where
  "latched r \<longleftrightarrow> \<not> is_retest r \<and> \<not> is_pullback r \<and>
     (is_enter_rule r \<longrightarrow> cr_fire_mode r = Once \<and> \<not> multi_shot r)"

abbreviation fires_of :: "string \<Rightarrow> 'e fired_intent list \<Rightarrow> nat" where
  "fires_of rid fs \<equiv> length (filter (\<lambda>f. fi_rule_id f = rid) fs)"

lemma same_id_same_rule:
  "distinct (map cr_rule_id rs) \<Longrightarrow> r \<in> set rs \<Longrightarrow> r' \<in> set rs \<Longrightarrow> cr_rule_id r = cr_rule_id r' \<Longrightarrow> r = r'"
  by (auto simp: distinct_map inj_on_def)

lemma fired_grows: "bar_change V R plan c window st gs st' \<Longrightarrow> ps_fired st \<subseteq> ps_fired st'"
  by (induction rule: bar_change.induct)
    (auto simp: same_spine_fields after_entry_def Let_def split: option.split)

lemma after_entry_marks:
  "cr_fire_mode r = Once \<Longrightarrow> \<not> multi_shot r \<Longrightarrow> cr_rule_id r \<in> ps_fired (after_entry plan r signal st)"
  by (auto simp: after_entry_def Let_def)

lemma latched_change:
  assumes "bar_change V R plan c window st gs st'"
    and d: "distinct (map cr_rule_id (tp_rules plan))" "r \<in> set (tp_rules plan)" "latched r"
      "cr_rule_id r \<notin> set alignment_ids"
  shows "fires_of (cr_rule_id r) gs = 0 \<or>
    fires_of (cr_rule_id r) gs = 1 \<and> cr_rule_id r \<notin> ps_fired st \<and> cr_rule_id r \<in> ps_fired st'"
  using assms(1)
proof cases
  case (entered x signal)
  then obtain e where e: "e \<in> set (tp_rules plan)" "is_enter_rule e" "cr_rule_id e = cr_rule_id x" by blast
  have "x = r \<and> is_enter_rule r" if "cr_rule_id x = cr_rule_id r"
    using that e same_id_same_rule [OF d(1)] d(2) entered(5) by metis
  then show ?thesis using entered d(3) after_entry_marks [of r plan signal st]
    by (auto simp: fire_def latched_def)
next
  case (retested b x)
  then have "x \<in> set (tp_rules plan)" "is_retest x" by (auto simp: find_Some_iff)
  then have "cr_rule_id x \<noteq> cr_rule_id r"
    using same_id_same_rule [OF d(1,2), of x] d(3) unfolding latched_def by metis
  then show ?thesis using retested(1) by (simp add: fire_def)
next
  case (pulled b x)
  then have "x \<in> set (tp_rules plan)" "is_pullback x" by (auto simp: find_Some_iff)
  then have "cr_rule_id x \<noteq> cr_rule_id r"
    using same_id_same_rule [OF d(1,2), of x] d(3) unfolding latched_def by metis
  then show ?thesis using pulled(1) by (simp add: fire_def)
next
  case (aligned f)
  then show ?thesis using d(4) alignment_control_id [OF aligned(3)] by auto
qed (auto simp: fire_def)

lemma latched_run:
  assumes "engine_run V R plan B st fs st'"
    and "distinct (map cr_rule_id (tp_rules plan))" "r \<in> set (tp_rules plan)" "latched r"
      "cr_rule_id r \<notin> set alignment_ids"
  shows "ps_fired st \<subseteq> ps_fired st' \<and> (fires_of (cr_rule_id r) fs = 0 \<or>
    fires_of (cr_rule_id r) fs = 1 \<and> cr_rule_id r \<notin> ps_fired st \<and> cr_rule_id r \<in> ps_fired st')"
  using assms(1)
proof induction
  case (change fs st1 c window gs st2)
  then show ?case using latched_change [OF change(3) assms(2-5)] fired_grows [OF change(3)] by auto
qed simp

section \<open>Milestones\<close>

definition kept :: "'a option \<Rightarrow> 'a option \<Rightarrow> bool" where
  "kept a b \<longleftrightarrow> a = None \<or> b = a"

definition stamps_kept :: "plan_state \<Rightarrow> plan_state \<Rightarrow> bool" where
  "stamps_kept st st' \<longleftrightarrow>
     kept (ps_break_close_at st) (ps_break_close_at st') \<and>
     kept (ps_retest_seen_at st) (ps_retest_seen_at st') \<and>
     kept (ps_pullback_seen_at st) (ps_pullback_seen_at st') \<and>
     kept (ps_retrace_seen_at st) (ps_retrace_seen_at st') \<and>
     kept (ps_ma_touch_seen_at st) (ps_ma_touch_seen_at st')"

lemma kept_simps [simp]: "kept a a" "kept None b" "kept (Some x) b \<longleftrightarrow> b = Some x"
  by (simp_all add: kept_def)

lemma stamps_kept_refl [simp]: "stamps_kept st st"
  by (simp add: stamps_kept_def)

lemma stamps_kept_trans: "stamps_kept a b \<Longrightarrow> stamps_kept b d \<Longrightarrow> stamps_kept a d"
  unfolding stamps_kept_def kept_def by metis

text \<open>A stamped break has a latched rule behind it.\<close>

definition break_logged :: "'e plan \<Rightarrow> plan_state \<Rightarrow> bool" where
  "break_logged plan st \<longleftrightarrow> ps_break_close_at st = None \<or>
     (\<exists>r. find is_break_and_close (tp_rules plan) = Some r \<and> cr_rule_id r \<in> ps_fired st)"

text \<open>Retest and pullback come after the break.\<close>

definition milestones_ordered :: "'e plan \<Rightarrow> plan_state \<Rightarrow> bool" where
  "milestones_ordered plan st \<longleftrightarrow>
     (\<forall>t. (ps_retest_seen_at st = Some t \<or> ps_pullback_seen_at st = Some t) \<and> has_break_and_close plan \<longrightarrow>
       (\<exists>b. ps_break_close_at st = Some b \<and> b < t))"

lemma after_entry_stamps:
  "ps_break_close_at (after_entry plan r signal st) = ps_break_close_at st"
  "ps_retest_seen_at (after_entry plan r signal st) = ps_retest_seen_at st"
  "ps_pullback_seen_at (after_entry plan r signal st) = ps_pullback_seen_at st"
  "ps_retrace_seen_at (after_entry plan r signal st) = ps_retrace_seen_at st"
  "ps_ma_touch_seen_at (after_entry plan r signal st) = ps_ma_touch_seen_at st"
  by (auto simp: after_entry_def Let_def split: option.split)

lemma after_entry_fired: "i \<in> ps_fired st \<Longrightarrow> i \<in> ps_fired (after_entry plan r signal st)"
  by (auto simp: after_entry_def Let_def split: option.split)

lemma stamps_change:
  assumes "bar_change V R plan c window st gs st'" "break_logged plan st"
  shows "stamps_kept st st' \<and> break_logged plan st'"
  using assms
  by (induction rule: bar_change.induct)
    (auto simp: same_spine_fields stamps_kept_def break_logged_def after_entry_stamps after_entry_fired)

lemma effective_break_with_rule:
  "has_break_and_close plan \<Longrightarrow> effective_break_at plan st window = Some b \<Longrightarrow> ps_break_close_at st = Some b"
  by (simp add: effective_break_at_def split: option.splits)

lemma break_unstamped:
  "break_logged plan st \<Longrightarrow> find is_break_and_close (tp_rules plan) = Some r \<Longrightarrow>
     cr_rule_id r \<notin> ps_fired st \<Longrightarrow> ps_break_close_at st = None"
  by (auto simp: break_logged_def)

lemma ordered_change:
  assumes "bar_change V R plan c window st gs st'" "break_logged plan st" "milestones_ordered plan st"
  shows "milestones_ordered plan st'"
  using assms
proof cases
  case (broken r)
  then show ?thesis using assms(3) break_unstamped [OF assms(2) broken(4,5)]
    by (auto simp: milestones_ordered_def)
qed (auto simp: milestones_ordered_def same_spine_fields after_entry_stamps dest: effective_break_with_rule)

lemma milestones_run:
  assumes "engine_run V R plan B st fs st'" "break_logged plan st"
  shows "stamps_kept st st' \<and> break_logged plan st' \<and> (milestones_ordered plan st \<longrightarrow> milestones_ordered plan st')"
  using assms
  by (induction rule: engine_run.induct) (auto dest: stamps_change ordered_change intro: stamps_kept_trans)

section \<open>Entries\<close>

definition supporting :: "'e rule \<Rightarrow> bool" where
  "supporting r \<longleftrightarrow>
     is_control_rule r \<or> is_guard r \<or> is_break_and_close r \<or> is_retest r \<or> is_pullback r"

text \<open>The intent was fired for a bar at which the gates of its rule were open.\<close>

definition entry_passed ::
  "venue \<Rightarrow> rhai \<Rightarrow> 'e plan \<Rightarrow> (candle \<Rightarrow> candle list \<Rightarrow> bool) \<Rightarrow> plan_state \<Rightarrow> 'e fired_intent \<Rightarrow> bool" where
  "entry_passed V R plan B st f \<longleftrightarrow>
     (\<exists>r\<in>set (tp_rules plan). \<exists>window. B (fi_candle f) window \<and> f = fire r (fi_candle f) (fi_signal f) \<and>
       entry_gates_open V plan st r (fi_candle f) window \<and>
       enter_prep_milestones_satisfied plan st r (cn_time (fi_candle f)) \<and>
       (\<forall>pattern dir. cr_trigger r = PinePattern pattern dir \<longrightarrow>
          (\<exists>sig. fi_signal f = Some sig \<and> ls_direction sig = dir)) \<and>
       (\<forall>sig. fi_signal f = Some sig \<longrightarrow>
          pine_entry_dispatchable R (cr_intent r) (fi_candle f) sig (tp_pip_size plan) = Inr ()))"

lemma milestone_kept:
  assumes "kept brk brk'" "kept seen seen'" "\<not> has_break_and_close plan \<Longrightarrow> brk' = None"
  shows "milestone_in plan brk seen t \<Longrightarrow> milestone_in plan brk' seen' t"
  using assms by (cases brk; cases seen) (auto simp: milestone_in_def)

lemma no_break_rule_no_stamp:
  "break_logged plan st \<Longrightarrow> \<not> has_break_and_close plan \<Longrightarrow> ps_break_close_at st = None"
  by (auto simp: break_logged_def has_break_and_close_def list_ex_iff find_Some_iff)

lemma gates_kept:
  assumes k: "stamps_kept st st'" "break_logged plan st'"
  shows "entry_gates_open V plan st r c window \<Longrightarrow> entry_gates_open V plan st' r c window"
    and "enter_prep_milestones_satisfied plan st r t \<Longrightarrow> enter_prep_milestones_satisfied plan st' r t"
proof -
  have "ps_retrace_seen_at st \<noteq> None \<Longrightarrow> ps_retrace_seen_at st' \<noteq> None"
    "ps_ma_touch_seen_at st \<noteq> None \<Longrightarrow> ps_ma_touch_seen_at st' \<noteq> None"
    using k(1) by (auto simp: stamps_kept_def)
  then show "entry_gates_open V plan st r c window \<Longrightarrow> entry_gates_open V plan st' r c window"
    unfolding entry_gates_open_def ma_enabled_def by blast
  have "retest_satisfied plan st t \<Longrightarrow> retest_satisfied plan st' t"
    "pullback_satisfied plan st t \<Longrightarrow> pullback_satisfied plan st' t"
    unfolding retest_satisfied_def pullback_satisfied_def
    using k no_break_rule_no_stamp [OF k(2)] by (auto simp: stamps_kept_def elim!: milestone_kept [rotated 3])
  then show "enter_prep_milestones_satisfied plan st r t \<Longrightarrow> enter_prep_milestones_satisfied plan st' r t"
    by (auto simp: enter_prep_milestones_satisfied_def split: prod.splits bool.splits)
qed

lemma entry_passed_kept:
  "stamps_kept st st' \<Longrightarrow> break_logged plan st' \<Longrightarrow> entry_passed V R plan B st f \<Longrightarrow> entry_passed V R plan B st' f"
  unfolding entry_passed_def by (blast intro: gates_kept)

lemma entry_change:
  assumes "bar_change V R plan c window st gs st'" "B c window" "f \<in> set gs" "i_action (fi_intent f) = action.Enter"
  shows "from_rule plan supporting f \<or> entry_passed V R plan B st f"
  using assms(1)
proof cases
  case (entered r signal)
  then have "f = fire r c signal" "fi_candle f = c" "fi_signal f = signal" using assms(3) by (simp_all add: fire_def)
  then have "entry_passed V R plan B st f"
    unfolding entry_passed_def using entered assms(2) by (intro bexI [of _ r]) auto
  then show ?thesis by simp
next
  case (aligned g)
  then show ?thesis using assms(3,4) alignment_control_id [OF aligned(3)] by auto
qed (use assms(3) in \<open>auto intro!: from_rule_fire simp: supporting_def find_Some_iff\<close>)

lemma entries_run:
  assumes "engine_run V R plan B st fs st'" "break_logged plan st" "f \<in> set fs" "i_action (fi_intent f) = action.Enter"
  shows "from_rule plan supporting f \<or> entry_passed V R plan B st' f"
  using assms
proof (induction rule: engine_run.induct)
  case (change fs st1 c window gs st2)
  have l: "break_logged plan st1" using milestones_run [OF change(1)] change.prems by blast
  note k = stamps_change [OF change(3) l]
  have "from_rule plan supporting f \<or> entry_passed V R plan B st1 f" if "f \<in> set fs" using change that by blast
  moreover have "from_rule plan supporting f \<or> entry_passed V R plan B st1 f" if "f \<in> set gs"
    using entry_change [where B = B, OF change(3,2) that] change.prems by blast
  ultimately show ?case
    using change.prems(2) k entry_passed_kept [of st1 st2 plan V R B f] by (simp only: set_append Un_iff) blast
qed simp

end
