(* ===== verification/Plan_Batch.thy ===== *)
theory Plan_Batch
  imports Plan_Facts
begin

text \<open>
  Evaluating several bars at once: the intents and declines of an evaluation are appended to
  those before it and never looked at, so a batch is the evaluation of its bars in turn. Also
  what a wall-clock tick leaves alone, and what the explanation of a waiting entry means.
\<close>

section \<open>Reports are only appended to\<close>

definition appends :: "('s \<times> 'x list \<Rightarrow> 's \<times> 'x list) \<Rightarrow> bool" where
  "appends F \<longleftrightarrow> (\<forall>st xs. F (st, xs) = (fst (F (st, [])), xs @ snd (F (st, []))))"

lemma appendsD: "appends F \<Longrightarrow> F (st, []) = (st', ys) \<Longrightarrow> F (st, xs) = (st', xs @ ys)"
  unfolding appends_def by (metis fst_conv snd_conv)

lemma appends_id: "appends (\<lambda>s. s)"
  by (simp add: appends_def)

lemma appends_comp:
  assumes "appends F" "appends G" shows "appends (\<lambda>s. G (F s))"
  unfolding appends_def
proof (intro allI)
  fix st and xs :: "'b list"
  obtain st1 ys where f: "F (st, []) = (st1, ys)" by fastforce
  obtain st2 zs where g: "G (st1, []) = (st2, zs)" by fastforce
  show "G (F (st, xs)) = (fst (G (F (st, []))), xs @ snd (G (F (st, []))))"
    using f appendsD [OF assms(1) f] appendsD [OF assms(2) g] by simp
qed

lemma appends_fold: "(\<And>x. appends (f x)) \<Longrightarrow> appends (fold f xs)"
  by (induction xs) (auto simp: appends_id id_def comp_def intro: appends_comp)

lemma appends_controls: "appends (evaluate_controls V plan c window now)"
  unfolding evaluate_controls_def
  by (rule appends_fold) (auto simp: appends_def control_step_def split: prod.split bool.split)

text \<open>The fold over the guards keeps its flag beside the state.\<close>

lemma guard_step_appends:
  "guard_step V plan c window cfg r ((st, xs), t) =
     (let ((st', ys), t') = guard_step V plan c window cfg r ((st, []), t) in ((st', xs @ ys), t'))"
  by (auto simp: guard_step_def Let_def split: prod.split option.split)

lemma guard_fold_appends:
  "fold (guard_step V plan c window cfg) rs ((st, xs), t) =
     (let ((st', ys), t') = fold (guard_step V plan c window cfg) rs ((st, []), t) in ((st', xs @ ys), t'))"
proof (induction rs arbitrary: st xs t)
  case (Cons r rs)
  obtain st1 ys t1 where g: "guard_step V plan c window cfg r ((st, []), t) = ((st1, ys), t1)" by (metis surj_pair)
  obtain st2 zs t2 where f: "fold (guard_step V plan c window cfg) rs ((st1, []), t1) = ((st2, zs), t2)"
    by (metis surj_pair)
  show ?case
    using Cons.IH [of st1 "xs @ ys" t1] Cons.IH [of st1 ys t1] f g
      guard_step_appends [of V plan c window cfg r st xs t] by (simp add: Let_def)
qed simp

lemma appends_guards: "appends (evaluate_guards V plan c window cfg)"
  unfolding appends_def
proof (intro allI)
  fix st and xs :: "'a fired_intent list"
  obtain st' ys t where f: "fold (guard_step V plan c window cfg) (tp_rules plan) ((st, []), False) = ((st', ys), t)"
    by (metis surj_pair)
  show "evaluate_guards V plan c window cfg (st, xs) = (fst (evaluate_guards V plan c window cfg (st, [])),
      xs @ snd (evaluate_guards V plan c window cfg (st, [])))"
    using guard_fold_appends [of V plan c window cfg "tp_rules plan" st xs False] f
    by (simp add: evaluate_guards_def)
qed

lemma appends_break: "appends (evaluate_break_and_close V plan c window)"
  by (auto simp: appends_def evaluate_break_and_close_def split: option.split prod.split bool.split)

lemma appends_retest: "appends (stamp_retest V plan c window)"
  by (auto simp: appends_def stamp_retest_def Let_def split: option.split)

lemma appends_pullback: "appends (stamp_pullback V plan c window)"
  by (auto simp: appends_def stamp_pullback_def split: option.split trigger.split)

section \<open>Intents and declines\<close>

definition appends_both :: "('e entry_state \<Rightarrow> 'e entry_state) \<Rightarrow> bool" where
  "appends_both F \<longleftrightarrow> (\<forall>st fired declines. F (st, fired, declines) =
     (case F (st, [], []) of (st', fs, ds) \<Rightarrow> (st', fired @ fs, declines @ ds)))"

lemma appends_bothD:
  "appends_both F \<Longrightarrow> F (st, [], []) = (st', fs, ds) \<Longrightarrow> F (st, fired, declines) = (st', fired @ fs, declines @ ds)"
  unfolding appends_both_def by (drule spec [of _ st], drule spec [of _ fired], drule spec [of _ declines]) simp

lemma appends_both_eq:
  "appends_both F \<Longrightarrow> F (st, fired, declines) = (case F (st, [], []) of (st', fs, ds) \<Rightarrow> (st', fired @ fs, declines @ ds))"
  unfolding appends_both_def by blast

lemma appends_if:
  assumes "appends_both F" "appends_both G"
  shows "appends_both (\<lambda>s. if P (fst s) then F s else G s)"
  unfolding appends_both_def
proof (intro allI)
  fix st fired declines
  show "(if P (fst (st, fired, declines)) then F (st, fired, declines) else G (st, fired, declines)) =
      (case if P (fst (st, [], [])) then F (st, [], []) else G (st, [], []) of
         (st', fs, ds) \<Rightarrow> (st', fired @ fs, declines @ ds))"
    using appends_both_eq [OF assms(1), of st fired declines] appends_both_eq [OF assms(2), of st fired declines]
    by simp
qed

lemma appends_both_comp:
  assumes "appends_both F" "appends_both G" shows "appends_both (\<lambda>s. G (F s))"
  unfolding appends_both_def
proof (intro allI)
  fix st fired declines
  obtain st1 fs ds where f: "F (st, [], []) = (st1, fs, ds)" by (metis surj_pair)
  obtain st2 gs es where g: "G (st1, [], []) = (st2, gs, es)" by (metis surj_pair)
  show "G (F (st, fired, declines)) = (case G (F (st, [], [])) of (st', fs, ds) \<Rightarrow> (st', fired @ fs, declines @ ds))"
    using f appends_bothD [OF assms(1) f] appends_bothD [OF assms(2) g] by simp
qed

lemma appends_one_entry: "appends_both (evaluate_one_entry V R plan c window cfg r)"
  unfolding appends_both_def
  by (auto simp: evaluate_one_entry_def split: option.split prod.split sum.split)

lemma appends_stop:
  assumes "appends_both F" "appends_both G"
  shows "appends_both (\<lambda>s. if ps_phase (fst (F s)) = Done then F s else G (F s))"
  unfolding appends_both_def
proof (intro allI)
  fix st fired declines
  obtain st1 fs ds where f: "F (st, [], []) = (st1, fs, ds)" by (metis surj_pair)
  obtain st2 gs es where g: "G (st1, [], []) = (st2, gs, es)" by (metis surj_pair)
  show "(if ps_phase (fst (F (st, fired, declines))) = Done then F (st, fired, declines) else G (F (st, fired, declines))) =
    (case if ps_phase (fst (F (st, [], []))) = Done then F (st, [], []) else G (F (st, [], [])) of
       (st', fs, ds) \<Rightarrow> (st', fired @ fs, declines @ ds))"
    using f appends_bothD [OF assms(1) f] appends_bothD [OF assms(2) g] by simp
qed

lemma appends_entry_loop: "appends_both (entry_loop V R plan c window cfg rids)"
proof (induction rids)
  case Nil
  then show ?case by (simp add: appends_both_def)
next
  case (Cons i rids)
  show ?case
  proof (cases "find (\<lambda>r. cr_rule_id r = i) (tp_rules plan)")
    case None
    then have "entry_loop V R plan c window cfg (i # rids) = entry_loop V R plan c window cfg rids"
      by (intro ext) simp
    then show ?thesis using Cons.IH by simp
  next
    case (Some r)
    then have "entry_loop V R plan c window cfg (i # rids) = (\<lambda>s.
        if i \<in> ps_fired (fst s) then entry_loop V R plan c window cfg rids s
        else if ps_phase (fst (evaluate_one_entry V R plan c window cfg r s)) = Done
        then evaluate_one_entry V R plan c window cfg r s
        else entry_loop V R plan c window cfg rids (evaluate_one_entry V R plan c window cfg r s))"
      by (intro ext) (simp add: Let_def)
    then show ?thesis
      using appends_if [OF Cons.IH appends_stop [OF appends_one_entry [of V R plan c window cfg r] Cons.IH]]
      by simp
  qed
qed

lemma appends_spine: "appends_both (spine_step V R plan c window cfg)"
  unfolding appends_both_def
proof (intro allI)
  fix st fired declines
  define F where "F = (\<lambda>s. stamp_pullback V plan c window (stamp_retest V plan c window
    (if is_multi_enter plan then evaluate_break_and_close V plan c window s else s)))"
  have F: "appends F" unfolding F_def
    by (cases "is_multi_enter plan") (simp_all add: appends_comp [OF appends_retest appends_pullback]
        appends_comp [OF appends_comp [OF appends_break appends_retest] appends_pullback])
  obtain st1 fs where f: "F (st, []) = (st1, fs)" by fastforce
  obtain st2 gs where b: "evaluate_break_and_close V plan c window (st, []) = (st2, gs)" by fastforce
  have e: "evaluate_entry V R plan c window cfg (st1, fs', ds') =
      (case evaluate_entry V R plan c window cfg (st1, [], []) of (st', gs, es) \<Rightarrow> (st', fs' @ gs, ds' @ es))" for fs' ds'
    using appends_entry_loop unfolding evaluate_entry_def appends_both_def by blast
  have "spine_step V R plan c window cfg (st, fired, declines) = (case ps_phase st of
      AwaitBreakAndClose \<Rightarrow> (st2, fired @ gs, declines)
    | AwaitEntry \<Rightarrow> evaluate_entry V R plan c window cfg (st1, fired @ fs, declines)
    | Done \<Rightarrow> (st, fired, declines))" for fired declines
    using appendsD [OF F f, of fired] appendsD [OF appends_break b, of fired]
    unfolding spine_step_def F_def by (cases "ps_phase st"; cases "is_multi_enter plan") simp_all
  then show "spine_step V R plan c window cfg (st, fired, declines) =
      (case spine_step V R plan c window cfg (st, [], []) of (st', fs, ds) \<Rightarrow> (st', fired @ fs, declines @ ds))"
    using e [of fs "[]"] e [of "fired @ fs" declines] by (simp split: phase.split prod.split)
qed

lemma appends_candle: "appends_both (candle_step V R plan window now c)"
  unfolding appends_both_def
proof (intro allI)
  fix st fired declines
  obtain st1 n1 where s1: "evaluate_controls V plan c window
      (control_clock_for c (tp_granularity plan) now) (st, []) = (st1, n1)" by fastforce
  obtain st2 n2 where s2: "evaluate_guards V plan c window (pine_defaults (tp_granularity plan)) (st1, []) = (st2, n2)"
    by fastforce
  define al where "al = (case alignment_control plan st2 c window of Some f \<Rightarrow> [f] | None \<Rightarrow> [])"
  have al: "(case alignment_control plan st2 c window of Some f \<Rightarrow> fired @ [f] | None \<Rightarrow> fired) = fired @ al" for fired
    by (simp add: al_def split: option.split)
  define st3 where "st3 = stamp_ma_touch V plan c window (stamp_retrace V plan c window st2)"
  obtain st4 n4 ds where s4: "spine_step V R plan c window (pine_defaults (tp_granularity plan)) (st3, [], []) = (st4, n4, ds)"
    by (metis surj_pair)
  have "candle_step V R plan window now c (st, fired, declines) =
    (if ps_phase st2 = Done then (set_watermark c st2, fired @ n1 @ n2, declines)
     else if ps_entries_blocked st2 then (set_watermark c st2, fired @ n1 @ n2 @ al, declines)
     else (set_watermark c st4, fired @ n1 @ n2 @ al @ n4, declines @ ds))" for fired declines
    using appendsD [OF appends_controls s1, of fired] appendsD [OF appends_guards s2, of "fired @ n1"]
      appends_bothD [OF appends_spine s4, of "fired @ n1 @ n2 @ al" declines]
    by (simp add: candle_step_def al Let_def st3_def [symmetric])
  then show "candle_step V R plan window now c (st, fired, declines) =
      (case candle_step V R plan window now c (st, [], []) of (st', fs, ds) \<Rightarrow> (st', fired @ fs, declines @ ds))"
    by simp
qed

lemma appends_candles: "appends_both (candle_loop V R plan window now cs)"
proof (induction cs)
  case Nil
  then show ?case by (simp add: appends_both_def)
next
  case (Cons c cs)
  have "candle_loop V R plan window now (c # cs) = (\<lambda>s.
      if ps_phase (fst (candle_step V R plan window now c s)) = Done then candle_step V R plan window now c s
      else candle_loop V R plan window now cs (candle_step V R plan window now c s))"
    by (intro ext) (simp add: Let_def)
  then show ?case using appends_stop [OF appends_candle Cons.IH] by simp
qed

section \<open>Batches\<close>

lemma candle_loop_append:
  "cs1 \<noteq> [] \<Longrightarrow> candle_loop V R plan window now (cs1 @ cs2) s =
     (let s1 = candle_loop V R plan window now cs1 s in
      if ps_phase (fst s1) = Done then s1 else candle_loop V R plan window now cs2 s1)"
proof (induction cs1 arbitrary: s)
  case (Cons c cs1)
  then show ?case by (cases cs1) (auto simp: Let_def)
qed simp

lemma closed_bar_clock:
  "bar_close plan c \<le> now \<Longrightarrow> control_clock_for c (tp_granularity plan) now = bar_close plan c"
  by (simp add: control_clock_for_def bar_close_def)

lemma candle_loop_clock:
  "(\<And>c. c \<in> set cs \<Longrightarrow> bar_close plan c \<le> now \<and> bar_close plan c \<le> now') \<Longrightarrow>
     candle_loop V R plan window now cs s = candle_loop V R plan window now' cs s"
proof (induction cs arbitrary: s)
  case (Cons c cs)
  have "candle_step V R plan window now c = candle_step V R plan window now' c"
    using Cons.prems [of c] by (simp add: candle_step_def closed_bar_clock)
  then show ?case using Cons.IH Cons.prems by (simp add: Let_def)
qed simp

lemma expiry_change: "bar_change V R plan c window st gs st' \<Longrightarrow> ps_expires_at st' = ps_expires_at st"
  by (induction rule: bar_change.induct)
    (auto simp: same_spine_fields note_news_def mark_fired_def after_entry_def Let_def split: option.split)

lemma expiry_run: "engine_run V R plan B st fs st' \<Longrightarrow> ps_expires_at st' = ps_expires_at st"
  by (induction rule: engine_run.induct) (auto dest: expiry_change)

lemma plan_expiry: "ps_expires_at (pv_new_state (evaluate_plan V R plan prior cs window now e)) = e"
  using expiry_run [OF plan_run] by fastforce

lemma batch_split:
  fixes V R plan
  defines "E \<equiv> \<lambda>st cs window now e. evaluate_plan V R plan st cs window now e"
  assumes "cs1 \<noteq> []" and closed: "\<And>c. c \<in> set cs1 \<Longrightarrow> bar_close plan c \<le> now1 \<and> bar_close plan c \<le> now"
  shows "E prior (cs1 @ cs2) window now e =
    (let ev1 = E prior cs1 window now1 e; ev2 = E (pv_new_state ev1) cs2 window now e in
     if pv_done ev1 then ev1
     else ev2\<lparr>pv_fired := pv_fired ev1 @ pv_fired ev2,
       pv_entry_declines := pv_entry_declines ev1 @ pv_entry_declines ev2\<rparr>)"
proof -
  obtain st1 fs1 ds1 where l1: "candle_loop V R plan window now cs1 (prior\<lparr>ps_expires_at := e\<rparr>, [], []) = (st1, fs1, ds1)"
    by (metis surj_pair)
  obtain st2 fs2 ds2 where l2: "candle_loop V R plan window now cs2 (st1, [], []) = (st2, fs2, ds2)"
    by (metis surj_pair)
  have clock: "candle_loop V R plan window now1 cs1 s = candle_loop V R plan window now cs1 s" for s
    by (rule candle_loop_clock) (use closed in blast)
  have "ps_expires_at st1 = e"
    using plan_expiry [of V R plan prior cs1 window now e] by (simp add: evaluate_plan_def l1)
  then have "st1\<lparr>ps_expires_at := e\<rparr> = st1" by simp
  then show ?thesis
    using l1 l2 appends_bothD [OF appends_candles l2, of fs1 ds1] candle_loop_append [OF \<open>cs1 \<noteq> []\<close>, of V R plan window now cs2]
    by (simp add: E_def evaluate_plan_def clock Let_def)
qed

section \<open>Wall-clock ticks\<close>

definition same_lifecycle :: "plan_state \<Rightarrow> plan_state \<Rightarrow> bool" where
  "same_lifecycle st st' \<longleftrightarrow>
     ps_phase st' = ps_phase st \<and> ps_entries_blocked st' = ps_entries_blocked st \<and>
     ps_break_close_at st' = ps_break_close_at st \<and> ps_retest_seen_at st' = ps_retest_seen_at st \<and>
     ps_pullback_seen_at st' = ps_pullback_seen_at st \<and> ps_retrace_seen_at st' = ps_retrace_seen_at st \<and>
     ps_ma_touch_seen_at st' = ps_ma_touch_seen_at st \<and> ps_watermark st' = ps_watermark st"

lemma fire_rule_watermark [simp]: "ps_watermark (snd (fire_rule V r c window cb g st)) = ps_watermark st"
  by (auto simp: fire_rule_def Let_def record_last_close_def record_origin_open_def reseat_origin_on_dip_def
      split: option.split cross_dir.split)

lemma note_news_watermark [simp]: "ps_watermark (note_news i st) = ps_watermark st"
  by (simp add: note_news_def split: option.split)

definition due_control :: "'e rule \<Rightarrow> time \<Rightarrow> bool" where
  "due_control r now \<longleftrightarrow> is_control_rule r \<and> (\<exists>at_epoch. cr_trigger r = TimeReached at_epoch \<and> at_epoch \<le> timestamp now)"

lemma control_step_effect:
  assumes "control_step V plan c window now r (st, fired) = (st', fired')"
  shows "same_lifecycle st st' \<and> ps_fired st \<subseteq> ps_fired st' \<and> (due_control r now \<longrightarrow> cr_rule_id r \<in> ps_fired st') \<and>
    (fired' = fired \<or> is_control_rule r \<and> fired' = fired @ [fire r c None])"
proof -
  obtain hit st1 where e: "control_rule_fires V r c window (resolve_cross_buffer plan window) now
      (tp_granularity plan) st = (hit, st1)" by fastforce
  have ss: "same_spine st st1" by (metis e same_spine_control snd_conv)
  have w: "ps_watermark st1 = ps_watermark st"
    using e fire_rule_watermark [of V r c window _ _ st]
    by (auto simp: control_rule_fires_def split: trigger.splits)
      (metis fire_rule_watermark snd_conv)+
  have d: "hit \<and> is_control_rule r" if "due_control r now" using e that by (auto simp: due_control_def control_rule_fires_def)
  show ?thesis
    using assms same_spine_fields [OF ss] w d
    by (cases hit) (auto simp: control_step_def e same_lifecycle_def mark_fired_def split: if_splits)
qed

lemma control_fold_effect:
  assumes "fold (control_step V plan c window now) rs (st, fired) = (st', fired')"
  shows "same_lifecycle st st' \<and> ps_fired st \<subseteq> ps_fired st' \<and>
    (\<forall>r\<in>set rs. due_control r now \<longrightarrow> cr_rule_id r \<in> ps_fired st') \<and>
    (\<exists>new. fired' = fired @ new \<and> (\<forall>f\<in>set new. \<exists>r\<in>set rs. is_control_rule r \<and> f = fire r c None))"
  using assms
proof (induction rs arbitrary: st fired)
  case Nil
  then show ?case by (simp add: same_lifecycle_def)
next
  case (Cons r rs)
  obtain st1 fired1 where s: "control_step V plan c window now r (st, fired) = (st1, fired1)" by fastforce
  note one = control_step_effect [OF s]
  obtain new where rest: "same_lifecycle st1 st'" "ps_fired st1 \<subseteq> ps_fired st'"
      "\<forall>r\<in>set rs. due_control r now \<longrightarrow> cr_rule_id r \<in> ps_fired st'" "fired' = fired1 @ new"
      "\<forall>f\<in>set new. \<exists>r\<in>set rs. is_control_rule r \<and> f = fire r c None"
    using Cons.IH [of st1 fired1] Cons.prems s by auto
  have life: "same_lifecycle st st'" using one rest(1) by (auto simp: same_lifecycle_def)
  have "fired' = fired @ new \<or> is_control_rule r \<and> fired' = fired @ fire r c None # new"
    using one rest(4) by auto
  then have "\<exists>new. fired' = fired @ new \<and> (\<forall>f\<in>set new. \<exists>x\<in>set (r # rs). is_control_rule x \<and> f = fire x c None)"
    using rest(5) by (elim disjE conjE) (rule exI [of _ new] exI [of _ "fire r c None # new"], auto)+
  then show ?case using one rest(2,3) life by auto
qed

section \<open>The explanation of a waiting entry\<close>

lemma pine_granularity: "dc_granularity (pine_defaults g) = g"
  by (simp add: pine_defaults_def)

lemma unconfirmed_leg:
  assumes "i_needs_confirmed (cr_intent r)" "cr_trigger r = PinePattern pattern dir"
    and "\<not> leg_has_confirmed_signal plan st r (cn_time c) window"
  shows "entry_trigger V plan c window (pine_defaults (tp_granularity plan)) r st = (None, st)"
  using assms
  by (cases "bar_position (cn_time c) window")
    (simp_all add: entry_trigger_def eval_pine_entry_def leg_has_confirmed_signal_def at_bar_def pine_granularity Let_def)

lemma explained_entry:
  assumes pine: "cr_trigger r = PinePattern pattern dir" and phase: "ps_phase st = AwaitEntry"
    and blocks: "leg_blocks plan st (cn_time c) (Some window) r \<noteq> []"
  shows "\<exists>ds. evaluate_one_entry V R plan c window (pine_defaults (tp_granularity plan)) r (st, fired, declines) =
    (st, fired, declines @ ds)"
proof -
  obtain hit where t: "entry_trigger V plan c window (pine_defaults (tp_granularity plan)) r st = (hit, st)"
    using pine by (simp add: entry_trigger_def)
  have "\<not> entry_gates_open V plan st r c window \<or> hit = None \<or>
      \<not> enter_prep_milestones_satisfied plan st r (cn_time c)"
    using blocks phase unconfirmed_leg [OF _ pine, of plan st c window V] t
    by (auto simp: leg_blocks_def entry_gates_open_def split: if_splits)
  then show ?thesis
    by (auto simp: evaluate_one_entry_def t split: option.split sum.split)
qed

end
