(* ===== verification/Plan_Properties.thy ===== *)
theory Plan_Properties
  imports Plan_Batch Core_Example
begin

text \<open>
  The properties of the plan engine, with witnesses on a four-hour plan that opens a news
  window at a fixed time, may be vetoed, and enters on every bar.
\<close>

section \<open>An example\<close>

definition bare_conditions :: entry_conditions where
  "bare_conditions = \<lparr>ec_require_ma_alignment = False, ec_enable_on_ma_touch = [], ec_must_touch = [],
     ec_be_offside = [], ec_retrace = None\<rparr>"

definition chart_rule :: "string \<Rightarrow> trigger \<Rightarrow> action \<Rightarrow> unit rule" where
  "chart_rule rid t a = \<lparr>cr_rule_id = rid, cr_trigger = t, cr_fire_mode = Once, cr_broker = Oanda,
     cr_intent = ex_intent\<lparr>i_action := a, i_max_retries := Static 0\<rparr>, cr_kind = Unspecified\<rparr>"

definition chart_plan :: "unit plan" where
  "chart_plan = \<lparr>tp_entry_conditions = bare_conditions, tp_trade_id = ''t1'', tp_instrument = ''EUR_USD'',
     tp_direction = Long, tp_granularity = H4, tp_pip_size = Fin 0,
     tp_rules = [chart_rule ''news'' (TimeReached 5) NewsStart, chart_rule ''enter'' MwEveryBar action.Enter],
     tp_shadow = False, tp_cross_buffer_pct = Fin 0, tp_cross_buffer_atr = Fin 0,
     tp_bcr_require_golden = False, tp_retest_atr_step = Fin 0, tp_replay_start = None, tp_armed_at = None,
     tp_armed_sentiment = None, tp_screenshot_url = None\<rparr>"

definition chart_venue :: venue where
  "chart_venue = \<lparr>vn_candle = [], vn_mt5 = [], vn_ctrader = [], vn_oanda = [], vn_hours = [],
     vn_sessions = [], vn_local = \<lambda>_. None, vn_year = \<lambda>_. 1970, vn_day = \<lambda>_ _ _. None\<rparr>"

definition chart_bar :: candle where
  "chart_bar = \<lparr>cn_time = 0, cn_o = Fin 1, cn_h = Fin 1, cn_l = Fin 1, cn_c = Fin 1\<rparr>"

definition chart_blocked :: plan_state where
  "chart_blocked = (seed AwaitEntry 0)\<lparr>ps_entries_blocked := True\<rparr>"

lemmas chart_defs = chart_plan_def chart_rule_def bare_conditions_def ex_intent_def

lemmas kind_defs = is_enter_rule_def is_control_rule_def is_guard_def is_break_and_close_def is_retest_def
  is_pullback_def resolved_kind_def legacy_kind_def role_break_and_close_def role_retest_def

definition proper_enters :: "'e plan \<Rightarrow> bool" where
  "proper_enters plan \<longleftrightarrow> (\<forall>r\<in>set (tp_rules plan). is_enter_rule r \<longrightarrow> \<not> supporting r)"

lemma chart_proper: "proper_enters chart_plan"
  by (simp add: proper_enters_def supporting_def chart_defs kind_defs)

lemma from_rule_enter:
  "proper_enters plan \<Longrightarrow> from_rule plan P f \<Longrightarrow> (\<And>r. P r \<Longrightarrow> supporting r) \<Longrightarrow>
     i_action (fi_intent f) \<noteq> action.Enter"
  by (auto simp: proper_enters_def from_rule_def is_enter_rule_def)

section \<open>The state machine\<close>

text \<open>
  C30: the engine is the state machine. Every evaluation of a plan over new candles, and every
  wall-clock tick, is a sequence of the guarded changes of \<open>bar_change\<close>, made on the new
  candles only, and the intents it reports are the ones those changes fire, in their order.
\<close>

theorem evaluation_refines_machine:
  "engine_run V R plan (seen_in new_candles window) (prior\<lparr>ps_expires_at := expires_at\<rparr>)
     (pv_fired (evaluate_plan V R plan prior new_candles window now expires_at))
     (pv_new_state (evaluate_plan V R plan prior new_candles window now expires_at)) \<and>
   engine_run V R plan (seen_in [c] [c]) (prior\<lparr>ps_expires_at := expires_at\<rparr>)
     (pv_fired (evaluate_controls_only V plan prior c now expires_at))
     (pv_new_state (evaluate_controls_only V plan prior c now expires_at))"
  using plan_run controls_run by blast

section \<open>Blocked and finished plans\<close>

text \<open>
  C3: a blocked or finished plan never enters. Once a veto has blocked the entries of a plan,
  or the plan is done, no later evaluation or tick, in any number and order, reopens it or
  fires an entry.
\<close>

theorem sealed_plan_never_enters:
  assumes "proper_enters plan" and "sealed st"
  shows "sealed (fst (history V R plan st ticks)) \<and>
    filter (\<lambda>f. i_action (fi_intent f) = action.Enter) (snd (history V R plan st ticks)) = []"
proof (rule history_invariant)
  show "sealed st \<and> filter (\<lambda>f. i_action (fi_intent f) = action.Enter) [] = []" using assms(2) by simp
next
  fix st' st'' :: plan_state and fs gs :: "'a fired_intent list"
  assume i: "sealed st' \<and> filter (\<lambda>f. i_action (fi_intent f) = action.Enter) fs = []"
    and run: "engine_run V R plan any_bar st' gs st''"
  have "i_action (fi_intent f) \<noteq> action.Enter" if "f \<in> set gs" for f
    using sealed_run [OF run] i that from_rule_enter [OF assms(1)] by (fastforce simp: supporting_def)
  then show "sealed st'' \<and> filter (\<lambda>f. i_action (fi_intent f) = action.Enter) (fs @ gs) = []"
    using sealed_run [OF run] i by (simp add: filter_empty_conv)
qed (simp add: sealed_def)

theorem sealed_plan_never_enters_witness:
  "filter (\<lambda>f. i_action (fi_intent f) = action.Enter)
     (snd (history chart_venue no_script chart_plan chart_blocked [Candles [chart_bar] [chart_bar] 0 0])) = []"
  using sealed_plan_never_enters [OF chart_proper, of chart_blocked chart_venue no_script
      "[Candles [chart_bar] [chart_bar] 0 0]"]
  by (simp add: sealed_def chart_blocked_def)

section \<open>Latches\<close>

text \<open>
  C28: a latched rule fires at most once in the life of a plan, and not at all once its id is in
  the fired set: controls, guards, the break, and every entry that fires once and is not
  retried.
\<close>

theorem latched_rule_fires_once:
  assumes "distinct (map cr_rule_id (tp_rules plan))" and "r \<in> set (tp_rules plan)" and "latched r"
    and "cr_rule_id r \<notin> set alignment_ids"
  shows "fires_of (cr_rule_id r) (snd (history V R plan st ticks)) \<le>
    (if cr_rule_id r \<in> ps_fired st then 0 else 1)"
proof -
  define I where "I st' fs \<longleftrightarrow> ps_fired st \<subseteq> ps_fired st' \<and> (fires_of (cr_rule_id r) fs = 0 \<or>
    fires_of (cr_rule_id r) fs = 1 \<and> cr_rule_id r \<notin> ps_fired st \<and> cr_rule_id r \<in> ps_fired st')"
    for st' :: plan_state and fs :: "'a fired_intent list"
  have "I (fst (history V R plan st ticks)) (snd (history V R plan st ticks))"
  proof (rule history_invariant)
    fix st' fs gs st'' assume "I st' fs" "engine_run V R plan any_bar st' gs st''"
    then show "I st'' (fs @ gs)" using latched_run [OF _ assms] by (fastforce simp: I_def)
  qed (simp_all add: I_def)
  then show ?thesis by (auto simp: I_def)
qed

theorem latched_rule_fires_once_witness:
  "fires_of ''enter'' (snd (history chart_venue no_script chart_plan (seed AwaitEntry 0)
     [Candles [chart_bar] [chart_bar] 0 0, Candles [chart_bar] [chart_bar] 0 0])) \<le> 1"
  using latched_rule_fires_once [of chart_plan "chart_rule ''enter'' MwEveryBar action.Enter" chart_venue no_script
      "seed AwaitEntry 0" "[Candles [chart_bar] [chart_bar] 0 0, Candles [chart_bar] [chart_bar] 0 0]"]
  by (simp add: latched_def multi_shot_def alignment_ids_def seed_def chart_defs kind_defs)

section \<open>Milestones\<close>

lemma seeded_logged: "break_logged plan (seed_plan_state plan candles e)"
  and seeded_ordered: "milestones_ordered plan (seed_plan_state plan candles e)"
proof -
  have "ps_break_close_at (seed_plan_state plan candles e) = None \<and>
      ps_retest_seen_at (seed_plan_state plan candles e) = None \<and>
      ps_pullback_seen_at (seed_plan_state plan candles e) = None"
  proof -
    have o: "same_spine st (fold (\<lambda>r. record_origin_open (cr_rule_id r) (cr_trigger r) c) rs st)"
      and l: "same_spine st (fold (\<lambda>r. record_last_close (cr_rule_id r) (cr_trigger r) c) rs st)"
      for st c and rs :: "'a rule list"
      by (induction rs arbitrary: st) (simp_all, (meson same_spine_records same_spine_trans)+)
    show ?thesis
      by (simp add: seed_plan_state_def Let_def seed_def same_spine_fields [OF o] same_spine_fields [OF l]
          split: option.split)
  qed
  then show "break_logged plan (seed_plan_state plan candles e)" "milestones_ordered plan (seed_plan_state plan candles e)"
    by (simp_all add: break_logged_def milestones_ordered_def)
qed

lemma history_milestones:
  "break_logged plan st \<Longrightarrow> milestones_ordered plan st \<Longrightarrow>
   break_logged plan (fst (history V R plan st ticks)) \<and> milestones_ordered plan (fst (history V R plan st ticks)) \<and>
   stamps_kept st (fst (history V R plan st ticks))"
  by (rule history_invariant [where I = "\<lambda>st' _. break_logged plan st' \<and> milestones_ordered plan st' \<and> stamps_kept st st'"])
    (simp, metis milestones_run stamps_kept_trans, simp add: break_logged_def milestones_ordered_def stamps_kept_def)

text \<open>
  C29: milestones are stamped once and in order. From the seeded state on, whatever candles and
  ticks follow: in a plan with a break rule a retest or a pullback is stamped only after the
  stamped break, strictly later, and no stamp ever moves or is lost.
\<close>

theorem milestones_stamped_in_order:
  "milestones_ordered plan (fst (history V R plan (seed_plan_state plan candles e) ticks)) \<and>
   stamps_kept (fst (history V R plan (seed_plan_state plan candles e) ticks))
     (fst (history V R plan (seed_plan_state plan candles e) (ticks @ later)))"
proof
  let ?st = "fst (history V R plan (seed_plan_state plan candles e) ticks)"
  have h: "break_logged plan ?st" "milestones_ordered plan ?st"
    using history_milestones [OF seeded_logged seeded_ordered] by blast+
  then show "milestones_ordered plan ?st" by simp
  have "fst (history V R plan (seed_plan_state plan candles e) (ticks @ later)) = fst (history V R plan ?st later)"
  proof -
    have "fst (fold (run_tick V R plan) ts (st, fs)) = fst (fold (run_tick V R plan) ts (st, gs))" for ts st and fs gs :: "'a fired_intent list"
    proof (induction ts arbitrary: st fs gs)
      case (Cons t ts)
      show ?case
        by (cases t) (simp_all add: Let_def, (rule Cons.IH)+)
    qed simp
    then show ?thesis by (metis fold_append comp_apply history_def prod.collapse)
  qed
  then show "stamps_kept ?st (fst (history V R plan (seed_plan_state plan candles e) (ticks @ later)))"
    using history_milestones [OF h] by (simp only:)
qed

section \<open>Entries\<close>

text \<open>
  C2: an entry is fired only past its gates. If an evaluation fires an entry, then for a new
  bar outside the plan's spread hours, on or after the replay start, with the moving averages
  in favour where required, by a rule whose required retest or pullback has been seen after
  the break and no later than that bar; a pattern entry carries a signal in the rule's
  direction, golden and confirmed where the intent asks for it, and the intent resolves to a
  trade at that bar.
\<close>

theorem entry_passed_its_gates:
  assumes "proper_enters plan" and "break_logged plan prior"
    and "f \<in> set (pv_fired (evaluate_plan V R plan prior new_candles window now expires_at))"
    and "i_action (fi_intent f) = action.Enter"
  shows "\<exists>r\<in>set (tp_rules plan). \<exists>c\<in>set new_candles. f = fire r c (fi_signal f) \<and>
    \<not> suppress_plan V plan (cn_time c) \<and> ma_aligned plan (cn_time c) window \<and>
    (case tp_replay_start plan of Some start \<Rightarrow> start \<le> timestamp (cn_time c) | None \<Rightarrow> True) \<and>
    enter_prep_milestones_satisfied plan
      (pv_new_state (evaluate_plan V R plan prior new_candles window now expires_at)) r (cn_time c) \<and>
    (case cr_trigger r of PinePattern _ dir \<Rightarrow>
       (case fi_signal f of Some sig \<Rightarrow> ls_direction sig = dir | None \<Rightarrow> False) | _ \<Rightarrow> True) \<and>
    (case fi_signal f of None \<Rightarrow> True | Some sig \<Rightarrow>
       (i_needs_golden (cr_intent r) \<longrightarrow> ls_golden sig) \<and>
       (i_needs_confirmed (cr_intent r) \<longrightarrow> ls_signal_confirmed sig) \<and>
       (\<exists>trade. from_intent R (cr_intent r) (from_candle_and_signal c sig) (tp_pip_size plan)
          (or_else (i_tick_size (cr_intent r)) (tp_pip_size plan)) = Inr trade))"
proof -
  have "break_logged plan (prior\<lparr>ps_expires_at := expires_at\<rparr>)" using assms(2) by (simp add: break_logged_def)
  then have "entry_passed V R plan (seen_in new_candles window)
      (pv_new_state (evaluate_plan V R plan prior new_candles window now expires_at)) f"
    using entries_run [OF plan_run _ assms(3,4)] from_rule_enter [OF assms(1), of supporting f] assms(4) by blast
  then obtain r w where r: "r \<in> set (tp_rules plan)" "seen_in new_candles window (fi_candle f) w"
      "f = fire r (fi_candle f) (fi_signal f)"
    and g: "entry_gates_open V plan (pv_new_state (evaluate_plan V R plan prior new_candles window now expires_at)) r
      (fi_candle f) w"
    and m: "enter_prep_milestones_satisfied plan
      (pv_new_state (evaluate_plan V R plan prior new_candles window now expires_at)) r (cn_time (fi_candle f))"
    and p: "\<And>pattern dir. cr_trigger r = PinePattern pattern dir \<Longrightarrow>
      \<exists>sig. fi_signal f = Some sig \<and> ls_direction sig = dir"
    and d: "\<And>sig. fi_signal f = Some sig \<Longrightarrow>
      pine_entry_dispatchable R (cr_intent r) (fi_candle f) sig (tp_pip_size plan) = Inr ()"
    unfolding entry_passed_def by blast
  show ?thesis
  proof (intro bexI [OF _ r(1)] bexI [of _ "fi_candle f"] conjI)
    show "fi_candle f \<in> set new_candles" using r(2) by (simp add: seen_in_def)
    show "case cr_trigger r of PinePattern _ dir \<Rightarrow>
        (case fi_signal f of Some sig \<Rightarrow> ls_direction sig = dir | None \<Rightarrow> False) | _ \<Rightarrow> True"
      using p by (auto split: trigger.split option.split)
    show "case fi_signal f of None \<Rightarrow> True | Some sig \<Rightarrow>
       (i_needs_golden (cr_intent r) \<longrightarrow> ls_golden sig) \<and>
       (i_needs_confirmed (cr_intent r) \<longrightarrow> ls_signal_confirmed sig) \<and>
       (\<exists>trade. from_intent R (cr_intent r) (from_candle_and_signal (fi_candle f) sig) (tp_pip_size plan)
          (or_else (i_tick_size (cr_intent r)) (tp_pip_size plan)) = Inr trade)"
      using d by (auto simp: pine_entry_dispatchable_def split: option.split if_splits sum.splits)
  qed (use g m r in \<open>auto simp: entry_gates_open_def seen_in_def split: option.splits\<close>)
qed

text \<open>The example plan enters on the bar of midnight.\<close>

abbreviation chart_news :: "unit rule" where "chart_news \<equiv> chart_rule ''news'' (TimeReached 5) NewsStart"

abbreviation chart_enter :: "unit rule" where "chart_enter \<equiv> chart_rule ''enter'' MwEveryBar action.Enter"

lemma chart_rules:
  "tp_rules chart_plan = [chart_news, chart_enter]" "tp_granularity chart_plan = H4"
  "tp_entry_conditions chart_plan = bare_conditions" "tp_replay_start chart_plan = None"
  "resolved_kind chart_news = Control" "resolved_kind chart_enter = rule_kind.Enter"
  "is_pullback chart_news = False" "is_pullback chart_enter = False"
  "is_enter_rule chart_news = False" "is_enter_rule chart_enter"
  "cr_rule_id chart_news = ''news''" "cr_rule_id chart_enter = ''enter''"
  "cr_trigger chart_news = TimeReached 5" "cr_trigger chart_enter = MwEveryBar"
  by (simp_all add: chart_plan_def chart_rule_def ex_intent_def kind_defs)

lemma chart_quiet:
  "\<not> suppress_plan V chart_plan t" "\<not> suppress_intent V i t H4" "\<not> has_ma_veto chart_plan"
  by (simp_all add: suppress_plan_def suppress_intent_def suppress_on_spread_hour_def chart_rules list_ex_iff
      has_ma_veto_def ma_veto_history_bars_def
      rule_history_bars_def max_of_def)

lemma chart_controls:
  "evaluate_controls V chart_plan chart_bar w 0 (st, []) = (st, [])"
  by (simp add: evaluate_controls_def control_step_def control_rule_fires_def chart_rules is_control_rule_def
      timestamp_def seconds_def)

lemma chart_guards:
  "evaluate_guards V chart_plan chart_bar w cfg (st, []) = (st, [])"
  by (simp add: evaluate_guards_def guard_step_def chart_rules is_guard_def)

lemma chart_no_prep: "stamp_retest V chart_plan c w s = s" "stamp_pullback V chart_plan c w s = s"
  by (cases s; simp add: stamp_retest_def stamp_pullback_def chart_rules is_retest_def split: option.split)+

lemma chart_fire: "fire_rule V chart_enter c w cb H4 st = (True, st)"
  by (simp add: fire_rule_def Let_def chart_rules chart_quiet record_origin_open_def record_last_close_def
      reseat_origin_on_dip_def trigger_uses_close_def eval_trigger_def)

lemma chart_one_entry:
  "evaluate_one_entry V R chart_plan c w cfg chart_enter (st, fired, ds) =
     (after_entry chart_plan chart_enter None st, fired @ [fire chart_enter c None], ds)"
proof -
  have "entry_gates_open V chart_plan st chart_enter c w"
    by (simp add: entry_gates_open_def chart_rules chart_quiet bare_conditions_def ma_aligned_def ma_enabled_def)
  moreover have "entry_trigger V chart_plan c w cfg chart_enter st = (Some None, st)"
    by (simp add: entry_trigger_def chart_rules chart_fire)
  moreover have "enter_prep_milestones_satisfied chart_plan st chart_enter (cn_time c)"
    by (simp add: enter_prep_milestones_satisfied_def required_milestones_def is_multi_enter_def enter_rule_count_def
        chart_rules is_retest_def)
  ultimately show ?thesis by (simp add: evaluate_one_entry_def)
qed

lemma seed_simps:
  "ps_phase (seed ph e) = ph" "ps_fired (seed ph e) = {}" "ps_entries_blocked (seed ph e) = False"
  "(seed ph e)\<lparr>ps_expires_at := e\<rparr> = seed ph e" "ps_break_close_at (seed ph e) = None"
  "stamp_retrace V chart_plan c w st = st" "stamp_ma_touch V chart_plan c w st = st"
  by (simp_all add: seed_def stamp_retrace_def stamp_ma_touch_def chart_rules bare_conditions_def)

lemma chart_spine:
  "spine_step V R chart_plan c w cfg (seed AwaitEntry 0, [], []) =
     (after_entry chart_plan chart_enter None (seed AwaitEntry 0), [fire chart_enter c None], [])"
  by (simp add: spine_step_def seed_simps is_multi_enter_def enter_rule_count_def chart_no_prep evaluate_entry_def
      chart_rules chart_one_entry Let_def)

lemma chart_clock: "control_clock_for chart_bar H4 0 = 0"
  by (simp add: control_clock_for_def chart_bar_def seconds_def)

lemma chart_entry:
  "pv_fired (evaluate_plan V R chart_plan (seed AwaitEntry 0) [chart_bar] w 0 0) = [fire chart_enter chart_bar None]"
  by (simp add: evaluate_plan_def candle_step_def Let_def chart_clock chart_rules seed_simps
      chart_controls chart_guards chart_spine alignment_control_def bare_conditions_def)

theorem entry_passed_its_gates_witness:
  "\<exists>r\<in>set (tp_rules chart_plan). \<exists>c\<in>set [chart_bar].
     fire chart_enter chart_bar None = fire r c None \<and> \<not> suppress_plan chart_venue chart_plan (cn_time c)"
proof -
  have b: "break_logged chart_plan (seed AwaitEntry 0)" by (simp add: break_logged_def seed_simps)
  have f: "fire chart_enter chart_bar None \<in>
      set (pv_fired (evaluate_plan chart_venue no_script chart_plan (seed AwaitEntry 0) [chart_bar] [chart_bar] 0 0))"
    by (simp add: chart_entry)
  have a: "i_action (fi_intent (fire chart_enter chart_bar None)) = action.Enter"
    and s: "fi_signal (fire chart_enter chart_bar None) = None"
    by (simp_all add: fire_def chart_rule_def)
  obtain r c where "r \<in> set (tp_rules chart_plan)" "c \<in> set [chart_bar]"
      "fire chart_enter chart_bar None = fire r c (fi_signal (fire chart_enter chart_bar None))"
      "\<not> suppress_plan chart_venue chart_plan (cn_time c)"
    using entry_passed_its_gates [OF chart_proper b f a] by blast
  then show ?thesis unfolding s by blast
qed

section \<open>Batches\<close>

text \<open>
  C27: a batch is its bars in turn. Evaluating closed candles together, at a later instant,
  gives the intents, the declines and the final state of evaluating a first part of them
  earlier and the rest afterwards over the same window; a plan that finished in the first part
  ignores the rest.
\<close>

theorem batch_is_bar_by_bar:
  assumes "cs1 \<noteq> []" and "\<And>c. c \<in> set cs1 \<Longrightarrow> bar_close plan c \<le> now1 \<and> bar_close plan c \<le> now"
  shows "evaluate_plan V R plan prior (cs1 @ cs2) window now e =
    (let ev1 = evaluate_plan V R plan prior cs1 window now1 e;
         ev2 = evaluate_plan V R plan (pv_new_state ev1) cs2 window now e in
     if pv_done ev1 then ev1
     else ev2\<lparr>pv_fired := pv_fired ev1 @ pv_fired ev2,
       pv_entry_declines := pv_entry_declines ev1 @ pv_entry_declines ev2\<rparr>)"
  using assms by (rule batch_split)

definition chart_later :: candle where
  "chart_later = chart_bar\<lparr>cn_time := seconds 14400\<rparr>"

theorem batch_is_bar_by_bar_witness:
  "evaluate_plan chart_venue no_script chart_plan (seed AwaitEntry 0) ([chart_bar] @ [chart_later])
     [chart_bar, chart_later] (seconds 50000) 0 =
   (let ev1 = evaluate_plan chart_venue no_script chart_plan (seed AwaitEntry 0) [chart_bar] [chart_bar, chart_later]
          (seconds 14400) 0;
        ev2 = evaluate_plan chart_venue no_script chart_plan (pv_new_state ev1) [chart_later]
          [chart_bar, chart_later] (seconds 50000) 0 in
    if pv_done ev1 then ev1
    else ev2\<lparr>pv_fired := pv_fired ev1 @ pv_fired ev2,
      pv_entry_declines := pv_entry_declines ev1 @ pv_entry_declines ev2\<rparr>)"
  by (rule batch_is_bar_by_bar) (simp_all add: bar_close_def chart_rules chart_bar_def seconds_def)

section \<open>Wall-clock ticks\<close>

text \<open>
  A tick of the wall clock runs the due controls and nothing else. It leaves the phase, the
  block, the milestones and the watermark as they were, fires control rules only, and after it
  every control whose time has come is in the fired set.
\<close>

theorem clock_tick_runs_due_controls:
  "same_lifecycle st (pv_new_state (evaluate_controls_only V plan st c now expires_at)) \<and>
   list_all (\<lambda>f. list_ex (\<lambda>r. is_control_rule r \<and> f = fire r c None) (tp_rules plan))
     (pv_fired (evaluate_controls_only V plan st c now expires_at)) \<and>
   filter (\<lambda>r. due_control r now \<and>
     cr_rule_id r \<notin> ps_fired (pv_new_state (evaluate_controls_only V plan st c now expires_at)))
     (tp_rules plan) = []"
proof -
  obtain st' fired where e: "fold (control_step V plan c [c] now) (tp_rules plan) (st\<lparr>ps_expires_at := expires_at\<rparr>, [])
      = (st', fired)" by fastforce
  show ?thesis
    using control_fold_effect [OF e]
    by (auto simp: evaluate_controls_only_def evaluate_controls_def e same_lifecycle_def list_all_iff list_ex_iff
        filter_empty_conv)
qed

section \<open>The explanation of a waiting entry\<close>

text \<open>
  The explanation is sound. While the plan waits for its entry, a pattern rule for which
  the explanation names any unmet precondition at a bar fires nothing there and leaves the
  state as it is.
\<close>

theorem explained_leg_does_not_enter:
  assumes "cr_trigger r = PinePattern pattern dir" and "ps_phase st = AwaitEntry"
    and "leg_blocks plan st (cn_time c) (Some window) r \<noteq> []"
  shows "\<exists>ds. evaluate_one_entry V R plan c window (pine_defaults (tp_granularity plan)) r (st, fired, declines) =
    (st, fired, declines @ ds)"
  using assms by (rule explained_entry)

definition touch_plan :: "unit plan" where
  "touch_plan = chart_plan\<lparr>tp_entry_conditions :=
     bare_conditions\<lparr>ec_enable_on_ma_touch := [\<lparr>ma_kind = Ema, ma_period = 9\<rparr>]\<rparr>,
     tp_rules := [chart_rule ''enter'' (PinePattern None Long) action.Enter]\<rparr>"

theorem explained_leg_does_not_enter_witness:
  "\<exists>ds. evaluate_one_entry chart_venue no_script touch_plan chart_bar [chart_bar] (pine_defaults (tp_granularity touch_plan))
     (chart_rule ''enter'' (PinePattern None Long) action.Enter) (seed AwaitEntry 0, [], []) = (seed AwaitEntry 0, [], [] @ ds)"
proof (rule explained_leg_does_not_enter)
  show "leg_blocks touch_plan (seed AwaitEntry 0) (cn_time chart_bar) (Some [chart_bar])
      (chart_rule ''enter'' (PinePattern None Long) action.Enter) \<noteq> []"
    by (simp add: leg_blocks_def ma_enabled_def touch_plan_def seed_def)
qed (simp_all add: chart_rule_def seed_simps)

end
