(* ===== verification/Core_Lifecycle.thy ===== *)
theory Core_Lifecycle
  imports Core_Enter Plan_Averages
begin

text \<open>
  What happens to a resting order after its placement (\<open>core/src/pending_lifecycle.rs\<close>): it is
  taken off the book while a reason holds its trade, kept on the trade's record, and re-driven
  through \<open>run_enter\<close> once every reason has lifted. Also the price geometry of the restore
  (\<open>core/src/blackout_recreate.rs\<close>) and the predicates of the order sweep
  (\<open>core/src/sweep_gate.rs\<close>).
\<close>

section \<open>Sweep predicates\<close>

definition breach_detected :: "direction \<Rightarrow> f64 \<Rightarrow> f64 \<Rightarrow> bool" where
  "breach_detected dir price stop_loss =
     (case dir of Long \<Rightarrow> fle price stop_loss | Short \<Rightarrow> fge price stop_loss)"

definition update_adverse_extreme :: "direction \<Rightarrow> f64 option \<Rightarrow> f64 \<Rightarrow> f64" where
  "update_adverse_extreme dir prior observed =
     (case prior of None \<Rightarrow> observed
      | Some prior \<Rightarrow> (case dir of Long \<Rightarrow> fmin prior observed | Short \<Rightarrow> fmax prior observed))"

definition bar_adverse_extreme :: "direction \<Rightarrow> f64 \<Rightarrow> f64 \<Rightarrow> f64" where
  "bar_adverse_extreme dir high low = (case dir of Long \<Rightarrow> low | Short \<Rightarrow> high)"

definition bar_expiry_due :: "time option \<Rightarrow> time \<Rightarrow> bool" where
  "bar_expiry_due cancel_at now = (case cancel_at of None \<Rightarrow> False | Some c \<Rightarrow> c < now)"

text \<open>Why the sweep takes an order off the book.\<close>

datatype sweep_reason = SweptExpired | SweptBarExpiry | SweptSlBreached | SweptBlackout

definition now_utc_minute_of_day :: "time \<Rightarrow> nat" where
  "now_utc_minute_of_day now = utc_hour now * 60 + utc_minute now"

definition market_blackout_due :: "no_entry_window list \<Rightarrow> time \<Rightarrow> bool" where
  "market_blackout_due windows now = is_inside_any (now_utc_minute_of_day now) windows"

definition market_blackout_due_symbol :: "venue \<Rightarrow> string \<Rightarrow> time \<Rightarrow> bool" where
  "market_blackout_due_symbol V symbol now = market_hours_blocked V symbol now"

section \<open>Geometry of the restore\<close>

datatype restore_plan = Redrive | DropStopOverrunSkip | DropStaleLimit | DropUnexpectedMarket

definition recreate_stop :: "direction \<Rightarrow> f64 \<Rightarrow> f64 \<Rightarrow> f64 \<Rightarrow> f64 \<Rightarrow> bool" where
  "recreate_stop dir trigger sl_distance bid ask =
     (case dir of Long \<Rightarrow> flt ask (fadd trigger sl_distance) | Short \<Rightarrow> fgt bid (fsub trigger sl_distance))"

definition recreate_limit :: "direction \<Rightarrow> f64 \<Rightarrow> f64 \<Rightarrow> f64 \<Rightarrow> f64 \<Rightarrow> bool" where
  "recreate_limit dir entry tp bid ask =
     (case dir of Long \<Rightarrow> fgt ask entry \<and> flt ask tp | Short \<Rightarrow> flt bid entry \<and> fgt bid tp)"

definition restore_plan_of ::
  "resolved_entry \<Rightarrow> direction \<Rightarrow> f64 \<Rightarrow> f64 \<Rightarrow> f64 \<Rightarrow> f64 \<Rightarrow> recover_action option \<Rightarrow> restore_plan" where
  "restore_plan_of entry dir stop_loss take_profit bid ask recover =
     (case entry of
        StopAt trigger \<Rightarrow>
          if recreate_stop dir trigger (fabs64 (fsub trigger stop_loss)) bid ask then Redrive
          else if recover = None \<or> recover = Some RecoverSkip then DropStopOverrunSkip
          else Redrive
      | LimitAt trigger \<Rightarrow>
          if recreate_limit dir trigger take_profit bid ask then Redrive else DropStaleLimit
      | Market _ \<Rightarrow> DropUnexpectedMarket)"

section \<open>Interface\<close>

record pending_order =
  pg_order_id :: string
  pg_instrument :: string
  pg_direction :: direction
  pg_trigger :: f64
  pg_is_stop :: bool
  pg_stake :: f64

text \<open>What the seam \<open>VerifiedSource\<close> answers.\<close>

datatype 'd recovery = Recovered "'d verified" | WindowClosed | Unrecoverable

text \<open>
  The parameters of a pass: the entry path's platform and broker, the broker's listing of
  resting orders and its lookup of one, and the two seams of the caller.
\<close>

record ('d, 'b) desk =
  dk_platform :: "'d platform"
  dk_broker :: "'b broker"
  dk_list_pending :: "string \<Rightarrow> 'b \<Rightarrow> (lookup_error + pending_order list) \<times> 'b"
  dk_attempt_state :: "string \<Rightarrow> string \<Rightarrow> string option \<Rightarrow> 'b \<Rightarrow> (lookup_error + attempt_state) \<times> 'b"
  dk_config :: "'d verified \<Rightarrow> dispatch_config"
  dk_source :: "string \<Rightarrow> string option \<Rightarrow> time \<Rightarrow> 'd recovery"

abbreviation dk_venue :: "('d, 'b) desk \<Rightarrow> venue" where
  "dk_venue D \<equiv> pf_venue (dk_platform D)"

datatype cancel_outcome = Vanished string | StillResting | Unresolved

definition drops_from_record :: "cancel_outcome \<Rightarrow> bool" where
  "drops_from_record c = (case c of Vanished _ \<Rightarrow> True | _ \<Rightarrow> False)"

definition cancel_outcome_str :: "cancel_outcome \<Rightarrow> string" where
  "cancel_outcome_str c = (case c of
     Vanished why \<Rightarrow> why | StillResting \<Rightarrow> ''still-resting'' | Unresolved \<Rightarrow> ''lookup-failed'')"

datatype restore_reason = Backstop | SpreadRecovered

datatype clear_policy = ClearRecord | LeaveForCaller

record lifecycle_report =
  lr_cancelled :: "string list"
  lr_restored :: "(string \<times> restore_reason) list"
  lr_skipped :: "string list"
  lr_cancel_failed :: "(string \<times> cancel_outcome) list"

definition empty_report :: lifecycle_report where
  "empty_report = \<lparr>lr_cancelled = [], lr_restored = [], lr_skipped = [], lr_cancel_failed = []\<rparr>"

definition skipping :: "string \<Rightarrow> lifecycle_report \<Rightarrow> lifecycle_report" where
  "skipping oid rep = rep\<lparr>lr_skipped := lr_skipped rep @ [oid]\<rparr>"

text \<open>A loop that goes on whatever happens in it.\<close>

fun pfor :: "('x \<Rightarrow> 's \<Rightarrow> ('d, 'b, 's) prog) \<Rightarrow> 'x list \<Rightarrow> 's \<Rightarrow> ('d, 'b, 's) prog" where
  "pfor f [] s = preturn s"
| "pfor f (x # xs) s = pbind (f x s) (pfor f xs)"

section \<open>Reasons\<close>

definition pause_active :: "string \<Rightarrow> ('d, 'b, bool) prog" where
  "pause_active trade_id = pbind (call (list_pauses_for_trade trade_id)) (\<lambda>r.
     preturn (case r of Inr pauses \<Rightarrow> pauses \<noteq> [] | Inl _ \<Rightarrow> True))"

definition hold_reasons :: "venue \<Rightarrow> string \<Rightarrow> string \<Rightarrow> time \<Rightarrow> ('d, 'b, holders) prog" where
  "hold_reasons V instrument trade_id now =
     pbind (pause_active trade_id) (\<lambda>paused.
       let h = (if paused then snd (hold NewsPause holders_new) else holders_new) in
       preturn (if market_blackout_due_symbol V instrument now then snd (hold MarketHours h) else h))"

definition last_pause_expiry :: "pause_entry list \<Rightarrow> time option" where
  "last_pause_expiry pauses = (case map pe_expires_at pauses of [] \<Rightarrow> None | t # ts \<Rightarrow> Some (foldl max t ts))"

text \<open>\<open>pending_lifecycle/ma_alignment.rs\<close>: an alignment pause outlives the spread hour.\<close>

definition protected_by :: "pause_entry list \<Rightarrow> held_record \<Rightarrow> bool \<times> held_record" where
  "protected_by pauses r =
     (if \<not> holders_contains MaAlignment (hd_holders r) \<and>
         \<not> list_ex (\<lambda>p. pe_blackout_id p = alignment_pause_id) pauses
      then (False, r)
      else case last_pause_expiry pauses of
        None \<Rightarrow> (False, r)
      | Some expires_at \<Rightarrow> (True, r\<lparr>hd_holders := snd (hold MaAlignment (hd_holders r)),
          hd_expires_at := max (hd_expires_at r) expires_at\<rparr>))"

definition protect :: "held_record \<Rightarrow> ('d, 'b, (bool \<times> held_record) res) prog" where
  "protect r =
     (if hd_cancelled_orders r = [] then preturn (Inr (False, r))
      else pbind (call (list_pauses_for_trade (hd_trade_id r))) (\<lambda>q. preturn (case q of
          Inl e \<Rightarrow> Inl e | Inr pauses \<Rightarrow> Inr (protected_by pauses r))))"

section \<open>Taking orders off the book\<close>

definition classify_cancel_failure :: "('d, 'b) desk \<Rightarrow> pending_order \<Rightarrow> ('d, 'b, cancel_outcome) prog" where
  "classify_cancel_failure D order =
     pbind (bcall (dk_attempt_state D (pg_instrument order) (pg_order_id order) None)) (\<lambda>r.
       preturn (case r of
         Inl _ \<Rightarrow> Unresolved
       | Inr st \<Rightarrow> (case st of
           Pending \<Rightarrow> StillResting
         | OpenPosition _ \<Rightarrow> Vanished ''filled-open-position''
         | ClosedWin _ \<Rightarrow> Vanished ''filled-and-closed''
         | ClosedLossOrBreakeven _ \<Rightarrow> Vanished ''filled-and-closed''
         | ClosedConfirmed _ \<Rightarrow> Vanished ''filled-and-closed''
         | Cancelled \<Rightarrow> Vanished ''cancelled-upstream''
         | Unknown \<Rightarrow> Vanished ''not-found'')))"

definition cleanup_body :: "string \<Rightarrow> ('d, 'b, unit) prog" where
  "cleanup_body oid = pbind (call (delete_order_body oid)) (\<lambda>_. preturn ())"

definition drop_cancelled_order :: "held_record \<Rightarrow> string \<Rightarrow> nat \<Rightarrow> ('d, 'b, unit) prog" where
  "drop_cancelled_order r oid ttl =
     (let pruned = r\<lparr>hd_cancelled_orders := filter (\<lambda>c. co_order_id c \<noteq> oid) (hd_cancelled_orders r)\<rparr> in
      pbind (call (if hd_cancelled_orders pruned = [] \<and> hd_original_stops pruned = []
          then clear_held_trade_record (hd_trade_id pruned)
          else upsert_held_trade_record pruned ttl)) (\<lambda>_.
      cleanup_body oid))"

definition usable_pip :: "f64 \<Rightarrow> bool" where
  "usable_pip p \<longleftrightarrow> fgt p (Fin 0) \<and> is_finite p"

definition fresh_hold :: "string \<Rightarrow> string \<Rightarrow> string option \<Rightarrow> f64 \<Rightarrow> time \<Rightarrow> held_record" where
  "fresh_hold trade_id instrument account pip_size now =
     \<lparr>hd_trade_id = trade_id, hd_instrument = instrument, hd_account = account, hd_applied = False,
      hd_holders = holders_new, hd_opened_at = now, hd_expires_at = now, hd_pip_size = pip_size,
      hd_original_stops = [], hd_cancelled_orders = [], hd_stored_orders = []\<rparr>"

definition merge_cancelled_order ::
  "venue \<Rightarrow> held_record option \<Rightarrow> string \<Rightarrow> string \<Rightarrow> string option \<Rightarrow> f64 \<Rightarrow> cancelled_order \<Rightarrow> holders
    \<Rightarrow> time \<Rightarrow> held_record" where
  "merge_cancelled_order V existing trade_id instrument account pip_size cancelled reasons now =
     (let r = (case existing of Some r \<Rightarrow> r | None \<Rightarrow> fresh_hold trade_id instrument account pip_size now) in
      r\<lparr>hd_applied := True,
        hd_holders := fold (\<lambda>reason h. snd (hold reason h)) reasons (hd_holders r),
        hd_expires_at := hd_opened_at r + seconds (int (spread_block_ttl_seconds V instrument (hd_opened_at r))),
        hd_pip_size := if usable_pip (hd_pip_size r) then hd_pip_size r else pip_size,
        hd_cancelled_orders :=
          if list_ex (\<lambda>c. co_order_id c = co_order_id cancelled) (hd_cancelled_orders r)
          then hd_cancelled_orders r else hd_cancelled_orders r @ [cancelled]\<rparr>)"

text \<open>The record is stored before the order is cancelled.\<close>

definition cancel_stored ::
  "('d, 'b) desk \<Rightarrow> string option \<Rightarrow> pending_order \<Rightarrow> held_record \<Rightarrow> nat \<Rightarrow> lifecycle_report
    \<Rightarrow> ('d, 'b, lifecycle_report) prog" where
  "cancel_stored D account order r ttl rep =
     (let oid = pg_order_id order in
      pbind (bcall (cancel_order (dk_broker D) (or_else account []) oid)) (\<lambda>c. case c of
        Inr _ \<Rightarrow> preturn (rep\<lparr>lr_cancelled := lr_cancelled rep @ [oid]\<rparr>)
      | Inl _ \<Rightarrow>
          pbind (classify_cancel_failure D order) (\<lambda>outcome.
          pbind (if drops_from_record outcome then drop_cancelled_order r oid ttl else preturn ()) (\<lambda>_.
          preturn (rep\<lparr>lr_cancel_failed := lr_cancel_failed rep @ [(oid, outcome)]\<rparr>)))))"

definition store_and_cancel ::
  "('d, 'b) desk \<Rightarrow> string option \<Rightarrow> pending_order \<Rightarrow> string \<Rightarrow> string \<Rightarrow> f64 \<Rightarrow> holders \<Rightarrow> time
    \<Rightarrow> lifecycle_report \<Rightarrow> ('d, 'b, lifecycle_report) prog" where
  "store_and_cancel D account order trade_id signed_intent pip_size reasons now rep =
     (let V = dk_venue D in
      pbind (call (get_held_trade_record trade_id)) (\<lambda>existing. case existing of
        Inl _ \<Rightarrow> preturn rep
      | Inr existing \<Rightarrow>
          pbind (protect (merge_cancelled_order V existing trade_id (pg_instrument order) account pip_size
              \<lparr>co_order_id = pg_order_id order, co_signed_intent = signed_intent\<rparr> reasons now)) (\<lambda>p.
          case p of
            Inl _ \<Rightarrow> preturn rep
          | Inr (_, r) \<Rightarrow>
              let ttl = max (spread_block_ttl_seconds V (pg_instrument order) (hd_opened_at r))
                    (nat (max 1 (num_seconds (hd_expires_at r - now)))) in
              pbind (call (upsert_held_trade_record r ttl)) (\<lambda>u. case u of
                Inl _ \<Rightarrow> preturn rep
              | Inr _ \<Rightarrow> cancel_stored D account order r ttl rep))))"

definition try_cancel_one ::
  "('d, 'b) desk \<Rightarrow> string option \<Rightarrow> time \<Rightarrow> pending_order \<Rightarrow> lifecycle_report
    \<Rightarrow> ('d, 'b, lifecycle_report) prog" where
  "try_cancel_one D account now order rep =
     (let oid = pg_order_id order in
      pbind (call (get_order_body oid)) (\<lambda>body. case body of
        Inl _ \<Rightarrow> preturn rep
      | Inr stored_body \<Rightarrow>
          (case dk_source D oid stored_body now of
             Recovered v \<Rightarrow>
               let signed_intent = (case stored_body of Some b \<Rightarrow> b
                     | None \<Rightarrow> ''replay-order: '' @ oid @ [CHR 0x0A]);
                   trade_id = or_else (i_trade_id (v_intent v)) oid in
               pbind (hold_reasons (dk_venue D) (pg_instrument order) trade_id now) (\<lambda>reasons.
                 if reasons = [] then preturn (skipping oid rep)
                 else case i_pip_size (v_intent v) of
                   Some pip \<Rightarrow>
                     if usable_pip pip
                     then store_and_cancel D account order trade_id signed_intent pip reasons now rep
                     else preturn (skipping oid rep)
                 | None \<Rightarrow> preturn (skipping oid rep))
           | _ \<Rightarrow> preturn (skipping oid rep))))"

definition cancel_pass ::
  "('d, 'b) desk \<Rightarrow> string option \<Rightarrow> time \<Rightarrow> lifecycle_report \<Rightarrow> ('d, 'b, lifecycle_report) prog" where
  "cancel_pass D account now rep =
     pbind (bcall (dk_list_pending D (or_else account []))) (\<lambda>r. case r of
       Inl _ \<Rightarrow> preturn rep
     | Inr orders \<Rightarrow> pfor (try_cancel_one D account now) orders rep)"

section \<open>When a reason lifts\<close>

definition spread_recovered_pips :: f64 where "spread_recovered_pips = Fin 4"

definition spread_hour_released_at :: "venue \<Rightarrow> string \<Rightarrow> f64 \<Rightarrow> f64 option \<Rightarrow> time \<Rightarrow> bool" where
  "spread_hour_released_at V key pip_size measured now \<longleftrightarrow>
     \<not> is_spread_hour V key now \<or>
     (case measured of None \<Rightarrow> False
      | Some spread \<Rightarrow> usable_pip pip_size \<and> fle (fdiv spread pip_size) spread_recovered_pips)"

definition spread_hour_released :: "('d, 'b) desk \<Rightarrow> held_record \<Rightarrow> time \<Rightarrow> ('d, 'b, bool) prog" where
  "spread_hour_released D r now =
     (let key = spread_lookup_key (dk_venue D) (hd_instrument r) (hd_account r) in
      if \<not> is_spread_hour (dk_venue D) key now then preturn True
      else pbind (bcall (get_quote (dk_broker D) (hd_instrument r))) (\<lambda>q.
        preturn (spread_hour_released_at (dk_venue D) key (hd_pip_size r)
          (case q of Inr q \<Rightarrow> Some (quote_spread q) | Inl _ \<Rightarrow> None) now)))"

definition reason_released :: "('d, 'b) desk \<Rightarrow> held_record \<Rightarrow> time \<Rightarrow> hold_reason \<Rightarrow> ('d, 'b, bool) prog" where
  "reason_released D r now reason =
     (case reason of
        Core_Hold.SpreadHour \<Rightarrow> spread_hour_released D r now
      | MarketHours \<Rightarrow> preturn (\<not> market_blackout_due_symbol (dk_venue D) (hd_instrument r) now)
      | _ \<Rightarrow> pbind (pause_active (hd_trade_id r)) (\<lambda>paused. preturn (\<not> paused)))"

definition effective_holders :: "held_record \<Rightarrow> holders" where
  "effective_holders r =
     (if hd_applied r \<and> hd_holders r = [] then snd (hold Core_Hold.SpreadHour holders_new) else hd_holders r)"

definition release_step ::
  "('d, 'b) desk \<Rightarrow> held_record \<Rightarrow> time \<Rightarrow> hold_reason \<Rightarrow> holders \<times> bool \<Rightarrow> ('d, 'b, holders \<times> bool) prog" where
  "release_step D r now reason = (\<lambda>(h, emptied).
     pbind (reason_released D r now reason) (\<lambda>released. preturn
       (if released then (case release reason h of (res, h') \<Rightarrow> (h', emptied \<or> res = Emptied))
        else (h, emptied))))"

definition release_satisfied :: "('d, 'b) desk \<Rightarrow> held_record \<Rightarrow> time \<Rightarrow> ('d, 'b, holders \<times> bool) prog" where
  "release_satisfied D r now =
     pfor (release_step D r now) (effective_holders r) (effective_holders r, False)"

section \<open>Bringing orders back\<close>

text \<open>The failures of a restore, which the code only logs.\<close>

datatype restore_error = NotReverified string | NotResolved resolve_error | NoQuote lookup_error

definition default_restore_pip :: f64 where "default_restore_pip = round64 (1 / 10000)"

definition restore_pip :: "'d intent \<Rightarrow> held_record \<Rightarrow> f64" where
  "restore_pip i r =
     (case i_pip_size i of
        Some p \<Rightarrow> if usable_pip p then p else if usable_pip (hd_pip_size r) then hd_pip_size r else default_restore_pip
      | None \<Rightarrow> if usable_pip (hd_pip_size r) then hd_pip_size r else default_restore_pip)"

definition redrive_call :: "('d, 'b) desk \<Rightarrow> 'd verified \<Rightarrow> cancelled_order \<Rightarrow> time \<Rightarrow> 'd entry_call" where
  "redrive_call D v c now =
     \<lparr>en_verified = v, en_cfg = dk_config D v, en_now = now, en_raw_body = Some (co_signed_intent c),
      en_granularity = None, en_origin = Replacing (co_order_id c)\<rparr>"

definition restore_one_order ::
  "('d, 'b) desk \<Rightarrow> held_record \<Rightarrow> time \<Rightarrow> cancelled_order \<Rightarrow> ('d, 'b, restore_error + unit) prog" where
  "restore_one_order D r now c =
     (let handled = pbind (cleanup_body (co_order_id c)) (\<lambda>_. preturn (Inr ())) in
      case dk_source D (co_order_id c) (Some (co_signed_intent c)) now of
        WindowClosed \<Rightarrow> handled
      | Unrecoverable \<Rightarrow> preturn (Inl (NotReverified (co_order_id c)))
      | Recovered v \<Rightarrow>
          let pip = restore_pip (v_intent v) r; tick = or_else (i_tick_size (v_intent v)) pip in
          (case from_intent (pf_rhai (dk_platform D)) (v_intent v) (v_shell v) pip tick of
             Inl e \<Rightarrow> preturn (Inl (NotResolved e))
           | Inr trade \<Rightarrow>
               pbind (bcall (get_quote (dk_broker D) (rs_instrument trade))) (\<lambda>q. case q of
                 Inl e \<Rightarrow> preturn (Inl (NoQuote e))
               | Inr q \<Rightarrow>
                   if restore_plan_of (rs_entry trade) (rs_direction trade) (rs_stop_loss trade)
                       (rs_take_profit trade) (qt_bid q) (qt_ask q)
                       (map_option rr_action (rs_recover_entry trade)) \<noteq> Redrive
                   then handled
                   else pbind (run_enter (dk_platform D) (dk_broker D) (redrive_call D v c now)) (\<lambda>_. handled))))"

definition restore_cancelled_orders :: "('d, 'b) desk \<Rightarrow> held_record \<Rightarrow> time \<Rightarrow> ('d, 'b, unit) prog" where
  "restore_cancelled_orders D r now =
     pfor (\<lambda>c _. pbind (restore_one_order D r now c) (\<lambda>_. preturn ())) (hd_cancelled_orders r) ()"

text \<open>Only the parts that belong to the hold are cleared when the record keeps a stored order.\<close>

definition clear_hold :: "held_record \<Rightarrow> ('d, 'b, bool) prog" where
  "clear_hold r =
     pbind (call (if hd_stored_orders r \<noteq> []
         then upsert_held_trade_record
           (r\<lparr>hd_holders := holders_new, hd_cancelled_orders := [], hd_applied := False\<rparr>)
           (nat (max 0 (num_seconds (hd_expires_at r - hd_opened_at r))))
         else clear_held_trade_record (hd_trade_id r)))
       (\<lambda>q. preturn (case q of Inr _ \<Rightarrow> True | Inl _ \<Rightarrow> False))"

definition finish_recover ::
  "held_record \<Rightarrow> clear_policy \<Rightarrow> restore_reason \<Rightarrow> lifecycle_report \<Rightarrow> ('d, 'b, lifecycle_report) prog" where
  "finish_recover r policy reason rep =
     (let restored = rep\<lparr>lr_restored := lr_restored rep @ [(hd_trade_id r, reason)]\<rparr> in
      case policy of
        ClearRecord \<Rightarrow> pbind (clear_hold r) (\<lambda>cleared. preturn (if cleared then restored else rep))
      | LeaveForCaller \<Rightarrow> preturn restored)"

definition safety_force_restore_seconds :: int where
  "safety_force_restore_seconds = 12 * 60 * 60"

definition backstop_due :: "time \<Rightarrow> time \<Rightarrow> bool" where
  "backstop_due opened_at now \<longleftrightarrow> opened_at + seconds safety_force_restore_seconds \<le> now"

text \<open>An alignment pause only extends the record.\<close>

definition extend_hold :: "held_record \<Rightarrow> held_record \<Rightarrow> time \<Rightarrow> ('d, 'b, unit) prog" where
  "extend_hold r protected now =
     (if hd_expires_at protected \<noteq> hd_expires_at r \<or> hd_holders protected \<noteq> hd_holders r
      then pbind (call (upsert_held_trade_record protected
          (nat (max 1 (num_seconds (hd_expires_at protected - now)))))) (\<lambda>_. preturn ())
      else preturn ())"

definition narrow_hold :: "('d, 'b) desk \<Rightarrow> held_record \<Rightarrow> holders \<Rightarrow> ('d, 'b, unit) prog" where
  "narrow_hold D r surviving =
     (if surviving \<noteq> hd_holders r
      then pbind (call (upsert_held_trade_record (r\<lparr>hd_holders := surviving\<rparr>)
          (spread_block_ttl_seconds (dk_venue D) (hd_instrument r) (hd_opened_at r)))) (\<lambda>_. preturn ())
      else preturn ())"

definition restore_and_finish ::
  "('d, 'b) desk \<Rightarrow> held_record \<Rightarrow> time \<Rightarrow> clear_policy \<Rightarrow> restore_reason \<Rightarrow> lifecycle_report
    \<Rightarrow> ('d, 'b, lifecycle_report) prog" where
  "restore_and_finish D r now policy reason rep =
     pbind (restore_cancelled_orders D r now) (\<lambda>_. finish_recover r policy reason rep)"

definition recover_one ::
  "('d, 'b) desk \<Rightarrow> time \<Rightarrow> clear_policy \<Rightarrow> held_record \<Rightarrow> lifecycle_report \<Rightarrow> ('d, 'b, lifecycle_report) prog" where
  "recover_one D now policy r rep =
     (if \<not> hd_applied r then preturn rep
      else pbind (protect r) (\<lambda>p. case p of
        Inl _ \<Rightarrow> preturn rep
      | Inr (True, protected) \<Rightarrow> pbind (extend_hold r protected now) (\<lambda>_. preturn rep)
      | Inr (False, _) \<Rightarrow>
          pbind (release_satisfied D r now) (\<lambda>(surviving, emptied).
            if emptied then restore_and_finish D r now policy SpreadRecovered rep
            else
              pbind (narrow_hold D r surviving) (\<lambda>_.
              if backstop_due (hd_opened_at r) now then restore_and_finish D r now policy Backstop rep
              else preturn rep))))"

definition recover_pass ::
  "('d, 'b) desk \<Rightarrow> string option \<Rightarrow> time \<Rightarrow> clear_policy \<Rightarrow> lifecycle_report \<Rightarrow> ('d, 'b, lifecycle_report) prog" where
  "recover_pass D account now policy rep =
     pbind (call list_all_held_trade_records) (\<lambda>records. case records of
       Inl _ \<Rightarrow> preturn rep
     | Inr records \<Rightarrow>
         pfor (\<lambda>r rep. if hd_account r \<noteq> account then preturn rep else recover_one D now policy r rep) records rep)"

definition pending_order_lifecycle ::
  "('d, 'b) desk \<Rightarrow> string option \<Rightarrow> time \<Rightarrow> clear_policy \<Rightarrow> ('d, 'b, lifecycle_report) prog" where
  "pending_order_lifecycle D account now policy =
     pbind (cancel_pass D account now empty_report) (recover_pass D account now policy)"

end
