(* ===== verification/Lifecycle_Facts.thy ===== *)
theory Lifecycle_Facts
  imports Core_Lifecycle Core_Enter_Facts Core_Reach
begin

text \<open>
  What a pass over the resting orders may do to the broker and to the store: an order is
  cancelled only with its record stored, and re-driven only when every reason has lifted.
\<close>

section \<open>Reads\<close>

lemma lifecycle_reads [simp]:
  "reads (get_order_body oid)" "reads (list_pauses_for_trade t)" "reads (get_held_trade_record t)"
  "reads list_all_held_trade_records"
  by (simp_all add: reads_def get_order_body_def list_pauses_for_trade_def get_held_trade_record_def
      list_all_held_trade_records_def split: option.split)

lemma hold_reasons_world:
  "w_store (snd (hold_reasons V i t now W)) = w_store W" "w_broker (snd (hold_reasons V i t now W)) = w_broker W"
  by (simp_all add: hold_reasons_def pause_active_def call_reads Let_def)

lemma protect_world:
  "w_store (snd (protect r W)) = w_store W" "w_broker (snd (protect r W)) = w_broker W"
  by (simp_all add: protect_def call_reads)

section \<open>A stored record reads back\<close>

lemma held_reads_back:
  assumes "store_inv s" "upsert_held_trade_record r ttl s = (Inr (), s')"
  shows "get_held_trade_record (hd_trade_id r) s' = (Inr (Some r), s')" and "store_inv s'"
proof -
  have s': "s' = store_put (held_key (hd_trade_id r)) (HeldBody r) (max ttl min_ttl_seconds) (store_now s) s"
    using assms(2) by (simp add: upsert_held_trade_record_def put_row_def)
  have "store_now s < store_now s + seconds (int (max ttl min_ttl_seconds))"
    by (simp add: seconds_def min_ttl_seconds_def)
  then have "get_live s' (held_key (hd_trade_id r)) = Some (HeldBody r)"
    unfolding s' by (simp add: get_live_put [OF assms(1)])
  then show "get_held_trade_record (hd_trade_id r) s' = (Inr (Some r), s')"
    by (simp add: get_held_trade_record_def as_held_def)
  show "store_inv s'" unfolding s'
    by (rule store_put_inv [OF assms(1)]) (simp add: typed_row_def held_key_def)
qed

section \<open>Releasing reasons\<close>

text \<open>What releases a reason: no live pause, an open market, a narrow quote or the hour's end.\<close>

definition lifted ::
  "('b \<Rightarrow> 'b \<Rightarrow> bool) \<Rightarrow> ('d, 'b) desk \<Rightarrow> held_record \<Rightarrow> time \<Rightarrow> ('d, 'b) world \<Rightarrow> hold_reason \<Rightarrow> bool" where
  "lifted R D r now W reason =
     (case reason of
        Core_Hold.SpreadHour \<Rightarrow>
          let key = spread_lookup_key (dk_venue D) (hd_instrument r) (hd_account r) in
          \<not> is_spread_hour (dk_venue D) key now \<or>
          (\<exists>b q. R (w_broker W) b \<and> fst (get_quote (dk_broker D) (hd_instrument r) b) = Inr q \<and>
             usable_pip (hd_pip_size r) \<and> fle (fdiv (quote_spread q) (hd_pip_size r)) spread_recovered_pips)
      | MarketHours \<Rightarrow> \<not> market_blackout_due_symbol (dk_venue D) (hd_instrument r) now
      | _ \<Rightarrow> fst (list_pauses_for_trade (hd_trade_id r) (w_store W)) = Inr [])"

lemma lifted_later:
  "quasi R \<Longrightarrow> R (w_broker W) (w_broker W') \<Longrightarrow> w_store W' = w_store W \<Longrightarrow> lifted R D r now W' x \<Longrightarrow>
     lifted R D r now W x"
  unfolding lifted_def by (auto simp: Let_def split: hold_reason.splits intro: quasi_trans)

lemma pause_not_active:
  "\<not> fst (pause_active t W) \<Longrightarrow> fst (list_pauses_for_trade t (w_store W)) = Inr []"
  unfolding pause_active_def by (auto split: sum.splits dest: call_value)

lemma pause_active_world:
  "w_store (snd (pause_active t W)) = w_store W" "w_broker (snd (pause_active t W)) = w_broker W"
  by (simp_all add: pause_active_def call_reads)

lemma reason_released_ok:
  assumes "quasi R" "\<And>i. op_moves R (get_quote (dk_broker D) i)"
  shows "w_store (snd (reason_released D r now x W)) = w_store W"
    and "R (w_broker W) (w_broker (snd (reason_released D r now x W)))"
    and "fst (reason_released D r now x W) \<Longrightarrow> lifted R D r now W x"
proof -
  note defs = reason_released_def spread_hour_released_def Let_def
  show "w_store (snd (reason_released D r now x W)) = w_store W"
    by (cases x) (simp_all add: defs pause_active_world)
  have "moves R (reason_released D r now x)"
    unfolding defs pause_active_def by (cases x) (auto intro!: move_intros assms)
  then show "R (w_broker W) (w_broker (snd (reason_released D r now x W)))" by (simp add: moves_def)
  show "lifted R D r now W x" if "fst (reason_released D r now x W)"
    using that quasi_refl [OF assms(1)]
    by (cases x) (auto simp: defs lifted_def spread_hour_released_at_def bcall_def case_prod_beta
        split: if_splits sum.splits dest: pause_not_active)
qed

lemma released_subset: "release x h = (q, h') \<Longrightarrow> set h \<subseteq> insert x (set h') \<and> (q = Emptied \<longrightarrow> h' = [])"
proof -
  assume r: "release x h = (q, h')"
  define pos where "pos = length (takeWhile (\<lambda>y. y < x) h)"
  have "h = take pos h @ x # drop (Suc pos) h" if "pos < length h" "h ! pos = x"
    using id_take_nth_drop [OF that(1)] that(2) by simp
  then have "set h \<subseteq> insert x (set (vec_remove pos h))" if "pos < length h" "h ! pos = x"
    using that unfolding vec_remove_def
    by (metis (no_types, lifting) Un_insert_right list.simps(15) order_refl set_append)
  then show ?thesis using r
    by (auto simp: release_def binary_search_def pos_def [symmetric] Let_def split: if_splits)
qed

lemma release_empty: "release x [] = (NotHeld, [])"
  by (simp add: release_def binary_search_def)

text \<open>What stands at each point of the loop: a reason gone from the set has lifted.\<close>

lemma release_loop:
  assumes "quasi R" "\<And>i. op_moves R (get_quote (dk_broker D) i)"
    and "R (w_broker V) (w_broker W)" "w_store W = w_store V"
    and "\<forall>x\<in>H. x \<in> set h \<or> lifted R D r now V x" "e \<longrightarrow> h = []"
    and "pfor (release_step D r now) xs (h, e) W = ((h', e'), W')"
  shows "R (w_broker V) (w_broker W') \<and> w_store W' = w_store V \<and>
     (\<forall>x\<in>H. x \<in> set h' \<or> lifted R D r now V x) \<and> (e' \<longrightarrow> h' = [])"
  using assms(3-)
proof (induction xs arbitrary: h e W)
  case (Cons x xs)
  define W1 where "W1 = snd (reason_released D r now x W)"
  have W1: "R (w_broker V) (w_broker W1)" "w_store W1 = w_store V"
    using reason_released_ok(1,2) [OF assms(1,2), where r = r and now = now and x = x and W = W] Cons.prems(1,2)
    by (auto simp: W1_def intro: quasi_trans [OF assms(1)])
  obtain h1 e1 where st: "release_step D r now x (h, e) W = ((h1, e1), W1)"
    by (cases "release_step D r now x (h, e) W") (auto simp: release_step_def W1_def split: if_splits)
  have "(\<forall>y\<in>H. y \<in> set h1 \<or> lifted R D r now V y) \<and> (e1 \<longrightarrow> h1 = [])"
  proof (cases "fst (reason_released D r now x W)")
    case True
    then have "lifted R D r now V x"
      using reason_released_ok(3) [OF assms(1,2)] lifted_later [OF assms(1)] Cons.prems(1,2) by blast
    moreover obtain q h2 where q: "release x h = (q, h2)" by (cases "release x h")
    moreover have "h1 = h2" "e1 \<longleftrightarrow> e \<or> q = Emptied" using st True q by (auto simp: release_step_def)
    moreover have "e \<longrightarrow> h2 = []" using q Cons.prems(4) by (auto simp: release_empty)
    ultimately show ?thesis using released_subset [OF q] Cons.prems(3) by fastforce
  qed (use st Cons.prems(3,4) in \<open>auto simp: release_step_def\<close>)
  then show ?case using Cons.IH [OF W1, of h1 e1] Cons.prems(5) st by simp
qed simp

lemma release_all:
  assumes "quasi R" "\<And>i. op_moves R (get_quote (dk_broker D) i)"
    and "release_satisfied D r now W = ((h', e'), W')"
  shows "R (w_broker W) (w_broker W')" "w_store W' = w_store W"
    and "e' \<Longrightarrow> \<forall>x\<in>set (effective_holders r). lifted R D r now W x"
proof -
  have "pfor (release_step D r now) (effective_holders r) (effective_holders r, False) W = ((h', e'), W')"
    using assms(3) by (simp add: release_satisfied_def)
  then have "R (w_broker W) (w_broker W') \<and> w_store W' = w_store W \<and>
     (\<forall>x\<in>set (effective_holders r). x \<in> set h' \<or> lifted R D r now W x) \<and> (e' \<longrightarrow> h' = [])"
    by (intro release_loop [OF assms(1,2) quasi_refl [OF assms(1)] refl]) auto
  then show "R (w_broker W) (w_broker W')" "w_store W' = w_store W"
    and "e' \<Longrightarrow> \<forall>x\<in>set (effective_holders r). lifted R D r now W x" by auto
qed

section \<open>Records that back up an order\<close>

definition keeps :: "string \<Rightarrow> held_record \<Rightarrow> bool" where
  "keeps oid r \<longleftrightarrow> hd_applied r \<and> hd_holders r \<noteq> [] \<and> oid \<in> set (map co_order_id (hd_cancelled_orders r))"

text \<open>Some live record of the store keeps the order, with a reason to hold it.\<close>

definition backed_up :: "'d mem_store \<Rightarrow> string \<Rightarrow> bool" where
  "backed_up s oid \<longleftrightarrow> (\<exists>t r. get_held_trade_record t s = (Inr (Some r), s) \<and> keeps oid r)"

lemma held_live: "get_held_trade_record t s = (Inr (Some r), s) \<longleftrightarrow> get_live s (held_key t) = Some (HeldBody r)"
  by (auto simp: get_held_trade_record_def as_held_def split: option.splits body.splits)

lemma held_id:
  "store_inv s \<Longrightarrow> get_live s (held_key t) = Some (HeldBody r) \<Longrightarrow> hd_trade_id r = t"
  by (drule (1) live_row_typed) (simp add: typed_row_def key_simps)

lemma held_key_eq [simp]: "held_key t = held_key u \<longleftrightarrow> t = u"
  by (simp add: held_key_def)

lemma upsert_store:
  "snd (upsert_held_trade_record r ttl s) =
     store_put (held_key (hd_trade_id r)) (HeldBody r) (max ttl min_ttl_seconds) (store_now s) s"
  by (simp add: upsert_held_trade_record_def put_row_def)

lemma upsert_live:
  assumes "store_inv s"
  shows "get_live (snd (upsert_held_trade_record r ttl s)) k =
     (if k = held_key (hd_trade_id r) then Some (HeldBody r) else get_live s k)"
proof -
  have "store_now s < store_now s + seconds (int (max ttl min_ttl_seconds))"
    by (simp add: seconds_def min_ttl_seconds_def)
  then show ?thesis unfolding upsert_store by (simp add: get_live_put [OF assms])
qed

lemma upsert_inv: "store_inv s \<Longrightarrow> store_inv (snd (upsert_held_trade_record r ttl s))"
  unfolding upsert_store by (rule store_put_inv) (simp_all add: typed_row_def held_key_def)

lemma backed_up_upsert:
  assumes "store_inv s" "backed_up s oid"
    and "\<And>r0. get_live s (held_key (hd_trade_id r)) = Some (HeldBody r0) \<Longrightarrow> keeps oid r0 \<Longrightarrow> keeps oid r"
  shows "backed_up (snd (upsert_held_trade_record r ttl s)) oid"
proof -
  obtain t r0 where r0: "get_live s (held_key t) = Some (HeldBody r0)" "keeps oid r0"
    using assms(2) unfolding backed_up_def held_live by blast
  show ?thesis
  proof (cases "t = hd_trade_id r")
    case True
    then show ?thesis unfolding backed_up_def held_live
      using r0 assms(3) by (intro exI [of _ t] exI [of _ r]) (simp add: upsert_live [OF assms(1)])
  next
    case False
    then show ?thesis unfolding backed_up_def held_live
      using r0 by (intro exI [of _ t] exI [of _ r0]) (simp add: upsert_live [OF assms(1)])
  qed
qed

lemma hold_adds: "snd (hold x h) \<noteq> []"
  by (auto simp: hold_def vec_insert_def binary_search_def Let_def)

lemma hold_all_nonempty: "xs \<noteq> [] \<or> h \<noteq> [] \<Longrightarrow> fold (\<lambda>x h. snd (hold x h)) xs h \<noteq> []"
  by (induction xs arbitrary: h) (auto simp: hold_adds)

lemma protect_keeps:
  assumes "fst (protect r W) = Inr (b, r')"
  shows "hd_trade_id r' = hd_trade_id r" "keeps oid r \<Longrightarrow> keeps oid r'"
  using assms
  by (auto simp: protect_def protected_by_def keeps_def hold_adds split: if_splits sum.splits option.splits)

lemma merge_keeps:
  assumes "reasons \<noteq> []"
  shows "keeps (co_order_id c) (merge_cancelled_order V e t ins a pip c reasons now)"
    and "e = Some r0 \<Longrightarrow> keeps oid r0 \<Longrightarrow> keeps oid (merge_cancelled_order V e t ins a pip c reasons now)"
    and "(\<And>r0. e = Some r0 \<Longrightarrow> hd_trade_id r0 = t) \<Longrightarrow>
      hd_trade_id (merge_cancelled_order V e t ins a pip c reasons now) = t"
proof -
  have n: "fold (\<lambda>x h. snd (hold x h)) reasons h \<noteq> []" for h
    using hold_all_nonempty assms by blast
  show "keeps (co_order_id c) (merge_cancelled_order V e t ins a pip c reasons now)"
    by (auto simp: merge_cancelled_order_def keeps_def n list_ex_iff image_iff Let_def) metis+
  show "e = Some r0 \<Longrightarrow> keeps oid r0 \<Longrightarrow> keeps oid (merge_cancelled_order V e t ins a pip c reasons now)"
    by (auto simp: merge_cancelled_order_def keeps_def n Let_def)
  show "(\<And>r0. e = Some r0 \<Longrightarrow> hd_trade_id r0 = t) \<Longrightarrow>
      hd_trade_id (merge_cancelled_order V e t ins a pip c reasons now) = t"
    by (cases e) (simp_all add: merge_cancelled_order_def fresh_hold_def Let_def)
qed

section \<open>Cancelling\<close>

text \<open>A step keeps the store's invariant and every backup except that of \<open>oid\<close>.\<close>

definition guards :: "string \<Rightarrow> 'd mem_store \<Rightarrow> 'd mem_store \<Rightarrow> bool" where
  "guards oid s s' \<longleftrightarrow> store_inv s \<longrightarrow>
     store_inv s' \<and> (\<forall>x. x \<noteq> oid \<longrightarrow> backed_up s x \<longrightarrow> backed_up s' x)"

lemma guards_refl [simp]: "guards oid s s"
  by (simp add: guards_def)

lemma guards_trans: "guards oid s t \<Longrightarrow> guards oid t u \<Longrightarrow> guards oid s u"
  by (auto simp: guards_def)

lemma call_store:
  "w_store (snd (call f W)) = w_store W \<or> w_store (snd (call f W)) = snd (f (w_store W))"
  by (auto simp: call_def case_prod_beta split: list.splits call_outcome.splits)

lemma guards_call: "guards oid (w_store W) (snd (f (w_store W))) \<Longrightarrow> guards oid (w_store W) (w_store (snd (call f W)))"
  using call_store [of f W] by auto

lemma store_and_cancel_cases:
  assumes inv: "store_inv (w_store W)" and rs: "reasons \<noteq> []"
  obtains (kept) W1 where "store_and_cancel D a order t si pip reasons now rep W = (rep, W1)"
      "w_broker W1 = w_broker W" "guards (pg_order_id order) (w_store W) (w_store W1)"
  | (stored) r ttl W1 where
      "store_and_cancel D a order t si pip reasons now rep W = cancel_stored D a order r ttl rep W1"
      "w_broker W1 = w_broker W" "guards (pg_order_id order) (w_store W) (w_store W1)"
      "get_held_trade_record t (w_store W1) = (Inr (Some r), w_store W1)" "keeps (pg_order_id order) r"
proof -
  let ?c = "\<lparr>co_order_id = pg_order_id order, co_signed_intent = si\<rparr>"
  define W0 where "W0 = snd (call (get_held_trade_record t) W)"
  have W0: "w_store W0 = w_store W" "w_broker W0 = w_broker W" by (simp_all add: W0_def call_reads)
  show thesis
  proof (cases "fst (call (get_held_trade_record t) W)")
    case (Inl e)
    then show thesis using W0 by (intro kept [of W0]) (simp_all add: store_and_cancel_def Let_def W0_def)
  next
    case (Inr e)
    define m where "m = merge_cancelled_order (dk_venue D) e t (pg_instrument order) a pip ?c reasons now"
    define W1 where "W1 = snd (protect m W0)"
    have W1: "w_store W1 = w_store W" "w_broker W1 = w_broker W" by (simp_all add: W1_def protect_world W0)
    have e: "e = Some r0 \<longleftrightarrow> get_live (w_store W) (held_key t) = Some (HeldBody r0)" for r0
      using call_value [OF Inr] W0_def W0 held_live [of t "w_store W"] by auto
    have mid: "hd_trade_id m = t" unfolding m_def
      using e held_id [OF inv] by (intro merge_keeps(3) [OF rs]) blast
    show thesis
    proof (cases "fst (protect m W0)")
      case (Inl x)
      then show thesis using W1 Inr
        by (intro kept [of W1]) (simp_all add: store_and_cancel_def Let_def W0_def W1_def m_def)
    next
      case (Inr p)
      obtain b r where p: "p = (b, r)" by (cases p)
      note pk = protect_keeps [OF Inr [unfolded p]]
      define ttl where "ttl = max (spread_block_ttl_seconds (dk_venue D) (pg_instrument order) (hd_opened_at r))
          (nat (max 1 (num_seconds (hd_expires_at r - now))))"
      define W2 where "W2 = snd (call (upsert_held_trade_record r ttl) W1)"
      have rid: "hd_trade_id r = t" using pk(1) mid by simp
      have k: "keeps (pg_order_id order) r" using merge_keeps(1) [OF rs, of ?c] pk(2) by (simp add: m_def)
      have "backed_up (snd (upsert_held_trade_record r ttl (w_store W))) x" if "backed_up (w_store W) x" for x
      proof (intro backed_up_upsert [OF inv that])
        fix r0 assume "get_live (w_store W) (held_key (hd_trade_id r)) = Some (HeldBody r0)" "keeps x r0"
        then have "e = Some r0" and k: "keeps x r0" by (simp_all add: e rid)
        show "keeps x r" by (rule pk(2)) (unfold m_def, rule merge_keeps(2) [OF rs \<open>e = Some r0\<close> k])
      qed
      then have up: "guards (pg_order_id order) (w_store W1) (snd (upsert_held_trade_record r ttl (w_store W1)))"
        by (simp add: guards_def W1 upsert_inv inv)
      have W2: "w_broker W2 = w_broker W" "guards (pg_order_id order) (w_store W) (w_store W2)"
        using guards_call [where f = "upsert_held_trade_record r ttl", OF up] by (simp_all add: W2_def W1)
      show thesis
      proof (cases "fst (call (upsert_held_trade_record r ttl) W1)")
        case (Inl x)
        then show thesis using W2 Inr p \<open>fst (call (get_held_trade_record t) W) = Inr e\<close>
          by (intro kept [of W2]) (simp_all add: store_and_cancel_def Let_def W0_def W1_def W2_def m_def ttl_def)
      next
        case ok: (Inr u)
        have "w_store W2 = snd (upsert_held_trade_record r ttl (w_store W))"
          using call_value [OF ok] W2_def W1 by simp
        then have "get_held_trade_record t (w_store W2) = (Inr (Some r), w_store W2)"
          unfolding held_live by (simp add: upsert_live [OF inv] rid)
        then show thesis using W2 ok k p Inr \<open>fst (call (get_held_trade_record t) W) = Inr e\<close>
          by (intro stored [of r ttl W2])
            (simp_all add: store_and_cancel_def Let_def W0_def W1_def W2_def m_def ttl_def)
      qed
    qed
  qed
qed

lemma clear_live:
  "store_inv s \<Longrightarrow> get_live (snd (clear_held_trade_record t s)) k = (if k = held_key t then None else get_live s k)"
  by (simp add: clear_held_trade_record_def clear_row_def get_live_delete)

lemma order_body_guards: "guards oid s (snd (delete_order_body x s))"
proof -
  have "held_key t \<noteq> colon_key [''order'', x]" for t by (simp add: key_simps)
  then show ?thesis
    by (simp add: guards_def backed_up_def held_live delete_order_body_def delete_row_def clear_row_def
        store_delete_inv get_live_delete case_prod_beta)
qed

lemma drop_guards:
  fixes W :: "('d, 'b) world"
  assumes "get_held_trade_record (hd_trade_id r) (w_store W) = (Inr (Some r), w_store W)" "keeps oid r"
  shows "guards oid (w_store W) (w_store (snd (drop_cancelled_order r oid ttl W)))"
    and "w_broker (snd (drop_cancelled_order r oid ttl W)) = w_broker W"
proof -
  define q where "q = r\<lparr>hd_cancelled_orders := filter (\<lambda>c. co_order_id c \<noteq> oid) (hd_cancelled_orders r)\<rparr>"
  define f :: "('d, unit) store_op" where "f = (if hd_cancelled_orders q = [] \<and> hd_original_stops q = []
      then clear_held_trade_record (hd_trade_id q) else upsert_held_trade_record q ttl)"
  note live = assms(1) [unfolded held_live]
  have "guards oid (w_store W) (snd (f (w_store W)))"
  proof (cases "hd_cancelled_orders q = [] \<and> hd_original_stops q = []")
    case True
    then have "\<not> keeps x r" if "x \<noteq> oid" for x
      using that by (auto simp: q_def keeps_def filter_empty_conv)
    then show ?thesis using True live
      by (auto simp: f_def guards_def clear_held_trade_record_def clear_row_def store_delete_inv get_live_delete
          backed_up_def held_live q_def split: if_splits)
        (metis (no_types) body.inject option.inject)
  next
    case False
    have "keeps x r \<Longrightarrow> keeps x q" if "x \<noteq> oid" for x using that by (auto simp: q_def keeps_def)
    then show ?thesis using False live
      by (auto simp: f_def guards_def upsert_inv q_def intro!: backed_up_upsert)
  qed
  then have g: "guards oid (w_store W) (w_store (snd (call f W)))" by (rule guards_call)
  have "drop_cancelled_order r oid ttl W = cleanup_body oid (snd (call f W))"
    by (simp add: drop_cancelled_order_def f_def q_def Let_def)
  then show "guards oid (w_store W) (w_store (snd (drop_cancelled_order r oid ttl W)))"
    and "w_broker (snd (drop_cancelled_order r oid ttl W)) = w_broker W"
    using guards_trans [OF g guards_call [where f = "delete_order_body oid", OF order_body_guards]]
    by (simp_all add: cleanup_body_def)
qed

text \<open>After a cancel attempt the order is backed up, or the broker said that it is gone.\<close>

lemma cancel_stored_ok:
  assumes "store_inv (w_store W)" "get_held_trade_record t (w_store W) = (Inr (Some r), w_store W)"
    and "keeps (pg_order_id order) r" "cancel_stored D a order r ttl rep W = (rep', W')"
  shows "guards (pg_order_id order) (w_store W) (w_store W')"
    and "lr_cancelled rep' = lr_cancelled rep \<or>
      lr_cancelled rep' = lr_cancelled rep @ [pg_order_id order] \<and> backed_up (w_store W') (pg_order_id order)"
proof -
  let ?oid = "pg_order_id order"
  define f where "f = cancel_order (dk_broker D) (or_else a []) ?oid"
  define W1 where "W1 = snd (bcall f W)"
  define W2 where "W2 = snd (classify_cancel_failure D order W1)"
  have W1: "w_store W1 = w_store W" by (simp add: W1_def)
  have W2: "w_store W2 = w_store W" by (simp add: W2_def W1 classify_cancel_failure_def)
  have t: "hd_trade_id r = t" using held_id [OF assms(1)] assms(2) held_live by blast
  have d: "guards ?oid (w_store W) (w_store (snd (drop_cancelled_order r ?oid ttl W2)))"
    using drop_guards(1) [of r W2 ?oid ttl] assms(2,3) by (simp add: W2 t)
  have "guards ?oid (w_store W) (w_store W') \<and> (lr_cancelled rep' = lr_cancelled rep \<or>
      lr_cancelled rep' = lr_cancelled rep @ [?oid] \<and> backed_up (w_store W') ?oid)"
  proof (cases "fst (f (w_broker W))")
    case (Inl e)
    have "cancel_stored D a order r ttl rep W = (rep\<lparr>lr_cancel_failed := lr_cancel_failed rep @
        [(?oid, fst (classify_cancel_failure D order W1))]\<rparr>,
        snd ((if drops_from_record (fst (classify_cancel_failure D order W1))
          then drop_cancelled_order r ?oid ttl else preturn ()) W2))"
      using Inl by (simp add: cancel_stored_def Let_def f_def W1_def W2_def)
    then show ?thesis using assms(4) d by (auto simp: W2 split: if_splits)
  next
    case (Inr u)
    then have "cancel_stored D a order r ttl rep W = (rep\<lparr>lr_cancelled := lr_cancelled rep @ [?oid]\<rparr>, W1)"
      by (simp add: cancel_stored_def Let_def f_def W1_def)
    then show ?thesis using assms(2-4) by (auto simp: W1 backed_up_def)
  qed
  then show "guards (pg_order_id order) (w_store W) (w_store W')"
    and "lr_cancelled rep' = lr_cancelled rep \<or>
      lr_cancelled rep' = lr_cancelled rep @ [pg_order_id order] \<and> backed_up (w_store W') (pg_order_id order)"
    by auto
qed

text \<open>One order: the pass leaves it alone, or stores its record and then cancels.\<close>

lemma try_cancel_one_cases:
  assumes inv: "store_inv (w_store W)"
  obtains (kept) rep' W1 where "try_cancel_one D a now order rep W = (rep', W1)"
      "lr_cancelled rep' = lr_cancelled rep" "w_broker W1 = w_broker W"
      "guards (pg_order_id order) (w_store W) (w_store W1)"
  | (stored) t r ttl W1 where
      "try_cancel_one D a now order rep W = cancel_stored D a order r ttl rep W1"
      "w_broker W1 = w_broker W" "guards (pg_order_id order) (w_store W) (w_store W1)"
      "get_held_trade_record t (w_store W1) = (Inr (Some r), w_store W1)" "keeps (pg_order_id order) r"
proof -
  let ?oid = "pg_order_id order"
  define W0 where "W0 = snd (call (get_order_body ?oid) W)"
  have W0: "w_store W0 = w_store W" "w_broker W0 = w_broker W" by (simp_all add: W0_def call_reads)
  note defs = try_cancel_one_def Let_def W0_def
  show thesis
  proof (cases "fst (call (get_order_body ?oid) W)")
    case (Inl e)
    then show thesis using W0 by (intro kept [of rep W0]) (simp_all add: defs)
  next
    case body: (Inr body)
    show thesis
    proof (cases "dk_source D ?oid body now")
      case (Recovered v)
      define t where "t = or_else (i_trade_id (v_intent v)) ?oid"
      define si where "si = (case body of Some b \<Rightarrow> b | None \<Rightarrow> ''replay-order: '' @ ?oid @ [CHR 0x0A])"
      define W1 where "W1 = snd (hold_reasons (dk_venue D) (pg_instrument order) t now W0)"
      have W1: "w_store W1 = w_store W" "w_broker W1 = w_broker W" by (simp_all add: W1_def hold_reasons_world W0)
      define reasons where "reasons = fst (hold_reasons (dk_venue D) (pg_instrument order) t now W0)"
      note d = defs t_def si_def W1_def reasons_def
      show thesis
      proof (cases "\<exists>pip. reasons \<noteq> [] \<and> i_pip_size (v_intent v) = Some pip \<and> usable_pip pip")
        case True
        then obtain pip where rs: "reasons \<noteq> []" and pip: "i_pip_size (v_intent v) = Some pip" "usable_pip pip"
          by blast
        have tc: "try_cancel_one D a now order rep W =
            store_and_cancel D a order t si pip reasons now rep W1"
          using body Recovered rs pip by (simp add: d)
        have inv1: "store_inv (w_store W1)" using inv W1 by simp
        show thesis
          by (rule store_and_cancel_cases [OF inv1 rs, of D a order t si pip now rep])
            (use tc W1 kept stored in auto)
      next
        case False
        then have "try_cancel_one D a now order rep W = (skipping ?oid rep, W1)"
          using body Recovered by (auto simp: d split: option.split)
        then show thesis using W1 by (intro kept [of "skipping ?oid rep" W1]) (simp_all add: skipping_def)
      qed
    qed (use body W0 in \<open>intro kept [of "skipping ?oid rep" W0]; simp add: defs skipping_def\<close>)+
  qed
qed

lemma try_cancel_one_ok:
  assumes "store_inv (w_store W)" "try_cancel_one D a now order rep W = (rep', W')"
  shows "guards (pg_order_id order) (w_store W) (w_store W')"
    and "lr_cancelled rep' = lr_cancelled rep \<or>
      lr_cancelled rep' = lr_cancelled rep @ [pg_order_id order] \<and> backed_up (w_store W') (pg_order_id order)"
proof -
  have "guards (pg_order_id order) (w_store W) (w_store W') \<and> (lr_cancelled rep' = lr_cancelled rep \<or>
      lr_cancelled rep' = lr_cancelled rep @ [pg_order_id order] \<and> backed_up (w_store W') (pg_order_id order))"
  proof (cases rule: try_cancel_one_cases [OF assms(1), of D a now order rep, case_names kept stored])
    case (stored t r ttl W1)
    then have "store_inv (w_store W1)" using assms(1) by (simp add: guards_def)
    from cancel_stored_ok [OF this stored(4,5), of D a ttl rep rep' W'] show ?thesis
      using stored(1,3) assms(2) guards_trans by (metis (no_types))
  qed (use assms(2) in auto)
  then show "guards (pg_order_id order) (w_store W) (w_store W')"
    and "lr_cancelled rep' = lr_cancelled rep \<or>
      lr_cancelled rep' = lr_cancelled rep @ [pg_order_id order] \<and> backed_up (w_store W') (pg_order_id order)"
    by auto
qed

lemma cancel_loop:
  assumes "store_inv (w_store W)" "distinct (map pg_order_id orders)"
    and "\<forall>x\<in>set (lr_cancelled rep). backed_up (w_store W) x \<and> x \<notin> pg_order_id ` set orders"
    and "pfor (try_cancel_one D a now) orders rep W = (rep', W')"
  shows "\<forall>x\<in>set (lr_cancelled rep'). backed_up (w_store W') x"
  using assms
proof (induction orders arbitrary: rep W)
  case (Cons order orders)
  obtain rep1 W1 where one: "try_cancel_one D a now order rep W = (rep1, W1)"
    by (cases "try_cancel_one D a now order rep W")
  note ok = try_cancel_one_ok [OF Cons.prems(1) one]
  have inv: "store_inv (w_store W1)" using ok(1) Cons.prems(1) by (simp add: guards_def)
  have "\<forall>x\<in>set (lr_cancelled rep1). backed_up (w_store W1) x \<and> x \<notin> pg_order_id ` set orders"
    using ok Cons.prems(1-3) by (fastforce simp: guards_def image_iff)
  then show ?case using Cons.IH [OF inv _ _, of rep1] Cons.prems(2,4) one by simp
qed simp

section \<open>Restoring\<close>

lemma move_clear [move_intros]: "quasi R \<Longrightarrow> moves R (clear_hold r)"
  unfolding clear_hold_def by (intro move_intros)

lemma move_finish [move_intros]: "quasi R \<Longrightarrow> moves R (finish_recover r policy reason rep)"
  unfolding finish_recover_def Let_def by (cases policy) (auto intro!: move_intros)

lemma move_narrow [move_intros]: "quasi R \<Longrightarrow> moves R (narrow_hold D r h)"
  unfolding narrow_hold_def by (auto intro!: move_intros)

lemma move_extend [move_intros]: "quasi R \<Longrightarrow> moves R (extend_hold r q now)"
  unfolding extend_hold_def by (auto intro!: move_intros)

lemma movesD: "moves R m \<Longrightarrow> R (w_broker W) (w_broker (snd (m W)))"
  by (simp add: moves_def)

text \<open>A recovery that moves the broker went through its gates.\<close>

lemma recover_gates:
  assumes R: "quasi R" "\<And>i. op_moves R (get_quote (dk_broker D) i)"
    and moved: "\<not> R (w_broker W) (w_broker (snd (recover_one D now policy r rep W)))"
  shows "hd_applied r \<and> hd_cancelled_orders r \<noteq> [] \<and>
    (\<exists>pauses. fst (list_pauses_for_trade (hd_trade_id r) (w_store W)) = Inr pauses \<and> \<not> fst (protected_by pauses r)) \<and>
    (backstop_due (hd_opened_at r) now \<or> (\<forall>x\<in>set (effective_holders r). lifted R D r now W x))"
proof -
  define W1 where "W1 = snd (protect r W)"
  have W1: "w_store W1 = w_store W" "w_broker W1 = w_broker W" by (simp_all add: W1_def protect_world)
  have still: "R (w_broker W) (w_broker W1)" using W1 quasi_refl [OF R(1)] by simp
  have app: "hd_applied r" using moved quasi_refl [OF R(1)] by (auto simp: recover_one_def split: if_splits)
  obtain q where p: "fst (protect r W) = Inr (False, q)"
  proof (cases "fst (protect r W)")
    case (Inl e)
    then show ?thesis using moved app still by (simp add: recover_one_def W1_def [symmetric])
  next
    case (Inr p)
    obtain b q where p: "p = (b, q)" by (cases p)
    show ?thesis
    proof (cases b)
      case True
      then show ?thesis
        using moved app Inr p quasi_trans [OF R(1) still] movesD [OF move_extend [OF R(1)], where W = W1]
        by (simp add: recover_one_def W1_def [symmetric])
    qed (use Inr p that in simp)
  qed
  obtain h e W2 where rel: "release_satisfied D r now W1 = ((h, e), W2)"
    by (cases "release_satisfied D r now W1") auto
  note ok = release_all [OF R rel]
  have still2: "R (w_broker W) (w_broker W2)" using ok(1) W1 by simp
  have ne: "hd_cancelled_orders r \<noteq> []"
  proof
    assume "hd_cancelled_orders r = []"
    then have "moves R (restore_and_finish D r now policy x rep)" for x
      unfolding restore_and_finish_def restore_cancelled_orders_def by (simp add: move_intros R)
    then have "moves R (if e then restore_and_finish D r now policy SpreadRecovered rep
        else pbind (narrow_hold D r h) (\<lambda>_. if backstop_due (hd_opened_at r) now
          then restore_and_finish D r now policy Backstop rep else preturn rep))"
      by (intro move_intros R)
    from quasi_trans [OF R(1) still2 movesD [OF this, of W2]] show False
      using moved app p rel by (simp add: recover_one_def W1_def [symmetric] split: if_splits)
  qed
  have pauses: "\<exists>pauses. fst (list_pauses_for_trade (hd_trade_id r) (w_store W)) = Inr pauses \<and>
      \<not> fst (protected_by pauses r)"
    using p ne by (auto simp: protect_def split: sum.splits dest: call_value)
  have "e \<or> backstop_due (hd_opened_at r) now"
  proof (rule ccontr)
    assume "\<not> ?thesis"
    then show False
      using moved app p rel quasi_trans [OF R(1) still2 movesD [OF move_narrow [OF R(1)], of W2]]
      by (simp add: recover_one_def W1_def [symmetric])
  qed
  then show ?thesis using app ne pauses ok(3) lifted_later [OF R(1) still] W1 by blast
qed

end
