(* ===== verification/Lifecycle_Properties.thy ===== *)
theory Lifecycle_Properties
  imports Lifecycle_Facts Core_Enter_Example
begin

text \<open>
  The properties of the pass over resting orders: the record before the cancel, the backup of
  every order it reports as cancelled, and the conditions of a restore. The runs that witness
  them hold and bring back an order of the trade of \<open>Core_Enter_Example\<close>.
\<close>

section \<open>A desk\<close>

text \<open>The broker quotes 60 to 61 and lists one resting order.\<close>

definition ex_resting :: pending_order where
  "ex_resting = \<lparr>pg_order_id = ''o9'', pg_instrument = ''EUR_USD'', pg_direction = Long,
     pg_trigger = Fin 100, pg_is_stop = True, pg_stake = Fin 1\<rparr>"

definition quoting_broker :: "(nat \<times> nat) broker" where
  "quoting_broker = tally_broker\<lparr>get_quote := \<lambda>_ b. (Inr \<lparr>qt_bid = Fin 60, qt_ask = Fin 61\<rparr>, b)\<rparr>"

definition ex_desk :: "(unit, nat \<times> nat) desk" where
  "ex_desk = \<lparr>dk_platform = ex_platform, dk_broker = quoting_broker,
     dk_list_pending = \<lambda>_ b. (Inr [ex_resting], b), dk_attempt_state = \<lambda>_ _ _ b. (Inr Pending, b),
     dk_config = \<lambda>_. en_cfg ex_call,
     dk_source = \<lambda>_ _ _. Recovered \<lparr>v_intent = ex_entering, v_shell = ex_shell\<rparr>\<rparr>"

text \<open>The store answers the order's body; its list of pauses cannot be read.\<close>

definition ex_unreadable :: "(unit, nat \<times> nat) world" where
  "ex_unreadable = \<lparr>w_store = empty_store 0, w_faults = [Served, Refused], w_broker = (0, 0)\<rparr>"

definition ex_held :: held_record where
  "ex_held = \<lparr>hd_trade_id = ''t1'', hd_instrument = ''EUR_USD'', hd_account = Some ''acc'', hd_applied = True,
     hd_holders = [NewsPause], hd_opened_at = 0, hd_expires_at = 0, hd_pip_size = Fin 1,
     hd_original_stops = [], hd_cancelled_orders = [\<lparr>co_order_id = ''o9'', co_signed_intent = ''body''\<rparr>],
     hd_stored_orders = []\<rparr>"

lemma ex_desk_simps [simp]:
  "dk_platform ex_desk = ex_platform" "dk_broker ex_desk = quoting_broker"
  "dk_list_pending ex_desk a b = (Inr [ex_resting], b)" "dk_attempt_state ex_desk i oid t b = (Inr Pending, b)"
  "dk_config ex_desk v = en_cfg ex_call"
  "dk_source ex_desk oid body now = Recovered \<lparr>v_intent = ex_entering, v_shell = ex_shell\<rparr>"
  by (simp_all add: ex_desk_def)

lemma ex_pending_simps [simp]: "pg_order_id ex_resting = ''o9''" "pg_instrument ex_resting = ''EUR_USD''"
  by (simp_all add: ex_resting_def)

lemma quoting_ops [simp]:
  "cancel_order quoting_broker a oid b = (Inr (), (fst b + 1, snd b))"
  "get_quote quoting_broker i b = (Inr \<lparr>qt_bid = Fin 60, qt_ask = Fin 61\<rparr>, b)"
  "snd (place_entry quoting_broker cap n req b) = (fst b, snd b + 1)"
  by (simp_all add: quoting_broker_def)

lemma ex_entering_pip [simp]: "i_pip_size ex_entering = Some (Fin 1)"
  by (simp add: ex_entering_def)

lemma ex_pip [simp]: "usable_pip (Fin 1)"
  by (simp add: usable_pip_def fgt_def)

lemma ex_market_open [simp]: "\<not> market_blackout_due_symbol ex_venue ''EUR_USD'' now"
  by (simp add: market_blackout_due_symbol_def market_hours_blocked_def baked_market_hours_def
      baked_daily_hours_def ex_venue_def)

lemma ex_paused: "hold_reasons ex_venue ''EUR_USD'' t now (ex_unreadable\<lparr>w_faults := [Refused]\<rparr>) =
    ([NewsPause], ex_unreadable\<lparr>w_faults := []\<rparr>)"
  by (simp add: hold_reasons_def pause_active_def call_def ex_unreadable_def holders_new_def hold_def
      binary_search_def vec_insert_def)

lemma ex_body_read: "call (get_order_body oid) ex_unreadable = (Inr None, ex_unreadable\<lparr>w_faults := [Refused]\<rparr>)"
  by (simp add: call_def ex_unreadable_def get_order_body_def)

lemma no_alignment: "holders_contains MaAlignment [NewsPause] = False"
  by (simp add: holders_contains_def binary_search_def less_hold_reason_def)

lemma ex_no_pauses: "list_pauses_for_trade t (empty_store w) = (Inr [], empty_store w)"
  by (simp add: list_pauses_for_trade_def live_under_def decode_all_def empty_store_def)

lemma ex_store_and_cancel:
  "\<exists>s. store_and_cancel ex_desk (Some ''acc'') ex_resting t si (Fin 1) [NewsPause] 0 empty_report
     (ex_unreadable\<lparr>w_faults := []\<rparr>) =
     (empty_report\<lparr>lr_cancelled := [''o9'']\<rparr>, \<lparr>w_store = s, w_faults = [], w_broker = (1, 0)\<rparr>)"
  by (simp add: store_and_cancel_def Let_def call_def ex_unreadable_def get_held_trade_record_def
      protect_def ex_no_pauses protected_by_def merge_cancelled_order_def fresh_hold_def holders_new_def
      hold_def binary_search_def vec_insert_def no_alignment upsert_held_trade_record_def put_row_def
      cancel_stored_def bcall_def empty_report_def)

lemma ex_cancel_run:
  "\<exists>s. try_cancel_one ex_desk (Some ''acc'') 0 ex_resting empty_report ex_unreadable =
     (empty_report\<lparr>lr_cancelled := [''o9'']\<rparr>, \<lparr>w_store = s, w_faults = [], w_broker = (1, 0)\<rparr>)"
  using ex_store_and_cancel
  by (simp add: try_cancel_one_def Let_def ex_body_read ex_paused)

text \<open>The re-drive of the held order reaches the placement.\<close>

abbreviation ex_redrive :: "unit entry_call" where
  "ex_redrive \<equiv> redrive_call ex_desk \<lparr>v_intent = ex_entering, v_shell = ex_shell\<rparr>
     \<lparr>co_order_id = ''o9'', co_signed_intent = ''body''\<rparr> 0"

lemma ex_redrive_simps [simp]:
  "en_verified ex_redrive = \<lparr>v_intent = ex_entering, v_shell = ex_shell\<rparr>" "en_now ex_redrive = 0"
  "en_cfg ex_redrive = en_cfg ex_call" "en_granularity ex_redrive = None" "en_origin ex_redrive = Replacing ''o9''"
  by (simp_all add: redrive_call_def)

lemma quoting_moves:
  "asks_move R quoting_broker \<longleftrightarrow> reflp R" "orders_move R quoting_broker \<longleftrightarrow> (\<forall>b. R b (fst b, snd b + 1))"
  by (auto simp: asks_move_def orders_move_def op_moves_def reflp_def quoting_broker_def)

lemma ex_floor:
  "spread_floor_stage ex_platform quoting_broker ex_redrive ''t1'' ex_resolved ex_book = (Inr (Fin 50), ex_book)"
  by (simp add: spread_floor_stage_def effective_spread_def windowed_entry_spread_def bcall_def ex_resolved_def
      ex_book_def quote_spread_def fsub_def widen_sl_to_spread_floor_def sl_spread_floor_violation_def
      sl_min_spread_multiple_def)

lemma ex_redrive_run:
  "run_enter ex_platform quoting_broker ex_redrive ex_book =
     place_stage ex_platform quoting_broker ex_redrive ''t1'' ex_resolved (Fin 50) None None ex_book"
  by (simp add: run_enter_def or_return_cases ex_stages ex_resolve_stage ex_gates blackout_stage_def
      is_replacement_def ex_floor retry_stage_def needs_gate_def skips_retry_gate_def Let_def)

lemma ex_redrive_places: "0 < snd (w_broker (snd (run_enter ex_platform quoting_broker ex_redrive ex_book)))"
  using place_counts [of snd quoting_broker ex_book] by (simp add: ex_redrive_run quoting_moves reflp_def)

lemma ex_read [simp]: "reads f \<Longrightarrow> call f ex_book = (fst (f (w_store ex_book)), ex_book)"
  by (rule call_reads_healthy) simp_all

lemma ex_not_protected: "protect ex_held ex_book = (Inr (False, ex_held), ex_book)"
  by (simp add: protect_def protected_by_def ex_held_def no_alignment list_pauses_for_trade_def decode_all_def)

lemma ex_released: "release_satisfied ex_desk ex_held 0 ex_book = (([], True), ex_book)"
  by (simp add: release_satisfied_def effective_holders_def ex_held_def release_step_def reason_released_def
      pause_active_def list_pauses_for_trade_def decode_all_def release_def binary_search_def vec_remove_def)

lemma ex_restore_one:
  "w_broker (snd (restore_one_order ex_desk ex_held 0 \<lparr>co_order_id = ''o9'', co_signed_intent = ''body''\<rparr> ex_book)) =
     w_broker (snd (run_enter ex_platform quoting_broker ex_redrive ex_book))"
proof -
  have r: "rs_instrument ex_resolved = ''EUR_USD''" "rs_recover_entry ex_resolved = None"
    "restore_plan_of (rs_entry ex_resolved) (rs_direction ex_resolved) (rs_stop_loss ex_resolved)
       (rs_take_profit ex_resolved) (Fin 60) (Fin 61) None = Redrive"
    by (simp_all add: ex_resolved_def restore_plan_of_def recreate_stop_def fsub_def)
  have t: "i_tick_size ex_entering = None" by (simp add: ex_entering_def ex_intent_def)
  have q: "bcall (get_quote quoting_broker i) ex_book = (Inr \<lparr>qt_bid = Fin 60, qt_ask = Fin 61\<rparr>, ex_book)" for i
    by (simp add: bcall_def ex_book_def)
  show ?thesis
    by (simp add: restore_one_order_def Let_def restore_pip_def or_else_def t ex_from_intent q r cleanup_body_def)
qed

lemma ex_recover_run:
  "0 < snd (w_broker (snd (recover_one ex_desk 0 LeaveForCaller ex_held empty_report ex_book)))"
proof -
  have "hd_applied ex_held" "hd_cancelled_orders ex_held = [\<lparr>co_order_id = ''o9'', co_signed_intent = ''body''\<rparr>]"
    by (simp_all add: ex_held_def)
  then show ?thesis
    using ex_redrive_places
    by (simp add: recover_one_def ex_not_protected ex_released restore_and_finish_def finish_recover_def
        restore_cancelled_orders_def ex_restore_one Let_def)
qed

section \<open>Holding\<close>

text \<open>
  C7: an order is taken off the book only after its record is stored. If handling one resting
  order changes the broker in any way, then first, with the broker untouched, the store holds
  under the trade's id a live record that is applied, has a reason to hold and keeps this order;
  and all that follows is the cancel itself and what its refusal calls for.
\<close>

theorem stored_before_cancelled:
  assumes "store_inv (w_store W)"
    and "w_broker (snd (try_cancel_one D a now order rep W)) \<noteq> w_broker W"
  shows "\<exists>t r ttl W1. try_cancel_one D a now order rep W = cancel_stored D a order r ttl rep W1 \<and>
    w_broker W1 = w_broker W \<and> get_held_trade_record t (w_store W1) = (Inr (Some r), w_store W1) \<and>
    keeps (pg_order_id order) r"
proof (cases rule: try_cancel_one_cases [OF assms(1), of D a now order rep, case_names kept stored])
  case (kept rep' W1)
  then show ?thesis using assms(2) by simp
qed blast

theorem stored_before_cancelled_witness:
  "\<exists>t r (W1 :: (unit, nat \<times> nat) world). w_broker W1 = (0, 0) \<and>
     get_held_trade_record t (w_store W1) = (Inr (Some r), w_store W1) \<and> keeps ''o9'' r"
proof -
  have "store_inv (w_store ex_unreadable)" by (simp add: ex_unreadable_def)
  from stored_before_cancelled [OF this, of ex_desk "Some ''acc''" 0 ex_resting empty_report] ex_cancel_run
  show ?thesis by (force simp: ex_unreadable_def)
qed

text \<open>
  C9: no cancelled order is lost. After the pass over the resting orders, every order it
  reports as cancelled is on a live record of the store, applied and held, whatever calls of
  the store or of the broker failed on the way and however orders share their trades.
\<close>

theorem cancelled_orders_backed_up:
  assumes "store_inv (w_store W)"
    and "fst (dk_list_pending D (or_else a []) (w_broker W)) = Inr orders" "distinct (map pg_order_id orders)"
    and "cancel_pass D a now empty_report W = (rep, W')"
  shows "\<forall>oid\<in>set (lr_cancelled rep). backed_up (w_store W') oid"
  using assms(4) cancel_loop [of "snd (bcall (dk_list_pending D (or_else a [])) W)" orders empty_report D a now rep W']
  by (simp add: cancel_pass_def assms(1-3) empty_report_def)

theorem cancelled_orders_backed_up_witness:
  "backed_up (w_store (snd (cancel_pass ex_desk (Some ''acc'') 0 empty_report ex_unreadable))) ''o9''"
proof -
  have "store_inv (w_store ex_unreadable)" by (simp add: ex_unreadable_def)
  moreover obtain s where "cancel_pass ex_desk (Some ''acc'') 0 empty_report ex_unreadable =
      (empty_report\<lparr>lr_cancelled := [''o9'']\<rparr>, \<lparr>w_store = s, w_faults = [], w_broker = (1, 0)\<rparr>)"
    using ex_cancel_run by (auto simp: cancel_pass_def bcall_def)
  ultimately show ?thesis
    using cancelled_orders_backed_up [of ex_unreadable ex_desk "Some ''acc''" "[ex_resting]"] by fastforce
qed

section \<open>Bringing back\<close>

text \<open>
  C8: an order comes back only when nothing holds it. If recovering a record does anything at
  the broker but ask for quotes, then the record was applied and kept an order; the trade's
  pauses could be read and none of them is an alignment pause that still protects it; and every
  reason that holds the record has lifted, or twelve hours have passed since it was opened.
\<close>

theorem restored_only_when_lifted:
  assumes "quasi R" "\<And>i. op_moves R (get_quote (dk_broker D) i)"
    and "\<not> R (w_broker W) (w_broker (snd (recover_one D now policy r rep W)))"
  shows "hd_applied r \<and> hd_cancelled_orders r \<noteq> [] \<and>
    (\<exists>pauses. fst (list_pauses_for_trade (hd_trade_id r) (w_store W)) = Inr pauses \<and> \<not> fst (protected_by pauses r)) \<and>
    (backstop_due (hd_opened_at r) now \<or> (\<forall>x\<in>set (effective_holders r). lifted R D r now W x))"
  using recover_gates [OF assms] .

theorem restored_only_when_lifted_witness:
  "backstop_due (hd_opened_at ex_held) 0 \<or>
    Ball (set (effective_holders ex_held)) (lifted (\<lambda>b b'. snd b' = snd b) ex_desk ex_held 0 ex_book)"
proof -
  let ?R = "\<lambda>b b' :: nat \<times> nat. snd b' = snd b"
  have R: "quasi ?R" by (auto simp: quasi_def intro!: reflpI transpI)
  have ask: "op_moves ?R (get_quote (dk_broker ex_desk) i)" for i by (simp add: op_moves_def)
  show ?thesis
    using restored_only_when_lifted [where R = ?R and W = ex_book and now = 0 and policy = LeaveForCaller and
        r = ex_held and rep = empty_report, OF R ask]
      ex_recover_run
    by auto
qed

section \<open>What a restore loses\<close>

text \<open>
  The clearing of a record decides by the copy that was listed before the restore. An entry that
  the re-drive itself stored on the live row, as it does when the order came back too small, is
  deleted with it.
\<close>

lemma clear_drops_parked_entry:
  assumes "healthy W" "store_inv (w_store W)" "hd_stored_orders r = []"
  shows "fst (stored_order (hd_trade_id r) (snd (clear_hold r W))) = Inr None"
proof -
  have "clear_hold r W = (True, W\<lparr>w_store := snd (clear_held_trade_record (hd_trade_id r) (w_store W))\<rparr>)"
    using assms(1,3) by (simp add: clear_hold_def call_healthy clear_held_trade_record_def clear_row_def)
  then show ?thesis using assms(1)
    by (simp add: stored_order_def and_then_def call_healthy get_held_trade_record_def clear_live [OF assms(2)])
qed

lemma clear_drops_parked_entry_run:
  fixes so :: stored_order
  defines "W \<equiv> snd (park_order ''t1'' ''EUR_USD'' (Some ''acc'') (Fin 1) so 7200000000000 0 ex_world)"
  shows "fst (stored_order ''t1'' W) = Inr (Some so)" "fst (stored_order ''t1'' (snd (clear_hold ex_held W))) = Inr None"
proof -
  let ?r = "with_order (Fin 1) so 7200000000000
      (fresh_held ''t1'' ''EUR_USD'' (Some ''acc'') (Fin 1) 7200000000000 0)"
  have get: "get_held_trade_record ''t1'' (empty_store 0) = (Inr None, empty_store 0)"
    by (simp add: get_held_trade_record_def)
  have W: "W = ex_world\<lparr>w_store := snd (upsert_held_trade_record ?r (held_ttl ?r 0) (empty_store 0))\<rparr>"
    by (simp add: W_def park_order_def and_then_def call_healthy get or_else_def Let_def)
  have "hd_trade_id ?r = ''t1''" by (simp add: with_order_def fresh_held_def)
  then have live: "get_live (w_store W) (held_key ''t1'') = Some (HeldBody ?r)"
    by (simp add: W upsert_live)
  have h: "healthy W" "store_inv (w_store W)" by (simp_all add: W upsert_inv)
  show "fst (stored_order ''t1'' W) = Inr (Some so)"
    using h(1) live [folded held_live] by (simp add: stored_order_def and_then_def call_healthy with_order_def)
  show "fst (stored_order ''t1'' (snd (clear_hold ex_held W))) = Inr None"
    using clear_drops_parked_entry [OF h, of ex_held] by (simp add: ex_held_def)
qed

end
