(* ===== verification/Upkeep_Rules.thy ===== *)
theory Upkeep_Rules
  imports Core_Lifecycle Signal_Detect
begin

text \<open>
  The decisions about an order that is already placed, free of any call
  (\<open>core/src/order_control/\<close>, \<open>core/src/blackout_widen.rs\<close>): which stop it should carry, what
  is done with a resting order, where a widened stop goes and when it goes back, and when a
  position's stop moves to its entry.
\<close>

section \<open>The stop an order should carry (\<open>sl_target.rs\<close>)\<close>

record spread_inputs =
  sp_last_candle :: f64
  sp_this_hour :: f64
  sp_next_hour :: f64

definition usable_spread :: "f64 \<Rightarrow> bool" where
  "usable_spread s \<longleftrightarrow> is_finite s \<and> fgt s (Fin 0)"

definition measured_only :: "f64 \<Rightarrow> spread_inputs" where
  "measured_only last_candle =
     \<lparr>sp_last_candle = last_candle, sp_this_hour = Fin 0, sp_next_hour = Fin 0\<rparr>"

definition expected_spread :: "spread_inputs \<Rightarrow> f64" where
  "expected_spread x = foldl fmax (Fin 0) (filter usable_spread [sp_this_hour x, sp_next_hour x])"

definition worst_spread :: "spread_inputs \<Rightarrow> f64" where
  "worst_spread x =
     fmax (if usable_spread (sp_last_candle x) then sp_last_candle x else Fin 0) (expected_spread x)"

datatype sl_action = SlWiden | SlShrink | SlHold | SlBelowMinR

record sl_target =
  tg_distance :: f64
  tg_r :: f64
  tg_action :: sl_action

definition relative_epsilon :: f64 where
  "relative_epsilon = lit (1 / 10 ^ 9)"

definition same_level :: "f64 \<Rightarrow> f64 \<Rightarrow> bool" where
  "same_level a b \<longleftrightarrow>
     fle (fabs64 (fsub a b)) (fmul relative_epsilon (fmax (fmax (fabs64 a) (fabs64 b)) (Fin 1)))"

definition in_profit :: "direction \<Rightarrow> f64 \<Rightarrow> f64 \<Rightarrow> f64 \<Rightarrow> bool" where
  "in_profit dir entry price spread \<longleftrightarrow>
     is_finite entry \<and> is_finite price \<and> usable_spread spread \<and>
     (case dir of Long \<Rightarrow> fgt (fsub price entry) spread | Short \<Rightarrow> fgt (fsub entry price) spread)"

definition positive_distance :: "f64 \<Rightarrow> bool" where
  "positive_distance d \<longleftrightarrow> is_finite d \<and> \<not> fle d (Fin 0)"

definition stop_move :: "f64 \<Rightarrow> f64 \<Rightarrow> sl_action" where
  "stop_move desired current =
     (if \<not> positive_distance current then SlHold
      else if same_level desired current then SlHold
      else if fgt desired current then SlWiden else SlShrink)"

definition sl_target_of :: "spread_inputs \<Rightarrow> f64 \<Rightarrow> f64 \<Rightarrow> f64 \<Rightarrow> f64 \<Rightarrow> sl_target" where
  "sl_target_of spreads original current tp_distance min_r =
     (if \<not> positive_distance original
      then \<lparr>tg_distance = original, tg_r = NaN, tg_action = SlHold\<rparr>
      else
        let spread_floor = fmul sl_min_spread_multiple (worst_spread spreads);
            desired = fmax spread_floor original;
            r = (if is_finite tp_distance \<and> fgt desired (Fin 0) then fdiv tp_distance desired else NaN) in
        \<lparr>tg_distance = desired, tg_r = r,
          tg_action = if \<not> is_finite r \<or> flt r min_r then SlBelowMinR else stop_move desired current\<rparr>)"

section \<open>A resting order (\<open>pending.rs\<close>)\<close>

record cash_budget =
  cb_amount :: f64

definition budget_absolute :: "f64 \<Rightarrow> cash_budget" where
  "budget_absolute amount = \<lparr>cb_amount = amount\<rparr>"

definition budget_pct_of :: "f64 \<Rightarrow> f64 \<Rightarrow> cash_budget" where
  "budget_pct_of risk_pct balance = \<lparr>cb_amount = fdiv (fmul balance risk_pct) (Fin 100)\<rparr>"

definition stake_for :: "cash_budget \<Rightarrow> f64 \<Rightarrow> f64 option" where
  "stake_for budget sl_distance =
     (if \<not> positive_distance sl_distance \<or> \<not> positive_distance (cb_amount budget) then None
      else Some (fdiv (cb_amount budget) sl_distance))"

datatype pending_action = LeaveResting | AdjustOrder f64 f64 | DemoteOrder

definition pending_action_of :: "sl_target \<Rightarrow> f64 \<Rightarrow> cash_budget \<Rightarrow> pending_action" where
  "pending_action_of target current budget =
     (let desired = tg_distance target in
      if tg_action target = SlBelowMinR then DemoteOrder
      else if tg_action target = SlHold then LeaveResting
      else if \<not> positive_distance desired then LeaveResting
      else if same_level desired current then LeaveResting
      else case stake_for budget desired of
        Some stake \<Rightarrow> AdjustOrder desired stake | None \<Rightarrow> LeaveResting)"

section \<open>Giving a widened stop back (\<open>restore.rs\<close>, \<open>widen_restore.rs\<close>)\<close>

datatype skip_reason = AlreadyTighter | AlreadyAtOriginal | Unjudgeable

datatype restore_decision = RestoreTo f64 | SkipRestore skip_reason

text \<open>Where the stop sits now and where it sat before the widening.\<close>

datatype current_stop = CurrentStop f64

datatype original_stop = OriginalStop f64

fun restore_decision_of :: "direction \<Rightarrow> current_stop \<Rightarrow> original_stop \<Rightarrow> restore_decision" where
  "restore_decision_of dir (CurrentStop current) (OriginalStop original) =
     (if \<not> is_finite current \<or> \<not> is_finite original then SkipRestore Unjudgeable
      else if same_level current original then SkipRestore AlreadyAtOriginal
      else if (case dir of Long \<Rightarrow> fgt current original | Short \<Rightarrow> flt current original)
      then SkipRestore AlreadyTighter
      else RestoreTo original)"

definition backstop_restore_allowed :: "venue \<Rightarrow> string \<Rightarrow> time \<Rightarrow> bool \<Rightarrow> bool" where
  "backstop_restore_allowed V instrument t timer_due \<longleftrightarrow> timer_due \<and> \<not> is_spread_hour V instrument t"

section \<open>The stop in force on a bar (\<open>widen_episodes.rs\<close>, \<open>in_force_stop.rs\<close>)\<close>

record widen_episode =
  we_effective_from :: time
  we_restored_at :: "time option"
  we_widened_stop :: f64

definition episode_covers :: "widen_episode \<Rightarrow> time \<Rightarrow> bool" where
  "episode_covers e bar \<longleftrightarrow> we_effective_from e \<le> bar \<and>
     (case we_restored_at e of None \<Rightarrow> True | Some r \<Rightarrow> bar < r)"

definition stop_on_bar :: "widen_episode list \<Rightarrow> time \<Rightarrow> f64 \<Rightarrow> f64" where
  "stop_on_bar episodes bar unshielded =
     (case find (\<lambda>e. episode_covers e bar) episodes of
        None \<Rightarrow> unshielded | Some e \<Rightarrow> we_widened_stop e)"

datatype arm_gate = Armable | InsideWiden

definition breakeven_arm_gate :: "widen_episode list \<Rightarrow> time \<Rightarrow> arm_gate" where
  "breakeven_arm_gate episodes bar =
     (if list_ex (\<lambda>e. episode_covers e bar) episodes then InsideWiden else Armable)"

record in_force_stop =
  if_level :: f64
  if_armed :: bool

definition placed_stop :: "f64 \<Rightarrow> in_force_stop" where
  "placed_stop stop_loss = \<lparr>if_level = stop_loss, if_armed = False\<rparr>"

definition tighten_to_break_even :: "f64 \<Rightarrow> in_force_stop \<Rightarrow> in_force_stop" where
  "tighten_to_break_even stop s = s\<lparr>if_level := stop, if_armed := True\<rparr>"

definition target_stop :: "f64 \<Rightarrow> f64" where
  "target_stop entry = entry"

definition consider_arm ::
  "arm_gate \<Rightarrow> breakeven \<Rightarrow> direction \<Rightarrow> f64 \<Rightarrow> f64 \<Rightarrow> f64 \<Rightarrow> in_force_stop \<Rightarrow> bool \<times> in_force_stop" where
  "consider_arm gate rule dir level close_price entry_price s =
     (if gate \<noteq> Armable \<or> if_armed s then (False, s)
      else if \<not> close_arms rule dir level close_price then (False, s)
      else (True, s\<lparr>if_level := target_stop entry_price, if_armed := True\<rparr>))"

section \<open>The noise floor of a break-even stop (\<open>breakeven_noise.rs\<close>)\<close>

definition breakeven_min_atr_fraction :: f64 where
  "breakeven_min_atr_fraction = lit (1 / 10)"

text \<open>New stop, reference price, their distance and the floor.\<close>

datatype noise_floor = NoiseClear | NoiseInside f64 f64 f64 f64

definition judge_breakeven_stop_at_length :: "candle list \<Rightarrow> f64 \<Rightarrow> nat \<Rightarrow> noise_floor" where
  "judge_breakeven_stop_at_length window new_stop atr_length =
     (if window = [] then NoiseClear
      else case wilder_atr window atr_length of
        None \<Rightarrow> NoiseClear
      | Some atr \<Rightarrow>
          if \<not> positive_distance atr then NoiseClear
          else
            let latest = cn_c (List.last window);
                floor_distance = fmul breakeven_min_atr_fraction atr;
                distance = fabs64 (fsub new_stop latest) in
            if flt distance floor_distance then NoiseInside new_stop latest distance floor_distance
            else NoiseClear)"

definition judge_breakeven_stop :: "candle list \<Rightarrow> f64 \<Rightarrow> granularity \<Rightarrow> noise_floor" where
  "judge_breakeven_stop window new_stop g =
     judge_breakeven_stop_at_length window new_stop (atr_length_for g)"

definition judge_breakeven_stop_at_bar_minutes :: "candle list \<Rightarrow> f64 \<Rightarrow> int \<Rightarrow> noise_floor" where
  "judge_breakeven_stop_at_bar_minutes window new_stop bar_minutes =
     judge_breakeven_stop_at_length window new_stop (atr_length_for_bar_minutes bar_minutes)"

section \<open>How far a stop is widened (\<open>blackout_widen.rs\<close>)\<close>

definition widen_floor_pips :: f64 where "widen_floor_pips = Fin 22"

definition widen_ceil_pips :: f64 where "widen_ceil_pips = Fin 40"

definition widen_baked_ceil_mult :: f64 where "widen_baked_ceil_mult = Fin (3 / 2)"

text \<open>\<open>f64::clamp\<close>, whose bounds the callers keep in order.\<close>

definition fclamp :: "f64 \<Rightarrow> f64 \<Rightarrow> f64 \<Rightarrow> f64" where
  "fclamp x lo hi = (let y = (if flt x lo then lo else x) in if fgt y hi then hi else y)"

definition clamp_widen :: "f64 \<Rightarrow> f64" where
  "clamp_widen live_spread_pips = fclamp live_spread_pips widen_floor_pips widen_ceil_pips"

definition spread_hour_widen_size :: "f64 \<Rightarrow> f64 \<Rightarrow> f64" where
  "spread_hour_widen_size baked_p90_pips live_spread_pips =
     (let hi = fmax widen_ceil_pips (fmul baked_p90_pips widen_baked_ceil_mult);
          lo = fmin baked_p90_pips widen_floor_pips in
      fclamp (fmax baked_p90_pips live_spread_pips) lo hi)"

definition widened_away :: "direction \<Rightarrow> f64 \<Rightarrow> f64 \<Rightarrow> f64 \<Rightarrow> f64" where
  "widened_away dir original_sl widen_pips pip_size =
     (let widen = fmul widen_pips pip_size in
      case dir of
        Short \<Rightarrow> round_to_tick (fadd original_sl widen) pip_size round_dir.Up
      | Long \<Rightarrow> round_to_tick (fsub original_sl widen) pip_size round_dir.Down)"

section \<open>Spread forecasts (\<open>spread_blackout.rs\<close>)\<close>

definition widen_frac_to_pips :: "f64 \<Rightarrow> f64 \<Rightarrow> f64 \<Rightarrow> f64" where
  "widen_frac_to_pips share near_price pip_size = fdiv (fmul share near_price) pip_size"

definition spread_hour_widen_frac_with_lead :: "venue \<Rightarrow> string \<Rightarrow> time \<Rightarrow> nat \<Rightarrow> f64 option" where
  "spread_hour_widen_frac_with_lead V instrument now lead_minutes =
     (case baked_row V instrument of None \<Rightarrow> None
      | Some r \<Rightarrow> (case schedule_clock V (sr_schedule r) of None \<Rightarrow> None
          | Some local \<Rightarrow> spread_hour_widen_for (sr_mask r) (sr_widen r) (local now) lead_minutes))"

definition spread_hour_widen_frac :: "venue \<Rightarrow> string \<Rightarrow> time \<Rightarrow> f64 option" where
  "spread_hour_widen_frac V instrument now =
     spread_hour_widen_frac_with_lead V instrument now spread_hour_lead_minutes"

text \<open>This hour's and the next hour's forecast, as a fraction of the price; a masked hour has none.\<close>

definition spread_forecast_frac :: "venue \<Rightarrow> string \<Rightarrow> time \<Rightarrow> f64 \<times> f64" where
  "spread_forecast_frac V instrument now =
     (case baked_row V instrument of None \<Rightarrow> (Fin 0, Fin 0)
      | Some r \<Rightarrow> (case schedule_clock V (sr_schedule r) of None \<Rightarrow> (Fin 0, Fin 0)
          | Some local \<Rightarrow>
              let h = fst (local now);
                  unmasked = (\<lambda>k. if bit (sr_mask r) k then Fin 0 else sr_forecast r ! k) in
              (unmasked h, unmasked ((h + 1) mod 24))))"

section \<open>Which attempt opened a position (\<open>join.rs\<close>)\<close>

definition join_position_to_attempt ::
  "open_position \<Rightarrow> string option \<Rightarrow> entry_attempt list \<Rightarrow> entry_attempt option" where
  "join_position_to_attempt p account attempts =
     (case find (\<lambda>a. ea_broker_trade_id a = Some (op_position_id p)) attempts of
        Some a \<Rightarrow> Some a
      | None \<Rightarrow> find (\<lambda>a. ea_instrument a = op_instrument p \<and> ea_direction a = op_direction p \<and>
            ea_account a = account) attempts)"

end
