(* ===== verification/Upkeep_Orders.thy ===== *)
theory Upkeep_Orders
  imports Upkeep_Rules
begin

text \<open>
  Carrying the decisions out (\<open>core/src/order_control/\<close>): a resting order is cancelled and
  placed again or parked, and a parked order is promoted through \<open>run_enter\<close>. The quotes of a
  pass are a parameter with a state of its own, so that a pass may keep them.
\<close>

section \<open>One resting order (\<open>reprice.rs\<close>)\<close>

datatype reprice_outcome =
  LeftResting | Repriced string | Demoted | ReplaceFailed string | SkippedOrder string

record park_geometry =
  pk_original_sl_distance :: f64
  pk_tp_distance :: f64
  pk_min_r :: f64

definition demoted_order ::
  "string \<Rightarrow> park_geometry \<Rightarrow> time \<Rightarrow> time \<Rightarrow> int \<Rightarrow> time \<Rightarrow> string \<Rightarrow> stored_order" where
  "demoted_order signed_intent geometry shell_time expires_at bar_seconds now replaces =
     \<lparr>so_signed_intent = signed_intent, so_reason = stored_reason.BelowMinR,
      so_original_sl_distance = pk_original_sl_distance geometry,
      so_tp_distance = pk_tp_distance geometry, so_min_r = pk_min_r geometry, so_stored_at = now,
      so_drop_at = drop_at expires_at bar_seconds now, so_shell_time = shell_time,
      so_replaces = Some replaces, so_bar_seconds = Some bar_seconds\<rparr>"

definition park_below_min_r ::
  "string \<Rightarrow> string \<Rightarrow> string option \<Rightarrow> string \<Rightarrow> f64 \<Rightarrow> park_geometry \<Rightarrow> time \<Rightarrow> time \<Rightarrow> int \<Rightarrow> time
    \<Rightarrow> string \<Rightarrow> ('d, 'b, unit res) prog" where
  "park_below_min_r trade_id instrument account signed_intent pip_size geometry shell_time expires_at
     bar_seconds now replaces =
     park_order trade_id instrument account pip_size
       (demoted_order signed_intent geometry shell_time expires_at bar_seconds now replaces)
       expires_at now"

text \<open>The failures, which the passes log.\<close>

datatype upkeep_error = StoreFailed failure | CancelFailed | WillNotVerify string

definition or_store :: "('d, 'b, 'a res) prog \<Rightarrow> ('d, 'b, upkeep_error + 'a) prog" where
  "or_store m = pbind m (\<lambda>r. preturn (case r of Inl e \<Rightarrow> Inl (StoreFailed e) | Inr x \<Rightarrow> Inr x))"

definition replacing_call ::
  "('d, 'b) desk \<Rightarrow> 'd verified \<Rightarrow> string \<Rightarrow> entry_origin \<Rightarrow> time \<Rightarrow> 'd entry_call" where
  "replacing_call D v signed_intent origin now =
     \<lparr>en_verified = v, en_cfg = dk_config D v, en_now = now, en_raw_body = Some signed_intent,
      en_granularity = None, en_origin = origin\<rparr>"

text \<open>The order is off the book: place it again, or park it.\<close>

definition reprice_cancelled ::
  "('d, 'b) desk \<Rightarrow> pending_order \<Rightarrow> string option \<Rightarrow> pending_action \<Rightarrow> park_geometry \<Rightarrow> time \<Rightarrow> int
    \<Rightarrow> time \<Rightarrow> 'd verified \<Rightarrow> string \<Rightarrow> ('d, 'b, upkeep_error + reprice_outcome) prog" where
  "reprice_cancelled D order account action geometry expires_at bar_seconds now v signed_intent =
     (let oid = pg_order_id order;
          trade_id = or_else (i_trade_id (v_intent v)) oid;
          park = or_store (park_below_min_r trade_id (pg_instrument order) account signed_intent
            (or_else (i_pip_size (v_intent v)) (Fin 0)) geometry (sh_time (v_shell v)) expires_at
            bar_seconds now oid) in
      if action = DemoteOrder then and_then park (\<lambda>_. preturn (Inr Demoted))
      else
        pbind (run_enter (dk_platform D) (dk_broker D)
            (replacing_call D v signed_intent (Replacing oid) now)) (\<lambda>result. case result of
          Completed _ \<Rightarrow> preturn (Inr (Repriced (describe_result result)))
        | _ \<Rightarrow> and_then park (\<lambda>_. preturn (Inr (ReplaceFailed (describe_result result))))))"

definition reprice_pending_order ::
  "('d, 'b) desk \<Rightarrow> pending_order \<Rightarrow> string option \<Rightarrow> pending_action \<Rightarrow> park_geometry \<Rightarrow> time \<Rightarrow> int
    \<Rightarrow> time \<Rightarrow> ('d, 'b, upkeep_error + reprice_outcome) prog" where
  "reprice_pending_order D order account action geometry expires_at bar_seconds now =
     (let oid = pg_order_id order in
      if action = LeaveResting then preturn (Inr LeftResting)
      else and_then (or_store (call (get_order_body oid))) (\<lambda>stored_body.
        case dk_source D oid stored_body now of
          WindowClosed \<Rightarrow> preturn (Inr (SkippedOrder ''window-closed''))
        | Unrecoverable \<Rightarrow> preturn (Inr (SkippedOrder ''no-recoverable-body''))
        | Recovered v \<Rightarrow>
            pbind (bcall (cancel_order (dk_broker D) (or_else account []) oid)) (\<lambda>c. case c of
              Inl _ \<Rightarrow> preturn (Inl CancelFailed)
            | Inr _ \<Rightarrow> reprice_cancelled D order account action geometry expires_at bar_seconds now v
                (or_else stored_body (''replay-order: '' @ oid @ [CHR 0x0A])))))"

section \<open>Every resting order (\<open>reprice_pass.rs\<close>)\<close>

record geometry =
  gm_original_sl_distance :: f64
  gm_current_sl_distance :: f64
  gm_tp_distance :: f64
  gm_min_r :: f64
  gm_budget :: cash_budget
  gm_bar_seconds :: int

definition geometry_of :: "entry_attempt \<Rightarrow> pending_order \<Rightarrow> geometry option" where
  "geometry_of attempt order =
     (case (ea_order_control attempt, ea_stop_loss_price attempt) of
        (Some snap_shot, Some placed) \<Rightarrow>
          let current = fabs64 (fsub (pg_trigger order) placed) in
          if \<not> (is_finite current \<and> fgt current (Fin 0)) then None
          else if \<not> (is_finite (pg_stake order) \<and> fgt (pg_stake order) (Fin 0)) then None
          else Some
            \<lparr>gm_original_sl_distance = fabs64 (fsub (pg_trigger order) (oc_original_stop_loss snap_shot)),
             gm_current_sl_distance = current,
             gm_tp_distance = fabs64 (fsub (oc_take_profit_price snap_shot) (pg_trigger order)),
             gm_min_r = oc_min_r snap_shot,
             gm_budget = budget_absolute (fmul (pg_stake order) current),
             gm_bar_seconds = or_else (oc_bar_seconds snap_shot) 3600\<rparr>
      | _ \<Rightarrow> None)"

text \<open>
  A source of measured spreads. The replay's asks the broker every time; the live one
  (\<open>trade-control-cron/src/order_control_tick.rs\<close>) asks once for an instrument and keeps a
  failure too.
\<close>

type_synonym ('d, 'b, 'q) spread_source = "string \<Rightarrow> 'q \<Rightarrow> ('d, 'b, f64 option \<times> 'q) prog"

definition quoted_spread :: "('d, 'b) desk \<Rightarrow> string \<Rightarrow> ('d, 'b, f64 option) prog" where
  "quoted_spread D instrument = pbind (bcall (get_quote (dk_broker D) instrument)) (\<lambda>q.
     preturn (case q of Inr q \<Rightarrow> Some (quote_spread q) | Inl _ \<Rightarrow> None))"

definition broker_quotes :: "('d, 'b) desk \<Rightarrow> ('d, 'b, unit) spread_source" where
  "broker_quotes D instrument _ = pbind (quoted_spread D instrument) (\<lambda>s. preturn (s, ()))"

definition cached_quotes :: "('d, 'b) desk \<Rightarrow> ('d, 'b, string \<rightharpoonup> f64 option) spread_source" where
  "cached_quotes D instrument seen =
     (case seen instrument of
        Some hit \<Rightarrow> preturn (hit, seen)
      | None \<Rightarrow> pbind (quoted_spread D instrument) (\<lambda>s. preturn (s, seen(instrument \<mapsto> s))))"

definition spread_inputs_of :: "venue \<Rightarrow> string \<Rightarrow> string option \<Rightarrow> time \<Rightarrow> f64 option \<Rightarrow> spread_inputs" where
  "spread_inputs_of V instrument account now measured =
     (case spread_forecast_frac V (spread_lookup_key V instrument account) now of (this_hour, next_hour) \<Rightarrow>
        \<lparr>sp_last_candle = or_else measured (Fin 0), sp_this_hour = this_hour, sp_next_hour = next_hour\<rparr>)"

definition reprice_action :: "venue \<Rightarrow> string option \<Rightarrow> time \<Rightarrow> pending_order \<Rightarrow> geometry \<Rightarrow> f64 option \<Rightarrow> pending_action" where
  "reprice_action V account now order g measured =
     pending_action_of
       (sl_target_of (spread_inputs_of V (pg_instrument order) account now measured)
         (gm_original_sl_distance g) (gm_current_sl_distance g) (gm_tp_distance g) (gm_min_r g))
       (gm_current_sl_distance g) (gm_budget g)"

definition reprice_one ::
  "('d, 'b) desk \<Rightarrow> entry_attempt list \<Rightarrow> string option \<Rightarrow> ('d, 'b, 'q) spread_source \<Rightarrow> time
    \<Rightarrow> pending_order \<Rightarrow> 'q \<Rightarrow> ('d, 'b, (string \<times> reprice_outcome) option \<times> 'q) prog" where
  "reprice_one D attempts account quotes now order q =
     (case find (\<lambda>a. ea_broker_order_id a = pg_order_id order) attempts of
        None \<Rightarrow> preturn (None, q)
      | Some attempt \<Rightarrow> (case geometry_of attempt order of
          None \<Rightarrow> preturn (None, q)
        | Some g \<Rightarrow>
            pbind (quotes (pg_instrument order) q) (\<lambda>(measured, q).
            let action = reprice_action (dk_venue D) account now order g measured in
            if action = LeaveResting then preturn (None, q)
            else pbind (reprice_pending_order D order account action
                \<lparr>pk_original_sl_distance = gm_original_sl_distance g, pk_tp_distance = gm_tp_distance g,
                 pk_min_r = gm_min_r g\<rparr>
                (ea_expires_at attempt) (gm_bar_seconds g) now) (\<lambda>r. preturn
              (case r of Inr outcome \<Rightarrow> Some (ea_trade_id attempt, outcome) | Inl _ \<Rightarrow> None, q)))))"

definition collecting :: "'x option \<times> 'q \<Rightarrow> 'x list \<Rightarrow> 'x list \<times> 'q" where
  "collecting r acc = (acc @ (case fst r of Some x \<Rightarrow> [x] | None \<Rightarrow> []), snd r)"

definition reprice_due_orders ::
  "('d, 'b) desk \<Rightarrow> ('d, 'b, 'q) spread_source \<Rightarrow> 'q \<Rightarrow> string option \<Rightarrow> time
    \<Rightarrow> ('d, 'b, (string \<times> reprice_outcome) list \<times> 'q) prog" where
  "reprice_due_orders D quotes q account now =
     pbind (bcall (dk_list_pending D (or_else account []))) (\<lambda>resting. case resting of
       Inl _ \<Rightarrow> preturn ([], q)
     | Inr resting \<Rightarrow>
         if resting = [] then preturn ([], q)
         else pbind (call list_all_entry_attempts) (\<lambda>attempts. case attempts of
           Inl _ \<Rightarrow> preturn ([], q)
         | Inr attempts \<Rightarrow>
             pfor (\<lambda>order (acc, q). pbind (reprice_one D attempts account quotes now order q)
               (\<lambda>r. preturn (collecting r acc))) resting ([], q)))"

section \<open>One parked order (\<open>promote.rs\<close>)\<close>

datatype promote_outcome = NothingParked | StillWaiting | Promoted string | DroppedOrder string

definition promotion_origin :: "stored_order \<Rightarrow> entry_origin" where
  "promotion_origin order =
     (case so_replaces order of Some old \<Rightarrow> Replacing old | None \<Rightarrow> Promotion)"

definition drop_parked :: "string \<Rightarrow> time \<Rightarrow> string \<Rightarrow> ('d, 'b, upkeep_error + promote_outcome) prog" where
  "drop_parked trade_id now why =
     and_then (or_store (clear_stored_order trade_id now)) (\<lambda>_. preturn (Inr (DroppedOrder why)))"

definition promote_verified ::
  "('d, 'b) desk \<Rightarrow> string \<Rightarrow> time \<Rightarrow> stored_order \<Rightarrow> 'd verified \<Rightarrow> ('d, 'b, upkeep_error + promote_outcome) prog" where
  "promote_verified D trade_id now order v =
     and_then (or_store (clear_stored_order trade_id now)) (\<lambda>_.
     pbind (run_enter (dk_platform D) (dk_broker D)
         (replacing_call D v (so_signed_intent order) (promotion_origin order) now)) (\<lambda>result.
     preturn (Inr (Promoted (describe_result result)))))"

definition promote_stored_order ::
  "('d, 'b) desk \<Rightarrow> string \<Rightarrow> stored_check \<Rightarrow> time \<Rightarrow> ('d, 'b, upkeep_error + promote_outcome) prog" where
  "promote_stored_order D trade_id check now =
     and_then (or_store (stored_order trade_id)) (\<lambda>parked. case parked of
       None \<Rightarrow> preturn (Inr NothingParked)
     | Some order \<Rightarrow> (case stored_verdict_of order now check of
         KeepWaiting \<Rightarrow> preturn (Inr StillWaiting)
       | DropOrder \<Rightarrow> drop_parked trade_id now ''past-drop-at''
       | Promote \<Rightarrow> (case dk_source D trade_id (Some (so_signed_intent order)) now of
           Recovered v \<Rightarrow> promote_verified D trade_id now order v
         | WindowClosed \<Rightarrow> drop_parked trade_id now ''window-closed''
         | Unrecoverable \<Rightarrow> preturn (Inl (WillNotVerify trade_id)))))"

section \<open>Every parked order (\<open>tick.rs\<close>)\<close>

datatype promote_scope = ForAccount string | ForGlobal | ForEvery

fun scope_covers :: "promote_scope \<Rightarrow> string option \<Rightarrow> bool" where
  "scope_covers (ForAccount want) account \<longleftrightarrow> account = Some want"
| "scope_covers ForGlobal account \<longleftrightarrow> account = None"
| "scope_covers ForEvery account \<longleftrightarrow> True"

definition parked_check ::
  "venue \<Rightarrow> held_record \<Rightarrow> stored_order \<Rightarrow> f64 option \<Rightarrow> time \<Rightarrow> stored_check" where
  "parked_check V r parked measured now =
     (let target = sl_target_of (spread_inputs_of V (hd_instrument r) (hd_account r) now measured)
            (so_original_sl_distance parked) (so_original_sl_distance parked) (so_tp_distance parked)
            (so_min_r parked) in
      \<lparr>sc_clears_min_r = (tg_action target \<noteq> SlBelowMinR), sc_bar_time = Some now,
       sc_spread_hour_over = spread_hour_released_at V
         (spread_lookup_key V (hd_instrument r) (hd_account r)) (hd_pip_size r) measured now,
       sc_market_open = market_open V (hd_instrument r) now\<rparr>)"

definition promote_record ::
  "('d, 'b) desk \<Rightarrow> time \<Rightarrow> held_record \<Rightarrow> (string \<times> promote_outcome) list
    \<Rightarrow> ('d, 'b, (string \<times> promote_outcome) list) prog" where
  "promote_record D now r acc =
     (case hd_stored_orders r of
        [] \<Rightarrow> preturn acc
      | parked # _ \<Rightarrow>
          pbind (quoted_spread D (hd_instrument r)) (\<lambda>measured.
          pbind (promote_stored_order D (hd_trade_id r) (parked_check (dk_venue D) r parked measured now) now)
            (\<lambda>res. preturn (case res of
              Inr outcome \<Rightarrow> acc @ [(hd_trade_id r, outcome)] | Inl _ \<Rightarrow> acc))))"

definition promote_due_orders ::
  "('d, 'b) desk \<Rightarrow> promote_scope \<Rightarrow> time \<Rightarrow> ('d, 'b, (string \<times> promote_outcome) list) prog" where
  "promote_due_orders D scope now =
     pbind (call list_all_held_trade_records) (\<lambda>records. case records of
       Inl _ \<Rightarrow> preturn []
     | Inr records \<Rightarrow> pfor (promote_record D now)
         (filter (\<lambda>r. scope_covers scope (hd_account r) \<and> hd_stored_orders r \<noteq> []) records) [])"

section \<open>The tick (\<open>trade-control-cron/src/order_control_tick.rs\<close>)\<close>

text \<open>Promotion runs before the re-pricing.\<close>

definition run_both :: "('d, 'b) desk \<Rightarrow> string option \<Rightarrow> time \<Rightarrow> ('d, 'b, unit) prog" where
  "run_both D account now =
     pbind (promote_due_orders D (case account of None \<Rightarrow> ForGlobal | Some a \<Rightarrow> ForAccount a) now) (\<lambda>_.
     pbind (reprice_due_orders D (cached_quotes D) Map.empty account now) (\<lambda>_. preturn ()))"

definition push_account :: "string option \<Rightarrow> string option list \<Rightarrow> string option list" where
  "push_account account accounts = (if account \<in> set accounts then accounts else accounts @ [account])"

definition affected_accounts :: "('d, 'b, string option list) prog" where
  "affected_accounts =
     pbind (call list_all_entry_attempts) (\<lambda>attempts.
     pbind (call list_all_held_trade_records) (\<lambda>records. preturn
       (fold push_account (case records of Inr rs \<Rightarrow> map hd_account rs | Inl _ \<Rightarrow> [])
         (fold push_account (case attempts of Inr as \<Rightarrow> map ea_account as | Inl _ \<Rightarrow> []) []))))"

text \<open>
  An account whose broker cannot be acquired is left out of the tick, as is every account when
  the signing key is missing: \<open>acquire\<close> answers the desk of an account.
\<close>

definition order_control_tick ::
  "(string option \<Rightarrow> ('d, 'b) desk option) \<Rightarrow> time \<Rightarrow> ('d, 'b, unit) prog" where
  "order_control_tick acquire now =
     pbind affected_accounts (\<lambda>accounts.
       pfor (\<lambda>account _. case acquire account of
           None \<Rightarrow> preturn () | Some D \<Rightarrow> run_both D account now) accounts ())"

end
