(* ===== verification/Upkeep_Stops.thy ===== *)
theory Upkeep_Stops
  imports Upkeep_Orders
begin

text \<open>
  The stops of open positions (\<open>trade-control-cron/src/\<close>): widened before a spread hour
  (\<open>blackout_apply.rs\<close>), put back after it (\<open>blackout_watch.rs\<close>) and moved to the entry once the
  trade has run (\<open>breakeven_decision.rs\<close>, \<open>breakeven_watch.rs\<close>).
\<close>

section \<open>Interface\<close>

datatype amend_error = AmendTransient | AmendNotFound

datatype close_outcome = ClosedPositions nat | NothingOpen | CloseErrored

definition is_flat :: "close_outcome \<Rightarrow> bool" where
  "is_flat c \<longleftrightarrow> c \<noteq> CloseErrored"

text \<open>What the cron asks of a broker beyond the desk; \<open>lb_close_exact\<close> is cTrader's own closing.\<close>

record ('d, 'b) live_broker =
  lb_desk :: "('d, 'b) desk"
  lb_amend_stop :: "string \<Rightarrow> string \<Rightarrow> f64 \<Rightarrow> 'b \<Rightarrow> (amend_error + unit) \<times> 'b"
  lb_current_price :: "string \<Rightarrow> 'b \<Rightarrow> (lookup_error + f64) \<times> 'b"
  lb_candles :: "string \<Rightarrow> granularity \<Rightarrow> time \<Rightarrow> time \<Rightarrow> 'b \<Rightarrow> (candle_error + candle list) \<times> 'b"
  lb_close_positions :: "string \<Rightarrow> 'b \<Rightarrow> close_outcome \<times> 'b"
  lb_close_exact :: "(entry_attempt \<Rightarrow> open_position \<Rightarrow> 'b \<Rightarrow> (string + unit) \<times> 'b) option"

abbreviation lb_broker :: "('d, 'b) live_broker \<Rightarrow> 'b broker" where
  "lb_broker L \<equiv> dk_broker (lb_desk L)"

abbreviation lb_venue :: "('d, 'b) live_broker \<Rightarrow> venue" where
  "lb_venue L \<equiv> dk_venue (lb_desk L)"

text \<open>
  The seam \<open>CronEnv\<close>. The lifecycle and the order control also need the signing key; the other
  passes do not.
\<close>

record ('d, 'b) cron_env =
  ce_acquire :: "string option \<Rightarrow> ('d, 'b) live_broker option"
  ce_signing_key :: bool
  ce_venue :: venue
  ce_exit_recorded :: "string option \<Rightarrow> string \<Rightarrow> string \<Rightarrow> string + bool"

definition signed_desk :: "('d, 'b) cron_env \<Rightarrow> string option \<Rightarrow> ('d, 'b) desk option" where
  "signed_desk E account =
     (if ce_signing_key E then map_option lb_desk (ce_acquire E account) else None)"

section \<open>Widening (\<open>blackout_apply.rs\<close>)\<close>

definition ny_close_window_marker_ttl_seconds :: nat where
  "ny_close_window_marker_ttl_seconds = 3 * 60 * 60"

definition apply_if_ny_close_edge :: "venue \<Rightarrow> time \<Rightarrow> ('d, 'b, unit) prog" where
  "apply_if_ny_close_edge V now =
     (if \<not> is_ny_close_edge V now then preturn ()
      else pbind (call (set_spread_blackout_window now ny_close_window_marker_ttl_seconds))
        (\<lambda>_. preturn ()))"

definition widen_pips :: "f64 option \<Rightarrow> f64 \<Rightarrow> f64 \<Rightarrow> f64 \<Rightarrow> f64" where
  "widen_pips baked_frac original_sl spread_abs pip_size =
     (let spread_pips = fdiv spread_abs pip_size in
      case baked_frac of
        Some share \<Rightarrow> spread_hour_widen_size (widen_frac_to_pips share original_sl pip_size) spread_pips
      | None \<Rightarrow> clamp_widen spread_pips)"

definition widened_record ::
  "venue \<Rightarrow> string \<Rightarrow> open_position \<Rightarrow> string option \<Rightarrow> f64 \<Rightarrow> f64 \<Rightarrow> time \<Rightarrow> held_record" where
  "widened_record V trade_id p account pip_size original_sl now =
     \<lparr>hd_trade_id = trade_id, hd_instrument = op_instrument p, hd_account = account, hd_applied = True,
      hd_holders = snd (hold Core_Hold.SpreadHour holders_new), hd_opened_at = now,
      hd_expires_at = now + seconds (int (spread_block_ttl_seconds V (op_instrument p) now)),
      hd_pip_size = pip_size,
      hd_original_stops = [\<lparr>rm_id = op_order_id p, rm_original_stop = original_sl\<rparr>],
      hd_cancelled_orders = [], hd_stored_orders = []\<rparr>"

text \<open>The original is recorded before the stop is amended.\<close>

definition record_and_amend ::
  "('d, 'b) live_broker \<Rightarrow> string option \<Rightarrow> open_position \<Rightarrow> held_record \<Rightarrow> f64 \<Rightarrow> time
    \<Rightarrow> ('d, 'b, unit) prog" where
  "record_and_amend L account p r new_sl now =
     pbind (call (upsert_held_trade_record r (spread_block_ttl_seconds (lb_venue L) (op_instrument p) now)))
       (\<lambda>u. case u of
         Inl _ \<Rightarrow> preturn ()
       | Inr _ \<Rightarrow> pbind (bcall (lb_amend_stop L (or_else account []) (op_order_id p) new_sl))
           (\<lambda>_. preturn ()))"

definition usable_pip_of :: "entry_attempt \<Rightarrow> f64 option" where
  "usable_pip_of a = (case ea_pip_size a of None \<Rightarrow> None
     | Some p \<Rightarrow> if fgt p (Fin 0) \<and> is_finite p then Some p else None)"

definition widen_joined ::
  "('d, 'b) live_broker \<Rightarrow> string option \<Rightarrow> open_position \<Rightarrow> f64 \<Rightarrow> f64 option \<Rightarrow> entry_attempt
    \<Rightarrow> (string \<rightharpoonup> f64 option) \<Rightarrow> time \<Rightarrow> ('d, 'b, string \<rightharpoonup> f64 option) prog" where
  "widen_joined L account p original_sl baked_frac attempt cache now =
     (case usable_pip_of attempt of
        None \<Rightarrow> preturn cache
      | Some pip_size \<Rightarrow>
          pbind (cached_quotes (lb_desk L) (op_instrument p) cache) (\<lambda>(spread, cache). case spread of
            None \<Rightarrow> preturn cache
          | Some spread_abs \<Rightarrow>
              pbind (record_and_amend L account p
                (widened_record (lb_venue L) (ea_trade_id attempt) p account pip_size original_sl now)
                (widened_away (op_direction p) original_sl
                  (widen_pips baked_frac original_sl spread_abs pip_size) pip_size) now)
              (\<lambda>_. preturn cache)))"

definition widen_one ::
  "('d, 'b) live_broker \<Rightarrow> string option \<Rightarrow> entry_attempt list \<Rightarrow> time \<Rightarrow> open_position
    \<Rightarrow> (string \<rightharpoonup> f64 option) \<Rightarrow> ('d, 'b, string \<rightharpoonup> f64 option) prog" where
  "widen_one L account attempts now p cache =
     (case op_stop_loss p of
        None \<Rightarrow> preturn cache
      | Some original_sl \<Rightarrow>
          let baked_frac = spread_hour_widen_frac (lb_venue L)
                (spread_lookup_key (lb_venue L) (op_instrument p) account) now in
          if baked_frac = None \<and> \<not> is_ny_close_edge (lb_venue L) now then preturn cache
          else case join_position_to_attempt p account attempts of
            None \<Rightarrow> preturn cache
          | Some attempt \<Rightarrow>
              pbind (call (get_held_trade_record (ea_trade_id attempt))) (\<lambda>r. case r of
                Inl _ \<Rightarrow> preturn cache
              | Inr existing \<Rightarrow>
                  if (case existing of Some r \<Rightarrow> hd_applied r | None \<Rightarrow> False) then preturn cache
                  else widen_joined L account p original_sl baked_frac attempt cache now))"

definition widen_account ::
  "('d, 'b) cron_env \<Rightarrow> entry_attempt list \<Rightarrow> time \<Rightarrow> string option \<Rightarrow> ('d, 'b, unit) prog" where
  "widen_account E attempts now account =
     (case ce_acquire E account of
        None \<Rightarrow> preturn ()
      | Some L \<Rightarrow> pbind (bcall (list_open_positions (lb_broker L) (or_else account []))) (\<lambda>ps. case ps of
          Inl _ \<Rightarrow> preturn ()
        | Inr positions \<Rightarrow>
            pbind (pfor (widen_one L account attempts now) positions Map.empty) (\<lambda>_. preturn ())))"

definition widen_open_stops_for_spread_hours :: "('d, 'b) cron_env \<Rightarrow> time \<Rightarrow> ('d, 'b, unit) prog" where
  "widen_open_stops_for_spread_hours E now =
     pbind (call list_all_entry_attempts) (\<lambda>attempts. case attempts of
       Inl _ \<Rightarrow> preturn ()
     | Inr attempts \<Rightarrow>
         pfor (\<lambda>account _. widen_account E attempts now account)
           (fold push_account (map ea_account attempts) []) ())"

section \<open>Putting a stop back (\<open>blackout_watch.rs\<close>)\<close>

definition restore_stop ::
  "('d, 'b) live_broker \<Rightarrow> string \<Rightarrow> open_position list \<Rightarrow> remembered_stop \<Rightarrow> ('d, 'b, unit) prog" where
  "restore_stop L account positions m =
     (case find (\<lambda>p. op_order_id p = rm_id m \<or> op_position_id p = rm_id m) positions of
        None \<Rightarrow> preturn ()
      | Some p \<Rightarrow> (case op_stop_loss p of
          None \<Rightarrow> preturn ()
        | Some current \<Rightarrow>
            (case restore_decision_of (op_direction p) (CurrentStop current)
                (OriginalStop (rm_original_stop m)) of
              SkipRestore _ \<Rightarrow> preturn ()
            | RestoreTo level \<Rightarrow> pbind (bcall (lb_amend_stop L account (rm_id m) level)) (\<lambda>_. preturn ()))))"

definition restore_remembered_stops :: "('d, 'b) cron_env \<Rightarrow> held_record \<Rightarrow> ('d, 'b, unit) prog" where
  "restore_remembered_stops E r =
     (if hd_original_stops r = [] then preturn ()
      else case ce_acquire E (hd_account r) of
        None \<Rightarrow> preturn ()
      | Some L \<Rightarrow>
          let account = or_else (hd_account r) [] in
          pbind (bcall (list_open_positions (lb_broker L) account)) (\<lambda>ps. case ps of
            Inl _ \<Rightarrow> preturn ()
          | Inr positions \<Rightarrow>
              pfor (\<lambda>m _. restore_stop L account positions m) (hd_original_stops r) ()))"

definition finish_system2_and_clear :: "('d, 'b) cron_env \<Rightarrow> string \<Rightarrow> ('d, 'b, unit res) prog" where
  "finish_system2_and_clear E trade_id =
     and_then (call (get_held_trade_record trade_id)) (\<lambda>existing. case existing of
       None \<Rightarrow> preturn (Inr ())
     | Some r \<Rightarrow>
         pbind (restore_remembered_stops E r) (\<lambda>_. call (clear_held_trade_record (hd_trade_id r))))"

definition run_spread_lifecycle_for_account ::
  "('d, 'b) cron_env \<Rightarrow> string option \<Rightarrow> time \<Rightarrow> clear_policy \<Rightarrow> ('d, 'b, lifecycle_report) prog" where
  "run_spread_lifecycle_for_account E account now policy =
     (case signed_desk E account of
        None \<Rightarrow> preturn empty_report | Some D \<Rightarrow> pending_order_lifecycle D account now policy)"

definition watch_account :: "('d, 'b) cron_env \<Rightarrow> time \<Rightarrow> string option \<Rightarrow> ('d, 'b, unit) prog" where
  "watch_account E now account =
     pbind (run_spread_lifecycle_for_account E account now LeaveForCaller) (\<lambda>rep.
       pfor (\<lambda>(trade_id, _) _. pbind (finish_system2_and_clear E trade_id) (\<lambda>_. preturn ()))
         (lr_restored rep) ())"

definition watch_recovery :: "('d, 'b) cron_env \<Rightarrow> time \<Rightarrow> ('d, 'b, unit) prog" where
  "watch_recovery E now =
     pbind affected_accounts (\<lambda>accounts. pfor (\<lambda>account _. watch_account E now account) accounts ())"

section \<open>Break-even: the decision (\<open>breakeven_decision.rs\<close>)\<close>

record breakeven_inputs =
  bi_snapshot :: breakeven_snapshot
  bi_position :: open_position
  bi_current_stop :: f64

text \<open>Why a decision was refused; the noise carries stop, reference, distance and floor.\<close>

datatype breakeven_block = NoFillTime | InsideNoise f64 f64 f64 f64

datatype breakeven_decision =
  HoldStop | AmendTo (am_new_stop: f64) (am_armed_by: f64) (am_at: time) | BlockedBy breakeven_block

definition target_entry :: "breakeven_inputs \<Rightarrow> f64" where
  "target_entry x = or_else (op_entry_price (bi_position x)) (bs_entry_price (bi_snapshot x))"

definition bar_length :: "granularity \<Rightarrow> time" where
  "bar_length g = seconds (granularity_seconds g)"

definition closed_after_fill :: "granularity \<Rightarrow> time \<Rightarrow> time \<Rightarrow> time \<Rightarrow> bool" where
  "closed_after_fill g fill_at now bar \<longleftrightarrow> bar + bar_length g \<le> now \<and> fill_at < bar + bar_length g"

definition armable_candles ::
  "venue \<Rightarrow> candle list \<Rightarrow> granularity \<Rightarrow> string \<Rightarrow> time \<Rightarrow> time \<Rightarrow> candle list" where
  "armable_candles V candles g instrument fill_at now =
     filter (\<lambda>c. closed_after_fill g fill_at now (cn_time c) \<and> \<not> is_spread_hour V instrument (cn_time c))
       candles"

definition best_close :: "direction \<Rightarrow> candle list \<Rightarrow> candle option" where
  "best_close dir cs = (case cs of [] \<Rightarrow> None | c # rest \<Rightarrow>
     Some (foldl (\<lambda>a b. if feq (more_progressed dir (cn_c a) (cn_c b)) (cn_c b) then b else a) c rest))"

definition noise_violation :: "candle list \<Rightarrow> f64 \<Rightarrow> granularity \<Rightarrow> breakeven_block option" where
  "noise_violation armable new_stop g =
     (case judge_breakeven_stop armable new_stop g of
        NoiseClear \<Rightarrow> None
      | NoiseInside stop reference distance limit \<Rightarrow> Some (InsideNoise stop reference distance limit))"

definition decide_for_account ::
  "venue \<Rightarrow> breakeven_inputs \<Rightarrow> candle list \<Rightarrow> time \<Rightarrow> string option \<Rightarrow> breakeven_decision" where
  "decide_for_account V x candles now account =
     (let p = bi_position x; snap_shot = bi_snapshot x in
      case op_opened_at p of
        None \<Rightarrow> BlockedBy NoFillTime
      | Some fill_at \<Rightarrow>
          let armable = armable_candles V candles (bs_granularity snap_shot)
                (spread_lookup_key V (op_instrument p) account) fill_at now in
          (case best_close (op_direction p) armable of
             None \<Rightarrow> HoldStop
           | Some best \<Rightarrow>
               (case decide_move (bs_rule snap_shot) (op_direction p) (target_entry x)
                   (bs_take_profit snap_shot) (bi_current_stop x) (cn_c best) of
                  None \<Rightarrow> HoldStop
                | Some new_stop \<Rightarrow>
                    (case noise_violation armable new_stop (bs_granularity snap_shot) of
                       Some block \<Rightarrow> BlockedBy block
                     | None \<Rightarrow> AmendTo new_stop (cn_c best) (cn_time best)))))"

section \<open>Break-even: the average veto (\<open>breakeven_decision/ma_cross.rs\<close>)\<close>

definition sma_200_history_bars :: nat where "sma_200_history_bars = 201"

definition breakeven_has_veto :: "breakeven \<Rightarrow> bool" where
  "breakeven_has_veto b \<longleftrightarrow> includes_ma_cross (bk_trigger b) \<or> bk_sma_200_break b"

definition breakeven_history_bars :: "breakeven \<Rightarrow> nat" where
  "breakeven_history_bars b =
     (if bk_sma_200_break b then sma_200_history_bars
      else if includes_ma_cross (bk_trigger b) then ma_cross_history_bars else 0)"

definition breakeven_veto_ready_at :: "breakeven \<Rightarrow> candle list \<Rightarrow> nat \<Rightarrow> bool" where
  "breakeven_veto_ready_at b cs index \<longleftrightarrow>
     (\<not> includes_ma_cross (bk_trigger b) \<or> ready_at cs index) \<and>
     (\<not> bk_sma_200_break b \<or> average_ready_at cs index (List.last standard_set))"

definition cross_stop_of_bar ::
  "breakeven_inputs \<Rightarrow> f64 \<Rightarrow> f64 \<Rightarrow> candle list \<Rightarrow> nat \<times> bid_ask_candle \<Rightarrow> breakeven_decision option" where
  "cross_stop_of_bar x fill exit_price mid = (\<lambda>(index, c).
     let dir = op_direction (bi_position x) in
     map_option (\<lambda>new_stop. AmendTo new_stop (ba_c c) (ba_time c))
       (cross_stop_at (bs_rule (bi_snapshot x)) mid index
         \<lparr>si_direction = dir, si_fill = fill, si_current_stop = bi_current_stop x,
          si_exit_price = exit_price,
          si_event_exit_price = (case dir of Long \<Rightarrow> ba_bid_c c | Short \<Rightarrow> ba_ask_c c)\<rparr>))"

text \<open>The latest qualifying bar decides.\<close>

fun first_some :: "('x \<Rightarrow> 'y option) \<Rightarrow> 'x list \<Rightarrow> 'y option" where
  "first_some f [] = None"
| "first_some f (x # xs) = (case f x of Some y \<Rightarrow> Some y | None \<Rightarrow> first_some f xs)"

definition decide_ma_cross ::
  "venue \<Rightarrow> breakeven_inputs \<Rightarrow> bid_ask_candle list \<Rightarrow> time \<Rightarrow> string option \<Rightarrow> f64 \<Rightarrow> breakeven_decision" where
  "decide_ma_cross V x candles now account exit_price =
     (let p = bi_position x; snap_shot = bi_snapshot x; rule = bs_rule snap_shot in
      if \<not> breakeven_has_veto rule then HoldStop
      else case (op_opened_at p, op_entry_price p) of
        (None, _) \<Rightarrow> BlockedBy NoFillTime
      | (Some _, None) \<Rightarrow> HoldStop
      | (Some fill_at, Some fill) \<Rightarrow>
          let key = spread_lookup_key V (op_instrument p) account; mid = map mid_candle candles in
          if mid = [] \<or> \<not> breakeven_veto_ready_at rule mid (length mid - 1) then HoldStop
          else case first_some (cross_stop_of_bar x fill exit_price mid)
              (filter (\<lambda>(_, c). closed_after_fill (bs_granularity snap_shot) fill_at now (ba_time c) \<and>
                \<not> is_spread_hour V key (ba_time c)) (rev (enumerate 0 candles))) of
            Some decision \<Rightarrow> decision | None \<Rightarrow> HoldStop)"

section \<open>Break-even: the watcher (\<open>breakeven_watch.rs\<close>)\<close>

definition breakeven_lookback_bars :: int where "breakeven_lookback_bars = 500"

definition watch_since :: "breakeven_snapshot \<Rightarrow> open_position \<Rightarrow> time \<Rightarrow> time" where
  "watch_since snap_shot p now =
     (let secs = granularity_seconds (bs_granularity snap_shot);
          since = now - seconds (secs * breakeven_lookback_bars) in
      if breakeven_has_veto (bs_rule snap_shot)
      then (case op_opened_at p of None \<Rightarrow> since
        | Some fill \<Rightarrow> min (fill - seconds (secs * int (breakeven_history_bars (bs_rule snap_shot)) * 3)) since)
      else since)"

definition position_exit_price :: "('d, 'b) live_broker \<Rightarrow> open_position \<Rightarrow> ('d, 'b, f64 option) prog" where
  "position_exit_price L p =
     pbind (bcall (get_quote (lb_broker L) (op_instrument p))) (\<lambda>q. preturn (case q of
       Inl _ \<Rightarrow> None
     | Inr q \<Rightarrow> Some (case op_direction p of Long \<Rightarrow> qt_bid q | Short \<Rightarrow> qt_ask q)))"

definition cross_decision ::
  "('d, 'b) live_broker \<Rightarrow> breakeven_inputs \<Rightarrow> string option \<Rightarrow> time \<Rightarrow> time \<Rightarrow> ('d, 'b, breakeven_decision) prog" where
  "cross_decision L x account since now =
     (let p = bi_position x; snap_shot = bi_snapshot x in
      if \<not> breakeven_has_veto (bs_rule snap_shot) then preturn HoldStop
      else pbind (position_exit_price L p) (\<lambda>exit_price.
        pbind (bcall (get_bidask_candles (lb_broker L) (op_instrument p) (bs_granularity snap_shot) since now))
          (\<lambda>books. preturn (case (exit_price, books) of
            (Some px, Inr candles) \<Rightarrow> decide_ma_cross (lb_venue L) x candles now account px
          | _ \<Rightarrow> HoldStop))))"

definition amend_if_decided ::
  "('d, 'b) live_broker \<Rightarrow> string option \<Rightarrow> open_position \<Rightarrow> breakeven_decision \<Rightarrow> ('d, 'b, unit) prog" where
  "amend_if_decided L account p decision =
     (case decision of
        AmendTo new_stop _ _ \<Rightarrow>
          pbind (bcall (lb_amend_stop L (or_else account []) (op_order_id p) new_stop)) (\<lambda>_. preturn ())
      | _ \<Rightarrow> preturn ())"

definition breakeven_watch_one ::
  "('d, 'b) live_broker \<Rightarrow> string option \<Rightarrow> entry_attempt list \<Rightarrow> time \<Rightarrow> open_position \<Rightarrow> ('d, 'b, unit) prog" where
  "breakeven_watch_one L account attempts now p =
     (case (op_stop_loss p, Option.bind (join_position_to_attempt p account attempts) ea_breakeven) of
        (Some current, Some snap_shot) \<Rightarrow>
          let since = watch_since snap_shot p now;
              x = \<lparr>bi_snapshot = snap_shot, bi_position = p, bi_current_stop = current\<rparr> in
          pbind (bcall (lb_candles L (op_instrument p) (bs_granularity snap_shot) since now)) (\<lambda>cs. case cs of
            Inl _ \<Rightarrow> preturn ()
          | Inr candles \<Rightarrow>
              pbind (cross_decision L x account since now) (\<lambda>cross.
              amend_if_decided L account p
                (if cross = HoldStop then decide_for_account (lb_venue L) x candles now account else cross)))
      | _ \<Rightarrow> preturn ())"

definition breakeven_watch_account ::
  "('d, 'b) cron_env \<Rightarrow> entry_attempt list \<Rightarrow> time \<Rightarrow> string option \<Rightarrow> ('d, 'b, unit) prog" where
  "breakeven_watch_account E attempts now account =
     (case ce_acquire E account of
        None \<Rightarrow> preturn ()
      | Some L \<Rightarrow> pbind (bcall (list_open_positions (lb_broker L) (or_else account []))) (\<lambda>ps. case ps of
          Inl _ \<Rightarrow> preturn ()
        | Inr positions \<Rightarrow> pfor (\<lambda>p _. breakeven_watch_one L account attempts now p) positions ()))"

definition breakeven_watch :: "('d, 'b) cron_env \<Rightarrow> time \<Rightarrow> ('d, 'b, unit) prog" where
  "breakeven_watch E now =
     pbind (call list_all_entry_attempts) (\<lambda>attempts. case attempts of
       Inl _ \<Rightarrow> preturn ()
     | Inr attempts \<Rightarrow>
         pfor (\<lambda>account _. breakeven_watch_account E attempts now account)
           (fold push_account (map ea_account (filter (\<lambda>a. ea_breakeven a \<noteq> None) attempts)) []) ())"

end
