(* ===== verification/Upkeep_Sweep.thy ===== *)
theory Upkeep_Sweep
  imports Upkeep_Stops
begin

text \<open>
  The sweep over tracked attempts (\<open>trade-control-cron/src/sweep.rs\<close>): an order that has
  outlived its window or whose stop has been passed leaves the book and its row is deleted, and a
  position may be closed for a closed market.
\<close>

section \<open>Cancelling\<close>

definition sweep_cancel :: "('d, 'b) live_broker \<Rightarrow> entry_attempt \<Rightarrow> ('d, 'b, unit) prog" where
  "sweep_cancel L a =
     pbind (bcall (cancel_order (lb_broker L) (or_else (ea_account a) []) (ea_broker_order_id a)))
       (\<lambda>_. preturn ())"

definition sweep_delete_row :: "entry_attempt \<Rightarrow> ('d, 'b, unit) prog" where
  "sweep_delete_row a =
     pbind (call (delete_entry_attempt (ea_account a) (ea_trade_id a) (ea_attempt_no a))) (\<lambda>_. preturn ())"

text \<open>The failures of a row, which the sweep logs.\<close>

datatype sweep_error =
    NoBroker | PriceFailed | LookupFailed | FillUnknown | EmptyIdentity | SnapshotFailed
  | IdentityMismatch | SharedSymbol | CloseFailed | ExactCloseFailed string | ExitNoteFailed string

definition cancel_and_delete :: "('d, 'b) cron_env \<Rightarrow> entry_attempt \<Rightarrow> ('d, 'b, sweep_error + unit) prog" where
  "cancel_and_delete E a =
     (case ce_acquire E (ea_account a) of
        None \<Rightarrow> preturn (Inl NoBroker)
      | Some L \<Rightarrow> pbind (sweep_cancel L a) (\<lambda>_. pbind (sweep_delete_row a) (\<lambda>_. preturn (Inr ()))))"

section \<open>The stop of a resting order\<close>

definition confirmed_pending :: "('d, 'b) live_broker \<Rightarrow> entry_attempt \<Rightarrow> time \<Rightarrow> ('d, 'b, bool) prog" where
  "confirmed_pending L a now =
     (if ea_broker_trade_id a \<noteq> None then preturn False
      else pbind (observe (lb_broker L) a now) (\<lambda>r. preturn (r = Inr Pending)))"

definition persist_adverse_extreme :: "entry_attempt \<Rightarrow> f64 \<Rightarrow> ('d, 'b, unit) prog" where
  "persist_adverse_extreme a extreme =
     (if (case ea_adverse_extreme a of None \<Rightarrow> False | Some e \<Rightarrow> feq e extreme) then preturn ()
      else pbind (call (set_entry_attempt_adverse_extreme (ea_account a) (ea_trade_id a)
          (ea_attempt_no a) extreme)) (\<lambda>_. preturn ()))"

definition judge_breach ::
  "('d, 'b) live_broker \<Rightarrow> entry_attempt \<Rightarrow> f64 \<Rightarrow> f64 \<Rightarrow> ('d, 'b, sweep_error + unit) prog" where
  "judge_breach L a stop_loss price =
     (let extreme = update_adverse_extreme (ea_direction a) (ea_adverse_extreme a) price in
      pbind (persist_adverse_extreme a extreme) (\<lambda>_.
      if breach_detected (ea_direction a) extreme stop_loss
      then pbind (sweep_cancel L a) (\<lambda>_. pbind (sweep_delete_row a) (\<lambda>_. preturn (Inr ())))
      else preturn (Inr ())))"

definition maybe_breach_cancel ::
  "('d, 'b) live_broker \<Rightarrow> entry_attempt \<Rightarrow> f64 \<Rightarrow> time \<Rightarrow> ('d, 'b, sweep_error + unit) prog" where
  "maybe_breach_cancel L a stop_loss now =
     pbind (confirmed_pending L a now) (\<lambda>resting.
       if \<not> resting then preturn (Inr ())
       else pbind (bcall (lb_current_price L (ea_instrument a))) (\<lambda>price. case price of
         Inl _ \<Rightarrow> preturn (Inl PriceFailed)
       | Inr price \<Rightarrow> judge_breach L a stop_loss price))"

section \<open>Closing for a closed market\<close>

definition same_instrument :: "string \<Rightarrow> string \<Rightarrow> bool" where
  "same_instrument left right \<longleftrightarrow>
     map ascii_lower (filter (\<lambda>c. c \<notin> {CHR ''/'', CHR ''_''}) left) =
     map ascii_lower (filter (\<lambda>c. c \<notin> {CHR ''/'', CHR ''_''}) right)"

text \<open>Which position the attempt filled, if the broker still knows it and nothing else is meant.\<close>

definition pick_target ::
  "entry_attempt \<Rightarrow> bool \<Rightarrow> string \<Rightarrow> open_position list \<Rightarrow> sweep_error + open_position option" where
  "pick_target a require_sole_symbol i positions =
     (case filter (\<lambda>p. op_position_id p = i) positions of
        [] \<Rightarrow> Inr None
      | [p] \<Rightarrow>
          if \<not> same_instrument (op_instrument p) (ea_instrument a) \<or> op_direction p \<noteq> ea_direction a
          then Inl IdentityMismatch
          else if require_sole_symbol \<and>
            List.length (filter (\<lambda>p. same_instrument (op_instrument p) (ea_instrument a)) positions) \<noteq> 1
          then Inl SharedSymbol
          else Inr (Some p)
      | _ \<Rightarrow> Inl IdentityMismatch)"

definition filled_position_id ::
  "('d, 'b) live_broker \<Rightarrow> entry_attempt \<Rightarrow> ('d, 'b, sweep_error + string option) prog" where
  "filled_position_id L a =
     (case ea_broker_trade_id a of
        Some i \<Rightarrow> preturn (Inr (Some i))
      | None \<Rightarrow> pbind (bcall (dk_attempt_state (lb_desk L) (ea_instrument a) (ea_broker_order_id a) None))
          (\<lambda>r. preturn (case r of
             Inl _ \<Rightarrow> Inl LookupFailed
           | Inr st \<Rightarrow> (case st of
               OpenPosition i \<Rightarrow> Inr (Some i) | Unknown \<Rightarrow> Inl FillUnknown | _ \<Rightarrow> Inr None))))"

definition blackout_target ::
  "('d, 'b) live_broker \<Rightarrow> entry_attempt \<Rightarrow> bool \<Rightarrow> ('d, 'b, sweep_error + open_position option) prog" where
  "blackout_target L a require_sole_symbol =
     and_then (filled_position_id L a) (\<lambda>found. case found of
       None \<Rightarrow> preturn (Inr None)
     | Some i \<Rightarrow>
         if i = [] then preturn (Inl EmptyIdentity)
         else pbind (bcall (list_open_positions (lb_broker L) (or_else (ea_account a) []))) (\<lambda>ps.
           preturn (case ps of
             Inl _ \<Rightarrow> Inl SnapshotFailed
           | Inr positions \<Rightarrow> pick_target a require_sole_symbol i positions)))"

definition blackout_close_position ::
  "('d, 'b) live_broker \<Rightarrow> entry_attempt \<Rightarrow> ('d, 'b, sweep_error + unit) prog" where
  "blackout_close_position L a =
     and_then (blackout_target L a True) (\<lambda>target. case target of
       None \<Rightarrow> preturn (Inr ())
     | Some p \<Rightarrow> pbind (bcall (lb_close_positions L (op_instrument p))) (\<lambda>closed.
         preturn (if is_flat closed then Inr () else Inl CloseFailed)))"

definition blackout_close_exact ::
  "('d, 'b) live_broker \<Rightarrow> (entry_attempt \<Rightarrow> open_position \<Rightarrow> 'b \<Rightarrow> (string + unit) \<times> 'b) \<Rightarrow> entry_attempt
    \<Rightarrow> ('d, 'b, sweep_error + unit) prog" where
  "blackout_close_exact L close_exact a =
     and_then (blackout_target L a False) (\<lambda>target. case target of
       None \<Rightarrow> preturn (Inr ())
     | Some p \<Rightarrow> pbind (bcall (close_exact a p)) (\<lambda>r.
         preturn (case r of Inr _ \<Rightarrow> Inr () | Inl e \<Rightarrow> Inl (ExactCloseFailed e))))"

definition market_blackout_act :: "('d, 'b) cron_env \<Rightarrow> entry_attempt \<Rightarrow> ('d, 'b, sweep_error + unit) prog" where
  "market_blackout_act E a =
     (if ea_blackout_close a \<noteq> CancelAndClose then preturn (Inr ())
      else case (if ea_broker_trade_id a = None then Inr False
          else ce_exit_recorded E (ea_account a) (ea_trade_id a) (ea_broker_order_id a)) of
        Inl e \<Rightarrow> preturn (Inl (ExitNoteFailed e))
      | Inr True \<Rightarrow> preturn (Inr ())
      | Inr False \<Rightarrow> (case ce_acquire E (ea_account a) of
          None \<Rightarrow> preturn (Inl NoBroker)
        | Some L \<Rightarrow> (case lb_close_exact L of
            None \<Rightarrow> blackout_close_position L a
          | Some close_exact \<Rightarrow> blackout_close_exact L close_exact a)))"

section \<open>The sweep\<close>

definition sweep_one :: "('d, 'b) cron_env \<Rightarrow> time \<Rightarrow> entry_attempt \<Rightarrow> ('d, 'b, sweep_error + unit) prog" where
  "sweep_one E now a =
     (let blocked = market_blackout_due_symbol (ce_venue E) (ea_instrument a) now in
      if ea_broker_trade_id a \<noteq> None
      then if blocked then market_blackout_act E a else preturn (Inr ())
      else if ea_expires_at a < now then cancel_and_delete E a
      else if bar_expiry_due (ea_cancel_at a) now then cancel_and_delete E a
      else if blocked then market_blackout_act E a
      else case ea_stop_loss_price a of
        None \<Rightarrow> preturn (Inr ())
      | Some sl \<Rightarrow> (case ce_acquire E (ea_account a) of
          None \<Rightarrow> preturn (Inl NoBroker)
        | Some L \<Rightarrow> maybe_breach_cancel L a sl now))"

definition sweep_pending_orders :: "('d, 'b) cron_env \<Rightarrow> time \<Rightarrow> ('d, 'b, unit) prog" where
  "sweep_pending_orders E now =
     pbind (call list_all_entry_attempts) (\<lambda>attempts. case attempts of
       Inl _ \<Rightarrow> preturn ()
     | Inr attempts \<Rightarrow> pfor (\<lambda>a _. pbind (sweep_one E now a) (\<lambda>_. preturn ())) attempts ())"

end
