(* ===== verification/Core_Calculus.thy ===== *)
theory Core_Calculus
  imports Core_Lifecycle
begin

text \<open>
  Which relations between the world before and after hold along a program, whatever calls fail:
  \<open>keeping R m\<close>. Reflexive and transitive relations are closed under the combinators; one that
  the writes of the entry path respect holds along the whole path.
\<close>

definition keeping :: "(('d, 'b) world \<Rightarrow> ('d, 'b) world \<Rightarrow> bool) \<Rightarrow> ('d, 'b, 'a) prog \<Rightarrow> bool" where
  "keeping R m \<longleftrightarrow> (\<forall>W. R W (snd (m W)))"

named_theorems keep_intros \<open>programs along which a relation holds\<close>

lemma keepingD: "keeping R m \<Longrightarrow> R W (snd (m W))"
  by (simp add: keeping_def)

lemma keep_if [keep_intros]: "keeping R m \<Longrightarrow> keeping R n \<Longrightarrow> keeping R (if c then m else n)"
  by simp

lemma keep_option [keep_intros]:
  "keeping R m \<Longrightarrow> (\<And>x. keeping R (n x)) \<Longrightarrow> keeping R (case q of None \<Rightarrow> m | Some x \<Rightarrow> n x)"
  by (cases q) simp_all

lemma keep_sum [keep_intros]:
  "(\<And>x. keeping R (m x)) \<Longrightarrow> (\<And>x. keeping R (n x)) \<Longrightarrow> keeping R (case q of Inl x \<Rightarrow> m x | Inr x \<Rightarrow> n x)"
  by (cases q) simp_all

lemma keep_prod [keep_intros]: "(\<And>x y. keeping R (m x y)) \<Longrightarrow> keeping R (case q of (x, y) \<Rightarrow> m x y)"
  by (cases q) simp

section \<open>Combinators\<close>

locale world_relation =
  fixes R :: "('d, 'b) world \<Rightarrow> ('d, 'b) world \<Rightarrow> bool"
  assumes rel_refl: "R W W"
    and rel_trans: "R W W' \<Longrightarrow> R W' W'' \<Longrightarrow> R W W''"
begin

lemma keep_preturn [keep_intros]: "keeping R (preturn x)"
  by (simp add: keeping_def rel_refl)

lemma keep_pbind [keep_intros]: "keeping R m \<Longrightarrow> (\<And>x. keeping R (k x)) \<Longrightarrow> keeping R (pbind m k)"
  unfolding keeping_def pbind_simp by (blast intro: rel_trans)

lemma keep_and_then [keep_intros]: "keeping R m \<Longrightarrow> (\<And>x. keeping R (k x)) \<Longrightarrow> keeping R (and_then m k)"
  unfolding and_then_def by (intro keep_intros)

lemma keep_or_return [keep_intros]: "keeping R m \<Longrightarrow> (\<And>x. keeping R (k x)) \<Longrightarrow> keeping R (or_return m k)"
  unfolding or_return_def by (intro keep_intros)

lemma keep_pfold [keep_intros]: "(\<And>x t. keeping R (f x t)) \<Longrightarrow> keeping R (pfold f xs s)"
proof (induction xs arbitrary: s)
  case (Cons x xs)
  show ?case unfolding pfold.simps by (intro keep_intros Cons)
qed (simp add: keep_intros)

lemma keep_pfor [keep_intros]: "(\<And>x t. keeping R (f x t)) \<Longrightarrow> keeping R (pfor f xs s)"
proof (induction xs arbitrary: s)
  case (Cons x xs)
  show ?case unfolding pfor.simps by (intro keep_intros Cons)
qed (simp add: keep_intros)

end

section \<open>Reads of the entry path\<close>

lemma entry_reads [simp]:
  "reads (get_prep C a i st)" "reads (get_mw_state a t)" "reads (record_attempt_diagnostic row dg now)"
  "reads (is_cooled_down a i)" "reads (is_vetoed a t i nm)" "reads (is_retry_fire_seen C a t u)"
  "reads (list_entry_attempts a t)" "reads (list_pauses_for_trade t)" "reads (get_held_trade_record t)"
  "reads get_spread_blackout_window"
  by (auto simp: reads_def get_prep_def get_mw_state_def Let_def record_attempt_diagnostic_def
      is_cooled_down_def is_vetoed_def is_retry_fire_seen_def list_entry_attempts_def
      list_pauses_for_trade_def get_held_trade_record_def
      get_spread_blackout_window_def split: option.split body.split)

section \<open>Relations the entry path respects\<close>

locale store_relation = world_relation R for R :: "('d, 'b) world \<Rightarrow> ('d, 'b) world \<Rightarrow> bool" +
  assumes rel_faults: "R W (W\<lparr>w_faults := fs\<rparr>)"
    and rel_broker: "R W (W\<lparr>w_broker := b\<rparr>)"
begin

lemma keep_bcall [keep_intros]: "keeping R (bcall f)"
  by (simp add: keeping_def bcall_def case_prod_beta rel_broker)

lemma keep_call:
  assumes "\<And>W. R W (W\<lparr>w_store := snd (f (w_store W))\<rparr>)"
  shows "keeping R (call f)"
proof -
  have "R W (W\<lparr>w_store := snd (f (w_store W)), w_faults := fs\<rparr>)" for W fs
    using rel_trans [OF assms [of W] rel_faults] by simp
  then show ?thesis
    by (auto simp: keeping_def call_def case_prod_beta assms rel_faults split: list.split call_outcome.split)
qed

lemma keep_reads: "reads f \<Longrightarrow> keeping R (call f)"
  by (rule keep_call) (simp add: reads_def rel_refl)

lemmas keep_entry_reads [keep_intros] = entry_reads [THEN keep_reads]

lemma keep_call_or_500 [keep_intros]:
  "keeping R (call f :: ('d, 'b, 'a res) prog) \<Longrightarrow> keeping R (call_or_500 f :: ('d, 'b, action_result + 'a) prog)"
  unfolding call_or_500_def by (intro keep_intros)

lemma keep_refuse [keep_intros]: "keeping R (refuse_if c r)"
  unfolding refuse_if_def by (intro keep_intros)

end

locale entry_relation = store_relation R for R :: "('d, 'b) world \<Rightarrow> ('d, 'b) world \<Rightarrow> bool" +
  assumes rel_writes:"R W (W\<lparr>w_store := snd (set_veto a t i nm ttl (w_store W))\<rparr>)"
  "R W (W\<lparr>w_store := snd (record_control_event a t ev (w_store W))\<rparr>)"
  "R W (W\<lparr>w_store := snd (clear_mw_state a t (w_store W))\<rparr>)"
  "R W (W\<lparr>w_store := snd (upsert_mw_state a t m ttl (w_store W))\<rparr>)"
  "R W (W\<lparr>w_store := snd (put_order_body oid body (w_store W))\<rparr>)"
  "R W (W\<lparr>w_store := snd (record_position_link pl (w_store W))\<rparr>)"
  "R W (W\<lparr>w_store := snd (record_entry_attempt row (w_store W))\<rparr>)"
  "R W (W\<lparr>w_store := snd (set_entry_attempt_replacement a t oid oid' stop (w_store W))\<rparr>)"
  "R W (W\<lparr>w_store := snd (set_entry_attempt_broker_trade_id a t n bt (w_store W))\<rparr>)"
  "R W (W\<lparr>w_store := snd (set_entry_attempt_superseded a t n (w_store W))\<rparr>)"
  "R W (W\<lparr>w_store := snd (mark_retry_fire_seen C a t u ttl (w_store W))\<rparr>)"
  "R W (W\<lparr>w_store := snd (upsert_held_trade_record r ttl (w_store W))\<rparr>)"
begin

lemma keep_writes [keep_intros]:
  "keeping R (call (set_veto a t i nm ttl))" "keeping R (call (record_control_event a t ev))"
  "keeping R (call (clear_mw_state a t))" "keeping R (call (upsert_mw_state a t m ttl))"
  "keeping R (call (put_order_body oid body))" "keeping R (call (record_position_link pl))"
  "keeping R (call (record_entry_attempt row))"
  "keeping R (call (set_entry_attempt_replacement a t oid oid' stop))"
  "keeping R (call (set_entry_attempt_broker_trade_id a t n bt))"
  "keeping R (call (set_entry_attempt_superseded a t n))"
  "keeping R (call (mark_retry_fire_seen C a t u ttl))"
  "keeping R (call (upsert_held_trade_record r ttl))"
  by (rule keep_call, rule rel_writes)+

lemma keep_event [keep_intros]: "keeping R (record_control_event_for a t k nm i ttl now q)"
  unfolding record_control_event_for_def by (intro keep_intros)

lemma keep_gates [keep_intros]:
  "keeping R (pause_stage i)" "keeping R (cooldown_stage i)" "keeping R (prep_stage C i)" "keeping R (veto_stage i)"
  unfolding pause_stage_def cooldown_stage_def prep_stage_def prep_step_def slot_set_ats_def veto_stage_def
  by (intro keep_intros)+

lemma keep_resolve [keep_intros]: "keeping R (resolve_stage P B v cfg now)"
  unfolding resolve_stage_def maybe_update_mw_state_def cancel_mw_def Let_def
  by (auto intro!: keep_intros split: option.split mw_update.split)

lemma keep_observe [keep_intros]: "keeping R (observe B a now)"
proof -
  have "keeping R (persist_identity a found)" for found
    by (cases "ea_broker_trade_id a"; cases found) (simp_all add: persist_identity_def keep_intros)
  then show ?thesis unfolding observe_def journal_diagnostic_def Let_def by (intro keep_intros)
qed

lemma keep_attempt_state [keep_intros]:
  "keeping R p \<Longrightarrow> (\<And>x. keeping R (q x)) \<Longrightarrow> (\<And>x. keeping R (w x)) \<Longrightarrow> (\<And>x. keeping R (l x)) \<Longrightarrow>
   (\<And>x. keeping R (e x)) \<Longrightarrow> keeping R c \<Longrightarrow> keeping R u \<Longrightarrow>
   keeping R (case st of Pending \<Rightarrow> p | OpenPosition x \<Rightarrow> q x | ClosedWin x \<Rightarrow> w x
     | ClosedLossOrBreakeven x \<Rightarrow> l x | ClosedConfirmed x \<Rightarrow> e x | Cancelled \<Rightarrow> c | Unknown \<Rightarrow> u)"
  by (cases st) simp_all

lemma keep_cancel_to_replace [keep_intros]: "keeping R (cancel_to_replace B acc t a now)"
  unfolding cancel_to_replace_def after_failed_cancel_def by (intro keep_intros)

lemma keep_walk [keep_intros]: "keeping R (walk B acc t now mode as)"
proof (induction as)
  case (Cons a as)
  show ?case unfolding walk.simps by (intro keep_intros Cons)
qed (simp only: walk.simps keep_preturn)

lemma keep_ask_gate [keep_intros]: "keeping R (ask_gate P B E mode)"
  unfolding ask_gate_def evaluate_at_def judge_attempts_def open_position_backstop_def
  by (intro keep_intros)

lemma keep_park_order [keep_intros]: "keeping R (park_order t ins a pip order expires_at now)"
  unfolding park_order_def Let_def by (intro keep_intros)

lemma keep_defer [keep_intros]: "keeping R (defer_entry P B E reason t r m)"
  unfolding defer_entry_def dedup_before_park_def park_stored_entry_def Let_def by (intro keep_intros)

lemma keep_blackout [keep_intros]: "keeping R (blackout_stage P B E t r)"
  unfolding blackout_stage_def session_gate_def spread_gate_def Let_def by (intro keep_intros)

lemma keep_spread_floor [keep_intros]: "keeping R (spread_floor_stage P B E t r)"
  unfolding spread_floor_stage_def effective_spread_def windowed_entry_spread_def Let_def
  by (auto intro!: keep_intros split: sl_widen.split)

lemma keep_retry [keep_intros]: "keeping R (retry_stage P B E)"
  unfolding retry_stage_def by (intro keep_intros)

lemma keep_place_with_recovery [keep_intros]: "keeping R (place_with_recovery B r vetos cap n)"
proof -
  have "keeping R (place_market B r band cap n d)" for band d
    unfolding place_market_def Let_def by (intro keep_intros)
  then have "keeping R (recover_near B r d vetos cap n)" for d
    unfolding recover_near_def Let_def by (auto intro!: keep_intros split: entry_error.split)
  moreover have "keeping R (too_close_fallback B r cap n)"
    unfolding too_close_fallback_def Let_def
    by (auto intro!: keep_intros split: resolved_entry.split recover_plan.split)
  ultimately show ?thesis unfolding place_with_recovery_def Let_def
    by (auto intro!: keep_intros split: entry_error.split)
qed

lemma keep_place [keep_intros]: "keeping R (place_stage P B E t r stop ca n)"
proof -
  have "keeping R (placed_outcome P E r stop ca n p placed)" for p placed
    unfolding placed_outcome_def link_placement_def record_attempt_def record_placement_def
      repoint_replaced_def keep_body_def Let_def by (intro keep_intros)
  moreover have "keeping R (undersized_outcome P E t r stop p)" for p
    unfolding undersized_outcome_def park_stored_entry_def Let_def by (intro keep_intros)
  ultimately show ?thesis unfolding place_stage_def Let_def
    by (auto intro!: keep_intros split: sum.split entry_error.split)
qed

lemma keep_run_enter [keep_intros]: "keeping R (run_enter P B E)"
  unfolding run_enter_def Let_def by (intro keep_intros)

end

end
