(* ===== verification/Upkeep_Sound.thy ===== *)
theory Upkeep_Sound
  imports Upkeep_Sweep Lifecycle_Facts Core_Calculus
begin

text \<open>
  The store's invariant along whole programs: \<open>sound m\<close> says that \<open>m\<close> keeps it whatever calls
  fail. It is a relation the entry path respects, and it holds of every pass of the cron.
\<close>

section \<open>Sound programs\<close>

definition inv_kept :: "('d, 'b) world \<Rightarrow> ('d, 'b) world \<Rightarrow> bool" where
  "inv_kept W W' \<longleftrightarrow> (store_inv (w_store W) \<longrightarrow> store_inv (w_store W'))"

abbreviation sound :: "('d, 'b, 'a) prog \<Rightarrow> bool" where
  "sound m \<equiv> keeping inv_kept m"

lemma soundD: "sound m \<Longrightarrow> store_inv (w_store W) \<Longrightarrow> store_inv (w_store (snd (m W)))"
  using keepingD [of inv_kept m W] by (simp add: inv_kept_def)

lemma inv_kept_step: "(\<And>s. store_step C s (snd (f s))) \<Longrightarrow> inv_kept W (W\<lparr>w_store := snd (f (w_store W))\<rparr>)"
  by (simp add: inv_kept_def) (blast intro: store_step_inv)

interpretation sound: entry_relation inv_kept
proof (unfold_locales, goal_cases)
  case 1 then show ?case by (simp add: inv_kept_def)
next
  case 2 then show ?case by (simp add: inv_kept_def)
next
  case 3 then show ?case by (simp add: inv_kept_def)
next
  case 4 then show ?case by (simp add: inv_kept_def)
qed (rule inv_kept_step, rule store_step.intros)+

lemmas sound_run_enter = sound.keep_run_enter

section \<open>Calls of the passes\<close>

lemma upkeep_reads [simp]: "reads list_all_entry_attempts"
  by (simp add: reads_def list_all_entry_attempts_def)

lemma sound_writes [keep_intros]:
  "sound (call (delete_order_body oid))" "sound (call (clear_held_trade_record t))"
  "sound (call (set_entry_attempt_adverse_extreme a t n x))" "sound (call (delete_entry_attempt a t n))"
  "sound (call (set_spread_blackout_window u ttl))"
  by (rule sound.keep_call, rule inv_kept_step, rule store_step.intros)+

lemmas [keep_intros] = upkeep_reads [THEN sound.keep_reads] lifecycle_reads(1,4) [THEN sound.keep_reads]

section \<open>The passes\<close>

lemma sound_protect [keep_intros]: "sound (protect r)"
  unfolding protect_def by (intro keep_intros)

lemma sound_hold_reasons [keep_intros]: "sound (pause_active t)" "sound (hold_reasons V i t now)"
  unfolding hold_reasons_def pause_active_def Let_def by (intro keep_intros)+

lemma sound_cancel_pass [keep_intros]: "sound (cancel_pass D a now rep)"
proof -
  have "sound (drop_cancelled_order r oid ttl)" for r oid ttl
    unfolding drop_cancelled_order_def cleanup_body_def Let_def by (auto intro!: keep_intros)
  then have "sound (cancel_stored D a order r ttl rep)" for order r ttl rep
    unfolding cancel_stored_def classify_cancel_failure_def Let_def by (intro keep_intros)
  then have "sound (store_and_cancel D a order t si pip reasons now rep)" for order t si pip reasons rep
    unfolding store_and_cancel_def Let_def by (intro keep_intros)
  then have "sound (try_cancel_one D a now order rep)" for order rep
    unfolding try_cancel_one_def Let_def by (auto intro!: keep_intros split: recovery.split)
  then show ?thesis unfolding cancel_pass_def by (intro keep_intros)
qed

lemma sound_recover_pass [keep_intros]: "sound (recover_pass D a now policy rep)"
proof -
  have "sound (reason_released D r now x)" for r x
    unfolding reason_released_def spread_hour_released_def Let_def
    by (auto intro!: keep_intros split: hold_reason.split)
  then have rel: "sound (release_satisfied D r now)" for r
    unfolding release_satisfied_def release_step_def by (intro keep_intros)
  have "sound (restore_one_order D r now c)" for r c
    unfolding restore_one_order_def cleanup_body_def Let_def
    by (auto intro!: keep_intros split: recovery.split)
  then have "sound (restore_and_finish D r now policy reason rep)" for r reason rep
    unfolding restore_and_finish_def restore_cancelled_orders_def finish_recover_def clear_hold_def Let_def
    by (auto intro!: keep_intros split: clear_policy.split)
  with rel have "sound (recover_one D now policy r rep)" for r rep
    unfolding recover_one_def extend_hold_def narrow_hold_def by (auto intro!: keep_intros split: bool.split)
  then show ?thesis unfolding recover_pass_def by (intro keep_intros)
qed

lemma sound_lifecycle [keep_intros]: "sound (pending_order_lifecycle D a now policy)"
  unfolding pending_order_lifecycle_def by (intro keep_intros)

lemma sound_or_store [keep_intros]: "sound m \<Longrightarrow> sound (or_store m)"
  unfolding or_store_def by (intro keep_intros)

lemma sound_quotes [keep_intros]: "sound (quoted_spread D i)" "sound (cached_quotes D i seen)"
  unfolding cached_quotes_def quoted_spread_def by (intro keep_intros)+

lemma sound_reprice_cancelled [keep_intros]:
  "sound (reprice_cancelled D order a action g expires_at bs now v si)"
  unfolding reprice_cancelled_def park_below_min_r_def Let_def
  by (auto intro!: keep_intros split: action_result.split)

lemma sound_reprice [keep_intros]:
  assumes "\<And>i q. sound (quotes i q)"
  shows "sound (reprice_due_orders D quotes q a now)"
proof -
  have "sound (reprice_pending_order D order a action g expires_at bs now)" for order action g expires_at bs
    unfolding reprice_pending_order_def Let_def by (auto intro!: keep_intros split: recovery.split)
  then have "sound (reprice_one D attempts a quotes now order q)" for attempts order q
    unfolding reprice_one_def Let_def by (intro keep_intros assms)
  then show ?thesis unfolding reprice_due_orders_def by (intro keep_intros)
qed

lemma sound_stored_order [keep_intros]: "sound (stored_order t)" "sound (clear_stored_order t now)"
  unfolding stored_order_def clear_stored_order_def Let_def by (intro keep_intros)+

lemma sound_promote_stored [keep_intros]: "sound (promote_stored_order D t check now)"
  unfolding promote_stored_order_def drop_parked_def promote_verified_def
  by (auto intro!: keep_intros split: stored_verdict.split recovery.split)

lemma sound_promote [keep_intros]: "sound (promote_due_orders D scope now)"
proof -
  have "sound (promote_record D now r acc)" for r acc
    unfolding promote_record_def by (auto intro!: keep_intros split: list.split)
  then show ?thesis unfolding promote_due_orders_def by (intro keep_intros)
qed

lemma sound_affected [keep_intros]: "sound affected_accounts"
  unfolding affected_accounts_def by (intro keep_intros)

lemma sound_tick: "sound (order_control_tick acquire now)"
  unfolding order_control_tick_def run_both_def by (intro keep_intros)

lemma sound_edge: "sound (apply_if_ny_close_edge V now)"
  unfolding apply_if_ny_close_edge_def by (intro keep_intros)

lemma sound_widen: "sound (widen_open_stops_for_spread_hours E now)"
proof -
  have "sound (widen_one L a attempts now p cache)" for L a attempts p cache
    unfolding widen_one_def widen_joined_def record_and_amend_def Let_def by (intro keep_intros)
  then show ?thesis
    unfolding widen_open_stops_for_spread_hours_def widen_account_def by (intro keep_intros)
qed

lemma sound_restore_stops [keep_intros]: "sound (restore_remembered_stops E r)"
proof -
  have "sound (restore_stop L a positions m)" for L a positions m
    unfolding restore_stop_def by (auto intro!: keep_intros split: restore_decision.split)
  then show ?thesis unfolding restore_remembered_stops_def Let_def by (intro keep_intros)
qed

lemma sound_watch: "sound (watch_recovery E now)"
  unfolding watch_recovery_def watch_account_def run_spread_lifecycle_for_account_def
    finish_system2_and_clear_def
  by (auto intro!: keep_intros split: prod.split)

lemma sound_breakeven: "sound (breakeven_watch E now)"
proof -
  have "sound (breakeven_watch_one L a attempts now p)" for L a attempts p
    unfolding breakeven_watch_one_def cross_decision_def position_exit_price_def amend_if_decided_def Let_def
    by (auto intro!: keep_intros split: option.split breakeven_decision.split)
  then show ?thesis unfolding breakeven_watch_def breakeven_watch_account_def by (intro keep_intros)
qed

lemma sound_sweep: "sound (sweep_pending_orders E now)"
proof -
  have t: "sound (blackout_target L a sole)" for L a sole
    unfolding blackout_target_def filled_position_id_def by (intro keep_intros)
  have "sound (market_blackout_act E a)" for a
    unfolding market_blackout_act_def blackout_close_position_def blackout_close_exact_def
    by (auto intro!: keep_intros t split: sum.split bool.split)
  moreover have "sound (maybe_breach_cancel L a sl now)" for L a sl
    unfolding maybe_breach_cancel_def confirmed_pending_def judge_breach_def persist_adverse_extreme_def
      sweep_cancel_def sweep_delete_row_def Let_def by (intro keep_intros)
  moreover have "sound (cancel_and_delete E a)" for a
    unfolding cancel_and_delete_def sweep_cancel_def sweep_delete_row_def by (intro keep_intros)
  ultimately have "sound (sweep_one E now a)" for a
    unfolding sweep_one_def Let_def by (intro keep_intros)
  then show ?thesis unfolding sweep_pending_orders_def by (intro keep_intros)
qed

end
