(* ===== verification/Upkeep_Facts.thy ===== *)
theory Upkeep_Facts
  imports Upkeep_Sound Core_Enter_Facts
begin

text \<open>
  Facts about the upkeep of orders and stops: what the decisions guarantee, what parking and
  clearing leave in the store, and which operations of the broker a pass may reach.
\<close>

section \<open>Decisions\<close>

lemma fmax_upper: "x \<noteq> NaN \<Longrightarrow> fle x (fmax x y)" "y \<noteq> NaN \<Longrightarrow> fle y (fmax x y)"
  by (auto simp: fmax_def not_flt flt_imp_fle)

lemma usable_simps [simp]: "\<not> usable_spread NaN" "\<not> usable_spread (Inf b)"
  by (simp_all add: usable_spread_def)

lemma usable_finite: "usable_spread s \<Longrightarrow> \<exists>q. s = Fin q \<and> 0 < q"
  by (cases s) (auto simp: usable_spread_def fgt_def)

lemma fmax_Fin: "fmax (Fin a) (Fin b) = Fin (max a b)"
  by (simp add: fmax_def)

text \<open>The worst reading is finite and at least every usable one.\<close>

lemma worst_spread_upper:
  "\<exists>w. worst_spread x = Fin w \<and>
     (\<forall>s\<in>set (filter usable_spread [sp_last_candle x, sp_this_hour x, sp_next_hour x]). fle s (Fin w))"
proof -
  obtain e where e: "expected_spread x = Fin e" "usable_spread (sp_this_hour x) \<Longrightarrow> fle (sp_this_hour x) (Fin e)"
    "usable_spread (sp_next_hour x) \<Longrightarrow> fle (sp_next_hour x) (Fin e)"
    by (cases "usable_spread (sp_this_hour x)"; cases "usable_spread (sp_next_hour x)")
      (auto simp: expected_spread_def fmax_Fin dest!: usable_finite)
  define q where "q = (if usable_spread (sp_last_candle x) then sp_last_candle x else Fin 0)"
  obtain a where a: "q = Fin a" using usable_finite by (cases "usable_spread (sp_last_candle x)") (auto simp: q_def)
  have "fle s (Fin (max a e))"
    if "s \<in> set (filter usable_spread [sp_last_candle x, sp_this_hour x, sp_next_hour x])" for s
    using that e(2,3) fle_trans [of s "Fin e" "Fin (max a e)"] a by (auto simp: q_def split: if_splits)
  moreover have "worst_spread x = Fin (max a e)"
    by (simp add: worst_spread_def q_def [symmetric] a e(1) fmax_Fin)
  ultimately show ?thesis by blast
qed

lemma scale_mono: "fle (Fin a) (Fin b) \<Longrightarrow> fle (fmul (Fin 10) (Fin a)) (fmul (Fin 10) (Fin b))"
  by (simp add: round64_mono)

text \<open>What a target that is not below its floor of R demands.\<close>

lemma sl_target_demands:
  assumes "tg_action (sl_target_of x original current tp m) \<in> {SlWiden, SlShrink}"
    and d: "d = tg_distance (sl_target_of x original current tp m)"
  shows "fle original d" "is_finite (fdiv tp d)" "\<not> flt (fdiv tp d) m"
    and "\<And>s. s \<in> set (filter usable_spread [sp_last_candle x, sp_this_hour x, sp_next_hour x]) \<Longrightarrow>
      fle (fmul (Fin 10) s) d"
proof -
  have p: "positive_distance original" using assms(1) by (auto simp: sl_target_of_def split: if_splits)
  then have o': "original \<noteq> NaN" by (auto simp: positive_distance_def)
  have d': "d = fmax (fmul (Fin 10) (worst_spread x)) original"
    using p by (simp add: d sl_target_of_def Let_def sl_min_spread_multiple_def)
  show "fle original d" unfolding d' by (rule fmax_upper(2) [OF o'])
  have r: "is_finite (if is_finite tp \<and> fgt d (Fin 0) then fdiv tp d else NaN)"
    "\<not> flt (if is_finite tp \<and> fgt d (Fin 0) then fdiv tp d else NaN) m"
    using assms(1) p by (auto simp: d' sl_target_of_def Let_def sl_min_spread_multiple_def split: if_splits)
  then show "is_finite (fdiv tp d)" "\<not> flt (fdiv tp d) m" by (auto split: if_splits)
  obtain w where w: "worst_spread x = Fin w"
    "\<forall>s\<in>set (filter usable_spread [sp_last_candle x, sp_this_hour x, sp_next_hour x]). fle s (Fin w)"
    using worst_spread_upper [of x] by blast
  show "fle (fmul (Fin 10) s) d"
    if s: "s \<in> set (filter usable_spread [sp_last_candle x, sp_this_hour x, sp_next_hour x])" for s
  proof -
    have "usable_spread s" using s by (simp only: set_filter mem_Collect_eq)
    then obtain q where q: "s = Fin q" using usable_finite by blast
    have "fle (fmul (Fin 10) s) (fmul (Fin 10) (Fin w))"
      using bspec [OF w(2) s] by (simp add: q round64_mono)
    moreover have "fle (fmul (Fin 10) (Fin w)) d" unfolding d' w(1) by (rule fmax_upper(1)) simp
    ultimately show ?thesis by (rule fle_trans)
  qed
qed

lemma pending_action_adjusts:
  assumes "pending_action_of target current budget = AdjustOrder d stake"
  shows "d = tg_distance target" "tg_action target \<in> {SlWiden, SlShrink}" "\<not> same_level d current"
    "stake = fdiv (cb_amount budget) d" "positive_distance d" "positive_distance (cb_amount budget)"
  using assms by (cases "tg_action target"; auto simp: pending_action_of_def stake_for_def Let_def
      split: if_splits option.splits)+

text \<open>Which stop is closer to, or past, the entry.\<close>

definition tighter :: "direction \<Rightarrow> f64 \<Rightarrow> f64 \<Rightarrow> bool" where
  "tighter dir from to \<longleftrightarrow> (case dir of Long \<Rightarrow> flt from to | Short \<Rightarrow> flt to from)"

lemma finite_total: "is_finite a \<Longrightarrow> is_finite b \<Longrightarrow> \<not> flt a b \<Longrightarrow> \<not> flt b a \<Longrightarrow> a = b"
  by (cases a; cases b) auto

lemma same_level_refl: "is_finite a \<Longrightarrow> same_level a a"
proof -
  assume "is_finite a"
  then obtain q where q: "a = Fin q" by (cases a) simp_all
  have m: "fmax (fmax (fabs64 a) (fabs64 a)) (Fin 1) = Fin (max \<bar>q\<bar> 1)" by (simp add: q fmax_Fin)
  have "fle (Fin 0) e \<Longrightarrow> 0 \<le> k \<Longrightarrow> 0 < k \<Longrightarrow> fle (Fin 0) (fmul e (Fin k))" for e k
    by (cases e) (auto simp: fle_def [of _ "f64.Inf _"] intro!: round64_ge)
  then have "fle (Fin 0) (fmul relative_epsilon (Fin (max \<bar>q\<bar> 1)))"
    using lit_nonneg [of "1 / 10 ^ 9"] by (simp add: relative_epsilon_def)
  then show ?thesis unfolding same_level_def m by (simp add: q fsub_def)
qed

lemma restore_moves_inward:
  assumes "restore_decision_of dir (CurrentStop current) (OriginalStop original) = RestoreTo level"
  shows "level = original" "tighter dir current original"
proof -
  have f: "is_finite current" "is_finite original" "\<not> same_level current original"
    "\<not> (case dir of Long \<Rightarrow> fgt current original | Short \<Rightarrow> flt current original)" "level = original"
    using assms by (auto split: if_splits)
  then show "level = original" by simp
  show "tighter dir current original"
    using f finite_total [of current original] same_level_refl [of current]
    by (cases dir) (auto simp: tighter_def fgt_def)
qed

lemma first_some_in: "first_some f xs = Some y \<Longrightarrow> \<exists>x\<in>set xs. f x = Some y"
  by (induction xs) (auto split: option.splits)

lemma foldl_choice: "(\<And>a b. f a b = a \<or> f a b = b) \<Longrightarrow> foldl f c xs \<in> insert c (set xs)"
proof (induction xs arbitrary: c)
  case (Cons x xs)
  then have "foldl f (f c x) xs \<in> insert (f c x) (set xs)" by blast
  then show ?case using Cons.prems [of c x] by auto
qed simp

lemma best_close_in:
  assumes "best_close dir cs = Some c"
  shows "c \<in> set cs"
proof -
  obtain c0 rest where cs: "cs = c0 # rest" using assms by (cases cs) (auto simp: best_close_def)
  have "foldl (\<lambda>a b. if feq (more_progressed dir (cn_c a) (cn_c b)) (cn_c b) then b else a) c0 rest
      \<in> insert c0 (set rest)" by (rule foldl_choice) simp
  then show ?thesis using assms by (simp add: cs best_close_def)
qed

section \<open>Parked orders\<close>

definition parked_in :: "'d mem_store \<Rightarrow> string \<Rightarrow> stored_order list" where
  "parked_in s t = (case get_live s (held_key t) of Some (HeldBody r) \<Rightarrow> hd_stored_orders r | _ \<Rightarrow> [])"

lemma call_read:
  "reads f \<Longrightarrow> fst (call f W) = Inr x \<Longrightarrow>
     fst (f (w_store W)) = Inr x \<and> w_store (snd (call f W)) = w_store W \<and> w_broker (snd (call f W)) = w_broker W"
  by (simp add: call_value call_reads)

lemma call_effect: "fst (call f W) = Inr x \<Longrightarrow> w_store (snd (call f W)) = snd (f (w_store W))"
  using call_value [of f W x] by simp

lemma held_read:
  assumes "fst (call (get_held_trade_record t) W) = Inr e" "store_inv (w_store W)"
  shows "get_live (w_store W) (held_key t) = map_option HeldBody e" "\<And>r. e = Some r \<Longrightarrow> hd_trade_id r = t"
proof -
  have g: "fst (get_held_trade_record t (w_store W)) = Inr e" using call_read [OF lifecycle_reads(3) assms(1)] by simp
  then show "get_live (w_store W) (held_key t) = map_option HeldBody e"
    by (auto simp: get_held_trade_record_def as_held_def split: option.splits body.splits)
  then show "hd_trade_id r = t" if "e = Some r" for r using held_id [OF assms(2)] that by simp
qed

lemma upsert_read:
  assumes "fst (call (upsert_held_trade_record r ttl) W) = Inr u" "store_inv (w_store W)"
  shows "get_live (w_store (snd (call (upsert_held_trade_record r ttl) W))) (held_key (hd_trade_id r)) = Some (HeldBody r)"
    and "w_broker (snd (call (upsert_held_trade_record r ttl) W)) = w_broker W"
  by (simp_all add: call_effect [OF assms(1)] upsert_live [OF assms(2)])

lemma and_then_value:
  "fst (and_then m k W) = Inr y \<Longrightarrow> \<exists>x. fst (m W) = Inr x \<and> and_then m k W = k x (snd (m W))"
  by (auto simp: and_then_def split: sum.splits)

text \<open>A parking that succeeds leaves the trade's record live with exactly this order.\<close>

lemma park_order_parks:
  assumes "store_inv (w_store W)" "fst (park_order t ins a pip order expires_at now W) = Inr u"
  shows "parked_in (w_store (snd (park_order t ins a pip order expires_at now W))) t = [order]"
    and "w_broker (snd (park_order t ins a pip order expires_at now W)) = w_broker W"
proof -
  define W1 where "W1 = snd (call (get_held_trade_record t) W)"
  obtain e where e: "fst (call (get_held_trade_record t) W) = Inr e"
    using and_then_value [OF assms(2) [unfolded park_order_def]] by blast
  define r where "r = with_order pip order expires_at (or_else e (fresh_held t ins a pip expires_at now))"
  have run: "park_order t ins a pip order expires_at now W = call (upsert_held_trade_record r (held_ttl r now)) W1"
    by (simp add: park_order_def and_then_def e W1_def r_def Let_def)
  have W1: "store_inv (w_store W1)" "w_broker W1 = w_broker W"
    using call_read [OF lifecycle_reads(3) e] assms(1) by (simp_all add: W1_def)
  have r: "hd_trade_id r = t" "hd_stored_orders r = [order]"
    using held_read(2) [OF e assms(1)]
    by (cases e; simp add: r_def with_order_def or_else_def fresh_held_def)+
  note up = upsert_read [OF assms(2) [unfolded run] W1(1)]
  show "parked_in (w_store (snd (park_order t ins a pip order expires_at now W))) t = [order]"
    using up(1) r by (simp add: run parked_in_def)
  show "w_broker (snd (park_order t ins a pip order expires_at now W)) = w_broker W"
    using up(2) W1 by (simp add: run)
qed

text \<open>A clearing that succeeds leaves the trade without one.\<close>

lemma clear_stored_clears:
  assumes "store_inv (w_store W)" "fst (clear_stored_order t now W) = Inr u"
  shows "parked_in (w_store (snd (clear_stored_order t now W))) t = []"
    and "w_broker (snd (clear_stored_order t now W)) = w_broker W"
proof -
  define W1 where "W1 = snd (call (get_held_trade_record t) W)"
  obtain e where e: "fst (call (get_held_trade_record t) W) = Inr e"
    using and_then_value [OF assms(2) [unfolded clear_stored_order_def]] by blast
  have W1: "w_store W1 = w_store W" "w_broker W1 = w_broker W"
    using call_read [OF lifecycle_reads(3) e] by (simp_all add: W1_def)
  have "parked_in (w_store (snd (clear_stored_order t now W))) t = [] \<and>
    w_broker (snd (clear_stored_order t now W)) = w_broker W"
  proof (cases e)
    case None
    then have run: "clear_stored_order t now W = (Inr (), W1)"
      by (simp add: clear_stored_order_def and_then_def e W1_def)
    show ?thesis using held_read(1) [OF e assms(1)] by (simp add: run W1 parked_in_def None)
  next
    case (Some r)
    define q where "q = r\<lparr>hd_stored_orders := []\<rparr>"
    have q: "hd_trade_id q = t" "hd_stored_orders q = []"
      using held_read(2) [OF e assms(1) Some] by (simp_all add: q_def)
    have run: "clear_stored_order t now W =
        call (if still_needed q then upsert_held_trade_record q (held_ttl q now) else clear_held_trade_record t) W1"
      by (simp add: clear_stored_order_def and_then_def e W1_def Some q_def Let_def)
    show ?thesis
    proof (cases "still_needed q")
      case True
      show ?thesis using upsert_read [of q _ W1] assms(1,2) True q W1 by (simp add: run parked_in_def)
    next
      case False
      then have "fst (call (clear_held_trade_record t) W1) = Inr u" using assms(2) by (simp add: run)
      then show ?thesis using assms(1) False W1 by (simp add: run call_effect parked_in_def clear_live)
    qed
  qed
  then show "parked_in (w_store (snd (clear_stored_order t now W))) t = []"
    "w_broker (snd (clear_stored_order t now W)) = w_broker W" by simp_all
qed

lemma clear_stored_broker: "w_broker (snd (clear_stored_order t now W)) = w_broker W"
  by (simp add: clear_stored_order_def and_then_def Let_def split: sum.split option.split)

lemma or_store_run: "snd (or_store m W) = snd (m W)"
  "fst (or_store m W) = Inr x \<longleftrightarrow> fst (m W) = Inr x"
  by (auto simp: or_store_def split: sum.splits)

section \<open>Re-pricing\<close>

lemma and_then_run:
  "and_then m k W = (case fst (m W) of Inl e \<Rightarrow> (Inl e, snd (m W)) | Inr x \<Rightarrow> k x (snd (m W)))"
  by (simp add: and_then_def split: sum.split)

definition reprice_parked ::
  "'d verified \<Rightarrow> string \<Rightarrow> pending_order \<Rightarrow> park_geometry \<Rightarrow> time \<Rightarrow> int \<Rightarrow> time \<Rightarrow> 'd mem_store \<Rightarrow> bool" where
  "reprice_parked v si order g expires_at bs now s \<longleftrightarrow>
     parked_in s (or_else (i_trade_id (v_intent v)) (pg_order_id order)) =
       [demoted_order si g (sh_time (v_shell v)) expires_at bs now (pg_order_id order)]"

text \<open>Once the order is cancelled: placed again by the entry path, or parked.\<close>

lemma reprice_cancelled_kept:
  assumes inv: "store_inv (w_store W)"
    and run: "reprice_cancelled D order a action g expires_at bs now v si W = (Inr out, W')"
  shows "(\<exists>s. out = Repriced (describe_result (Completed s)) \<and>
      run_enter (dk_platform D) (dk_broker D) (replacing_call D v si (Replacing (pg_order_id order)) now) W =
        (Completed s, W')) \<or>
    (out = Demoted \<or> (\<exists>x. out = ReplaceFailed x)) \<and> reprice_parked v si order g expires_at bs now (w_store W')"
proof -
  let ?park = "or_store (park_below_min_r (or_else (i_trade_id (v_intent v)) (pg_order_id order))
      (pg_instrument order) a si (or_else (i_pip_size (v_intent v)) (Fin 0)) g (sh_time (v_shell v)) expires_at
      bs now (pg_order_id order))"
  have parks: "y = x \<and> reprice_parked v si order g expires_at bs now (w_store W2)"
    if p: "and_then ?park (\<lambda>_. preturn (Inr x)) W1 = (Inr y, W2)" "store_inv (w_store W1)" for x y W1 W2
  proof -
    obtain u where u: "fst (?park W1) = Inr u" "(Inr x, snd (?park W1)) = (Inr y, W2)"
      using p(1) by (cases "fst (?park W1)") (auto simp: and_then_run)
    then show ?thesis using park_order_parks(1) [OF p(2)]
      by (auto simp: or_store_run reprice_parked_def park_below_min_r_def)
  qed
  show ?thesis
  proof (cases "action = DemoteOrder")
    case True
    then show ?thesis using parks [OF _ inv, of Demoted out W'] run by (simp add: reprice_cancelled_def Let_def)
  next
    case False
    define E where "E = replacing_call D v si (Replacing (pg_order_id order)) now"
    obtain result W1 where r: "run_enter (dk_platform D) (dk_broker D) E W = (result, W1)" by (cases "run_enter (dk_platform D) (dk_broker D) E W")
    have W1: "store_inv (w_store W1)" using soundD [OF sound_run_enter inv, of "dk_platform D" "dk_broker D" E] r by simp
    show ?thesis using run False r parks [OF _ W1, of "ReplaceFailed (describe_result result)" out W']
      by (cases result) (simp_all add: reprice_cancelled_def Let_def E_def [symmetric])
  qed
qed

lemma reprice_pending_cases:
  assumes "reprice_pending_order D order a action g expires_at bs now W = (Inr out, W')" "action \<noteq> LeaveResting"
  obtains (skipped) x where "out = SkippedOrder x" "w_broker W' = w_broker W"
  | (cancelled) body v W1 where "dk_source D (pg_order_id order) body now = Recovered v"
      "w_store W1 = w_store W"
      "reprice_cancelled D order a action g expires_at bs now v
         (or_else body (''replay-order: '' @ pg_order_id order @ [CHR 0x0A])) W1 = (Inr out, W')"
proof -
  let ?oid = "pg_order_id order"
  define W1 where "W1 = snd (call (get_order_body ?oid) W)"
  obtain body where b: "fst (or_store (call (get_order_body ?oid)) W) = Inr body"
    using assms by (cases "fst (or_store (call (get_order_body ?oid)) W)")
      (simp_all add: reprice_pending_order_def Let_def and_then_run)
  then have "fst (call (get_order_body ?oid) W) = Inr body" by (simp add: or_store_run)
  then have W1: "w_broker W1 = w_broker W" "w_store W1 = w_store W"
    using call_read [OF lifecycle_reads(1), of ?oid W body] by (simp_all add: W1_def)
  show thesis
  proof (cases "dk_source D ?oid body now")
    case (Recovered v)
    define c where "c = fst (bcall (cancel_order (dk_broker D) (or_else a []) ?oid) W1)"
    define W2 where "W2 = snd (bcall (cancel_order (dk_broker D) (or_else a []) ?oid) W1)"
    have run: "(case c of Inl _ \<Rightarrow> preturn (Inl CancelFailed)
        | Inr _ \<Rightarrow> reprice_cancelled D order a action g expires_at bs now v
            (or_else body (''replay-order: '' @ ?oid @ [CHR 0x0A]))) W2 = (Inr out, W')"
      using assms b Recovered
      by (simp del: append.simps
          add: reprice_pending_order_def Let_def and_then_run or_store_run W1_def [symmetric] c_def W2_def)
    show thesis
    proof (cases c)
      case (Inl e)
      then show thesis using run by simp
    next
      case (Inr u)
      have "w_store W2 = w_store W" by (simp add: W2_def W1)
      then show thesis using cancelled [of body v W2] Recovered run Inr by (simp del: append.simps)
    qed
  qed (use assms b W1 in \<open>auto simp: reprice_pending_order_def Let_def and_then_run or_store_run
      W1_def [symmetric] intro: skipped\<close>)
qed

section \<open>Amending stops\<close>

text \<open>A run of amendments, each of them permitted.\<close>

inductive stop_run ::
  "('d, 'b) live_broker \<Rightarrow> string \<Rightarrow> (string \<Rightarrow> f64 \<Rightarrow> bool) \<Rightarrow> ('d, 'b) world \<Rightarrow> ('d, 'b) world \<Rightarrow> bool"
  for L account ok where
  stop_stay: "stop_run L account ok W W"
| stop_amend: "stop_run L account ok W W1 \<Longrightarrow> ok i level \<Longrightarrow>
    stop_run L account ok W (snd (bcall (lb_amend_stop L account i level) W1))"

inductive_simps stop_run_none: "stop_run L account (\<lambda>_ _. False) W W'"

lemma stop_run_pfor:
  assumes "\<And>x W1. x \<in> set xs \<Longrightarrow> stop_run L account ok W W1 \<Longrightarrow> stop_run L account ok W (snd (f x () W1))"
    and "stop_run L account ok W W1"
  shows "stop_run L account ok W (snd (pfor f xs () W1))"
  using assms by (induction xs arbitrary: W1) simp_all

section \<open>Break-even\<close>

lemma decide_amends:
  assumes "decide_for_account V x cs now account = AmendTo s px bar_at"
  shows "\<exists>fill. op_opened_at (bi_position x) = Some fill \<and> closed_after_fill (bs_granularity (bi_snapshot x)) fill now bar_at \<and>
    \<not> is_spread_hour V (spread_lookup_key V (op_instrument (bi_position x)) account) bar_at \<and> s = target_entry x \<and>
    (case op_direction (bi_position x) of Long \<Rightarrow> \<not> fge (bi_current_stop x) s | Short \<Rightarrow> \<not> fle (bi_current_stop x) s)"
proof -
  obtain fill best where b: "op_opened_at (bi_position x) = Some fill"
    "best_close (op_direction (bi_position x)) (armable_candles V cs (bs_granularity (bi_snapshot x))
       (spread_lookup_key V (op_instrument (bi_position x)) account) fill now) = Some best"
    "decide_move (bs_rule (bi_snapshot x)) (op_direction (bi_position x)) (target_entry x)
       (bs_take_profit (bi_snapshot x)) (bi_current_stop x) (cn_c best) = Some s" "bar_at = cn_time best"
    using assms by (auto simp: decide_for_account_def Let_def split: option.splits)
  have "s = target_entry x \<and>
    (case op_direction (bi_position x) of Long \<Rightarrow> \<not> fge (bi_current_stop x) s | Short \<Rightarrow> \<not> fle (bi_current_stop x) s)"
    using b(3) by (auto simp: decide_move_def split: if_splits direction.splits)
  then show ?thesis using best_close_in [OF b(2)] b(1,4) by (auto simp: armable_candles_def)
qed

lemma tighten_inward:
  assumes "tighten_to_fill dir fill current px = Some s"
  shows "s = fill \<and> (case dir of Long \<Rightarrow> \<not> fge current s | Short \<Rightarrow> \<not> fle current s)"
  using assms by (cases dir; cases fill; cases current)
    (auto simp: tighten_to_fill_def fgt_def fge_def fle_def split: if_splits)

lemma cross_amends:
  assumes "decide_ma_cross V x books now account px' = AmendTo s px bar_at"
  shows "\<exists>fill. op_opened_at (bi_position x) = Some fill \<and> closed_after_fill (bs_granularity (bi_snapshot x)) fill now bar_at \<and>
    \<not> is_spread_hour V (spread_lookup_key V (op_instrument (bi_position x)) account) bar_at \<and> s = target_entry x \<and>
    (case op_direction (bi_position x) of Long \<Rightarrow> \<not> fge (bi_current_stop x) s | Short \<Rightarrow> \<not> fle (bi_current_stop x) s)"
proof -
  obtain fill_at fill where f: "op_opened_at (bi_position x) = Some fill_at" "op_entry_price (bi_position x) = Some fill"
    "first_some (cross_stop_of_bar x fill px' (map mid_candle books))
       (filter (\<lambda>(_, c). closed_after_fill (bs_granularity (bi_snapshot x)) fill_at now (ba_time c) \<and>
         \<not> is_spread_hour V (spread_lookup_key V (op_instrument (bi_position x)) account) (ba_time c))
         (rev (enumerate 0 books))) = Some (AmendTo s px bar_at)"
    using assms by (auto simp: decide_ma_cross_def Let_def split: option.splits if_splits)
  obtain i c where c: "cross_stop_of_bar x fill px' (map mid_candle books) (i, c) = Some (AmendTo s px bar_at)"
    "closed_after_fill (bs_granularity (bi_snapshot x)) fill_at now (ba_time c)"
    "\<not> is_spread_hour V (spread_lookup_key V (op_instrument (bi_position x)) account) (ba_time c)"
    using first_some_in [OF f(3)] by auto
  then have "bar_at = ba_time c" "\<exists>q. tighten_to_fill (op_direction (bi_position x)) fill (bi_current_stop x) q = Some s"
    by (auto simp: cross_stop_of_bar_def cross_stop_at_def Let_def bind_eq_Some_conv split: if_splits)
  then show ?thesis using f(1,2) c(2,3) tighten_inward by (fastforce simp: target_entry_def or_else_def)
qed

lemma breakeven_watch_cases:
  assumes R: "quasi R" "\<And>i. op_moves R (get_quote (lb_broker L) i)"
      "\<And>i g t u. op_moves R (get_bidask_candles (lb_broker L) i g t u)" "\<And>i g t u. op_moves R (lb_candles L i g t u)"
    and moved: "\<not> R (w_broker W) (w_broker (snd (breakeven_watch_one L account attempts now p W)))"
  obtains W1 x decision attempt where "snd (breakeven_watch_one L account attempts now p W) =
      snd (amend_if_decided L account p decision W1)" "R (w_broker W) (w_broker W1)"
    "join_position_to_attempt p account attempts = Some attempt" "ea_breakeven attempt = Some (bi_snapshot x)"
    "op_stop_loss p = Some (bi_current_stop x)" "bi_position x = p"
    "(\<exists>cs. decision = decide_for_account (lb_venue L) x cs now account) \<or>
     (\<exists>bs px. decision = decide_ma_cross (lb_venue L) x bs now account px)"
proof -
  obtain current attempt snap_shot where j: "op_stop_loss p = Some current"
    "join_position_to_attempt p account attempts = Some attempt" "ea_breakeven attempt = Some snap_shot"
    using moved quasi_refl [OF R(1)]
    by (auto simp: breakeven_watch_one_def bind_eq_Some_conv split: option.splits)
  define x where "x = \<lparr>bi_snapshot = snap_shot, bi_position = p, bi_current_stop = current\<rparr>"
  define since where "since = watch_since snap_shot p now"
  let ?ask = "bcall (lb_candles L (op_instrument p) (bs_granularity snap_shot) since now)"
  define W0 where "W0 = snd (?ask W)"
  have run: "breakeven_watch_one L account attempts now p W = (case fst (?ask W) of Inl _ \<Rightarrow> preturn ()
      | Inr candles \<Rightarrow> pbind (cross_decision L x account since now) (\<lambda>cross. amend_if_decided L account p
          (if cross = HoldStop then decide_for_account (lb_venue L) x candles now account else cross))) W0"
    unfolding x_def since_def W0_def by (simp add: breakeven_watch_one_def j Let_def)
  have W0: "R (w_broker W) (w_broker W0)" using R(4) by (simp add: W0_def op_moves_def)
  obtain candles where c: "fst (?ask W) = Inr candles"
    using moved run W0 by (cases "fst (?ask W)") simp_all
  define cross where "cross = fst (cross_decision L x account since now W0)"
  define W1 where "W1 = snd (cross_decision L x account since now W0)"
  have "moves R (cross_decision L x account since now)"
    unfolding cross_decision_def position_exit_price_def Let_def by (intro move_intros R)
  then have W1: "R (w_broker W) (w_broker W1)"
    using W0 quasi_trans [OF R(1)] unfolding moves_def W1_def by blast
  have "cross = HoldStop \<or> (\<exists>bs px. cross = decide_ma_cross (lb_venue L) x bs now account px)"
    by (auto simp: cross_def cross_decision_def Let_def split: option.split sum.split)
  then have which: "(\<exists>cs. (if cross = HoldStop then decide_for_account (lb_venue L) x candles now account else cross) =
        decide_for_account (lb_venue L) x cs now account) \<or>
     (\<exists>bs px. (if cross = HoldStop then decide_for_account (lb_venue L) x candles now account else cross) =
        decide_ma_cross (lb_venue L) x bs now account px)" by auto
  have "snd (breakeven_watch_one L account attempts now p W) = snd (amend_if_decided L account p
      (if cross = HoldStop then decide_for_account (lb_venue L) x candles now account else cross) W1)"
    using c unfolding run by (simp only: sum.case pbind_def cross_def W1_def split_beta)
  moreover have "bi_snapshot x = snap_shot" "bi_current_stop x = current" "bi_position x = p" by (simp_all add: x_def)
  ultimately show thesis using that [OF _ W1 j(2) _ _ _ which] j(1,3) by simp
qed

end
