(* ===== verification/Upkeep_Example.thy ===== *)
theory Upkeep_Example
  imports Upkeep_Facts Lifecycle_Properties
begin

text \<open>
  Concrete runs of the upkeep, on the desk of \<open>Lifecycle_Properties\<close>: the broker also holds one
  position, long from 100 with its stop at 50, and counts amendments with the order requests.
\<close>

section \<open>A live broker\<close>

definition ex_snapshot :: breakeven_snapshot where
  "ex_snapshot = \<lparr>bs_rule = \<lparr>bk_sma_200_break = False, bk_trigger = PriceProgress, bk_threshold = Fin (1 / 2)\<rparr>,
     bs_entry_price = Fin 100, bs_take_profit = Fin 200, bs_granularity = H1\<rparr>"

definition ex_open :: open_position where
  "ex_open = \<lparr>op_instrument = ''EUR_USD'', op_direction = Long, op_stop_loss = Some (Fin 50),
     op_take_profit = Some (Fin 200), op_position_id = ''p1'', op_order_id = ''o5'', op_stake = Fin 1,
     op_entry_price = Some (Fin 100), op_opened_at = Some 0\<rparr>"

definition ex_filled :: entry_attempt where
  "ex_filled = (ex_attempt 3 ''o5'')\<lparr>ea_broker_trade_id := Some ''p1'', ea_pip_size := Some (Fin 1),
     ea_breakeven := Some ex_snapshot\<rparr>"

definition ex_live :: "(unit, nat \<times> nat) live_broker" where
  "ex_live = \<lparr>lb_desk = ex_desk, lb_amend_stop = \<lambda>_ _ _ b. (Inr (), (fst b, snd b + 1)),
     lb_current_price = \<lambda>_ b. (Inr (Fin 60), b),
     lb_candles = \<lambda>_ _ _ _ b. (Inr [\<lparr>cn_time = 0, cn_o = Fin 150, cn_h = Fin 210, cn_l = Fin 140, cn_c = Fin 205\<rparr>], b),
     lb_close_positions = \<lambda>_ b. (NothingOpen, b), lb_close_exact = None\<rparr>"

text \<open>The broker of an environment may fail to list positions.\<close>

definition ex_env :: "(unit, nat \<times> nat) live_broker \<Rightarrow> (unit, nat \<times> nat) cron_env" where
  "ex_env L = \<lparr>ce_acquire = \<lambda>_. Some L, ce_signing_key = True, ce_venue = ex_venue,
     ce_exit_recorded = \<lambda>_ _ _. Inr False\<rparr>"

abbreviation listing :: "(lookup_error + open_position list) \<Rightarrow> (unit, nat \<times> nat) live_broker" where
  "listing answer \<equiv> ex_live\<lparr>lb_desk := ex_desk\<lparr>dk_broker := quoting_broker
     \<lparr>list_open_positions := \<lambda>_ b. (answer, b)\<rparr>\<rparr>\<rparr>"

lemma ex_open_simps [simp]:
  "op_instrument ex_open = ''EUR_USD''" "op_direction ex_open = Long" "op_stop_loss ex_open = Some (Fin 50)"
  "op_position_id ex_open = ''p1''" "op_order_id ex_open = ''o5''" "op_entry_price ex_open = Some (Fin 100)"
  "op_opened_at ex_open = Some 0"
  by (simp_all add: ex_open_def)

lemma ex_filled_simps [simp]:
  "ea_broker_trade_id ex_filled = Some ''p1''" "ea_pip_size ex_filled = Some (Fin 1)"
  "ea_breakeven ex_filled = Some ex_snapshot" "ea_trade_id ex_filled = ''t1''"
  by (simp_all add: ex_filled_def)

lemma ex_live_simps [simp]:
  "lb_desk ex_live = ex_desk" "lb_amend_stop ex_live a i s b = (Inr (), (fst b, snd b + 1))"
  "lb_current_price ex_live i b = (Inr (Fin 60), b)" "lb_close_exact ex_live = None"
  "lb_candles ex_live i g t u b =
     (Inr [\<lparr>cn_time = 0, cn_o = Fin 150, cn_h = Fin 210, cn_l = Fin 140, cn_c = Fin 205\<rparr>], b)"
  "lb_close_positions ex_live i b = (NothingOpen, b)"
  by (simp_all add: ex_live_def)

lemma ex_env_simps [simp]: "ce_acquire (ex_env L) a = Some L" "ce_venue (ex_env L) = ex_venue"
  by (simp_all add: ex_env_def)

lemma ex_dk_venue [simp]: "dk_venue ex_desk = ex_venue"
  by (simp add: ex_desk_def)

lemma ex_join [simp]: "join_position_to_attempt ex_open a [ex_filled] = Some ex_filled"
  by (simp add: join_position_to_attempt_def)

lemma ex_no_rows [simp]: "baked_row ex_venue i = None" "spread_lookup_key ex_venue i a = i"
  by (simp_all add: baked_row_def spread_rows_def ex_venue_def spread_lookup_key_def split: option.split)

lemma ex_close_edge: "is_ny_close_edge ex_venue now \<longleftrightarrow> utc_hour now = 22"
  by (simp add: is_ny_close_edge_def ny_is_edt_def nth_weekday_of_month_def ex_venue_def)

section \<open>Levels apart\<close>

lemma far_levels:
  assumes "round64 (a - b) = Fin (a - b)" "1 < \<bar>a - b\<bar>" "\<bar>a\<bar> \<le> 1024" "\<bar>b\<bar> \<le> 1024"
  shows "\<not> same_level (Fin a) (Fin b)"
proof -
  define m where "m = max (max \<bar>a\<bar> \<bar>b\<bar>) 1"
  have e1: "fle (lit (1 / 10 ^ 9)) (Fin (1 / 1024))"
    unfolding lit_def using round64_le [of "1 / 1024" "1 / 10 ^ 9"] round64_half [of 1 10] by simp
  obtain e where e: "relative_epsilon = Fin e" "0 \<le> e" "e \<le> 1 / 1024"
    using e1 lit_nonneg [of "1 / 10 ^ 9"] unfolding relative_epsilon_def
    by (cases "lit (1 / 10 ^ 9)") (auto simp: fle_def)
  have m: "0 \<le> m" "m \<le> 1024" using assms by (simp_all add: m_def)
  have "e * m \<le> 1 / 1024 * 1024" using e m by (intro mult_mono) simp_all
  then have "fle (round64 (e * m)) (Fin 1)" by (intro round64_le) simp_all
  then have "\<not> fle (Fin \<bar>a - b\<bar>) (round64 (e * m))" using assms(2) fle_trans fle_Fin by fastforce
  then show ?thesis using assms(1) by (simp add: same_level_def fsub_def e fmax_Fin m_def)
qed


section \<open>Runs\<close>

lemma healthy_broker [simp]: "healthy (W\<lparr>w_broker := b\<rparr>) \<longleftrightarrow> healthy W"
  by (simp add: healthy_def)

text \<open>A spread of 10 asks for a stop ten times as far.\<close>

definition ex_geometry :: geometry where
  "ex_geometry = \<lparr>gm_original_sl_distance = Fin 50, gm_current_sl_distance = Fin 50,
     gm_tp_distance = Fin 200, gm_min_r = Fin 1, gm_budget = budget_absolute (Fin 100), gm_bar_seconds = 3600\<rparr>"

definition ex_park :: park_geometry where
  "ex_park = \<lparr>pk_original_sl_distance = Fin 50, pk_tp_distance = Fin 200, pk_min_r = Fin 1\<rparr>"

lemma ex_reprice: "reprice_action ex_venue a now ex_resting ex_geometry (Some (Fin 10)) = AdjustOrder (Fin 100) (Fin 1)"
proof -
  have f: "spread_forecast_frac ex_venue i now = (Fin 0, Fin 0)" for i
    by (simp add: spread_forecast_frac_def)
  have m: "fmul (Fin 10) (Fin 10) = Fin 100" "fmax (Fin 100) (Fin 50) = Fin 100"
      "fmax (Fin 10) (Fin 0) = Fin 10" "fdiv (Fin 200) (Fin 100) = Fin 2" "fdiv (Fin 100) (Fin 100) = Fin 1"
    by (simp_all add: fmax_Fin)
  have far: "\<not> same_level (Fin 100) (Fin 50)" by (rule far_levels) simp_all
  have w: "worst_spread \<lparr>sp_last_candle = Fin 10, sp_this_hour = Fin 0, sp_next_hour = Fin 0\<rparr> = Fin 10"
    by (simp add: worst_spread_def expected_spread_def usable_spread_def fgt_def m(3))
  show ?thesis
    by (simp add: reprice_action_def spread_inputs_of_def f or_else_def ex_geometry_def sl_target_of_def
        positive_distance_def w sl_min_spread_multiple_def m stop_move_def far Let_def fgt_def pending_action_of_def
        stake_for_def budget_absolute_def fle_def del: fmul.simps fdiv.simps)
qed

lemma ex_demoted:
  "fst (reprice_pending_order ex_desk ex_resting (Some ''acc'') DemoteOrder ex_park 7200000000000 3600 0 ex_book) =
     Inr Demoted"
  by (simp add: reprice_pending_order_def Let_def and_then_run or_store_run or_store_def get_order_body_def
      reprice_cancelled_def park_below_min_r_def park_order_def get_held_trade_record_def call_healthy
      upsert_held_trade_record_def put_row_def bcall_def del: append.simps)

text \<open>A parked order of the trade, taken off its record, leaves the store as it was.\<close>

definition ex_parked :: stored_order where
  "ex_parked = \<lparr>so_signed_intent = ''body'', so_reason = Core_Rows.SpreadHour, so_original_sl_distance = Fin 50,
     so_tp_distance = Fin 100, so_min_r = Fin 1, so_stored_at = 0, so_drop_at = 7200000000000, so_shell_time = 0,
     so_replaces = Some ''o9'', so_bar_seconds = None\<rparr>"

definition ex_parking :: "(unit, nat \<times> nat) world" where
  "ex_parking = snd (park_order ''t1'' ''EUR_USD'' (Some ''acc'') (Fin 1) ex_parked 7200000000000 0 ex_book)"

definition ex_check :: stored_check where
  "ex_check = \<lparr>sc_clears_min_r = True, sc_bar_time = Some 0, sc_spread_hour_over = True, sc_market_open = True\<rparr>"

abbreviation ex_parked_record :: held_record where
  "ex_parked_record \<equiv> with_order (Fin 1) ex_parked 7200000000000
     (fresh_held ''t1'' ''EUR_USD'' (Some ''acc'') (Fin 1) 7200000000000 0)"

lemma ex_parking_store:
  "ex_parking = ex_book\<lparr>w_store := snd (upsert_held_trade_record ex_parked_record (held_ttl ex_parked_record 0)
     (w_store ex_book))\<rparr>"
  by (simp add: ex_parking_def park_order_def and_then_run call_healthy get_held_trade_record_def or_else_def Let_def)

lemma ex_record_id [simp]: "hd_trade_id ex_parked_record = ''t1''" "hd_stored_orders ex_parked_record = [ex_parked]"
  by (simp_all add: with_order_def fresh_held_def)

lemma ex_traded_inv [simp]: "store_inv (w_store ex_traded)"
  unfolding ex_traded_def by (simp add: record_attempt_inv)


lemma ex_parking_live: "get_live (w_store ex_parking) (held_key ''t1'') = Some (HeldBody ex_parked_record)"
  using upsert_live [of "w_store ex_book" ex_parked_record]
  by (simp add: ex_parking_store)

lemma ex_parking_simps [simp]: "healthy ex_parking" "w_broker ex_parking = (0, 0)" "store_inv (w_store ex_parking)"
  by (simp_all add: ex_parking_store upsert_inv)

lemma ex_parking_read: "call (get_held_trade_record ''t1'') ex_parking = (Inr (Some ex_parked_record), ex_parking)"
  using ex_parking_live [folded held_live]
  by (simp add: call_healthy lifecycle_reads(3) [unfolded reads_def])

lemma ex_unparked: "clear_stored_order ''t1'' 0 ex_parking = (Inr (), ex_book)"
proof -
  have "\<not> still_needed (ex_parked_record\<lparr>hd_stored_orders := []\<rparr>)"
    by (simp add: still_needed_def with_order_def fresh_held_def holders_is_empty_def holders_new_def)
  then show ?thesis
    by (simp add: clear_stored_order_def and_then_run ex_parking_read Let_def call_healthy clear_held_trade_record_def
        clear_row_def store_delete_def)
      (simp add: ex_parking_store upsert_held_trade_record_def put_row_def store_put_def ex_traded_def
        record_entry_attempt_def Let_def empty_store_def bt_remove_def ex_book_def)
qed

lemma ex_promoted: "0 < snd (w_broker (snd (promote_stored_order ex_desk ''t1'' ex_check 0 ex_parking)))"
proof -
  have "replacing_call ex_desk v ''body'' (Replacing ''o9'') 0 =
      redrive_call ex_desk v \<lparr>co_order_id = ''o9'', co_signed_intent = ''body''\<rparr> 0" for v :: "unit verified"
    by (simp add: replacing_call_def redrive_call_def)
  moreover have "promotion_origin ex_parked = Replacing ''o9''" "so_signed_intent ex_parked = ''body''"
    "stored_verdict_of ex_parked 0 ex_check = Promote"
    by (simp_all add: promotion_origin_def ex_parked_def stored_verdict_of_def ex_check_def Let_def)
  ultimately have "snd (promote_stored_order ex_desk ''t1'' ex_check 0 ex_parking) =
      snd (run_enter ex_platform quoting_broker ex_redrive ex_book)"
    by (simp add: promote_stored_order_def and_then_run or_store_run stored_order_def ex_parking_read or_store_def
        promote_verified_def ex_unparked)
  then show ?thesis using ex_redrive_places by simp
qed

text \<open>At the New York close the position's stop is widened.\<close>

lemma ex_widened:
  "snd (w_broker (snd (widen_one ex_live (Some ''acc'') [ex_filled] (seconds 79200) ex_open Map.empty ex_book))) = 1"
proof -
  have n: "is_ny_close_edge ex_venue (seconds 79200)"
    by (simp add: ex_close_edge utc_hour_def seconds_def)
  have u: "usable_pip_of ex_filled = Some (Fin 1)" by (simp add: usable_pip_of_def fgt_def)
  show ?thesis
    by (simp add: widen_one_def n Let_def get_held_trade_record_def widen_joined_def u cached_quotes_def
        quoted_spread_def bcall_def record_and_amend_def call_healthy upsert_held_trade_record_def put_row_def)
qed

text \<open>An hour after the fill the bar's close has reached half the target.\<close>

lemma ex_breakeven:
  "snd (w_broker (snd (breakeven_watch_one ex_live (Some ''acc'') [ex_filled] (seconds 3600) ex_open ex_book))) = 1"
proof -
  let ?c = "\<lparr>cn_time = 0, cn_o = Fin 150, cn_h = Fin 210, cn_l = Fin 140, cn_c = Fin 205\<rparr>"
  let ?x = "\<lparr>bi_snapshot = ex_snapshot, bi_position = ex_open, bi_current_stop = Fin 50\<rparr>"
  have "is_spread_hour ex_venue i 0 = False" for i
    by (simp add: is_spread_hour_def ex_close_edge utc_hour_def)
  then have a: "armable_candles ex_venue [?c] H1 i 0 (seconds 3600) = [?c]" for i
    by (simp add: armable_candles_def closed_after_fill_def bar_length_def seconds_def)
  have n: "noise_violation [?c] (Fin 100) H1 = None"
    by (simp add: noise_violation_def judge_breakeven_stop_def judge_breakeven_stop_at_length_def wilder_atr_def
        atr_length_for_def atr_length_for_bar_minutes_def)
  have m: "decide_move (bs_rule ex_snapshot) Long (Fin 100) (Fin 200) (Fin 50) (Fin 205) = Some (Fin 100)"
    by (simp add: decide_move_def close_arms_def arms_at_def sane_threshold_def ex_snapshot_def fsub_def fge_def fle_def)
  have d: "decide_for_account ex_venue ?x [?c] (seconds 3600) (Some ''acc'') = AmendTo (Fin 100) (Fin 205) 0"
    using m by (simp add: decide_for_account_def Let_def ex_snapshot_def a best_close_def target_entry_def or_else_def n)
  have v: "\<not> breakeven_has_veto (bs_rule ex_snapshot)"
    by (simp add: breakeven_has_veto_def ex_snapshot_def includes_ma_cross_def)
  show ?thesis
    by (simp add: breakeven_watch_one_def Let_def bcall_def cross_decision_def v d amend_if_decided_def)
qed


text \<open>A record that remembers the position's stop from before a widening.\<close>

definition ex_widened_record :: held_record where
  "ex_widened_record = ex_held\<lparr>hd_original_stops := [\<lparr>rm_id = ''o5'', rm_original_stop = Fin 60\<rparr>],
     hd_cancelled_orders := []\<rparr>"

definition ex_widening :: "(unit, nat \<times> nat) world" where
  "ex_widening = ex_book\<lparr>w_store := snd (upsert_held_trade_record ex_widened_record 3600 (w_store ex_book))\<rparr>"

lemma ex_widened_record_simps [simp]:
  "hd_trade_id ex_widened_record = ''t1''" "hd_account ex_widened_record = Some ''acc''"
  "hd_original_stops ex_widened_record = [\<lparr>rm_id = ''o5'', rm_original_stop = Fin 60\<rparr>]"
  by (simp_all add: ex_widened_record_def ex_held_def)

lemma ex_widening_simps [simp]: "healthy ex_widening" "w_broker ex_widening = (0, 0)" "store_inv (w_store ex_widening)"
  by (simp_all add: ex_widening_def upsert_inv)

lemma ex_widening_live: "get_live (w_store ex_widening) (held_key ''t1'') = Some (HeldBody ex_widened_record)"
  using upsert_live [of "w_store ex_book" ex_widened_record] by (simp add: ex_widening_def)

text \<open>An order whose window is over is cancelled.\<close>

lemma ex_swept:
  "fst (w_broker (snd (sweep_one (ex_env ex_live) (seconds 10000) (ex_attempt 3 ''o2'') ex_book))) = 1"
proof -
  have "ea_expires_at (ex_attempt 3 ''o2'') < seconds 10000"
    by (simp add: ex_attempt_def new_attempt_def seconds_def)
  then show ?thesis
    by (simp add: sweep_one_def Let_def cancel_and_delete_def sweep_cancel_def sweep_delete_row_def bcall_def)
qed

definition ex_live_start :: "(unit, nat \<times> nat) world" where
  "ex_live_start = \<lparr>w_store = empty_store 0, w_faults = [Refused], w_broker = (0, 0)\<rparr>"

end
