(* ===== verification/Upkeep_Properties.thy ===== *)
theory Upkeep_Properties
  imports Upkeep_Example
begin

text \<open>
  The properties of the upkeep of orders and stops, and of the system that interleaves it with
  entries. Their witnesses are the runs of \<open>Upkeep_Example\<close>.
\<close>

section \<open>Resting orders\<close>





section \<open>Parked orders\<close>

text \<open>
  C11: a parked entry is never placed twice. If promoting a parked order changes the broker in any
  way, then it was parked and its verdict was to promote; and first, with the broker untouched,
  the trade's record no longer holds a parked order; and all that follows is the entry path.
\<close>

theorem promoted_off_the_record:
  assumes inv: "store_inv (w_store W)"
    and moved: "w_broker (snd (promote_stored_order D t check now W)) \<noteq> w_broker W"
  shows "\<exists>order rest v W1. parked_in (w_store W) t = order # rest \<and> stored_verdict_of order now check = Promote \<and>
    dk_source D t (Some (so_signed_intent order)) now = Recovered v \<and>
    w_broker W1 = w_broker W \<and> parked_in (w_store W1) t = [] \<and>
    snd (promote_stored_order D t check now W) =
      snd (run_enter (dk_platform D) (dk_broker D)
        (replacing_call D v (so_signed_intent order) (promotion_origin order) now) W1)"
proof -
  define W0 where "W0 = snd (stored_order t W)"
  have W0: "w_broker W0 = w_broker W" "w_store W0 = w_store W"
    by (simp_all add: W0_def stored_order_def and_then_run call_reads split: sum.split)
  obtain order where o: "fst (stored_order t W) = Inr (Some order)" and
    run: "snd (promote_stored_order D t check now W) = snd ((case stored_verdict_of order now check of
         KeepWaiting \<Rightarrow> preturn (Inr StillWaiting)
       | DropOrder \<Rightarrow> drop_parked t now ''past-drop-at''
       | Promote \<Rightarrow> (case dk_source D t (Some (so_signed_intent order)) now of
           Recovered v \<Rightarrow> promote_verified D t now order v
         | WindowClosed \<Rightarrow> drop_parked t now ''window-closed''
         | Unrecoverable \<Rightarrow> preturn (Inl (WillNotVerify t)))) W0)"
    using moved W0 by (auto simp: promote_stored_order_def and_then_run or_store_run W0_def or_store_def
        split: sum.splits option.splits)
  have drop: "w_broker (snd (drop_parked t now why W0)) = w_broker W" for why
    by (simp add: drop_parked_def and_then_run or_store_run clear_stored_broker W0 split: sum.split)
  have v: "stored_verdict_of order now check = Promote"
    using moved run drop W0 by (cases "stored_verdict_of order now check") simp_all
  obtain v where src: "dk_source D t (Some (so_signed_intent order)) now = Recovered v"
    using moved run drop W0 v by (cases "dk_source D t (Some (so_signed_intent order)) now") simp_all
  define W1 where "W1 = snd (clear_stored_order t now W0)"
  obtain u where u: "fst (clear_stored_order t now W0) = Inr u"
    using moved run v src clear_stored_broker [of t now W0] W0
    by (cases "fst (clear_stored_order t now W0)")
      (auto simp: promote_verified_def and_then_run or_store_run or_store_def split: sum.splits)
  have cleared: "parked_in (w_store W1) t = []" "w_broker W1 = w_broker W"
    using clear_stored_clears [OF _ u] inv W0 by (simp_all add: W1_def)
  have "snd (promote_stored_order D t check now W) = snd (run_enter (dk_platform D) (dk_broker D)
        (replacing_call D v (so_signed_intent order) (promotion_origin order) now) W1)"
    using run v src or_store_run(2) [of "clear_stored_order t now" W0 u] u
    by (simp add: promote_verified_def and_then_run or_store_run(1) W1_def)
  moreover have "\<exists>rest. parked_in (w_store W) t = order # rest"
    using o held_read(1) [OF _ inv, of t]
    by (auto simp: stored_order_def and_then_run parked_in_def split: sum.splits option.splits list.splits)
  ultimately show ?thesis using v src cleared by blast
qed

theorem promoted_off_the_record_witness:
  "\<exists>order rest (W1 :: (unit, nat \<times> nat) world). parked_in (w_store ex_parking) ''t1'' = order # rest \<and>
     w_broker W1 = (0, 0) \<and> parked_in (w_store W1) ''t1'' = []"
proof -
  have "w_broker (snd (promote_stored_order ex_desk ''t1'' ex_check 0 ex_parking)) \<noteq> w_broker ex_parking"
    using ex_promoted by auto
  from promoted_off_the_record [OF _ this] show ?thesis by fastforce
qed

section \<open>Widened stops\<close>

text \<open>
  C13: a stop is widened only with its original on record. If handling one open position does
  anything at the broker but ask for a quote, then first the store holds under the trade of the
  attempt that opened it a live, applied record that remembers exactly the stop the position has;
  and all that follows is one amendment of that position's stop.
\<close>

theorem widened_after_recorded:
  assumes R: "quasi R" "\<And>i. op_moves R (get_quote (lb_broker L) i)" and inv: "store_inv (w_store W)"
    and moved: "\<not> R (w_broker W) (w_broker (snd (widen_one L account attempts now p cache W)))"
  shows "\<exists>attempt original r W1 new_sl. join_position_to_attempt p account attempts = Some attempt \<and>
    op_stop_loss p = Some original \<and>
    get_live (w_store W1) (held_key (ea_trade_id attempt)) = Some (HeldBody r) \<and> hd_applied r \<and>
    hd_original_stops r = [\<lparr>rm_id = op_order_id p, rm_original_stop = original\<rparr>] \<and>
    snd (widen_one L account attempts now p cache W) =
      snd (bcall (lb_amend_stop L (or_else account []) (op_order_id p) new_sl) W1)"
proof -
  obtain original attempt baked where p: "op_stop_loss p = Some original"
    "join_position_to_attempt p account attempts = Some attempt" and
    run: "snd (widen_one L account attempts now p cache W) =
       snd (widen_joined L account p original baked attempt cache now
         (snd (call (get_held_trade_record (ea_trade_id attempt)) W)))"
    using moved quasi_refl [OF R(1)]
    by (auto simp: widen_one_def Let_def call_reads split: option.splits if_splits sum.splits)
  define W0 where "W0 = snd (call (get_held_trade_record (ea_trade_id attempt)) W)"
  have W0: "w_broker W0 = w_broker W" "w_store W0 = w_store W" by (simp_all add: W0_def call_reads)
  define W1 where "W1 = snd (cached_quotes (lb_desk L) (op_instrument p) cache W0)"
  have m: "moves R (cached_quotes (lb_desk L) (op_instrument p) cache)"
    unfolding cached_quotes_def quoted_spread_def by (intro move_intros R)
  have "R (w_broker W0) (w_broker W1)" using m unfolding moves_def W1_def by blast
  then have W1: "R (w_broker W) (w_broker W1)" "store_inv (w_store W1)"
    using inv soundD [OF sound_quotes(2), of W0] by (simp_all add: W1_def W0)
  obtain pip new_sl where run1: "snd (widen_one L account attempts now p cache W) = snd (record_and_amend L account p
      (widened_record (lb_venue L) (ea_trade_id attempt) p account pip original now) new_sl now W1)"
    using moved run W1(1) quasi_refl [OF R(1)]
    by (auto simp: widen_joined_def W0_def [symmetric] W1_def W0 split: option.splits prod.splits)
  define r where "r = widened_record (lb_venue L) (ea_trade_id attempt) p account pip original now"
  define W2 where "W2 = snd (call (upsert_held_trade_record r
      (spread_block_ttl_seconds (lb_venue L) (op_instrument p) now)) W1)"
  obtain u where u: "fst (call (upsert_held_trade_record r
      (spread_block_ttl_seconds (lb_venue L) (op_instrument p) now)) W1) = Inr u"
    using moved run1 W1(1) by (auto simp: record_and_amend_def r_def [symmetric] split: sum.splits)
  have "snd (widen_one L account attempts now p cache W) =
      snd (bcall (lb_amend_stop L (or_else account []) (op_order_id p) new_sl) W2)"
    using run1 u by (simp add: record_and_amend_def r_def [symmetric] W2_def)
  moreover have "get_live (w_store W2) (held_key (ea_trade_id attempt)) = Some (HeldBody r)"
    using upsert_read(1) [OF u W1(2)] by (simp add: W2_def r_def widened_record_def)
  moreover have "hd_applied r \<and> hd_original_stops r = [\<lparr>rm_id = op_order_id p, rm_original_stop = original\<rparr>]"
    by (simp add: r_def widened_record_def)
  ultimately show ?thesis using p by blast
qed

theorem widened_after_recorded_witness:
  "\<exists>original r (W1 :: (unit, nat \<times> nat) world). op_stop_loss ex_open = Some original \<and>
     get_live (w_store W1) (held_key ''t1'') = Some (HeldBody r) \<and> hd_applied r \<and>
     hd_original_stops r = [\<lparr>rm_id = ''o5'', rm_original_stop = original\<rparr>]"
proof -
  let ?R = "\<lambda>b b' :: nat \<times> nat. snd b' = snd b"
  have R: "quasi ?R" "\<And>i. op_moves ?R (get_quote (lb_broker ex_live) i)"
    by (auto simp: quasi_def op_moves_def intro!: reflpI transpI)
  show ?thesis
    using widened_after_recorded [where R = ?R and L = ex_live and W = ex_book and account = "Some ''acc''" and
        attempts = "[ex_filled]" and now = "seconds 79200" and p = ex_open and cache = Map.empty, OF R] ex_widened
    by auto
qed

text \<open>
  C14: giving a stop back never loosens it. With the positions the broker lists, restoring a
  record amends only stops the record remembers, each to its remembered level and only when the
  stop the position has now is looser than that; a stop that break-even or an operator has moved
  closer, or past the entry, stays.
\<close>

theorem restored_toward_entry:
  assumes "ce_acquire E (hd_account r) = Some L"
    and "list_open_positions (lb_broker L) (or_else (hd_account r) []) (w_broker W) = (Inr positions, b)"
  shows "stop_run L (or_else (hd_account r) [])
     (\<lambda>i level. \<exists>m\<in>set (hd_original_stops r). \<exists>p\<in>set positions. \<exists>current.
        i = rm_id m \<and> level = rm_original_stop m \<and> (op_order_id p = i \<or> op_position_id p = i) \<and>
        op_stop_loss p = Some current \<and> tighter (op_direction p) current level)
     (if hd_original_stops r = [] then W else W\<lparr>w_broker := b\<rparr>) (snd (restore_remembered_stops E r W))"
proof (cases "hd_original_stops r = []")
  case True
  then show ?thesis by (simp add: restore_remembered_stops_def stop_stay)
next
  case False
  let ?a = "or_else (hd_account r) []"
  let ?ok = "\<lambda>i level. \<exists>m\<in>set (hd_original_stops r). \<exists>p\<in>set positions. \<exists>current.
        i = rm_id m \<and> level = rm_original_stop m \<and> (op_order_id p = i \<or> op_position_id p = i) \<and>
        op_stop_loss p = Some current \<and> tighter (op_direction p) current level"
  have step: "stop_run L ?a ?ok V (snd (restore_stop L ?a positions m W1))"
    if m: "m \<in> set (hd_original_stops r)" and W1: "stop_run L ?a ?ok V W1" for m V W1
  proof (cases "snd (restore_stop L ?a positions m W1) = W1")
    case False
    then obtain p current level where p: "find (\<lambda>p. op_order_id p = rm_id m \<or> op_position_id p = rm_id m) positions = Some p"
      "op_stop_loss p = Some current"
      "restore_decision_of (op_direction p) (CurrentStop current) (OriginalStop (rm_original_stop m)) = RestoreTo level"
      "snd (restore_stop L ?a positions m W1) = snd (bcall (lb_amend_stop L ?a (rm_id m) level) W1)"
      by (auto simp: restore_stop_def split: option.splits restore_decision.splits)
    then have "p \<in> set positions" "op_order_id p = rm_id m \<or> op_position_id p = rm_id m"
      by (auto simp: find_Some_iff)
    then have "?ok (rm_id m) level" using m p(2) restore_moves_inward [OF p(3)] by blast
    then show ?thesis unfolding p(4) by (rule stop_amend [OF W1])
  qed (use W1 in simp)
  have run: "snd (restore_remembered_stops E r W) =
      snd (pfor (\<lambda>m _. restore_stop L ?a positions m) (hd_original_stops r) () (W\<lparr>w_broker := b\<rparr>))"
    using False by (simp add: restore_remembered_stops_def assms Let_def bcall_def)
  show ?thesis unfolding run if_not_P [OF False]
    by (intro stop_run_pfor stop_stay) (erule (1) step)
qed

theorem restored_toward_entry_witness:
  "stop_run (listing (Inr [ex_open])) ''acc''
     (\<lambda>i level. \<exists>m\<in>{\<lparr>rm_id = ''o5'', rm_original_stop = Fin 60\<rparr>}. \<exists>p\<in>{ex_open}. \<exists>current.
        i = rm_id m \<and> level = rm_original_stop m \<and> (op_order_id p = i \<or> op_position_id p = i) \<and>
        op_stop_loss p = Some current \<and> tighter (op_direction p) current level)
     ex_book (snd (restore_remembered_stops (ex_env (listing (Inr [ex_open]))) ex_widened_record ex_book))"
proof -
  have same: "ex_book\<lparr>w_broker := (0, 0)\<rparr> = ex_book" by (simp add: ex_book_def)
  show ?thesis
    using restored_toward_entry [of "ex_env (listing (Inr [ex_open]))" ex_widened_record "listing (Inr [ex_open])"
        ex_book "[ex_open]" "(0, 0)"]
    by (simp add: or_else_def same)
qed

text \<open>
  C39: a listing that fails forgets the original. When the broker cannot list its positions at
  the end of an episode, no stop is amended and the record that remembers the original is still
  deleted: nothing is left to retry, and the stop stays widened.
\<close>

theorem failed_listing_forgets_stop:
  assumes "healthy W" "store_inv (w_store W)" "get_live (w_store W) (held_key t) = Some (HeldBody r)"
    and "hd_original_stops r \<noteq> []" "ce_acquire E (hd_account r) = Some L"
    and "list_open_positions (lb_broker L) (or_else (hd_account r) []) (w_broker W) = (Inl e, b)"
  shows "fst (finish_system2_and_clear E t W) = Inr () \<and>
    w_broker (snd (finish_system2_and_clear E t W)) = b \<and>
    get_live (w_store (snd (finish_system2_and_clear E t W))) (held_key t) = None"
proof -
  have "fst (get_held_trade_record t (w_store W)) = Inr (Some r)"
    using assms(3) held_live [of t "w_store W" r] by simp
  then have g: "call (get_held_trade_record t) W = (Inr (Some r), W)"
    using assms(1) by (simp add: call_healthy lifecycle_reads(3) [unfolded reads_def])
  have rid: "hd_trade_id r = t" using held_id [OF assms(2,3)] .
  have "restore_remembered_stops E r W = ((), W\<lparr>w_broker := b\<rparr>)"
    using assms(4-6) by (simp add: restore_remembered_stops_def bcall_def Let_def)
  then have "finish_system2_and_clear E t W = call (clear_held_trade_record t) (W\<lparr>w_broker := b\<rparr>)"
    by (simp add: finish_system2_and_clear_def and_then_run g rid)
  then show ?thesis
    using assms(1) by (simp add: call_healthy healthy_def clear_live [OF assms(2)])
      (simp add: call_def clear_held_trade_record_def clear_row_def)
qed

theorem failed_listing_forgets_stop_witness:
  "get_live (w_store (snd (finish_system2_and_clear (ex_env (listing (Inl Transient))) ''t1'' ex_widening)))
     (held_key ''t1'') = None"
  using failed_listing_forgets_stop [of ex_widening "''t1''" ex_widened_record
      "ex_env (listing (Inl Transient))" "listing (Inl Transient)" Transient "(0, 0)"] ex_widening_live
  by simp

section \<open>Break-even\<close>




section \<open>The sweep\<close>

text \<open>The calls of the sweep other than the cancel.\<close>

definition sweep_asks_move :: "('b \<Rightarrow> 'b \<Rightarrow> bool) \<Rightarrow> ('d, 'b) live_broker \<Rightarrow> bool" where
  "sweep_asks_move R L \<longleftrightarrow> asks_move R (lb_broker L) \<and>
     (\<forall>i. op_moves R (lb_current_price L i)) \<and> (\<forall>i oid t. op_moves R (dk_attempt_state (lb_desk L) i oid t)) \<and>
     (\<forall>i. op_moves R (lb_close_positions L i)) \<and>
     (\<forall>close_exact. lb_close_exact L = Some close_exact \<longrightarrow> (\<forall>a p. op_moves R (close_exact a p)))"

text \<open>A resting order may go: its window or its last bar is over, or its stop was passed.\<close>

definition dead_order :: "('d, 'b) live_broker \<Rightarrow> time \<Rightarrow> entry_attempt \<Rightarrow> ('d, 'b) world \<Rightarrow> bool" where
  "dead_order L now a W \<longleftrightarrow> ea_expires_at a < now \<or> bar_expiry_due (ea_cancel_at a) now \<or>
     (\<exists>sl price. ea_stop_loss_price a = Some sl \<and> fst (observe (lb_broker L) a now W) = Inr Pending \<and>
        fst (lb_current_price L (ea_instrument a) (w_broker (snd (observe (lb_broker L) a now W)))) = Inr price \<and>
        breach_detected (ea_direction a) (update_adverse_extreme (ea_direction a) (ea_adverse_extreme a) price) sl)"

lemma market_blackout_moves:
  assumes R: "quasi R" and E: "\<And>L. ce_acquire E (ea_account a) = Some L \<Longrightarrow> sweep_asks_move R L"
  shows "moves R (market_blackout_act E a)"
proof -
  have "moves R (blackout_target L a sole)" if "sweep_asks_move R L" for L sole
    using that unfolding blackout_target_def filled_position_id_def sweep_asks_move_def by (auto intro!: move_intros R)
  note t = this
  have "moves R (blackout_close_position L a)" "lb_close_exact L = Some c \<Longrightarrow> moves R (blackout_close_exact L c a)"
    if L: "sweep_asks_move R L" for L c
    using L [unfolded sweep_asks_move_def] unfolding blackout_close_position_def blackout_close_exact_def
    by (auto intro!: move_intros R t [OF L])
  with E show ?thesis unfolding market_blackout_act_def
    by (auto intro!: move_intros R split: sum.split bool.split option.split)
qed

lemma breach_cancels_dead:
  fixes W :: "('d, 'b) world" and L :: "('d, 'b) live_broker"
  assumes R: "quasi R" "sweep_asks_move R L" and sl: "ea_stop_loss_price a = Some sl"
    and moved: "\<not> R (w_broker W) (w_broker (snd (maybe_breach_cancel L a sl now W)))"
  shows "dead_order L now a W"
proof -
  define W0 where "W0 = snd (observe (lb_broker L) a now W)"
  define W1 where "W1 = snd (bcall (lb_current_price L (ea_instrument a)) W0)"
  have o: "moves R (observe (lb_broker L) a now :: ('d, 'b, lookup_error + attempt_state) prog)"
    using R unfolding observe_def persist_identity_def journal_diagnostic_def sweep_asks_move_def Let_def
    by (auto intro!: move_intros split: option.split)
  have R0: "R (w_broker W) (w_broker W0)" using o by (simp add: moves_def W0_def)
  then have R1: "R (w_broker W) (w_broker W1)"
    using R quasi_trans [OF R(1)] by (fastforce simp: W1_def sweep_asks_move_def op_moves_def)
  have pending: "ea_broker_trade_id a = None" "fst (observe (lb_broker L) a now W) = Inr Pending"
    using moved R0 quasi_refl [OF R(1)]
    by (auto simp: maybe_breach_cancel_def confirmed_pending_def W0_def split: if_splits)
  obtain price where price: "fst (lb_current_price L (ea_instrument a) (w_broker W0)) = Inr price"
    using moved R1 pending by (auto simp: maybe_breach_cancel_def confirmed_pending_def W0_def [symmetric]
        W1_def split: sum.splits)
  have "breach_detected (ea_direction a) (update_adverse_extreme (ea_direction a) (ea_adverse_extreme a) price) sl"
    using moved R1 pending price
    by (auto simp: maybe_breach_cancel_def confirmed_pending_def W0_def [symmetric] W1_def judge_breach_def
        persist_adverse_extreme_def Let_def split: if_splits)
  then show ?thesis using sl pending price by (auto simp: dead_order_def W0_def)
qed

text \<open>
  C10: the sweep cancels only dead orders. If sweeping one tracked attempt does anything at the
  broker but ask and close positions, then the attempt never filled as far as its row knows, and
  its window is over, its last bar has closed, or the broker says it still rests and the worst
  price seen since it was placed has passed its stop.
\<close>

theorem sweep_cancels_only_dead:
  assumes "quasi R" "ce_acquire E (ea_account a) = Some L" "sweep_asks_move R L"
    and moved: "\<not> R (w_broker W) (w_broker (snd (sweep_one E now a W)))"
  shows "ea_broker_trade_id a = None \<and> dead_order L now a W"
proof -
  have m: "R (w_broker W) (w_broker (snd (market_blackout_act E a W)))"
    using market_blackout_moves [OF assms(1), of E a] assms(2,3) by (auto simp: moves_def)
  have "ea_broker_trade_id a = None" using moved m quasi_refl [OF assms(1)]
    by (auto simp: sweep_one_def Let_def split: if_splits)
  moreover have "dead_order L now a W"
  proof (cases "ea_expires_at a < now \<or> bar_expiry_due (ea_cancel_at a) now")
    case False
    then obtain sl where "ea_stop_loss_price a = Some sl"
      "\<not> R (w_broker W) (w_broker (snd (maybe_breach_cancel L a sl now W)))"
      using moved m quasi_refl [OF assms(1)] assms(2) calculation
      by (auto simp: sweep_one_def Let_def split: if_splits option.splits)
    then show ?thesis by (rule breach_cancels_dead [OF assms(1,3)])
  qed (auto simp: dead_order_def)
  ultimately show ?thesis ..
qed

theorem sweep_cancels_only_dead_witness:
  "dead_order ex_live (seconds 10000) (ex_attempt 3 ''o2'') ex_book"
proof -
  let ?R = "\<lambda>b b' :: nat \<times> nat. fst b' = fst b"
  have R: "quasi ?R" by (auto simp: quasi_def intro!: reflpI transpI)
  have asks: "sweep_asks_move ?R ex_live"
    by (auto simp: sweep_asks_move_def quoting_moves op_moves_def intro!: reflpI)
  have "\<not> ?R (w_broker ex_book) (w_broker (snd (sweep_one (ex_env ex_live) (seconds 10000) (ex_attempt 3 ''o2'') ex_book)))"
    using ex_swept by simp
  from sweep_cancels_only_dead [OF R _ asks this] show ?thesis by simp
qed

section \<open>The whole system\<close>







end
