(* ===== verification/Core_Close.thy ===== *)
theory Core_Close
  imports Upkeep_Stops Core_Plans
begin

text \<open>
  The requests that close and cancel: the reversal close (\<open>core/src/dispatch/close.rs\<close>,
  \<open>core/src/allow_close_gate.rs\<close>), the invalidation (\<open>dispatch/invalidate.rs\<close>), the veto that
  acts at the broker (\<open>dispatch/veto.rs\<close>) and the choice of a handler (\<open>dispatch/action.rs\<close>).
\<close>

section \<open>The quality of the candle and the operator's script\<close>

datatype allow_close =
    CloseProceed | CloseBlocked | CloseNeedsGolden | CloseNeedsConfirmed | CloseScriptError string string

definition candle_quality :: "'d intent \<Rightarrow> shell \<Rightarrow> allow_close option" where
  "candle_quality i sh =
     (if i_needs_golden i \<and> sh_golden sh \<noteq> Some True then Some CloseNeedsGolden
      else if i_needs_confirmed i \<and> sh_signal_confirmed sh \<noteq> Some True then Some CloseNeedsConfirmed
      else None)"

definition allow_close_of :: "rhai \<Rightarrow> 'd intent \<Rightarrow> shell \<Rightarrow> allow_close" where
  "allow_close_of R i sh =
     (case candle_quality i sh of
        Some unmet \<Rightarrow> unmet
      | None \<Rightarrow>
          (case i_allow_close i of
             None \<Rightarrow> CloseProceed
           | Some gate \<Rightarrow>
               (case resolve_tunable from_rhai_bool R (bind_shell_anchors sh) gate of
                  Inr b \<Rightarrow> if b then CloseProceed else CloseBlocked
                | Inl e \<Rightarrow> CloseScriptError (rule_error_kind e) (rule_error_text e))))"

section \<open>The windows of a close\<close>

datatype gate_outcome = NotSet | Passed | FailedWith string

datatype gate_decision = GatePass | GateReject string

definition failed_codes :: "gate_outcome list \<Rightarrow> string list" where
  "failed_codes outcomes = List.map_filter (\<lambda>q. case q of FailedWith code \<Rightarrow> Some code | _ \<Rightarrow> None) outcomes"

definition evaluate_close_gates :: "gate_outcome \<Rightarrow> gate_outcome \<Rightarrow> gate_decision" where
  "evaluate_close_gates news price =
     (let outcomes = [news, price] in
      if list_ex (\<lambda>q. q = Passed) outcomes \<or> \<not> list_ex (\<lambda>q. q \<noteq> NotSet) outcomes then GatePass
      else GateReject (join ''|'' (failed_codes outcomes)))"

definition price_band_hit :: "f64 \<Rightarrow> (f64 \<times> f64) list \<Rightarrow> (f64 \<times> f64) option" where
  "price_band_hit price ranges = find (\<lambda>(lo, hi). fge price lo \<and> fle price hi) ranges"

definition band_outcome :: "f64 \<Rightarrow> (f64 \<times> f64) list \<Rightarrow> gate_outcome" where
  "band_outcome price ranges =
     (case price_band_hit price ranges of Some _ \<Rightarrow> Passed | None \<Rightarrow> FailedWith ''price-out-of-range'')"

definition news_gate :: "'d intent \<Rightarrow> ('d, 'b, action_result + gate_outcome) prog" where
  "news_gate i =
     (if i_require_news_window i = Some True \<or> NewsWindow \<in> set (i_inside_window i)
      then case i_trade_id i of
          None \<Rightarrow> preturn (Inl (Rejected 400 ''close with news-window gate requires `trade_id`''
            ''rejected: missing-trade-id''))
        | Some tid \<Rightarrow> and_then (call_or_500 (list_news_windows_for_trade tid)) (\<lambda>windows.
            preturn (Inr (if windows = [] then FailedWith ''no-news-window'' else Passed)))
      else preturn (Inr NotSet))"

text \<open>The deprecated form asks the broker for a price; the current one takes the signal's anchor.\<close>

definition price_gate :: "('d, 'b) live_broker \<Rightarrow> 'd verified \<Rightarrow> ('d, 'b, action_result + gate_outcome) prog" where
  "price_gate L v =
     (let i = v_intent v in
      case i_require_price_in_ranges i of
        Some ranges \<Rightarrow> pbind (bcall (lb_current_price L (i_instrument i))) (\<lambda>q. preturn (case q of
            Inr price \<Rightarrow> Inr (band_outcome price ranges)
          | Inl _ \<Rightarrow> Inl (Rejected 500 ''price-fetch failed'' ''rejected: price-fetch-failed'')))
      | None \<Rightarrow>
          if PriceWindow \<in> set (i_inside_window i)
          then preturn (Inr (case sh_band_anchor (v_shell v) of
            Some anchor \<Rightarrow> band_outcome anchor (i_sr_bands i)
          | None \<Rightarrow> FailedWith ''no-band-anchor''))
          else preturn (Inr NotSet))"

definition windows_stage :: "gate_outcome \<Rightarrow> gate_outcome \<Rightarrow> action_result + unit" where
  "windows_stage news price =
     (case evaluate_close_gates news price of
        GatePass \<Rightarrow> Inr ()
      | GateReject reason \<Rightarrow> Inl (Rejected 423 ''close gates not satisfied'' (''rejected: '' @ reason)))"

definition allow_close_stage :: "rhai \<Rightarrow> 'd verified \<Rightarrow> action_result + unit" where
  "allow_close_stage R v =
     (case allow_close_of R (v_intent v) (v_shell v) of
        CloseProceed \<Rightarrow> Inr ()
      | CloseBlocked \<Rightarrow> Inl (Rejected 412 ''close blocked'' ''rejected: allow-close-false'')
      | CloseNeedsGolden \<Rightarrow> Inl (Rejected 412 ''close blocked: needs-golden'' ''rejected: needs-golden'')
      | CloseNeedsConfirmed \<Rightarrow>
          Inl (Rejected 412 ''close blocked: needs-confirmed'' ''rejected: needs-confirmed'')
      | CloseScriptError kind _ \<Rightarrow>
          Inl (Rejected 412 ''close blocked: script error'' (''rejected: allow-close-'' @ kind)))"

definition close_answer :: "close_outcome \<Rightarrow> action_result" where
  "close_answer c = (case c of
     ClosedPositions n \<Rightarrow> Completed (''closed ('' @ show_nat n @ '')'')
   | NothingOpen \<Rightarrow> Completed ''closed: nothing-open''
   | CloseErrored \<Rightarrow> Failed ''close-failed: broker-errored'')"

definition run_close :: "rhai \<Rightarrow> ('d, 'b) live_broker \<Rightarrow> 'd verified \<Rightarrow> ('d, 'b, action_result) prog" where
  "run_close R L v =
     or_return (news_gate (v_intent v)) (\<lambda>news.
     or_return (price_gate L v) (\<lambda>price.
     or_return (preturn (windows_stage news price)) (\<lambda>_.
     or_return (preturn (allow_close_stage R v)) (\<lambda>_.
     pbind (bcall (lb_close_positions L (i_instrument (v_intent v)))) (\<lambda>c. preturn (close_answer c))))))"

section \<open>Invalidation\<close>

definition invalidated_outcome :: "nat \<Rightarrow> nat \<Rightarrow> string" where
  "invalidated_outcome hours cancelled =
     ''invalidated: cooldown '' @ show_nat hours @ ''h, cancelled '' @ show_nat cancelled"

definition run_invalidate ::
  "rhai \<Rightarrow> ('d, 'b) live_broker \<Rightarrow> 'd verified \<Rightarrow> time \<Rightarrow> ('d, 'b, action_result) prog" where
  "run_invalidate R L v now =
     (let i = v_intent v in
      or_return (preturn (case resolve_phase1_u32 R ''cooldown_hours'' (i_cooldown_hours i) (v_shell v) 12 of
          Inr n \<Rightarrow> Inr n | Inl outcome \<Rightarrow> Inl (Rejected 412 ''cooldown_hours script error'' outcome))) (\<lambda>hours.
      or_return (call_or_500 (set_cooldown (i_account i) (i_instrument i) hours now)) (\<lambda>_.
      pbind (record_control_event_for (i_account i) (i_trade_id i) KCooldown [] (i_instrument i)
          (sat_mul64 hours 3600) now None) (\<lambda>_.
      pbind (bcall (cancel_pending_for_instrument (lb_broker L) (i_instrument i))) (\<lambda>cancelled.
      preturn (Completed (invalidated_outcome hours cancelled)))))))"

section \<open>A veto that acts at the broker\<close>

definition level_tag_of :: "veto_level \<Rightarrow> string" where
  "level_tag_of l = (case l of StopNextEntry \<Rightarrow> ''stop-next-entry'' | CancelPendingLevel \<Rightarrow> ''cancel-pending''
     | ClosePositionsLevel \<Rightarrow> ''close-positions'')"

definition closed_tag_of :: "close_outcome \<Rightarrow> string" where
  "closed_tag_of c = (case c of ClosedPositions _ \<Rightarrow> ''closed=ok'' | NothingOpen \<Rightarrow> ''closed=nothing-open''
     | CloseErrored \<Rightarrow> ''closed=failed'')"

definition close_at_level ::
  "('d, 'b) live_broker \<Rightarrow> string \<Rightarrow> veto_level \<Rightarrow> ('d, 'b, close_outcome option) prog" where
  "close_at_level L instrument level =
     (if level = ClosePositionsLevel
      then pbind (bcall (lb_close_positions L instrument)) (\<lambda>c. preturn (Some c)) else preturn None)"

definition veto_answer ::
  "string \<Rightarrow> nat \<Rightarrow> veto_level \<Rightarrow> string list \<Rightarrow> nat \<Rightarrow> close_outcome option \<Rightarrow> action_result" where
  "veto_answer nm ttl_hours level cleared cancelled closing =
     (let outcome = format_veto_set_outcome nm ttl_hours (level_tag_of level) cleared (Some cancelled)
            (map_option closed_tag_of closing);
          closed_ok = (case closing of None \<Rightarrow> True | Some c \<Rightarrow> is_flat c) in
      if level = ClosePositionsLevel \<and> \<not> closed_ok then Failed outcome else Completed outcome)"

definition run_veto_with_broker ::
  "rhai \<Rightarrow> ('d, 'b) live_broker \<Rightarrow> 'd verified \<Rightarrow> time \<Rightarrow> ('d, 'b, action_result) prog" where
  "run_veto_with_broker R L v now =
     (let i = v_intent v; level = or_else (i_level i) StopNextEntry in
      case i_name i of
        None \<Rightarrow> preturn (Rejected 400 ''veto requires `name`'' ''rejected: missing-name'')
      | Some nm \<Rightarrow>
     (case i_trade_id i of
        None \<Rightarrow> preturn (Rejected 400 ''veto requires trade_id'' ''rejected: missing-trade-id'')
      | Some trade_id \<Rightarrow>
      or_return (preturn (case resolve_phase1_u32 R ''ttl_hours'' (Some (i_ttl_hours i)) (v_shell v) 0 of
          Inr n \<Rightarrow> Inr n | Inl outcome \<Rightarrow> Inl (Rejected 412 ''ttl_hours script error'' outcome))) (\<lambda>ttl_hours.
      let ttl = veto_ttl_seconds ttl_hours (i_not_after i) now in
      pbind (clear_named_vetos (i_account i) trade_id (i_instrument i) (i_clears i)) (\<lambda>c.
      let cleared = (case c of Inl _ \<Rightarrow> [] | Inr xs \<Rightarrow> xs) in
      or_return (call_or_500 (set_veto (i_account i) trade_id (i_instrument i) nm ttl)) (\<lambda>_.
      pbind (record_control_event_for (i_account i) (Some trade_id) KVeto nm (i_instrument i) ttl now None) (\<lambda>_.
      pbind (bcall (cancel_pending_for_instrument (lb_broker L) (i_instrument i))) (\<lambda>cancelled.
      pbind (close_at_level L (i_instrument i) level) (\<lambda>closing.
      preturn (veto_answer nm ttl_hours level cleared cancelled closing)))))))))"

section \<open>The choice of a handler (\<open>dispatch/action.rs\<close>)\<close>

text \<open>\<open>None\<close> is the source's \<open>unreachable!\<close>: these actions are answered before.\<close>

definition run_action ::
  "'d platform \<Rightarrow> ('d, 'b) live_broker \<Rightarrow> 'd verified \<Rightarrow> dispatch_config \<Rightarrow> time \<Rightarrow> string
    \<Rightarrow> ('d, 'b, action_result option) prog" where
  "run_action P L v cfg now raw_body =
     (case i_action (v_intent v) of
        Enter \<Rightarrow> pbind (run_enter P (lb_broker L) \<lparr>en_verified = v, en_cfg = cfg, en_now = now,
            en_raw_body = Some raw_body, en_granularity = None, en_origin = Fresh\<rparr>) (\<lambda>r. preturn (Some r))
      | Close \<Rightarrow> pbind (run_close (pf_rhai P) L v) (\<lambda>r. preturn (Some r))
      | Invalidate \<Rightarrow> pbind (run_invalidate (pf_rhai P) L v now) (\<lambda>r. preturn (Some r))
      | Veto \<Rightarrow> pbind (run_veto_with_broker (pf_rhai P) L v now) (\<lambda>r. preturn (Some r))
      | _ \<Rightarrow> preturn None)"

end
