(* ===== verification/Tick_Dispatch.thy ===== *)
theory Tick_Dispatch
  imports Core_Close Upkeep_Stops Plan_Evaluate
begin

text \<open>
  The bars an engine tick reads and what it does with an intent it fired
  (\<open>trade-control-cron/src/engine.rs\<close>, \<open>engine/detector_history.rs\<close>, \<open>seam.rs\<close>,
  \<open>core/src/broker/candles.rs\<close>, \<open>tick_bundle.rs\<close>, \<open>recording.rs\<close>): the new closed bars, the bars a
  fresh plan is seeded from, and a window that reaches back far enough for the detector and for
  the anchors of every line; then the request an intent stands for, the handler that serves it, and
  the notes and records the tick leaves. The prose of a note is kept as the values it renders.
\<close>

section \<open>Fetching\<close>

definition unsupported_granularity_text :: string where
  "unsupported_granularity_text =
     ''candle fetch: broker does not serve this granularity (plan cannot tick '' @
     [CHR 0xE2, CHR 0x80, CHR 0x94] @ '' re-arm on a broker-native timeframe)''"

text \<open>A degenerate range is an empty answer; every other error ends the tick of the plan.\<close>

definition disposition :: "candle_error + candle list \<Rightarrow> string + candle list" where
  "disposition r =
     (case r of
        Inr cs \<Rightarrow> Inr cs
      | Inl BadRange \<Rightarrow> Inr []
      | Inl UnsupportedGranularity \<Rightarrow> Inl unsupported_granularity_text
      | Inl CandleTransient \<Rightarrow> Inl ''candle fetch failed (transient)''
      | Inl (CandleUnavailable reason) \<Rightarrow> Inl (''candle fetch failed: '' @ reason))"

definition fetch_candles ::
  "('d, 'b) live_broker \<Rightarrow> string \<Rightarrow> granularity \<Rightarrow> time \<Rightarrow> time \<Rightarrow> ('d, 'b, string + candle list) prog" where
  "fetch_candles L instrument g since now =
     pbind (bcall (lb_candles L instrument g since now)) (\<lambda>r. preturn (disposition r))"

definition filter_new_candles :: "candle list \<Rightarrow> time \<Rightarrow> candle list" where
  "filter_new_candles candles watermark =
     sort_key cn_time (filter (\<lambda>c. watermark < cn_time c) candles)"

definition seed_bars :: int where "seed_bars = 10"

definition seed_since :: "granularity \<Rightarrow> time \<Rightarrow> time" where
  "seed_since g now = now - seconds (granularity_seconds g * seed_bars)"

section \<open>How far back\<close>

text \<open>The instants \<open>chrono\<close> represents: the years -262143 to 262142.\<close>

definition representable :: "time \<Rightarrow> bool" where
  "representable t \<longleftrightarrow> - 8334601228800 \<le> timestamp t \<and> timestamp t \<le> 8210266876799"

definition checked_sub :: "time \<Rightarrow> time \<Rightarrow> time option" where
  "checked_sub t d = (if representable (t - d) then Some (t - d) else None)"

definition smallest :: "'a::linorder list \<Rightarrow> 'a option" where
  "smallest xs = (if xs = [] then None else Some (Min (set xs)))"

definition present :: "'a option list \<Rightarrow> 'a list" where
  "present = List.map_filter (\<lambda>x. x)"

definition pine_lookback_bars :: "granularity \<Rightarrow> nat" where
  "pine_lookback_bars g = detector_lookback_bars (pine_defaults g) g"

definition pine_lookback_since :: "'e plan \<Rightarrow> time \<Rightarrow> time option" where
  "pine_lookback_since plan earliest_fresh =
     (let has_pine = list_ex (\<lambda>r. is_enter_rule r \<and> is_pine (cr_trigger r)) (tp_rules plan) in
      if \<not> has_pine \<and> \<not> has_ma_veto plan \<and> \<not> ec_require_ma_alignment (tp_entry_conditions plan) then None
      else
        let lookback = max (detector_history_bars plan) (pine_lookback_bars (tp_granularity plan)) in
        Some (earliest_fresh - seconds (granularity_seconds (tp_granularity plan) * int lookback)))"

definition earliest_trendline_anchor_epoch :: "trigger list \<Rightarrow> int option" where
  "earliest_trendline_anchor_epoch ts =
     smallest (List.map_filter (\<lambda>t. case t of
         TrendlineCross a b _ _ _ _ \<Rightarrow> Some (min (lp_at_epoch a) (lp_at_epoch b)) | _ \<Rightarrow> None) ts)"

definition trendline_anchor_since :: "'e plan \<Rightarrow> time option" where
  "trendline_anchor_since plan =
     (let retrace_anchor = map_option (\<lambda>l. min (lp_at_epoch (rl_a l)) (lp_at_epoch (rl_b l)))
            (ec_retrace (tp_entry_conditions plan)) in
      Option.bind (smallest (present [earliest_trendline_anchor_epoch (map cr_trigger (tp_rules plan)),
          retrace_anchor])) (\<lambda>earliest_anchor.
      from_timestamp (earliest_anchor - granularity_seconds (tp_granularity plan))))"

section \<open>The detector's window\<close>

definition max_backoffs :: nat where "max_backoffs = 4"

text \<open>\<open>Vec::dedup_by_key\<close>: of neighbours with one time the first stays.\<close>

fun dedup_times :: "candle list \<Rightarrow> candle list" where
  "dedup_times (c # d # cs) =
     (if cn_time c = cn_time d then dedup_times (c # cs) else c # dedup_times (d # cs))"
| "dedup_times cs = cs"

definition merged_window :: "candle list \<Rightarrow> candle list \<Rightarrow> candle list" where
  "merged_window fetched fresh = dedup_times (sort_key cn_time (fetched @ fresh))"

definition earliest_of :: "candle list \<Rightarrow> time option" where
  "earliest_of cs = smallest (map cn_time cs)"

definition history_before :: "time option \<Rightarrow> candle list \<Rightarrow> nat" where
  "history_before earliest window =
     length (filter (\<lambda>c. case earliest of None \<Rightarrow> False | Some e \<Rightarrow> cn_time c < e) window)"

text \<open>The second number counts the fetches that are left.\<close>

fun fetch_back ::
  "(time \<Rightarrow> ('d, 'b, string + candle list) prog) \<Rightarrow> candle list \<Rightarrow> nat \<Rightarrow> nat \<Rightarrow> time
    \<Rightarrow> ('d, 'b, string + candle list) prog" where
  "fetch_back fetch fresh want_history 0 since = preturn (Inl ''detector history back-off exhausted'')"
| "fetch_back fetch fresh want_history (Suc left) since =
     and_then (fetch since) (\<lambda>fetched.
       let window = merged_window fetched fresh; earliest = earliest_of fresh in
       if want_history \<le> history_before earliest window \<or> left = 0 then preturn (Inr window)
       else case earliest of
         None \<Rightarrow> preturn (Inl ''detector history has no fresh candle'')
       | Some e \<Rightarrow>
           if e - since \<le> 0 then preturn (Inl ''detector history start must precede the fresh candle'')
           else (case checked_sub since (e - since) of
             None \<Rightarrow> preturn (Inl ''detector history lookback overflow'')
           | Some further \<Rightarrow> fetch_back fetch fresh want_history left further))"

definition fetch_window ::
  "time \<Rightarrow> candle list \<Rightarrow> nat \<Rightarrow> (time \<Rightarrow> ('d, 'b, string + candle list) prog)
    \<Rightarrow> ('d, 'b, string + candle list) prog" where
  "fetch_window since fresh want_history fetch = fetch_back fetch fresh want_history (Suc max_backoffs) since"

definition detector_window_for ::
  "('d, 'b) live_broker \<Rightarrow> 'e plan \<Rightarrow> candle list \<Rightarrow> time \<Rightarrow> ('d, 'b, string + candle list) prog" where
  "detector_window_for L plan fresh now =
     (let pine_since = pine_lookback_since plan (or_else (earliest_of fresh) now) in
      case smallest (present [pine_since, trendline_anchor_since plan]) of
        None \<Rightarrow> preturn (Inr fresh)
      | Some since \<Rightarrow>
          fetch_window since fresh (if pine_since = None then 0 else detector_history_bars plan)
            (\<lambda>from. fetch_candles L (tp_instrument plan) (tp_granularity plan) from now))"


section \<open>Records of a tick\<close>

record dispatch_outcome =
  do_rule_id :: string
  do_intent_id :: string
  do_outcome :: string
  do_seq :: nat

record kv_transition =
  kv_key :: string
  kv_before :: "plan_state option"
  kv_after :: "plan_state option"
  kv_cleared_plan :: bool
  kv_success :: bool
  kv_error :: "string option"

definition tick_bundle_schema_version :: nat where
  "tick_bundle_schema_version = 1"

record 'e tick_bundle =
  tb_schema_version :: nat
  tb_tick_ts :: time
  tb_correlation_id :: string
  tb_account :: "string option"
  tb_request_id :: string
  tb_plan :: "'e plan"
  tb_prior :: plan_state
  tb_new_candles :: "candle list"
  tb_window :: "candle list"
  tb_now :: time
  tb_expires_at :: time
  tb_eval :: "'e plan_eval"
  tb_shadow :: bool
  tb_outcomes :: "dispatch_outcome list"
  tb_kv :: kv_transition

text \<open>The key under which a bundle is kept; the date is the first ten bytes of its instant.\<close>

definition bundle_r2_key :: "chrono \<Rightarrow> 'e tick_bundle \<Rightarrow> string" where
  "bundle_r2_key C b =
     (let ts = to_rfc3339 C (tb_tick_ts b);
          date = (if 10 \<le> length ts then take 10 ts else ''unknown'') in
      ''ticks/'' @ date @ ''/'' @ ts @ ''-'' @ tb_correlation_id b @ ''.json'')"

datatype severity = NoteInfo | NoteWarn | NoteError

datatype note_text =
    Unconfirmed string granularity action_result
  | CaughtUp string granularity nat time time int nat time
  | Evaluation string granularity "string option"
  | PaperEntry string granularity "resolve_error + resolved" string string time

record cron_note =
  nt_at :: time
  nt_trade_id :: string
  nt_account :: "string option"
  nt_source :: string
  nt_severity :: severity
  nt_text :: note_text

section \<open>The seam\<close>

text \<open>
  A broker handle with its settlement feed, and what the tick asks of the runtime it lives in:
  a broker for an account or the reason there is none, the configuration of an entry, the signed
  wire form of a request (no key, no form), and the sinks of its records, which live with the
  brokers in the state outside the store.
\<close>

record ('d, 'b) engine_broker =
  eb_live :: "('d, 'b) live_broker"
  eb_settlement :: "string \<Rightarrow> time \<Rightarrow> string list \<Rightarrow> time \<Rightarrow> 'b \<Rightarrow> (lookup_error + settlement) \<times> 'b"

record ('e, 'b) engine_env =
  ee_platform :: "'e intent platform"
  ee_acquire :: "string option \<Rightarrow> 'b \<Rightarrow> (string + ('e intent, 'b) engine_broker) \<times> 'b"
  ee_config :: "'e intent verified \<Rightarrow> 'b \<Rightarrow> dispatch_config \<times> 'b"
  ee_signed_body :: "'e intent verified \<Rightarrow> string option"
  ee_record_tick :: "'e tick_bundle \<Rightarrow> 'b \<Rightarrow> 'b"
  ee_note :: "cron_note \<Rightarrow> 'b \<Rightarrow> 'b"
  ee_paper_entry :: "string \<Rightarrow> cron_note \<Rightarrow> 'b \<Rightarrow> (string + unit) \<times> 'b"
  ee_health :: "cron_note \<Rightarrow> 'b \<Rightarrow> 'b"

abbreviation ee_venue :: "('e, 'b) engine_env \<Rightarrow> venue" where
  "ee_venue E \<equiv> pf_venue (ee_platform E)"

abbreviation ee_rhai :: "('e, 'b) engine_env \<Rightarrow> rhai" where
  "ee_rhai E \<equiv> pf_rhai (ee_platform E)"

definition tell :: "('b \<Rightarrow> 'b) \<Rightarrow> ('d, 'b, unit) prog" where
  "tell f = bcall (\<lambda>b. ((), f b))"

section \<open>The request a fired intent stands for\<close>

text \<open>
  The intent of a rule, as an intent of the store's requests. The plan an intent may carry is
  read by a registration only, which no rule fires.
\<close>

definition as_request :: "'e intent \<Rightarrow> 'e intent intent" where
  "as_request i =
     \<lparr>i_id = i_id i, i_not_before = i_not_before i, i_not_after = i_not_after i,
      i_action = i_action i, i_instrument = i_instrument i, i_direction = i_direction i,
      i_entry = i_entry i, i_stop_loss = i_stop_loss i, i_take_profit = i_take_profit i,
      i_risk_pct = i_risk_pct i, i_risk_amount = i_risk_amount i, i_size_units = i_size_units i,
      i_on_oversize = i_on_oversize i, i_dry_run = i_dry_run i,
      i_cooldown_hours = i_cooldown_hours i, i_min_r = i_min_r i, i_broker = i_broker i,
      i_account = i_account i, i_step = i_step i, i_name = i_name i, i_ttl_hours = i_ttl_hours i,
      i_level = i_level i, i_requires_preps = i_requires_preps i, i_vetos = i_vetos i,
      i_entry_level_vetos = i_entry_level_vetos i, i_breakeven = i_breakeven i,
      i_clears = i_clears i, i_trade_id = i_trade_id i, i_max_retries = i_max_retries i,
      i_entry_dedup = i_entry_dedup i, i_expiry_bars = i_expiry_bars i,
      i_allow_entry = i_allow_entry i, i_allow_close = i_allow_close i,
      i_needs_golden = i_needs_golden i, i_needs_confirmed = i_needs_confirmed i,
      i_blackout_id = i_blackout_id i, i_news_id = i_news_id i,
      i_require_news_window = i_require_news_window i,
      i_require_price_in_ranges = i_require_price_in_ranges i,
      i_inside_window = i_inside_window i, i_sr_bands = i_sr_bands i,
      i_veto_on_reversal = i_veto_on_reversal i, i_reason = i_reason i, i_mw = i_mw i,
      i_pip_size = i_pip_size i, i_tick_size = i_tick_size i,
      i_contract_multiplier = i_contract_multiplier i, i_spread_window = i_spread_window i,
      i_trade_plan = None, i_blackout_close = i_blackout_close i,
      i_include_archived = i_include_archived i, i_detach_existing = i_detach_existing i,
      i_target_account = i_target_account i\<rparr>"

definition shell_of :: "'e fired_intent \<Rightarrow> shell" where
  "shell_of f = (case fi_signal f of
     Some sig \<Rightarrow> from_candle_and_signal (fi_candle f) sig | None \<Rightarrow> from_candle (fi_candle f))"

definition request_of :: "'e fired_intent \<Rightarrow> 'e intent verified" where
  "request_of f = \<lparr>v_intent = as_request (fi_intent f), v_shell = shell_of f\<rparr>"

section \<open>Dispatch\<close>

definition control_outcome :: "'d control_result \<Rightarrow> string \<Rightarrow> action_result" where
  "control_outcome r ok_outcome =
     (if is_success r then Completed ok_outcome
      else Rejected (c_status r) (''control dispatch returned status '' @ show_nat (c_status r))
        (''rejected: control-status-'' @ show_nat (c_status r)))"

definition as_action :: "string \<Rightarrow> ('d, 'b) handler \<Rightarrow> ('d, 'b, action_result) prog" where
  "as_action ok_outcome h = pbind h (\<lambda>r. preturn (control_outcome r ok_outcome))"

fun show_action :: "action \<Rightarrow> string" where
  "show_action Enter = ''Enter''" | "show_action Close = ''Close''"
| "show_action Invalidate = ''Invalidate''" | "show_action Status = ''Status''"
| "show_action Unlock = ''Unlock''" | "show_action Prep = ''Prep''" | "show_action Veto = ''Veto''"
| "show_action PrepExpire = ''PrepExpire''" | "show_action ClearPrep = ''ClearPrep''"
| "show_action ClearVeto = ''ClearVeto''" | "show_action Pause = ''Pause''"
| "show_action Resume = ''Resume''" | "show_action NewsStart = ''NewsStart''"
| "show_action NewsEnd = ''NewsEnd''" | "show_action Register = ''Register''"
| "show_action MarketInfo = ''MarketInfo''" | "show_action PlanList = ''PlanList''"
| "show_action PlanShow = ''PlanShow''" | "show_action PlanTimeline = ''PlanTimeline''"
| "show_action PlanDelete = ''PlanDelete''" | "show_action PlanPaper = ''PlanPaper''"
| "show_action PlanSwapAccount = ''PlanSwapAccount''"
| "show_action PlanClosedManually = ''PlanClosedManually''" | "show_action PlanPurge = ''PlanPurge''"
| "show_action PurgeOlderThan = ''PurgeOlderThan''"

definition unsupported_action :: "action \<Rightarrow> action_result" where
  "unsupported_action a =
     Rejected 400 ''engine: unsupported fired action'' (''rejected: unsupported-action '' @ show_action a)"

definition enter_call_of ::
  "('e, 'b) engine_env \<Rightarrow> 'e intent verified \<Rightarrow> dispatch_config \<Rightarrow> granularity \<Rightarrow> time \<Rightarrow> 'e intent entry_call" where
  "enter_call_of E v cfg g now =
     \<lparr>en_verified = v, en_cfg = cfg, en_now = now, en_raw_body = ee_signed_body E v,
      en_granularity = Some g, en_origin = Fresh\<rparr>"

definition dispatch_action ::
  "('e, 'b) engine_env \<Rightarrow> ('e intent, 'b) live_broker \<Rightarrow> 'e intent verified \<Rightarrow> granularity \<Rightarrow> time
    \<Rightarrow> ('e intent, 'b, action_result) prog" where
  "dispatch_action E L v g now =
     (let P = ee_platform E; C = pf_chrono P; R = pf_rhai P in
      case i_action (v_intent v) of
        Enter \<Rightarrow> pbind (bcall (ee_config E v)) (\<lambda>cfg. run_enter P (lb_broker L) (enter_call_of E v cfg g now))
      | Close \<Rightarrow> run_close R L v
      | Invalidate \<Rightarrow> run_invalidate R L v now
      | Veto \<Rightarrow>
          if or_else (i_level (v_intent v)) StopNextEntry = StopNextEntry
          then as_action ''vetoed'' (handle_veto R v now)
          else run_veto_with_broker R L v now
      | Prep \<Rightarrow> as_action ''prepped'' (handle_prep C R v now)
      | Pause \<Rightarrow> as_action ''pause-set'' (handle_pause v now)
      | Resume \<Rightarrow> as_action ''pause-cleared'' (handle_resume v now)
      | NewsStart \<Rightarrow> as_action ''news-window-open'' (handle_news_start v now)
      | NewsEnd \<Rightarrow> as_action ''news-window-closed'' (handle_news_end v now)
      | a \<Rightarrow> preturn (unsupported_action a))"

text \<open>An entry that was not completed leaves a note.\<close>

definition entry_note_of :: "'e intent verified \<Rightarrow> granularity \<Rightarrow> time \<Rightarrow> action_result \<Rightarrow> cron_note" where
  "entry_note_of v g now r =
     \<lparr>nt_at = now, nt_trade_id = or_else (i_trade_id (v_intent v)) [], nt_account = i_account (v_intent v),
      nt_source = ''entry-dispatch'', nt_severity = NoteWarn,
      nt_text = Unconfirmed (i_instrument (v_intent v)) g r\<rparr>"

definition is_completed :: "action_result \<Rightarrow> bool" where
  "is_completed r = (case r of Completed _ \<Rightarrow> True | _ \<Rightarrow> False)"

definition dispatch_fired ::
  "('e, 'b) engine_env \<Rightarrow> ('e intent, 'b) live_broker \<Rightarrow> 'e fired_intent \<Rightarrow> granularity \<Rightarrow> time
    \<Rightarrow> ('e intent, 'b, string) prog" where
  "dispatch_fired E L f g now =
     (let v = request_of f in
      pbind (dispatch_action E L v g now) (\<lambda>r.
      pbind (if i_action (v_intent v) = Enter \<and> \<not> is_completed r
             then tell (ee_note E (entry_note_of v g now r)) else preturn ()) (\<lambda>_.
      pbind (record_dispatcher_outcome v now r) (\<lambda>_. preturn (describe_result r)))))"

text \<open>The loop over what fired numbers the outcomes in order.\<close>

definition dispatch_all ::
  "('e, 'b) engine_env \<Rightarrow> ('e intent, 'b) live_broker \<Rightarrow> 'e fired_intent list \<Rightarrow> granularity \<Rightarrow> time
    \<Rightarrow> ('e intent, 'b, dispatch_outcome list) prog" where
  "dispatch_all E L fired g now =
     pfor (\<lambda>(seq, f) outcomes.
         pbind (dispatch_fired E L f g now) (\<lambda>outcome.
         preturn (outcomes @ [\<lparr>do_rule_id = fi_rule_id f, do_intent_id = i_id (fi_intent f),
           do_outcome = outcome, do_seq = seq\<rparr>])))
       (enumerate 0 fired) []"

end
