(* ===== verification/Tick_Engine.thy ===== *)
theory Tick_Engine
  imports Tick_Dispatch
begin

text \<open>
  The engine tick of the cron (\<open>trade-control-cron/src/engine.rs\<close>, \<open>engine/paper.rs\<close>,
  \<open>engine/catchup.rs\<close>, \<open>engine/health.rs\<close>): every registered plan is read with its state,
  evaluated over the bars that closed since, stored, and only then dispatched. A tick answers the
  error that ended it, or the bundle it recorded of what it did, if any.
\<close>

section \<open>Paper entries and notes\<close>

definition entry_identity :: "'e fired_intent \<Rightarrow> string" where
  "entry_identity f =
     (let rule_id = fi_rule_id f; intent_id = i_id (fi_intent f) in
      show_nat (length rule_id) @ '':'' @ rule_id @ show_nat (length intent_id) @ '':'' @ intent_id @ '':'' @
      show_int (cn_time (fi_candle f) div 1000000))"

definition paper_note :: "rhai \<Rightarrow> 'e intent stored_plan \<Rightarrow> 'e fired_intent \<Rightarrow> time \<Rightarrow> cron_note" where
  "paper_note R stored f now =
     (let plan = sp_plan stored; i = fi_intent f; pip_size = or_else (i_pip_size i) (tp_pip_size plan);
          resolved = from_intent R i (shell_of f) pip_size (or_else (i_tick_size i) pip_size) in
      \<lparr>nt_at = now, nt_trade_id = tp_trade_id plan, nt_account = sp_account stored,
       nt_source = ''paper-entry'',
       nt_severity = (case resolved of Inr _ \<Rightarrow> NoteInfo | Inl _ \<Rightarrow> NoteWarn),
       nt_text = PaperEntry (tp_instrument plan) (tp_granularity plan) resolved (fi_rule_id f) (i_id i)
         (cn_time (fi_candle f))\<rparr>)"

definition paper_entries :: "'e intent stored_plan \<Rightarrow> 'e fired_intent list \<Rightarrow> 'e fired_intent list" where
  "paper_entries stored fired =
     (if tp_shadow (sp_plan stored) then filter (\<lambda>f. i_action (fi_intent f) = Enter) fired else [])"

definition record_then_advance ::
  "('e, 'b) engine_env \<Rightarrow> 'e intent stored_plan \<Rightarrow> 'e fired_intent list \<Rightarrow> time
    \<Rightarrow> ('e intent, 'b, 'x) prog \<Rightarrow> ('e intent, 'b, string + 'x) prog" where
  "record_then_advance E stored fired now advance =
     and_then (pfold (\<lambda>f _.
         pbind (bcall (ee_paper_entry E (entry_identity f) (paper_note (ee_rhai E) stored f now))) (\<lambda>r.
         preturn (case r of Inr _ \<Rightarrow> Inr ()
           | Inl err \<Rightarrow> Inl (''paper entry journal write failed: '' @ err))))
       (paper_entries stored fired) ()) (\<lambda>_.
     pbind advance (\<lambda>x. preturn (Inr x)))"

definition catchup_observation ::
  "'e intent stored_plan \<Rightarrow> time \<Rightarrow> candle list \<Rightarrow> time option \<Rightarrow> time \<Rightarrow> cron_note option" where
  "catchup_observation stored since fresh through now =
     (case (fresh, through) of
        (first # _ # _, Some through_at) \<Rightarrow>
          Some \<lparr>nt_at = now, nt_trade_id = tp_trade_id (sp_plan stored), nt_account = sp_account stored,
            nt_source = ''engine-catchup'', nt_severity = NoteWarn,
            nt_text = CaughtUp (tp_instrument (sp_plan stored)) (tp_granularity (sp_plan stored))
              (length fresh) since (cn_time first) (max 0 (num_seconds (now - cn_time first)))
              (length (filter (\<lambda>c. cn_time c \<le> through_at) fresh)) through_at\<rparr>
      | _ \<Rightarrow> None)"

definition health_observation :: "'e intent stored_plan \<Rightarrow> string option \<Rightarrow> time \<Rightarrow> cron_note" where
  "health_observation stored err now =
     \<lparr>nt_at = now, nt_trade_id = tp_trade_id (sp_plan stored), nt_account = sp_account stored,
      nt_source = ''engine-health'', nt_severity = (if err = None then NoteInfo else NoteError),
      nt_text = Evaluation (tp_instrument (sp_plan stored)) (tp_granularity (sp_plan stored)) err\<rparr>"

section \<open>Storing what was evaluated\<close>

text \<open>A panic of the store is not an ordinary error and never answered.\<close>

definition failure_text :: "failure \<Rightarrow> string" where
  "failure_text f = (case f of Err m \<Rightarrow> m | Panic \<Rightarrow> [])"

definition named_error :: "string \<Rightarrow> 'a res \<Rightarrow> string + 'a" where
  "named_error what r = (case r of Inl e \<Rightarrow> Inl (what @ '': '' @ failure_text e) | Inr x \<Rightarrow> Inr x)"

definition earliest_placement :: "entry_attempt list \<Rightarrow> time \<Rightarrow> time" where
  "earliest_placement attempts now = or_else (smallest (map ea_placed_at attempts)) now"

definition worth_keeping :: "settlement \<Rightarrow> bool" where
  "worth_keeping s \<longleftrightarrow> \<not> (sm_trades s = [] \<and> sm_ledger s = [] \<and> sm_warnings s = [])"

definition fetch_plan_settlement ::
  "('e intent, 'b) engine_broker \<Rightarrow> 'e plan \<Rightarrow> string option \<Rightarrow> time \<Rightarrow> ('e intent, 'b, settlement option) prog" where
  "fetch_plan_settlement B plan account now =
     (if tp_shadow plan then preturn None
      else pbind (call (list_entry_attempts account (tp_trade_id plan))) (\<lambda>r. case r of
          Inl _ \<Rightarrow> preturn None
        | Inr attempts \<Rightarrow>
            if attempts = [] then preturn None
            else pbind (bcall (eb_settlement B (tp_instrument plan) (earliest_placement attempts now)
                (map ea_broker_order_id attempts) now)) (\<lambda>q. preturn (case q of
              Inr s \<Rightarrow> if worth_keeping s then Some s else None
            | Inl _ \<Rightarrow> None))))"

definition transition_of ::
  "string option \<Rightarrow> 'e plan \<Rightarrow> plan_state \<Rightarrow> plan_state option \<Rightarrow> bool \<Rightarrow> string option \<Rightarrow> kv_transition" where
  "transition_of account plan prior after cleared err =
     \<lparr>kv_key = plan_state_key account (tp_trade_id plan), kv_before = Some prior, kv_after = after,
      kv_cleared_plan = cleared, kv_success = (err = None), kv_error = err\<rparr>"

text \<open>A finished plan is archived and its rows are dropped; no failure of these calls is answered.\<close>

definition persist_plan_state ::
  "('e intent, 'b) engine_broker \<Rightarrow> 'e plan \<Rightarrow> string option \<Rightarrow> 'e plan_eval \<Rightarrow> time \<Rightarrow> plan_state
    \<Rightarrow> ('e intent, 'b, kv_transition) prog" where
  "persist_plan_state B plan account ev now prior =
     (if pv_done ev then
        pbind (fetch_plan_settlement B plan account now) (\<lambda>settled.
        pbind (call (archive_plan account plan (pv_new_state ev) now settled)) (\<lambda>_.
        pbind (call (clear_plan_state account (tp_trade_id plan))) (\<lambda>_.
        pbind (call (clear_trade_plan account (tp_trade_id plan))) (\<lambda>_.
        preturn (transition_of account plan prior None True None)))))
      else
        pbind (call (put_plan_state account (tp_trade_id plan) (pv_new_state ev))) (\<lambda>r.
        preturn (transition_of account plan prior (Some (pv_new_state ev)) False
          (case r of Inr _ \<Rightarrow> None | Inl e \<Rightarrow> Some (failure_text e)))))"

definition build_tick_bundle ::
  "chrono \<Rightarrow> 'e intent stored_plan \<Rightarrow> plan_state \<Rightarrow> candle list \<Rightarrow> candle list \<Rightarrow> 'e plan_eval \<Rightarrow> time \<Rightarrow> time
    \<Rightarrow> dispatch_outcome list \<Rightarrow> kv_transition \<Rightarrow> 'e tick_bundle" where
  "build_tick_bundle C stored prior fresh window ev now expires_at outcomes kv =
     \<lparr>tb_schema_version = tick_bundle_schema_version, tb_tick_ts = now,
      tb_correlation_id = tp_trade_id (sp_plan stored), tb_account = sp_account stored,
      tb_request_id = tp_trade_id (sp_plan stored) @ ''@'' @ to_rfc3339 C now, tb_plan = sp_plan stored, tb_prior = prior, tb_new_candles = fresh,
      tb_window = window, tb_now = now, tb_expires_at = expires_at, tb_eval = ev, tb_shadow = tp_shadow (sp_plan stored),
      tb_outcomes = outcomes,
      tb_kv = kv\<rparr>"

section \<open>Reading and seeding\<close>

definition read_plan_state_settled ::
  "string option \<Rightarrow> string \<Rightarrow> ('d, 'b, string + plan_state option) prog" where
  "read_plan_state_settled account trade_id =
     pbind (call (get_plan_state account trade_id)) (\<lambda>r. case named_error ''get_plan_state'' r of
       Inl e \<Rightarrow> preturn (Inl e)
     | Inr (Some st) \<Rightarrow> preturn (Inr (Some st))
     | Inr None \<Rightarrow> pbind (call (get_plan_state account trade_id)) (\<lambda>q.
         preturn (named_error ''get_plan_state (re-read)'' q)))"

definition plan_state_expires_at :: "time \<Rightarrow> time" where
  "plan_state_expires_at now = now + seconds (24 * 60 * 60)"

definition seed_first_tick ::
  "('e intent, 'b) live_broker \<Rightarrow> 'e plan \<Rightarrow> string option \<Rightarrow> time \<Rightarrow> time \<Rightarrow> ('e intent, 'b, string + unit) prog" where
  "seed_first_tick L plan account expires_at now =
     and_then (fetch_candles L (tp_instrument plan) (tp_granularity plan)
         (seed_since (tp_granularity plan) now) now) (\<lambda>candles.
     pbind (call (put_plan_state account (tp_trade_id plan) (seed_plan_state plan candles expires_at))) (\<lambda>r.
     preturn (named_error ''put_plan_state (seed)'' r)))"

section \<open>One plan\<close>

text \<open>
  The common end of both kinds of tick, once the evaluation is stored: nothing is dispatched when
  storing failed, nor for a plan that only observes.
\<close>

definition record_bundle ::
  "('e, 'b) engine_env \<Rightarrow> 'e tick_bundle \<Rightarrow> ('e intent, 'b, string + 'e tick_bundle option) prog" where
  "record_bundle E b = pbind (tell (ee_record_tick E b)) (\<lambda>_. preturn (Inr (Some b)))"

definition put_failed_text :: "kv_transition \<Rightarrow> string" where
  "put_failed_text kv = ''put_plan_state: '' @ or_else (kv_error kv) []"

definition bar_step ::
  "('e, 'b) engine_env \<Rightarrow> 'e intent stored_plan \<Rightarrow> plan_state \<Rightarrow> ('e intent, 'b) engine_broker \<Rightarrow> time
    \<Rightarrow> candle list \<Rightarrow> time \<Rightarrow> ('e intent, 'b, string + 'e tick_bundle option) prog" where
  "bar_step E stored prior B since fresh now =
     (let plan = sp_plan stored; account = sp_account stored; expires_at = plan_state_expires_at now in
      and_then (detector_window_for (eb_live B) plan fresh now) (\<lambda>window.
      let ev = evaluate_plan (ee_venue E) (ee_rhai E) plan prior fresh window now expires_at;
          bundle = build_tick_bundle (pf_chrono (ee_platform E)) stored prior fresh window ev now expires_at in
      and_then (record_then_advance E stored (pv_fired ev) now
          (persist_plan_state B plan account ev now prior)) (\<lambda>kv.
      if \<not> kv_success kv \<and> \<not> pv_done ev
      then pbind (tell (ee_record_tick E (bundle [] kv))) (\<lambda>_. preturn (Inl (put_failed_text kv)))
      else
        pbind (case catchup_observation stored since fresh (ps_watermark (pv_new_state ev)) now of
            Some note \<Rightarrow> tell (ee_note E note) | None \<Rightarrow> preturn ()) (\<lambda>_.
        if tp_shadow plan
        then if \<not> is_noteworthy ev prior then preturn (Inr None) else record_bundle E (bundle [] kv)
        else pbind (dispatch_all E (eb_live B) (pv_fired ev) (tp_granularity plan) now) (\<lambda>outcomes.
          if \<not> is_noteworthy ev prior then preturn (Inr None)
          else record_bundle E (bundle outcomes kv))))))"

definition clock_candle :: "plan_state \<Rightarrow> candle list \<Rightarrow> time \<Rightarrow> candle" where
  "clock_candle prior candles now =
     (if candles = [] then \<lparr>cn_time = or_else (ps_watermark prior) now, cn_o = Fin 0, cn_h = Fin 0,
        cn_l = Fin 0, cn_c = Fin 0\<rparr>
      else List.last candles)"

definition tick_controls_only ::
  "('e, 'b) engine_env \<Rightarrow> 'e intent stored_plan \<Rightarrow> plan_state \<Rightarrow> ('e intent, 'b) engine_broker
    \<Rightarrow> candle list \<Rightarrow> time \<Rightarrow> ('e intent, 'b, string + 'e tick_bundle option) prog" where
  "tick_controls_only E stored prior B candles now =
     (let plan = sp_plan stored; account = sp_account stored; expires_at = plan_state_expires_at now;
          ev = evaluate_controls_only (ee_venue E) plan prior (clock_candle prior candles now) now expires_at;
          bundle = build_tick_bundle (pf_chrono (ee_platform E)) stored prior [] [] ev now expires_at in
      if pv_fired ev = [] then preturn (Inr None)
      else and_then (record_then_advance E stored (pv_fired ev) now
          (persist_plan_state B plan account ev now prior)) (\<lambda>kv.
        if \<not> kv_success kv
        then pbind (tell (ee_record_tick E (bundle [] kv))) (\<lambda>_. preturn (Inl (put_failed_text kv)))
        else if tp_shadow plan then record_bundle E (bundle [] kv)
        else pbind (dispatch_all E (eb_live B) (pv_fired ev) (tp_granularity plan) now) (\<lambda>outcomes.
          record_bundle E (bundle outcomes kv))))"

definition seeded :: "('d, 'b, string + unit) prog \<Rightarrow> ('d, 'b, string + 'x option) prog" where
  "seeded m = and_then m (\<lambda>_. preturn (Inr None))"

definition tick_one ::
  "('e, 'b) engine_env \<Rightarrow> 'e intent stored_plan \<Rightarrow> time \<Rightarrow> ('e intent, 'b, string + 'e tick_bundle option) prog" where
  "tick_one E stored now =
     (let plan = sp_plan stored; account = sp_account stored; expires_at = plan_state_expires_at now in
      and_then (read_plan_state_settled account (tp_trade_id plan)) (\<lambda>found. case found of
        None \<Rightarrow> and_then (bcall (ee_acquire E account)) (\<lambda>B.
          seeded (seed_first_tick (eb_live B) plan account expires_at now))
      | Some prior \<Rightarrow> and_then (bcall (ee_acquire E account)) (\<lambda>B.
          case ps_watermark prior of
            None \<Rightarrow> seeded (seed_first_tick (eb_live B) plan account expires_at now)
          | Some since \<Rightarrow>
              and_then (fetch_candles (eb_live B) (tp_instrument plan) (tp_granularity plan) since now)
                (\<lambda>candles.
              let fresh = filter_new_candles candles since in
              if fresh = [] then tick_controls_only E stored prior B candles now
              else bar_step E stored prior B since fresh now))))"

section \<open>Every plan\<close>

definition tick_plan ::
  "('e, 'b) engine_env \<Rightarrow> time \<Rightarrow> 'e intent stored_plan \<Rightarrow> ('e intent, 'b, unit) prog" where
  "tick_plan E now stored =
     pbind (tick_one E stored now) (\<lambda>r.
     tell (ee_health E (health_observation stored (case r of Inl e \<Rightarrow> Some e | Inr _ \<Rightarrow> None) now)))"

definition run_engine_tick :: "('e, 'b) engine_env \<Rightarrow> time \<Rightarrow> ('e intent, 'b, unit) prog" where
  "run_engine_tick E now =
     pbind (call list_all_trade_plans) (\<lambda>r. case r of
       Inl _ \<Rightarrow> preturn ()
     | Inr plans \<Rightarrow> pfor (\<lambda>stored _. tick_plan E now stored) plans ())"

end
