(* ===== verification/Tick_Facts.thy ===== *)
theory Tick_Facts
  imports Tick_Engine Core_Frame Plan_Batch Upkeep_Facts
begin

text \<open>
  Facts about the engine tick. The entry path and the control handlers leave the plans, their
  states and the archive alone (\<open>registry_kept\<close>), so between two writes of the tick the state of
  a plan does not move; what a tick does to it is \<open>tick_effect\<close>.
\<close>

section \<open>The rows of the registry\<close>

definition registry_row :: "string \<Rightarrow> bool" where
  "registry_row k \<longleftrightarrow> starts_with ''plan:'' k \<or> starts_with ''plan-state:'' k \<or> starts_with ''archived-plan:'' k"

definition registry_kept :: "('d, 'b) world \<Rightarrow> ('d, 'b) world \<Rightarrow> bool" where
  "registry_kept W W' \<longleftrightarrow> (store_inv (w_store W) \<longrightarrow> store_inv (w_store W')) \<and>
     store_now (w_store W') = store_now (w_store W) \<and>
     (store_inv (w_store W) \<longrightarrow>
       (\<forall>k. registry_row k \<longrightarrow> bt_get (ms_inner (w_store W')) k = bt_get (ms_inner (w_store W)) k))"

lemma registry_put:
  "typed_row k b \<Longrightarrow> \<not> registry_row k \<Longrightarrow> registry_kept W (W\<lparr>w_store := snd (put_row k b ttl t (w_store W))\<rparr>)"
  by (auto simp: registry_kept_def put_row_def store_put_inv)
    (auto simp: store_put_def bt.lookup_insert store_invD store_now_def)

lemma registry_clear: "\<not> registry_row k \<Longrightarrow> registry_kept W (W\<lparr>w_store := snd (clear_row k (w_store W))\<rparr>)"
  by (auto simp: registry_kept_def clear_row_def store_delete_inv)
    (auto simp: store_delete_def bt.lookup_remove store_invD store_now_def)

lemma registry_same:
  "(store_inv (w_store W) \<Longrightarrow> store_inv s) \<Longrightarrow> store_now s = store_now (w_store W) \<Longrightarrow>
     ms_inner s = ms_inner (w_store W) \<Longrightarrow> registry_kept W (W\<lparr>w_store := s\<rparr>)"
  by (simp add: registry_kept_def)

lemma attempts_inner [simp]:
  "ms_inner (snd (update_attempt a t p f s)) = ms_inner s" "store_now (snd (update_attempt a t p f s)) = store_now s"
  "ms_inner (snd (record_entry_attempt row s)) = ms_inner s" "store_now (snd (record_entry_attempt row s)) = store_now s"
  "ms_inner (snd (record_position_link pl s)) = ms_inner s" "store_now (snd (record_position_link pl s)) = store_now s"
  by (auto simp: update_attempt_def record_entry_attempt_def record_position_link_def store_now_def Let_def
      split: option.split)

lemma attempt_op_inner [simp]:
  "ms_inner (snd (set_entry_attempt_replacement a t oid oid' stop s)) = ms_inner s"
  "store_now (snd (set_entry_attempt_replacement a t oid oid' stop s)) = store_now s"
  "ms_inner (snd (set_entry_attempt_broker_trade_id a t n bt s)) = ms_inner s"
  "store_now (snd (set_entry_attempt_broker_trade_id a t n bt s)) = store_now s"
  "ms_inner (snd (set_entry_attempt_superseded a t n s)) = ms_inner s"
  "store_now (snd (set_entry_attempt_superseded a t n s)) = store_now s"
  by (simp_all add: attempt_ops)

interpretation registry: entry_relation registry_kept
proof (unfold_locales, goal_cases)
  case 1 then show ?case by (simp add: registry_kept_def)
next
  case 2 then show ?case by (simp add: registry_kept_def)
next
  case 3 then show ?case by (simp add: registry_kept_def)
next
  case 4 then show ?case by (simp add: registry_kept_def)
next
  case 5 show ?case unfolding row_ops
    by (rule registry_put) (simp_all add: typed_row_def key_simps registry_row_def)
next
  case 6 show ?case unfolding row_ops
    by (rule registry_put) (simp_all add: typed_row_def key_simps registry_row_def)
next
  case 7 show ?case unfolding clear_ops by (rule registry_clear) (simp add: key_simps registry_row_def)
next
  case 8 show ?case unfolding row_ops
    by (rule registry_put) (simp_all add: typed_row_def key_simps registry_row_def)
next
  case 9 show ?case unfolding row_ops
    by (rule registry_put) (simp_all add: typed_row_def key_simps registry_row_def)
next
  case 15 show ?case unfolding row_ops
    by (rule registry_put) (simp_all add: typed_row_def key_simps registry_row_def)
next
  case 16 show ?case unfolding row_ops
    by (rule registry_put) (simp_all add: typed_row_def key_simps registry_row_def)
qed (rule registry_same; simp add: link_inv record_attempt_inv attempt_ops update_attempt_inv)+

text \<open>A program that touches other kinds of rows only keeps the registry.\<close>

definition foreign_kinds :: "string list" where
  "foreign_kinds = [''seen:'', ''cooldown:'', ''prep:'', ''prep-blocked:'', ''veto:'', ''pause:'', ''news:'',
     ''control-event:'']"

lemma registry_outside: "registry_row k \<Longrightarrow> set kinds \<subseteq> set foreign_kinds \<Longrightarrow> outside kinds k"
  unfolding outside_def list_all_iff by (auto simp: registry_row_def foreign_kinds_def starts_with_iff)

lemma registry_touches: "touches kinds m \<Longrightarrow> set kinds \<subseteq> set foreign_kinds \<Longrightarrow> keeping registry_kept m"
  unfolding touches_def keeping_def registry_kept_def frame_def using registry_outside by blast

section \<open>The dispatch keeps the registry\<close>

lemma tell_registry [keep_intros]: "keeping registry_kept (tell f)"
  unfolding tell_def by (intro keep_intros)

lemmas handler_registry [keep_intros] =
  registry_touches [OF handler_frames(3)] registry_touches [OF handler_frames(6)]
  registry_touches [OF handler_frames(8)] registry_touches [OF handler_frames(9)]
  registry_touches [OF handler_frames(10)] registry_touches [OF handler_frames(11)]

lemma foreign_call_registry:
  "op_touches foreign_kinds f \<Longrightarrow> keeping registry_kept (call f)"
  by (rule registry_touches [OF touch_call, of foreign_kinds]) simp_all

lemma vetos_registry [keep_intros]: "keeping registry_kept (clear_named_vetos a t ins names)"
  by (rule registry_touches [of foreign_kinds]) (intro touch_intros, simp_all add: foreign_kinds_def)

lemma close_registry [keep_intros]: "keeping registry_kept (run_close R L v)"
proof -
  have "keeping registry_kept (news_gate i)" for i
    unfolding news_gate_def
    by (auto intro!: keep_intros foreign_call_registry touch_reads reads_intros simp: call_or_500_def)
  moreover have "keeping registry_kept (price_gate L v)"
    unfolding price_gate_def Let_def by (intro keep_intros)
  ultimately show ?thesis unfolding run_close_def by (intro keep_intros)
qed

lemma invalidate_registry [keep_intros]: "keeping registry_kept (run_invalidate R L v now)"
proof -
  have "keeping registry_kept (call (set_cooldown a i h now))" for a i h
    by (rule foreign_call_registry) (intro touch_intros, simp add: foreign_kinds_def)
  then show ?thesis unfolding run_invalidate_def Let_def by (intro keep_intros)
qed

lemma veto_registry [keep_intros]: "keeping registry_kept (run_veto_with_broker R L v now)"
  unfolding run_veto_with_broker_def close_at_level_def Let_def by (intro keep_intros)

lemma as_action_registry [keep_intros]: "keeping registry_kept h \<Longrightarrow> keeping registry_kept (as_action t h)"
  unfolding as_action_def by (intro keep_intros)

lemma dispatch_registry [keep_intros]: "keeping registry_kept (dispatch_all E L fired g now)"
proof -
  have h: "keeping registry_kept (dispatch_action E L v g now)" for v
    unfolding dispatch_action_def Let_def
    by (cases "i_action (v_intent v)")
      (simp_all only: action.case, (intro keep_intros handler_registry; simp add: foreign_kinds_def)+)
  have "keeping registry_kept (record_dispatcher_outcome v now r)" for v r
    by (rule registry_touches [of foreign_kinds])
      (cases "seen_decision_of r"; simp add: record_dispatcher_outcome_def; intro touch_intros;
        simp add: foreign_kinds_def)+
  with h have "keeping registry_kept (dispatch_fired E L f g now)" for f
    unfolding dispatch_fired_def Let_def by (intro keep_intros)
  then have "keeping registry_kept ((case x of (seq, f) \<Rightarrow> \<lambda>outcomes.
      pbind (dispatch_fired E L f g now) (\<lambda>outcome. preturn (outcomes @ [q seq f outcome]))) t)" for x t q
    by (cases x) (simp add: keep_intros)
  then show ?thesis unfolding dispatch_all_def by (intro registry.keep_pfor)
qed

section \<open>The state of a plan\<close>

definition state_row :: "'e intent stored_plan \<Rightarrow> 'e intent mem_store \<Rightarrow> plan_state option" where
  "state_row stored s = (case get_live s (plan_state_key (sp_account stored) (tp_trade_id (sp_plan stored))) of
     Some (StateBody p) \<Rightarrow> Some p | _ \<Rightarrow> None)"

lemma state_key_kind [simp]: "registry_row (plan_state_key a t)" "registry_row (plan_key a t)"
  "registry_row (archive_key a t)"
  by (simp_all add: registry_row_def key_simps)

lemma state_row_kept:
  "registry_kept W W' \<Longrightarrow> store_inv (w_store W) \<Longrightarrow> state_row stored (w_store W') = state_row stored (w_store W)"
proof -
  assume "registry_kept W W'" "store_inv (w_store W)"
  then have "get_live (w_store W') k = get_live (w_store W) k" if "registry_row k" for k
    using that unfolding registry_kept_def get_live_def by (simp split: option.split)
  then show ?thesis by (simp add: state_row_def)
qed

lemma state_read:
  assumes "store_inv s"
  shows "get_plan_state (sp_account stored) (tp_trade_id (sp_plan stored)) s = (Inr (state_row stored s), s)"
proof -
  define k where "k = plan_state_key (sp_account stored) (tp_trade_id (sp_plan stored))"
  have "starts_with ''plan-state:'' k" by (simp add: k_def key_simps)
  then have "\<exists>p. b = StateBody p" if "get_live s k = Some b" for b
    using live_row_typed [OF assms that] by (simp add: typed_row_def)
  then show ?thesis
    by (cases "get_live s k") (fastforce simp: get_plan_state_def state_row_def k_def [symmetric])+
qed

lemma other_rows [simp]: "plan_state_key a t \<noteq> plan_key b u" "plan_state_key a t \<noteq> archive_key b u"
  by (simp_all add: key_simps)

lemma state_put:
  assumes "store_inv s"
  shows "state_row stored (snd (put_plan_state (sp_account stored) (tp_trade_id (sp_plan stored)) st s)) = Some st"
    and "store_inv (snd (put_plan_state a t st s))"
  using assms by (simp_all add: state_row_def put_plan_state_def put_row_def get_live_put no_ttl_seconds_def
      seconds_def store_put_inv typed_row_def key_simps)

lemma state_clears:
  assumes "store_inv s"
  shows "state_row stored (snd (clear_plan_state (sp_account stored) (tp_trade_id (sp_plan stored)) s)) = None"
    and "store_inv (snd (clear_plan_state a t s))"
    and "state_row stored (snd (clear_trade_plan a t s)) = state_row stored s"
    and "store_inv (snd (clear_trade_plan a t s))"
    and "state_row stored (snd (archive_plan a p st now x s)) = state_row stored s"
    and "store_inv (snd (archive_plan a p st now x s))"
  using assms by (simp_all add: state_row_def clear_plan_state_def clear_trade_plan_def clear_row_def
      get_live_delete store_delete_inv archive_plan_def put_row_def get_live_put store_put_inv typed_archive)

text \<open>One write, served or not.\<close>

lemma call_stores: "w_store (snd (call f W)) \<in> {w_store W, snd (f (w_store W))}"
  by (auto simp: call_def case_prod_beta split: list.split call_outcome.split)

lemma call_row:
  assumes "store_inv (w_store W)" "store_inv (snd (f (w_store W)))"
  shows "store_inv (w_store (snd (call f W)))"
    and "state_row stored (w_store (snd (call f W))) \<in> {state_row stored (w_store W), state_row stored (snd (f (w_store W)))}"
    and "fst (call f W) = Inr x \<Longrightarrow> w_store (snd (call f W)) = snd (f (w_store W))"
  using call_stores [of f W] assms call_effect [of f W x] by auto

section \<open>Runs in stages\<close>

lemma pbind_cases:
  assumes "pbind m k W = (r, W')"
  obtains x W1 where "m W = (x, W1)" "k x W1 = (r, W')"
  using assms by (cases "m W") simp

lemma and_then_cases:
  assumes "and_then m k W = (r, W')"
  obtains (stopped) e where "m W = (Inl e, W')" "r = Inl e" | (went_on) x W1 where "m W = (Inr x, W1)" "k x W1 = (r, W')"
  using assms by (cases "m W"; cases "fst (m W)") (auto simp: and_then_run)

text \<open>What the tick reads and records moves the broker along \<open>R\<close>.\<close>

definition tick_reads_move :: "('b \<Rightarrow> 'b \<Rightarrow> bool) \<Rightarrow> ('e, 'b) engine_env \<Rightarrow> bool" where
  "tick_reads_move R E \<longleftrightarrow> (\<forall>a. op_moves R (ee_acquire E a)) \<and> (\<forall>x b. R b (ee_record_tick E x b)) \<and>
     (\<forall>x b. R b (ee_note E x b)) \<and> (\<forall>i x. op_moves R (ee_paper_entry E i x)) \<and>
     (\<forall>a b B. fst (ee_acquire E a b) = Inr B \<longrightarrow>
        (\<forall>i g s n. op_moves R (lb_candles (eb_live B) i g s n)) \<and>
        (\<forall>i t os n. op_moves R (eb_settlement B i t os n)))"

definition calm :: "('b \<Rightarrow> 'b \<Rightarrow> bool) \<Rightarrow> ('d, 'b, 'a) prog \<Rightarrow> bool" where
  "calm R m \<longleftrightarrow> keeping registry_kept m \<and> moves R m"

lemma calmI: "keeping registry_kept m \<Longrightarrow> moves R m \<Longrightarrow> calm R m"
  by (simp add: calm_def)

lemma calm_run:
  assumes "calm R m" "m W = (r, W')" "store_inv (w_store W)"
  shows "store_inv (w_store W')" "state_row stored (w_store W') = state_row stored (w_store W)"
    "R (w_broker W) (w_broker W')"
proof -
  have k: "registry_kept W W'" using assms(1,2) keepingD [of registry_kept m W] by (simp add: calm_def)
  then show "store_inv (w_store W')" using assms(3) by (simp add: registry_kept_def)
  show "state_row stored (w_store W') = state_row stored (w_store W)" using k assms(3) by (rule state_row_kept)
  show "R (w_broker W) (w_broker W')" using assms(1,2) moves_def [of R m] by (metis calm_def snd_conv)
qed

section \<open>Reading the bars is calm\<close>

context world_relation
begin

lemma keep_fetch_back: "(\<And>t. keeping R (fetch t)) \<Longrightarrow> keeping R (fetch_back fetch fresh want left since)"
proof (induction left arbitrary: since)
  case 0
  then show ?case unfolding fetch_back.simps by (intro keep_intros)
next
  case (Suc left)
  then show ?case unfolding fetch_back.simps Let_def by (intro keep_intros Suc)
qed

lemma keep_detector_window:
  assumes "\<And>t. keeping R (fetch_candles L (tp_instrument plan) (tp_granularity plan) t now)"
  shows "keeping R (detector_window_for L plan fresh now)"
  unfolding detector_window_for_def fetch_window_def Let_def
  by (intro keep_intros keep_fetch_back assms)

end

text \<open>A relation that the reads of a tick and its records respect.\<close>

definition serves :: "('e, 'b) engine_env \<Rightarrow> ('e intent, 'b) engine_broker \<Rightarrow> bool" where
  "serves E B \<longleftrightarrow> (\<exists>a b. fst (ee_acquire E a b) = Inr B)"

locale tick_relation = world_relation R for R :: "('e intent, 'b) world \<Rightarrow> ('e intent, 'b) world \<Rightarrow> bool" +
  fixes E :: "('e, 'b) engine_env"
  assumes rel_acquire: "keeping R (bcall (ee_acquire E a))"
    and rel_records: "keeping R (tell (ee_record_tick E x))" "keeping R (tell (ee_note E y))"
    and rel_paper: "keeping R (bcall (ee_paper_entry E i y))"
    and rel_feeds: "serves E B \<Longrightarrow> keeping R (bcall (lb_candles (eb_live B) ins g t u))"
      "serves E B \<Longrightarrow> keeping R (bcall (eb_settlement B ins t os u))"
    and rel_reads: "keeping R (call (list_entry_attempts a tid))" "keeping R (call (get_plan_state a tid))"
begin

lemmas tick_keeps [keep_intros] = rel_acquire rel_records rel_paper rel_reads

lemma keep_read_state [keep_intros]: "keeping R (read_plan_state_settled a t)"
  unfolding read_plan_state_settled_def by (intro keep_intros)

lemma keep_fetch [keep_intros]: "serves E B \<Longrightarrow> keeping R (fetch_candles (eb_live B) ins g since now)"
  unfolding fetch_candles_def by (intro keep_intros rel_feeds)

lemma keep_window [keep_intros]: "serves E B \<Longrightarrow> keeping R (detector_window_for (eb_live B) plan fresh now)"
  by (intro keep_detector_window keep_fetch)

lemma keep_settlement [keep_intros]: "serves E B \<Longrightarrow> keeping R (fetch_plan_settlement B plan account now)"
  unfolding fetch_plan_settlement_def by (intro keep_intros rel_feeds)

lemma keep_paper_entries [keep_intros]:
  "keeping R (pfold (\<lambda>f _. pbind (bcall (ee_paper_entry E (entry_identity f) (paper_note (ee_rhai E) stored f now)))
     (\<lambda>r. preturn (case r of Inr _ \<Rightarrow> Inr () | Inl err \<Rightarrow> Inl (text @ err)))) fs ())"
  by (intro keep_intros)

lemmas tick_reads_keep = keep_read_state rel_acquire keep_fetch keep_window keep_settlement keep_paper_entries
  rel_records

end

interpretation registry_tick: tick_relation registry_kept E for E
  by unfold_locales (auto intro: keep_intros foreign_call_registry touch_reads reads_intros)

text \<open>Along the broker only, as a relation between worlds.\<close>

definition broker_rel :: "('b \<Rightarrow> 'b \<Rightarrow> bool) \<Rightarrow> ('d, 'b) world \<Rightarrow> ('d, 'b) world \<Rightarrow> bool" where
  "broker_rel R W W' \<longleftrightarrow> R (w_broker W) (w_broker W')"

lemma moves_keeping: "moves R m \<longleftrightarrow> keeping (broker_rel R) m"
  by (simp add: moves_def keeping_def broker_rel_def)

lemma move_tell: "(\<And>b. R b (f b)) \<Longrightarrow> moves R (tell f)"
  by (simp add: moves_def tell_def bcall_def)

lemma broker_tick: "quasi R \<Longrightarrow> tick_reads_move R E \<Longrightarrow> tick_relation (broker_rel R) E"
  by unfold_locales
    (auto simp: broker_rel_def quasi_refl tick_reads_move_def serves_def moves_keeping [symmetric]
      intro!: move_bcall move_tell move_call intro: quasi_trans)

lemma calm_reads:
  fixes E :: "('e, 'b) engine_env"
  assumes "quasi R" "tick_reads_move R E"
  shows "calm R (read_plan_state_settled a t :: ('e intent, 'b, _) prog)"
    and "calm R (bcall (ee_acquire E acc) :: ('e intent, 'b, _) prog)"
    and "serves E B \<Longrightarrow> calm R (fetch_candles (eb_live B) ins g since now)"
    and "serves E B \<Longrightarrow> calm R (detector_window_for (eb_live B) plan fresh now)"
    and "serves E B \<Longrightarrow> calm R (fetch_plan_settlement B plan acc now)"
    and "calm R (pfold (\<lambda>f _. pbind (bcall (ee_paper_entry E (entry_identity f) (paper_note (ee_rhai E) stored f now)))
       (\<lambda>r. preturn (case r of Inr _ \<Rightarrow> Inr () | Inl err \<Rightarrow> Inl (text @ err)))) fs () :: ('e intent, 'b, _) prog)"
    and "calm R (tell (ee_record_tick E x) :: ('e intent, 'b, _) prog)"
    and "calm R (tell (ee_note E y) :: ('e intent, 'b, _) prog)"
  unfolding calm_def moves_keeping
  by (rule conjI; rule registry_tick.tick_reads_keep tick_relation.tick_reads_keep [OF broker_tick [OF assms]];
      assumption?)+

end
