(* ===== verification/Tick_Life.thy ===== *)
theory Tick_Life
  imports Tick_Facts
begin

text \<open>
  What one tick of a plan does: nothing, a seeding, an evaluation that is stored, or one that is
  stored and then dispatched (\<open>tick_effect\<close>). From this the life of a plan under the cron
  (\<open>cron_life\<close>): ticks at any instants, with anything in between that leaves the plan's state
  alone, until a tick finishes the plan. An invariant of such lives need only respect the seeding
  and the evaluations.
\<close>

section \<open>Effects\<close>

definition bundle_of :: "string + 'e tick_bundle option \<Rightarrow> 'e tick_bundle option" where
  "bundle_of r = (case r of Inr (Some b) \<Rightarrow> Some b | _ \<Rightarrow> None)"

lemma bundle_of_simps [simp]:
  "bundle_of (Inl e) = None" "bundle_of (Inr None) = None" "bundle_of (Inr (Some b)) = Some b"
  by (simp_all add: bundle_of_def)

text \<open>The evaluation of the bars after the watermark, or of the clock when there are none.\<close>

definition evaluates ::
  "('e, 'b) engine_env \<Rightarrow> 'e intent stored_plan \<Rightarrow> plan_state \<Rightarrow> candle list \<Rightarrow> time \<Rightarrow> 'e plan_eval \<Rightarrow> bool" where
  "evaluates E stored prior fresh now ev \<longleftrightarrow>
     (\<exists>since. ps_watermark prior = Some since \<and>
       (fresh \<noteq> [] \<and> (\<exists>candles window. fresh = filter_new_candles candles since \<and>
          ev = evaluate_plan (ee_venue E) (ee_rhai E) (sp_plan stored) prior fresh window now (plan_state_expires_at now)) \<or>
        fresh = [] \<and> (\<exists>c. ev = evaluate_controls_only (ee_venue E) (sp_plan stored) prior c now (plan_state_expires_at now))))"

definition reports ::
  "'e intent stored_plan \<Rightarrow> plan_state \<Rightarrow> candle list \<Rightarrow> 'e plan_eval \<Rightarrow> dispatch_outcome list \<Rightarrow> 'e tick_bundle \<Rightarrow> bool" where
  "reports stored prior fresh ev outcomes b \<longleftrightarrow>
     tb_plan b = sp_plan stored \<and> tb_prior b = prior \<and> tb_new_candles b = fresh \<and> tb_eval b = ev \<and>
     tb_outcomes b = outcomes"

inductive tick_effect ::
  "('b \<Rightarrow> 'b \<Rightarrow> bool) \<Rightarrow> ('e, 'b) engine_env \<Rightarrow> 'e intent stored_plan \<Rightarrow> time \<Rightarrow> ('e intent, 'b) world
    \<Rightarrow> string + 'e tick_bundle option \<Rightarrow> ('e intent, 'b) world \<Rightarrow> bool"
  for R E stored now W r W'
where
  idle: "bundle_of r = None \<Longrightarrow> state_row stored (w_store W') = state_row stored (w_store W) \<Longrightarrow>
    R (w_broker W) (w_broker W') \<Longrightarrow> tick_effect R E stored now W r W'"
| seeding: "bundle_of r = None \<Longrightarrow>
    state_row stored (w_store W) = None \<or> (\<exists>p. state_row stored (w_store W) = Some p \<and> ps_watermark p = None) \<Longrightarrow>
    state_row stored (w_store W') = Some (seed_plan_state (sp_plan stored) cs (plan_state_expires_at now)) \<Longrightarrow>
    R (w_broker W) (w_broker W') \<Longrightarrow> tick_effect R E stored now W r W'"
| stored: "state_row stored (w_store W) = Some prior \<Longrightarrow> evaluates E stored prior fresh now ev \<Longrightarrow>
    pv_done ev \<and> bundle_of r \<noteq> None \<or> state_row stored (w_store W') = Some (pv_new_state ev) \<and> \<not> pv_done ev \<Longrightarrow>
    (\<And>b. bundle_of r = Some b \<Longrightarrow> reports stored prior fresh ev [] b) \<Longrightarrow>
    R (w_broker W) (w_broker W') \<Longrightarrow> tick_effect R E stored now W r W'"
| dispatched: "state_row stored (w_store W) = Some prior \<Longrightarrow> evaluates E stored prior fresh now ev \<Longrightarrow>
    R (w_broker W) (w_broker W1) \<Longrightarrow>
    pv_done ev \<or> state_row stored (w_store W1) = Some (pv_new_state ev) \<Longrightarrow> \<not> tp_shadow (sp_plan stored) \<Longrightarrow>
    serves E B \<Longrightarrow>
    dispatch_all E (eb_live B) (pv_fired ev) (tp_granularity (sp_plan stored)) now W1 = (outcomes, W2) \<Longrightarrow>
    R (w_broker W2) (w_broker W') \<Longrightarrow>
    state_row stored (w_store W') = state_row stored (w_store W1) \<Longrightarrow>
    bundle_of r = Some b \<Longrightarrow> reports stored prior fresh ev outcomes b \<Longrightarrow> tick_effect R E stored now W r W'"

section \<open>Stages\<close>

lemma read_settled_value:
  assumes "store_inv (w_store W)"
    and "read_plan_state_settled (sp_account stored) (tp_trade_id (sp_plan stored)) W = (Inr x, W1)"
  shows "x = state_row stored (w_store W)"
proof -
  define g where "g = (get_plan_state (sp_account stored) (tp_trade_id (sp_plan stored)) :: ('a intent, _) store_op)"
  have r: "reads g" by (simp add: g_def reads_intros)
  have v: "y = state_row stored (w_store V)" if "fst (call g V) = Inr y" "store_inv (w_store V)" for y V
    using call_read [OF r that(1)] state_read [OF that(2), of stored] by (simp add: g_def)
  have s: "w_store (snd (call g V)) = w_store V" for V by (rule call_reads [OF r])
  show ?thesis
    using assms(2) v [of W] v [of "snd (call g W)"] assms(1)
    by (auto simp: read_plan_state_settled_def named_error_def g_def [symmetric] s split: sum.splits option.splits)
qed

text \<open>A stretch of the tick over which the plan's state rests.\<close>

definition rests ::
  "('b \<Rightarrow> 'b \<Rightarrow> bool) \<Rightarrow> 'e intent stored_plan \<Rightarrow> ('e intent, 'b) world \<Rightarrow> ('e intent, 'b) world \<Rightarrow> bool" where
  "rests R stored W W' \<longleftrightarrow> store_inv (w_store W') \<and>
     state_row stored (w_store W') = state_row stored (w_store W) \<and> R (w_broker W) (w_broker W')"

lemma calm_rests: "calm R m \<Longrightarrow> m W = (r, W') \<Longrightarrow> store_inv (w_store W) \<Longrightarrow> rests R stored W W'"
  by (simp add: rests_def calm_run)

lemma rests_trans: "quasi R \<Longrightarrow> rests R stored W W1 \<Longrightarrow> rests R stored W1 W2 \<Longrightarrow> rests R stored W W2"
  by (auto simp: rests_def intro: quasi_trans)

lemma rests_inv: "rests R stored W W' \<Longrightarrow> store_inv (w_store W')"
  by (simp add: rests_def)

lemma advance_cases:
  fixes E :: "('e, 'b) engine_env"
  assumes q: "quasi R" "tick_reads_move R E" and inv: "store_inv (w_store W)"
    and run: "record_then_advance E stored fired now advance W = (res, W')"
  obtains (journal) e where "res = Inl e" "rests R stored W W'"
  | (advance) x W1 where "res = Inr x" "rests R stored W W1" "advance W1 = (x, W')"
  using run unfolding record_then_advance_def
proof (cases rule: and_then_cases)
  case (stopped e)
  then show ?thesis using journal calm_rests [OF calm_reads(6) [OF q] stopped(1) inv] by blast
next
  case (went_on u W1)
  note r = calm_rests [OF calm_reads(6) [OF q] went_on(1) inv, of stored]
  obtain y V where a: "advance W1 = (y, V)" by (cases "advance W1")
  show ?thesis using went_on(2) a by (intro advance [OF _ r, of y]) simp_all
qed

text \<open>Storing: what the transition says happened.\<close>

lemma persist_rows:
  fixes E :: "('e, 'b) engine_env"
  assumes q: "quasi R" "tick_reads_move R E" "serves E B" and inv: "store_inv (w_store W)"
    and run: "persist_plan_state B (sp_plan stored) (sp_account stored) ev now prior W = (kv, W')"
  shows "store_inv (w_store W') \<and> R (w_broker W) (w_broker W') \<and>
    (if pv_done ev then kv_success kv
     else if kv_success kv then state_row stored (w_store W') = Some (pv_new_state ev)
     else state_row stored (w_store W') \<in> {state_row stored (w_store W), Some (pv_new_state ev)})"
proof (cases "pv_done ev")
  case True
  obtain settled W1 where W1: "fetch_plan_settlement B (sp_plan stored) (sp_account stored) now W = (settled, W1)"
    by fastforce
  note r = calm_rests [OF calm_reads(5) [OF q] W1 inv, of stored]
  have c: "store_inv (w_store (snd (call f V)))"
    if "store_inv (w_store V)" "\<And>s. store_inv s \<Longrightarrow> store_inv (snd (f s))"
    for f :: "('e intent, unit) store_op" and V :: "('e intent, 'b) world"
    using call_row(1) [of V f] that by blast
  show ?thesis using run r True
    by (auto simp: persist_plan_state_def W1 transition_of_def rests_def intro!: c state_clears(2,4,6))
next
  case False
  define f where "f = (put_plan_state (sp_account stored) (tp_trade_id (sp_plan stored)) (pv_new_state ev)
    :: ('e intent, unit) store_op)"
  have "W' = snd (call f W)" "kv_success kv \<longleftrightarrow> (\<exists>u. fst (call f W) = Inr u)"
    using run False by (auto simp: persist_plan_state_def f_def transition_of_def split: sum.splits)
  moreover have "store_inv (w_store (snd (call f W)))" "state_row stored (w_store (snd (call f W)))
      \<in> {state_row stored (w_store W), Some (pv_new_state ev)}"
    using call_row(1,2) [of W f] inv state_put(2) [OF inv] state_put(1) [OF inv, of stored "pv_new_state ev"]
    unfolding f_def by metis+
  moreover have "state_row stored (w_store (snd (call f W))) = Some (pv_new_state ev)" if "fst (call f W) = Inr u" for u
    using call_effect [OF that] state_put(1) [OF inv, of stored "pv_new_state ev"] by (simp add: f_def)
  ultimately show ?thesis using False quasi_refl [OF q(1)] by auto
qed

text \<open>The end of a tick whose evaluation is stored.\<close>

lemma tell_rests:
  fixes E :: "('e, 'b) engine_env" and W :: "('e intent, 'b) world"
  assumes "quasi R" "tick_reads_move R E" "store_inv (w_store W)"
  shows "rests R stored W (snd (tell (ee_record_tick E b) W))" "rests R stored W (snd (tell (ee_note E n) W))"
  using calm_rests [OF calm_reads(7) [OF assms(1,2)] prod.collapse [symmetric] assms(3)]
    calm_rests [OF calm_reads(8) [OF assms(1,2)] prod.collapse [symmetric] assms(3)] by blast+

lemma note_rests:
  fixes E :: "('e, 'b) engine_env" and W :: "('e intent, 'b) world"
  assumes "quasi R" "tick_reads_move R E" "store_inv (w_store W)"
  shows "rests R stored W (snd ((case n of Some note \<Rightarrow> tell (ee_note E note) | None \<Rightarrow> preturn ()) W))"
  using tell_rests(2) [OF assms] assms(3) quasi_refl [OF assms(1)]
  by (cases n) (simp_all add: rests_def)

lemma record_bundle_run:
  "record_bundle E b W = (r, W') \<Longrightarrow> r = Inr (Some b) \<and> W' = snd (tell (ee_record_tick E b) W)"
  by (auto simp: record_bundle_def)

lemma dispatch_stored:
  fixes E :: "('e, 'b) engine_env"
  assumes q: "quasi R" "tick_reads_move R E" "serves E B" and inv: "store_inv (w_store W1)"
    and at: "R (w_broker W) (w_broker W1)" "state_row stored (w_store W) = Some prior"
      "evaluates E stored prior fresh now ev" "\<not> tp_shadow (sp_plan stored)"
      "pv_done ev \<or> state_row stored (w_store W1) = Some (pv_new_state ev)"
    and run: "dispatch_all E (eb_live B) (pv_fired ev) (tp_granularity (sp_plan stored)) now W1 = (outcomes, W2)"
      "record_bundle E b W2 = (r, W')" "reports stored prior fresh ev outcomes b"
  shows "store_inv (w_store W') \<and> tick_effect R E stored now W r W'"
proof -
  have k: "registry_kept W1 W2"
    using keepingD [OF dispatch_registry [of E "eb_live B" "pv_fired ev" "tp_granularity (sp_plan stored)" now], of W1] run(1) by simp
  then have W2: "store_inv (w_store W2)" "state_row stored (w_store W2) = state_row stored (w_store W1)"
    using inv state_row_kept [OF k inv] by (simp_all add: registry_kept_def)
  note r = record_bundle_run [OF run(2)]
  have t: "rests R stored W2 W'" using tell_rests(1) [OF q(1,2) W2(1)] r by blast
  have "tick_effect R E stored now W r W'"
    by (rule tick_effect.dispatched [where prior = prior and fresh = fresh and ev = ev and ?W1.0 = W1 and B = B
          and outcomes = outcomes and ?W2.0 = W2 and b = b])
      (use t W2 r run(1,3) at q(3) in \<open>auto simp: rests_def\<close>)
  then show ?thesis using t by (simp add: rests_def)
qed

text \<open>Where a tick stands once it has stored an evaluation.\<close>

definition stored_at ::
  "('b \<Rightarrow> 'b \<Rightarrow> bool) \<Rightarrow> 'e intent stored_plan \<Rightarrow> 'e plan_eval \<Rightarrow> ('e intent, 'b) world \<Rightarrow> ('e intent, 'b) world \<Rightarrow> bool" where
  "stored_at R stored ev W W' \<longleftrightarrow> store_inv (w_store W') \<and> R (w_broker W) (w_broker W') \<and>
     (pv_done ev \<or> state_row stored (w_store W') = Some (pv_new_state ev))"

lemma stored_rests: "quasi R \<Longrightarrow> stored_at R stored ev W W1 \<Longrightarrow> rests R stored W1 W2 \<Longrightarrow> stored_at R stored ev W W2"
  by (auto simp: stored_at_def rests_def intro: quasi_trans)

lemma advanced_cases:
  fixes E :: "('e, 'b) engine_env"
  assumes q: "quasi R" "tick_reads_move R E" "serves E B" and inv: "store_inv (w_store W)"
    and run: "record_then_advance E stored fired now
      (persist_plan_state B (sp_plan stored) (sp_account stored) ev now prior) W = (res, W')"
  obtains (journal) e where "res = Inl e" "rests R stored W W'"
  | (failed) kv where "res = Inr kv" "\<not> kv_success kv" "\<not> pv_done ev" "store_inv (w_store W')"
      "R (w_broker W) (w_broker W')"
      "state_row stored (w_store W') \<in> {state_row stored (w_store W), Some (pv_new_state ev)}"
  | (stored) kv where "res = Inr kv" "kv_success kv" "stored_at R stored ev W W'"
proof (cases rule: advance_cases [OF q(1,2) inv run, case_names journal advance])
  case (advance kv W1)
  note p = persist_rows [OF q rests_inv [OF advance(2)] advance(3)]
  have "R (w_broker W) (w_broker W')" using p advance(2) quasi_trans [OF q(1)] unfolding rests_def by blast
  then show ?thesis
    using p advance(1,2) failed [of kv] stored [of kv] unfolding rests_def stored_at_def
    by (cases "pv_done ev"; cases "kv_success kv") auto
qed (use journal in blast)

lemma effect_failed:
  fixes E :: "('e, 'b) engine_env"
  assumes q: "quasi R" "tick_reads_move R E"
    and at: "state_row stored (w_store W) = Some prior" "evaluates E stored prior fresh now ev" "\<not> pv_done ev"
    and W1: "store_inv (w_store W1)" "R (w_broker W) (w_broker W1)"
      "state_row stored (w_store W1) \<in> {state_row stored (w_store W), Some (pv_new_state ev)}"
    and r: "rests R stored W1 W'" "bundle_of r = None"
  shows "store_inv (w_store W') \<and> tick_effect R E stored now W r W'"
proof -
  have m: "store_inv (w_store W')" "R (w_broker W) (w_broker W')"
    "state_row stored (w_store W') = state_row stored (w_store W) \<or> state_row stored (w_store W') = Some (pv_new_state ev)"
    using W1 r(1) quasi_trans [OF q(1)] by (auto simp: rests_def)
  have "tick_effect R E stored now W r W'"
    using m(3)
  proof
    assume "state_row stored (w_store W') = Some (pv_new_state ev)"
    then show ?thesis using m at r(2) by (intro tick_effect.stored [OF at(1,2)]) simp_all
  qed (use m r(2) in \<open>blast intro: tick_effect.idle\<close>)
  then show ?thesis using m(1) by blast
qed

lemma effect_stored:
  assumes at: "state_row stored (w_store W) = Some prior" "evaluates E stored prior fresh now ev"
    and W': "stored_at R stored ev W W'"
    and r: "pv_done ev \<longrightarrow> bundle_of r \<noteq> None" "\<And>b. bundle_of r = Some b \<Longrightarrow> reports stored prior fresh ev [] b"
  shows "store_inv (w_store W') \<and> tick_effect R E stored now W r W'"
  using W' r unfolding stored_at_def
  by (cases "pv_done ev") (auto intro!: tick_effect.stored [OF at])

section \<open>A whole tick\<close>

lemma effect_idle:
  "rests R stored W W' \<Longrightarrow> bundle_of r = None \<Longrightarrow> store_inv (w_store W') \<and> tick_effect R E stored now W r W'"
  by (auto simp: rests_def intro: tick_effect.idle)

lemma quiet_dispatch: "dispatch_all E L [] g now W = ([], W)"
  by (simp add: dispatch_all_def)

lemma quiet_evaluation: "\<not> is_noteworthy ev prior \<Longrightarrow> pv_fired ev = [] \<and> \<not> pv_done ev"
  by (simp add: is_noteworthy_def)

lemma reports_bundle [simp]:
  "reports stored prior fresh ev os (build_tick_bundle C stored prior fresh window ev now e os kv)"
  by (simp add: reports_def build_tick_bundle_def)

text \<open>A tick that only records what it stored.\<close>

lemma effect_recorded:
  fixes E :: "('e, 'b) engine_env"
  assumes q: "quasi R" "tick_reads_move R E"
    and at: "state_row stored (w_store W) = Some prior" "evaluates E stored prior fresh now ev"
    and W1: "stored_at R stored ev W W1" and run: "record_bundle E b W1 = (r, W')" "reports stored prior fresh ev [] b"
  shows "store_inv (w_store W') \<and> tick_effect R E stored now W r W'"
proof -
  have i: "store_inv (w_store W1)" using W1 by (simp add: stored_at_def)
  show ?thesis
    by (rule effect_stored [OF at stored_rests [OF q(1) W1]])
      (use record_bundle_run [OF run(1)] tell_rests(1) [OF q i, of stored b] run(2) in auto)
qed

lemma effect_dispatched:
  fixes E :: "('e, 'b) engine_env"
  assumes q: "quasi R" "tick_reads_move R E" "serves E B"
    and at: "state_row stored (w_store W) = Some prior" "evaluates E stored prior fresh now ev"
      "\<not> tp_shadow (sp_plan stored)"
    and W1: "stored_at R stored ev W W1"
    and run: "pbind (dispatch_all E (eb_live B) (pv_fired ev) (tp_granularity (sp_plan stored)) now)
      (\<lambda>outcomes. record_bundle E (bundle outcomes)) W1 = (r, W')" "\<And>os. reports stored prior fresh ev os (bundle os)"
  shows "store_inv (w_store W') \<and> tick_effect R E stored now W r W'"
proof -
  obtain os W2 where d: "dispatch_all E (eb_live B) (pv_fired ev) (tp_granularity (sp_plan stored)) now W1 = (os, W2)"
    "record_bundle E (bundle os) W2 = (r, W')" using run(1) by (rule pbind_cases)
  show ?thesis using W1 unfolding stored_at_def
    by (intro dispatch_stored [OF q _ _ at _ d run(2)]) auto
qed

text \<open>A tick of bars leaves nothing when nothing is worth noting.\<close>

lemma effect_noted:
  fixes E :: "('e, 'b) engine_env"
  assumes q: "quasi R" "tick_reads_move R E" "serves E B"
    and at: "state_row stored (w_store W) = Some prior" "evaluates E stored prior fresh now ev"
    and W1: "stored_at R stored ev W W1" and b: "\<And>os. reports stored prior fresh ev os (bundle os)"
    and run: "(if tp_shadow (sp_plan stored)
       then if \<not> is_noteworthy ev prior then preturn (Inr None) else record_bundle E (bundle [])
       else pbind (dispatch_all E (eb_live B) (pv_fired ev) (tp_granularity (sp_plan stored)) now) (\<lambda>os.
         if \<not> is_noteworthy ev prior then preturn (Inr None) else record_bundle E (bundle os))) W1 = (r, W')"
  shows "store_inv (w_store W') \<and> tick_effect R E stored now W r W'"
proof (cases "is_noteworthy ev prior")
  case True
  then show ?thesis
    using run effect_recorded [OF q(1,2) at W1 _ b] effect_dispatched [OF q at _ W1 _ b]
    by (cases "tp_shadow (sp_plan stored)") auto
next
  case False
  then have "r = Inr None" "W' = W1"
    using run quiet_evaluation [OF False] by (auto simp: quiet_dispatch split: if_splits)
  then show ?thesis using effect_stored [OF at W1, of r] quiet_evaluation [OF False] by simp
qed

text \<open>The journal, the store, then the rest of the tick.\<close>

lemma effect_advance:
  fixes E :: "('e, 'b) engine_env"
  assumes q: "quasi R" "tick_reads_move R E" "serves E B" and r1: "rests R stored W W1"
    and at: "state_row stored (w_store W) = Some prior" "evaluates E stored prior fresh now ev"
    and run: "and_then (record_then_advance E stored fired now
      (persist_plan_state B (sp_plan stored) (sp_account stored) ev now prior)) rest W1 = (r, W')"
    and failed: "\<And>kv W2. \<not> kv_success kv \<Longrightarrow> \<not> pv_done ev \<Longrightarrow> store_inv (w_store W2) \<Longrightarrow> rest kv W2 = (r, W') \<Longrightarrow>
      rests R stored W2 W' \<and> bundle_of r = None"
    and stored: "\<And>kv W2. kv_success kv \<Longrightarrow> stored_at R stored ev W W2 \<Longrightarrow> rest kv W2 = (r, W') \<Longrightarrow>
      store_inv (w_store W') \<and> tick_effect R E stored now W r W'"
  shows "store_inv (w_store W') \<and> tick_effect R E stored now W r W'"
proof -
  have since: "R (w_broker W) (w_broker V)" if "R (w_broker W1) (w_broker V)" for V :: "('e intent, 'b) world"
    using r1 that quasi_trans [OF q(1)] unfolding rests_def by blast
  show ?thesis using run
  proof (cases rule: and_then_cases [case_names stopped put])
    case (stopped e)
    from stopped(1) have "rests R stored W1 W'"
      by (cases rule: advanced_cases [OF q rests_inv [OF r1] stopped(1), case_names journal failed stored]) auto
    then show ?thesis using rests_trans [OF q(1) r1] stopped(2) by (intro effect_idle) auto
  next
    case (put kv W2)
    show ?thesis
    proof (cases rule: advanced_cases [OF q rests_inv [OF r1] put(1), case_names journal failed stored])
      case f: (failed kv')
      then show ?thesis using failed [OF _ f(3,4) put(2)] r1 since
        by (intro effect_failed [OF q(1,2) at f(3,4)]) (auto simp: rests_def)
    next
      case s: (stored kv')
      have "stored_at R stored ev W W2" using s(3) since by (auto simp: stored_at_def)
      then show ?thesis using stored [OF _ _ put(2)] s(1,2) by simp
    qed auto
  qed
qed

lemma bar_step_effect:
  fixes E :: "('e, 'b) engine_env"
  assumes q: "quasi R" "tick_reads_move R E" "serves E B" and r0: "rests R stored W W0"
    and at: "state_row stored (w_store W) = Some prior" "ps_watermark prior = Some since"
      "fresh = filter_new_candles candles since" "fresh \<noteq> []"
    and run: "bar_step E stored prior B since fresh now W0 = (r, W')"
  shows "store_inv (w_store W') \<and> tick_effect R E stored now W r W'"
  using run unfolding bar_step_def Let_def
proof (cases rule: and_then_cases [case_names stopped window])
  case (stopped e)
  note r1 = calm_rests [OF calm_reads(4) [OF q] stopped(1) rests_inv [OF r0], of stored]
  show ?thesis using stopped(2) by (intro effect_idle [OF rests_trans [OF q(1) r0 r1]]) simp
next
  case (window w W1)
  note r1 = rests_trans [OF q(1) r0 calm_rests [OF calm_reads(4) [OF q] window(1) rests_inv [OF r0]]]
  define ev where "ev = evaluate_plan (ee_venue E) (ee_rhai E) (sp_plan stored) prior fresh w now (plan_state_expires_at now)"
  have ev: "evaluates E stored prior fresh now ev" unfolding evaluates_def ev_def using at(2-4) by blast
  show ?thesis using window(2) unfolding ev_def [symmetric]
  proof (elim effect_advance [OF q r1 at(1) ev], goal_cases)
    case k: (1 kv W2)
    then show ?case using tell_rests(1) [OF q(1,2) k(3)] by auto
  next
    case k: (2 kv W2)
    obtain u W3 where n: "(case catchup_observation stored since fresh (ps_watermark (pv_new_state ev)) now of
        Some note \<Rightarrow> tell (ee_note E note) | None \<Rightarrow> preturn ()) W2 = (u, W3)"
      by (metis surj_pair)
    have "rests R stored W2 W3"
      using note_rests [OF q(1,2), of W2 stored "catchup_observation stored since fresh (ps_watermark (pv_new_state ev)) now"]
        k(2) n by (simp add: stored_at_def)
    then have W3: "stored_at R stored ev W W3" by (rule stored_rests [OF q(1) k(2)])
    with k n show ?case
      by (intro effect_noted [OF q at(1) ev W3 reports_bundle]) simp
  qed
qed

lemma controls_effect:
  fixes E :: "('e, 'b) engine_env"
  assumes q: "quasi R" "tick_reads_move R E" "serves E B" and r0: "rests R stored W W0"
    and at: "state_row stored (w_store W) = Some prior" "ps_watermark prior = Some since"
    and run: "tick_controls_only E stored prior B candles now W0 = (r, W')"
  shows "store_inv (w_store W') \<and> tick_effect R E stored now W r W'"
proof -
  define ev where "ev = evaluate_controls_only (ee_venue E) (sp_plan stored) prior (clock_candle prior candles now) now
    (plan_state_expires_at now)"
  have ev: "evaluates E stored prior [] now ev" unfolding evaluates_def ev_def using at(2) by blast
  show ?thesis
  proof (cases "pv_fired ev = []")
    case True
    then show ?thesis using run r0 by (auto simp: tick_controls_only_def ev_def [symmetric] intro!: effect_idle)
  next
    case False
    have "and_then (record_then_advance E stored (pv_fired ev) now
        (persist_plan_state B (sp_plan stored) (sp_account stored) ev now prior)) (\<lambda>kv.
        let bundle = build_tick_bundle (pf_chrono (ee_platform E)) stored prior [] [] ev now (plan_state_expires_at now) in
        if \<not> kv_success kv
        then pbind (tell (ee_record_tick E (bundle [] kv))) (\<lambda>_. preturn (Inl (put_failed_text kv)))
        else if tp_shadow (sp_plan stored) then record_bundle E (bundle [] kv)
        else pbind (dispatch_all E (eb_live B) (pv_fired ev) (tp_granularity (sp_plan stored)) now) (\<lambda>outcomes.
          record_bundle E (bundle outcomes kv))) W0 = (r, W')"
      using run False by (simp only: tick_controls_only_def Let_def ev_def [symmetric] if_False)
    then show ?thesis unfolding Let_def
    proof (elim effect_advance [OF q r0 at(1) ev], goal_cases)
      case k: (1 kv W2)
      then show ?case using tell_rests(1) [OF q(1,2) k(3)] by auto
    next
      case k: (2 kv W2)
      then show ?case
        using effect_recorded [OF q(1,2) at(1) ev k(2) _ reports_bundle]
          effect_dispatched [OF q at(1) ev _ k(2) _ reports_bundle]
        by (cases "tp_shadow (sp_plan stored)") auto
    qed
  qed
qed

text \<open>A first tick, or one whose seed is lost.\<close>

lemma seed_run:
  fixes E :: "('e, 'b) engine_env"
  assumes q: "quasi R" "tick_reads_move R E" "serves E B" and r0: "rests R stored W W0"
    and run: "seed_first_tick (eb_live B) (sp_plan stored) (sp_account stored) e now W0 = (x, W')"
  shows "rests R stored W W' \<or> store_inv (w_store W') \<and> R (w_broker W) (w_broker W') \<and>
    (\<exists>cs. state_row stored (w_store W') = Some (seed_plan_state (sp_plan stored) cs e))"
  using run unfolding seed_first_tick_def
proof (cases rule: and_then_cases [case_names stopped fetched])
  case (stopped f)
  then show ?thesis using rests_trans [OF q(1) r0 calm_rests [OF calm_reads(3) [OF q] _ rests_inv [OF r0]]] by blast
next
  case (fetched cs W1)
  note r1 = rests_trans [OF q(1) r0 calm_rests [OF calm_reads(3) [OF q] fetched(1) rests_inv [OF r0]]]
  define f where "f = (put_plan_state (sp_account stored) (tp_trade_id (sp_plan stored))
    (seed_plan_state (sp_plan stored) cs e) :: ('e intent, unit) store_op)"
  have W': "W' = snd (call f W1)" using fetched(2) by (simp add: f_def)
  have i: "store_inv (w_store W1)" by (rule rests_inv [OF r1])
  have "store_inv (w_store W')" "w_broker W' = w_broker W1"
    "state_row stored (w_store W') \<in> {state_row stored (w_store W1), Some (seed_plan_state (sp_plan stored) cs e)}"
    using call_row(1,2) [of W1 f] i state_put(2) [OF i] state_put(1) [OF i, of stored]
    unfolding W' f_def by (simp, simp, metis)
  then show ?thesis using r1 by (auto simp: rests_def)
qed

lemma seed_effect:
  fixes E :: "('e, 'b) engine_env"
  assumes q: "quasi R" "tick_reads_move R E" "serves E B" and r0: "rests R stored W W0"
    and at: "state_row stored (w_store W) = None \<or> (\<exists>p. state_row stored (w_store W) = Some p \<and> ps_watermark p = None)"
    and run: "seeded (seed_first_tick (eb_live B) (sp_plan stored) (sp_account stored) (plan_state_expires_at now) now) W0
      = (r, W')"
  shows "store_inv (w_store W') \<and> tick_effect R E stored now W r W'"
proof -
  obtain x where "seed_first_tick (eb_live B) (sp_plan stored) (sp_account stored) (plan_state_expires_at now) now W0
      = (x, W')" and r: "bundle_of r = None"
    using run unfolding seeded_def by (cases rule: and_then_cases) auto
  from seed_run [OF q r0 this(1)] show ?thesis
  proof
    assume "rests R stored W W'"
    then show ?thesis using r by (rule effect_idle)
  next
    assume "store_inv (w_store W') \<and> R (w_broker W) (w_broker W') \<and>
      (\<exists>cs. state_row stored (w_store W') = Some (seed_plan_state (sp_plan stored) cs (plan_state_expires_at now)))"
    then show ?thesis using tick_effect.seeding [OF r at] by blast
  qed
qed

lemma acquired_effect:
  fixes E :: "('e, 'b) engine_env"
  assumes q: "quasi R" "tick_reads_move R E" and r1: "rests R stored W W1"
    and run: "and_then (bcall (ee_acquire E a)) k W1 = (r, W')"
    and served: "\<And>B W2. serves E B \<Longrightarrow> rests R stored W W2 \<Longrightarrow> k B W2 = (r, W') \<Longrightarrow>
      store_inv (w_store W') \<and> tick_effect R E stored now W r W'"
  shows "store_inv (w_store W') \<and> tick_effect R E stored now W r W'"
  using run
proof (cases rule: and_then_cases [case_names stopped acquired])
  case (stopped e)
  show ?thesis using stopped(2)
    by (intro effect_idle [OF rests_trans [OF q(1) r1 calm_rests [OF calm_reads(2) [OF q] stopped(1) rests_inv [OF r1]]]]) simp
next
  case (acquired B W2)
  have "serves E B" using acquired(1) by (auto simp: serves_def bcall_def case_prod_beta)
  then show ?thesis using acquired(2)
      rests_trans [OF q(1) r1 calm_rests [OF calm_reads(2) [OF q] acquired(1) rests_inv [OF r1]]]
    by (intro served)
qed

lemma bars_effect:
  fixes E :: "('e, 'b) engine_env"
  assumes q: "quasi R" "tick_reads_move R E" "serves E B" and r0: "rests R stored W W0"
    and at: "state_row stored (w_store W) = Some prior" "ps_watermark prior = Some since"
    and run: "and_then (fetch_candles (eb_live B) (tp_instrument (sp_plan stored)) (tp_granularity (sp_plan stored)) since now)
      (\<lambda>candles. if filter_new_candles candles since = [] then tick_controls_only E stored prior B candles now
        else bar_step E stored prior B since (filter_new_candles candles since) now) W0 = (r, W')"
  shows "store_inv (w_store W') \<and> tick_effect R E stored now W r W'"
  using run
proof (cases rule: and_then_cases [case_names stopped fetched])
  case (stopped e)
  show ?thesis using stopped(2)
    by (intro effect_idle [OF rests_trans [OF q(1) r0 calm_rests [OF calm_reads(3) [OF q] stopped(1) rests_inv [OF r0]]]]) simp
next
  case (fetched candles W1)
  note r1 = rests_trans [OF q(1) r0 calm_rests [OF calm_reads(3) [OF q] fetched(1) rests_inv [OF r0]]]
  show ?thesis
    using fetched(2) controls_effect [OF q r1 at] bar_step_effect [OF q r1 at refl]
    by (cases "filter_new_candles candles since = []") simp_all
qed

lemma tick_one_effect:
  fixes E :: "('e, 'b) engine_env"
  assumes q: "quasi R" "tick_reads_move R E" and inv: "store_inv (w_store W)"
    and run: "tick_one E stored now W = (r, W')"
  shows "store_inv (w_store W') \<and> tick_effect R E stored now W r W'"
  using run unfolding tick_one_def Let_def
proof (cases rule: and_then_cases [case_names stopped read])
  case (stopped e)
  show ?thesis
    using stopped(2) by (intro effect_idle [OF calm_rests [OF calm_reads(1) [OF q] stopped(1) inv]]) simp
next
  case (read found W1)
  note r1 = calm_rests [OF calm_reads(1) [OF q] read(1) inv, of stored]
  note row = read_settled_value [OF inv read(1), symmetric]
  show ?thesis
  proof (cases found)
    case None
    show ?thesis using read(2) unfolding None option.case
      by (rule acquired_effect [OF q r1]) (rule seed_effect [OF q], simp_all add: row None)
  next
    case prior: (Some prior)
    show ?thesis using read(2) unfolding prior option.case
    proof (rule acquired_effect [OF q r1])
      fix B W2 assume b: "serves E B" "rests R stored W W2"
      assume k: "(case ps_watermark prior of
          None \<Rightarrow> seeded (seed_first_tick (eb_live B) (sp_plan stored) (sp_account stored) (plan_state_expires_at now) now)
        | Some since \<Rightarrow> and_then (fetch_candles (eb_live B) (tp_instrument (sp_plan stored))
              (tp_granularity (sp_plan stored)) since now)
            (\<lambda>candles. if filter_new_candles candles since = [] then tick_controls_only E stored prior B candles now
              else bar_step E stored prior B since (filter_new_candles candles since) now)) W2 = (r, W')"
      show "store_inv (w_store W') \<and> tick_effect R E stored now W r W'"
      proof (cases "ps_watermark prior")
        case None
        then show ?thesis using k seed_effect [OF q b] row prior by simp
      next
        case (Some since)
        then show ?thesis using k bars_effect [OF q b _ Some] row prior by simp
      qed
    qed
  qed
qed

section \<open>Lives\<close>

definition ends_plan :: "string + 'e tick_bundle option \<Rightarrow> bool" where
  "ends_plan r \<longleftrightarrow> (case bundle_of r of Some b \<Rightarrow> pv_done (tb_eval b) | None \<Rightarrow> False)"

definition new_bundles :: "string + 'e tick_bundle option \<Rightarrow> 'e tick_bundle list" where
  "new_bundles r = (case bundle_of r of Some b \<Rightarrow> [b] | None \<Rightarrow> [])"

inductive cron_life ::
  "('e, 'b) engine_env \<Rightarrow> 'e intent stored_plan \<Rightarrow> ('e intent, 'b) world \<Rightarrow> 'e tick_bundle list \<Rightarrow> bool
    \<Rightarrow> ('e intent, 'b) world \<Rightarrow> bool"
  for E stored W
where
  start: "cron_life E stored W [] False W"
| tick: "cron_life E stored W bs False W1 \<Longrightarrow> tick_one E stored now W1 = (r, W2) \<Longrightarrow>
    cron_life E stored W (bs @ new_bundles r) (ends_plan r) W2"
| other: "cron_life E stored W bs finished W1 \<Longrightarrow> (store_inv (w_store W1) \<longrightarrow> store_inv (w_store W2)) \<Longrightarrow>
    state_row stored (w_store W2) = state_row stored (w_store W1) \<Longrightarrow> cron_life E stored W bs finished W2"

section \<open>What an evaluation leaves\<close>

lemma candle_step_watermark: "ps_watermark (fst (candle_step V R plan window now c s)) = Some (cn_time c)"
  by (auto simp: candle_step_def set_watermark_def Let_def split: prod.split)

lemma candle_loop_watermark:
  "cs \<noteq> [] \<Longrightarrow> ps_watermark (fst (candle_loop V R plan window now cs s)) \<noteq> None \<and>
     (ps_phase (fst (candle_loop V R plan window now cs s)) \<noteq> Done \<longrightarrow>
        ps_watermark (fst (candle_loop V R plan window now cs s)) = Some (cn_time (List.last cs)))"
proof (induction cs arbitrary: s)
  case (Cons c cs)
  then show ?case by (cases "cs = []") (auto simp: Let_def candle_step_watermark)
qed simp

lemma plan_watermark:
  fixes V R plan prior cs window now e
  defines "ev \<equiv> evaluate_plan V R plan prior cs window now e"
  assumes "cs \<noteq> []"
  shows "ps_watermark (pv_new_state ev) \<noteq> None"
    and "\<not> pv_done ev \<Longrightarrow> ps_watermark (pv_new_state ev) = Some (cn_time (List.last cs))"
  using candle_loop_watermark [OF assms(2), of V R plan window now "(prior\<lparr>ps_expires_at := e\<rparr>, [], [])"]
  by (auto simp: ev_def evaluate_plan_def split: prod.splits)

lemma controls_watermark:
  "ps_watermark (pv_new_state (evaluate_controls_only V plan prior c now e)) = ps_watermark prior"
proof -
  obtain st fired where e: "fold (control_step V plan c [c] now) (tp_rules plan) (prior\<lparr>ps_expires_at := e\<rparr>, []) = (st, fired)"
    by fastforce
  show ?thesis using control_fold_effect [OF e]
    by (simp add: evaluate_controls_only_def evaluate_controls_def e same_lifecycle_def)
qed

text \<open>An evaluation is a run of the machine from the state before it, its expiry renewed.\<close>

lemma evaluates_run:
  assumes "evaluates E stored prior fresh now ev"
  shows "engine_run (ee_venue E) (ee_rhai E) (sp_plan stored) any_bar
    (prior\<lparr>ps_expires_at := plan_state_expires_at now\<rparr>) (pv_fired ev) (pv_new_state ev)"
  using assms unfolding evaluates_def by (auto intro: run_mono [OF plan_run] run_mono [OF controls_run])

lemma sorted_last: "sorted (map f xs) \<Longrightarrow> c \<in> set xs \<Longrightarrow> f c \<le> f (List.last xs)"
  by (induction xs) auto

lemma evaluates_watermark:
  assumes "evaluates E stored prior fresh now ev"
  obtains since where "ps_watermark prior = Some since" "\<And>c. c \<in> set fresh \<Longrightarrow> since < cn_time c"
    "ps_watermark (pv_new_state ev) \<noteq> None"
    "\<not> pv_done ev \<Longrightarrow> \<exists>w. ps_watermark (pv_new_state ev) = Some w \<and> since \<le> w \<and> (\<forall>c\<in>set fresh. cn_time c \<le> w)"
proof -
  obtain since where s: "ps_watermark prior = Some since" using assms unfolding evaluates_def by blast
  from assms consider
    (bars) candles window where "fresh \<noteq> []" "fresh = filter_new_candles candles since"
      "ev = evaluate_plan (ee_venue E) (ee_rhai E) (sp_plan stored) prior fresh window now (plan_state_expires_at now)"
  | (clock) c where "fresh = []" "ev = evaluate_controls_only (ee_venue E) (sp_plan stored) prior c now (plan_state_expires_at now)"
    using s unfolding evaluates_def by auto
  then show ?thesis
  proof cases
    case bars
    have l: "cn_time c \<le> cn_time (List.last fresh)" if "c \<in> set fresh" for c
      using that by (intro sorted_last) (simp_all add: bars(2) filter_new_candles_def)
    have f: "since < cn_time c" if "c \<in> set fresh" for c using that by (auto simp: bars(2) filter_new_candles_def)
    have w: "ps_watermark (pv_new_state ev) \<noteq> None"
      "\<not> pv_done ev \<Longrightarrow> ps_watermark (pv_new_state ev) = Some (cn_time (List.last fresh))"
      using plan_watermark [OF bars(1)] unfolding bars(3) by blast+
    have "since \<le> cn_time (List.last fresh)" using f [OF last_in_set [OF bars(1)]] by simp
    then show ?thesis using l w(2) by (intro that [OF s f w(1)]) simp_all
  next
    case clock
    then show ?thesis by (intro that [OF s]) (simp_all add: s controls_watermark)
  qed
qed

lemma evaluates_latched:
  assumes "evaluates E stored prior fresh now ev"
    and "distinct (map cr_rule_id (tp_rules (sp_plan stored)))" "r \<in> set (tp_rules (sp_plan stored))" "latched r"
      "cr_rule_id r \<notin> set alignment_ids"
  shows "ps_watermark (pv_new_state ev) \<noteq> None" "ps_fired prior \<subseteq> ps_fired (pv_new_state ev)"
    and "fires_of (cr_rule_id r) (pv_fired ev) = 0 \<or> fires_of (cr_rule_id r) (pv_fired ev) = 1 \<and>
      cr_rule_id r \<notin> ps_fired prior \<and> cr_rule_id r \<in> ps_fired (pv_new_state ev)"
  using latched_run [OF evaluates_run [OF assms(1)] assms(2-5)] evaluates_watermark [OF assms(1)] by auto

lemma same_ids_count:
  "map do_rule_id os = map fi_rule_id fs \<Longrightarrow> length (filter (\<lambda>q. do_rule_id q = x) os) = fires_of x fs"
  using length_filter_map [of "\<lambda>y. y = x" do_rule_id os] length_filter_map [of "\<lambda>y. y = x" fi_rule_id fs]
  by (simp add: comp_def)

lemma dispatched_ids:
  assumes "dispatch_all E L fired g now W = (os, W')"
  shows "map do_rule_id os = map fi_rule_id fired"
proof -
  have "map do_rule_id (fst (pfor (\<lambda>(seq, f) outcomes.
      pbind (dispatch_fired E L f g now) (\<lambda>outcome.
      preturn (outcomes @ [\<lparr>do_rule_id = fi_rule_id f, do_intent_id = i_id (fi_intent f),
        do_outcome = outcome, do_seq = seq\<rparr>]))) (enumerate n fired) os0 V))
    = map do_rule_id os0 @ map fi_rule_id fired" for n os0 V
    by (induction fired arbitrary: n os0 V) simp_all
  from this [of 0 "[]" W] show ?thesis using assms by (simp add: dispatch_all_def)
qed

section \<open>Invariants of lives\<close>

lemma cron_life_invariant:
  assumes life: "cron_life E stored W bs finished W'" and inv: "store_inv (w_store W)"
    and start: "I [] (state_row stored (w_store W)) False"
    and seeding: "\<And>bs row cs e. I bs row False \<Longrightarrow> row = None \<or> (\<exists>p. row = Some p \<and> ps_watermark p = None) \<Longrightarrow>
      I bs (Some (seed_plan_state (sp_plan stored) cs e)) False"
    and unnoted: "\<And>bs prior fresh now ev. I bs (Some prior) False \<Longrightarrow> evaluates E stored prior fresh now ev \<Longrightarrow>
      \<not> pv_done ev \<Longrightarrow> I bs (Some (pv_new_state ev)) False"
    and noted: "\<And>bs prior fresh now ev os b row. I bs (Some prior) False \<Longrightarrow> evaluates E stored prior fresh now ev \<Longrightarrow>
      reports stored prior fresh ev os b \<Longrightarrow> os = [] \<or> map do_rule_id os = map fi_rule_id (pv_fired ev) \<Longrightarrow>
      (\<not> pv_done ev \<Longrightarrow> row = Some (pv_new_state ev)) \<Longrightarrow> I (bs @ [b]) row (pv_done ev)"
  shows "store_inv (w_store W') \<and> I bs (state_row stored (w_store W')) finished"
  using life
proof induction
  case start
  then show ?case using inv assms(3) by simp
next
  case (tick bs W1 now r W2)
  have q: "quasi (\<lambda>_ _. True)" "tick_reads_move (\<lambda>_ _. True) E"
    by (simp_all add: quasi_def reflp_def transp_def tick_reads_move_def op_moves_def)
  have i: "store_inv (w_store W1)" and I: "I bs (state_row stored (w_store W1)) False" using tick.IH by auto
  note eff = tick_one_effect [OF q i tick.hyps(2)]
  have "I (bs @ new_bundles r) (state_row stored (w_store W2)) (ends_plan r)"
    using conjunct2 [OF eff]
  proof cases
    case idle
    then show ?thesis using I by (simp add: new_bundles_def ends_plan_def)
  next
    case (seeding cs)
    then show ?thesis using assms(4) [OF I] by (simp add: new_bundles_def ends_plan_def)
  next
    case (stored prior fresh ev)
    show ?thesis
    proof (cases "bundle_of r")
      case None
      then show ?thesis using unnoted [of bs prior fresh now ev] I stored
        by (auto simp: new_bundles_def ends_plan_def)
    next
      case (Some b)
      then show ?thesis using noted [of bs prior fresh now ev "[]" b "state_row stored (w_store W2)"] I stored
        by (auto simp: new_bundles_def ends_plan_def reports_def)
    qed
  next
    case (dispatched prior fresh ev V B os V2 b)
    then show ?thesis
      using noted [of bs prior fresh now ev os b "state_row stored (w_store W2)"] I dispatched_ids
      by (fastforce simp: new_bundles_def ends_plan_def reports_def)
  qed
  then show ?case using eff by simp
next
  case (other bs finished W1 W2)
  then show ?case by simp
qed

end
