(* ===== verification/Tick_Properties.thy ===== *)
theory Tick_Properties
  imports Tick_Life Plan_Properties Core_Enter_Example
begin

text \<open>
  The properties of the engine tick and of the closing requests, with witnesses on a plan that
  closes the position at a fixed time. The feed of the example always serves one bar; the number
  beside the store counts the requests to close.
\<close>

definition bell_bar :: candle where
  "bell_bar = \<lparr>cn_time = 1, cn_o = Fin 1, cn_h = Fin 1, cn_l = Fin 1, cn_c = Fin 1\<rparr>"

definition bell_rule :: "unit rule" where
  "bell_rule = (chart_rule ''bell'' (TimeReached 5) Close)\<lparr>cr_kind := Control\<rparr>"

definition bell_plan :: "unit plan" where
  "bell_plan = chart_plan\<lparr>tp_rules := [bell_rule]\<rparr>"

definition bell_stored :: "unit intent stored_plan" where
  "bell_stored = \<lparr>sp_account = None, sp_plan = bell_plan\<rparr>"

definition bell_platform :: "unit intent platform" where
  "bell_platform = \<lparr>pf_chrono = unary_chrono, pf_rhai = no_script, pf_venue = ex_venue, pf_yaml = \<lambda>_. None\<rparr>"

definition bell_live :: "(unit intent, nat) live_broker" where
  "bell_live = \<lparr>lb_desk = \<lparr>dk_platform = bell_platform, dk_broker = idle_broker,
       dk_list_pending = \<lambda>_ b. (Inr [], b), dk_attempt_state = \<lambda>_ _ _ b. (Inr Pending, b),
       dk_config = \<lambda>_. en_cfg ex_call, dk_source = \<lambda>_ _ _. Unrecoverable\<rparr>,
     lb_amend_stop = \<lambda>_ _ _ b. (Inr (), b), lb_current_price = \<lambda>_ b. (Inr (Fin 1), b),
     lb_candles = \<lambda>_ _ _ _ b. (Inr [bell_bar], b),
     lb_close_positions = \<lambda>_ b. (ClosedPositions 1, b + 1), lb_close_exact = None\<rparr>"

definition bell_env :: "(unit, nat) engine_env" where
  "bell_env = \<lparr>ee_platform = bell_platform,
     ee_acquire = \<lambda>_ b. (Inr \<lparr>eb_live = bell_live, eb_settlement = \<lambda>_ _ _ _ b. (Inl Transient, b)\<rparr>, b),
     ee_config = \<lambda>_ b. (en_cfg ex_call, b), ee_signed_body = \<lambda>_. None, ee_record_tick = \<lambda>_ b. b,
     ee_note = \<lambda>_ b. b, ee_paper_entry = \<lambda>_ _ b. (Inr (), b), ee_health = \<lambda>_ b. b\<rparr>"

definition bell_state :: plan_state where
  "bell_state = (seed AwaitEntry 0)\<lparr>ps_watermark := Some 0\<rparr>"

definition bell_start :: "(unit intent, nat) world" where
  "bell_start = \<lparr>w_store = snd (put_plan_state None ''t1'' bell_state (empty_store 0)), w_faults = [], w_broker = 0\<rparr>"


lemma bell_fields [simp]:
  "sp_account bell_stored = None" "sp_plan bell_stored = bell_plan" "tp_trade_id bell_plan = ''t1''"
  "tp_shadow bell_plan = False" "tp_rules bell_plan = [bell_rule]" "cr_rule_id bell_rule = ''bell''"
  "tp_instrument bell_plan = ''EUR_USD''" "tp_granularity bell_plan = H4" "w_broker bell_start = 0"
  "w_faults bell_start = []" "ps_watermark bell_state = Some 0" "ps_fired bell_state = {}"
  by (simp_all add: bell_stored_def bell_plan_def bell_rule_def chart_defs bell_start_def bell_state_def seed_def)

lemma bell_row [simp]: "state_row bell_stored (w_store bell_start) = Some bell_state"
  using state_put(1) [of "empty_store 0" bell_stored bell_state] by (simp add: bell_start_def)


lemma bell_kind [simp]:
  "is_control_rule bell_rule" "\<not> is_guard bell_rule" "\<not> is_enter_rule bell_rule" "\<not> is_break_and_close bell_rule"
  "\<not> is_retest bell_rule" "\<not> is_pullback bell_rule" "cr_trigger bell_rule = TimeReached 5"
  "i_action (cr_intent bell_rule) = Close" "i_news_id (cr_intent bell_rule) = Some ''cpi''"
  by (simp_all add: bell_rule_def chart_defs kind_defs)

lemma bell_conditions [simp]: "tp_entry_conditions bell_plan = bare_conditions"
  by (simp add: bell_plan_def chart_plan_def)

lemma bell_stamps [simp]:
  "alignment_control bell_plan st c w = None" "stamp_retrace V bell_plan c w st = st"
  "stamp_ma_touch V bell_plan c w st = st" "stamp_retest V bell_plan c w s = s" "stamp_pullback V bell_plan c w s = s"
  "\<not> is_multi_enter bell_plan" "trendline_anchor_warnings bell_plan w = []"
  by (simp_all add: alignment_control_def stamp_retrace_def stamp_ma_touch_def stamp_retest_def
      stamp_pullback_def is_multi_enter_def enter_rule_count_def trendline_anchor_warnings_def bare_conditions_def
      split: prod.split option.split)


text \<open>The tick at ten seconds rings the bell: the rule fires, its state is stored, and the close goes out.\<close>

definition bell_fire :: "unit fired_intent" where
  "bell_fire = fire bell_rule bell_bar None"

definition bell_after :: plan_state where
  "bell_after = bell_state\<lparr>ps_expires_at := plan_state_expires_at (seconds 10), ps_fired := {''bell''},
     ps_watermark := Some 1\<rparr>"

lemma bell_gates [simp]:
  "i_needs_golden (cr_intent bell_rule) = False" "i_needs_confirmed (cr_intent bell_rule) = False"
  "i_require_news_window (cr_intent bell_rule) = None" "i_require_price_in_ranges (cr_intent bell_rule) = None"
  "i_inside_window (cr_intent bell_rule) = []" "i_allow_close (cr_intent bell_rule) = None"
  "i_id (cr_intent bell_rule) = ''id1''"
  by (simp_all add: bell_rule_def chart_defs)

lemma bell_fire_simps [simp]: "fi_rule_id bell_fire = ''bell''" "fi_intent bell_fire = cr_intent bell_rule"
  by (simp_all add: bell_fire_def fire_def)

lemma bell_close:
  "run_close no_script bell_live (request_of bell_fire) W =
     (Completed (''closed ('' @ show_nat 1 @ '')''), W\<lparr>w_broker := w_broker W + 1\<rparr>)"
  by (simp add: run_close_def or_return_def news_gate_def price_gate_def request_of_def as_request_def
      windows_stage_def evaluate_close_gates_def allow_close_stage_def allow_close_of_def candle_quality_def
      close_answer_def bcall_def bell_live_def)




definition bell_broker :: "(unit intent, nat) engine_broker" where
  "bell_broker = \<lparr>eb_live = bell_live, eb_settlement = \<lambda>_ _ _ _ b. (Inl Transient, b)\<rparr>"

lemma bell_seam [simp]:
  "ee_acquire bell_env a b = (Inr bell_broker, b)" "eb_live bell_broker = bell_live"
  "lb_candles bell_live i g t u b = (Inr [bell_bar], b)" "ee_record_tick bell_env x = (\<lambda>b. b)"
  "ee_note bell_env y = (\<lambda>b. b)" "tell (\<lambda>b. b) W = ((), W)"
  by (simp_all add: bell_env_def bell_broker_def bell_live_def tell_def bcall_def)

lemma bell_window [simp]: "detector_window_for bell_live bell_plan [bell_bar] now V = (Inr [bell_bar], V)"
  by (simp add: detector_window_for_def pine_lookback_since_def has_ma_veto_def trendline_anchor_since_def
      earliest_trendline_anchor_epoch_def present_def smallest_def bare_conditions_def map_filter_simps
      ma_veto_history_bars_def rule_history_bars_def max_of_def)

lemma bell_fresh [simp]: "filter_new_candles [bell_bar] 0 = [bell_bar]"
  by (simp add: filter_new_candles_def bell_bar_def)



section \<open>The life of a plan\<close>





section \<open>Bars\<close>



section \<open>Trades\<close>



section \<open>Closing\<close>

definition wants_news :: "'d intent \<Rightarrow> bool" where
  "wants_news i \<longleftrightarrow> i_require_news_window i = Some True \<or> NewsWindow \<in> set (i_inside_window i)"

definition wants_price :: "'d intent \<Rightarrow> bool" where
  "wants_price i \<longleftrightarrow> i_require_price_in_ranges i \<noteq> None \<or> PriceWindow \<in> set (i_inside_window i)"

text \<open>A live news window of the trade; a price inside a band, the broker's in the deprecated form.\<close>

definition news_window_open :: "'d intent \<Rightarrow> 'd mem_store \<Rightarrow> bool" where
  "news_window_open i s \<longleftrightarrow> wants_news i \<and>
     (\<exists>t ws. i_trade_id i = Some t \<and> fst (list_news_windows_for_trade t s) = Inr ws \<and> ws \<noteq> [])"

definition price_in_band :: "('d, 'b) live_broker \<Rightarrow> 'd verified \<Rightarrow> 'b \<Rightarrow> bool" where
  "price_in_band L v b \<longleftrightarrow>
     (case i_require_price_in_ranges (v_intent v) of
        Some ranges \<Rightarrow> \<exists>p. fst (lb_current_price L (i_instrument (v_intent v)) b) = Inr p \<and>
          price_band_hit p ranges \<noteq> None
      | None \<Rightarrow> PriceWindow \<in> set (i_inside_window (v_intent v)) \<and>
          (\<exists>a. sh_band_anchor (v_shell v) = Some a \<and> price_band_hit a (i_sr_bands (v_intent v)) \<noteq> None))"

lemma news_gate_answers:
  assumes "fst (news_gate i W) = Inr q"
  shows "q = Passed \<Longrightarrow> news_window_open i (w_store W)" "q = NotSet \<longleftrightarrow> \<not> wants_news i"
  using assms
  by (auto simp: news_gate_def wants_news_def news_window_open_def and_then_run call_or_500_def split: if_splits option.splits sum.splits
      dest!: call_read [OF reads_intros(10)])

lemma news_gate_broker: "w_broker (snd (news_gate i W)) = w_broker W"
  by (auto simp: news_gate_def and_then_run call_or_500_def split: option.split sum.split)

lemma band_answers: "band_outcome p rs = Passed \<longleftrightarrow> price_band_hit p rs \<noteq> None" "band_outcome p rs \<noteq> NotSet"
  by (auto simp: band_outcome_def split: option.split)

lemma price_gate_answers:
  assumes "fst (price_gate L v W) = Inr q"
  shows "q = Passed \<Longrightarrow> price_in_band L v (w_broker W)" "q = NotSet \<longleftrightarrow> \<not> wants_price (v_intent v)"
  using assms
  by (auto simp: price_gate_def wants_price_def price_in_band_def bcall_def case_prod_beta band_answers Let_def
      split: if_splits option.splits sum.splits)

lemma or_return_run:
  "or_return m k W = (case fst (m W) of Inl a \<Rightarrow> (a, snd (m W)) | Inr x \<Rightarrow> k x (snd (m W)))"
  by (simp add: or_return_def split: sum.split)

text \<open>
  C21: a position is closed only past every gate of the request. When \<open>run_close\<close> moves the
  broker, the candle has the quality the request asks for, the operator's script said yes, and the
  windows pass: a live news window of the trade, or a price inside a band, or no window asked for.
\<close>

theorem closed_only_past_gates:
  assumes "quasi R" and "\<And>i. op_moves R (lb_current_price L i)"
    and "\<not> R (w_broker W) (w_broker (snd (run_close Rh L v W)))"
  shows "candle_quality (v_intent v) (v_shell v) = None \<and>
    (\<forall>gate. i_allow_close (v_intent v) = Some gate \<longrightarrow>
      resolve_tunable from_rhai_bool Rh (bind_shell_anchors (v_shell v)) gate = Inr True) \<and>
    (news_window_open (v_intent v) (w_store W) \<or> price_in_band L v (w_broker W) \<or>
      \<not> wants_news (v_intent v) \<and> \<not> wants_price (v_intent v))"
proof -
  define W1 where "W1 = snd (news_gate (v_intent v) W)"
  have b1: "w_broker W1 = w_broker W" by (simp add: W1_def news_gate_broker)
  have b2: "R (w_broker W) (w_broker (snd (price_gate L v W1)))"
    using assms(1,2) b1 quasi_refl [OF assms(1)]
    by (auto simp: price_gate_def bcall_def case_prod_beta op_moves_def Let_def split: option.split)
  obtain news where n: "fst (news_gate (v_intent v) W) = Inr news"
    using assms(3) quasi_refl [OF assms(1)] b1 W1_def
    by (cases "fst (news_gate (v_intent v) W)") (auto simp: run_close_def or_return_run)
  obtain price where p: "fst (price_gate L v W1) = Inr price"
    using assms(3) b2 n by (cases "fst (price_gate L v W1)") (auto simp: run_close_def or_return_run W1_def)
  have w: "windows_stage news price = Inr ()"
    using assms(3) b2 n p by (cases "windows_stage news price") (auto simp: run_close_def or_return_run W1_def)
  have a: "allow_close_stage Rh v = Inr ()"
    using assms(3) b2 n p w by (cases "allow_close_stage Rh v") (auto simp: run_close_def or_return_run W1_def)
  have "allow_close_of Rh (v_intent v) (v_shell v) = CloseProceed"
    using a by (simp add: allow_close_stage_def split: allow_close.splits)
  then have "candle_quality (v_intent v) (v_shell v) = None \<and> (\<forall>gate. i_allow_close (v_intent v) = Some gate \<longrightarrow>
      resolve_tunable from_rhai_bool Rh (bind_shell_anchors (v_shell v)) gate = Inr True)"
    by (auto simp: allow_close_of_def candle_quality_def split: if_splits option.splits sum.splits)
  moreover have "news = Passed \<or> price = Passed \<or> news = NotSet \<and> price = NotSet"
    using w by (auto simp: windows_stage_def evaluate_close_gates_def Let_def split: if_splits)
  ultimately show ?thesis
    using news_gate_answers [OF n] price_gate_answers [OF p] b1 by auto
qed

theorem closed_only_past_gates_witness:
  "w_broker (snd (run_close no_script bell_live (request_of bell_fire) bell_start)) = 1 \<and>
     candle_quality (v_intent (request_of bell_fire)) (v_shell (request_of bell_fire)) = None"
proof -
  have m: "w_broker (snd (run_close no_script bell_live (request_of bell_fire) bell_start)) = 1"
    by (simp add: bell_close)
  then show ?thesis
    using closed_only_past_gates [of "(=)" bell_live bell_start no_script "request_of bell_fire"]
    by (simp add: quasi_def reflp_def transp_def op_moves_def bell_live_def)
qed




section \<open>The detector's window\<close>








section \<open>A finish that is not stored\<close>

text \<open>
  C40: a finished plan whose rows cannot be dropped is reported as cleared. When the store refuses
  the calls, the tick still says its write succeeded and its plan is gone, so its intents are
  dispatched, while the plan and the state before this tick stay and are evaluated again.
\<close>

theorem refused_finish_reported_done:
  assumes "pv_done ev" and "w_faults W = replicate 4 Refused"
  shows "\<exists>kv W'. persist_plan_state B plan account ev now prior W = (kv, W') \<and> kv_success kv \<and>
    kv_cleared_plan kv \<and> w_store W' = w_store W"
proof -
  have f: "w_faults W = Refused # Refused # Refused # [Refused]" using assms(2) by (simp add: numeral_eq_Suc)
  show ?thesis
    using assms(1) f
    by (cases "tp_shadow plan") (simp_all add: persist_plan_state_def fetch_plan_settlement_def call_def transition_of_def)
qed

definition bell_done :: "unit plan_eval" where
  "bell_done = \<lparr>pv_fired = [bell_fire], pv_new_state = bell_state\<lparr>ps_phase := Done\<rparr>, pv_done = True, pv_warnings = [],
     pv_entry_declines = []\<rparr>"

theorem refused_finish_reported_done_witness:
  "\<exists>kv W'. persist_plan_state bell_broker bell_plan None bell_done 0 bell_state
       (bell_start\<lparr>w_faults := replicate 4 Refused\<rparr>) = (kv, W') \<and>
     kv_success kv \<and> kv_cleared_plan kv \<and> state_row bell_stored (w_store W') = Some bell_state"
  using refused_finish_reported_done [of bell_done "bell_start\<lparr>w_faults := replicate 4 Refused\<rparr>" bell_broker bell_plan
      None 0 bell_state]
  by (force simp: bell_done_def)

end
